(* ===== verification/Prelude.thy ===== *)
theory Prelude
  imports Main "HOL-Library.Word"
begin

text \<open>
  The vocabulary every component shares.

  \<^item> A thrown JavaScript exception is a value: \<open>error\<close> has one constructor per exception class the
    code raises, holding the constant text of the message. Labels and received values that the
    code interpolates into a message are left out, because no code path reads them back.
  \<^item> A fallible operation returns \<open>error + 'a\<close>; \<open>bindR\<close> sequences two operations and stops at
    the first exception, \<open>mapR\<close> is a loop that pushes one result per element and stops likewise.
  \<^item> A \<open>Uint8Array\<close> is a list of \<open>8 word\<close>.

  The collections \<open>codec_simps\<close> and \<open>codec_intros\<close> gather the equations and introduction
  rules of the byte codecs as the components declare them.
\<close>

named_theorems codec_simps \<open>equations of the byte-level codecs\<close>
named_theorems codec_intros \<open>introduction rules for successful codec runs\<close>

section \<open>Exceptions and fallible results\<close>

datatype error =
    Error string
  | RangeError string
  | TypeError string

type_synonym 'a res = "error + 'a"
type_synonym byte = "8 word"
type_synonym bytes = "byte list"

abbreviation throw :: "string \<Rightarrow> 'a res" where
  "throw msg \<equiv> Inl (Error msg)"

definition is_ok :: "'a res \<Rightarrow> bool" where
  "is_ok r = (case r of Inl _ \<Rightarrow> False | Inr _ \<Rightarrow> True)"

lemma is_ok_simps [simp]: "is_ok (Inr x)" "\<not> is_ok (Inl e)"
  by (simp_all add: is_ok_def)

lemma is_ok_iff: "is_ok r \<longleftrightarrow> (\<exists>x. r = Inr x)"
  by (cases r) auto

fun bindR :: "'a res \<Rightarrow> ('a \<Rightarrow> 'b res) \<Rightarrow> 'b res" where
  "bindR (Inl e) f = Inl e"
| "bindR (Inr x) f = f x"

lemma bindR_cong [fundef_cong]:
  "m = m' \<Longrightarrow> (\<And>x. m' = Inr x \<Longrightarrow> f x = f' x) \<Longrightarrow> bindR m f = bindR m' f'"
  by (cases m') auto

lemma bindR_eq_Inr [simp]: "bindR m f = Inr y \<longleftrightarrow> (\<exists>x. m = Inr x \<and> f x = Inr y)"
  by (cases m) auto

lemma bindR_eq_Inl: "bindR m f = Inl e \<longleftrightarrow> m = Inl e \<or> (\<exists>x. m = Inr x \<and> f x = Inl e)"
  by (cases m) auto

lemma bindR_assoc: "bindR (bindR m f) g = bindR m (\<lambda>x. bindR (f x) g)"
  by (cases m) auto

lemma bindR_Inr_id [simp]: "bindR m Inr = m"
  by (cases m) auto

fun mapR :: "('a \<Rightarrow> 'b res) \<Rightarrow> 'a list \<Rightarrow> 'b list res" where
  "mapR f [] = Inr []"
| "mapR f (x # xs) = bindR (f x) (\<lambda>y. bindR (mapR f xs) (\<lambda>ys. Inr (y # ys)))"

lemma mapR_cong [fundef_cong]:
  "xs = ys \<Longrightarrow> (\<And>x. x \<in> set ys \<Longrightarrow> f x = g x) \<Longrightarrow> mapR f xs = mapR g ys"
  by (induction ys arbitrary: xs) auto

lemma mapR_eq_Inr_iff: "mapR f xs = Inr ys \<longleftrightarrow> list_all2 (\<lambda>x y. f x = Inr y) xs ys"
  by (induction xs arbitrary: ys) (auto simp: list_all2_Cons1)

lemma mapR_length: "mapR f xs = Inr ys \<Longrightarrow> length ys = length xs"
  by (simp add: mapR_eq_Inr_iff list_all2_lengthD)

lemma mapR_pure [simp]: "mapR (\<lambda>x. Inr (f x)) xs = Inr (map f xs)"
  by (induction xs) auto

lemma mapR_all_ok: "(\<And>x. x \<in> set xs \<Longrightarrow> f x = Inr (g x)) \<Longrightarrow> mapR f xs = Inr (map g xs)"
  by (induction xs) auto

text \<open>Rules that show an operation cannot throw, branch by branch.\<close>

named_theorems ok_intros \<open>introduction rules for operations that cannot throw\<close>

lemma is_ok_if [ok_intros]: "(c \<Longrightarrow> is_ok x) \<Longrightarrow> (\<not> c \<Longrightarrow> is_ok y) \<Longrightarrow> is_ok (if c then x else y)"
  by simp

lemma is_ok_let [ok_intros]: "(\<And>v. v = a \<Longrightarrow> is_ok (f v)) \<Longrightarrow> is_ok (let v = a in f v)"
  by (simp add: Let_def)

lemma is_ok_bind [ok_intros]: "is_ok m \<Longrightarrow> (\<And>x. m = Inr x \<Longrightarrow> is_ok (f x)) \<Longrightarrow> is_ok (bindR m f)"
  by (cases m) simp_all

lemma is_ok_Inr [ok_intros]: "is_ok (Inr x)"
  by simp

text \<open>A loop that threads a state and may throw.\<close>

fun foldR :: "('a \<Rightarrow> 's \<Rightarrow> 's res) \<Rightarrow> 'a list \<Rightarrow> 's \<Rightarrow> 's res" where
  "foldR f [] s = Inr s"
| "foldR f (x # xs) s = bindR (f x s) (foldR f xs)"

lemma foldR_append: "foldR f (xs @ ys) s = bindR (foldR f xs s) (foldR f ys)"
proof (induction xs arbitrary: s)
  case (Cons x xs)
  then show ?case by (cases "f x s") auto
qed simp

lemma foldR_invariant:
  assumes "foldR f xs s = Inr t" and "P s"
    and "\<And>x s t. x \<in> set xs \<Longrightarrow> P s \<Longrightarrow> f x s = Inr t \<Longrightarrow> P t"
  shows "P t"
  using assms by (induction xs arbitrary: s) auto

section \<open>Bytes and lists\<close>

lemma unat_byte_less [simp]: "unat (b :: byte) < 256"
  using unsigned_less [of b] by simp

lemma list_all2_map_self: "(\<And>x. x \<in> set xs \<Longrightarrow> R x (f x)) \<Longrightarrow> list_all2 R xs (map f xs)"
  by (induction xs) auto

lemma take_drop_consume: "n \<le> length xs \<Longrightarrow> drop k (take n xs) @ drop n xs = drop k xs" if "k \<le> n"
  using that by (metis append_take_drop_id drop_append diff_is_0_eq drop_0 length_take min.absorb2)

lemma map_of_zip_distinct:
  "length ks = length vs \<Longrightarrow> distinct ks \<Longrightarrow> i < length ks \<Longrightarrow> map_of (zip ks vs) (ks ! i) = Some (vs ! i)"
  by (simp add: map_of_zip_nth)

section \<open>Byte arrays\<close>

text \<open>
  \<open>target.set(part, offset)\<close> on a \<open>Uint8Array\<close>, and the \<open>concatenate\<close> helper that several files
  declare: allocate the total length, then copy each part to its offset.
\<close>

definition array_set :: "'a list \<Rightarrow> 'a list \<Rightarrow> nat \<Rightarrow> 'a list" where
  "array_set arr part off = take off arr @ part @ drop (off + length part) arr"

fun concat_loop :: "bytes \<Rightarrow> nat \<Rightarrow> bytes list \<Rightarrow> bytes" where
  "concat_loop arr off [] = arr"
| "concat_loop arr off (p # ps) = concat_loop (array_set arr p off) (off + length p) ps"

definition concatenateBytes :: "bytes list \<Rightarrow> bytes" where
  "concatenateBytes parts = concat_loop (replicate (sum_list (map length parts)) 0) 0 parts"

lemma concat_loop_fill:
  "length rest = sum_list (map length ps) \<Longrightarrow> concat_loop (pre @ rest) (length pre) ps = pre @ concat ps"
proof (induction ps arbitrary: pre rest)
  case (Cons p ps)
  have "concat_loop ((pre @ p) @ drop (length p) rest) (length (pre @ p)) ps
      = (pre @ p) @ concat ps"
    using Cons.prems by (intro Cons.IH) simp
  then show ?case by (simp add: array_set_def)
qed simp

lemma concatenateBytes [simp]: "concatenateBytes parts = concat parts"
  using concat_loop_fill [of "replicate (sum_list (map length parts)) 0" parts "[]"]
  by (simp add: concatenateBytes_def)

section \<open>The interface of a codec\<close>

text \<open>
  What a client of a text or byte format relies on: decoding an encoding of a valid value returns
  the value, and a successful decoding is of the encoding of a valid value. Clients use the
  consequences below: encodings are unambiguous, and decoding then encoding again is the identity.
\<close>

locale canonical_codec =
  fixes valid :: "'a \<Rightarrow> bool" and enc :: "'a \<Rightarrow> 'b" and dec :: "'b \<Rightarrow> 'a res"
  assumes dec_enc: "valid x \<Longrightarrow> dec (enc x) = Inr x"
    and enc_dec: "dec b = Inr x \<Longrightarrow> valid x \<and> enc x = b"
begin

lemma enc_inj: "valid x \<Longrightarrow> valid y \<Longrightarrow> enc x = enc y \<longleftrightarrow> x = y"
  using dec_enc by (metis Inr_inject)

lemma dec_inj: "dec b = Inr x \<Longrightarrow> dec c = Inr x \<Longrightarrow> b = c"
  using enc_dec by metis

lemma reencode: "bindR (dec b) (\<lambda>x. Inr (enc x)) = Inr c \<longleftrightarrow> b = c \<and> is_ok (dec b)"
  using enc_dec by (cases "dec b") auto

lemma dec_ok_iff: "is_ok (dec b) \<longleftrightarrow> (\<exists>x. valid x \<and> b = enc x)"
  using dec_enc enc_dec by (metis is_ok_iff)

end

end
