(* ===== verification/Positional.thy ===== *)
theory Positional
  imports Prelude
begin

text \<open>
  Positional numerals, least significant digit first. \<open>digits_value b\<close> reads a digit list in
  base \<open>b\<close>; a list is canonical when its digits are below the base and its most significant
  digit is not zero. The byte codecs (little-endian integers) and the base58 codec (base 58 against
  base 256) both rest on the uniqueness of these representations.
\<close>

section \<open>Values and uniqueness\<close>

fun digits_value :: "nat \<Rightarrow> nat list \<Rightarrow> nat" where
  "digits_value b [] = 0"
| "digits_value b (d # ds) = d + b * digits_value b ds"

definition all_below :: "nat \<Rightarrow> nat list \<Rightarrow> bool" where
  "all_below b ds \<longleftrightarrow> list_all (\<lambda>d. d < b) ds"

definition no_leading_zero :: "nat list \<Rightarrow> bool" where
  "no_leading_zero ds \<longleftrightarrow> ds = [] \<or> last ds \<noteq> 0"

lemma all_below_simps [simp]:
  "all_below b []" "all_below b (d # ds) \<longleftrightarrow> d < b \<and> all_below b ds"
  "all_below b (xs @ ys) \<longleftrightarrow> all_below b xs \<and> all_below b ys"
  by (simp_all add: all_below_def)

lemma digits_value_append:
  "digits_value b (xs @ ys) = digits_value b xs + b ^ length xs * digits_value b ys"
  by (induction xs) (simp_all add: algebra_simps)

lemma digits_value_zeros [simp]: "digits_value b (replicate n 0) = 0"
  by (induction n) simp_all

lemma digits_value_less: "all_below b ds \<Longrightarrow> digits_value b ds < b ^ length ds"
proof (induction ds)
  case (Cons d ds)
  then have "digits_value b ds + 1 \<le> b ^ length ds" and "d < b" by simp_all
  then have "d + b * digits_value b ds < b * (digits_value b ds + 1)" by simp
  also have "\<dots> \<le> b * b ^ length ds"
    using \<open>digits_value b ds + 1 \<le> b ^ length ds\<close> by (rule mult_le_mono2)
  finally show ?case by simp
qed simp

lemma digits_value_inj_length:
  "length xs = length ys \<Longrightarrow> all_below b xs \<Longrightarrow> all_below b ys \<Longrightarrow>
   digits_value b xs = digits_value b ys \<Longrightarrow> xs = ys"
proof (induction xs ys rule: list_induct2)
  case (Cons x xs y ys)
  then have b: "x < b" "y < b" and eq: "x + b * digits_value b xs = y + b * digits_value b ys"
    by simp_all
  from b have "x = (x + b * digits_value b xs) mod b" "y = (y + b * digits_value b ys) mod b"
    by simp_all
  with eq have "x = y" by simp
  with eq b have "digits_value b xs = digits_value b ys" by simp
  with Cons \<open>x = y\<close> show ?case by simp
qed simp

lemma digits_value_ge: "ds \<noteq> [] \<Longrightarrow> last ds \<noteq> 0 \<Longrightarrow> b ^ (length ds - 1) \<le> digits_value b ds"
proof (induction ds)
  case (Cons d ds)
  show ?case
  proof (cases "ds = []")
    case False
    with Cons have "b * b ^ (length ds - 1) \<le> b * digits_value b ds"
      by (intro mult_le_mono2) simp
    moreover from False have "b ^ length ds = b * b ^ (length ds - 1)" by (cases ds) simp_all
    ultimately have "b ^ length ds \<le> b * digits_value b ds" by (simp only:)
    then show ?thesis by (simp add: trans_le_add2)
  qed (use Cons in auto)
qed simp

lemma canonical_same_length:
  assumes "1 < b" and "all_below b xs" "no_leading_zero xs" and "all_below b ys" "no_leading_zero ys"
    and "digits_value b xs = digits_value b ys"
  shows "length xs \<le> length ys"
proof (cases "xs = []")
  case False
  with assms have "b ^ (length xs - 1) \<le> digits_value b ys"
    using digits_value_ge [of xs b] by (simp add: no_leading_zero_def)
  also have "\<dots> < b ^ length ys" using assms by (simp add: digits_value_less)
  finally have "length xs - 1 < length ys"
    using assms(1) by (simp add: power_strict_increasing_iff)
  with False show ?thesis by (cases xs) auto
qed simp

lemma canonical_unique:
  assumes "1 < b" and "all_below b xs" "no_leading_zero xs" and "all_below b ys" "no_leading_zero ys"
    and "digits_value b xs = digits_value b ys"
  shows "xs = ys"
  using assms canonical_same_length [of b xs ys] canonical_same_length [of b ys xs]
  by (intro digits_value_inj_length) (auto simp: le_antisym)

section \<open>Least significant digit first, to a fixed length\<close>

text \<open>The loop that masks the low digit and shifts, \<open>n\<close> times.\<close>

fun low_digits :: "nat \<Rightarrow> nat \<Rightarrow> nat \<Rightarrow> nat list" where
  "low_digits b 0 v = []"
| "low_digits b (Suc n) v = v mod b # low_digits b n (v div b)"

lemma low_digits_numeral: "low_digits b (numeral k) v = v mod b # low_digits b (pred_numeral k) (v div b)"
  by (simp add: numeral_eq_Suc)

lemma low_digits_length [simp]: "length (low_digits b n v) = n"
  by (induction n arbitrary: v) simp_all

lemma low_digits_below: "0 < b \<Longrightarrow> all_below b (low_digits b n v)"
  by (induction n arbitrary: v) simp_all

lemma digits_value_low_digits: "digits_value b (low_digits b n v) = v mod b ^ n"
proof (induction n arbitrary: v)
  case (Suc n)
  then show ?case by (simp add: mod_mult2_eq)
qed simp

lemma low_digits_digits_value:
  "all_below b ds \<Longrightarrow> low_digits b (length ds) (digits_value b ds) = ds"
proof (induction ds)
  case (Cons d ds)
  then have "0 < b" by (cases b) auto
  with Cons show ?case by simp
qed simp

section \<open>Carry loops\<close>

text \<open>
  The while loop that appends the remaining carry, and the inner loop of a base conversion: every
  digit is multiplied by \<open>m\<close> and the running carry added to it, keeping the digit in base \<open>b\<close> and
  passing the quotient on.
\<close>

function push_carry :: "nat \<Rightarrow> nat \<Rightarrow> nat list" where
  "push_carry b c = (if c = 0 \<or> b \<le> 1 then [] else c mod b # push_carry b (c div b))"
  by pat_completeness auto
termination
  by (relation "measure snd") auto

declare push_carry.simps [simp del]

lemma push_carry_0 [simp]: "push_carry b 0 = []"
  by (simp add: push_carry.simps)

fun carry_loop :: "nat \<Rightarrow> nat \<Rightarrow> nat list \<Rightarrow> nat \<Rightarrow> nat list" where
  "carry_loop b m [] c = push_carry b c"
| "carry_loop b m (d # ds) c = (c + d * m) mod b # carry_loop b m ds ((c + d * m) div b)"

lemma push_carry_value: "1 < b \<Longrightarrow> digits_value b (push_carry b c) = c"
proof (induction b c rule: push_carry.induct)
  case (1 b c)
  then show ?case by (simp add: push_carry.simps [of b c])
qed

lemma push_carry_below: "1 < b \<Longrightarrow> all_below b (push_carry b c)"
proof (induction b c rule: push_carry.induct)
  case (1 b c)
  then show ?case by (simp add: push_carry.simps [of b c])
qed

lemma push_carry_last: "1 < b \<Longrightarrow> c \<noteq> 0 \<Longrightarrow> push_carry b c \<noteq> [] \<and> last (push_carry b c) \<noteq> 0"
proof (induction b c rule: push_carry.induct)
  case (1 b c)
  show ?case
  proof (cases "c div b = 0")
    case True
    with 1 show ?thesis by (simp add: push_carry.simps [of b c] div_eq_0_iff)
  next
    case False
    with 1 show ?thesis by (simp add: push_carry.simps [of b c])
  qed
qed

lemma carry_loop_value: "1 < b \<Longrightarrow> digits_value b (carry_loop b m ds c) = c + m * digits_value b ds"
proof (induction ds arbitrary: c)
  case (Cons d ds)
  then have "digits_value b (carry_loop b m (d # ds) c)
      = (c + d * m) mod b + b * ((c + d * m) div b) + b * (m * digits_value b ds)"
    by (simp add: algebra_simps)
  also have "\<dots> = c + d * m + b * (m * digits_value b ds)" by simp
  finally show ?case by (simp add: algebra_simps)
qed (simp add: push_carry_value)

lemma carry_loop_below: "1 < b \<Longrightarrow> all_below b (carry_loop b m ds c)"
  by (induction ds arbitrary: c) (simp_all add: push_carry_below)

lemma carry_loop_length: "length ds \<le> length (carry_loop b m ds c)"
  by (induction ds arbitrary: c) simp_all

text \<open>
  A nonzero most significant digit stays: the multiplier is positive, so the top digit times \<open>m\<close>
  either leaves a nonzero digit behind or a nonzero carry that is appended.
\<close>

lemma carry_loop_canonical:
  assumes "1 < b" "0 < m" "ds \<noteq> []" "last ds \<noteq> 0"
  shows "last (carry_loop b m ds c) \<noteq> 0"
  using assms(3,4)
proof (induction ds arbitrary: c)
  case (Cons d ds)
  show ?case
  proof (cases ds)
    case Nil
    show ?thesis
    proof (cases "(c + d * m) div b = 0")
      case True
      with Nil Cons assms show ?thesis by (simp add: div_eq_0_iff)
    next
      case False
      with Nil assms push_carry_last [of b "(c + d * m) div b"] show ?thesis by simp
    qed
  next
    case (Cons d' ds')
    with Cons.prems Cons.IH [of "(c + d * m) div b"] show ?thesis by simp
  qed
qed simp

text \<open>The carry stays small, so 32-bit shifts and masks on it agree with division and remainder.\<close>

fun carry_bound :: "nat \<Rightarrow> nat \<Rightarrow> nat list \<Rightarrow> nat \<Rightarrow> nat list" where
  "carry_bound b m [] c = [c]"
| "carry_bound b m (d # ds) c = (c + d * m) # carry_bound b m ds ((c + d * m) div b)"

lemma carry_bound_le:
  assumes "0 < b" "all_below b ds" "c < m"
  shows "\<forall>v \<in> set (carry_bound b m ds c). v < b * m"
  using assms(2,3)
proof (induction ds arbitrary: c)
  case Nil
  have "1 * m \<le> b * m" using assms(1) by (intro mult_le_mono1) simp
  with Nil show ?case by (auto intro: less_le_trans)
next
  case (Cons d ds)
  then have "d + 1 \<le> b" by simp
  have "c + d * m < m + d * m" using Cons.prems by simp
  also have "\<dots> = (d + 1) * m" by simp
  also have "\<dots> \<le> b * m" using \<open>d + 1 \<le> b\<close> by (rule mult_le_mono1)
  finally have lt: "c + d * m < b * m" .
  then have "(c + d * m) div b < m" by (simp add: less_mult_imp_div_less mult.commute)
  with Cons lt show ?case by simp
qed

section \<open>Base conversion\<close>

text \<open>
  One conversion loop, most significant digit of the input first. It computes the representation
  in base \<open>b\<close> of a number given in base \<open>m\<close>, and converting back returns the input.
\<close>

definition convert :: "nat \<Rightarrow> nat \<Rightarrow> nat list \<Rightarrow> nat list" where
  "convert b m xs = foldl (carry_loop b m) [0] xs"

lemma foldl_carry_value:
  "1 < b \<Longrightarrow> digits_value b (foldl (carry_loop b m) ds xs)
     = digits_value b ds * m ^ length xs + digits_value m (rev xs)"
  by (induction xs arbitrary: ds) (simp_all add: carry_loop_value digits_value_append algebra_simps)

lemma convert_value: "1 < b \<Longrightarrow> digits_value b (convert b m xs) = digits_value m (rev xs)"
  by (simp add: convert_def foldl_carry_value)

lemma foldl_carry_below: "1 < b \<Longrightarrow> all_below b ds \<Longrightarrow> all_below b (foldl (carry_loop b m) ds xs)"
  by (induction xs arbitrary: ds) (simp_all add: carry_loop_below)

lemma convert_below: "1 < b \<Longrightarrow> all_below b (convert b m xs)"
  by (simp add: convert_def foldl_carry_below)

lemma foldl_carry_canonical:
  "1 < b \<Longrightarrow> 0 < m \<Longrightarrow> ds \<noteq> [] \<Longrightarrow> last ds \<noteq> 0 \<Longrightarrow>
   foldl (carry_loop b m) ds xs \<noteq> [] \<and> last (foldl (carry_loop b m) ds xs) \<noteq> 0"
proof (induction xs arbitrary: ds)
  case (Cons x xs)
  have "carry_loop b m ds x \<noteq> []" using Cons.prems(3) by (cases ds) simp_all
  with Cons carry_loop_canonical [of b m ds x] show ?case by simp
qed simp

lemma convert_canonical:
  assumes "1 < b" "0 < m" "xs \<noteq> []" "hd xs \<noteq> 0"
  shows "convert b m xs \<noteq> [] \<and> last (convert b m xs) \<noteq> 0"
proof -
  obtain x ys where xs: "xs = x # ys" and x: "x \<noteq> 0" using assms(3,4) by (cases xs) auto
  have "carry_loop b m [0] x \<noteq> [] \<and> last (carry_loop b m [0] x) \<noteq> 0"
  proof (cases "x div b = 0")
    case True
    with x assms(1) show ?thesis by (simp add: div_eq_0_iff)
  next
    case False
    with push_carry_last [of b "x div b"] assms(1) show ?thesis by simp
  qed
  with foldl_carry_canonical [of b m "carry_loop b m [0] x" ys] assms(1,2) xs
  show ?thesis by (simp add: convert_def)
qed

lemma convert_convert:
  assumes "1 < b" "1 < m" "xs \<noteq> []" "hd xs \<noteq> 0" "all_below m xs"
  shows "convert m b (rev (convert b m xs)) = rev xs"
proof (rule canonical_unique [OF assms(2)])
  let ?ds = "convert b m xs"
  have ds: "?ds \<noteq> []" "last ?ds \<noteq> 0" using convert_canonical [of b m xs] assms by simp_all
  then have "rev ?ds \<noteq> []" "hd (rev ?ds) \<noteq> 0" by (simp_all add: hd_rev)
  then show "no_leading_zero (convert m b (rev ?ds))"
    using convert_canonical [of m b "rev ?ds"] assms by (simp add: no_leading_zero_def)
  show "all_below m (convert m b (rev ?ds))" using assms(2) by (rule convert_below)
  show "all_below m (rev xs)" using assms(5) by (simp add: all_below_def)
  show "no_leading_zero (rev xs)" using assms(3,4) by (simp add: no_leading_zero_def last_rev)
  show "digits_value m (convert m b (rev ?ds)) = digits_value m (rev xs)"
    using assms(1,2) by (simp add: convert_value)
qed

end
