(* ===== verification/Base58Codec.thy ===== *)
theory Base58Codec
  imports Positional
begin

text \<open>
  \<open>typescript/src/Base58Codec.ts\<close>: base58 text to bytes and back, and the 32-byte public keys that
  every other component exchanges as base58 strings. The two conversion loops are the source's:
  a little-endian digit array is multiplied by the source base and a digit added, carrying upwards.
  The carries stay below \<open>2 ^ 31\<close> (\<open>base58_carries_fit\<close>), so the source's \<open>&\<close> and \<open>>>=\<close>
  on 32-bit integers are the \<open>mod\<close> and \<open>div\<close> of the model.
\<close>

section \<open>The alphabet\<close>

definition BASE58_ALPHABET :: string where
  "BASE58_ALPHABET = ''123456789ABCDEFGHJKLMNPQRSTUVWXYZabcdefghijkmnopqrstuvwxyz''"

text \<open>The first index of a character in a list, the value -1 of \<open>BASE58_INDEXES\<close> as \<open>None\<close>.\<close>

fun index_of :: "char list \<Rightarrow> char \<Rightarrow> nat option" where
  "index_of [] c = None"
| "index_of (x # xs) c = (if x = c then Some 0 else map_option Suc (index_of xs c))"

definition base58_index :: "char \<Rightarrow> nat option" where
  "base58_index c = index_of BASE58_ALPHABET c"

definition base58_char :: "nat \<Rightarrow> char" where
  "base58_char d = BASE58_ALPHABET ! d"

lemma index_of_Some: "index_of xs c = Some i \<Longrightarrow> i < length xs \<and> xs ! i = c"
  by (induction xs arbitrary: i) (auto split: if_splits)

lemma index_of_nth: "distinct xs \<Longrightarrow> i < length xs \<Longrightarrow> index_of xs (xs ! i) = Some i"
  by (induction xs arbitrary: i) (auto simp: nth_Cons split: nat.splits)

lemma length_alphabet [simp]: "length BASE58_ALPHABET = 58"
  by (simp add: BASE58_ALPHABET_def)

lemma distinct_alphabet: "distinct BASE58_ALPHABET"
  by (simp add: BASE58_ALPHABET_def)

lemma base58_index_char [simp]: "d < 58 \<Longrightarrow> base58_index (base58_char d) = Some d"
  by (simp add: base58_index_def base58_char_def index_of_nth distinct_alphabet)

lemma base58_index_Some: "base58_index c = Some d \<Longrightarrow> d < 58 \<and> base58_char d = c"
  using index_of_Some [of BASE58_ALPHABET c d] by (simp add: base58_index_def base58_char_def)

lemma base58_char_0: "base58_char 0 = CHR ''1''"
  by (simp add: base58_char_def BASE58_ALPHABET_def)

lemma base58_char_eq_one: "d < 58 \<Longrightarrow> base58_char d = CHR ''1'' \<longleftrightarrow> d = 0"
  by (metis base58_char_0 base58_index_char option.inject zero_less_numeral)

section \<open>Encoding\<close>

definition encode_digits :: "nat list \<Rightarrow> nat list" where
  "encode_digits bs = foldl (\<lambda>digits b. carry_loop 58 256 digits b) [0] bs"

definition encodeBase58 :: "bytes \<Rightarrow> string" where
  "encodeBase58 bytes =
     (let zeros = length (takeWhile (\<lambda>b. b = 0) bytes) in
      if zeros = length bytes then replicate zeros CHR ''1''
      else replicate zeros CHR ''1''
             @ map base58_char (rev (encode_digits (map unat (drop zeros bytes)))))"

section \<open>Decoding\<close>

fun decode_digits :: "string \<Rightarrow> nat list \<Rightarrow> nat list res" where
  "decode_digits [] bs = Inr bs"
| "decode_digits (c # cs) bs =
     (case base58_index c of
        None \<Rightarrow> throw ''Invalid base58 character''
      | Some i \<Rightarrow> decode_digits cs (carry_loop 256 58 bs i))"

definition decodeBase58 :: "string \<Rightarrow> bytes res" where
  "decodeBase58 encoded =
     (let ones = length (takeWhile (\<lambda>c. c = CHR ''1'') encoded) in
      if ones = length encoded then Inr (replicate ones 0)
      else bindR (decode_digits (drop ones encoded) [0])
             (\<lambda>bs. Inr (replicate ones 0 @ map word_of_nat (rev bs))))"

section \<open>Public keys\<close>

text \<open>
  A public key argument is text or raw bytes. The copy \<open>new Uint8Array(publicKey)\<close> is the same
  list.
\<close>

datatype key_input = KeyText string | KeyBytes bytes

definition decodePublicKey :: "key_input \<Rightarrow> bytes res" where
  "decodePublicKey key =
     bindR (case key of KeyText s \<Rightarrow> decodeBase58 s | KeyBytes bs \<Rightarrow> Inr bs)
       (\<lambda>bs. if length bs \<noteq> 32 then throw ''Public key must contain 32 bytes'' else Inr bs)"

definition normalizePublicKey :: "key_input \<Rightarrow> string res" where
  "normalizePublicKey key = bindR (decodePublicKey key) (\<lambda>bs. Inr (encodeBase58 bs))"

section \<open>The conversion loops compute the other base\<close>

lemma encode_digits_convert: "encode_digits bs = convert 58 256 bs"
  by (simp add: encode_digits_def convert_def)

lemma decode_digits_convert:
  "mapR (\<lambda>c. case base58_index c of None \<Rightarrow> throw msg | Some i \<Rightarrow> Inr i) cs = Inr is \<Longrightarrow>
   decode_digits cs bs = Inr (foldl (carry_loop 256 58) bs is)"
  by (induction cs arbitrary: bs "is") (auto split: option.splits)

lemma decode_digits_chars:
  "all_below 58 ds \<Longrightarrow> decode_digits (map base58_char ds) bs = Inr (foldl (carry_loop 256 58) bs ds)"
  by (induction ds arbitrary: bs) simp_all

lemma decode_digits_Inr:
  "decode_digits cs bs = Inr r \<Longrightarrow>
   \<exists>ds. all_below 58 ds \<and> cs = map base58_char ds \<and> r = foldl (carry_loop 256 58) bs ds"
proof (induction cs arbitrary: bs)
  case (Cons c cs)
  then obtain i where i: "base58_index c = Some i"
    and rest: "decode_digits cs (carry_loop 256 58 bs i) = Inr r"
    by (auto split: option.splits)
  from rest obtain ds where "all_below 58 ds" "cs = map base58_char ds"
    "r = foldl (carry_loop 256 58) (carry_loop 256 58 bs i) ds" using Cons.IH by blast
  with base58_index_Some [OF i] show ?case by (intro exI [of _ "i # ds"]) simp
qed simp

lemma decode_digits_throws:
  "decode_digits cs bs = Inl e \<longleftrightarrow>
   (\<exists>c \<in> set cs. base58_index c = None) \<and> e = Error ''Invalid base58 character''"
  by (induction cs arbitrary: bs) (auto split: option.splits)

lemma base58_carries_fit:
  assumes "b \<in> {58, 256}" "m \<in> {58, 256}" "all_below b ds" "c < m"
  shows "\<forall>v \<in> set (carry_bound b m ds c). v < 2 ^ 31"
proof -
  have "b * m < 2 ^ 31" using assms(1,2) by auto
  moreover have "\<forall>v \<in> set (carry_bound b m ds c). v < b * m"
    using assms by (intro carry_bound_le) auto
  ultimately show ?thesis by auto
qed

section \<open>Splitting off the leading zeros\<close>

lemma takeWhile_replicate_append:
  "P x \<Longrightarrow> (ys = [] \<or> \<not> P (hd ys)) \<Longrightarrow> takeWhile P (replicate n x @ ys) = replicate n x"
  by (induction n) (cases ys; simp)+

lemma split_leading:
  obtains n ys where "xs = replicate n x @ ys" "ys = [] \<or> hd ys \<noteq> x"
    "n = length (takeWhile (\<lambda>y. y = x) xs)"
proof
  let ?p = "\<lambda>y. y = x"
  have "takeWhile ?p xs = replicate (length (takeWhile ?p xs)) x"
    by (induction xs) simp_all
  then show "xs = replicate (length (takeWhile ?p xs)) x @ dropWhile ?p xs"
    by (metis takeWhile_dropWhile_id)
  show "dropWhile ?p xs = [] \<or> hd (dropWhile ?p xs) \<noteq> x"
    using hd_dropWhile by blast
qed simp

lemma encodeBase58_zeros: "encodeBase58 (replicate n 0) = replicate n CHR ''1''"
  by (simp add: encodeBase58_def takeWhile_replicate)

lemma encodeBase58_split:
  "ys \<noteq> [] \<Longrightarrow> hd ys \<noteq> 0 \<Longrightarrow>
   encodeBase58 (replicate n 0 @ ys)
     = replicate n CHR ''1'' @ map base58_char (rev (convert 58 256 (map unat ys)))"
  by (simp add: encodeBase58_def takeWhile_replicate_append encode_digits_convert Let_def)

lemma decodeBase58_ones: "decodeBase58 (replicate n CHR ''1'') = Inr (replicate n 0)"
  by (simp add: decodeBase58_def takeWhile_replicate)

lemma decodeBase58_split:
  "ds \<noteq> [] \<Longrightarrow> hd ds \<noteq> 0 \<Longrightarrow> all_below 58 ds \<Longrightarrow>
   decodeBase58 (replicate n CHR ''1'' @ map base58_char ds)
     = Inr (replicate n 0 @ map word_of_nat (rev (convert 256 58 ds)))"
proof (cases ds)
  case (Cons d ds')
  assume "hd ds \<noteq> 0" and below: "all_below 58 ds"
  with Cons have "map base58_char ds \<noteq> []" "hd (map base58_char ds) \<noteq> CHR ''1''"
    by (simp_all add: base58_char_eq_one)
  moreover have "decode_digits (map base58_char ds) [0] = Inr (convert 256 58 ds)"
    using below by (simp add: decode_digits_chars convert_def)
  ultimately show ?thesis by (simp add: decodeBase58_def takeWhile_replicate_append Let_def)
qed simp

section \<open>Round trips\<close>

lemma map_unat_below: "all_below 256 (map unat (bs :: bytes))"
  by (induction bs) simp_all

lemma hd_map_unat: "bs \<noteq> [] \<Longrightarrow> hd (bs :: bytes) \<noteq> 0 \<Longrightarrow> hd (map unat bs) \<noteq> 0"
  by (cases bs) (simp_all add: unat_eq_0)

lemma map_word_unat [simp]: "map word_of_nat (map unat (bs :: bytes)) = bs"
  by (simp add: comp_def)

lemma map_unat_word: "all_below 256 ds \<Longrightarrow> map unat (map word_of_nat ds :: bytes) = ds"
  by (induction ds) (simp_all add: unat_of_nat)

lemma decode_encode_base58: "decodeBase58 (encodeBase58 bs) = Inr bs"
proof -
  obtain n ys where bs: "bs = replicate n 0 @ ys" and ys: "ys = [] \<or> hd ys \<noteq> 0"
    by (rule split_leading)
  show ?thesis
  proof (cases "ys = []")
    case True
    with bs show ?thesis by (simp add: encodeBase58_zeros decodeBase58_ones)
  next
    case False
    let ?ds = "convert 58 256 (map unat ys)"
    have hd: "hd (map unat ys) \<noteq> 0" using False ys by (intro hd_map_unat) auto
    then have ds: "rev ?ds \<noteq> []" "hd (rev ?ds) \<noteq> 0"
      using convert_canonical [of 58 256 "map unat ys"] False by (simp_all add: hd_rev)
    have "convert 256 58 (rev ?ds) = rev (map unat ys)"
      using hd False map_unat_below by (intro convert_convert) simp_all
    moreover have "all_below 58 (rev ?ds)"
      using convert_below [of 58 256 "map unat ys"] by (simp add: all_below_def)
    ultimately show ?thesis
      using bs False ys ds by (simp add: encodeBase58_split decodeBase58_split rev_map comp_def)
  qed
qed

lemma encode_decode_base58:
  assumes "decodeBase58 s = Inr bs"
  shows "encodeBase58 bs = s"
proof -
  obtain n cs where s: "s = replicate n CHR ''1'' @ cs" and cs: "cs = [] \<or> hd cs \<noteq> CHR ''1''"
    and n: "n = length (takeWhile (\<lambda>c. c = CHR ''1'') s)" by (rule split_leading)
  show ?thesis
  proof (cases "cs = []")
    case True
    with s assms show ?thesis by (auto simp: encodeBase58_zeros decodeBase58_ones)
  next
    case False
    have "n \<noteq> length s" using s False by simp
    moreover have "drop n s = cs" using s by simp
    ultimately have "bindR (decode_digits cs [0])
        (\<lambda>bs. Inr (replicate n 0 @ map word_of_nat (rev bs))) = Inr bs"
      using assms by (simp only: decodeBase58_def Let_def n [symmetric] if_False)
    then obtain r where r: "decode_digits cs [0] = Inr r" by auto
    then obtain ds where ds: "all_below 58 ds" "cs = map base58_char ds"
      using decode_digits_Inr by blast
    have hd: "ds \<noteq> []" "hd ds \<noteq> 0" using ds False cs by (cases ds; simp add: base58_char_eq_one)+
    let ?bs = "convert 256 58 ds"
    have bs: "bs = replicate n 0 @ map word_of_nat (rev ?bs)"
      using assms s ds hd by (simp add: decodeBase58_split)
    have below: "all_below 256 (rev ?bs)"
      using convert_below [of 256 58 ds] by (simp add: all_below_def)
    have canon: "rev ?bs \<noteq> []" "hd (rev ?bs) \<noteq> 0"
      using convert_canonical [of 256 58 ds] hd by (simp_all add: hd_rev)
    have "hd (map word_of_nat (rev ?bs) :: bytes) \<noteq> 0"
      using canon map_unat_word [OF below] by (metis hd_map list.map_disc_iff unat_0)
    then show ?thesis
      using canon bs s ds hd map_unat_word [OF below] convert_convert [of 256 58 ds]
      by (simp add: encodeBase58_split)
  qed
qed

text \<open>Base58 text is a codec for all byte strings.\<close>

interpretation base58: canonical_codec "\<lambda>_. True" encodeBase58 decodeBase58
  by unfold_locales (simp_all add: decode_encode_base58 encode_decode_base58)

section \<open>Normalised public keys\<close>

text \<open>A normalised key is base58 text of 32 bytes.\<close>

definition is_key :: "string \<Rightarrow> bool" where
  "is_key s \<longleftrightarrow> (\<exists>bs. length bs = 32 \<and> s = encodeBase58 bs)"

lemma decodePublicKey_encoded:
  "length bs = 32 \<Longrightarrow> decodePublicKey (KeyText (encodeBase58 bs)) = Inr bs"
  by (simp add: decodePublicKey_def base58.dec_enc)

lemma decodePublicKey_Inr:
  "decodePublicKey k = Inr bs \<longleftrightarrow>
   length bs = 32 \<and> (case k of KeyText s \<Rightarrow> decodeBase58 s = Inr bs | KeyBytes cs \<Rightarrow> cs = bs)"
  by (cases k) (auto simp: decodePublicKey_def)

lemma is_key_encoded: "length bs = 32 \<Longrightarrow> is_key (encodeBase58 bs)"
  unfolding is_key_def by blast

lemma decodePublicKey_text_is_key: "decodePublicKey (KeyText s) = Inr bs \<Longrightarrow> is_key s"
  using base58.enc_dec [of s bs] is_key_encoded [of bs] by (simp add: decodePublicKey_Inr)

lemma is_keyE:
  assumes "is_key s"
  obtains bs where "length bs = 32" "s = encodeBase58 bs" "decodePublicKey (KeyText s) = Inr bs"
  using assms decodePublicKey_encoded unfolding is_key_def by metis

lemma normalizePublicKey_text [simp]:
  "normalizePublicKey (KeyText s) = Inr t \<longleftrightarrow> t = s \<and> is_key s"
proof
  assume "normalizePublicKey (KeyText s) = Inr t"
  then obtain bs where bs: "decodePublicKey (KeyText s) = Inr bs" "t = encodeBase58 bs"
    unfolding normalizePublicKey_def by auto
  with base58.enc_dec [of s bs] decodePublicKey_text_is_key [OF bs(1)] show "t = s \<and> is_key s"
    by (simp add: decodePublicKey_Inr)
next
  assume t: "t = s \<and> is_key s"
  then obtain bs where "s = encodeBase58 bs" "decodePublicKey (KeyText s) = Inr bs"
    using is_keyE by blast
  with t show "normalizePublicKey (KeyText s) = Inr t" by (simp add: normalizePublicKey_def)
qed

lemma normalizePublicKey_bytes [simp]:
  "normalizePublicKey (KeyBytes bs) = Inr t \<longleftrightarrow> length bs = 32 \<and> t = encodeBase58 bs"
  by (auto simp: normalizePublicKey_def decodePublicKey_Inr)

lemma normalizePublicKey_Inr:
  "normalizePublicKey k = Inr s \<longleftrightarrow> (\<exists>bs. decodePublicKey k = Inr bs \<and> s = encodeBase58 bs)"
  by (auto simp: normalizePublicKey_def)

lemma decodePublicKey_length: "decodePublicKey k = Inr bs \<Longrightarrow> length bs = 32"
  by (simp add: decodePublicKey_Inr)

lemma normalizePublicKey_is_key: "normalizePublicKey k = Inr s \<Longrightarrow> is_key s"
  using decodePublicKey_length is_key_encoded by (auto simp: normalizePublicKey_Inr)

lemma decodePublicKey_normalized:
  assumes "normalizePublicKey k = Inr s"
  shows "decodePublicKey (KeyText s) = decodePublicKey k"
proof -
  obtain bs where "decodePublicKey k = Inr bs" "s = encodeBase58 bs"
    using assms by (auto simp: normalizePublicKey_Inr)
  then show ?thesis by (simp add: decodePublicKey_encoded decodePublicKey_length)
qed

end
