(* ===== verification/JsValue.thy ===== *)
theory JsValue
  imports Base58Codec
begin

text \<open>
  The values the code receives as \<open>unknown\<close> (JSON documents, user-supplied arguments, decoded
  account fields) and the language operations it applies to them.

  A JavaScript number is \<open>JNum n\<close> when it is an integer and \<open>JFrac\<close> otherwise (a fraction, an
  infinity or NaN; no code path looks at which). A \<open>bigint\<close> is \<open>JBig\<close>. An object is an
  association list in insertion order, the order \<open>Object.keys\<close> returns for the field names in use.
\<close>

section \<open>Values\<close>

datatype js =
    JUndef
  | JNull
  | JBool bool
  | JNum int
  | JFrac
  | JBig int
  | JStr string
  | JBytes bytes
  | JArr "js list"
  | JObj "(string \<times> js) list"

type_synonym js_object = "(string \<times> js) list"

definition MAX_SAFE_INTEGER :: int where
  "MAX_SAFE_INTEGER = 2 ^ 53 - 1"

definition is_safe_integer :: "int \<Rightarrow> bool" where
  "is_safe_integer n \<longleftrightarrow> - MAX_SAFE_INTEGER \<le> n \<and> n \<le> MAX_SAFE_INTEGER"

section \<open>Division on bigint\<close>

text \<open>\<open>/\<close> and \<open>%\<close> truncate towards zero; the code divides by nonzero constants or checked values only.\<close>

definition big_div :: "int \<Rightarrow> int \<Rightarrow> int" where
  "big_div a b = sgn a * sgn b * (\<bar>a\<bar> div \<bar>b\<bar>)"

definition big_rem :: "int \<Rightarrow> int \<Rightarrow> int" where
  "big_rem a b = sgn a * (\<bar>a\<bar> mod \<bar>b\<bar>)"

lemma big_div_nonneg [simp]: "0 \<le> a \<Longrightarrow> 0 < b \<Longrightarrow> big_div a b = a div b"
  by (cases "a = 0") (simp_all add: big_div_def)

lemma big_rem_nonneg [simp]: "0 \<le> a \<Longrightarrow> 0 < b \<Longrightarrow> big_rem a b = a mod b"
  by (cases "a = 0") (simp_all add: big_rem_def)

lemma big_rem_neg: "a < 0 \<Longrightarrow> big_rem a b = - ((- a) mod \<bar>b\<bar>)"
  by (simp add: big_rem_def)

section \<open>Objects\<close>

text \<open>Reading a property that is absent gives \<open>undefined\<close>.\<close>

definition obj_get :: "js_object \<Rightarrow> string \<Rightarrow> js" where
  "obj_get ob k = (case map_of ob k of None \<Rightarrow> JUndef | Some v \<Rightarrow> v)"

text \<open>Assigning keeps the position of an existing property and appends a new one.\<close>

fun obj_set :: "('k \<times> 'v) list \<Rightarrow> 'k \<Rightarrow> 'v \<Rightarrow> ('k \<times> 'v) list" where
  "obj_set [] k v = [(k, v)]"
| "obj_set ((k', v') # ob) k v = (if k' = k then (k, v) # ob else (k', v') # obj_set ob k v)"

lemma map_of_obj_set [simp]: "map_of (obj_set ob k v) = (map_of ob)(k \<mapsto> v)"
  by (induction ob) (auto simp: fun_eq_iff)

lemma keys_obj_set: "map fst (obj_set ob k v) = (if k \<in> set (map fst ob) then map fst ob else map fst ob @ [k])"
  by (induction ob k v rule: obj_set.induct) (simp_all del: set_map)

lemma set_obj_set: "set (map fst (obj_set ob k v)) = insert k (set (map fst ob))"
  by (auto simp: keys_obj_set)

lemma distinct_obj_set: "distinct (map fst ob) \<Longrightarrow> distinct (map fst (obj_set ob k v))"
  by (auto simp: keys_obj_set)

lemma obj_set_fresh: "k \<notin> fst ` set ob \<Longrightarrow> obj_set ob k v = ob @ [(k, v)]"
  by (induction ob) auto

lemma obj_get_set [simp]: "obj_get (obj_set ob k v) k' = (if k' = k then v else obj_get ob k')"
  by (simp add: obj_get_def)

section \<open>Decimal integer text\<close>

definition is_digit :: "char \<Rightarrow> bool" where
  "is_digit c \<longleftrightarrow> (48 :: nat) \<le> of_char c \<and> of_char c \<le> (57 :: nat)"

definition digit_val :: "char \<Rightarrow> nat" where
  "digit_val c = of_char c - 48"

definition digit_char :: "nat \<Rightarrow> char" where
  "digit_char d = char_of (d + 48)"

text \<open>The pattern \<open>[0-9]+\<close> over the whole text.\<close>

definition is_decimal :: "string \<Rightarrow> bool" where
  "is_decimal s \<longleftrightarrow> s \<noteq> [] \<and> list_all is_digit s"

definition parse_decimal :: "string \<Rightarrow> nat" where
  "parse_decimal s = digits_value 10 (map digit_val (rev s))"

text \<open>The pattern \<open>-?[0-9]+\<close>, and \<open>BigInt\<close> of a text that matches it.\<close>

definition is_signed_decimal :: "string \<Rightarrow> bool" where
  "is_signed_decimal s \<longleftrightarrow>
     (case s of [] \<Rightarrow> False | c # cs \<Rightarrow> if c = CHR ''-'' then is_decimal cs else is_decimal s)"

definition parse_signed_decimal :: "string \<Rightarrow> int" where
  "parse_signed_decimal s =
     (case s of [] \<Rightarrow> 0
      | c # cs \<Rightarrow> if c = CHR ''-'' then - int (parse_decimal cs) else int (parse_decimal s))"

text \<open>\<open>toString()\<close> of a non-negative integer.\<close>

definition show_nat :: "nat \<Rightarrow> string" where
  "show_nat n = (if n = 0 then ''0'' else map digit_char (rev (push_carry 10 n)))"

definition show_int :: "int \<Rightarrow> string" where
  "show_int n = (if n < 0 then CHR ''-'' # show_nat (nat (- n)) else show_nat (nat n))"

lemma digit_val_char [simp]: "d < 10 \<Longrightarrow> digit_val (digit_char d) = d"
  by (simp add: digit_val_def digit_char_def of_char_of)

lemma is_digit_char [simp]: "d < 10 \<Longrightarrow> is_digit (digit_char d)"
  by (simp add: is_digit_def digit_char_def of_char_of)

lemma digit_chars:
  "all_below 10 ds \<Longrightarrow> list_all is_digit (map digit_char ds) \<and> map digit_val (map digit_char ds) = ds"
  by (induction ds) simp_all

lemma show_nat_decimal: "is_decimal (show_nat n)"
proof (cases "n = 0")
  case True
  then show ?thesis by (simp add: show_nat_def is_decimal_def is_digit_def)
next
  case False
  have "all_below 10 (rev (push_carry 10 n))"
    using push_carry_below [of 10 n] by (simp add: all_below_def)
  with False push_carry_last [of 10 n] digit_chars show ?thesis
    by (simp add: show_nat_def is_decimal_def)
qed

lemma parse_show_nat [simp]: "parse_decimal (show_nat n) = n"
proof (cases "n = 0")
  case True
  then show ?thesis by (simp add: show_nat_def parse_decimal_def digit_val_def)
next
  case False
  have "map digit_val (map digit_char (push_carry 10 n)) = push_carry 10 n"
    using digit_chars push_carry_below [of 10 n] by simp
  with False show ?thesis
    by (simp add: show_nat_def parse_decimal_def push_carry_value rev_map del: map_map)
qed

section \<open>Text prefixes\<close>

definition startsWith :: "string \<Rightarrow> string \<Rightarrow> bool" where
  "startsWith s p \<longleftrightarrow> take (length p) s = p"

lemma startsWith_append [simp]: "startsWith (p @ s) p"
  by (simp add: startsWith_def)

lemma startsWith_split: "startsWith s p \<Longrightarrow> s = p @ drop (length p) s"
  unfolding startsWith_def by (metis append_take_drop_id)

end
