(* ===== verification/TextCodec.thy ===== *)
theory TextCodec
  imports JsValue
begin

text \<open>
  Hexadecimal, base64 and UTF-8: \<open>decodeHex\<close>, \<open>bytesToHex\<close>, \<open>decodeBase64\<close> and \<open>encodeBase64\<close> of
  \<open>typescript/src/BinaryCodec.ts\<close>, over the runtime's \<open>Number.parseInt(_, 16)\<close>, \<open>btoa\<close>, \<open>atob\<close> and
  \<open>TextEncoder\<close>. A text character is a UTF-16 code unit below 256.
\<close>

section \<open>Hexadecimal\<close>

definition hex_val :: "char \<Rightarrow> nat option" where
  "hex_val c = (let n = of_char c :: nat in
     if 48 \<le> n \<and> n \<le> 57 then Some (n - 48)
     else if 97 \<le> n \<and> n \<le> 102 then Some (n - 87)
     else if 65 \<le> n \<and> n \<le> 70 then Some (n - 55)
     else None)"

definition hex_char :: "nat \<Rightarrow> char" where
  "hex_char d = char_of (if d < 10 then d + 48 else d + 87)"

definition is_hex :: "string \<Rightarrow> bool" where
  "is_hex s \<longleftrightarrow> list_all (\<lambda>c. hex_val c \<noteq> None) s"

fun hex_pairs :: "string \<Rightarrow> bytes" where
  "hex_pairs (a # b # cs) = word_of_nat (16 * the (hex_val a) + the (hex_val b)) # hex_pairs cs"
| "hex_pairs _ = []"

definition decodeHex :: "string \<Rightarrow> bytes res" where
  "decodeHex hexadecimal =
     (let body = if startsWith hexadecimal ''0x'' then drop 2 hexadecimal else hexadecimal in
      if length body mod 2 \<noteq> 0 \<or> \<not> is_hex body
      then throw ''Hexadecimal byte strings require an even number of hexadecimal digits''
      else Inr (hex_pairs body))"

definition bytesToHex :: "bytes \<Rightarrow> string" where
  "bytesToHex bs = concat (map (\<lambda>b. [hex_char (unat b div 16), hex_char (unat b mod 16)]) bs)"

lemma hex_val_char [simp]: "d < 16 \<Longrightarrow> hex_val (hex_char d) = Some d"
  by (auto simp: hex_val_def hex_char_def of_char_of Let_def)

lemma bytesToHex_simps [simp]:
  "bytesToHex [] = []"
  "bytesToHex (b # bs) = hex_char (unat b div 16) # hex_char (unat b mod 16) # bytesToHex bs"
  by (simp_all add: bytesToHex_def)

lemma byte_nibbles [simp]: "unat (b :: byte) div 16 < 16"
  using unat_byte_less [of b] by linarith

lemma hex_pairs_bytesToHex: "hex_pairs (bytesToHex bs) = bs"
  by (induction bs) simp_all

lemma bytesToHex_inj: "bytesToHex xs = bytesToHex ys \<longleftrightarrow> xs = ys"
  using hex_pairs_bytesToHex by metis

lemma is_hex_bytesToHex: "is_hex (bytesToHex bs)"
  by (induction bs) (simp_all add: is_hex_def)

lemma length_bytesToHex [simp]: "length (bytesToHex bs) = 2 * length bs"
  by (induction bs) simp_all

lemma decodeHex_prefixed: "decodeHex (''0x'' @ bytesToHex bs) = Inr bs"
  using startsWith_append [of "''0x''" "bytesToHex bs"]
  by (simp add: decodeHex_def is_hex_bytesToHex hex_pairs_bytesToHex)

lemma hex_pairs_length: "length (hex_pairs s) = length s div 2"
  by (induction s rule: hex_pairs.induct) simp_all

lemma decodeHex_length: "decodeHex (''0x'' @ s) = Inr bs \<Longrightarrow> 2 * length bs = length s"
  using startsWith_append [of "''0x''" s]
  by (auto simp: decodeHex_def hex_pairs_length split: if_splits)

section \<open>Base64\<close>

definition BASE64_ALPHABET :: string where
  "BASE64_ALPHABET = ''ABCDEFGHIJKLMNOPQRSTUVWXYZabcdefghijklmnopqrstuvwxyz0123456789+/''"

definition base64_char :: "nat \<Rightarrow> char" where
  "base64_char d = BASE64_ALPHABET ! d"

definition base64_index :: "char \<Rightarrow> nat option" where
  "base64_index c = index_of BASE64_ALPHABET c"

fun btoa_groups :: "nat list \<Rightarrow> string" where
  "btoa_groups [] = []"
| "btoa_groups [a] = [base64_char (a div 4), base64_char (a mod 4 * 16), CHR ''='', CHR ''='']"
| "btoa_groups [a, b] =
     [base64_char (a div 4), base64_char (a mod 4 * 16 + b div 16), base64_char (b mod 16 * 4), CHR ''='']"
| "btoa_groups (a # b # c # r) =
     base64_char (a div 4) # base64_char (a mod 4 * 16 + b div 16)
       # base64_char (b mod 16 * 4 + c div 64) # base64_char (c mod 64) # btoa_groups r"

fun atob_groups :: "nat list \<Rightarrow> nat list" where
  "atob_groups [p, q] = [p * 4 + q div 16]"
| "atob_groups [p, q, r] = [p * 4 + q div 16, q mod 16 * 16 + r div 4]"
| "atob_groups (p # q # r # s # rest) =
     (p * 4 + q div 16) # (q mod 16 * 16 + r div 4) # (r mod 4 * 64 + s) # atob_groups rest"
| "atob_groups _ = []"

definition is_ascii_space :: "char \<Rightarrow> bool" where
  "is_ascii_space c \<longleftrightarrow> (of_char c :: nat) \<in> {9, 10, 12, 13, 32}"

definition strip_padding :: "string \<Rightarrow> string" where
  "strip_padding s =
     (if length s mod 4 = 0 \<and> s \<noteq> [] \<and> last s = CHR ''='' then
        (if butlast s \<noteq> [] \<and> last (butlast s) = CHR ''='' then butlast (butlast s) else butlast s)
      else s)"

definition atob :: "string \<Rightarrow> nat list res" where
  "atob text =
     (let body = strip_padding (filter (\<lambda>c. \<not> is_ascii_space c) text) in
      if length body mod 4 = 1 \<or> list_ex (\<lambda>c. base64_index c = None) body
      then throw ''The string to be decoded is not correctly encoded.''
      else Inr (atob_groups (map (\<lambda>c. the (base64_index c)) body)))"

definition decodeBase64 :: "string \<Rightarrow> bytes res" where
  "decodeBase64 encoded = bindR (atob encoded) (\<lambda>codes. Inr (map word_of_nat codes))"

text \<open>The encoder concatenates the input in chunks of \<open>0x8000\<close> bytes before \<open>btoa\<close>.\<close>

function chunks :: "nat \<Rightarrow> 'a list \<Rightarrow> 'a list list" where
  "chunks n xs = (if xs = [] \<or> n = 0 then [] else take n xs # chunks n (drop n xs))"
  by pat_completeness auto
termination
  by (relation "measure (\<lambda>(n, xs). length xs)") auto

declare chunks.simps [simp del]

definition encodeBase64 :: "bytes \<Rightarrow> string" where
  "encodeBase64 bytes = btoa_groups (concat (map (map unat) (chunks 32768 bytes)))"

lemma concat_chunks: "0 < n \<Longrightarrow> concat (chunks n xs) = xs"
proof (induction n xs rule: chunks.induct)
  case (1 n xs)
  then show ?case by (simp add: chunks.simps [of n xs])
qed

lemma encodeBase64_groups: "encodeBase64 bytes = btoa_groups (map unat bytes)"
  by (simp add: encodeBase64_def concat_chunks flip: map_concat)

lemma length_base64 [simp]: "length BASE64_ALPHABET = 64"
  by (simp add: BASE64_ALPHABET_def)

lemma distinct_base64: "distinct BASE64_ALPHABET"
  by (simp add: BASE64_ALPHABET_def)

lemma base64_index_char [simp]: "d < 64 \<Longrightarrow> base64_index (base64_char d) = Some d"
  by (simp add: base64_index_def base64_char_def index_of_nth distinct_base64)

lemma base64_alphabet_plain: "c \<in> set BASE64_ALPHABET \<Longrightarrow> c \<noteq> CHR ''='' \<and> \<not> is_ascii_space c"
  by (auto simp: BASE64_ALPHABET_def is_ascii_space_def)

lemma base64_char_plain [simp]:
  "d < 64 \<Longrightarrow> base64_char d \<noteq> CHR ''=''" "d < 64 \<Longrightarrow> \<not> is_ascii_space (base64_char d)"
  using base64_alphabet_plain [of "base64_char d"] by (simp_all add: base64_char_def)

fun sextets :: "nat list \<Rightarrow> nat list" where
  "sextets [] = []"
| "sextets [a] = [a div 4, a mod 4 * 16]"
| "sextets [a, b] = [a div 4, a mod 4 * 16 + b div 16, b mod 16 * 4]"
| "sextets (a # b # c # r) =
     (a div 4) # (a mod 4 * 16 + b div 16) # (b mod 16 * 4 + c div 64) # (c mod 64) # sextets r"

lemma glued_digits [simp]:
  "y < n \<Longrightarrow> (x * n + y) div n = (x :: nat)" "y < n \<Longrightarrow> (x * n + y) mod n = (y :: nat)"
  by simp_all

lemma sextet_bounds [simp]:
  fixes a b :: nat
  shows "a < 256 \<Longrightarrow> a div 4 < 64" "a < 256 \<Longrightarrow> a div 16 < 16" "a < 256 \<Longrightarrow> a div 64 < 4"
    "a mod 4 * 16 < 64" "a mod 16 * 4 < 64"
    "b < 256 \<Longrightarrow> a mod 4 * 16 + b div 16 < 64" "b < 256 \<Longrightarrow> a mod 16 * 4 + b div 64 < 64"
proof -
  have m: "a mod 4 < 4" "a mod 16 < 16" by simp_all
  then show "a mod 4 * 16 < 64" "a mod 16 * 4 < 64" by linarith+
  show "a < 256 \<Longrightarrow> a div 4 < 64" "a < 256 \<Longrightarrow> a div 16 < 16" "a < 256 \<Longrightarrow> a div 64 < 4" by simp_all
  show "a mod 4 * 16 + b div 16 < 64" if "b < 256"
  proof -
    have "b div 16 < 16" using that by simp
    with m show ?thesis by linarith
  qed
  show "a mod 16 * 4 + b div 64 < 64" if "b < 256"
  proof -
    have "b div 64 < 4" using that by simp
    with m show ?thesis by linarith
  qed
qed

lemma sextets_atob: "all_below 256 xs \<Longrightarrow> atob_groups (sextets xs) = xs"
  by (induction xs rule: sextets.induct) simp_all

lemma sextets_below: "all_below 256 xs \<Longrightarrow> all_below 64 (sextets xs)"
  by (induction xs rule: sextets.induct) simp_all

definition base64_padding :: "nat list \<Rightarrow> nat" where
  "base64_padding xs = (3 - length xs mod 3) mod 3"

lemma btoa_shape:
  "btoa_groups xs = map base64_char (sextets xs) @ replicate (base64_padding xs) CHR ''=''"
  by (induction xs rule: sextets.induct) (simp_all add: base64_padding_def numeral_2_eq_2)

lemma sextets_length:
  "(length (sextets xs) + base64_padding xs) mod 4 = 0 \<and> length (sextets xs) mod 4 \<noteq> 1"
proof (induction xs rule: sextets.induct)
  case (4 a b c r)
  have "base64_padding (a # b # c # r) = base64_padding r" by (simp add: base64_padding_def)
  with 4 show ?case by simp
qed (simp_all add: base64_padding_def)

lemma strip_padding_padded:
  assumes "list_all (\<lambda>c. c \<noteq> CHR ''='') s" "(length s + p) mod 4 = 0" "p \<le> 2"
  shows "strip_padding (s @ replicate p CHR ''='') = s"
proof -
  have last: "s = [] \<or> last s \<noteq> CHR ''=''" using assms(1) by (cases s rule: rev_cases) simp_all
  from assms(3) consider "p = 0" | "p = 1" | "p = 2" by linarith
  then show ?thesis
  proof cases
    case 1
    with last show ?thesis by (auto simp: strip_padding_def)
  next
    case 2
    with last assms(2) show ?thesis by (auto simp: strip_padding_def)
  next
    case 3
    then have "s @ replicate p CHR ''='' = (s @ [CHR ''='']) @ [CHR ''='']" by (simp add: numeral_2_eq_2)
    moreover have "strip_padding ((s @ [CHR ''='']) @ [CHR ''='']) = s"
      using assms(2) 3 unfolding strip_padding_def butlast_snoc last_snoc by simp
    ultimately show ?thesis by simp
  qed
qed

lemma base64_plain_map:
  "all_below 64 ds \<Longrightarrow> list_all (\<lambda>c. c \<noteq> CHR ''='' \<and> \<not> is_ascii_space c \<and> base64_index c \<noteq> None)
     (map base64_char ds) \<and> map (\<lambda>c. the (base64_index c)) (map base64_char ds) = ds"
  by (induction ds) simp_all

lemma decode_encode_base64: "decodeBase64 (encodeBase64 bs) = Inr bs"
proof -
  let ?xs = "map unat bs" and ?ss = "sextets (map unat bs)"
  let ?s = "map base64_char ?ss"
  have plain: "list_all (\<lambda>c. c \<noteq> CHR ''='' \<and> \<not> is_ascii_space c \<and> base64_index c \<noteq> None) ?s"
    and index: "map (\<lambda>c. the (base64_index c)) ?s = ?ss"
    using base64_plain_map [OF sextets_below [OF map_unat_below]] by simp_all
  have "filter (\<lambda>c. \<not> is_ascii_space c) (btoa_groups ?xs) = btoa_groups ?xs"
    using plain by (auto simp: btoa_shape filter_id_conv list_all_iff is_ascii_space_def)
  moreover have "strip_padding (btoa_groups ?xs) = ?s"
    unfolding btoa_shape using plain sextets_length [of ?xs]
    by (intro strip_padding_padded) (auto simp: list_all_iff base64_padding_def)
  moreover have "\<not> list_ex (\<lambda>c. base64_index c = None) ?s"
    using plain by (auto simp: list_all_iff list_ex_iff)
  ultimately have "atob (encodeBase64 bs) = Inr (atob_groups ?ss)"
    using sextets_length [of ?xs] index
    by (simp add: atob_def encodeBase64_groups Let_def del: map_map)
  then show ?thesis
    using sextets_atob [OF map_unat_below [of bs]] by (simp add: decodeBase64_def comp_def)
qed

section \<open>UTF-8\<close>

definition utf8_unit :: "char \<Rightarrow> bytes" where
  "utf8_unit c = (let n = of_char c :: nat in
     if n < 128 then [word_of_nat n] else [word_of_nat (192 + n div 64), word_of_nat (128 + n mod 64)])"

definition utf8_encode :: "string \<Rightarrow> bytes" where
  "utf8_encode s = concat (map utf8_unit s)"

end
