(* ===== verification/ProgramAddress.thy ===== *)
theory ProgramAddress
  imports TextCodec
begin

text \<open>
  \<open>typescript/src/ProgramAddress.ts\<close> and \<open>ChanceryTarget.ts\<close>: Solana program-derived addresses. A
  candidate is the SHA-256 hash of the seeds, a bump byte, the program address and a marker; it is an
  address when it is not a point of the Ed25519 curve, and the search takes the largest bump that
  gives one. SHA-256 is \<open>node:crypto\<close>'s, so the hash is a parameter \<open>H\<close>; that its results have 32
  bytes is a hypothesis of the theorems that need it.
\<close>

section \<open>The target deployment\<close>

definition CHANCERY_MAINNET_PROGRAM_ADDRESS :: string where
  "CHANCERY_MAINNET_PROGRAM_ADDRESS = ''ChnryP5RcZtMvP8vvVyPGUhwCg6uDJc53vCe3sxr11Sz''"

definition CHANCERY_DEVNET_PROGRAM_ADDRESS :: string where
  "CHANCERY_DEVNET_PROGRAM_ADDRESS = ''GD9qamyghF32gG21KEkbp6quBsd2tU771tFcRVu1SPKs''"

definition chanceryProgramAddressForTarget :: "string option \<Rightarrow> string res" where
  "chanceryProgramAddressForTarget target =
     (let t = (case target of None \<Rightarrow> ''mainnet'' | Some s \<Rightarrow> s) in
      if t = ''mainnet'' then Inr CHANCERY_MAINNET_PROGRAM_ADDRESS
      else if t = ''devnet'' then Inr CHANCERY_DEVNET_PROGRAM_ADDRESS
      else throw ''CHANCERY_TARGET must be mainnet or devnet'')"

section \<open>Field arithmetic\<close>

definition ED25519_FIELD_MODULUS :: int where
  "ED25519_FIELD_MODULUS = 2 ^ 255 - 19"

definition modulo :: "int \<Rightarrow> int \<Rightarrow> int" where
  "modulo value modulus =
     (let remainder = big_rem value modulus in
      if 0 \<le> remainder then remainder else remainder + modulus)"

function mod_pow_loop :: "int \<Rightarrow> int \<Rightarrow> int \<Rightarrow> int \<Rightarrow> int" where
  "mod_pow_loop result currentBase currentExponent modulus =
     (if 0 < currentExponent then
        mod_pow_loop
          (if currentExponent mod 2 = 1 then modulo (result * currentBase) modulus else result)
          (modulo (currentBase * currentBase) modulus) (currentExponent div 2) modulus
      else result)"
  by pat_completeness auto
termination
  by (relation "measure (\<lambda>(r, b, e, m). nat e)") auto

declare mod_pow_loop.simps [simp del]

definition modularPower :: "int \<Rightarrow> int \<Rightarrow> int \<Rightarrow> int" where
  "modularPower base exponent modulus = mod_pow_loop 1 (modulo base modulus) exponent modulus"

definition modularInverse :: "int \<Rightarrow> int \<Rightarrow> int res" where
  "modularInverse value modulus =
     (if modulo value modulus = 0 then throw ''Modular inverse does not exist''
      else Inr (modularPower value (modulus - 2) modulus))"

definition ED25519_D :: "int res" where
  "ED25519_D = bindR (modularInverse 121666 ED25519_FIELD_MODULUS)
     (\<lambda>inv. Inr (modulo (- 121665 * inv) ED25519_FIELD_MODULUS))"

definition ED25519_SQRT_MINUS_ONE :: int where
  "ED25519_SQRT_MINUS_ONE =
     modularPower 2 (big_div (ED25519_FIELD_MODULUS - 1) 4) ED25519_FIELD_MODULUS"

definition littleEndianInteger :: "bytes \<Rightarrow> int" where
  "littleEndianInteger bs = int (digits_value 256 (map unat bs))"

section \<open>Points of the curve\<close>

definition isEd25519CurvePoint :: "bytes \<Rightarrow> bool res" where
  "isEd25519CurvePoint compressedPoint =
     (if length compressedPoint \<noteq> 32 then Inr False
      else
        let sign = and (drop_bit 7 (compressedPoint ! 31)) 1;
            encodedY = compressedPoint[31 := and (compressedPoint ! 31) 127];
            y = littleEndianInteger encodedY;
            p = ED25519_FIELD_MODULUS in
        if p \<le> y then Inr False
        else bindR ED25519_D (\<lambda>d.
          let ySquared = modulo (y * y) p;
              numerator = modulo (ySquared - 1) p;
              denominator = modulo (d * ySquared + 1) p in
          if denominator = 0 then Inr False
          else bindR (modularInverse denominator p) (\<lambda>inv.
            let xSquared = modulo (numerator * inv) p;
                x0 = modularPower xSquared (big_div (p + 3) 8) p;
                x = (if modulo (x0 * x0 - xSquared) p \<noteq> 0
                     then modulo (x0 * ED25519_SQRT_MINUS_ONE) p else x0) in
            if modulo (x * x - xSquared) p \<noteq> 0 then Inr False
            else if x = 0 \<and> sign = 1 then Inr False
            else Inr True)))"

section \<open>Deriving an address\<close>

record program_address_result =
  pda_address :: string
  pda_bump :: nat

definition PROGRAM_DERIVED_ADDRESS_MARKER :: bytes where
  "PROGRAM_DERIVED_ADDRESS_MARKER = utf8_encode ''ProgramDerivedAddress''"

definition validateSeeds :: "bytes list \<Rightarrow> nat \<Rightarrow> unit res" where
  "validateSeeds seeds maximumSeedCount =
     (if length seeds > maximumSeedCount then throw ''Program address accepts at most this many seeds''
      else if list_ex (\<lambda>seed. length seed > 32) seeds then throw ''Program address seed exceeds 32 bytes''
      else Inr ())"

definition CURVE_ERROR :: error where
  "CURVE_ERROR = Error ''Derived address is on the Ed25519 curve''"

definition createProgramAddress :: "(bytes \<Rightarrow> bytes) \<Rightarrow> bytes list \<Rightarrow> key_input \<Rightarrow> string res" where
  "createProgramAddress H seeds programAddress =
     bindR (validateSeeds seeds 16) (\<lambda>_.
     bindR (decodePublicKey programAddress) (\<lambda>programAddressBytes.
     let hashInput = concatenateBytes (seeds @ [programAddressBytes, PROGRAM_DERIVED_ADDRESS_MARKER]);
         addressBytes = H hashInput in
     bindR (isEd25519CurvePoint addressBytes) (\<lambda>onCurve.
       if onCurve then Inl CURVE_ERROR else Inr (encodeBase58 addressBytes))))"

text \<open>The loop from 255 down to 0: \<open>find_bump H seeds program n\<close> tries the bumps below \<open>n\<close>.\<close>

fun find_bump :: "(bytes \<Rightarrow> bytes) \<Rightarrow> bytes list \<Rightarrow> key_input \<Rightarrow> nat \<Rightarrow> program_address_result res" where
  "find_bump H seeds programAddress 0 = throw ''Unable to find an off-curve program address''"
| "find_bump H seeds programAddress (Suc bump) =
     (case createProgramAddress H (seeds @ [[word_of_nat bump]]) programAddress of
        Inr address \<Rightarrow> Inr \<lparr>pda_address = address, pda_bump = bump\<rparr>
      | Inl e \<Rightarrow> if e = CURVE_ERROR then find_bump H seeds programAddress bump else Inl e)"

definition findProgramAddress ::
  "(bytes \<Rightarrow> bytes) \<Rightarrow> bytes list \<Rightarrow> key_input \<Rightarrow> program_address_result res" where
  "findProgramAddress H seeds programAddress =
     bindR (validateSeeds seeds 15) (\<lambda>_. find_bump H seeds programAddress 256)"

section \<open>The arithmetic is arithmetic modulo the field\<close>

lemma modulo_mod: "0 < m \<Longrightarrow> modulo v m = v mod m"
proof (cases "0 \<le> v")
  case False
  assume m: "0 < m"
  have "0 \<le> (- v) mod m" using m by simp
  then have "(- v) mod m \<le> 0 \<longleftrightarrow> (- v) mod m = 0" by linarith
  moreover have "v mod m = (if (- v) mod m = 0 then 0 else m - (- v) mod m)"
    using zmod_zminus1_eq_if [of "- v" m] by simp
  ultimately show ?thesis using False m by (auto simp: modulo_def big_rem_neg Let_def)
qed (simp add: modulo_def Let_def)

lemma nat_halves: "0 \<le> e \<Longrightarrow> nat e = 2 * nat (e div 2) + (if e mod 2 = 1 then 1 else 0)"
proof -
  assume "0 \<le> e"
  moreover have "e = 2 * (e div 2) + e mod 2" "e mod 2 = 0 \<or> e mod 2 = 1" by auto
  ultimately show ?thesis by (auto simp only: if_True if_False split: if_split)
qed

lemma mod_pow_loop_mod:
  "0 < m \<Longrightarrow> 0 \<le> e \<Longrightarrow> mod_pow_loop r b e m mod m = r * b ^ nat e mod m"
proof (induction r b e m rule: mod_pow_loop.induct)
  case (1 r b e m)
  show ?case
  proof (cases "0 < e")
    case False
    with "1.prems" have "e = 0" by simp
    then show ?thesis by (simp add: mod_pow_loop.simps [of r b 0 m])
  next
    case True
    define r' where "r' = (if e mod 2 = 1 then modulo (r * b) m else r)"
    define k where "k = nat (e div 2)"
    have e: "nat e = 2 * k + (if e mod 2 = 1 then 1 else 0)" unfolding k_def by (rule nat_halves) (use True in simp)
    have "mod_pow_loop r b e m mod m = r' * (modulo (b * b) m) ^ k mod m"
      using 1 True by (simp add: mod_pow_loop.simps [of r b e m] r'_def k_def)
    also have "\<dots> = r' * (b * b) ^ k mod m"
      using "1.prems" by (metis modulo_mod mod_mult_right_eq power_mod)
    also have "\<dots> = r * b ^ nat e mod m"
    proof (cases "e mod 2 = 1")
      case True
      then have "r' * (b * b) ^ k mod m = (r * b * (b * b) ^ k) mod m"
        using "1.prems" by (simp add: r'_def modulo_mod mod_mult_left_eq)
      with True show ?thesis by (simp add: e power_mult power2_eq_square mult.assoc)
    qed (simp add: r'_def e power_mult power2_eq_square)
    finally show ?thesis .
  qed
qed

lemma mod_pow_loop_range:
  "1 < m \<Longrightarrow> 0 \<le> r \<Longrightarrow> r < m \<Longrightarrow> 0 \<le> mod_pow_loop r b e m \<and> mod_pow_loop r b e m < m"
  by (induction r b e m rule: mod_pow_loop.induct)
     (subst (1 2) mod_pow_loop.simps, auto simp: modulo_mod)

lemma modularPower_eq: "1 < m \<Longrightarrow> 0 \<le> e \<Longrightarrow> modularPower b e m = b ^ nat e mod m"
  using mod_pow_loop_mod [of m e 1 "modulo b m"] mod_pow_loop_range [of m 1 "modulo b m" e]
  by (simp add: modularPower_def modulo_mod power_mod)

lemma modulus_facts: "1 < ED25519_FIELD_MODULUS" "121666 < ED25519_FIELD_MODULUS"
  by (simp_all add: ED25519_FIELD_MODULUS_def)

text \<open>The curve test never throws: both inverses it takes are of nonzero residues.\<close>

lemma ED25519_D_ok: "\<exists>d. ED25519_D = Inr d"
  using modulus_facts by (simp add: ED25519_D_def modularInverse_def modulo_mod)

lemma isEd25519CurvePoint_total: "is_ok (isEd25519CurvePoint bs)"
proof -
  obtain d where d: "ED25519_D = Inr d" using ED25519_D_ok by blast
  have p: "0 < ED25519_FIELD_MODULUS" using modulus_facts by simp
  have inverse: "is_ok (modularInverse (modulo v ED25519_FIELD_MODULUS) ED25519_FIELD_MODULUS)"
    if "modulo v ED25519_FIELD_MODULUS \<noteq> 0" for v
    using that p by (simp add: modularInverse_def modulo_mod)
  show ?thesis unfolding isEd25519CurvePoint_def d by (intro ok_intros) (simp_all add: inverse)
qed

definition on_curve :: "bytes \<Rightarrow> bool" where
  "on_curve bs = (isEd25519CurvePoint bs = Inr True)"

lemma isEd25519CurvePoint_eq: "isEd25519CurvePoint bs = Inr (on_curve bs)"
  using isEd25519CurvePoint_total [of bs] by (auto simp: on_curve_def is_ok_iff)

section \<open>What the search returns\<close>

definition candidate :: "(bytes \<Rightarrow> bytes) \<Rightarrow> bytes list \<Rightarrow> bytes \<Rightarrow> nat \<Rightarrow> bytes" where
  "candidate H seeds pk bump = H (concat seeds @ [word_of_nat bump] @ pk @ PROGRAM_DERIVED_ADDRESS_MARKER)"

abbreviation seeds_ok :: "nat \<Rightarrow> bytes list \<Rightarrow> bool" where
  "seeds_ok n seeds \<equiv> length seeds \<le> n \<and> (\<forall>seed \<in> set seeds. length seed \<le> 32)"

lemma validateSeeds_Inr [simp]: "validateSeeds seeds n = Inr u \<longleftrightarrow> seeds_ok n seeds"
  by (auto simp: validateSeeds_def list_ex_iff not_less) (meson linorder_not_less)

lemma validateSeeds_bump: "seeds_ok 15 seeds \<Longrightarrow> validateSeeds (seeds @ [[b]]) 16 = Inr ()"
  by simp

lemma createProgramAddress_step:
  assumes "seeds_ok 15 seeds" "decodePublicKey prog = Inr pk"
  shows "createProgramAddress H (seeds @ [[word_of_nat bump]]) prog =
    (if on_curve (candidate H seeds pk bump) then Inl CURVE_ERROR
     else Inr (encodeBase58 (candidate H seeds pk bump)))"
  using assms(2) validateSeeds_bump [OF assms(1)]
  by (simp add: createProgramAddress_def candidate_def isEd25519CurvePoint_eq Let_def del: validateSeeds_Inr)

lemma find_bump_Inr:
  assumes "seeds_ok 15 seeds" "decodePublicKey prog = Inr pk"
  shows "find_bump H seeds prog n = Inr r \<longleftrightarrow>
    pda_bump r < n \<and> \<not> on_curve (candidate H seeds pk (pda_bump r)) \<and>
    pda_address r = encodeBase58 (candidate H seeds pk (pda_bump r)) \<and>
    (\<forall>b. pda_bump r < b \<and> b < n \<longrightarrow> on_curve (candidate H seeds pk b))"
proof (induction n)
  case (Suc n)
  show ?case
  proof (cases "on_curve (candidate H seeds pk n)")
    case True
    then show ?thesis using Suc by (auto simp: createProgramAddress_step [OF assms] less_Suc_eq)
  next
    case False
    then show ?thesis
      by (cases r) (auto simp: createProgramAddress_step [OF assms] less_Suc_eq)
  qed
qed simp

lemma decode_digits_error: "decode_digits cs bs = Inl e \<Longrightarrow> e = Error ''Invalid base58 character''"
  by (induction cs bs rule: decode_digits.induct) (auto split: option.splits)

lemma decodePublicKey_error: "decodePublicKey prog = Inl e \<Longrightarrow> e \<noteq> CURVE_ERROR"
  by (cases prog) (auto simp: decodePublicKey_def CURVE_ERROR_def decodeBase58_def bindR_eq_Inl
      Let_def split: if_splits dest!: decode_digits_error)

lemma find_bump_bad_program:
  assumes "seeds_ok 15 seeds" "decodePublicKey prog = Inl e" "0 < n"
  shows "find_bump H seeds prog n = Inl e"
proof -
  obtain m where n: "n = Suc m" using assms(3) gr0_conv_Suc by blast
  have "createProgramAddress H (seeds @ [[word_of_nat m]]) prog = Inl e"
    using assms(2) validateSeeds_bump [OF assms(1)] by (simp add: createProgramAddress_def del: validateSeeds_Inr)
  with decodePublicKey_error [OF assms(2)] show ?thesis by (simp add: n)
qed

lemma find_bump_none:
  assumes "seeds_ok 15 seeds" "decodePublicKey prog = Inr pk"
    and "\<forall>b < n. on_curve (candidate H seeds pk b)"
  shows "find_bump H seeds prog n = throw ''Unable to find an off-curve program address''"
  using assms(3) by (induction n) (auto simp: createProgramAddress_step [OF assms(1,2)])

lemma findProgramAddress_Inr:
  "findProgramAddress H seeds prog = Inr r \<longleftrightarrow> seeds_ok 15 seeds \<and>
    (\<exists>pk. decodePublicKey prog = Inr pk \<and> find_bump H seeds prog 256 = Inr r)"
proof (cases "seeds_ok 15 seeds")
  case True
  then show ?thesis
    using find_bump_bad_program [OF True, of prog _ 256 H]
    by (cases "decodePublicKey prog") (auto simp: findProgramAddress_def)
next
  case False
  then have "\<exists>e. validateSeeds seeds 15 = Inl e" using validateSeeds_Inr [of seeds 15] by (metis old.sum.exhaust)
  with False show ?thesis by (auto simp: findProgramAddress_def)
qed

lemma findProgramAddress_address:
  assumes "findProgramAddress H seeds prog = Inr r" "\<And>x. length (H x) = 32"
  shows "decodeBase58 (pda_address r) \<noteq> Inl e \<and> is_key (pda_address r)"
proof -
  obtain pk where pk: "seeds_ok 15 seeds" "decodePublicKey prog = Inr pk" "find_bump H seeds prog 256 = Inr r"
    using assms(1) unfolding findProgramAddress_Inr by blast
  then have "pda_address r = encodeBase58 (candidate H seeds pk (pda_bump r))"
    using find_bump_Inr [OF pk(1,2)] by blast
  moreover have "length (candidate H seeds pk (pda_bump r)) = 32" by (simp add: candidate_def assms(2))
  ultimately show ?thesis by (simp add: is_key_encoded decode_encode_base58)
qed

end
