(* ===== verification/ChancerySchema.thy ===== *)
theory ChancerySchema
  imports JsValue ProgramAddress
begin

text \<open>
  \<open>typescript/src/ChancerySchema.ts\<close>: the schema that describes the program's wire formats. The
  schema is a JSON file; here it is a value of the record \<open>chancery_schema\<close>, an argument of every
  operation that consults it. A JavaScript \<open>Record<string, T>\<close> is an association list in the order
  of its properties, read through \<open>map_of\<close>; names inherited from \<open>Object.prototype\<close> are outside the
  model. A string type that is none of the nine primitive names is \<open>OtherPrim\<close>, an object type of
  unknown kind is \<open>UnsupportedT\<close>.
\<close>

section \<open>Types\<close>

datatype primitive = U8 | U16 | U32 | U64 | U128 | I64 | I128 | BoolP | Pubkey | OtherPrim string

datatype type_schema =
    Prim primitive
  | ArrayT type_schema nat
  | OptionT type_schema
  | VectorT type_schema
  | DefinedT string
  | UnsupportedT

fun is_option_type :: "type_schema \<Rightarrow> bool" where
  "is_option_type (OptionT _) = True"
| "is_option_type _ = False"

record field_schema =
  field_name :: string
  field_type :: type_schema

record struct_schema =
  struct_fields :: "field_schema list"

section \<open>Instructions, accounts, events\<close>

datatype pda_seed_schema = ConstSeed bytes | ArgumentSeed string | AccountSeed string

record pda_schema =
  pda_seeds :: "pda_seed_schema list"

datatype default_kind = KnownPda | ProgramAddressDefault | SystemProgramDefault | ZeroAddressDefault

record account_default_schema =
  default_kind :: default_kind
  default_name :: "string option"

record instruction_account_schema =
  ia_name :: string
  ia_writable :: bool
  ia_signer :: bool
  ia_optional :: bool
  ia_relations :: "string list option"
  ia_pda :: "pda_schema option"
  ia_default :: "account_default_schema option"

record instruction_schema =
  ix_discriminator :: bytes
  ix_accounts :: "instruction_account_schema list"
  ix_args :: "field_schema list"

record account_schema = struct_schema +
  account_discriminator :: bytes
  account_size :: nat

record event_schema = struct_schema +
  event_discriminator :: bytes

record known_pda_schema =
  known_pda_seeds :: "bytes list"
  known_pda_address :: string

record constant_schema =
  constant_name :: string
  constant_type :: type_schema
  constant_value :: string

record program_error_schema =
  program_error_name :: string
  program_error_message :: string

record program_schema =
  program_name :: string
  program_version :: string
  program_address :: string
  program_description :: string

record wire_schema =
  instruction_discriminator_bytes :: nat
  account_discriminator_bytes :: nat
  event_discriminator_bytes :: nat
  event_cpi_prefix :: bytes
  public_key_bytes :: nat
  zero_address :: string
  system_program :: string

record chancery_schema =
  schema_version :: nat
  schema_program :: program_schema
  schema_wire :: wire_schema
  known_pdas :: "(string \<times> known_pda_schema) list"
  schema_instructions :: "(string \<times> instruction_schema) list"
  schema_accounts :: "(string \<times> account_schema) list"
  schema_events :: "(string \<times> event_schema) list"
  schema_types :: "(string \<times> struct_schema) list"
  schema_constants :: "constant_schema list"
  schema_errors :: "(string \<times> program_error_schema) list"

section \<open>Loading and looking up\<close>

text \<open>
  \<open>loadSchema\<close> retargets the schema to another deployment by deriving every known address again. The
  parsed JSON is \<open>None\<close> when its root is not an object.
\<close>

definition loadSchema ::
  "(bytes \<Rightarrow> bytes) \<Rightarrow> string \<Rightarrow> chancery_schema option \<Rightarrow> chancery_schema res" where
  "loadSchema H targetProgramAddress schemaValue =
     (case schemaValue of
        None \<Rightarrow> throw ''Chancery schema root must be an object''
      | Some schema \<Rightarrow>
          if program_address (schema_program schema) = targetProgramAddress then Inr schema
          else
            bindR (foldR (\<lambda>(name, pda) knownPdas.
                bindR (findProgramAddress H (known_pda_seeds pda) (KeyText targetProgramAddress))
                  (\<lambda>r. Inr (obj_set knownPdas name
                     \<lparr>known_pda_seeds = known_pda_seeds pda, known_pda_address = pda_address r\<rparr>)))
              (known_pdas schema) [])
            (\<lambda>knownPdas. Inr (schema\<lparr>
               schema_program := (schema_program schema)\<lparr>program_address := targetProgramAddress\<rparr>,
               known_pdas := knownPdas\<rparr>)))"

definition lookup_or :: "string \<Rightarrow> (string \<times> 'a) list \<Rightarrow> string \<Rightarrow> 'a res" where
  "lookup_or msg table name = (case map_of table name of None \<Rightarrow> throw msg | Some x \<Rightarrow> Inr x)"

definition getInstructionSchema :: "chancery_schema \<Rightarrow> string \<Rightarrow> instruction_schema res" where
  "getInstructionSchema S = lookup_or ''Unknown Chancery instruction'' (schema_instructions S)"

definition getAccountSchema :: "chancery_schema \<Rightarrow> string \<Rightarrow> account_schema res" where
  "getAccountSchema S = lookup_or ''Unknown Chancery account'' (schema_accounts S)"

definition getEventSchema :: "chancery_schema \<Rightarrow> string \<Rightarrow> event_schema res" where
  "getEventSchema S = lookup_or ''Unknown Chancery event'' (schema_events S)"

definition getDefinedTypeSchema :: "chancery_schema \<Rightarrow> string \<Rightarrow> struct_schema res" where
  "getDefinedTypeSchema S = lookup_or ''Unknown Chancery defined type'' (schema_types S)"

definition getChanceryConstant :: "chancery_schema \<Rightarrow> string \<Rightarrow> constant_schema res" where
  "getChanceryConstant S constantName =
     (case find (\<lambda>c. constant_name c = constantName) (schema_constants S) of
        None \<Rightarrow> throw ''Unknown Chancery constant''
      | Some c \<Rightarrow> Inr c)"

lemma lookup_or_Inr [simp]: "lookup_or msg table name = Inr x \<longleftrightarrow> map_of table name = Some x"
  by (simp add: lookup_or_def split: option.split)

lemma lookup_or_Inl: "lookup_or msg table name = Inl e \<longleftrightarrow> map_of table name = None \<and> e = Error msg"
  by (auto simp: lookup_or_def split: option.split)

section \<open>A retargeted schema\<close>

definition rederived :: "(bytes \<Rightarrow> bytes) \<Rightarrow> string \<Rightarrow> known_pda_schema \<Rightarrow> bool" where
  "rederived H target pda \<longleftrightarrow>
     (\<exists>r. findProgramAddress H (known_pda_seeds pda) (KeyText target) = Inr r \<and> known_pda_address pda = pda_address r)"

lemma set_obj_set_subset: "set (obj_set ob k v) \<subseteq> insert (k, v) (set ob)"
  by (induction ob) (auto split: if_splits)

lemma loadSchema_rederived:
  assumes "loadSchema H target (Some S) = Inr S'" "program_address (schema_program S) \<noteq> target"
  shows "program_address (schema_program S') = target \<and> (\<forall>(name, pda) \<in> set (known_pdas S'). rederived H target pda) \<and>
    schema_instructions S' = schema_instructions S \<and> schema_accounts S' = schema_accounts S \<and>
    schema_events S' = schema_events S \<and> schema_types S' = schema_types S \<and> schema_wire S' = schema_wire S"
proof -
  obtain pdas where pdas: "foldR (\<lambda>(name, pda) knownPdas.
                bindR (findProgramAddress H (known_pda_seeds pda) (KeyText target))
                  (\<lambda>r. Inr (obj_set knownPdas name
                     \<lparr>known_pda_seeds = known_pda_seeds pda, known_pda_address = pda_address r\<rparr>)))
              (known_pdas S) [] = Inr pdas"
    "S' = S\<lparr>schema_program := (schema_program S)\<lparr>program_address := target\<rparr>, known_pdas := pdas\<rparr>"
    using assms by (auto simp: loadSchema_def)
  have "\<forall>(name, pda) \<in> set pdas. rederived H target pda"
    using pdas(1)
  proof (rule foldR_invariant)
    fix x s t
    assume s: "\<forall>(name, pda) \<in> set s. rederived H target pda" and
      step: "(case x of (name, pda) \<Rightarrow> \<lambda>knownPdas.
                bindR (findProgramAddress H (known_pda_seeds pda) (KeyText target))
                  (\<lambda>r. Inr (obj_set knownPdas name
                     \<lparr>known_pda_seeds = known_pda_seeds pda, known_pda_address = pda_address r\<rparr>))) s = Inr t"
    obtain name pda where x: "x = (name, pda)" by (cases x)
    from step x obtain r where r: "findProgramAddress H (known_pda_seeds pda) (KeyText target) = Inr r"
      "t = obj_set s name \<lparr>known_pda_seeds = known_pda_seeds pda, known_pda_address = pda_address r\<rparr>" by auto
    then have "rederived H target \<lparr>known_pda_seeds = known_pda_seeds pda, known_pda_address = pda_address r\<rparr>"
      by (simp add: rederived_def)
    with s r(2) show "\<forall>(name, pda) \<in> set t. rederived H target pda"
      using set_obj_set_subset [of s name "\<lparr>known_pda_seeds = known_pda_seeds pda, known_pda_address = pda_address r\<rparr>"]
      by fastforce
  qed simp
  then show ?thesis by (simp add: pdas(2))
qed

end
