(* ===== verification/Reader.thy ===== *)
theory Reader
  imports TextCodec
begin

text \<open>
  Sequential readers. Two classes of the code read a byte array from front to back, \<open>BinaryReader\<close>
  (\<open>BinaryCodec.ts\<close>) and \<open>MessageReader\<close> (\<open>squads/SquadsVaultMessage.ts\<close>). A function that reads
  with such an object maps the reader to its result and the advanced reader; \<open>bindP\<close> sequences two
  of them. The locale \<open>byte_reader\<close> is the interface both classes provide, and the lemmas on
  composed readers are proved once for it.
\<close>

type_synonym ('r, 'a) parser = "'r \<Rightarrow> ('a \<times> 'r) res"

definition returnP :: "'a \<Rightarrow> ('r, 'a) parser" where
  "returnP x r = Inr (x, r)"

definition failP :: "string \<Rightarrow> ('r, 'a) parser" where
  "failP msg r = throw msg"

definition bindP :: "('r, 'a) parser \<Rightarrow> ('a \<Rightarrow> ('r, 'b) parser) \<Rightarrow> ('r, 'b) parser" where
  "bindP p f r = bindR (p r) (\<lambda>(x, r'). f x r')"

definition mapP :: "('a \<Rightarrow> 'b) \<Rightarrow> ('r, 'a) parser \<Rightarrow> ('r, 'b) parser" where
  "mapP f p = bindP p (\<lambda>x. returnP (f x))"

text \<open>The loop \<open>for (i = 0; i < n; i++) values.push(p(reader))\<close>.\<close>

fun repeatP :: "nat \<Rightarrow> ('r, 'a) parser \<Rightarrow> ('r, 'a list) parser" where
  "repeatP 0 p = returnP []"
| "repeatP (Suc n) p = bindP p (\<lambda>x. bindP (repeatP n p) (\<lambda>xs. returnP (x # xs)))"

lemma bindP_Inr: "bindP p f r = Inr z \<longleftrightarrow> (\<exists>x r'. p r = Inr (x, r') \<and> f x r' = Inr z)"
  by (auto simp: bindP_def)

lemma returnP_Inr: "returnP x r = Inr z \<longleftrightarrow> z = (x, r)"
  by (auto simp: returnP_def)

lemma failP_Inr: "\<not> failP msg r = Inr z"
  by (simp add: failP_def)

lemma mapP_Inr: "mapP f p r = Inr z \<longleftrightarrow> (\<exists>x r'. p r = Inr (x, r') \<and> z = (f x, r'))"
  by (auto simp: mapP_def bindP_Inr returnP_Inr)

lemma bindP_return [simp]: "bindP p returnP = p"
  by (rule ext) (simp add: bindP_def returnP_def split_def)

lemmas parser_Inr = bindP_Inr returnP_Inr failP_Inr mapP_Inr

text \<open>
  \<open>unread r\<close> is the input the reader \<open>r\<close> has still to read, \<open>None\<close> for a state of the object that no
  constructor or method leaves behind. \<open>accepts unread p bs x\<close>: wherever the unread input starts with
  \<open>bs\<close>, the reader function \<open>p\<close> returns \<open>x\<close> and leaves exactly the rest unread. \<open>consumes unread p S\<close>:
  whenever \<open>p\<close> succeeds, it has read bytes \<open>bs\<close> and returned a value \<open>x\<close> that stand in the relation \<open>S\<close>.
\<close>

definition accepts :: "('r \<Rightarrow> bytes option) \<Rightarrow> ('r, 'a) parser \<Rightarrow> bytes \<Rightarrow> 'a \<Rightarrow> bool" where
  "accepts unread p bs x \<longleftrightarrow>
     (\<forall>r rest. unread r = Some (bs @ rest) \<longrightarrow> (\<exists>r'. p r = Inr (x, r') \<and> unread r' = Some rest))"

definition consumes :: "('r \<Rightarrow> bytes option) \<Rightarrow> ('r, 'a) parser \<Rightarrow> (bytes \<Rightarrow> 'a \<Rightarrow> bool) \<Rightarrow> bool" where
  "consumes unread p S \<longleftrightarrow>
     (\<forall>r us x r'. unread r = Some us \<longrightarrow> p r = Inr (x, r') \<longrightarrow>
        (\<exists>bs rest. us = bs @ rest \<and> unread r' = Some rest \<and> S bs x))"

lemma acceptsD:
  "accepts unread p bs x \<Longrightarrow> unread r = Some (bs @ rest) \<Longrightarrow>
   \<exists>r'. p r = Inr (x, r') \<and> unread r' = Some rest"
  by (simp add: accepts_def)

lemma consumesD:
  "consumes unread p S \<Longrightarrow> unread r = Some us \<Longrightarrow> p r = Inr (x, r') \<Longrightarrow>
   \<exists>bs rest. us = bs @ rest \<and> unread r' = Some rest \<and> S bs x"
  by (simp add: consumes_def)

lemma accepts_return [codec_intros]: "accepts unread (returnP x) [] x"
  by (simp add: accepts_def returnP_def)

lemma accepts_bind [codec_intros]:
  assumes "accepts unread p bs x" "accepts unread (f x) cs y"
  shows "accepts unread (bindP p f) (bs @ cs) y"
  unfolding accepts_def
proof (intro allI impI)
  fix r rest assume "unread r = Some ((bs @ cs) @ rest)"
  then obtain r1 where r1: "p r = Inr (x, r1)" "unread r1 = Some (cs @ rest)"
    using acceptsD [OF assms(1), of r "cs @ rest"] by auto
  with acceptsD [OF assms(2) r1(2)] show "\<exists>r'. bindP p f r = Inr (y, r') \<and> unread r' = Some rest"
    by (auto simp: bindP_def)
qed

lemma accepts_bind_return: "accepts unread p bs x \<Longrightarrow> accepts unread (bindP p (\<lambda>x. returnP (f x))) bs (f x)"
  using accepts_bind [OF _ accepts_return, of unread p bs x f] by simp

lemma accepts_map: "accepts unread p bs x \<Longrightarrow> y = f x \<Longrightarrow> accepts unread (mapP f p) bs y"
  by (simp add: mapP_def accepts_bind_return)

lemma accepts_repeat:
  "list_all2 (accepts unread p) bss xs \<Longrightarrow> accepts unread (repeatP (length xs) p) (concat bss) xs"
proof (induction bss xs rule: list_all2_induct)
  case Nil
  then show ?case by (simp add: accepts_return)
next
  case (Cons bs bss x xs)
  have "accepts unread (bindP (repeatP (length xs) p) (\<lambda>xs. returnP (x # xs))) (concat bss) (x # xs)"
    using Cons by (intro accepts_bind_return)
  then show ?case using Cons by (auto intro: accepts_bind)
qed

lemma consumes_return: "S [] x \<Longrightarrow> consumes unread (returnP x) S"
  by (auto simp: consumes_def returnP_def)

lemma consumes_fail: "consumes unread (failP msg) S"
  by (simp add: consumes_def failP_def)

lemma consumes_bind:
  assumes "consumes unread p S" "\<And>x bs. S bs x \<Longrightarrow> consumes unread (f x) (\<lambda>cs y. T (bs @ cs) y)"
  shows "consumes unread (bindP p f) T"
  unfolding consumes_def bindP_Inr
proof (intro allI impI, elim exE conjE)
  fix r us y r' x r1 assume r: "unread r = Some us" and p: "p r = Inr (x, r1)" and f: "f x r1 = Inr (y, r')"
  then obtain bs rest where bs: "us = bs @ rest" "unread r1 = Some rest" "S bs x"
    using consumesD [OF assms(1) r p] by blast
  obtain cs rest' where "rest = cs @ rest'" "unread r' = Some rest'" "T (bs @ cs) y"
    using consumesD [OF assms(2) bs(2) f, OF bs(3)] by blast
  with bs(1) show "\<exists>bs rest. us = bs @ rest \<and> unread r' = Some rest \<and> T bs y"
    by (intro exI [of _ "bs @ cs"] exI [of _ rest']) simp
qed

lemma consumes_weaken: "consumes unread p S \<Longrightarrow> (\<And>bs x. S bs x \<Longrightarrow> T bs x) \<Longrightarrow> consumes unread p T"
  using consumes_bind [of unread p S returnP T] by (simp add: consumes_return bindP_return)

lemma consumes_map: "consumes unread p (\<lambda>bs x. S bs (f x)) \<Longrightarrow> consumes unread (mapP f p) S"
  unfolding mapP_def by (erule consumes_bind) (simp add: consumes_return)

lemma consumes_repeat:
  assumes "consumes unread p S"
  shows "consumes unread (repeatP n p)
    (\<lambda>bs xs. length xs = n \<and> (\<exists>bss. bs = concat bss \<and> list_all2 S bss xs))"
proof (induction n)
  case 0
  then show ?case by (simp add: consumes_return)
next
  case (Suc n)
  show ?case unfolding repeatP.simps
  proof (rule consumes_bind [OF assms], rule consumes_bind [OF Suc], rule consumes_return)
    fix x bs xs cs
    assume "S bs x" "length xs = n \<and> (\<exists>bss. cs = concat bss \<and> list_all2 S bss xs)"
    then obtain bss where "cs = concat bss" "list_all2 S (bs # bss) (x # xs)" "length xs = n" by auto
    then show "length (x # xs) = Suc n \<and>
      (\<exists>bss. bs @ cs @ [] = concat bss \<and> list_all2 S bss (x # xs))"
      by (intro conjI exI [of _ "bs # bss"]) auto
  qed
qed

section \<open>Exact readers\<close>

text \<open>
  A reader function is \<open>exact\<close> for a relation between bytes and values when it returns \<open>x\<close> after reading \<open>bs\<close>
  precisely for the related pairs: it accepts all of them and consumes nothing else.
\<close>

definition exact :: "('r \<Rightarrow> bytes option) \<Rightarrow> ('r, 'a) parser \<Rightarrow> (bytes \<Rightarrow> 'a \<Rightarrow> bool) \<Rightarrow> bool" where
  "exact unread p R \<longleftrightarrow> (\<forall>bs x. R bs x \<longrightarrow> accepts unread p bs x) \<and> consumes unread p R"

lemma exact_return: "exact unread (returnP x) (\<lambda>bs y. bs = [] \<and> y = x)"
  by (auto simp: exact_def accepts_return intro: consumes_return)

lemma exact_fail: "exact unread (failP msg) (\<lambda>bs y. False)"
  by (simp add: exact_def consumes_fail)

lemma exact_bind:
  assumes p: "exact unread p R" and f: "\<And>x bs. R bs x \<Longrightarrow> exact unread (f x) (T x)"
  shows "exact unread (bindP p f) (\<lambda>bs y. \<exists>b1 x b2. bs = b1 @ b2 \<and> R b1 x \<and> T x b2 y)"
  unfolding exact_def
proof (intro conjI allI impI)
  fix bs y assume "\<exists>b1 x b2. bs = b1 @ b2 \<and> R b1 x \<and> T x b2 y"
  then obtain b1 x b2 where b: "bs = b1 @ b2" "R b1 x" "T x b2 y" by blast
  then have "accepts unread p b1 x" "accepts unread (f x) b2 y" using p f by (auto simp: exact_def)
  then show "accepts unread (bindP p f) bs y" unfolding b(1) by (rule accepts_bind)
next
  have "consumes unread p R" using p by (simp add: exact_def)
  then show "consumes unread (bindP p f) (\<lambda>bs y. \<exists>b1 x b2. bs = b1 @ b2 \<and> R b1 x \<and> T x b2 y)"
  proof (rule consumes_bind)
    fix x bs assume R: "R bs x"
    then have "consumes unread (f x) (T x)" using f by (simp add: exact_def)
    then show "consumes unread (f x) (\<lambda>cs y. \<exists>b1 x b2. bs @ cs = b1 @ b2 \<and> R b1 x \<and> T x b2 y)"
      by (rule consumes_weaken) (use R in blast)
  qed
qed

lemma exact_cong: "exact unread p R \<Longrightarrow> (\<And>bs x. R bs x \<longleftrightarrow> S bs x) \<Longrightarrow> exact unread p S"
proof -
  assume "exact unread p R" and eq: "\<And>bs x. R bs x \<longleftrightarrow> S bs x"
  moreover have "R = S" by (intro ext) (rule eq)
  ultimately show ?thesis by simp
qed

lemma exact_map: "exact unread p R \<Longrightarrow> exact unread (mapP f p) (\<lambda>bs y. \<exists>x. R bs x \<and> y = f x)"
  unfolding mapP_def by (drule exact_bind [where T = "\<lambda>x bs y. bs = [] \<and> y = f x"]) (auto intro: exact_return exact_cong)

lemma exact_repeat:
  assumes "exact unread p R"
  shows "exact unread (repeatP n p) (\<lambda>bs xs. length xs = n \<and> (\<exists>bss. bs = concat bss \<and> list_all2 R bss xs))"
  unfolding exact_def
proof (intro conjI allI impI)
  fix bs xs assume "length xs = n \<and> (\<exists>bss. bs = concat bss \<and> list_all2 R bss xs)"
  then obtain bss where b: "length xs = n" "bs = concat bss" "list_all2 R bss xs" by blast
  have "list_all2 (accepts unread p) bss xs"
    using b(3) by (rule list_all2_mono) (use assms in \<open>auto simp: exact_def\<close>)
  from accepts_repeat [OF this] show "accepts unread (repeatP n p) bs xs" using b by simp
next
  show "consumes unread (repeatP n p) (\<lambda>bs xs. length xs = n \<and> (\<exists>bss. bs = concat bss \<and> list_all2 R bss xs))"
    using assms by (intro consumes_repeat) (simp add: exact_def)
qed

lemma exact_whole:
  assumes "exact unread p R" "unread r = Some bs"
  shows "(\<exists>r'. p r = Inr (x, r') \<and> unread r' = Some []) \<longleftrightarrow> R bs x"
proof
  assume "\<exists>r'. p r = Inr (x, r') \<and> unread r' = Some []"
  then obtain r' where r': "p r = Inr (x, r')" "unread r' = Some []" by blast
  have "consumes unread p R" using assms(1) by (simp add: exact_def)
  from consumesD [OF this assms(2) r'(1)] r'(2) show "R bs x" by auto
next
  assume "R bs x"
  then have "accepts unread p bs x" using assms(1) by (simp add: exact_def)
  from acceptsD [OF this, of r "[]"] assms(2) show "\<exists>r'. p r = Inr (x, r') \<and> unread r' = Some []" by simp
qed

section \<open>The interface of a reader class\<close>

locale byte_reader =
  fixes readN :: "nat \<Rightarrow> ('r, bytes) parser" and unread :: "'r \<Rightarrow> bytes option"
  assumes read_enough: "unread r = Some us \<Longrightarrow> n \<le> length us \<Longrightarrow>
      \<exists>r'. readN n r = Inr (take n us, r') \<and> unread r' = Some (drop n us)"
    and read_short: "unread r = Some us \<Longrightarrow> length us < n \<Longrightarrow> \<not> is_ok (readN n r)"
begin

lemma accepts_read: "length bs = n \<Longrightarrow> accepts unread (readN n) bs bs"
  unfolding accepts_def
proof (intro allI impI)
  fix r rest assume "length bs = n" "unread r = Some (bs @ rest)"
  with read_enough [of r "bs @ rest" n] show "\<exists>r'. readN n r = Inr (bs, r') \<and> unread r' = Some rest" by auto
qed

lemma consumes_read: "consumes unread (readN n) (\<lambda>bs x. x = bs \<and> length bs = n)"
  unfolding consumes_def
proof (intro allI impI)
  fix r us x r' assume r: "unread r = Some us" and ok: "readN n r = Inr (x, r')"
  then have n: "n \<le> length us" using read_short [of r us n] by (metis is_ok_simps(1) not_le)
  with read_enough [OF r n] ok
  show "\<exists>bs rest. us = bs @ rest \<and> unread r' = Some rest \<and> x = bs \<and> length bs = n"
    by (intro exI [of _ "take n us"] exI [of _ "drop n us"]) auto
qed

lemma exact_read: "exact unread (readN n) (\<lambda>bs x. x = bs \<and> length bs = n)"
  using accepts_read consumes_read by (auto simp: exact_def)

lemma read_ok_iff: "unread r = Some us \<Longrightarrow> is_ok (readN n r) \<longleftrightarrow> n \<le> length us"
  using read_enough [of r us n] read_short [of r us n] by (metis is_ok_simps(1) not_le)

text \<open>Reading a number of known width, and a length-prefixed block.\<close>

lemma accepts_prefixed:
  assumes "accepts unread p hdr (length bs)"
  shows "accepts unread (bindP p readN) (hdr @ bs) bs"
  by (rule accepts_bind [OF assms]) (simp add: accepts_read)

end

end
