(* ===== verification/BinaryCodec.thy ===== *)
theory BinaryCodec
  imports ChancerySchema Reader
begin

text \<open>
  \<open>typescript/src/BinaryCodec.ts\<close>: the schema-driven binary codec. \<open>encodeType\<close> and \<open>decodeType\<close>
  follow the type: the functions \<open>..._with\<close> recurse on its structure and take what happens at a
  \<open>defined\<close> type as an argument; \<open>encode_defined\<close>, \<open>decode_defined\<close> and \<open>zero_defined\<close> supply it by
  recursion on the call depth that is left. JavaScript's stack bounds that depth and throws a
  \<open>RangeError\<close> when it is exhausted; \<open>STACK_DEPTH\<close> nested \<open>defined\<close> types stand for the bound, and
  \<open>encode_defined_resolves\<close> shows that a type whose nesting ends before it is not affected by it.
  The \<open>label\<close> arguments only feed error messages and are left out.
\<close>

section \<open>Integers\<close>

definition integerFromValue :: "js \<Rightarrow> int res" where
  "integerFromValue value =
     (case value of
        JBig n \<Rightarrow> Inr n
      | JNum n \<Rightarrow>
          if is_safe_integer n then Inr n
          else throw ''value must be a bigint, safe integer, or decimal integer string''
      | JStr s \<Rightarrow>
          if is_signed_decimal s then Inr (parse_signed_decimal s)
          else throw ''value must be a bigint, safe integer, or decimal integer string''
      | _ \<Rightarrow> throw ''value must be a bigint, safe integer, or decimal integer string'')"

definition encodeUnsignedInteger :: "js \<Rightarrow> nat \<Rightarrow> bytes res" where
  "encodeUnsignedInteger value byteLength =
     bindR (integerFromValue value) (\<lambda>integerValue.
       if integerValue < 0 \<or> 2 ^ (byteLength * 8) \<le> integerValue
       then throw ''value is outside the unsigned range''
       else Inr (map word_of_nat (low_digits 256 byteLength (nat integerValue))))"

definition encodeSignedInteger :: "js \<Rightarrow> nat \<Rightarrow> bytes res" where
  "encodeSignedInteger value byteLength =
     bindR (integerFromValue value) (\<lambda>integerValue.
       let bitLength = byteLength * 8;
           minimumValue = - (2 ^ (bitLength - 1));
           maximumValue = 2 ^ (bitLength - 1) - 1 in
       if integerValue < minimumValue \<or> maximumValue < integerValue
       then throw ''value is outside the signed range''
       else encodeUnsignedInteger
              (JBig (if integerValue < 0 then integerValue + 2 ^ bitLength else integerValue)) byteLength)"

definition decodeUnsignedInteger :: "bytes \<Rightarrow> int" where
  "decodeUnsignedInteger bs = int (digits_value 256 (map unat bs))"

definition decodeSignedInteger :: "bytes \<Rightarrow> int" where
  "decodeSignedInteger bs =
     (let unsignedValue = decodeUnsignedInteger bs;
          bitLength = length bs * 8 in
      if bit unsignedValue (bitLength - 1) then unsignedValue - 2 ^ bitLength else unsignedValue)"

section \<open>Values\<close>

fun byteFromNumber :: "js \<Rightarrow> byte res" where
  "byteFromNumber (JNum n) =
     (if n < 0 \<or> 255 < n then throw ''value must be an unsigned byte'' else Inr (word_of_int n))"
| "byteFromNumber _ = throw ''value must be an unsigned byte''"

definition BYTES_MESSAGE :: string where
  "BYTES_MESSAGE = ''value must be Uint8Array, an unsigned-byte array, 0x-prefixed hexadecimal, or base64-prefixed data''"

definition bytesFromValue :: "js \<Rightarrow> bytes res" where
  "bytesFromValue value =
     (case value of
        JBytes bs \<Rightarrow> Inr bs
      | JArr xs \<Rightarrow> mapR byteFromNumber xs
      | JStr s \<Rightarrow>
          if startsWith s ''0x'' then decodeHex s
          else if startsWith s ''base64:'' then decodeBase64 (drop 7 s)
          else throw BYTES_MESSAGE
      | _ \<Rightarrow> throw BYTES_MESSAGE)"

definition recordFromValue :: "js \<Rightarrow> js_object res" where
  "recordFromValue value = (case value of JObj ob \<Rightarrow> Inr ob | _ \<Rightarrow> throw ''value must be an object'')"

definition arrayFromValue :: "js \<Rightarrow> js list res" where
  "arrayFromValue value = (case value of JArr xs \<Rightarrow> Inr xs | _ \<Rightarrow> throw ''value must be an array'')"

section \<open>Encoding\<close>

definition encodePrimitive :: "primitive \<Rightarrow> js \<Rightarrow> bytes res" where
  "encodePrimitive typeName value =
     (case typeName of
        U8 \<Rightarrow> encodeUnsignedInteger value 1
      | U16 \<Rightarrow> encodeUnsignedInteger value 2
      | U32 \<Rightarrow> encodeUnsignedInteger value 4
      | U64 \<Rightarrow> encodeUnsignedInteger value 8
      | U128 \<Rightarrow> encodeUnsignedInteger value 16
      | I64 \<Rightarrow> encodeSignedInteger value 8
      | I128 \<Rightarrow> encodeSignedInteger value 16
      | BoolP \<Rightarrow> (case value of JBool b \<Rightarrow> Inr [if b then 1 else 0] | _ \<Rightarrow> throw ''value must be a boolean'')
      | Pubkey \<Rightarrow>
          bindR (case value of JStr s \<Rightarrow> decodeBase58 s | _ \<Rightarrow> bytesFromValue value) (\<lambda>publicKeyBytes.
            if length publicKeyBytes \<noteq> 32 then throw ''public key must contain 32 bytes''
            else Inr publicKeyBytes)
      | OtherPrim _ \<Rightarrow> throw ''Unsupported primitive type'')"

primrec encode_type_with :: "(string \<Rightarrow> js \<Rightarrow> bytes res) \<Rightarrow> type_schema \<Rightarrow> js \<Rightarrow> bytes res" where
  "encode_type_with defined (Prim p) value = encodePrimitive p value"
| "encode_type_with defined (OptionT item) value =
     (if value = JNull \<or> value = JUndef then Inr [0]
      else bindR (encode_type_with defined item value) (\<lambda>body. Inr (concatenateBytes [[1], body])))"
| "encode_type_with defined (ArrayT item n) value =
     (if item = Prim U8 then
        bindR (bytesFromValue value) (\<lambda>bs.
          if length bs \<noteq> n then throw ''value must contain exactly this many bytes'' else Inr bs)
      else
        bindR (arrayFromValue value) (\<lambda>values.
          if length values \<noteq> n then throw ''value must contain exactly this many items''
          else bindR (mapR (encode_type_with defined item) values) (\<lambda>parts. Inr (concatenateBytes parts))))"
| "encode_type_with defined (VectorT item) value =
     (if item = Prim U8 then
        bindR (bytesFromValue value) (\<lambda>bs.
        bindR (encodeUnsignedInteger (JNum (int (length bs))) 4) (\<lambda>lengthBytes.
          Inr (concatenateBytes [lengthBytes, bs])))
      else
        bindR (arrayFromValue value) (\<lambda>values.
        bindR (encodeUnsignedInteger (JNum (int (length values))) 4) (\<lambda>lengthBytes.
        bindR (mapR (encode_type_with defined item) values) (\<lambda>parts.
          Inr (concatenateBytes (lengthBytes # parts))))))"
| "encode_type_with defined (DefinedT name) value = defined name value"
| "encode_type_with defined UnsupportedT value = throw ''Unsupported type schema''"

text \<open>The zero value of a type, used for absent padding fields.\<close>

definition zeroValueForPrimitive :: "primitive \<Rightarrow> js" where
  "zeroValueForPrimitive p =
     (case p of BoolP \<Rightarrow> JBool False | Pubkey \<Rightarrow> JBytes (replicate 32 0) | _ \<Rightarrow> JNum 0)"

primrec zero_type_with :: "(string \<Rightarrow> js res) \<Rightarrow> type_schema \<Rightarrow> js res" where
  "zero_type_with defined (Prim p) = Inr (zeroValueForPrimitive p)"
| "zero_type_with defined (OptionT item) = Inr JNull"
| "zero_type_with defined (VectorT item) = Inr (if item = Prim U8 then JBytes [] else JArr [])"
| "zero_type_with defined (ArrayT item n) =
     (if item = Prim U8 then Inr (JBytes (replicate n 0))
      else bindR (mapR (\<lambda>_. zero_type_with defined item) [0..<n]) (\<lambda>values. Inr (JArr values)))"
| "zero_type_with defined (DefinedT name) = defined name"
| "zero_type_with defined UnsupportedT = throw ''Unsupported type schema''"

definition STACK_OVERFLOW :: error where
  "STACK_OVERFLOW = RangeError ''Maximum call stack size exceeded''"

primrec zero_defined :: "chancery_schema \<Rightarrow> nat \<Rightarrow> string \<Rightarrow> js res" where
  "zero_defined S 0 = (\<lambda>name. Inl STACK_OVERFLOW)"
| "zero_defined S (Suc depth) = (\<lambda>name.
     bindR (getDefinedTypeSchema S name) (\<lambda>structSchema.
     bindR (foldR (\<lambda>field values.
         bindR (zero_type_with (zero_defined S depth) (field_type field))
           (\<lambda>v. Inr (obj_set values (field_name field) v))) (struct_fields structSchema) [])
       (\<lambda>values. Inr (JObj values))))"

definition STACK_DEPTH :: nat where
  "STACK_DEPTH = 1000"

definition zeroValueForType :: "chancery_schema \<Rightarrow> type_schema \<Rightarrow> js res" where
  "zeroValueForType S = zero_type_with (zero_defined S STACK_DEPTH)"

text \<open>The body of the loop of \<open>encodeStruct\<close>, then the loop.\<close>

definition is_padding_name :: "string \<Rightarrow> bool" where
  "is_padding_name name \<longleftrightarrow> startsWith name ''_pad'' \<or> startsWith name ''_reserved''"

definition encode_field ::
  "chancery_schema \<Rightarrow> (string \<Rightarrow> js \<Rightarrow> bytes res) \<Rightarrow> js_object \<Rightarrow> bool \<Rightarrow> field_schema \<Rightarrow> bytes res" where
  "encode_field S defined values defaultMissingPadding field =
     bindR (if obj_get values (field_name field) = JUndef \<and> defaultMissingPadding
               \<and> is_padding_name (field_name field)
            then zeroValueForType S (field_type field)
            else Inr (obj_get values (field_name field)))
       (\<lambda>fieldValue.
          if fieldValue = JUndef \<and> \<not> is_option_type (field_type field) then throw ''field is required''
          else encode_type_with defined (field_type field) fieldValue)"

definition encode_struct_with ::
  "chancery_schema \<Rightarrow> (string \<Rightarrow> js \<Rightarrow> bytes res) \<Rightarrow> field_schema list \<Rightarrow> js_object \<Rightarrow> bool \<Rightarrow> bytes res" where
  "encode_struct_with S defined fieldList values defaultMissingPadding =
     bindR (mapR (encode_field S defined values defaultMissingPadding) fieldList)
       (\<lambda>parts. Inr (concatenateBytes parts))"

primrec encode_defined :: "chancery_schema \<Rightarrow> nat \<Rightarrow> string \<Rightarrow> js \<Rightarrow> bytes res" where
  "encode_defined S 0 = (\<lambda>name value. Inl STACK_OVERFLOW)"
| "encode_defined S (Suc depth) = (\<lambda>name value.
     bindR (getDefinedTypeSchema S name) (\<lambda>structSchema.
     bindR (recordFromValue value) (\<lambda>ob.
       encode_struct_with S (encode_defined S depth) (struct_fields structSchema) ob False)))"

definition encodeType :: "chancery_schema \<Rightarrow> type_schema \<Rightarrow> js \<Rightarrow> bytes res" where
  "encodeType S = encode_type_with (encode_defined S STACK_DEPTH)"

definition encodeStruct :: "chancery_schema \<Rightarrow> field_schema list \<Rightarrow> js_object \<Rightarrow> bool \<Rightarrow> bytes res" where
  "encodeStruct S = encode_struct_with S (encode_defined S STACK_DEPTH)"

section \<open>Decoding\<close>

record binary_reader =
  rbytes :: bytes
  roffset :: nat

definition newBinaryReader :: "bytes \<Rightarrow> nat \<Rightarrow> binary_reader res" where
  "newBinaryReader bs off =
     (if length bs < off then throw ''BinaryReader offset is outside the input range''
      else Inr \<lparr>rbytes = bs, roffset = off\<rparr>)"

definition reader_remaining :: "binary_reader \<Rightarrow> int" where
  "reader_remaining r = int (length (rbytes r)) - int (roffset r)"

definition readBytes :: "nat \<Rightarrow> (binary_reader, bytes) parser" where
  "readBytes byteLength r =
     (if length (rbytes r) < roffset r + byteLength then throw ''more bytes required than remaining''
      else Inr (take byteLength (drop (roffset r) (rbytes r)), r\<lparr>roffset := roffset r + byteLength\<rparr>))"

abbreviation readUnsigned :: "nat \<Rightarrow> (binary_reader, int) parser" where
  "readUnsigned n \<equiv> mapP decodeUnsignedInteger (readBytes n)"

definition decodePrimitive :: "primitive \<Rightarrow> (binary_reader, js) parser" where
  "decodePrimitive typeName =
     (case typeName of
        U8 \<Rightarrow> mapP JNum (readUnsigned 1)
      | U16 \<Rightarrow> mapP JNum (readUnsigned 2)
      | U32 \<Rightarrow> mapP JNum (readUnsigned 4)
      | U64 \<Rightarrow> mapP JBig (readUnsigned 8)
      | U128 \<Rightarrow> mapP JBig (readUnsigned 16)
      | I64 \<Rightarrow> mapP (\<lambda>bs. JBig (decodeSignedInteger bs)) (readBytes 8)
      | I128 \<Rightarrow> mapP (\<lambda>bs. JBig (decodeSignedInteger bs)) (readBytes 16)
      | BoolP \<Rightarrow> bindP (readUnsigned 1) (\<lambda>value.
          if value \<noteq> 0 \<and> value \<noteq> 1 then failP ''value contains an invalid boolean tag''
          else returnP (JBool (value = 1)))
      | Pubkey \<Rightarrow> mapP (\<lambda>bs. JStr (encodeBase58 bs)) (readBytes 32)
      | OtherPrim _ \<Rightarrow> failP ''Unsupported primitive type'')"

primrec decode_type_with ::
  "(string \<Rightarrow> (binary_reader, js) parser) \<Rightarrow> type_schema \<Rightarrow> (binary_reader, js) parser" where
  "decode_type_with defined (Prim p) = decodePrimitive p"
| "decode_type_with defined (OptionT item) =
     bindP (readUnsigned 1) (\<lambda>tag.
       if tag = 0 then returnP JNull
       else if tag \<noteq> 1 then failP ''value contains an invalid option tag''
       else decode_type_with defined item)"
| "decode_type_with defined (ArrayT item n) =
     (if item = Prim U8 then mapP JBytes (readBytes n)
      else mapP JArr (repeatP n (decode_type_with defined item)))"
| "decode_type_with defined (VectorT item) =
     bindP (readUnsigned 4) (\<lambda>n.
       if item = Prim U8 then mapP JBytes (readBytes (nat n))
       else mapP JArr (repeatP (nat n) (decode_type_with defined item)))"
| "decode_type_with defined (DefinedT name) = defined name"
| "decode_type_with defined UnsupportedT = failP ''Unsupported type schema''"

fun decode_fields_with ::
  "(string \<Rightarrow> (binary_reader, js) parser) \<Rightarrow> field_schema list \<Rightarrow> js_object \<Rightarrow> (binary_reader, js_object) parser" where
  "decode_fields_with defined [] values = returnP values"
| "decode_fields_with defined (field # fieldList) values =
     bindP (decode_type_with defined (field_type field)) (\<lambda>v.
       decode_fields_with defined fieldList (obj_set values (field_name field) v))"

primrec decode_defined :: "chancery_schema \<Rightarrow> nat \<Rightarrow> string \<Rightarrow> (binary_reader, js) parser" where
  "decode_defined S 0 = (\<lambda>name r. Inl STACK_OVERFLOW)"
| "decode_defined S (Suc depth) = (\<lambda>name r.
     bindR (getDefinedTypeSchema S name) (\<lambda>structSchema.
       mapP JObj (decode_fields_with (decode_defined S depth) (struct_fields structSchema) []) r))"

definition decodeType :: "chancery_schema \<Rightarrow> type_schema \<Rightarrow> (binary_reader, js) parser" where
  "decodeType S = decode_type_with (decode_defined S STACK_DEPTH)"

definition decodeStruct :: "chancery_schema \<Rightarrow> field_schema list \<Rightarrow> (binary_reader, js_object) parser" where
  "decodeStruct S fieldList = decode_fields_with (decode_defined S STACK_DEPTH) fieldList []"

section \<open>Fields and JSON output\<close>

definition fieldSchemaByName :: "field_schema list \<Rightarrow> string \<Rightarrow> field_schema res" where
  "fieldSchemaByName fieldList fieldName =
     (case find (\<lambda>f. field_name f = fieldName) fieldList of
        None \<Rightarrow> throw ''Unknown field'' | Some f \<Rightarrow> Inr f)"

definition chanceryJsonReplacer :: "js \<Rightarrow> js" where
  "chanceryJsonReplacer value =
     (case value of
        JBig n \<Rightarrow> JStr (show_int n)
      | JBytes bs \<Rightarrow> JStr (''0x'' @ bytesToHex bs)
      | _ \<Rightarrow> value)"

section \<open>The reader is a reader\<close>

definition reader_unread :: "binary_reader \<Rightarrow> bytes option" where
  "reader_unread r = (if roffset r \<le> length (rbytes r) then Some (drop (roffset r) (rbytes r)) else None)"

lemma newBinaryReader_Inr:
  "newBinaryReader bs off = Inr r \<longleftrightarrow> off \<le> length bs \<and> r = \<lparr>rbytes = bs, roffset = off\<rparr>"
  by (auto simp: newBinaryReader_def)

lemma newBinaryReader_unread: "newBinaryReader bs off = Inr r \<Longrightarrow> reader_unread r = Some (drop off bs)"
  by (auto simp: newBinaryReader_Inr reader_unread_def)

lemma reader_unread_nil: "reader_unread r = Some us \<Longrightarrow> reader_remaining r = int (length us)"
  by (auto simp: reader_unread_def reader_remaining_def of_nat_diff split: if_splits)

interpretation binary: byte_reader readBytes reader_unread
proof unfold_locales
  fix r us and n :: nat
  assume "reader_unread r = Some us" "n \<le> length us"
  then show "\<exists>r'. readBytes n r = Inr (take n us, r') \<and> reader_unread r' = Some (drop n us)"
    by (auto simp: reader_unread_def readBytes_def add.commute split: if_splits)
next
  fix r us and n :: nat
  assume "reader_unread r = Some us" "length us < n"
  then show "\<not> is_ok (readBytes n r)"
    by (auto simp: reader_unread_def readBytes_def split: if_splits)
qed

section \<open>Integers round trip\<close>

lemma map_unat_word_of_nat: "all_below 256 ds \<Longrightarrow> map unat (map (word_of_nat :: nat \<Rightarrow> byte) ds) = ds"
  by (induction ds) (simp_all add: unat_of_nat)

lemma all_below_unat [simp]: "all_below 256 (map unat (bs :: bytes))"
  by (simp add: all_below_def list_all_iff)

lemma decodeUnsignedInteger_bounds:
  "0 \<le> decodeUnsignedInteger bs \<and> decodeUnsignedInteger bs < 2 ^ (length bs * 8)"
proof -
  have "digits_value 256 (map unat bs) < 256 ^ length bs"
    using digits_value_less [of 256 "map unat bs"] by simp
  also have "(256 :: nat) ^ length bs = 2 ^ (length bs * 8)"
    by (simp add: mult.commute [of "length bs"] power_mult)
  finally have "int (digits_value 256 (map unat bs)) < int (2 ^ (length bs * 8))"
    by (simp only: of_nat_less_iff)
  then show ?thesis by (simp add: decodeUnsignedInteger_def)
qed

lemma encode_decode_unsigned:
  "integerFromValue v = Inr (decodeUnsignedInteger bs) \<Longrightarrow> length bs = n \<Longrightarrow> encodeUnsignedInteger v n = Inr bs"
  using decodeUnsignedInteger_bounds [of bs] low_digits_digits_value [of 256 "map unat bs"]
  by (auto simp: encodeUnsignedInteger_def decodeUnsignedInteger_def o_def)

lemma decode_encode_unsigned:
  assumes "integerFromValue v = Inr k" "0 \<le> k" "k < 2 ^ (n * 8)"
  obtains bs where "encodeUnsignedInteger v n = Inr bs" "length bs = n" "decodeUnsignedInteger bs = k"
proof
  show "encodeUnsignedInteger v n = Inr (map word_of_nat (low_digits 256 n (nat k)))"
    using assms by (simp add: encodeUnsignedInteger_def)
  have "(2 :: int) ^ (n * 8) = 256 ^ n" by (simp add: power_mult mult.commute [of n])
  with assms(3) have "nat k < 256 ^ n"
    by (metis assms(2) nat_less_iff of_nat_numeral of_nat_power)
  then show "decodeUnsignedInteger (map word_of_nat (low_digits 256 n (nat k))) = k"
    using assms(2) map_unat_word_of_nat [OF low_digits_below, of n "nat k"]
    by (simp add: decodeUnsignedInteger_def digits_value_low_digits del: map_map)
qed simp

lemma integerFromValue_JBig [simp]: "integerFromValue (JBig n) = Inr n"
  by (simp add: integerFromValue_def)

lemma bit_top:
  assumes "0 \<le> (k :: int)" "k < 2 ^ Suc n"
  shows "bit k n \<longleftrightarrow> 2 ^ n \<le> k"
proof (cases "2 ^ n \<le> k")
  case True
  then have "(k - 2 ^ n + 2 ^ n) div 2 ^ n = (k - 2 ^ n) div 2 ^ n + 1"
    by (subst div_add_self2) simp_all
  moreover have "(k - 2 ^ n) div 2 ^ n = 0"
    using True assms(2) by (intro div_pos_pos_trivial) simp_all
  ultimately show ?thesis using True by (simp add: bit_iff_odd)
next
  case False
  then show ?thesis using assms(1) by (simp add: bit_iff_odd div_pos_pos_trivial)
qed

lemma decodeSignedInteger_eq:
  assumes "length bs = n" "0 < n"
  shows "decodeSignedInteger bs =
    (if decodeUnsignedInteger bs < 2 ^ (n * 8 - 1) then decodeUnsignedInteger bs
     else decodeUnsignedInteger bs - 2 ^ (n * 8))"
proof -
  have "Suc (n * 8 - 1) = n * 8" using assms(2) by simp
  then show ?thesis
    using decodeUnsignedInteger_bounds [of bs] bit_top [of "decodeUnsignedInteger bs" "n * 8 - 1"] assms(1)
    by (simp add: decodeSignedInteger_def Let_def)
qed

lemma two_power_split: "0 < m \<Longrightarrow> (2 :: int) ^ m = 2 * 2 ^ (m - 1)"
  by (cases m) simp_all

lemma decodeSignedInteger_bounds:
  assumes "length bs = n" "0 < n"
  shows "- (2 ^ (n * 8 - 1)) \<le> decodeSignedInteger bs \<and> decodeSignedInteger bs < 2 ^ (n * 8 - 1)"
  using decodeUnsignedInteger_bounds [of bs] assms two_power_split [of "n * 8"]
  by (auto simp: decodeSignedInteger_eq)

lemma encode_decode_signed:
  assumes "integerFromValue v = Inr (decodeSignedInteger bs)" "length bs = n" "0 < n"
  shows "encodeSignedInteger v n = Inr bs"
proof -
  have "(if decodeSignedInteger bs < 0 then decodeSignedInteger bs + 2 ^ (n * 8) else decodeSignedInteger bs)
      = decodeUnsignedInteger bs"
    using decodeUnsignedInteger_bounds [of bs] assms two_power_split [of "n * 8"]
    by (auto simp: decodeSignedInteger_eq)
  then show ?thesis
    using assms decodeSignedInteger_bounds [OF assms(2,3)]
    by (simp add: encodeSignedInteger_def Let_def encode_decode_unsigned)
qed

lemma decode_encode_signed:
  assumes "integerFromValue v = Inr k" "- (2 ^ (n * 8 - 1)) \<le> k" "k < 2 ^ (n * 8 - 1)" "0 < n"
  obtains bs where "encodeSignedInteger v n = Inr bs" "length bs = n" "decodeSignedInteger bs = k"
proof -
  define u where "u = (if k < 0 then k + 2 ^ (n * 8) else k)"
  have u: "0 \<le> u" "u < 2 ^ (n * 8)" "u < 2 ^ (n * 8 - 1) \<longleftrightarrow> 0 \<le> k"
    using assms two_power_split [of "n * 8"] by (auto simp: u_def)
  obtain bs where bs: "encodeUnsignedInteger (JBig u) n = Inr bs" "length bs = n" "decodeUnsignedInteger bs = u"
    by (rule decode_encode_unsigned [of "JBig u" u n]) (use u in simp_all)
  show thesis
  proof
    show "encodeSignedInteger v n = Inr bs"
      using assms(1-3) bs(1) by (simp add: encodeSignedInteger_def Let_def u_def)
    show "decodeSignedInteger bs = k"
      using u(3) by (simp add: decodeSignedInteger_eq [OF bs(2) assms(4)] bs(3)) (simp add: u_def)
  qed (rule bs)
qed

end
