(* ===== verification/CodecRoundTrip.thy ===== *)
theory CodecRoundTrip
  imports BinaryCodec
begin

text \<open>
  The two directions of the round trip of \<open>BinaryCodec.ts\<close>. \<open>has_type\<close> describes the values that
  \<open>decodeType\<close> returns for a type: small integers as numbers, wide ones as bigints, a public key as
  its text, byte sequences as \<open>Uint8Array\<close>, an option as null or the value, a struct as an object
  with exactly the schema's fields in their order. \<open>canonical_type\<close> excludes an option directly inside
  an option (the encoder cannot tell an absent inner value from an absent outer one) and repeated field
  names.
\<close>

section \<open>Typed values\<close>

definition has_primitive :: "primitive \<Rightarrow> js \<Rightarrow> bool" where
  "has_primitive p v =
     (case p of
        U8 \<Rightarrow> (case v of JNum n \<Rightarrow> 0 \<le> n \<and> n < 2 ^ 8 | _ \<Rightarrow> False)
      | U16 \<Rightarrow> (case v of JNum n \<Rightarrow> 0 \<le> n \<and> n < 2 ^ 16 | _ \<Rightarrow> False)
      | U32 \<Rightarrow> (case v of JNum n \<Rightarrow> 0 \<le> n \<and> n < 2 ^ 32 | _ \<Rightarrow> False)
      | U64 \<Rightarrow> (case v of JBig n \<Rightarrow> 0 \<le> n \<and> n < 2 ^ 64 | _ \<Rightarrow> False)
      | U128 \<Rightarrow> (case v of JBig n \<Rightarrow> 0 \<le> n \<and> n < 2 ^ 128 | _ \<Rightarrow> False)
      | I64 \<Rightarrow> (case v of JBig n \<Rightarrow> - (2 ^ 63) \<le> n \<and> n < 2 ^ 63 | _ \<Rightarrow> False)
      | I128 \<Rightarrow> (case v of JBig n \<Rightarrow> - (2 ^ 127) \<le> n \<and> n < 2 ^ 127 | _ \<Rightarrow> False)
      | BoolP \<Rightarrow> (case v of JBool b \<Rightarrow> True | _ \<Rightarrow> False)
      | Pubkey \<Rightarrow> (case v of JStr s \<Rightarrow> is_ok (normalizePublicKey (KeyText s)) | _ \<Rightarrow> False)
      | OtherPrim _ \<Rightarrow> False)"

primrec has_type_with :: "(string \<Rightarrow> js \<Rightarrow> bool) \<Rightarrow> type_schema \<Rightarrow> js \<Rightarrow> bool" where
  "has_type_with defined (Prim p) v = has_primitive p v"
| "has_type_with defined (OptionT item) v = (v = JNull \<or> (v \<noteq> JUndef \<and> has_type_with defined item v))"
| "has_type_with defined (ArrayT item n) v =
     (if item = Prim U8 then (case v of JBytes bs \<Rightarrow> length bs = n | _ \<Rightarrow> False)
      else (case v of JArr vs \<Rightarrow> length vs = n \<and> list_all (has_type_with defined item) vs | _ \<Rightarrow> False))"
| "has_type_with defined (VectorT item) v =
     (if item = Prim U8 then (case v of JBytes bs \<Rightarrow> length bs < 2 ^ 32 | _ \<Rightarrow> False)
      else (case v of JArr vs \<Rightarrow> length vs < 2 ^ 32 \<and> list_all (has_type_with defined item) vs | _ \<Rightarrow> False))"
| "has_type_with defined (DefinedT name) v = (defined name v \<and> v \<noteq> JNull \<and> v \<noteq> JUndef)"
| "has_type_with defined UnsupportedT v = False"

definition has_fields_with :: "(string \<Rightarrow> js \<Rightarrow> bool) \<Rightarrow> field_schema list \<Rightarrow> js_object \<Rightarrow> bool" where
  "has_fields_with defined fieldList ob \<longleftrightarrow>
     distinct (map field_name fieldList) \<and>
     list_all2 (\<lambda>f (k, v). k = field_name f \<and> has_type_with defined (field_type f) v) fieldList ob"

primrec has_defined :: "chancery_schema \<Rightarrow> nat \<Rightarrow> string \<Rightarrow> js \<Rightarrow> bool" where
  "has_defined S 0 = (\<lambda>name v. False)"
| "has_defined S (Suc depth) = (\<lambda>name v.
     case map_of (schema_types S) name of
       None \<Rightarrow> False
     | Some st \<Rightarrow>
         (case v of JObj ob \<Rightarrow> has_fields_with (has_defined S depth) (struct_fields st) ob | _ \<Rightarrow> False))"

definition has_type :: "chancery_schema \<Rightarrow> type_schema \<Rightarrow> js \<Rightarrow> bool" where
  "has_type S = has_type_with (has_defined S STACK_DEPTH)"

definition has_struct :: "chancery_schema \<Rightarrow> field_schema list \<Rightarrow> js_object \<Rightarrow> bool" where
  "has_struct S = has_fields_with (has_defined S STACK_DEPTH)"

primrec canonical_type :: "type_schema \<Rightarrow> bool" where
  "canonical_type (Prim p) = True"
| "canonical_type (OptionT item) = (canonical_type item \<and> \<not> is_option_type item)"
| "canonical_type (ArrayT item n) = canonical_type item"
| "canonical_type (VectorT item) = canonical_type item"
| "canonical_type (DefinedT name) = True"
| "canonical_type UnsupportedT = True"

definition canonical_fields :: "field_schema list \<Rightarrow> bool" where
  "canonical_fields fieldList \<longleftrightarrow>
     distinct (map field_name fieldList) \<and> list_all (\<lambda>f. canonical_type (field_type f)) fieldList"

definition canonical_schema :: "chancery_schema \<Rightarrow> bool" where
  "canonical_schema S \<longleftrightarrow> list_all (\<lambda>(name, st). canonical_fields (struct_fields st)) (schema_types S)"

abbreviation accepts_js :: "(binary_reader, 'a) parser \<Rightarrow> bytes \<Rightarrow> 'a \<Rightarrow> bool" where
  "accepts_js \<equiv> accepts reader_unread"

text \<open>What the treatment of a \<open>defined\<close> type by its encoder and its decoder must satisfy.\<close>

abbreviation handler_accepts where
  "handler_accepts ty en de \<equiv>
     \<forall>name v. ty name v \<longrightarrow> (\<exists>bs. en name v = Inr bs \<and> accepts_js (de name) bs v)"

abbreviation consumes_js :: "(binary_reader, 'a) parser \<Rightarrow> (bytes \<Rightarrow> 'a \<Rightarrow> bool) \<Rightarrow> bool" where
  "consumes_js \<equiv> consumes reader_unread"

abbreviation handler_consumes where
  "handler_consumes ty en de \<equiv>
     \<forall>name. consumes_js (de name) (\<lambda>bs v. en name v = Inr bs \<and> ty name v \<and> v \<noteq> JNull \<and> v \<noteq> JUndef)"

section \<open>Primitives\<close>

lemma integerFromValue_JNum: "\<bar>n\<bar> < 2 ^ 32 \<Longrightarrow> integerFromValue (JNum n) = Inr n"
  by (auto simp: integerFromValue_def is_safe_integer_def MAX_SAFE_INTEGER_def)

lemma accepts_unsigned:
  assumes "integerFromValue v = Inr k" "0 \<le> k" "k < 2 ^ (n * 8)"
  obtains bs where "encodeUnsignedInteger v n = Inr bs" "accepts_js (readUnsigned n) bs k"
  by (rule decode_encode_unsigned [OF assms])
     (metis accepts_map binary.accepts_read)

lemma accepts_unsigned_map:
  assumes "integerFromValue v = Inr k" "0 \<le> k" "k < 2 ^ (n * 8)"
  shows "\<exists>bs. encodeUnsignedInteger v n = Inr bs \<and> accepts_js (mapP f (readUnsigned n)) bs (f k)"
  using accepts_unsigned [OF assms] by (metis accepts_map)

lemma accepts_signed_map:
  assumes "integerFromValue v = Inr k" "- (2 ^ (n * 8 - 1)) \<le> k" "k < 2 ^ (n * 8 - 1)" "0 < n"
  shows "\<exists>bs. encodeSignedInteger v n = Inr bs \<and>
    accepts_js (mapP (\<lambda>bs. f (decodeSignedInteger bs)) (readBytes n)) bs (f k)"
  by (rule decode_encode_signed [OF assms]) (metis accepts_map binary.accepts_read)

lemma accepts_byte: "accepts_js (readUnsigned 1) [b] (uint b)"
  by (rule accepts_map [OF binary.accepts_read]) (simp_all add: decodeUnsignedInteger_def)

lemma accepts_tag: "accepts_js (f (uint b)) bs x \<Longrightarrow> accepts_js (bindP (readUnsigned 1) f) (b # bs) x"
  using accepts_bind [OF accepts_byte, of f b bs x] by simp

lemma primitive_accepts:
  assumes "has_primitive p v"
  shows "\<exists>bs. encodePrimitive p v = Inr bs \<and> accepts_js (decodePrimitive p) bs v"
proof (cases p)
  case U8 with assms show ?thesis
    using accepts_unsigned_map [of v _ 1 JNum]
    by (auto simp: has_primitive_def encodePrimitive_def decodePrimitive_def integerFromValue_JNum split: js.splits)
next
  case U16 with assms show ?thesis
    using accepts_unsigned_map [of v _ 2 JNum]
    by (auto simp: has_primitive_def encodePrimitive_def decodePrimitive_def integerFromValue_JNum split: js.splits)
next
  case U32 with assms show ?thesis
    using accepts_unsigned_map [of v _ 4 JNum]
    by (auto simp: has_primitive_def encodePrimitive_def decodePrimitive_def integerFromValue_JNum split: js.splits)
next
  case U64 with assms show ?thesis
    using accepts_unsigned_map [of v _ 8 JBig]
    by (auto simp: has_primitive_def encodePrimitive_def decodePrimitive_def split: js.splits)
next
  case U128 with assms show ?thesis
    using accepts_unsigned_map [of v _ 16 JBig]
    by (auto simp: has_primitive_def encodePrimitive_def decodePrimitive_def split: js.splits)
next
  case I64 with assms show ?thesis
    using accepts_signed_map [of v _ 8 JBig]
    by (auto simp: has_primitive_def encodePrimitive_def decodePrimitive_def split: js.splits)
next
  case I128 with assms show ?thesis
    using accepts_signed_map [of v _ 16 JBig]
    by (auto simp: has_primitive_def encodePrimitive_def decodePrimitive_def split: js.splits)
next
  case BoolP
  with assms obtain b where v: "v = JBool b" by (auto simp: has_primitive_def split: js.splits)
  have "accepts_js (decodePrimitive BoolP) [if b then 1 else 0] v"
    unfolding decodePrimitive_def v primitive.case
    by (cases b) (auto intro!: accepts_tag simp: accepts_return simp del: One_nat_def)
  with BoolP v show ?thesis by (simp add: encodePrimitive_def)
next
  case Pubkey
  with assms obtain s where v: "v = JStr s" "is_key s"
    by (auto simp: has_primitive_def is_ok_iff split: js.splits)
  obtain bs where bs: "length bs = 32" "s = encodeBase58 bs" using v(2) by (rule is_keyE)
  have "accepts_js (decodePrimitive Pubkey) bs v"
    unfolding decodePrimitive_def v bs by simp (rule accepts_map [OF binary.accepts_read [OF bs(1)]], simp)
  with Pubkey v bs show ?thesis by (simp add: encodePrimitive_def decode_encode_base58)
qed (use assms in \<open>simp add: has_primitive_def\<close>)

lemma consumes_unsigned:
  "consumes_js (readUnsigned n) (\<lambda>bs k. length bs = n \<and> k = decodeUnsignedInteger bs)"
  by (rule consumes_map, rule consumes_weaken [OF binary.consumes_read]) simp

lemma consumes_byte:
  "consumes_js (readUnsigned 1) (\<lambda>bs k. \<exists>b. bs = [b] \<and> k = uint b)"
  by (rule consumes_weaken [OF consumes_unsigned])
     (auto simp: decodeUnsignedInteger_def length_Suc_conv)

lemma consumes_tag:
  assumes "\<And>b. consumes_js (f (uint b)) (\<lambda>bs x. S (b # bs) x)"
  shows "consumes_js (bindP (readUnsigned 1) f) S"
  by (rule consumes_bind [OF consumes_byte]) (use assms in auto)

lemma consumes_small:
  assumes "n * 8 \<le> 32"
  shows "consumes_js (mapP JNum (readUnsigned n))
    (\<lambda>bs v. encodeUnsignedInteger v n = Inr bs \<and> (\<exists>k. v = JNum k \<and> 0 \<le> k \<and> k < 2 ^ (n * 8)))"
proof (rule consumes_map, rule consumes_weaken [OF consumes_unsigned])
  fix bs k assume "length bs = n \<and> k = decodeUnsignedInteger bs"
  moreover have "(2 :: int) ^ (n * 8) \<le> 2 ^ 32" using assms by (intro power_increasing) simp_all
  ultimately show "encodeUnsignedInteger (JNum k) n = Inr bs \<and> (\<exists>k'. JNum k = JNum k' \<and> 0 \<le> k' \<and> k' < 2 ^ (n * 8))"
    using decodeUnsignedInteger_bounds [of bs] integerFromValue_JNum [of k]
    by (auto intro: encode_decode_unsigned)
qed

lemma consumes_wide:
  "consumes_js (mapP JBig (readUnsigned n))
    (\<lambda>bs v. encodeUnsignedInteger v n = Inr bs \<and> (\<exists>k. v = JBig k \<and> 0 \<le> k \<and> k < 2 ^ (n * 8)))"
  by (rule consumes_map, rule consumes_weaken [OF consumes_unsigned])
     (use decodeUnsignedInteger_bounds in \<open>auto intro: encode_decode_unsigned\<close>)

lemma consumes_signed:
  "0 < n \<Longrightarrow> consumes_js (mapP (\<lambda>bs. JBig (decodeSignedInteger bs)) (readBytes n))
    (\<lambda>bs v. encodeSignedInteger v n = Inr bs \<and> (\<exists>k. v = JBig k \<and> - (2 ^ (n * 8 - 1)) \<le> k \<and> k < 2 ^ (n * 8 - 1)))"
  by (rule consumes_map, rule consumes_weaken [OF binary.consumes_read])
     (use decodeSignedInteger_bounds [of _ n] in \<open>auto intro: encode_decode_signed\<close>)

lemma primitive_consumes:
  "consumes_js (decodePrimitive p) (\<lambda>bs v. encodePrimitive p v = Inr bs \<and> has_primitive p v)"
proof (cases p)
  case BoolP
  have "consumes_js (bindP (readUnsigned 1) (\<lambda>value.
          if value \<noteq> 0 \<and> value \<noteq> 1 then failP ''value contains an invalid boolean tag''
          else returnP (JBool (value = 1)))) (\<lambda>bs v. encodePrimitive BoolP v = Inr bs \<and> has_primitive BoolP v)"
  proof (rule consumes_tag)
    fix b :: byte
    show "consumes_js (if uint b \<noteq> 0 \<and> uint b \<noteq> 1 then failP ''value contains an invalid boolean tag''
          else returnP (JBool (uint b = 1))) (\<lambda>bs v. encodePrimitive BoolP v = Inr (b # bs) \<and> has_primitive BoolP v)"
      by (auto intro!: consumes_fail consumes_return simp: encodePrimitive_def has_primitive_def uint_1_eq word_uint_eq_iff)
  qed
  with BoolP show ?thesis by (simp add: decodePrimitive_def)
next
  case Pubkey
  have "consumes_js (mapP (\<lambda>bs. JStr (encodeBase58 bs)) (readBytes 32))
      (\<lambda>bs v. encodePrimitive Pubkey v = Inr bs \<and> has_primitive Pubkey v)"
    by (rule consumes_map, rule consumes_weaken [OF binary.consumes_read])
       (simp add: encodePrimitive_def has_primitive_def decode_encode_base58 is_ok_iff is_key_encoded)
  with Pubkey show ?thesis by (simp add: decodePrimitive_def)
qed (auto simp: decodePrimitive_def encodePrimitive_def has_primitive_def intro!: consumes_fail
      consumes_weaken [OF consumes_small] consumes_weaken [OF consumes_wide] consumes_weaken [OF consumes_signed])

section \<open>Types\<close>

lemma list_choice2: "\<forall>x \<in> set xs. \<exists>y. P x y \<Longrightarrow> \<exists>ys. list_all2 P xs ys"
  by (induction xs) (auto simp: list_all2_Cons1)

lemma accepts_list:
  assumes "\<forall>v \<in> set vs. \<exists>bs. enc v = Inr bs \<and> accepts_js p bs v"
  shows "\<exists>bss. mapR enc vs = Inr bss \<and> accepts_js (repeatP (length vs) p) (concat bss) vs"
proof -
  obtain bss where bss: "list_all2 (\<lambda>v bs. enc v = Inr bs \<and> accepts_js p bs v) vs bss"
    using list_choice2 [OF assms] by blast
  then have "list_all2 (\<lambda>v bs. enc v = Inr bs) vs bss" by (rule list_all2_mono) simp
  moreover have "list_all2 (accepts_js p) bss vs"
    using bss by (simp add: list_all2_conv_all_nth)
  ultimately show ?thesis by (auto simp: mapR_eq_Inr_iff accepts_repeat)
qed

lemma accepts_length_prefix:
  assumes "n < 2 ^ 32" and "accepts_js (p (int n)) bs x"
  shows "\<exists>hdr. encodeUnsignedInteger (JNum (int n)) 4 = Inr hdr \<and>
    accepts_js (bindP (readUnsigned 4) p) (hdr @ bs) x"
proof -
  have "int n < 2 ^ 32" using assms(1) by (metis of_nat_less_iff of_nat_numeral of_nat_power)
  then obtain hdr where "encodeUnsignedInteger (JNum (int n)) 4 = Inr hdr" "accepts_js (readUnsigned 4) hdr (int n)"
    using accepts_unsigned [of "JNum (int n)" "int n" 4] integerFromValue_JNum [of "int n"] by auto
  with accepts_bind [of reader_unread "readUnsigned 4" _ "int n" p bs x, OF _ assms(2)] show ?thesis by blast
qed

lemma type_accepts:
  assumes "handler_accepts ty en de"
  shows "has_type_with ty t v \<Longrightarrow>
    \<exists>bs. encode_type_with en t v = Inr bs \<and> accepts_js (decode_type_with de t) bs v"
proof (induction t arbitrary: v)
  case (Prim p)
  then show ?case using primitive_accepts by simp
next
  case (OptionT item)
  show ?case
  proof (cases "v = JNull")
    case True
    have "accepts_js (decode_type_with de (OptionT item)) [0] JNull"
      unfolding decode_type_with.simps by (rule accepts_tag) (simp add: accepts_return)
    with True show ?thesis by simp
  next
    case False
    with OptionT obtain bs where bs: "encode_type_with en item v = Inr bs"
      "accepts_js (decode_type_with de item) bs v" "v \<noteq> JUndef" by auto
    have "accepts_js (decode_type_with de (OptionT item)) (1 # bs) v"
      unfolding decode_type_with.simps by (rule accepts_tag) (simp add: bs)
    with False bs show ?thesis by simp
  qed
next
  case (ArrayT item n)
  show ?case
  proof (cases "item = Prim U8")
    case True
    with ArrayT.prems obtain bs where "v = JBytes bs" "length bs = n" by (auto split: js.splits)
    with True show ?thesis
      by (auto simp: bytesFromValue_def intro: accepts_map binary.accepts_read)
  next
    case False
    with ArrayT.prems obtain vs where vs: "v = JArr vs" "length vs = n" "\<forall>v \<in> set vs. has_type_with ty item v"
      by (auto simp: list_all_iff split: js.splits)
    with ArrayT.IH have "\<forall>v \<in> set vs. \<exists>bs. encode_type_with en item v = Inr bs \<and>
        accepts_js (decode_type_with de item) bs v" by simp
    from accepts_list [OF this] obtain bss where bss: "mapR (encode_type_with en item) vs = Inr bss"
      "accepts_js (repeatP (length vs) (decode_type_with de item)) (concat bss) vs" by blast
    from bss(2) have "accepts_js (mapP JArr (repeatP n (decode_type_with de item))) (concat bss) v"
      unfolding vs(1) vs(2) [symmetric] by (blast intro: accepts_map)
    with False vs bss show ?thesis by (simp add: arrayFromValue_def)
  qed
next
  case (VectorT item)
  show ?case
  proof (cases "item = Prim U8")
    case True
    with VectorT.prems obtain bs where v: "v = JBytes bs" "length bs < 2 ^ 32" by (auto split: js.splits)
    have "accepts_js (mapP JBytes (readBytes (nat (int (length bs))))) bs v"
      unfolding v by (rule accepts_map [OF binary.accepts_read]) simp_all
    from accepts_length_prefix [OF v(2), of "\<lambda>n. mapP JBytes (readBytes (nat n))", OF this] True v
    show ?thesis by (auto simp: bytesFromValue_def)
  next
    case False
    with VectorT.prems obtain vs where vs: "v = JArr vs" "length vs < 2 ^ 32" "\<forall>v \<in> set vs. has_type_with ty item v"
      by (auto simp: list_all_iff split: js.splits)
    with VectorT.IH have "\<forall>v \<in> set vs. \<exists>bs. encode_type_with en item v = Inr bs \<and>
        accepts_js (decode_type_with de item) bs v" by simp
    from accepts_list [OF this] obtain bss where bss: "mapR (encode_type_with en item) vs = Inr bss"
      "accepts_js (repeatP (length vs) (decode_type_with de item)) (concat bss) vs" by blast
    from bss(2) have "accepts_js (mapP JArr (repeatP (nat (int (length vs))) (decode_type_with de item))) (concat bss) v"
      unfolding vs(1) nat_int by (blast intro: accepts_map)
    from accepts_length_prefix [OF vs(2), of "\<lambda>n. mapP JArr (repeatP (nat n) (decode_type_with de item))", OF this]
      False vs(1) bss show ?thesis by (auto simp: arrayFromValue_def)
  qed
next
  case (DefinedT name)
  with assms show ?case by simp
qed simp

lemma has_type_defined_value:
  "has_type_with ty t v \<Longrightarrow> \<not> is_option_type t \<Longrightarrow> v \<noteq> JNull \<and> v \<noteq> JUndef"
  by (cases t) (auto simp: has_primitive_def split: primitive.splits js.splits if_splits)

lemma has_type_not_undef: "has_type_with ty t v \<Longrightarrow> v \<noteq> JUndef"
proof (cases "is_option_type t")
  case True
  then show "has_type_with ty t v \<Longrightarrow> v \<noteq> JUndef" by (cases t) auto
qed (use has_type_defined_value in blast)

lemma consumes_list:
  assumes "consumes_js p (\<lambda>bs v. enc v = Inr bs \<and> P v)"
  shows "consumes_js (repeatP n p) (\<lambda>bs vs. length vs = n \<and> list_all P vs \<and>
    (\<exists>bss. mapR enc vs = Inr bss \<and> bs = concat bss))"
proof (rule consumes_weaken [OF consumes_repeat [OF assms]], elim conjE exE, intro conjI)
  fix bs vs bss
  assume bss: "bs = concat bss" "list_all2 (\<lambda>bs v. enc v = Inr bs \<and> P v) bss vs"
  then show "list_all P vs" by (auto simp: list_all_iff list_all2_conv_all_nth in_set_conv_nth)
  from bss have "list_all2 (\<lambda>v bs. enc v = Inr bs) vs bss" by (simp add: list_all2_conv_all_nth)
  with bss(1) show "\<exists>bss. mapR enc vs = Inr bss \<and> bs = concat bss" by (auto simp: mapR_eq_Inr_iff)
qed

lemma consumes_length_prefix:
  assumes "\<And>n. consumes_js (p (int n)) (T n)"
    and "\<And>n hdr bs x. n < 2 ^ 32 \<Longrightarrow> encodeUnsignedInteger (JNum (int n)) 4 = Inr hdr \<Longrightarrow> T n bs x \<Longrightarrow> S (hdr @ bs) x"
  shows "consumes_js (bindP (readUnsigned 4) p) S"
proof (rule consumes_bind [OF consumes_unsigned])
  fix k hdr assume k: "length hdr = 4 \<and> k = decodeUnsignedInteger hdr"
  then have b: "0 \<le> k" "k < 2 ^ 32" using decodeUnsignedInteger_bounds [of hdr] by auto
  then obtain n where n: "k = int n" by (metis nat_0_le)
  with b have "n < 2 ^ 32" "encodeUnsignedInteger (JNum (int n)) 4 = Inr hdr"
    using k encode_decode_unsigned [of "JNum k" hdr 4] by (simp_all add: integerFromValue_JNum)
  with assms(2) show "consumes_js (p k) (\<lambda>bs x. S (hdr @ bs) x)"
    unfolding n by (intro consumes_weaken [OF assms(1)])
qed

lemma type_consumes:
  assumes "handler_consumes ty en de"
  shows "canonical_type t \<Longrightarrow>
    consumes_js (decode_type_with de t) (\<lambda>bs v. encode_type_with en t v = Inr bs \<and> has_type_with ty t v)"
proof (induction t)
  case (Prim p)
  then show ?case using primitive_consumes by simp
next
  case (OptionT item)
  show ?case unfolding decode_type_with.simps
  proof (rule consumes_tag)
    fix b :: byte
    consider "b = 0" | "b = 1" | "uint b \<noteq> 0" "uint b \<noteq> 1"
      by (metis uint_0_iff uint_1_eq word_uint_eq_iff)
    then show "consumes_js (if uint b = 0 then returnP JNull
        else if uint b \<noteq> 1 then failP ''value contains an invalid option tag'' else decode_type_with de item)
      (\<lambda>bs v. encode_type_with en (OptionT item) v = Inr (b # bs) \<and> has_type_with ty (OptionT item) v)"
    proof cases
      case 2
      with OptionT show ?thesis
        by (auto intro!: consumes_weaken [OF OptionT.IH] dest: has_type_defined_value)
    qed (auto intro!: consumes_return consumes_fail)
  qed
next
  case (ArrayT item n)
  show ?case
  proof (cases "item = Prim U8")
    case True
    then show ?thesis
      by (auto intro!: consumes_map consumes_weaken [OF binary.consumes_read] simp: bytesFromValue_def)
  next
    case False
    with ArrayT show ?thesis
      by (auto intro!: consumes_map consumes_weaken [OF consumes_list [OF ArrayT.IH]] simp: arrayFromValue_def)
  qed
next
  case (VectorT item)
  show ?case
  proof (cases "item = Prim U8")
    case True
    have step: "consumes_js (mapP JBytes (readBytes (nat (int n)))) (\<lambda>bs v. v = JBytes bs \<and> length bs = n)" for n
      by (rule consumes_map, rule consumes_weaken [OF binary.consumes_read]) simp
    from True show ?thesis
      by (simp, intro consumes_length_prefix [of "\<lambda>n. mapP JBytes (readBytes (nat n))", OF step])
         (auto simp: bytesFromValue_def)
  next
    case False
    from VectorT have "consumes_js (decode_type_with de item)
      (\<lambda>bs v. encode_type_with en item v = Inr bs \<and> has_type_with ty item v)" by simp
    note items = consumes_list [OF this]
    have step: "consumes_js (mapP JArr (repeatP (nat (int n)) (decode_type_with de item)))
      (\<lambda>bs v. \<exists>vs. v = JArr vs \<and> length vs = n \<and> list_all (has_type_with ty item) vs \<and>
        (\<exists>bss. mapR (encode_type_with en item) vs = Inr bss \<and> bs = concat bss))" for n
      by (rule consumes_map, rule consumes_weaken [OF items]) auto
    from False show ?thesis
      by (simp, intro consumes_length_prefix
            [of "\<lambda>n. mapP JArr (repeatP (nat n) (decode_type_with de item))", OF step])
         (auto simp: arrayFromValue_def)
  qed
next
  case (DefinedT name)
  with assms show ?case by (auto intro: consumes_weaken)
qed (simp add: consumes_fail)

section \<open>Structs\<close>

text \<open>The parts that \<open>encodeStruct\<close> concatenates when every field is present.\<close>

abbreviation encode_parts :: "(string \<Rightarrow> js \<Rightarrow> bytes res) \<Rightarrow> field_schema list \<Rightarrow> js_object \<Rightarrow> bytes list res" where
  "encode_parts en fs ob \<equiv> mapR (\<lambda>(f, kv). encode_type_with en (field_type f) (snd kv)) (zip fs ob)"

lemma encode_present_field:
  "obj_get values (field_name f) = v \<Longrightarrow> v \<noteq> JUndef \<Longrightarrow>
   encode_field S en values pad f = encode_type_with en (field_type f) v"
  by (simp add: encode_field_def)

lemma encode_present_fields:
  "list_all2 (\<lambda>f kv. obj_get values (field_name f) = snd kv \<and> snd kv \<noteq> JUndef) fs ob \<Longrightarrow>
   mapR (encode_field S en values pad) fs = encode_parts en fs ob"
  by (induction fs ob rule: list_all2_induct) (simp_all add: encode_present_field)

lemma object_fields_present:
  assumes "distinct (map field_name fs)" "list_all2 (\<lambda>f kv. fst kv = field_name f \<and> P f (snd kv)) fs ob"
  shows "list_all2 (\<lambda>f kv. obj_get ob (field_name f) = snd kv \<and> P f (snd kv)) fs ob"
proof -
  have "map fst ob = map field_name fs"
    using assms(2) by (auto simp: list_all2_conv_all_nth list_eq_iff_nth_eq)
  then have d: "distinct (map fst ob)" using assms(1) by simp
  show ?thesis
    using assms(2) d by (auto simp: list_all2_conv_all_nth obj_get_def split: option.split)
      (metis map_of_eq_None_iff nth_mem image_eqI, metis map_of_eq_Some_iff nth_mem prod.collapse option.inject)
qed

lemma encode_struct_typed:
  assumes "has_fields_with ty fs ob" "encode_parts en fs ob = Inr parts"
  shows "encode_struct_with S en fs ob pad = Inr (concat parts)"
proof -
  have "list_all2 (\<lambda>f kv. obj_get ob (field_name f) = snd kv \<and> has_type_with ty (field_type f) (snd kv)) fs ob"
    using assms(1) by (intro object_fields_present) (simp_all add: has_fields_with_def split_def)
  then have "list_all2 (\<lambda>f kv. obj_get ob (field_name f) = snd kv \<and> snd kv \<noteq> JUndef) fs ob"
    by (rule list_all2_mono) (auto dest: has_type_not_undef)
  then show ?thesis using assms(2) by (simp add: encode_struct_with_def encode_present_fields)
qed

lemma fields_accepts:
  assumes en: "handler_accepts ty en de"
  shows "list_all2 (\<lambda>f kv. fst kv = field_name f \<and> has_type_with ty (field_type f) (snd kv)) fs ob \<Longrightarrow>
    distinct (map fst acc @ map field_name fs) \<Longrightarrow>
    \<exists>parts. encode_parts en fs ob = Inr parts \<and> accepts_js (decode_fields_with de fs acc) (concat parts) (acc @ ob)"
proof (induction fs ob arbitrary: acc rule: list_all2_induct)
  case Nil
  then show ?case by (simp add: accepts_return)
next
  case (Cons f fs kv ob)
  obtain bs where bs: "encode_type_with en (field_type f) (snd kv) = Inr bs"
    "accepts_js (decode_type_with de (field_type f)) bs (snd kv)"
    using type_accepts [OF en, of "field_type f" "snd kv"] Cons.hyps by blast
  have set: "obj_set acc (field_name f) (snd kv) = acc @ [kv]"
    using Cons.hyps Cons.prems by (cases kv) (auto simp: obj_set_fresh)
  have "distinct (map fst (acc @ [kv]) @ map field_name fs)" using Cons.prems Cons.hyps by auto
  then obtain parts where parts: "encode_parts en fs ob = Inr parts"
    "accepts_js (decode_fields_with de fs (acc @ [kv])) (concat parts) ((acc @ [kv]) @ ob)"
    using Cons.IH by blast
  have "accepts_js (decode_fields_with de (f # fs) acc) (bs @ concat parts) (acc @ kv # ob)"
    unfolding decode_fields_with.simps by (rule accepts_bind [OF bs(2)]) (use parts set in simp)
  with bs parts show ?case by simp
qed

lemma fields_consumes:
  assumes de: "handler_consumes ty en de"
  shows "list_all (\<lambda>f. canonical_type (field_type f)) fs \<Longrightarrow> distinct (map fst acc @ map field_name fs) \<Longrightarrow>
    consumes_js (decode_fields_with de fs acc) (\<lambda>bs values. \<exists>ob parts. values = acc @ ob \<and> bs = concat parts \<and>
      encode_parts en fs ob = Inr parts \<and>
      list_all2 (\<lambda>f kv. fst kv = field_name f \<and> has_type_with ty (field_type f) (snd kv)) fs ob)"
proof (induction fs arbitrary: acc)
  case Nil
  show ?case by (simp add: consumes_return)
next
  case (Cons f fs)
  from Cons.prems have "canonical_type (field_type f)" by simp
  from type_consumes [OF de this] show ?case unfolding decode_fields_with.simps
  proof (rule consumes_bind)
    fix v bs assume v: "encode_type_with en (field_type f) v = Inr bs \<and> has_type_with ty (field_type f) v"
    have set: "obj_set acc (field_name f) v = acc @ [(field_name f, v)]"
      using Cons.prems by (auto simp: obj_set_fresh)
    show "consumes_js (decode_fields_with de fs (obj_set acc (field_name f) v))
      (\<lambda>cs values. \<exists>ob parts. values = acc @ ob \<and> bs @ cs = concat parts \<and>
        encode_parts en (f # fs) ob = Inr parts \<and>
        list_all2 (\<lambda>f kv. fst kv = field_name f \<and> has_type_with ty (field_type f) (snd kv)) (f # fs) ob)"
      unfolding set
    proof (rule consumes_weaken [OF Cons.IH], goal_cases)
      case (3 cs vals)
      then obtain ob parts where *: "vals = (acc @ [(field_name f, v)]) @ ob" "cs = concat parts"
        "encode_parts en fs ob = Inr parts"
        "list_all2 (\<lambda>f kv. fst kv = field_name f \<and> has_type_with ty (field_type f) (snd kv)) fs ob" by blast
      with v show ?case
        by (intro exI [of _ "(field_name f, v) # ob"] exI [of _ "bs # parts"]) simp
    qed (use Cons.prems in auto)
  qed
qed

section \<open>Defined types\<close>

lemma has_fields_pairs:
  "has_fields_with ty fs ob \<longleftrightarrow> distinct (map field_name fs) \<and>
   list_all2 (\<lambda>f kv. fst kv = field_name f \<and> has_type_with ty (field_type f) (snd kv)) fs ob"
  by (simp add: has_fields_with_def split_def)

lemma defined_accepts: "handler_accepts (has_defined S d) (encode_defined S d) (decode_defined S d)"
proof (induction d)
  case (Suc d)
  show ?case
  proof (intro allI impI)
  fix name v assume "has_defined S (Suc d) name v"
  then obtain st ob where v: "map_of (schema_types S) name = Some st" "v = JObj ob"
    "has_fields_with (has_defined S d) (struct_fields st) ob"
    by (auto split: option.splits js.splits)
  then obtain parts where parts: "encode_parts (encode_defined S d) (struct_fields st) ob = Inr parts"
    "accepts_js (decode_fields_with (decode_defined S d) (struct_fields st) []) (concat parts) ob"
    using fields_accepts [OF Suc.IH, of "struct_fields st" ob "[]"] by (auto simp: has_fields_pairs)
  have "accepts_js (mapP JObj (decode_fields_with (decode_defined S d) (struct_fields st) [])) (concat parts) v"
    by (rule accepts_map [OF parts(2)]) (simp add: v)
  then have "accepts_js (decode_defined S (Suc d) name) (concat parts) v"
    by (simp add: v(1) getDefinedTypeSchema_def lookup_or_def)
  with v parts encode_struct_typed [OF v(3) parts(1)]
  show "\<exists>bs. encode_defined S (Suc d) name v = Inr bs \<and> accepts_js (decode_defined S (Suc d) name) bs v"
    by (simp add: getDefinedTypeSchema_def lookup_or_def recordFromValue_def)
  qed
qed simp

lemma defined_consumes:
  assumes "canonical_schema S"
  shows "handler_consumes (has_defined S d) (encode_defined S d) (decode_defined S d)"
proof (induction d)
  case 0
  show ?case by (simp add: consumes_def)
next
  case (Suc d)
  show ?case
  proof (rule allI)
  fix name
  show "consumes_js (decode_defined S (Suc d) name)
      (\<lambda>bs v. encode_defined S (Suc d) name v = Inr bs \<and> has_defined S (Suc d) name v \<and> v \<noteq> JNull \<and> v \<noteq> JUndef)"
  proof (cases "map_of (schema_types S) name")
    case None
    then show ?thesis by (simp add: consumes_def getDefinedTypeSchema_def lookup_or_def)
  next
    case (Some st)
    then have "canonical_fields (struct_fields st)"
      using assms by (auto simp: canonical_schema_def list_all_iff dest!: map_of_SomeD)
    then have c: "list_all (\<lambda>f. canonical_type (field_type f)) (struct_fields st)"
      "distinct (map field_name (struct_fields st))" by (simp_all add: canonical_fields_def)
    note fields = fields_consumes [OF Suc.IH c(1), of "[]"]
    have "consumes_js (mapP JObj (decode_fields_with (decode_defined S d) (struct_fields st) []))
      (\<lambda>bs v. encode_defined S (Suc d) name v = Inr bs \<and> has_defined S (Suc d) name v \<and> v \<noteq> JNull \<and> v \<noteq> JUndef)"
    proof (rule consumes_map, rule consumes_weaken [OF fields], goal_cases)
      case (2 bs vals)
      then obtain parts where *: "bs = concat parts"
        "encode_parts (encode_defined S d) (struct_fields st) vals = Inr parts"
        "has_fields_with (has_defined S d) (struct_fields st) vals"
        using c(2) by (auto simp: has_fields_pairs)
      with encode_struct_typed [OF *(3,2)] Some show ?case
        by (simp add: getDefinedTypeSchema_def lookup_or_def recordFromValue_def)
    qed (use c(2) in simp)
    with Some show ?thesis by (simp add: getDefinedTypeSchema_def lookup_or_def)
  qed
  qed
qed

section \<open>The entry points\<close>

lemma encodeType_accepts:
  "has_type S t v \<Longrightarrow> \<exists>bs. encodeType S t v = Inr bs \<and> accepts_js (decodeType S t) bs v"
  unfolding has_type_def encodeType_def decodeType_def using defined_accepts by (rule type_accepts)

lemma decodeType_consumes:
  "canonical_schema S \<Longrightarrow> canonical_type t \<Longrightarrow>
   consumes_js (decodeType S t) (\<lambda>bs v. encodeType S t v = Inr bs \<and> has_type S t v)"
  unfolding has_type_def encodeType_def decodeType_def using defined_consumes by (rule type_consumes)

lemma encodeStruct_accepts:
  assumes "has_struct S fs ob"
  shows "\<exists>bs. encodeStruct S fs ob pad = Inr bs \<and> accepts_js (decodeStruct S fs) bs ob"
proof -
  obtain parts where "encode_parts (encode_defined S STACK_DEPTH) fs ob = Inr parts"
    "accepts_js (decode_fields_with (decode_defined S STACK_DEPTH) fs []) (concat parts) ob"
    using fields_accepts [OF defined_accepts, of S STACK_DEPTH fs ob "[]"] assms
    by (auto simp: has_struct_def has_fields_pairs)
  then show ?thesis
    using encode_struct_typed [of "has_defined S STACK_DEPTH" fs ob "encode_defined S STACK_DEPTH" parts S pad] assms
    by (auto simp: has_struct_def encodeStruct_def decodeStruct_def)
qed

lemma decodeStruct_consumes:
  assumes "canonical_schema S" "canonical_fields fs"
  shows "consumes_js (decodeStruct S fs) (\<lambda>bs ob. encodeStruct S fs ob pad = Inr bs \<and> has_struct S fs ob)"
  unfolding decodeStruct_def
proof (rule consumes_weaken [OF fields_consumes [OF defined_consumes [OF assms(1)]]], goal_cases)
  case (3 bs ob)
  then obtain parts where *: "bs = concat parts" "encode_parts (encode_defined S STACK_DEPTH) fs ob = Inr parts"
    "has_struct S fs ob" using assms(2) by (auto simp: has_struct_def has_fields_pairs canonical_fields_def)
  then show ?case
    using encode_struct_typed [of "has_defined S STACK_DEPTH" fs ob "encode_defined S STACK_DEPTH" parts S pad]
    by (simp add: has_struct_def encodeStruct_def)
qed (use assms(2) in \<open>simp_all add: canonical_fields_def\<close>)

section \<open>The call depth\<close>

text \<open>
  \<open>resolves S k name\<close>: unfolding the type \<open>name\<close> reaches no \<open>defined\<close> type after \<open>k\<close> nested ones.
  Every depth from \<open>k\<close> on then gives the same encoder, decoder and zero value.
\<close>

primrec type_resolves :: "(string \<Rightarrow> bool) \<Rightarrow> type_schema \<Rightarrow> bool" where
  "type_resolves r (Prim p) = True"
| "type_resolves r (OptionT item) = type_resolves r item"
| "type_resolves r (ArrayT item n) = type_resolves r item"
| "type_resolves r (VectorT item) = type_resolves r item"
| "type_resolves r (DefinedT name) = r name"
| "type_resolves r UnsupportedT = True"

primrec resolves :: "chancery_schema \<Rightarrow> nat \<Rightarrow> string \<Rightarrow> bool" where
  "resolves S 0 = (\<lambda>name. False)"
| "resolves S (Suc k) = (\<lambda>name.
     case map_of (schema_types S) name of
       None \<Rightarrow> True
     | Some st \<Rightarrow> list_all (\<lambda>f. type_resolves (resolves S k) (field_type f)) (struct_fields st))"

lemma encode_type_resolves:
  "type_resolves r t \<Longrightarrow> \<forall>name. r name \<longrightarrow> en name = en' name \<Longrightarrow>
   encode_type_with en t v = encode_type_with en' t v"
proof (induction t arbitrary: v)
  case (OptionT item)
  then have eq: "encode_type_with en item = encode_type_with en' item" by (intro ext) simp
  show ?case unfolding encode_type_with.simps eq ..
next
  case (ArrayT item n)
  then have eq: "encode_type_with en item = encode_type_with en' item" by (intro ext) simp
  show ?case unfolding encode_type_with.simps eq ..
next
  case (VectorT item)
  then have eq: "encode_type_with en item = encode_type_with en' item" by (intro ext) simp
  show ?case unfolding encode_type_with.simps eq ..
qed simp_all

lemma decode_type_resolves:
  "type_resolves r t \<Longrightarrow> \<forall>name. r name \<longrightarrow> de name = de' name \<Longrightarrow>
   decode_type_with de t = decode_type_with de' t"
proof (induction t)
  case (OptionT item)
  then have eq: "decode_type_with de item = decode_type_with de' item" by simp
  show ?case unfolding decode_type_with.simps eq ..
next
  case (VectorT item)
  then have eq: "decode_type_with de item = decode_type_with de' item" by simp
  show ?case unfolding decode_type_with.simps eq ..
qed auto

lemma encode_struct_resolves:
  assumes "list_all (\<lambda>f. type_resolves r (field_type f)) fs" "\<forall>name. r name \<longrightarrow> en name = en' name"
  shows "encode_struct_with S en fs ob pad = encode_struct_with S en' fs ob pad"
proof -
  have "mapR (encode_field S en ob pad) fs = mapR (encode_field S en' ob pad) fs"
    using assms encode_type_resolves [of r _ en en']
    by (intro mapR_cong refl) (auto simp: encode_field_def list_all_iff intro!: bindR_cong)
  then show ?thesis by (simp add: encode_struct_with_def)
qed

lemma decode_fields_resolves:
  "list_all (\<lambda>f. type_resolves r (field_type f)) fs \<Longrightarrow> \<forall>name. r name \<longrightarrow> de name = de' name \<Longrightarrow>
   decode_fields_with de fs acc = decode_fields_with de' fs acc"
  by (induction fs arbitrary: acc) (auto simp: decode_type_resolves [of r _ de de'])

lemma encode_defined_resolves:
  "\<forall>d \<ge> k. \<forall>name. resolves S k name \<longrightarrow> encode_defined S d name = encode_defined S k name"
proof (induction k)
  case (Suc k)
  show ?case
  proof (intro allI impI)
    fix d name assume d: "Suc k \<le> d" and r: "resolves S (Suc k) name"
    then obtain d' where d': "d = Suc d'" "k \<le> d'" by (cases d) auto
    show "encode_defined S d name = encode_defined S (Suc k) name"
    proof (cases "map_of (schema_types S) name")
      case (Some st)
      with r have "list_all (\<lambda>f. type_resolves (resolves S k) (field_type f)) (struct_fields st)" by simp
      moreover have "\<forall>name. resolves S k name \<longrightarrow> encode_defined S d' name = encode_defined S k name"
        using Suc d'(2) by blast
      ultimately have "encode_struct_with S (encode_defined S d') (struct_fields st) ob False
          = encode_struct_with S (encode_defined S k) (struct_fields st) ob False" for ob
        by (rule encode_struct_resolves)
      with Some show ?thesis by (simp add: d'(1) getDefinedTypeSchema_def lookup_or_def)
    qed (simp add: d'(1) getDefinedTypeSchema_def lookup_or_def)
  qed
qed simp

lemma decode_defined_resolves:
  "\<forall>d \<ge> k. \<forall>name. resolves S k name \<longrightarrow> decode_defined S d name = decode_defined S k name"
proof (induction k)
  case (Suc k)
  show ?case
  proof (intro allI impI)
    fix d name assume d: "Suc k \<le> d" and r: "resolves S (Suc k) name"
    then obtain d' where d': "d = Suc d'" "k \<le> d'" by (cases d) auto
    show "decode_defined S d name = decode_defined S (Suc k) name"
    proof (cases "map_of (schema_types S) name")
      case (Some st)
      with r have "list_all (\<lambda>f. type_resolves (resolves S k) (field_type f)) (struct_fields st)" by simp
      moreover have "\<forall>name. resolves S k name \<longrightarrow> decode_defined S d' name = decode_defined S k name"
        using Suc d'(2) by blast
      ultimately have "decode_fields_with (decode_defined S d') (struct_fields st) []
          = decode_fields_with (decode_defined S k) (struct_fields st) []"
        by (rule decode_fields_resolves)
      with Some show ?thesis by (simp add: d'(1) getDefinedTypeSchema_def lookup_or_def)
    qed (simp add: d'(1) getDefinedTypeSchema_def lookup_or_def)
  qed
qed simp

end
