(* ===== verification/ChanceryAccount.thy ===== *)
theory ChanceryAccount
  imports CodecRoundTrip
begin

text \<open>
  \<open>typescript/src/ChanceryAccount.ts\<close> and \<open>ChanceryError.ts\<close>: account data is a discriminator followed
  by the encoded struct, with an exact size. The account table is scanned in property order for the
  first discriminator the data starts with. The error table is read by the decimal text of the code.
\<close>

section \<open>Accounts\<close>

record decoded_chancery_account =
  decoded_account_name :: string
  decoded_account_values :: js_object

definition discriminatorEquals :: "bytes \<Rightarrow> nat \<Rightarrow> bytes \<Rightarrow> bool" where
  "discriminatorEquals data off discriminator =
     (if length data < off + length discriminator then False
      else list_all (\<lambda>i. data ! (off + i) = discriminator ! i) [0..<length discriminator])"

definition findAccountSchema :: "chancery_schema \<Rightarrow> bytes \<Rightarrow> (string \<times> account_schema) res" where
  "findAccountSchema S data =
     (case find (\<lambda>(name, accountSchema). discriminatorEquals data 0 (account_discriminator accountSchema))
             (schema_accounts S) of
        Some entry \<Rightarrow> Inr entry
      | None \<Rightarrow> throw ''Unknown Chancery account discriminator'')"

definition identifyChanceryAccount :: "chancery_schema \<Rightarrow> bytes \<Rightarrow> string res" where
  "identifyChanceryAccount S data = bindR (findAccountSchema S data) (\<lambda>(name, _). Inr name)"

definition decodeChanceryAccount :: "chancery_schema \<Rightarrow> bytes \<Rightarrow> decoded_chancery_account res" where
  "decodeChanceryAccount S data =
     bindR (findAccountSchema S data) (\<lambda>(accountName, accountSchema).
       if length data \<noteq> account_size accountSchema then throw ''account requires exactly its size in bytes''
       else
         bindR (newBinaryReader data (account_discriminator_bytes (schema_wire S))) (\<lambda>reader.
         bindR (decodeStruct S (struct_fields accountSchema) reader) (\<lambda>(values, reader').
           if reader_remaining reader' \<noteq> 0 then throw ''account has trailing bytes''
           else Inr \<lparr>decoded_account_name = accountName, decoded_account_values = values\<rparr>)))"

definition decodeChanceryAccountBase64 :: "chancery_schema \<Rightarrow> string \<Rightarrow> decoded_chancery_account res" where
  "decodeChanceryAccountBase64 S encoded = bindR (decodeBase64 encoded) (decodeChanceryAccount S)"

definition encodeChanceryAccount :: "chancery_schema \<Rightarrow> string \<Rightarrow> js_object \<Rightarrow> bytes res" where
  "encodeChanceryAccount S accountName values =
     bindR (getAccountSchema S accountName) (\<lambda>accountSchema.
     bindR (encodeStruct S (struct_fields accountSchema) values True) (\<lambda>payload.
       let discriminator = account_discriminator accountSchema;
           empty = replicate (length discriminator + length payload) 0;
           data = array_set (array_set empty discriminator 0) payload (length discriminator) in
       if length data \<noteq> account_size accountSchema then throw ''account encoded to another size''
       else Inr data))"

section \<open>Program errors\<close>

record chancery_program_error =
  error_code :: int
  error_name :: string
  error_message :: string

text \<open>The code is a number; a fractional or infinite one is \<open>JFrac\<close>.\<close>

definition lookupChanceryError :: "chancery_schema \<Rightarrow> js \<Rightarrow> chancery_program_error option res" where
  "lookupChanceryError S code =
     (case code of
        JNum n \<Rightarrow>
          if n < 0 then throw ''Program error code must be a non-negative integer''
          else (case map_of (schema_errors S) (show_int n) of
                  None \<Rightarrow> Inr None
                | Some e \<Rightarrow> Inr (Some \<lparr>error_code = n, error_name = program_error_name e,
                                       error_message = program_error_message e\<rparr>))
      | _ \<Rightarrow> throw ''Program error code must be a non-negative integer'')"

section \<open>Discriminators\<close>

lemma discriminatorEquals_iff:
  "discriminatorEquals data off d \<longleftrightarrow> off + length d \<le> length data \<and> take (length d) (drop off data) = d"
proof (cases "off + length d \<le> length data")
  case True
  show ?thesis
  proof -
    have n: "length (take (length d) (drop off data)) = length d" using True by simp
    have "take (length d) (drop off data) = d \<longleftrightarrow> (\<forall>i < length d. data ! (off + i) = d ! i)"
      by (subst list_eq_iff_nth_eq, unfold n) (use True in simp)
    with True show ?thesis by (auto simp: discriminatorEquals_def list_all_iff)
  qed
qed (simp add: discriminatorEquals_def)

text \<open>
  A table of discriminators is \<open>prefix_free\<close> when they have the width the wire format declares and
  are different; JavaScript object keys are always different.
\<close>

definition prefix_free :: "nat \<Rightarrow> ('a \<Rightarrow> bytes) \<Rightarrow> (string \<times> 'a) list \<Rightarrow> bool" where
  "prefix_free w disc table \<longleftrightarrow>
     distinct (map fst table) \<and> distinct (map (\<lambda>(_, x). disc x) table) \<and>
     list_all (\<lambda>(_, x). length (disc x) = w) table"

lemma find_discriminator:
  assumes "prefix_free w disc table" "(name, x) \<in> set table"
  shows "find (\<lambda>(_, y). discriminatorEquals (pre @ disc x @ rest) (length pre) (disc y)) table = Some (name, x)"
proof -
  have len: "length (disc y) = w" if "(n, y) \<in> set table" for n y
    using assms(1) that by (auto simp: prefix_free_def list_all_iff)
  have match: "discriminatorEquals (pre @ disc x @ rest) (length pre) (disc y) \<longleftrightarrow> (n, y) = (name, x)"
    if "(n, y) \<in> set table" for n y
  proof -
    have "discriminatorEquals (pre @ disc x @ rest) (length pre) (disc y) \<longleftrightarrow> disc y = disc x"
      using len [OF that] len [OF assms(2)] by (auto simp: discriminatorEquals_iff)
    also have "\<dots> \<longleftrightarrow> (n, y) = (name, x)"
      using assms that by (auto simp: prefix_free_def distinct_map inj_on_def)
    finally show ?thesis .
  qed
  show ?thesis
  proof (cases "find (\<lambda>(_, y). discriminatorEquals (pre @ disc x @ rest) (length pre) (disc y)) table")
    case None
    then show ?thesis using assms(2) match by (auto simp: find_None_iff)
  next
    case (Some entry)
    then obtain i where "i < length table" "entry = table ! i"
      "(case entry of (_, y) \<Rightarrow> discriminatorEquals (pre @ disc x @ rest) (length pre) (disc y))"
      by (auto simp: find_Some_iff)
    then show ?thesis using Some match by (cases entry) (metis case_prod_conv nth_mem)
  qed
qed

lemma find_SomeD: "find P xs = Some x \<Longrightarrow> x \<in> set xs \<and> P x"
  by (auto simp: find_Some_iff)

lemma array_set_two: "array_set (array_set (replicate (length a + length b) z) a 0) b (length a) = a @ b"
  by (simp add: array_set_def)

section \<open>Reading a whole input\<close>

lemma decode_whole:
  assumes "accepts_js p bs x"
  obtains r r' where "newBinaryReader (pre @ bs) (length pre) = Inr r" "p r = Inr (x, r')" "reader_remaining r' = 0"
proof -
  obtain r where r: "newBinaryReader (pre @ bs) (length pre) = Inr r" by (simp add: newBinaryReader_def)
  then have "reader_unread r = Some (bs @ [])" using newBinaryReader_unread by fastforce
  from acceptsD [OF assms this] obtain r' where "p r = Inr (x, r')" "reader_unread r' = Some []" by blast
  with r that show thesis by (simp add: reader_unread_nil)
qed

lemma decode_whole_Inr:
  assumes "consumes_js p T"
    and "bindR (newBinaryReader data off) (\<lambda>reader. bindR (p reader) (\<lambda>(v, reader').
       if reader_remaining reader' \<noteq> 0 then throw msg else Inr (f v))) = Inr y"
  obtains x where "y = f x" "T (drop off data) x" "off \<le> length data"
proof -
  obtain r x r' where r: "newBinaryReader data off = Inr r" "p r = Inr (x, r')"
    "reader_remaining r' = 0" "y = f x"
    using assms(2) by (auto split: if_splits)
  obtain bs rest where "drop off data = bs @ rest" "reader_unread r' = Some rest" "T bs x"
    using consumesD [OF assms(1) newBinaryReader_unread [OF r(1)] r(2)] by blast
  with r show thesis by (auto simp: reader_unread_nil newBinaryReader_Inr intro!: that)
qed

section \<open>Account data round trips\<close>

definition accounts_wf :: "chancery_schema \<Rightarrow> bool" where
  "accounts_wf S \<longleftrightarrow>
     prefix_free (account_discriminator_bytes (schema_wire S)) account_discriminator (schema_accounts S)"

lemma prefix_free_width: "prefix_free w disc table \<Longrightarrow> (name, x) \<in> set table \<Longrightarrow> length (disc x) = w"
  by (auto simp: prefix_free_def list_all_iff)

lemma prefix_free_map_of: "prefix_free w disc table \<Longrightarrow> map_of table name = Some x \<longleftrightarrow> (name, x) \<in> set table"
  by (auto simp: prefix_free_def)

lemma encodeChanceryAccount_Inr:
  "encodeChanceryAccount S name values = Inr data \<longleftrightarrow>
   (\<exists>a payload. map_of (schema_accounts S) name = Some a \<and>
      encodeStruct S (struct_fields a) values True = Inr payload \<and>
      data = account_discriminator a @ payload \<and> length data = account_size a)"
  unfolding encodeChanceryAccount_def getAccountSchema_def Let_def array_set_two by auto

lemma account_decode_encode:
  assumes wf: "accounts_wf S" and enc: "encodeChanceryAccount S name values = Inr data"
    and a: "map_of (schema_accounts S) name = Some a" and ty: "has_struct S (struct_fields a) values"
  shows "decodeChanceryAccount S data = Inr \<lparr>decoded_account_name = name, decoded_account_values = values\<rparr>"
proof -
  obtain payload where p: "encodeStruct S (struct_fields a) values True = Inr payload"
    "data = account_discriminator a @ payload" "length data = account_size a"
    using enc a by (auto simp: encodeChanceryAccount_Inr)
  have mem: "(name, a) \<in> set (schema_accounts S)" using a by (rule map_of_SomeD)
  have acc: "accepts_js (decodeStruct S (struct_fields a)) payload values"
    using encodeStruct_accepts [OF ty, of True] p(1) by auto
  have "findAccountSchema S data = Inr (name, a)"
    using find_discriminator [OF wf [unfolded accounts_wf_def] mem, of "[]" payload] p(2)
    by (simp add: findAccountSchema_def)
  moreover have "account_discriminator_bytes (schema_wire S) = length (account_discriminator a)"
    using prefix_free_width [OF wf [unfolded accounts_wf_def] mem] by simp
  moreover obtain r r' where "newBinaryReader data (length (account_discriminator a)) = Inr r"
    "decodeStruct S (struct_fields a) r = Inr (values, r')" "reader_remaining r' = 0"
    using decode_whole [OF acc, of "account_discriminator a"] p(2) by auto
  ultimately show ?thesis using p(3) by (simp add: decodeChanceryAccount_def)
qed

lemma account_encode_decode:
  assumes wf: "accounts_wf S" "canonical_schema S"
    and fs: "\<forall>(n, a) \<in> set (schema_accounts S). canonical_fields (struct_fields a)"
    and dec: "decodeChanceryAccount S data = Inr r"
  shows "encodeChanceryAccount S (decoded_account_name r) (decoded_account_values r) = Inr data \<and>
    (\<exists>a. map_of (schema_accounts S) (decoded_account_name r) = Some a \<and>
         has_struct S (struct_fields a) (decoded_account_values r))"
proof -
  obtain name a where a: "findAccountSchema S data = Inr (name, a)" "length data = account_size a"
    "bindR (newBinaryReader data (account_discriminator_bytes (schema_wire S))) (\<lambda>reader.
         bindR (decodeStruct S (struct_fields a) reader) (\<lambda>(values, reader').
           if reader_remaining reader' \<noteq> 0 then throw ''account has trailing bytes''
           else Inr \<lparr>decoded_account_name = name, decoded_account_values = values\<rparr>)) = Inr r"
    using dec unfolding decodeChanceryAccount_def by (auto split: if_splits)
  have mem: "(name, a) \<in> set (schema_accounts S)" and d: "discriminatorEquals data 0 (account_discriminator a)"
    using a(1) by (auto simp: findAccountSchema_def dest!: find_SomeD split: option.splits)
  have w: "account_discriminator_bytes (schema_wire S) = length (account_discriminator a)"
    using prefix_free_width [OF wf(1) [unfolded accounts_wf_def] mem] by simp
  have "canonical_fields (struct_fields a)" using fs mem by auto
  from decodeStruct_consumes [OF wf(2) this, of True] a(3)
  obtain vals where "r = \<lparr>decoded_account_name = name, decoded_account_values = vals\<rparr>"
    "encodeStruct S (struct_fields a) vals True = Inr (drop (length (account_discriminator a)) data)"
    "has_struct S (struct_fields a) vals"
    unfolding w by (rule decode_whole_Inr) auto
  moreover have "map_of (schema_accounts S) name = Some a"
    using prefix_free_map_of [OF wf(1) [unfolded accounts_wf_def]] mem by blast
  moreover have "account_discriminator a @ drop (length (account_discriminator a)) data = data"
    using d by (auto simp: discriminatorEquals_iff) (metis append_take_drop_id)
  ultimately show ?thesis using a(2) by (auto simp: encodeChanceryAccount_Inr)
qed

section \<open>The size of an account\<close>

text \<open>Types whose encodings all have one length, and that length.\<close>

fun primitive_size :: "primitive \<Rightarrow> nat option" where
  "primitive_size U8 = Some 1"
| "primitive_size U16 = Some 2"
| "primitive_size U32 = Some 4"
| "primitive_size U64 = Some 8"
| "primitive_size U128 = Some 16"
| "primitive_size I64 = Some 8"
| "primitive_size I128 = Some 16"
| "primitive_size BoolP = Some 1"
| "primitive_size Pubkey = Some 32"
| "primitive_size (OtherPrim _) = None"

primrec type_size :: "type_schema \<Rightarrow> nat option" where
  "type_size (Prim p) = primitive_size p"
| "type_size (OptionT item) = None"
| "type_size (ArrayT item n) = map_option (\<lambda>size. n * size) (type_size item)"
| "type_size (VectorT item) = None"
| "type_size (DefinedT name) = None"
| "type_size UnsupportedT = None"

fun struct_size :: "field_schema list \<Rightarrow> nat option" where
  "struct_size [] = Some 0"
| "struct_size (f # fs) =
     (case (type_size (field_type f), struct_size fs) of (Some m, Some n) \<Rightarrow> Some (m + n) | _ \<Rightarrow> None)"

lemma encodeUnsigned_length: "encodeUnsignedInteger v n = Inr bs \<Longrightarrow> length bs = n"
  by (auto simp: encodeUnsignedInteger_def split: if_splits)

lemma encodeSigned_length: "encodeSignedInteger v n = Inr bs \<Longrightarrow> length bs = n"
  by (auto simp: encodeSignedInteger_def Let_def dest: encodeUnsigned_length split: if_split_asm)

lemma encodePrimitive_length: "encodePrimitive p v = Inr bs \<Longrightarrow> primitive_size p = Some n \<Longrightarrow> length bs = n"
proof (cases p)
  case BoolP
  assume "encodePrimitive p v = Inr bs" "primitive_size p = Some n"
  with BoolP show ?thesis by (auto simp: encodePrimitive_def split: js.splits)
next
  case Pubkey
  assume "encodePrimitive p v = Inr bs" "primitive_size p = Some n"
  with Pubkey show ?thesis by (auto simp: encodePrimitive_def split: if_split_asm)
qed (auto simp: encodePrimitive_def dest: encodeUnsigned_length encodeSigned_length)

lemma concat_length: "list_all2 (\<lambda>x part. length part = n) xs parts \<Longrightarrow> length (concat parts) = length xs * n"
  by (induction xs parts rule: list_all2_induct) simp_all

lemma encode_type_length: "encode_type_with defined t v = Inr bs \<Longrightarrow> type_size t = Some n \<Longrightarrow> length bs = n"
proof (induction t arbitrary: v bs n)
  case (Prim p)
  then show ?case using encodePrimitive_length by simp
next
  case (ArrayT item count)
  then obtain size where size: "type_size item = Some size" "n = count * size" by auto
  show ?case
  proof (cases "item = Prim U8")
    case True
    with ArrayT.prems(1) size show ?thesis by (auto split: if_splits)
  next
    case False
    then obtain vs parts where "length vs = count" "mapR (encode_type_with defined item) vs = Inr parts" "bs = concat parts"
      using ArrayT.prems(1) by (auto split: if_splits)
    moreover from this(2) have "list_all2 (\<lambda>v part. length part = size) vs parts"
      unfolding mapR_eq_Inr_iff using ArrayT.IH size(1) by (auto elim: list_all2_mono)
    ultimately show ?thesis using concat_length [of size vs parts] size(2) by simp
  qed
qed simp_all

lemma encodeStruct_length:
  assumes "encodeStruct S fs ob pad = Inr bs" "struct_size fs = Some n"
  shows "length bs = n"
proof -
  obtain parts where "list_all2 (\<lambda>f part. encode_field S (encode_defined S STACK_DEPTH) ob pad f = Inr part) fs parts"
    "bs = concat parts"
    using assms(1) by (auto simp: encodeStruct_def encode_struct_with_def mapR_eq_Inr_iff)
  from this(1) assms(2) have "length (concat parts) = n"
  proof (induction fs parts arbitrary: n rule: list_all2_induct)
    case (Cons f fs part parts)
    then obtain k m where "type_size (field_type f) = Some k" "struct_size fs = Some m" "n = k + m"
      by (auto split: option.splits)
    moreover have "length part = k"
      using Cons.hyps(1) \<open>type_size (field_type f) = Some k\<close> encode_type_length unfolding encode_field_def
      by (auto split: if_split_asm)
    ultimately show ?case using Cons.IH by simp
  qed simp
  with \<open>bs = concat parts\<close> show ?thesis by simp
qed

text \<open>Every typed value of an account whose declared size is that of its fields can be encoded.\<close>

lemma encodeChanceryAccount_fits:
  assumes a: "map_of (schema_accounts S) name = Some a" and ty: "has_struct S (struct_fields a) values"
    and size: "struct_size (struct_fields a) = Some n" "account_size a = length (account_discriminator a) + n"
  shows "\<exists>data. encodeChanceryAccount S name values = Inr data \<and> length data = account_size a"
proof -
  obtain payload where p: "encodeStruct S (struct_fields a) values True = Inr payload"
    using encodeStruct_accepts [OF ty, of True] by blast
  with encodeStruct_length [OF p size(1)] a size(2) show ?thesis by (auto simp: encodeChanceryAccount_Inr)
qed

end
