(* ===== verification/ChanceryInstruction.thy ===== *)
theory ChanceryInstruction
  imports ChanceryAccount
begin

text \<open>
  \<open>typescript/src/ChanceryInstruction.ts\<close>: instruction data (a discriminator and the encoded arguments)
  and the accounts of an instruction. Accounts come from the caller, from the schema's defaults, or are
  derived addresses whose seeds may be other accounts; \<open>pda_passes\<close> is the loop that derives until
  nothing changes. An \<open>InstructionAccountInputs\<close> record is an association list whose values may be
  \<open>undefined\<close> (\<open>None\<close>).
\<close>

section \<open>Instruction data\<close>

record instruction_account_meta =
  am_name :: string
  am_address :: string
  am_signer :: bool
  am_writable :: bool

record chancery_instruction =
  ci_program :: string
  ci_accounts :: "instruction_account_meta list"
  ci_data :: bytes

record decoded_instruction_data =
  di_name :: string
  di_arguments :: js_object

record derived_instruction_pda = program_address_result +
  dp_account_name :: string

type_synonym account_inputs = "(string \<times> key_input option) list"
type_synonym account_addresses = "(string \<times> string) list"

text \<open>The bytes in decimal, separated by colons.\<close>

fun discriminatorKey :: "bytes \<Rightarrow> string" where
  "discriminatorKey [] = ''''"
| "discriminatorKey [b] = show_nat (unat b)"
| "discriminatorKey (b # c # bs) = show_nat (unat b) @ '':'' @ discriminatorKey (c # bs)"

definition instructionByDiscriminator :: "chancery_schema \<Rightarrow> bytes \<Rightarrow> (string \<times> instruction_schema) res" where
  "instructionByDiscriminator S data =
     (let n = instruction_discriminator_bytes (schema_wire S) in
      if length data < n then throw ''Instruction data is shorter than the Chancery discriminator''
      else
        let actualKey = discriminatorKey (take n data) in
        case find (\<lambda>(_, ix). discriminatorKey (ix_discriminator ix) = actualKey) (schema_instructions S) of
          Some entry \<Rightarrow> Inr entry
        | None \<Rightarrow> throw ''Unknown Chancery instruction discriminator'')"

definition encodeChanceryInstructionData :: "chancery_schema \<Rightarrow> string \<Rightarrow> js_object \<Rightarrow> bytes res" where
  "encodeChanceryInstructionData S instructionName argumentValues =
     bindR (getInstructionSchema S instructionName) (\<lambda>ix.
     bindR (encodeStruct S (ix_args ix) argumentValues False) (\<lambda>args.
       Inr (concatenateBytes [ix_discriminator ix, args])))"

definition decodeChanceryInstructionData :: "chancery_schema \<Rightarrow> bytes \<Rightarrow> decoded_instruction_data res" where
  "decodeChanceryInstructionData S data =
     bindR (instructionByDiscriminator S data) (\<lambda>(instructionName, ix).
     bindR (newBinaryReader data (instruction_discriminator_bytes (schema_wire S))) (\<lambda>reader.
     bindR (decodeStruct S (ix_args ix) reader) (\<lambda>(argumentValues, reader').
       if reader_remaining reader' \<noteq> 0 then throw ''Instruction has trailing bytes''
       else Inr \<lparr>di_name = instructionName, di_arguments = argumentValues\<rparr>)))"

section \<open>Seeds and defaults\<close>

definition encodePdaArgumentSeed ::
  "chancery_schema \<Rightarrow> instruction_schema \<Rightarrow> js_object \<Rightarrow> string \<Rightarrow> bytes res" where
  "encodePdaArgumentSeed S ix argumentValues seedName =
     bindR (fieldSchemaByName (ix_args ix) seedName) (\<lambda>field.
     let value = obj_get argumentValues seedName in
     if value = JUndef then throw ''PDA seed argument is missing''
     else bindR (encodeType S (field_type field) value) (\<lambda>encoded.
       if 32 < length encoded then throw ''PDA seed argument encodes to more than 32 bytes''
       else Inr encoded))"

definition PDA_SEED_MISSING :: error where
  "PDA_SEED_MISSING = Error ''PDA seed account is missing:''"

definition pdaSeedBytes ::
  "chancery_schema \<Rightarrow> instruction_schema \<Rightarrow> pda_seed_schema \<Rightarrow> js_object \<Rightarrow> account_addresses \<Rightarrow> bytes res" where
  "pdaSeedBytes S ix seedSchema argumentValues accountAddresses =
     (case seedSchema of
        ConstSeed bs \<Rightarrow> Inr bs
      | ArgumentSeed name \<Rightarrow> encodePdaArgumentSeed S ix argumentValues name
      | AccountSeed name \<Rightarrow>
          (case map_of accountAddresses name of
             None \<Rightarrow> Inl PDA_SEED_MISSING
           | Some accountAddress \<Rightarrow> decodePublicKey (KeyText accountAddress)))"

definition defaultAccountAddress ::
  "chancery_schema \<Rightarrow> instruction_account_schema \<Rightarrow> string option res" where
  "defaultAccountAddress S accountSchema =
     (case ia_default accountSchema of
        None \<Rightarrow> Inr None
      | Some d \<Rightarrow>
          (case default_kind d of
             ProgramAddressDefault \<Rightarrow> Inr (Some (program_address (schema_program S)))
           | SystemProgramDefault \<Rightarrow> Inr (Some (system_program (schema_wire S)))
           | ZeroAddressDefault \<Rightarrow> Inr (Some (zero_address (schema_wire S)))
           | KnownPda \<Rightarrow>
               (case default_name d of
                  None \<Rightarrow> throw ''Known PDA default has no name''
                | Some name \<Rightarrow>
                    (case map_of (known_pdas S) name of
                       None \<Rightarrow> throw ''Unknown named Chancery PDA''
                     | Some knownPda \<Rightarrow> Inr (Some (known_pda_address knownPda))))))"

text \<open>The seeds of a PDA schema in order, and the address they give.\<close>

definition derivePda ::
  "(bytes \<Rightarrow> bytes) \<Rightarrow> chancery_schema \<Rightarrow> instruction_schema \<Rightarrow> js_object \<Rightarrow> pda_schema \<Rightarrow> account_addresses
   \<Rightarrow> program_address_result res" where
  "derivePda H S ix argumentValues pda accountAddresses =
     bindR (mapR (\<lambda>seed. pdaSeedBytes S ix seed argumentValues accountAddresses) (pda_seeds pda)) (\<lambda>seedBytes.
       findProgramAddress H seedBytes (KeyText (program_address (schema_program S))))"

section \<open>Deriving one account\<close>

definition given_addresses :: "account_inputs \<Rightarrow> account_addresses res" where
  "given_addresses accountInputs =
     foldR (\<lambda>(inputName, inputAddress) addresses.
        case inputAddress of
          None \<Rightarrow> Inr addresses
        | Some key \<Rightarrow> bindR (normalizePublicKey key) (\<lambda>address. Inr (obj_set addresses inputName address)))
       accountInputs []"

definition add_defaults ::
  "chancery_schema \<Rightarrow> instruction_account_schema list \<Rightarrow> account_addresses \<Rightarrow> account_addresses res" where
  "add_defaults S accountSchemas =
     foldR (\<lambda>accountSchema addresses.
        if map_of addresses (ia_name accountSchema) \<noteq> None then Inr addresses
        else bindR (defaultAccountAddress S accountSchema) (\<lambda>accountDefault.
          case accountDefault of
            None \<Rightarrow> Inr addresses
          | Some address \<Rightarrow> Inr (obj_set addresses (ia_name accountSchema) address)))
       accountSchemas"

definition deriveInstructionAccountPda ::
  "(bytes \<Rightarrow> bytes) \<Rightarrow> chancery_schema \<Rightarrow> string \<Rightarrow> string \<Rightarrow> js_object \<Rightarrow> account_inputs
   \<Rightarrow> derived_instruction_pda res" where
  "deriveInstructionAccountPda H S instructionName accountName argumentValues accountInputs =
     bindR (getInstructionSchema S instructionName) (\<lambda>ix.
       case find (\<lambda>a. ia_name a = accountName) (ix_accounts ix) of
         None \<Rightarrow> throw ''account has no PDA schema''
       | Some target \<Rightarrow>
           (case ia_pda target of
              None \<Rightarrow> throw ''account has no PDA schema''
            | Some pda \<Rightarrow>
                bindR (given_addresses accountInputs) (\<lambda>given.
                bindR (add_defaults S (ix_accounts ix) given) (\<lambda>accountAddresses.
                bindR (derivePda H S ix argumentValues pda accountAddresses) (\<lambda>result.
                  Inr \<lparr>pda_address = pda_address result, pda_bump = pda_bump result,
                       dp_account_name = accountName\<rparr>)))))"

section \<open>Resolving all accounts\<close>

definition initial_step ::
  "chancery_schema \<Rightarrow> account_inputs \<Rightarrow> instruction_account_schema \<Rightarrow> account_addresses \<Rightarrow> account_addresses res" where
  "initial_step S accountInputs accountSchema addresses =
     (case map_of accountInputs (ia_name accountSchema) of
        Some (Some key) \<Rightarrow>
          bindR (normalizePublicKey key) (\<lambda>address. Inr (obj_set addresses (ia_name accountSchema) address))
      | _ \<Rightarrow>
          bindR (defaultAccountAddress S accountSchema) (\<lambda>accountDefault.
            case accountDefault of
              None \<Rightarrow> Inr addresses
            | Some address \<Rightarrow> Inr (obj_set addresses (ia_name accountSchema) address)))"

definition initial_addresses ::
  "chancery_schema \<Rightarrow> instruction_account_schema list \<Rightarrow> account_inputs \<Rightarrow> account_addresses res" where
  "initial_addresses S accountSchemas accountInputs = foldR (initial_step S accountInputs) accountSchemas []"

text \<open>The body of the inner loop; the state is the addresses and the \<open>changed\<close> flag.\<close>

definition pda_step ::
  "(bytes \<Rightarrow> bytes) \<Rightarrow> chancery_schema \<Rightarrow> instruction_schema \<Rightarrow> js_object \<Rightarrow> instruction_account_schema
   \<Rightarrow> account_addresses \<times> bool \<Rightarrow> (account_addresses \<times> bool) res" where
  "pda_step H S ix argumentValues accountSchema st =
     (case st of (addresses, changed) \<Rightarrow>
        if map_of addresses (ia_name accountSchema) \<noteq> None then Inr (addresses, changed)
        else
          case ia_pda accountSchema of
            None \<Rightarrow> Inr (addresses, changed)
          | Some pda \<Rightarrow>
              (case derivePda H S ix argumentValues pda addresses of
                 Inr result \<Rightarrow> Inr (obj_set addresses (ia_name accountSchema) (pda_address result), True)
               | Inl e \<Rightarrow> if e \<noteq> PDA_SEED_MISSING then Inl e else Inr (addresses, changed)))"

fun pda_passes ::
  "(bytes \<Rightarrow> bytes) \<Rightarrow> chancery_schema \<Rightarrow> instruction_schema \<Rightarrow> js_object \<Rightarrow> nat \<Rightarrow> account_addresses
   \<Rightarrow> account_addresses res" where
  "pda_passes H S ix argumentValues 0 addresses = Inr addresses"
| "pda_passes H S ix argumentValues (Suc passesLeft) addresses =
     bindR (foldR (pda_step H S ix argumentValues) (ix_accounts ix) (addresses, False)) (\<lambda>(addresses', changed).
       if \<not> changed then Inr addresses' else pda_passes H S ix argumentValues passesLeft addresses')"

definition account_meta ::
  "(bytes \<Rightarrow> bytes) \<Rightarrow> chancery_schema \<Rightarrow> instruction_schema \<Rightarrow> js_object \<Rightarrow> bool \<Rightarrow> account_addresses
   \<Rightarrow> instruction_account_schema \<Rightarrow> instruction_account_meta res" where
  "account_meta H S ix argumentValues verifyPdas addresses accountSchema =
     (case map_of addresses (ia_name accountSchema) of
        None \<Rightarrow> throw ''Required instruction account is missing''
      | Some resolvedAddress \<Rightarrow>
          let meta = \<lparr>am_name = ia_name accountSchema, am_address = resolvedAddress,
                      am_signer = ia_signer accountSchema, am_writable = ia_writable accountSchema\<rparr> in
          (case ia_pda accountSchema of
             Some pda \<Rightarrow>
               if verifyPdas then
                 bindR (derivePda H S ix argumentValues pda addresses) (\<lambda>expected.
                   if resolvedAddress \<noteq> pda_address expected then throw ''PDA mismatch'' else Inr meta)
               else Inr meta
           | None \<Rightarrow> Inr meta))"

definition resolveChanceryInstructionAccounts ::
  "(bytes \<Rightarrow> bytes) \<Rightarrow> chancery_schema \<Rightarrow> string \<Rightarrow> js_object \<Rightarrow> account_inputs \<Rightarrow> bool
   \<Rightarrow> instruction_account_meta list res" where
  "resolveChanceryInstructionAccounts H S instructionName argumentValues accountInputs verifyPdas =
     bindR (getInstructionSchema S instructionName) (\<lambda>ix.
     bindR (initial_addresses S (ix_accounts ix) accountInputs) (\<lambda>addresses.
     bindR (pda_passes H S ix argumentValues (length (ix_accounts ix)) addresses) (\<lambda>resolved.
       mapR (account_meta H S ix argumentValues verifyPdas resolved) (ix_accounts ix))))"

definition buildChanceryInstruction ::
  "(bytes \<Rightarrow> bytes) \<Rightarrow> chancery_schema \<Rightarrow> string \<Rightarrow> js_object \<Rightarrow> account_inputs \<Rightarrow> bool
   \<Rightarrow> chancery_instruction res" where
  "buildChanceryInstruction H S instructionName argumentValues accountInputs verifyPdas =
     bindR (resolveChanceryInstructionAccounts H S instructionName argumentValues accountInputs verifyPdas) (\<lambda>metas.
     bindR (encodeChanceryInstructionData S instructionName argumentValues) (\<lambda>data.
       Inr \<lparr>ci_program = program_address (schema_program S), ci_accounts = metas, ci_data = data\<rparr>))"

definition pdaSeedFromBytes :: "js \<Rightarrow> bytes res" where
  "pdaSeedFromBytes value =
     bindR (bytesFromValue value) (\<lambda>bs. if 32 < length bs then throw ''seed exceeds 32 bytes'' else Inr bs)"

section \<open>Discriminator keys tell discriminators apart\<close>

lemma show_nat_digits: "c \<in> set (show_nat n) \<Longrightarrow> c \<noteq> CHR '':''"
  using show_nat_decimal [of n] by (auto simp: is_decimal_def list_all_iff is_digit_def)

lemma show_nat_nonempty [simp]: "show_nat n \<noteq> []"
  using show_nat_decimal [of n] by (auto simp: is_decimal_def)

lemma show_nat_inj [simp]: "show_nat m = show_nat n \<longleftrightarrow> m = n"
  by (metis parse_show_nat)

lemma show_nat_split:
  "show_nat m @ CHR '':'' # xs = show_nat n @ CHR '':'' # ys \<longleftrightarrow> m = n \<and> xs = ys"
proof
  assume eq: "show_nat m @ CHR '':'' # xs = show_nat n @ CHR '':'' # ys"
  have "takeWhile (\<lambda>c. c \<noteq> CHR '':'') (show_nat k @ CHR '':'' # zs) = show_nat k" for k zs
    using show_nat_digits by (subst takeWhile_append2) auto
  from this [of m xs] this [of n ys] eq have "show_nat m = show_nat n" by simp
  with eq show "m = n \<and> xs = ys" by simp
qed simp

lemma show_nat_no_separator: "show_nat m \<noteq> show_nat n @ CHR '':'' # ys"
  using show_nat_digits [of "CHR '':''" m] by (metis in_set_conv_decomp)

lemma discriminatorKey_nonempty [simp]: "discriminatorKey (b # bs) \<noteq> []"
  by (cases bs) simp_all

lemma discriminatorKey_inj [simp]: "discriminatorKey bs = discriminatorKey cs \<longleftrightarrow> bs = cs"
proof
  show "discriminatorKey bs = discriminatorKey cs \<Longrightarrow> bs = cs"
  proof (induction bs arbitrary: cs rule: discriminatorKey.induct)
    case 1
    then show ?case by (cases cs) (auto dest: sym)
  next
    case (2 b)
    then show ?case
      by (cases cs rule: discriminatorKey.cases) (auto simp: show_nat_no_separator intro: unsigned_word_eqI)
  next
    case (3 b c bs)
    then show ?case
      by (cases cs rule: discriminatorKey.cases)
         (auto simp: show_nat_split show_nat_no_separator [symmetric] intro: unsigned_word_eqI)
  qed
qed simp

section \<open>Instruction data round trips\<close>

definition instructions_wf :: "chancery_schema \<Rightarrow> bool" where
  "instructions_wf S \<longleftrightarrow>
     prefix_free (instruction_discriminator_bytes (schema_wire S)) ix_discriminator (schema_instructions S)"

lemma instructionByDiscriminator_entry:
  assumes wf: "instructions_wf S" and mem: "(name, ix) \<in> set (schema_instructions S)"
  shows "instructionByDiscriminator S (ix_discriminator ix @ rest) = Inr (name, ix)"
proof -
  let ?n = "instruction_discriminator_bytes (schema_wire S)"
  have w: "length (ix_discriminator x) = ?n" if "(m, x) \<in> set (schema_instructions S)" for m x
    using prefix_free_width [OF wf [unfolded instructions_wf_def] that] .
  have "find (\<lambda>(_, x). discriminatorEquals (ix_discriminator ix @ rest) 0 (ix_discriminator x)) (schema_instructions S)
      = Some (name, ix)"
    using find_discriminator [OF wf [unfolded instructions_wf_def] mem, of "[]" rest] by simp
  moreover have "find (\<lambda>(_, x). discriminatorEquals (ix_discriminator ix @ rest) 0 (ix_discriminator x)) (schema_instructions S)
      = find (\<lambda>(_, x). ix_discriminator x = ix_discriminator ix) (schema_instructions S)"
    by (rule find_cong) (use w mem in \<open>auto simp: discriminatorEquals_iff\<close>)
  ultimately show ?thesis using w [OF mem] by (simp add: instructionByDiscriminator_def Let_def)
qed

lemma instruction_decode_encode:
  assumes wf: "instructions_wf S" and enc: "encodeChanceryInstructionData S name args = Inr data"
    and ix: "map_of (schema_instructions S) name = Some ix" and ty: "has_struct S (ix_args ix) args"
  shows "decodeChanceryInstructionData S data = Inr \<lparr>di_name = name, di_arguments = args\<rparr>"
proof -
  obtain payload where p: "encodeStruct S (ix_args ix) args False = Inr payload"
    "data = ix_discriminator ix @ payload"
    using enc ix by (auto simp: encodeChanceryInstructionData_def getInstructionSchema_def lookup_or_def)
  have mem: "(name, ix) \<in> set (schema_instructions S)" using ix by (rule map_of_SomeD)
  have acc: "accepts_js (decodeStruct S (ix_args ix)) payload args"
    using encodeStruct_accepts [OF ty, of False] p(1) by auto
  have "instruction_discriminator_bytes (schema_wire S) = length (ix_discriminator ix)"
    using prefix_free_width [OF wf [unfolded instructions_wf_def] mem] by simp
  moreover obtain r r' where "newBinaryReader data (length (ix_discriminator ix)) = Inr r"
    "decodeStruct S (ix_args ix) r = Inr (args, r')" "reader_remaining r' = 0"
    using decode_whole [OF acc, of "ix_discriminator ix"] p(2) by auto
  ultimately show ?thesis
    using instructionByDiscriminator_entry [OF wf mem, of payload] p(2)
    by (simp add: decodeChanceryInstructionData_def)
qed

lemma instruction_encode_decode:
  assumes wf: "instructions_wf S" "canonical_schema S"
    and fs: "\<forall>(n, ix) \<in> set (schema_instructions S). canonical_fields (ix_args ix)"
    and dec: "decodeChanceryInstructionData S data = Inr r"
  shows "encodeChanceryInstructionData S (di_name r) (di_arguments r) = Inr data \<and>
    (\<exists>ix. map_of (schema_instructions S) (di_name r) = Some ix \<and> has_struct S (ix_args ix) (di_arguments r))"
proof -
  let ?n = "instruction_discriminator_bytes (schema_wire S)"
  obtain name ix where ix: "instructionByDiscriminator S data = Inr (name, ix)"
    "bindR (newBinaryReader data ?n) (\<lambda>reader.
     bindR (decodeStruct S (ix_args ix) reader) (\<lambda>(argumentValues, reader').
       if reader_remaining reader' \<noteq> 0 then throw ''Instruction has trailing bytes''
       else Inr \<lparr>di_name = name, di_arguments = argumentValues\<rparr>)) = Inr r"
    using dec unfolding decodeChanceryInstructionData_def by (auto split: if_splits)
  have mem: "(name, ix) \<in> set (schema_instructions S)" and d: "ix_discriminator ix = take ?n data"
    using ix(1) by (auto simp: instructionByDiscriminator_def Let_def dest!: find_SomeD
        split: option.splits if_splits)
  have "canonical_fields (ix_args ix)" using fs mem by auto
  from decodeStruct_consumes [OF wf(2) this, of False] ix(2)
  obtain args where "r = \<lparr>di_name = name, di_arguments = args\<rparr>"
    "encodeStruct S (ix_args ix) args False = Inr (drop ?n data)" "has_struct S (ix_args ix) args"
    by (rule decode_whole_Inr) auto
  moreover have "map_of (schema_instructions S) name = Some ix"
    using prefix_free_map_of [OF wf(1) [unfolded instructions_wf_def]] mem by blast
  ultimately show ?thesis
    by (simp add: encodeChanceryInstructionData_def getInstructionSchema_def lookup_or_def d)
qed

section \<open>The derivation loop reaches a fixed point\<close>

abbreviation known :: "account_addresses \<Rightarrow> instruction_account_schema \<Rightarrow> bool" where
  "known addresses a \<equiv> map_of addresses (ia_name a) \<noteq> None"

definition unresolved :: "instruction_account_schema list \<Rightarrow> account_addresses \<Rightarrow> nat" where
  "unresolved accounts addresses = length (filter (\<lambda>a. \<not> known addresses a) accounts)"

lemma pda_step_cases:
  assumes "pda_step H S ix args a (addresses, changed) = Inr (addresses', changed')"
  obtains "addresses' = addresses" "changed' = changed"
  | v where "\<not> known addresses a" "addresses' = obj_set addresses (ia_name a) v" "changed'"
  using assms by (auto simp: pda_step_def split: if_splits option.splits sum.splits)

lemma foldR_changed:
  "foldR (pda_step H S ix args) as (addresses, True) = Inr (addresses', changed') \<Longrightarrow> changed'"
proof (induction as arbitrary: addresses)
  case (Cons a as)
  then obtain addresses1 changed1 where
    step: "pda_step H S ix args a (addresses, True) = Inr (addresses1, changed1)" and
    rest: "foldR (pda_step H S ix args) as (addresses1, changed1) = Inr (addresses', changed')" by auto
  from step have changed1 by (cases rule: pda_step_cases) auto
  with Cons.IH rest show ?case by simp
qed simp

lemma pda_steps_grow:
  "foldR (pda_step H S ix args) as (addresses, changed) = Inr (addresses', changed') \<Longrightarrow>
   map_of addresses \<subseteq>\<^sub>m map_of addresses' \<and>
   (changed' \<longrightarrow> changed \<or> (\<exists>a \<in> set as. \<not> known addresses a \<and> known addresses' a)) \<and>
   (\<not> changed' \<longrightarrow> addresses' = addresses)"
proof (induction as arbitrary: addresses changed)
  case (Cons a as)
  then obtain addresses1 changed1 where
    step: "pda_step H S ix args a (addresses, changed) = Inr (addresses1, changed1)" and
    rest: "foldR (pda_step H S ix args) as (addresses1, changed1) = Inr (addresses', changed')"
    by auto
  note IH = Cons.IH [OF rest]
  from step show ?case
  proof (cases rule: pda_step_cases)
    case 1
    with IH show ?thesis by auto
  next
    case (2 v)
    then have sub: "map_of addresses \<subseteq>\<^sub>m map_of addresses1" by (auto simp: map_le_def)
    have "known addresses1 a" using 2 by simp
    then have "known addresses' a" using IH by (auto simp: map_le_def dom_def)
    moreover have "changed'" using rest 2 foldR_changed by simp
    moreover have "map_of addresses \<subseteq>\<^sub>m map_of addresses'" using sub IH by (blast intro: map_le_trans)
    ultimately show ?thesis using 2 by auto
  qed
qed simp

lemma unresolved_decreases:
  assumes "map_of addresses \<subseteq>\<^sub>m map_of addresses'" "a \<in> set accounts" "\<not> known addresses a" "known addresses' a"
  shows "unresolved accounts addresses' < unresolved accounts addresses"
proof -
  have keep: "\<not> known addresses' b \<Longrightarrow> \<not> known addresses b" for b
    using assms(1) by (metis domIff map_le_def)
  have le: "length (filter (\<lambda>a. \<not> known addresses' a) as) \<le> length (filter (\<lambda>a. \<not> known addresses a) as)" for as
  proof (induction as)
    case (Cons b as)
    then show ?case using keep [of b] by (cases "known addresses' b"; cases "known addresses b") auto
  qed simp
  show ?thesis using assms(2-) unfolding unresolved_def
  proof (induction accounts)
    case (Cons b accounts)
    show ?case
    proof (cases "b = a")
      case True
      with Cons.prems le [of accounts] show ?thesis by auto
    next
      case False
      with Cons keep [of b] show ?thesis by (cases "known addresses' b"; cases "known addresses b") auto
    qed
  qed simp
qed

lemma pda_steps_settled:
  "\<forall>a \<in> set as. known addresses a \<Longrightarrow> foldR (pda_step H S ix args) as (addresses, False) = Inr (addresses, False)"
  by (induction as) (auto simp: pda_step_def)

lemma pda_passes_fixed_point:
  "unresolved (ix_accounts ix) addresses \<le> n \<Longrightarrow> pda_passes H S ix args n addresses = Inr addresses' \<Longrightarrow>
   foldR (pda_step H S ix args) (ix_accounts ix) (addresses', False) = Inr (addresses', False)"
proof (induction n arbitrary: addresses)
  case 0
  then have "\<forall>a \<in> set (ix_accounts ix). known addresses a"
    by (auto simp: unresolved_def filter_empty_conv)
  with 0 show ?case using pda_steps_settled by simp
next
  case (Suc n)
  then obtain addresses1 changed where
    steps: "foldR (pda_step H S ix args) (ix_accounts ix) (addresses, False) = Inr (addresses1, changed)" and
    rest: "(if \<not> changed then Inr addresses1 else pda_passes H S ix args n addresses1) = Inr addresses'"
    by auto
  note grow = pda_steps_grow [OF steps]
  show ?case
  proof (cases changed)
    case True
    then obtain a where "a \<in> set (ix_accounts ix)" "\<not> known addresses a" "known addresses1 a"
      using grow by auto
    then have "unresolved (ix_accounts ix) addresses1 < unresolved (ix_accounts ix) addresses"
      using grow by (intro unresolved_decreases) simp_all
    then have "unresolved (ix_accounts ix) addresses1 \<le> n" using Suc.prems(1) by simp
    with Suc.IH rest True show ?thesis by simp
  next
    case False
    with grow rest steps show ?thesis by auto
  qed
qed

lemma unresolved_le: "unresolved accounts addresses \<le> length accounts"
  by (simp add: unresolved_def)

lemma pda_passes_grow:
  "pda_passes H S ix args n addresses = Inr addresses' \<Longrightarrow> map_of addresses \<subseteq>\<^sub>m map_of addresses'"
proof (induction n arbitrary: addresses)
  case (Suc n)
  then obtain addresses1 changed where
    steps: "foldR (pda_step H S ix args) (ix_accounts ix) (addresses, False) = Inr (addresses1, changed)" and
    rest: "(if \<not> changed then Inr addresses1 else pda_passes H S ix args n addresses1) = Inr addresses'"
    by auto
  with pda_steps_grow [OF steps] Suc.IH show ?case by (auto split: if_splits intro: map_le_trans)
qed simp

section \<open>What a resolved account list satisfies\<close>

text \<open>The addresses of a resolved account list, by account name.\<close>

definition meta_addresses :: "instruction_account_meta list \<Rightarrow> account_addresses" where
  "meta_addresses metas = map (\<lambda>m. (am_name m, am_address m)) metas"

text \<open>
  An account meta agrees with its schema: same name and flags, and when the schema declares a PDA the
  address is the one its seeds give.
\<close>

definition meta_ok ::
  "(bytes \<Rightarrow> bytes) \<Rightarrow> chancery_schema \<Rightarrow> instruction_schema \<Rightarrow> js_object \<Rightarrow> account_addresses
   \<Rightarrow> instruction_account_schema \<Rightarrow> instruction_account_meta \<Rightarrow> bool" where
  "meta_ok H S ix argumentValues addresses a m \<longleftrightarrow>
     am_name m = ia_name a \<and> am_signer m = ia_signer a \<and> am_writable m = ia_writable a \<and>
     (case ia_pda a of None \<Rightarrow> True
      | Some pda \<Rightarrow> \<exists>bump. derivePda H S ix argumentValues pda addresses
                              = Inr \<lparr>pda_address = am_address m, pda_bump = bump\<rparr>)"

lemma account_meta_ok:
  "account_meta H S ix args True addresses a = Inr m \<Longrightarrow>
   map_of addresses (ia_name a) = Some (am_address m) \<and> meta_ok H S ix args addresses a m"
  by (auto simp: account_meta_def meta_ok_def Let_def split: option.splits if_splits)
     (metis program_address_result.surjective old.unit.exhaust)+

lemma initial_step_set:
  assumes "initial_step S inputs a addresses = Inr addresses'"
  shows "addresses' = addresses \<or> (\<exists>v. addresses' = obj_set addresses (ia_name a) v)"
  using assms by (auto simp: initial_step_def split: option.splits)

lemma initial_step_input:
  "initial_step S inputs a addresses = Inr addresses' \<Longrightarrow> map_of inputs (ia_name a) = Some (Some key) \<Longrightarrow>
   \<exists>v. normalizePublicKey key = Inr v \<and> map_of addresses' (ia_name a) = Some v"
  by (auto simp: initial_step_def)

lemma initial_steps_other:
  "foldR (initial_step S inputs) as addresses = Inr addresses' \<Longrightarrow> name \<notin> ia_name ` set as \<Longrightarrow>
   map_of addresses' name = map_of addresses name"
proof (induction as arbitrary: addresses)
  case (Cons a as)
  then obtain addresses1 where "initial_step S inputs a addresses = Inr addresses1"
    "foldR (initial_step S inputs) as addresses1 = Inr addresses'" by auto
  with Cons initial_step_set [of S inputs a addresses addresses1] show ?case by auto
qed simp

lemma initial_steps_input:
  "foldR (initial_step S inputs) as addresses = Inr addresses' \<Longrightarrow> distinct (map ia_name as) \<Longrightarrow> a \<in> set as \<Longrightarrow>
   map_of inputs (ia_name a) = Some (Some key) \<Longrightarrow>
   \<exists>v. normalizePublicKey key = Inr v \<and> map_of addresses' (ia_name a) = Some v"
proof (induction as arbitrary: addresses)
  case (Cons b as)
  then obtain addresses1 where step: "initial_step S inputs b addresses = Inr addresses1"
    "foldR (initial_step S inputs) as addresses1 = Inr addresses'" by auto
  show ?case
  proof (cases "a = b")
    case True
    then have "ia_name a \<notin> ia_name ` set as" using Cons.prems(2) by simp
    with initial_steps_other [OF step(2)] initial_step_input [OF step(1)] Cons.prems(4) True show ?thesis by simp
  next
    case False
    with Cons step(2) show ?thesis by auto
  qed
qed simp

text \<open>Only names of the schema's accounts are ever bound.\<close>

definition only_named :: "instruction_account_schema list \<Rightarrow> account_addresses \<Rightarrow> bool" where
  "only_named accounts addresses \<longleftrightarrow> dom (map_of addresses) \<subseteq> ia_name ` set accounts"

lemma only_named_set: "only_named accounts ad \<Longrightarrow> a \<in> set accounts \<Longrightarrow> only_named accounts (obj_set ad (ia_name a) v)"
  by (auto simp: only_named_def)

lemma initial_only_named: "initial_addresses S accounts inputs = Inr ad \<Longrightarrow> only_named accounts ad"
  unfolding initial_addresses_def
proof (erule foldR_invariant)
  fix a s t assume "a \<in> set accounts" "only_named accounts s" "initial_step S inputs a s = Inr t"
  then show "only_named accounts t" using initial_step_set only_named_set by metis
qed (simp add: only_named_def)

lemma pda_steps_only_named:
  assumes "foldR (pda_step H S ix args) accounts st = Inr st'" "only_named accounts (fst st)"
  shows "only_named accounts (fst st')"
  using assms
proof (rule foldR_invariant [where P = "\<lambda>st. only_named accounts (fst st)"])
  fix a s t assume a: "a \<in> set accounts" "only_named accounts (fst s)" "pda_step H S ix args a s = Inr t"
  obtain ad ch ad' ch' where "s = (ad, ch)" "t = (ad', ch')" by (cases s, cases t)
  with a show "only_named accounts (fst t)"
    by simp (erule pda_step_cases, auto intro: only_named_set)
qed

lemma pda_passes_only_named:
  "pda_passes H S ix args n ad = Inr ad' \<Longrightarrow> only_named (ix_accounts ix) ad \<Longrightarrow> only_named (ix_accounts ix) ad'"
proof (induction n arbitrary: ad)
  case (Suc n)
  then obtain ad1 ch where
    steps: "foldR (pda_step H S ix args) (ix_accounts ix) (ad, False) = Inr (ad1, ch)" and
    rest: "(if \<not> ch then Inr ad1 else pda_passes H S ix args n ad1) = Inr ad'"
    by auto
  have "only_named (ix_accounts ix) ad1" using pda_steps_only_named [OF steps] Suc.prems by simp
  with rest Suc.IH show ?case by (auto split: if_splits)
qed simp

lemma derivePda_cong: "map_of ad = map_of ad' \<Longrightarrow> derivePda H S ix args pda ad = derivePda H S ix args pda ad'"
  by (simp add: derivePda_def pdaSeedBytes_def cong: pda_seed_schema.case_cong)

lemma meta_addresses_eq:
  assumes "list_all2 (\<lambda>a m. map_of ad (ia_name a) = Some (am_address m) \<and> am_name m = ia_name a) accounts metas"
    and "only_named accounts ad" "distinct (map ia_name accounts)"
  shows "map_of (meta_addresses metas) = map_of ad"
proof
  fix name
  have names: "map fst (meta_addresses metas) = map ia_name accounts"
    using assms(1) by (auto simp: meta_addresses_def list_all2_conv_all_nth list_eq_iff_nth_eq)
  show "map_of (meta_addresses metas) name = map_of ad name"
  proof (cases "name \<in> ia_name ` set accounts")
    case True
    then obtain i where i: "i < length accounts" "name = ia_name (accounts ! i)" by (auto simp: in_set_conv_nth)
    then have m: "map_of ad name = Some (am_address (metas ! i))" "am_name (metas ! i) = name" "i < length metas"
      using assms(1) by (auto simp: list_all2_conv_all_nth)
    then have "(name, am_address (metas ! i)) \<in> set (meta_addresses metas)"
      by (force simp: meta_addresses_def)
    then show ?thesis using m assms(3) names by (metis map_of_eq_Some_iff)
  next
    case False
    then have "name \<notin> set (map fst (meta_addresses metas))" unfolding names by simp
    then have "map_of (meta_addresses metas) name = None" by (simp add: map_of_eq_None_iff)
    moreover have "map_of ad name = None" using False assms(2) unfolding only_named_def by blast
    ultimately show ?thesis by simp
  qed
qed

lemma resolve_accounts_ok:
  assumes r: "resolveChanceryInstructionAccounts H S name args inputs True = Inr metas"
    and ix: "map_of (schema_instructions S) name = Some ix" and d: "distinct (map ia_name (ix_accounts ix))"
  shows "list_all2 (\<lambda>a m. meta_ok H S ix args (meta_addresses metas) a m \<and>
      (\<forall>key. map_of inputs (ia_name a) = Some (Some key) \<longrightarrow> normalizePublicKey key = Inr (am_address m)))
    (ix_accounts ix) metas"
proof -
  obtain ad0 ad where ad: "initial_addresses S (ix_accounts ix) inputs = Inr ad0"
    "pda_passes H S ix args (length (ix_accounts ix)) ad0 = Inr ad"
    "mapR (account_meta H S ix args True ad) (ix_accounts ix) = Inr metas"
    using r ix by (auto simp: resolveChanceryInstructionAccounts_def getInstructionSchema_def lookup_or_def)
  have metas: "list_all2 (\<lambda>a m. map_of ad (ia_name a) = Some (am_address m) \<and> meta_ok H S ix args ad a m)
      (ix_accounts ix) metas"
    using ad(3) account_meta_ok unfolding mapR_eq_Inr_iff by (rule list_all2_mono) fast
  have "only_named (ix_accounts ix) ad"
    using pda_passes_only_named [OF ad(2) initial_only_named [OF ad(1)]] .
  moreover have "list_all2 (\<lambda>a m. map_of ad (ia_name a) = Some (am_address m) \<and> am_name m = ia_name a)
      (ix_accounts ix) metas"
    using metas by (rule list_all2_mono) (simp add: meta_ok_def)
  ultimately have eq: "map_of (meta_addresses metas) = map_of ad" using d by (intro meta_addresses_eq)
  have ok: "meta_ok H S ix args ad a m \<longleftrightarrow> meta_ok H S ix args (meta_addresses metas) a m" for a m
    unfolding meta_ok_def using derivePda_cong [OF eq] by (simp cong: option.case_cong)
  have input: "normalizePublicKey key = Inr (am_address m)"
    if h: "a \<in> set (ix_accounts ix)" "map_of ad (ia_name a) = Some (am_address m)" "map_of inputs (ia_name a) = Some (Some key)"
    for a m key
  proof -
    obtain v where v: "normalizePublicKey key = Inr v" "map_of ad0 (ia_name a) = Some v"
      using initial_steps_input [OF ad(1) [unfolded initial_addresses_def] d h(1,3)] by blast
    then have "map_of ad (ia_name a) = Some v"
      using pda_passes_grow [OF ad(2)] by (metis domI map_le_def)
    with v h(2) show ?thesis by simp
  qed
  from metas show ?thesis
    by (rule list.rel_mono_strong) (use ok input in blast)
qed

end
