(* ===== verification/ChanceryEvent.thy ===== *)
theory ChanceryEvent
  imports ChanceryAccount
begin

text \<open>
  \<open>typescript/src/ChanceryEvent.ts\<close>: event data (an optional CPI prefix, a discriminator, the encoded
  fields) and the events of a transaction. An inner instruction is read as an event only when the
  program is Chancery, the data starts with the CPI prefix and the first account is the program's event
  authority; an unknown event discriminator is skipped, any other decoding error stops the run.
\<close>

record decoded_chancery_event =
  de_name :: string
  de_values :: js_object
  de_data :: bytes

record chancery_inner_instruction =
  ii_program :: string
  ii_accounts :: "string list"
  ii_data :: bytes
  ii_parent_index :: int
  ii_inner_index :: nat
  ii_stack_height :: "int option"

record chancery_event_occurrence =
  eo_event :: decoded_chancery_event
  eo_authority :: string
  eo_parent_index :: int
  eo_inner_index :: nat
  eo_stack_height :: "int option"

section \<open>Event data\<close>

definition eventPayloadOffset :: "chancery_schema \<Rightarrow> bytes \<Rightarrow> nat" where
  "eventPayloadOffset S data =
     (let prefix = event_cpi_prefix (schema_wire S) in
      if length data < length prefix then 0
      else if list_ex (\<lambda>i. data ! i \<noteq> prefix ! i) [0..<length prefix] then 0
      else length prefix)"

definition isEventCpiData :: "chancery_schema \<Rightarrow> bytes \<Rightarrow> bool" where
  "isEventCpiData S data \<longleftrightarrow> eventPayloadOffset S data = length (event_cpi_prefix (schema_wire S))"

definition UNKNOWN_EVENT :: error where
  "UNKNOWN_EVENT = Error ''Unknown Chancery event discriminator''"

definition findEventSchema :: "chancery_schema \<Rightarrow> bytes \<Rightarrow> nat \<Rightarrow> (string \<times> event_schema) res" where
  "findEventSchema S data discriminatorOffset =
     (case find (\<lambda>(name, ev). discriminatorEquals data discriminatorOffset (event_discriminator ev))
             (schema_events S) of
        Some entry \<Rightarrow> Inr entry
      | None \<Rightarrow> Inl UNKNOWN_EVENT)"

definition decodeChanceryEventData :: "chancery_schema \<Rightarrow> bytes \<Rightarrow> decoded_chancery_event res" where
  "decodeChanceryEventData S data =
     (let discriminatorOffset = eventPayloadOffset S data in
      bindR (findEventSchema S data discriminatorOffset) (\<lambda>(eventName, eventSchema).
      bindR (newBinaryReader data (discriminatorOffset + event_discriminator_bytes (schema_wire S))) (\<lambda>reader.
      bindR (decodeStruct S (struct_fields eventSchema) reader) (\<lambda>(values, reader').
        if reader_remaining reader' \<noteq> 0 then throw ''event has trailing bytes''
        else Inr \<lparr>de_name = eventName, de_values = values, de_data = data\<rparr>))))"

definition encodeChanceryEventData :: "chancery_schema \<Rightarrow> string \<Rightarrow> js_object \<Rightarrow> bool \<Rightarrow> bytes res" where
  "encodeChanceryEventData S eventName values includeCpiPrefix =
     bindR (getEventSchema S eventName) (\<lambda>eventSchema.
     bindR (encodeStruct S (struct_fields eventSchema) values False) (\<lambda>payload.
       let prefix = (if includeCpiPrefix then event_cpi_prefix (schema_wire S) else []);
           discriminator = event_discriminator eventSchema;
           empty = replicate (length prefix + length discriminator + length payload) 0 in
       Inr (array_set (array_set (array_set empty prefix 0) discriminator (length prefix))
              payload (length prefix + length discriminator))))"

section \<open>Events of a list of inner instructions\<close>

definition event_authority_address :: "chancery_schema \<Rightarrow> string res" where
  "event_authority_address S =
     (case map_of (known_pdas S) ''event_authority'' of
        None \<Rightarrow> throw ''Chancery event-authority metadata is unavailable''
      | Some pda \<Rightarrow> Inr (known_pda_address pda))"

text \<open>The body of the loop: \<open>None\<close> is \<open>continue\<close> or a caught unknown discriminator.\<close>

definition event_of_instruction ::
  "chancery_schema \<Rightarrow> string \<Rightarrow> chancery_inner_instruction \<Rightarrow> chancery_event_occurrence option res" where
  "event_of_instruction S canonicalEventAuthority ii =
     bindR (normalizePublicKey (KeyText (ii_program ii))) (\<lambda>program.
       if program \<noteq> program_address (schema_program S) \<or> \<not> isEventCpiData S (ii_data ii) then Inr None
       else
         case ii_accounts ii of
           [] \<Rightarrow> Inr None
         | eventAuthorityInput # _ \<Rightarrow>
             bindR (normalizePublicKey (KeyText eventAuthorityInput)) (\<lambda>authority.
               if authority \<noteq> canonicalEventAuthority then Inr None
               else
                 case decodeChanceryEventData S (ii_data ii) of
                   Inr event \<Rightarrow>
                     Inr (Some \<lparr>eo_event = event, eo_authority = canonicalEventAuthority,
                       eo_parent_index = ii_parent_index ii, eo_inner_index = ii_inner_index ii,
                       eo_stack_height = ii_stack_height ii\<rparr>)
                 | Inl e \<Rightarrow> if e \<noteq> UNKNOWN_EVENT then Inl e else Inr None))"

fun collect_events ::
  "chancery_schema \<Rightarrow> string \<Rightarrow> chancery_inner_instruction list \<Rightarrow> chancery_event_occurrence list
   \<Rightarrow> chancery_event_occurrence list res" where
  "collect_events S authority [] events = Inr events"
| "collect_events S authority (ii # iis) events =
     bindR (event_of_instruction S authority ii) (\<lambda>found.
       collect_events S authority iis (case found of None \<Rightarrow> events | Some e \<Rightarrow> events @ [e]))"

definition decodeChanceryEventsFromInnerInstructions ::
  "chancery_schema \<Rightarrow> chancery_inner_instruction list \<Rightarrow> chancery_event_occurrence list res" where
  "decodeChanceryEventsFromInnerInstructions S innerInstructions =
     bindR (event_authority_address S) (\<lambda>authority. collect_events S authority innerInstructions [])"

section \<open>Inner instructions of an RPC transaction\<close>

text \<open>
  \<open>recordFromUnknown\<close> refuses arrays and null but lets a \<open>Uint8Array\<close> through, an object without any
  of the named properties.
\<close>

definition recordFromUnknown :: "js \<Rightarrow> js_object res" where
  "recordFromUnknown value =
     (case value of JObj ob \<Rightarrow> Inr ob | JBytes _ \<Rightarrow> Inr [] | _ \<Rightarrow> throw ''value must be an object'')"

definition safeUnsignedInteger :: "js \<Rightarrow> int res" where
  "safeUnsignedInteger value =
     (case value of
        JNum n \<Rightarrow>
          if \<not> is_safe_integer n \<or> n < 0 then throw ''value must be a safe unsigned integer'' else Inr n
      | _ \<Rightarrow> throw ''value must be a safe unsigned integer'')"

definition rpcPublicKey :: "js \<Rightarrow> string res" where
  "rpcPublicKey value =
     (case value of
        JStr s \<Rightarrow> normalizePublicKey (KeyText s)
      | _ \<Rightarrow> bindR (recordFromUnknown value) (\<lambda>ob.
          case obj_get ob ''pubkey'' of
            JStr s \<Rightarrow> normalizePublicKey (KeyText s)
          | _ \<Rightarrow> throw ''value must be a public-key string or object with a public-key field''))"

definition appendRpcPublicKeys :: "string list \<Rightarrow> js \<Rightarrow> string list res" where
  "appendRpcPublicKeys destination source =
     (case source of
        JArr xs \<Rightarrow> bindR (mapR rpcPublicKey xs) (\<lambda>keys. Inr (destination @ keys))
      | _ \<Rightarrow> throw ''value must be an array'')"

definition is_nullish :: "js \<Rightarrow> bool" where
  "is_nullish v \<longleftrightarrow> v = JUndef \<or> v = JNull"

definition is_array :: "js \<Rightarrow> bool" where
  "is_array v = (case v of JArr _ \<Rightarrow> True | _ \<Rightarrow> False)"

text \<open>The operator \<open>a ?? b\<close>.\<close>

definition or_else :: "js \<Rightarrow> js \<Rightarrow> js" where
  "or_else a b = (if is_nullish a then b else a)"

definition rpcAccountKeys :: "js_object \<Rightarrow> js_object \<Rightarrow> string list res" where
  "rpcAccountKeys transactionRecord metaRecord =
     bindR (recordFromUnknown (obj_get transactionRecord ''transaction'')) (\<lambda>transaction.
     bindR (recordFromUnknown (obj_get transaction ''message'')) (\<lambda>message.
     let staticSource = (if is_array (obj_get message ''staticAccountKeys'')
                         then obj_get message ''staticAccountKeys'' else obj_get message ''accountKeys'') in
     bindR (appendRpcPublicKeys [] staticSource) (\<lambda>accountKeys.
       if is_nullish (obj_get metaRecord ''loadedAddresses'') then Inr accountKeys
       else
         bindR (recordFromUnknown (obj_get metaRecord ''loadedAddresses'')) (\<lambda>loadedAddresses.
         bindR (appendRpcPublicKeys accountKeys (or_else (obj_get loadedAddresses ''writable'') (JArr []))) (\<lambda>withWritable.
           appendRpcPublicKeys withWritable (or_else (obj_get loadedAddresses ''readonly'') (JArr [])))))))"

definition key_at :: "string list \<Rightarrow> int \<Rightarrow> string \<Rightarrow> string res" where
  "key_at accountKeys i msg =
     (if nat i < length accountKeys then Inr (accountKeys ! nat i) else throw msg)"

definition instructionAccountAddresses :: "js \<Rightarrow> string list \<Rightarrow> string list res" where
  "instructionAccountAddresses accountIndexesValue accountKeys =
     (case accountIndexesValue of
        JArr xs \<Rightarrow> mapR (\<lambda>x. bindR (safeUnsignedInteger x) (\<lambda>accountIndex.
          key_at accountKeys accountIndex ''value references an unavailable account key'')) xs
      | _ \<Rightarrow> throw ''value must be an array'')"

text \<open>The body of the inner loop: one instruction of a group.\<close>

definition rpc_inner_instruction ::
  "chancery_schema \<Rightarrow> string list \<Rightarrow> int \<Rightarrow> nat \<Rightarrow> js \<Rightarrow> chancery_inner_instruction option res" where
  "rpc_inner_instruction S accountKeys parentInstructionIndex instructionIndex value =
     bindR (recordFromUnknown value) (\<lambda>instruction.
     bindR (safeUnsignedInteger (obj_get instruction ''programIdIndex'')) (\<lambda>programIdIndex.
     bindR (key_at accountKeys programIdIndex
              ''Inner instruction programIdIndex references an unavailable account key'') (\<lambda>programAddress.
       if programAddress \<noteq> program_address (schema_program S) then Inr None
       else
         case obj_get instruction ''data'' of
           JStr text \<Rightarrow>
             bindR (if is_nullish (obj_get instruction ''stackHeight'') then Inr None
                    else bindR (safeUnsignedInteger (obj_get instruction ''stackHeight'')) (\<lambda>h. Inr (Some h)))
               (\<lambda>stackHeight.
             bindR (instructionAccountAddresses (obj_get instruction ''accounts'') accountKeys) (\<lambda>accountAddresses.
             bindR (decodeBase58 text) (\<lambda>data.
               Inr (Some \<lparr>ii_program = programAddress, ii_accounts = accountAddresses, ii_data = data,
                 ii_parent_index = parentInstructionIndex, ii_inner_index = instructionIndex,
                 ii_stack_height = stackHeight\<rparr>))))
         | _ \<Rightarrow> throw ''Chancery inner instruction data must be a base58 string'')))"

definition rpc_group ::
  "chancery_schema \<Rightarrow> string list \<Rightarrow> js \<Rightarrow> chancery_inner_instruction list res" where
  "rpc_group S accountKeys value =
     bindR (recordFromUnknown value) (\<lambda>group.
     bindR (safeUnsignedInteger (obj_get group ''index'')) (\<lambda>parentInstructionIndex.
       case obj_get group ''instructions'' of
         JArr xs \<Rightarrow>
           bindR (mapR (\<lambda>(i, x). rpc_inner_instruction S accountKeys parentInstructionIndex i x)
                    (enumerate 0 xs)) (\<lambda>found. Inr (List.map_filter id found))
       | _ \<Rightarrow> throw ''instructions must be an array''))"

definition extractChanceryInnerInstructionsFromRpcTransaction ::
  "chancery_schema \<Rightarrow> js \<Rightarrow> chancery_inner_instruction list res" where
  "extractChanceryInnerInstructionsFromRpcTransaction S result =
     bindR (recordFromUnknown result) (\<lambda>resultRecord.
     bindR (recordFromUnknown (obj_get resultRecord ''meta'')) (\<lambda>metaRecord.
       if \<not> is_nullish (obj_get metaRecord ''err'')
       then throw ''Cannot extract canonical Chancery events from a failed transaction''
       else if is_nullish (obj_get metaRecord ''innerInstructions'') then Inr []
       else
         case obj_get metaRecord ''innerInstructions'' of
           JArr groups \<Rightarrow>
             bindR (rpcAccountKeys resultRecord metaRecord) (\<lambda>accountKeys.
             bindR (mapR (rpc_group S accountKeys) groups) (\<lambda>found. Inr (concat found)))
         | _ \<Rightarrow> throw ''getTransaction result.meta.innerInstructions must be an array or null''))"

definition decodeChanceryEventsFromRpcTransaction ::
  "chancery_schema \<Rightarrow> js \<Rightarrow> chancery_event_occurrence list res" where
  "decodeChanceryEventsFromRpcTransaction S result =
     bindR (extractChanceryInnerInstructionsFromRpcTransaction S result)
       (decodeChanceryEventsFromInnerInstructions S)"

section \<open>Event data round trips\<close>

definition events_wf :: "chancery_schema \<Rightarrow> bool" where
  "events_wf S \<longleftrightarrow>
     prefix_free (event_discriminator_bytes (schema_wire S)) event_discriminator (schema_events S)"

lemma eventPayloadOffset_eq:
  "eventPayloadOffset S data =
   (let prefix = event_cpi_prefix (schema_wire S) in if take (length prefix) data = prefix then length prefix else 0)"
proof (cases "length data < length (event_cpi_prefix (schema_wire S))")
  case True
  then have "take (length (event_cpi_prefix (schema_wire S))) data \<noteq> event_cpi_prefix (schema_wire S)"
    using arg_cong [of _ _ length] by fastforce
  with True show ?thesis by (simp add: eventPayloadOffset_def Let_def)
next
  case False
  let ?p = "event_cpi_prefix (schema_wire S)"
  have "take (length ?p) data = ?p \<longleftrightarrow> \<not> list_ex (\<lambda>i. data ! i \<noteq> ?p ! i) [0..<length ?p]"
    using False discriminatorEquals_iff [of data 0 ?p] by (auto simp: discriminatorEquals_def list_ex_iff list_all_iff)
  with False show ?thesis by (simp add: eventPayloadOffset_def Let_def)
qed

lemma encodeChanceryEventData_Inr:
  "encodeChanceryEventData S name values prefixed = Inr data \<longleftrightarrow>
   (\<exists>ev payload. map_of (schema_events S) name = Some ev \<and>
      encodeStruct S (struct_fields ev) values False = Inr payload \<and>
      data = (if prefixed then event_cpi_prefix (schema_wire S) else []) @ event_discriminator ev @ payload)"
  by (auto simp: encodeChanceryEventData_def getEventSchema_def Let_def array_set_def)

lemma event_decode_encode:
  assumes wf: "events_wf S" and enc: "encodeChanceryEventData S name values True = Inr data"
    and ev: "map_of (schema_events S) name = Some ev" and ty: "has_struct S (struct_fields ev) values"
  shows "decodeChanceryEventData S data = Inr \<lparr>de_name = name, de_values = values, de_data = data\<rparr>"
proof -
  let ?p = "event_cpi_prefix (schema_wire S)"
  obtain payload where p: "encodeStruct S (struct_fields ev) values False = Inr payload"
    "data = ?p @ event_discriminator ev @ payload"
    using enc ev by (auto simp: encodeChanceryEventData_Inr)
  have mem: "(name, ev) \<in> set (schema_events S)" using ev by (rule map_of_SomeD)
  have acc: "accepts_js (decodeStruct S (struct_fields ev)) payload values"
    using encodeStruct_accepts [OF ty, of False] p(1) by auto
  have off: "eventPayloadOffset S data = length ?p" using p(2) by (simp add: eventPayloadOffset_eq Let_def)
  have "findEventSchema S data (length ?p) = Inr (name, ev)"
    using find_discriminator [OF wf [unfolded events_wf_def] mem, of ?p payload] p(2)
    by (simp add: findEventSchema_def)
  moreover have "event_discriminator_bytes (schema_wire S) = length (event_discriminator ev)"
    using prefix_free_width [OF wf [unfolded events_wf_def] mem] by simp
  moreover obtain r r' where "newBinaryReader data (length ?p + length (event_discriminator ev)) = Inr r"
    "decodeStruct S (struct_fields ev) r = Inr (values, r')" "reader_remaining r' = 0"
    using decode_whole [OF acc, of "?p @ event_discriminator ev"] p(2) by auto
  ultimately show ?thesis using off by (simp add: decodeChanceryEventData_def)
qed

section \<open>Which events are reported\<close>

text \<open>
  The events of a successful run are those of the instructions that are genuine event calls, in order.
\<close>

definition genuine_event :: "chancery_schema \<Rightarrow> string \<Rightarrow> chancery_inner_instruction \<Rightarrow> bool" where
  "genuine_event S authority ii \<longleftrightarrow>
     ii_program ii = program_address (schema_program S) \<and>
     take (length (event_cpi_prefix (schema_wire S))) (ii_data ii) = event_cpi_prefix (schema_wire S) \<and>
     ii_accounts ii \<noteq> [] \<and> hd (ii_accounts ii) = authority \<and>
     decodeChanceryEventData S (ii_data ii) \<noteq> Inl UNKNOWN_EVENT"

lemma isEventCpiData_iff:
  "isEventCpiData S data \<longleftrightarrow>
   take (length (event_cpi_prefix (schema_wire S))) data = event_cpi_prefix (schema_wire S)"
  by (auto simp: isEventCpiData_def eventPayloadOffset_eq Let_def)

lemma event_of_instruction_Inr:
  assumes "event_of_instruction S authority ii = Inr found"
  shows "found = (if genuine_event S authority ii then
      (case decodeChanceryEventData S (ii_data ii) of
         Inr event \<Rightarrow> Some \<lparr>eo_event = event, eo_authority = authority, eo_parent_index = ii_parent_index ii,
           eo_inner_index = ii_inner_index ii, eo_stack_height = ii_stack_height ii\<rparr>
       | Inl _ \<Rightarrow> None) else None)
    \<and> (genuine_event S authority ii \<longrightarrow> is_ok (decodeChanceryEventData S (ii_data ii)))"
  using assms
  by (auto simp: event_of_instruction_def genuine_event_def isEventCpiData_iff
      split: if_splits list.splits sum.splits)

lemma collect_events_Inr:
  "collect_events S authority iis acc = Inr events \<Longrightarrow>
   list_all2 (\<lambda>ii eo. decodeChanceryEventData S (ii_data ii) = Inr (eo_event eo) \<and> eo_authority eo = authority \<and>
      eo_parent_index eo = ii_parent_index ii \<and> eo_inner_index eo = ii_inner_index ii \<and>
      eo_stack_height eo = ii_stack_height ii)
     (filter (genuine_event S authority) iis) (drop (length acc) events) \<and> take (length acc) events = acc"
proof (induction iis arbitrary: acc)
  case (Cons ii iis)
  then obtain found where found: "event_of_instruction S authority ii = Inr found"
    "collect_events S authority iis (case found of None \<Rightarrow> acc | Some e \<Rightarrow> acc @ [e]) = Inr events" by auto
  note spec = event_of_instruction_Inr [OF found(1)]
  show ?case
  proof (cases "genuine_event S authority ii")
    case True
    with spec obtain event eo where ev: "decodeChanceryEventData S (ii_data ii) = Inr event" "found = Some eo"
      "eo = \<lparr>eo_event = event, eo_authority = authority, eo_parent_index = ii_parent_index ii,
           eo_inner_index = ii_inner_index ii, eo_stack_height = ii_stack_height ii\<rparr>"
      by (auto simp: is_ok_iff)
    with Cons.IH [of "acc @ [eo]"] found(2) have IH:
      "list_all2 (\<lambda>ii eo. decodeChanceryEventData S (ii_data ii) = Inr (eo_event eo) \<and> eo_authority eo = authority \<and>
        eo_parent_index eo = ii_parent_index ii \<and> eo_inner_index eo = ii_inner_index ii \<and>
        eo_stack_height eo = ii_stack_height ii)
       (filter (genuine_event S authority) iis) (drop (Suc (length acc)) events)"
      "take (Suc (length acc)) events = acc @ [eo]" by auto
    have "events = acc @ [eo] @ drop (Suc (length acc)) events"
      by (metis IH(2) append.assoc append_take_drop_id)
    then have "drop (length acc) events = eo # drop (Suc (length acc)) events" "take (length acc) events = acc"
      by (metis append_eq_conv_conj append_Cons append_Nil)+
    with IH True ev show ?thesis by simp
  next
    case False
    with spec found(2) Cons.IH [of acc] show ?thesis by simp
  qed
qed simp

end
