(* ===== verification/SplToken.thy ===== *)
theory SplToken
  imports BinaryCodec
begin

text \<open>
  \<open>typescript/src/SplToken.ts\<close>: SPL Token and Token-2022 mints and accounts read from raw bytes, the
  type-length-value extensions of a Token-2022 mint, associated token addresses, and the transfer fee
  a Token-2022 mint withholds. \<open>bigint\<close> amounts and counters are \<open>int\<close>.
\<close>

section \<open>Constants and data\<close>

definition SPL_TOKEN_PROGRAM_ADDRESS :: string where
  "SPL_TOKEN_PROGRAM_ADDRESS = ''TokenkegQfeZyiNwAJbNbGKPFXCWuBvf9Ss623VQ5DA''"

definition TOKEN_2022_PROGRAM_ADDRESS :: string where
  "TOKEN_2022_PROGRAM_ADDRESS = ''TokenzQdBNbLqP5VEhdkAS6EPFLC1PHnBqCXEpPxuEb''"

definition ASSOCIATED_TOKEN_PROGRAM_ADDRESS :: string where
  "ASSOCIATED_TOKEN_PROGRAM_ADDRESS = ''ATokenGPvbdGVxr1b2hvZbsiqW5xWH25efTNsLJA8knL''"

abbreviation (input) "TOKEN_MINT_BASE_SIZE \<equiv> 82 :: nat"
abbreviation (input) "TOKEN_ACCOUNT_BASE_SIZE \<equiv> 165 :: nat"
abbreviation (input) "TOKEN_2022_ACCOUNT_TYPE_OFFSET \<equiv> 165 :: nat"
abbreviation (input) "TOKEN_2022_TLV_OFFSET \<equiv> 166 :: nat"
abbreviation (input) "TRANSFER_FEE_CONFIG_EXTENSION_TYPE \<equiv> 1 :: nat"
abbreviation (input) "TRANSFER_HOOK_EXTENSION_TYPE \<equiv> 14 :: nat"
abbreviation (input) "CONFIDENTIAL_TRANSFER_FEE_CONFIG_EXTENSION_TYPE \<equiv> 16 :: nat"
abbreviation (input) "TRANSFER_FEE_CONFIG_SIZE \<equiv> 108 :: nat"
abbreviation (input) "BASIS_POINT_DENOMINATOR \<equiv> 10000 :: int"

record token_2022_extension =
  ext_type :: nat
  ext_length :: nat
  ext_value :: bytes

record token_2022_transfer_fee =
  tf_epoch :: int
  tf_maximum :: int
  tf_basis_points :: int

record token_2022_transfer_fee_config =
  tfc_authority :: "string option"
  tfc_withdraw_authority :: "string option"
  tfc_withheld :: int
  tfc_older :: token_2022_transfer_fee
  tfc_newer :: token_2022_transfer_fee

record token_transfer_fee_calculation =
  tc_epoch :: int
  tc_amount :: int
  tc_basis_points :: int
  tc_maximum :: int
  tc_fee :: int
  tc_received :: int

record decoded_token_mint =
  tm_mint_authority :: "string option"
  tm_supply :: int
  tm_decimals :: nat
  tm_initialized :: bool
  tm_freeze_authority :: "string option"
  tm_base_size :: nat
  tm_total_size :: nat
  tm_has_extensions :: bool
  tm_account_type :: "nat option"
  tm_extensions :: "token_2022_extension list"
  tm_transfer_fee_config :: "token_2022_transfer_fee_config option"
  tm_transfer_hook :: "string option"
  tm_unmodeled :: bool

record decoded_token_account =
  ta_mint :: string
  ta_owner :: string
  ta_amount :: int
  ta_delegate :: "string option"
  ta_state :: nat
  ta_native_reserve :: "int option"
  ta_delegated :: int
  ta_close_authority :: "string option"
  ta_base_size :: nat
  ta_total_size :: nat
  ta_has_extensions :: bool

record associated_token_address = program_address_result +
  ata_owner :: string
  ata_mint :: string
  ata_program :: string

section \<open>Token programs\<close>

definition isSupportedTokenProgram :: "key_input \<Rightarrow> bool res" where
  "isSupportedTokenProgram programAddress =
     bindR (normalizePublicKey programAddress) (\<lambda>normalized.
       Inr (normalized = SPL_TOKEN_PROGRAM_ADDRESS \<or> normalized = TOKEN_2022_PROGRAM_ADDRESS))"

definition assertSupportedTokenProgram :: "key_input \<Rightarrow> string res" where
  "assertSupportedTokenProgram programAddress =
     bindR (normalizePublicKey programAddress) (\<lambda>normalized.
     bindR (isSupportedTokenProgram (KeyText normalized)) (\<lambda>supported.
       if \<not> supported then throw ''Unsupported token program'' else Inr normalized))"

definition deriveAssociatedTokenAddress ::
  "(bytes \<Rightarrow> bytes) \<Rightarrow> key_input \<Rightarrow> key_input \<Rightarrow> key_input \<Rightarrow> associated_token_address res" where
  "deriveAssociatedTokenAddress H owner mint tokenProgramAddress =
     bindR (normalizePublicKey owner) (\<lambda>normalizedOwner.
     bindR (normalizePublicKey mint) (\<lambda>normalizedMint.
     bindR (assertSupportedTokenProgram tokenProgramAddress) (\<lambda>normalizedTokenProgram.
     bindR (decodePublicKey (KeyText normalizedOwner)) (\<lambda>ownerBytes.
     bindR (decodePublicKey (KeyText normalizedTokenProgram)) (\<lambda>programBytes.
     bindR (decodePublicKey (KeyText normalizedMint)) (\<lambda>mintBytes.
     bindR (findProgramAddress H [ownerBytes, programBytes, mintBytes]
              (KeyText ASSOCIATED_TOKEN_PROGRAM_ADDRESS)) (\<lambda>result.
       Inr \<lparr>pda_address = pda_address result, pda_bump = pda_bump result, ata_owner = normalizedOwner,
            ata_mint = normalizedMint, ata_program = normalizedTokenProgram\<rparr>)))))))"

section \<open>Reading fields\<close>

definition sliceExact :: "bytes \<Rightarrow> nat \<Rightarrow> nat \<Rightarrow> bytes res" where
  "sliceExact data off byteLength =
     (if length data < off + byteLength then throw ''field requires bytes past the end''
      else Inr (take byteLength (drop off data)))"

definition readUnsignedLittleEndian :: "bytes \<Rightarrow> nat \<Rightarrow> nat \<Rightarrow> int res" where
  "readUnsignedLittleEndian data off byteLength =
     bindR (sliceExact data off byteLength) (\<lambda>bs. Inr (foldr (\<lambda>b value. push_bit 8 value + uint b) bs 0))"

definition divideCeiling :: "int \<Rightarrow> int \<Rightarrow> int res" where
  "divideCeiling numerator denominator =
     (if denominator \<le> 0 then throw ''Division denominator must be positive''
      else Inr (if numerator = 0 then 0 else big_div (numerator + denominator - 1) denominator))"

definition decodeOptionalNonzeroPublicKey :: "bytes \<Rightarrow> nat \<Rightarrow> string option res" where
  "decodeOptionalNonzeroPublicKey data off =
     bindR (sliceExact data off 32) (\<lambda>bs.
       Inr (if list_ex (\<lambda>i. bs ! i \<noteq> 0) [0..<32] then Some (encodeBase58 bs) else None))"

definition decodeCOptionPublicKey :: "bytes \<Rightarrow> nat \<Rightarrow> string option res" where
  "decodeCOptionPublicKey data off =
     bindR (readUnsignedLittleEndian data off 4) (\<lambda>tag.
       if tag = 0 then Inr None
       else if tag \<noteq> 1 then throw ''option tag is invalid''
       else bindR (sliceExact data (off + 4) 32) (\<lambda>bs. Inr (Some (encodeBase58 bs))))"

definition decodeCOptionUnsignedInteger :: "bytes \<Rightarrow> nat \<Rightarrow> int option res" where
  "decodeCOptionUnsignedInteger data off =
     bindR (readUnsignedLittleEndian data off 4) (\<lambda>tag.
       if tag = 0 then Inr None
       else if tag \<noteq> 1 then throw ''option tag is invalid''
       else bindR (readUnsignedLittleEndian data (off + 4) 8) (\<lambda>v. Inr (Some v)))"

definition decodeTransferFee :: "bytes \<Rightarrow> nat \<Rightarrow> token_2022_transfer_fee res" where
  "decodeTransferFee value off =
     bindR (readUnsignedLittleEndian value (off + 16) 2) (\<lambda>transferFeeBasisPoints.
       if 10000 < transferFeeBasisPoints then throw ''basis points exceed 10000''
       else
         bindR (readUnsignedLittleEndian value off 8) (\<lambda>epoch.
         bindR (readUnsignedLittleEndian value (off + 8) 8) (\<lambda>maximumFee.
           Inr \<lparr>tf_epoch = epoch, tf_maximum = maximumFee, tf_basis_points = transferFeeBasisPoints\<rparr>)))"

definition decodeTransferFeeConfig :: "bytes \<Rightarrow> token_2022_transfer_fee_config res" where
  "decodeTransferFeeConfig value =
     (if length value \<noteq> TRANSFER_FEE_CONFIG_SIZE then throw ''TransferFeeConfig requires 108 bytes''
      else
        bindR (decodeOptionalNonzeroPublicKey value 0) (\<lambda>authority.
        bindR (decodeOptionalNonzeroPublicKey value 32) (\<lambda>withdrawAuthority.
        bindR (readUnsignedLittleEndian value 64 8) (\<lambda>withheld.
        bindR (decodeTransferFee value 72) (\<lambda>older.
        bindR (decodeTransferFee value 90) (\<lambda>newer.
          Inr \<lparr>tfc_authority = authority, tfc_withdraw_authority = withdrawAuthority,
               tfc_withheld = withheld, tfc_older = older, tfc_newer = newer\<rparr>))))))"

section \<open>Mint extensions\<close>

text \<open>The variables of the extension loop.\<close>

record tlv_state =
  tlv_extensions :: "token_2022_extension list"
  tlv_fee_config :: "token_2022_transfer_fee_config option"
  tlv_hook :: "string option"
  tlv_unmodeled :: bool

text \<open>What the loop does with one extension.\<close>

definition tlv_extension :: "nat \<Rightarrow> bytes \<Rightarrow> tlv_state \<Rightarrow> tlv_state res" where
  "tlv_extension extensionType value st =
     (let st1 = st\<lparr>tlv_extensions := tlv_extensions st @
                    [\<lparr>ext_type = extensionType, ext_length = length value, ext_value = value\<rparr>]\<rparr> in
      if extensionType = TRANSFER_FEE_CONFIG_EXTENSION_TYPE then
        if tlv_fee_config st1 \<noteq> None then throw ''Token-2022 mint has duplicate TransferFeeConfig extensions''
        else bindR (decodeTransferFeeConfig value) (\<lambda>config. Inr (st1\<lparr>tlv_fee_config := Some config\<rparr>))
      else if extensionType = TRANSFER_HOOK_EXTENSION_TYPE then
        if length value \<noteq> 64 then throw ''TransferHook extension requires 64 bytes''
        else bindR (decodeOptionalNonzeroPublicKey value 32) (\<lambda>hook.
          Inr (st1\<lparr>tlv_hook := hook, tlv_unmodeled := (hook \<noteq> None \<or> tlv_unmodeled st1)\<rparr>))
      else if extensionType = CONFIDENTIAL_TRANSFER_FEE_CONFIG_EXTENSION_TYPE then
        Inr (st1\<lparr>tlv_unmodeled := True\<rparr>)
      else Inr st1)"

function tlv_loop :: "bytes \<Rightarrow> nat \<Rightarrow> tlv_state \<Rightarrow> (nat \<times> tlv_state) res" where
  "tlv_loop data cursor st =
     (if cursor + 4 \<le> length data then
        bindR (readUnsignedLittleEndian data cursor 2) (\<lambda>extensionType.
        bindR (readUnsignedLittleEndian data (cursor + 2) 2) (\<lambda>byteLength.
          if extensionType = 0 then Inr (cursor, st)
          else
            bindR (sliceExact data (cursor + 4) (nat byteLength)) (\<lambda>value.
            bindR (tlv_extension (nat extensionType) value st) (\<lambda>st'.
              tlv_loop data (cursor + 4 + nat byteLength) st'))))
      else Inr (cursor, st))"
  by pat_completeness auto
termination
  by (relation "measure (\<lambda>(data, cursor, st). length data - cursor)") auto

declare tlv_loop.simps [simp del]

definition EMPTY_TLV :: tlv_state where
  "EMPTY_TLV = \<lparr>tlv_extensions = [], tlv_fee_config = None, tlv_hook = None, tlv_unmodeled = False\<rparr>"

definition decodeToken2022MintExtensions :: "bytes \<Rightarrow> (nat option \<times> tlv_state) res" where
  "decodeToken2022MintExtensions data =
     (if length data = TOKEN_MINT_BASE_SIZE then Inr (None, EMPTY_TLV)
      else if length data \<le> TOKEN_2022_ACCOUNT_TYPE_OFFSET
      then throw ''Token-2022 mint extension region is truncated''
      else
        let accountType = data ! TOKEN_2022_ACCOUNT_TYPE_OFFSET in
        if accountType \<noteq> 1 then throw ''Token-2022 mint account type is invalid''
        else
          bindR (tlv_loop data TOKEN_2022_TLV_OFFSET EMPTY_TLV) (\<lambda>(cursor, st).
            if cursor < length data \<and> length data - cursor < 4
               \<and> list_ex (\<lambda>i. data ! i \<noteq> 0) [cursor..<length data]
            then throw ''Token-2022 mint TLV has nonzero trailing bytes''
            else Inr (Some (unat accountType), st)))"

section \<open>Mints and token accounts\<close>

definition decodeTokenMint :: "bytes \<Rightarrow> decoded_token_mint res" where
  "decodeTokenMint data =
     (if length data < TOKEN_MINT_BASE_SIZE then throw ''Token mint requires at least 82 bytes''
      else
        bindR (decodeCOptionPublicKey data 0) (\<lambda>mintAuthority.
        bindR (readUnsignedLittleEndian data 36 8) (\<lambda>supply.
        let decimals = data ! 44; initializedByte = data ! 45 in
        if initializedByte \<noteq> 0 \<and> initializedByte \<noteq> 1 then throw ''Token mint initialized flag is invalid''
        else
          bindR (decodeCOptionPublicKey data 46) (\<lambda>freezeAuthority.
          bindR (decodeToken2022MintExtensions data) (\<lambda>(accountType, st).
            Inr \<lparr>tm_mint_authority = mintAuthority, tm_supply = supply, tm_decimals = unat decimals,
                 tm_initialized = (initializedByte = 1), tm_freeze_authority = freezeAuthority,
                 tm_base_size = TOKEN_MINT_BASE_SIZE, tm_total_size = length data,
                 tm_has_extensions = (0 < length (tlv_extensions st)), tm_account_type = accountType,
                 tm_extensions = tlv_extensions st, tm_transfer_fee_config = tlv_fee_config st,
                 tm_transfer_hook = tlv_hook st, tm_unmodeled = tlv_unmodeled st\<rparr>)))))"

definition decodeTokenAccount :: "bytes \<Rightarrow> decoded_token_account res" where
  "decodeTokenAccount data =
     (if length data < TOKEN_ACCOUNT_BASE_SIZE then throw ''Token account requires at least 165 bytes''
      else
        let state = data ! 108 in
        if 2 < unat state then throw ''Token account state is invalid''
        else
          bindR (readUnsignedLittleEndian data 64 8) (\<lambda>amount.
          bindR (decodeCOptionPublicKey data 72) (\<lambda>delegate.
          bindR (decodeCOptionUnsignedInteger data 109) (\<lambda>nativeReserve.
          bindR (readUnsignedLittleEndian data 121 8) (\<lambda>delegatedAmount.
          bindR (decodeCOptionPublicKey data 129) (\<lambda>closeAuthority.
            Inr \<lparr>ta_mint = encodeBase58 (take 32 data), ta_owner = encodeBase58 (take 32 (drop 32 data)),
                 ta_amount = amount, ta_delegate = delegate, ta_state = unat state,
                 ta_native_reserve = nativeReserve, ta_delegated = delegatedAmount,
                 ta_close_authority = closeAuthority, ta_base_size = TOKEN_ACCOUNT_BASE_SIZE,
                 ta_total_size = length data,
                 ta_has_extensions = (TOKEN_ACCOUNT_BASE_SIZE < length data)\<rparr>))))))"

definition assertTokenAccountBinding :: "decoded_token_account \<Rightarrow> key_input \<Rightarrow> key_input \<Rightarrow> unit res" where
  "assertTokenAccountBinding tokenAccount expectedMint expectedOwner =
     bindR (normalizePublicKey expectedMint) (\<lambda>normalizedMint.
     bindR (normalizePublicKey expectedOwner) (\<lambda>normalizedOwner.
       if ta_mint tokenAccount \<noteq> normalizedMint then throw ''mint does not match''
       else if ta_owner tokenAccount \<noteq> normalizedOwner then throw ''owner does not match''
       else if ta_state tokenAccount \<noteq> 1 then throw ''token account is not initialized''
       else Inr ()))"

section \<open>Transfer fees\<close>

definition selectActiveTransferFee ::
  "token_2022_transfer_fee_config \<Rightarrow> int \<Rightarrow> token_2022_transfer_fee res" where
  "selectActiveTransferFee config currentEpoch =
     (if currentEpoch < 0 then throw ''Current epoch must be non-negative''
      else Inr (if currentEpoch < tf_epoch (tfc_newer config) then tfc_older config else tfc_newer config))"

definition calculateTokenTransferFee ::
  "int \<Rightarrow> token_2022_transfer_fee_config option \<Rightarrow> int \<Rightarrow> token_transfer_fee_calculation res" where
  "calculateTokenTransferFee amount config currentEpoch =
     (if amount < 0 then throw ''Transfer amount must be non-negative''
      else
        case config of
          None \<Rightarrow> Inr \<lparr>tc_epoch = currentEpoch, tc_amount = amount, tc_basis_points = 0, tc_maximum = 0,
                       tc_fee = 0, tc_received = amount\<rparr>
        | Some cfg \<Rightarrow>
            bindR (selectActiveTransferFee cfg currentEpoch) (\<lambda>activeFee.
            let basisPoints = tf_basis_points activeFee in
            bindR (if amount = 0 \<or> basisPoints = 0 then Inr 0
                   else divideCeiling (amount * basisPoints) BASIS_POINT_DENOMINATOR) (\<lambda>uncappedFee.
            let feeAmount = (if uncappedFee \<le> tf_maximum activeFee then uncappedFee else tf_maximum activeFee) in
            if amount < feeAmount then throw ''Calculated transfer fee exceeds transfer amount''
            else Inr \<lparr>tc_epoch = currentEpoch, tc_amount = amount, tc_basis_points = tf_basis_points activeFee,
                      tc_maximum = tf_maximum activeFee, tc_fee = feeAmount, tc_received = amount - feeAmount\<rparr>)))"

section \<open>Reading is little-endian decoding\<close>

lemma fold_little_endian: "foldr (\<lambda>b value. push_bit 8 value + uint b) bs 0 = decodeUnsignedInteger bs"
  by (induction bs) (simp_all add: decodeUnsignedInteger_def push_bit_eq_mult)

lemma readUnsignedLittleEndian_Inr:
  "readUnsignedLittleEndian data off n = Inr v \<longleftrightarrow>
   off + n \<le> length data \<and> v = decodeUnsignedInteger (take n (drop off data))"
  by (auto simp: readUnsignedLittleEndian_def sliceExact_def fold_little_endian not_less)

lemma readUnsignedLittleEndian_bounds:
  assumes "readUnsignedLittleEndian data off n = Inr v"
  shows "0 \<le> v \<and> v < 2 ^ (n * 8)"
proof -
  have "length (take n (drop off data)) = n" using assms by (auto simp: readUnsignedLittleEndian_Inr)
  then show ?thesis
    using decodeUnsignedInteger_bounds [of "take n (drop off data)"] assms
    by (simp add: readUnsignedLittleEndian_Inr)
qed

lemma sliceExact_Inr: "sliceExact data off n = Inr bs \<longleftrightarrow> off + n \<le> length data \<and> bs = take n (drop off data)"
  by (auto simp: sliceExact_def not_less)

section \<open>Fee configurations and fees\<close>

definition transfer_fee_ok :: "token_2022_transfer_fee \<Rightarrow> bool" where
  "transfer_fee_ok f \<longleftrightarrow> 0 \<le> tf_basis_points f \<and> tf_basis_points f \<le> 10000 \<and> 0 \<le> tf_maximum f"

definition fee_config_ok :: "token_2022_transfer_fee_config \<Rightarrow> bool" where
  "fee_config_ok c \<longleftrightarrow> transfer_fee_ok (tfc_older c) \<and> transfer_fee_ok (tfc_newer c)"

lemma decodeTransferFee_ok: "decodeTransferFee value off = Inr f \<Longrightarrow> transfer_fee_ok f"
  by (auto simp: decodeTransferFee_def transfer_fee_ok_def split: if_splits dest: readUnsignedLittleEndian_bounds)

lemma decodeTransferFeeConfig_ok: "decodeTransferFeeConfig value = Inr c \<Longrightarrow> fee_config_ok c"
  by (auto simp: decodeTransferFeeConfig_def fee_config_ok_def split: if_splits dest: decodeTransferFee_ok)

lemma divideCeiling_pos:
  assumes "0 \<le> n" "0 < d"
  shows "\<exists>q. divideCeiling n d = Inr q \<and> 0 \<le> q \<and> n \<le> q * d \<and> (\<forall>k. n \<le> k * d \<longrightarrow> q \<le> k)"
proof (cases "n = 0")
  case True
  with assms show ?thesis by (auto simp: divideCeiling_def zero_le_mult_iff)
next
  case False
  define q where "q = (n + d - 1) div d"
  have "divideCeiling n d = Inr q" using False assms by (simp add: divideCeiling_def q_def)
  moreover have "0 \<le> q" using assms by (simp add: q_def pos_imp_zdiv_nonneg_iff)
  moreover have "n \<le> q * d"
  proof -
    have "n + d - 1 = q * d + (n + d - 1) mod d" by (simp add: q_def)
    moreover have "(n + d - 1) mod d < d" using assms by simp
    ultimately show ?thesis by linarith
  qed
  moreover have "q \<le> k" if "n \<le> k * d" for k
  proof -
    have "n + d - 1 = q * d + (n + d - 1) mod d" "0 \<le> (n + d - 1) mod d" using assms by (simp_all add: q_def)
    then have "q * d \<le> n + d - 1" by linarith
    also have "\<dots> < (k + 1) * d" using that by (simp add: algebra_simps)
    finally show ?thesis using assms by simp
  qed
  ultimately show ?thesis by blast
qed

lemma ceiling_fee_le:
  assumes "0 \<le> (amount :: int)" "0 \<le> bp" "bp \<le> 10000" "\<forall>k. amount * bp \<le> k * 10000 \<longrightarrow> q \<le> k"
  shows "q \<le> amount"
  using assms(4) [rule_format, of amount] mult_left_mono [of bp 10000 amount] assms(1,3) by simp

text \<open>The fee the active rate asks for, before the cap.\<close>

lemma calculateTokenTransferFee_ok:
  assumes "0 \<le> amount" "0 \<le> epoch" "fee_config_ok cfg"
  shows "\<exists>c q. calculateTokenTransferFee amount (Some cfg) epoch = Inr c \<and>
    (let f = (if epoch < tf_epoch (tfc_newer cfg) then tfc_older cfg else tfc_newer cfg) in
      amount * tf_basis_points f \<le> q * 10000 \<and> (\<forall>k. amount * tf_basis_points f \<le> k * 10000 \<longrightarrow> q \<le> k) \<and>
      tc_fee c = min q (tf_maximum f)) \<and>
    tc_fee c + tc_received c = amount \<and> 0 \<le> tc_fee c \<and> 0 \<le> tc_received c"
proof -
  define f where "f = (if epoch < tf_epoch (tfc_newer cfg) then tfc_older cfg else tfc_newer cfg)"
  have ok: "transfer_fee_ok f" using assms(3) by (simp add: f_def fee_config_ok_def)
  define u where "u = (if amount = 0 \<or> tf_basis_points f = 0 then Inr 0
      else divideCeiling (amount * tf_basis_points f) BASIS_POINT_DENOMINATOR)"
  obtain q where q: "u = Inr q" "0 \<le> q" "amount * tf_basis_points f \<le> q * 10000"
    "\<forall>k. amount * tf_basis_points f \<le> k * 10000 \<longrightarrow> q \<le> k"
  proof (cases "amount = 0 \<or> tf_basis_points f = 0")
    case True
    then show ?thesis by (intro that [of 0]) (auto simp: u_def)
  next
    case False
    then show ?thesis
      using divideCeiling_pos [of "amount * tf_basis_points f" BASIS_POINT_DENOMINATOR] assms(1) ok that
      by (auto simp: u_def transfer_fee_ok_def)
  qed
  have "q \<le> amount" using ceiling_fee_le [OF assms(1) _ _ q(4)] ok by (simp add: transfer_fee_ok_def)
  with q ok assms show ?thesis
    by (intro exI [of _ "\<lparr>tc_epoch = epoch, tc_amount = amount, tc_basis_points = tf_basis_points f,
        tc_maximum = tf_maximum f, tc_fee = min q (tf_maximum f), tc_received = amount - min q (tf_maximum f)\<rparr>"]
        exI [of _ q])
       (auto simp: calculateTokenTransferFee_def selectActiveTransferFee_def Let_def f_def [symmetric]
          u_def [symmetric] transfer_fee_ok_def min_def)
qed

section \<open>The extension loop reads the extensions that were written\<close>

definition little_endian :: "nat \<Rightarrow> nat \<Rightarrow> bytes" where
  "little_endian n v = map word_of_nat (low_digits 256 n v)"

definition tlv_bytes :: "nat \<times> bytes \<Rightarrow> bytes" where
  "tlv_bytes e = little_endian 2 (fst e) @ little_endian 2 (length (snd e)) @ snd e"

definition tlv_entry_ok :: "nat \<times> bytes \<Rightarrow> bool" where
  "tlv_entry_ok e \<longleftrightarrow> 0 < fst e \<and> fst e < 65536 \<and> length (snd e) < 65536"

text \<open>The region ends: fewer than four bytes are left, or an entry of type zero follows.\<close>

definition tlv_end :: "bytes \<Rightarrow> bool" where
  "tlv_end rest \<longleftrightarrow> length rest < 4 \<or> take 2 rest = [0, 0]"

lemma little_endian_length [simp]: "length (little_endian n v) = n"
  by (simp add: little_endian_def)

lemma read_little_endian:
  "v < 256 ^ n \<Longrightarrow> readUnsignedLittleEndian (pre @ little_endian n v @ rest) (length pre) n = Inr (int v)"
  using map_unat_word_of_nat [OF low_digits_below, of n v]
  by (simp add: readUnsignedLittleEndian_Inr decodeUnsignedInteger_def little_endian_def digits_value_low_digits
      del: map_map)

lemma tlv_bytes_length [simp]: "length (tlv_bytes e) = 4 + length (snd e)"
  by (simp add: tlv_bytes_def)

lemma tlv_loop_entry:
  assumes "tlv_entry_ok e"
  shows "tlv_loop (pre @ tlv_bytes e @ rest) (length pre) st =
    bindR (tlv_extension (fst e) (snd e) st)
      (\<lambda>st'. tlv_loop (pre @ tlv_bytes e @ rest) (length (pre @ tlv_bytes e)) st')"
proof -
  let ?data = "pre @ tlv_bytes e @ rest"
  have t: "readUnsignedLittleEndian ?data (length pre) 2 = Inr (int (fst e))"
    using assms read_little_endian [of "fst e" 2 pre] by (simp add: tlv_bytes_def tlv_entry_ok_def)
  have l: "readUnsignedLittleEndian ?data (length pre + 2) 2 = Inr (int (length (snd e)))"
    using assms read_little_endian [of "length (snd e)" 2 "pre @ little_endian 2 (fst e)"]
    by (simp add: tlv_bytes_def tlv_entry_ok_def)
  have v: "sliceExact ?data (length pre + 4) (length (snd e)) = Inr (snd e)"
    by (simp add: sliceExact_Inr tlv_bytes_def)
  show ?thesis
    using assms l v by (subst tlv_loop.simps) (simp add: t tlv_entry_ok_def add.assoc del: add_2_eq_Suc')
qed

lemma tlv_loop_end:
  assumes "tlv_end rest"
  shows "tlv_loop (pre @ rest) (length pre) st = Inr (length pre, st)"
proof (cases "length rest < 4")
  case True
  then show ?thesis by (subst tlv_loop.simps) simp
next
  case False
  with assms have "take 2 rest = [0, 0]" by (simp add: tlv_end_def)
  with False have "readUnsignedLittleEndian (pre @ rest) (length pre) 2 = Inr 0"
    "\<exists>n. readUnsignedLittleEndian (pre @ rest) (length pre + 2) 2 = Inr n"
    by (auto simp: readUnsignedLittleEndian_Inr decodeUnsignedInteger_def)
  with False show ?thesis by (subst tlv_loop.simps) auto
qed

lemma tlv_loop_entries:
  "list_all tlv_entry_ok es \<Longrightarrow> tlv_end rest \<Longrightarrow>
   tlv_loop (pre @ concat (map tlv_bytes es) @ rest) (length pre) st =
   bindR (foldR (\<lambda>e. tlv_extension (fst e) (snd e)) es st)
     (\<lambda>st'. Inr (length (pre @ concat (map tlv_bytes es)), st'))"
proof (induction es arbitrary: pre st)
  case Nil
  then show ?case using tlv_loop_end by simp
next
  case (Cons e es)
  have IH: "tlv_loop ((pre @ tlv_bytes e) @ concat (map tlv_bytes es) @ rest) (length (pre @ tlv_bytes e)) st' =
    bindR (foldR (\<lambda>e. tlv_extension (fst e) (snd e)) es st')
      (\<lambda>st'. Inr (length ((pre @ tlv_bytes e) @ concat (map tlv_bytes es)), st'))" for st'
    using Cons.prems by (intro Cons.IH) simp_all
  have "tlv_entry_ok e" using Cons.prems by simp
  from tlv_loop_entry [OF this, of pre "concat (map tlv_bytes es) @ rest" st] IH
  show ?case by (cases "tlv_extension (fst e) (snd e) st") simp_all
qed

section \<open>A decoded mint has a valid fee configuration\<close>

definition tlv_config_ok :: "tlv_state \<Rightarrow> bool" where
  "tlv_config_ok st \<longleftrightarrow> (\<forall>c. tlv_fee_config st = Some c \<longrightarrow> fee_config_ok c)"

lemma tlv_extension_config: "tlv_extension t value st = Inr st' \<Longrightarrow> tlv_config_ok st \<Longrightarrow> tlv_config_ok st'"
  by (auto simp: tlv_extension_def tlv_config_ok_def Let_def split: if_splits dest: decodeTransferFeeConfig_ok)

lemma tlv_loop_config:
  "tlv_loop data cursor st = Inr (cursor', st') \<Longrightarrow> tlv_config_ok st \<Longrightarrow> tlv_config_ok st'"
proof (induction data cursor st rule: tlv_loop.induct)
  case (1 data cursor st)
  from "1.prems" show ?case
    by (subst (asm) tlv_loop.simps) (auto split: if_splits dest: tlv_extension_config intro: "1.IH")
qed

lemma decodeTokenMint_config:
  assumes "decodeTokenMint data = Inr m" "tm_transfer_fee_config m = Some c"
  shows "fee_config_ok c"
proof -
  obtain account st where st: "decodeToken2022MintExtensions data = Inr (account, st)"
    "tm_transfer_fee_config m = tlv_fee_config st"
    using assms(1) by (auto simp: decodeTokenMint_def Let_def split: if_splits)
  have "tlv_config_ok EMPTY_TLV" by (simp add: tlv_config_ok_def EMPTY_TLV_def)
  with st(1) have "tlv_config_ok st"
    by (auto simp: decodeToken2022MintExtensions_def Let_def split: if_splits dest: tlv_loop_config)
  with st(2) assms(2) show ?thesis by (simp add: tlv_config_ok_def)
qed

end
