(* ===== verification/ChanceryProtocol.thy ===== *)
theory ChanceryProtocol
  imports BinaryCodec
begin

text \<open>
  \<open>typescript/src/client/ChanceryProtocol.ts\<close>: the client-side mirror of the settlement rules. It derives
  the program's addresses, reads fields of decoded accounts, and predicts what the program will do:
  which role a settlement needs and whether a permission record grants it, whether a settlement policy
  is usable, the fee of a settlement, and the state of the limit windows. Decoded accounts are
  \<open>js_object\<close>s; \<open>bigint\<close> and number arithmetic is on \<open>int\<close>, the mode mask on \<open>32 word\<close>.
\<close>

datatype settlement_action = Mint | Redeem
datatype settlement_mode = Direct | Delegated | Trilateral

fun action_name :: "settlement_action \<Rightarrow> string" where
  "action_name Mint = ''mint''"
| "action_name Redeem = ''redeem''"

fun mode_name :: "settlement_mode \<Rightarrow> string" where
  "mode_name Direct = ''direct''"
| "mode_name Delegated = ''delegated''"
| "mode_name Trilateral = ''trilateral''"

fun SETTLEMENT_ACTION_VALUE :: "settlement_action \<Rightarrow> nat" where
  "SETTLEMENT_ACTION_VALUE Mint = 0"
| "SETTLEMENT_ACTION_VALUE Redeem = 1"

fun SETTLEMENT_MODE_VALUE :: "settlement_mode \<Rightarrow> nat" where
  "SETTLEMENT_MODE_VALUE Direct = 0"
| "SETTLEMENT_MODE_VALUE Delegated = 1"
| "SETTLEMENT_MODE_VALUE Trilateral = 2"

abbreviation (input) "ROLE_CAN_MINT_DIRECT \<equiv> push_bit 0 1 :: int"
abbreviation (input) "ROLE_CAN_REDEEM_DIRECT \<equiv> push_bit 1 1 :: int"
abbreviation (input) "ROLE_CAN_MINT_DELEGATED \<equiv> push_bit 2 1 :: int"
abbreviation (input) "ROLE_CAN_REDEEM_DELEGATED \<equiv> push_bit 3 1 :: int"

abbreviation (input) "WINDOW_HOURLY \<equiv> 0 :: int"
abbreviation (input) "WINDOW_DAILY \<equiv> 1 :: int"
abbreviation (input) "WINDOW_WEEKLY \<equiv> 2 :: int"
abbreviation (input) "WINDOW_MONTHLY \<equiv> 3 :: int"

abbreviation (input) "RATE_PRECISION_E9 \<equiv> 1000000000 :: int"

text \<open>\<open>(flags & (1n << k)) !== 0n\<close>.\<close>

definition flag_set :: "int \<Rightarrow> nat \<Rightarrow> bool" where
  "flag_set flags k \<longleftrightarrow> and flags (push_bit k 1) \<noteq> 0"

lemma flag_set_bit [simp]: "flag_set flags k \<longleftrightarrow> bit flags k"
  by (simp add: flag_set_def push_bit_eq_mult and_exp_eq_0_iff_not_bit)

section \<open>Reading fields of decoded accounts\<close>

definition requireBytes :: "js \<Rightarrow> nat \<Rightarrow> bytes res" where
  "requireBytes value expectedLength =
     (case value of
        JBytes bs \<Rightarrow> if length bs \<noteq> expectedLength then throw ''value must contain the expected bytes'' else Inr bs
      | _ \<Rightarrow> throw ''value must be bytes'')"

definition requireBigIntField :: "js_object \<Rightarrow> string \<Rightarrow> int res" where
  "requireBigIntField values fieldName =
     (case obj_get values fieldName of JBig n \<Rightarrow> Inr n | _ \<Rightarrow> throw ''field must be a bigint'')"

definition requireNumberField :: "js_object \<Rightarrow> string \<Rightarrow> int res" where
  "requireNumberField values fieldName =
     (case obj_get values fieldName of
        JNum n \<Rightarrow> if is_safe_integer n then Inr n else throw ''field must be a safe integer''
      | _ \<Rightarrow> throw ''field must be a safe integer'')"

definition requirePublicKeyField :: "js_object \<Rightarrow> string \<Rightarrow> string res" where
  "requirePublicKeyField values fieldName =
     (case obj_get values fieldName of
        JStr s \<Rightarrow> normalizePublicKey (KeyText s)
      | _ \<Rightarrow> throw ''field must be a public key string'')"

fun bigintItem :: "js \<Rightarrow> int res" where
  "bigintItem (JBig n) = Inr n"
| "bigintItem _ = throw ''item must be a bigint''"

definition requireBigIntArrayField :: "js_object \<Rightarrow> string \<Rightarrow> nat \<Rightarrow> int list res" where
  "requireBigIntArrayField values fieldName expectedLength =
     (case obj_get values fieldName of
        JArr xs \<Rightarrow>
          if length xs \<noteq> expectedLength then throw ''field must contain the expected integers''
          else mapR bigintItem xs
      | _ \<Rightarrow> throw ''field must contain the expected integers'')"

definition wordsToUnsigned128 :: "int list \<Rightarrow> int res" where
  "wordsToUnsigned128 words =
     (case words of
        [w0, w1] \<Rightarrow> Inr (or w0 (push_bit 64 w1))
      | _ \<Rightarrow> throw ''Unsigned 128-bit word array must contain two words'')"

definition bytes32Hex :: "js \<Rightarrow> string res" where
  "bytes32Hex value = bindR (requireBytes value 32) (\<lambda>bs. Inr (''0x'' @ bytesToHex bs))"

definition isZeroBytes32 :: "js \<Rightarrow> bool res" where
  "isZeroBytes32 value = bindR (requireBytes value 32) (\<lambda>bs. Inr (list_all (\<lambda>i. bs ! i = 0) [0..<32]))"

definition publicKeyFromBytes32 :: "js \<Rightarrow> string res" where
  "publicKeyFromBytes32 value = bindR (requireBytes value 32) (\<lambda>bs. Inr (encodeBase58 bs))"

definition knownPdaAddress :: "chancery_schema \<Rightarrow> string \<Rightarrow> string res" where
  "knownPdaAddress S name =
     (case map_of (known_pdas S) name of
        None \<Rightarrow> throw ''Unknown Chancery singleton PDA'' | Some pda \<Rightarrow> Inr (known_pda_address pda))"

section \<open>Bytes from user input\<close>

definition decodeHexText :: "string \<Rightarrow> bytes res" where
  "decodeHexText hexadecimal =
     (if length hexadecimal mod 2 \<noteq> 0 \<or> \<not> is_hex hexadecimal then throw ''hexadecimal encoding is invalid''
      else Inr (hex_pairs hexadecimal))"

definition bytes32FromInput :: "key_input \<Rightarrow> bytes res" where
  "bytes32FromInput value =
     (case value of
        KeyBytes bs \<Rightarrow> if length bs \<noteq> 32 then throw ''value must contain exactly 32 bytes'' else Inr bs
      | KeyText s \<Rightarrow>
          bindR
            (if startsWith s ''0x'' then decodeHexText (drop 2 s)
             else if startsWith s ''hex:'' then decodeHexText (drop 4 s)
             else if startsWith s ''base58:'' then decodeBase58 (drop 7 s)
             else if startsWith s ''utf8:'' then
               (let textBytes = utf8_encode (drop 5 s) in
                if 32 < length textBytes then throw ''UTF-8 value exceeds 32 bytes''
                else Inr (array_set (replicate 32 0) textBytes 0))
             else if length s = 64 \<and> is_hex s then decodeHexText s
             else decodeBase58 s)
            (\<lambda>bs. if length bs \<noteq> 32 then throw ''value must resolve to exactly 32 bytes'' else Inr bs))"

text \<open>The byte a checked number stands for in the \<open>Uint8Array\<close> built from it.\<close>

definition assertByte :: "js \<Rightarrow> byte res" where
  "assertByte value =
     (case value of
        JNum n \<Rightarrow> if n < 0 \<or> 255 < n then throw ''value must be an unsigned byte'' else Inr (word_of_int n)
      | _ \<Rightarrow> throw ''value must be an unsigned byte'')"

definition unsigned64BigEndian :: "int \<Rightarrow> bytes res" where
  "unsigned64BigEndian value =
     (if value < 0 \<or> 2 ^ 64 - 1 < value then throw ''value must be an unsigned 64-bit integer''
      else Inr (rev (map word_of_nat (low_digits 256 8 (nat value)))))"

section \<open>Addresses\<close>

record named_program_address = program_address_result +
  np_name :: string
  np_seeds :: "string list"

definition deriveNamedProgramAddress ::
  "(bytes \<Rightarrow> bytes) \<Rightarrow> chancery_schema \<Rightarrow> string \<Rightarrow> bytes list \<Rightarrow> named_program_address res" where
  "deriveNamedProgramAddress H S name seeds =
     bindR (findProgramAddress H seeds (KeyText (program_address (schema_program S)))) (\<lambda>r.
       Inr \<lparr>pda_address = pda_address r, pda_bump = pda_bump r, np_name = name,
            np_seeds = map (\<lambda>seed. ''0x'' @ bytesToHex seed) seeds\<rparr>)"

definition deriveSingletonAddress ::
  "(bytes \<Rightarrow> bytes) \<Rightarrow> chancery_schema \<Rightarrow> string \<Rightarrow> string \<Rightarrow> named_program_address res" where
  "deriveSingletonAddress H S name seedText = deriveNamedProgramAddress H S name [utf8_encode seedText]"

definition deriveAssetConfigAddress ::
  "(bytes \<Rightarrow> bytes) \<Rightarrow> chancery_schema \<Rightarrow> key_input \<Rightarrow> named_program_address res" where
  "deriveAssetConfigAddress H S assetMint =
     bindR (decodePublicKey assetMint) (\<lambda>mint.
       deriveNamedProgramAddress H S ''asset_config'' [utf8_encode ''asset-config'', mint])"

definition deriveAssetPauseStateAddress ::
  "(bytes \<Rightarrow> bytes) \<Rightarrow> chancery_schema \<Rightarrow> key_input \<Rightarrow> named_program_address res" where
  "deriveAssetPauseStateAddress H S assetMint =
     bindR (decodePublicKey assetMint) (\<lambda>mint.
       deriveNamedProgramAddress H S ''asset_pause_state'' [utf8_encode ''asset-pause'', mint])"

text \<open>The six addresses derived from a 32-byte identifier.\<close>

definition derive_from_id ::
  "(bytes \<Rightarrow> bytes) \<Rightarrow> chancery_schema \<Rightarrow> string \<Rightarrow> string \<Rightarrow> key_input \<Rightarrow> named_program_address res" where
  "derive_from_id H S name seedText ident =
     bindR (bytes32FromInput ident) (\<lambda>bs. deriveNamedProgramAddress H S name [utf8_encode seedText, bs])"

definition derivePathwayPolicyAddress where
  "derivePathwayPolicyAddress H S = derive_from_id H S ''pathway_policy'' ''pathway-policy''"

definition deriveFeePolicyAddress where
  "deriveFeePolicyAddress H S = derive_from_id H S ''fee_policy'' ''fee-policy''"

definition deriveLimitPolicyAddress where
  "deriveLimitPolicyAddress H S = derive_from_id H S ''limit_policy'' ''limit-policy''"

definition deriveEvidencePolicyAddress where
  "deriveEvidencePolicyAddress H S = derive_from_id H S ''evidence_policy'' ''evidence-policy''"

definition deriveSettlementPolicyAddress where
  "deriveSettlementPolicyAddress H S = derive_from_id H S ''settlement_policy'' ''settlement-policy''"

definition deriveSettlementIntentAddress where
  "deriveSettlementIntentAddress H S = derive_from_id H S ''settlement_intent'' ''settlement-intent''"

definition deriveCrossChainSignerSetAddress where
  "deriveCrossChainSignerSetAddress H S = derive_from_id H S ''cross_chain_signer_set'' ''cross-chain-signer-set''"

definition derivePendingConfigChangeAddress where
  "derivePendingConfigChangeAddress H S = derive_from_id H S ''pending_config_change'' ''pending-config-change''"

definition derivePermissionRecordAddress ::
  "(bytes \<Rightarrow> bytes) \<Rightarrow> chancery_schema \<Rightarrow> key_input \<Rightarrow> js \<Rightarrow> key_input \<Rightarrow> named_program_address res" where
  "derivePermissionRecordAddress H S subject scopeKind scopeKey =
     bindR (assertByte scopeKind) (\<lambda>kind.
     bindR (decodePublicKey subject) (\<lambda>subjectBytes.
     bindR (decodePublicKey scopeKey) (\<lambda>scopeBytes.
       deriveNamedProgramAddress H S ''permission_record''
         [utf8_encode ''permission'', subjectBytes, [kind], scopeBytes])))"

definition deriveUsageWindowAddress ::
  "(bytes \<Rightarrow> bytes) \<Rightarrow> chancery_schema \<Rightarrow> bytes \<Rightarrow> js \<Rightarrow> named_program_address res" where
  "deriveUsageWindowAddress H S scopeHash windowKind =
     (if length scopeHash \<noteq> 32 then throw ''Usage-window scope hash must contain 32 bytes''
      else bindR (assertByte windowKind) (\<lambda>kind.
        deriveNamedProgramAddress H S ''usage_window'' [utf8_encode ''usage-window'', scopeHash, [kind]]))"

definition deriveAuthorityTransferAddress ::
  "(bytes \<Rightarrow> bytes) \<Rightarrow> chancery_schema \<Rightarrow> js \<Rightarrow> named_program_address res" where
  "deriveAuthorityTransferAddress H S roleKind =
     bindR (assertByte roleKind) (\<lambda>kind.
       deriveNamedProgramAddress H S ''authority_transfer'' [utf8_encode ''authority-transfer'', [kind]])"

definition deriveBasicFreezeRecordAddress ::
  "(bytes \<Rightarrow> bytes) \<Rightarrow> chancery_schema \<Rightarrow> key_input \<Rightarrow> named_program_address res" where
  "deriveBasicFreezeRecordAddress H S issuedTokenAccount =
     bindR (decodePublicKey issuedTokenAccount) (\<lambda>bs.
       deriveNamedProgramAddress H S ''basic_freeze_record'' [utf8_encode ''basic-freeze-record'', bs])"

definition deriveOutboundReclaimRecordAddress ::
  "(bytes \<Rightarrow> bytes) \<Rightarrow> chancery_schema \<Rightarrow> js \<Rightarrow> int \<Rightarrow> int \<Rightarrow> named_program_address res" where
  "deriveOutboundReclaimRecordAddress H S remoteChainKind remoteDomainId sourceNonce =
     bindR (assertByte remoteChainKind) (\<lambda>kind.
     bindR (unsigned64BigEndian remoteDomainId) (\<lambda>domainBytes.
     bindR (unsigned64BigEndian sourceNonce) (\<lambda>nonceBytes.
       deriveNamedProgramAddress H S ''outbound_reclaim_record''
         [utf8_encode ''outbound-reclaim'', [kind], domainBytes, nonceBytes])))"

definition deriveRemoteDomainPolicyAddress ::
  "(bytes \<Rightarrow> bytes) \<Rightarrow> chancery_schema \<Rightarrow> js \<Rightarrow> int \<Rightarrow> named_program_address res" where
  "deriveRemoteDomainPolicyAddress H S remoteChainKind remoteDomainId =
     bindR (assertByte remoteChainKind) (\<lambda>kind.
     bindR (unsigned64BigEndian remoteDomainId) (\<lambda>domainBytes.
       deriveNamedProgramAddress H S ''remote_domain_policy''
         [utf8_encode ''remote-domain-policy'', [kind], domainBytes]))"

definition deriveRemoteNonceAddress ::
  "(bytes \<Rightarrow> bytes) \<Rightarrow> chancery_schema \<Rightarrow> js \<Rightarrow> int \<Rightarrow> key_input \<Rightarrow> named_program_address res" where
  "deriveRemoteNonceAddress H S remoteChainKind remoteDomainId scopeKey =
     bindR (assertByte remoteChainKind) (\<lambda>kind.
     bindR (unsigned64BigEndian remoteDomainId) (\<lambda>domainBytes.
     bindR (bytes32FromInput scopeKey) (\<lambda>scopeBytes.
       deriveNamedProgramAddress H S ''remote_nonce''
         [utf8_encode ''remote-nonce'', [kind], domainBytes, scopeBytes])))"

definition deriveReserveDestinationAddress ::
  "(bytes \<Rightarrow> bytes) \<Rightarrow> chancery_schema \<Rightarrow> key_input \<Rightarrow> key_input \<Rightarrow> named_program_address res" where
  "deriveReserveDestinationAddress H S assetMint destinationTokenAccount =
     bindR (decodePublicKey assetMint) (\<lambda>mint.
     bindR (decodePublicKey destinationTokenAccount) (\<lambda>destination.
       deriveNamedProgramAddress H S ''reserve_destination''
         [utf8_encode ''reserve-destination'', mint, destination]))"

definition dimensionScopeHash :: "(bytes \<Rightarrow> bytes) \<Rightarrow> js \<Rightarrow> key_input \<Rightarrow> bytes res" where
  "dimensionScopeHash H scopeKind partyKey =
     bindR (assertByte scopeKind) (\<lambda>kind.
     bindR (decodePublicKey partyKey) (\<lambda>party. Inr (H (concatenateBytes [[kind], party]))))"

definition policyScopeHash :: "(bytes \<Rightarrow> bytes) \<Rightarrow> js_object \<Rightarrow> bytes res" where
  "policyScopeHash H values =
     bindR (requireNumberField values ''scope_kind'') (\<lambda>kind.
     bindR (requirePublicKeyField values ''scope_key'') (\<lambda>key.
       dimensionScopeHash H (JNum kind) (KeyText key)))"

end
