(* ===== verification/SettlementRules.thy ===== *)
theory SettlementRules
  imports ChanceryProtocol
begin

text \<open>
  The settlement rules of \<open>typescript/src/client/ChanceryProtocol.ts\<close>: roles and permissions, the
  settlement policy, fees and rebates, and the limit windows. Observation texts are the source's. A
  parameter named \<open>...UnixTimestamp\<close> is a \<open>bigint\<close> of seconds.
\<close>

section \<open>Roles and permissions\<close>

definition requiredPrincipalRole :: "settlement_action \<Rightarrow> settlement_mode \<Rightarrow> int" where
  "requiredPrincipalRole action mode =
     (if mode = Direct
      then (if action = Mint then ROLE_CAN_MINT_DIRECT else ROLE_CAN_REDEEM_DIRECT)
      else (if action = Mint then ROLE_CAN_MINT_DELEGATED else ROLE_CAN_REDEEM_DELEGATED))"

definition settlementInstructionName :: "settlement_action \<Rightarrow> settlement_mode \<Rightarrow> string" where
  "settlementInstructionName action mode = action_name action @ ''_'' @ mode_name mode"

definition pathwayIsActive :: "js_object \<Rightarrow> bool res" where
  "pathwayIsActive values =
     bindR (requireBigIntField values ''status_flags'') (\<lambda>statusFlags.
       Inr (flag_set statusFlags 0 \<and> \<not> flag_set statusFlags 3))"

record permission_observation =
  po_required_role :: int
  po_held_roles :: int
  po_has_required_role :: bool
  po_subject_matches :: bool
  po_scope_matches :: bool
  po_schema_matches :: bool
  po_paused :: bool
  po_expired :: bool
  po_usable :: bool

text \<open>The operator \<open>&&\<close> reads the scope key only when the scope kind matches.\<close>

definition scope_matches :: "js_object \<Rightarrow> int \<Rightarrow> key_input \<Rightarrow> bool res" where
  "scope_matches values expectedScopeKind expectedScopeKey =
     bindR (requireNumberField values ''scope_kind'') (\<lambda>kind.
       if kind \<noteq> expectedScopeKind then Inr False
       else
         bindR (requirePublicKeyField values ''scope_key'') (\<lambda>key.
         bindR (normalizePublicKey expectedScopeKey) (\<lambda>expected. Inr (key = expected))))"

definition permissionObservation ::
  "js_object \<Rightarrow> int \<Rightarrow> key_input \<Rightarrow> int \<Rightarrow> key_input \<Rightarrow> int \<Rightarrow> permission_observation res" where
  "permissionObservation values requiredRole expectedSubject expectedScopeKind expectedScopeKey nowUnixTimestamp =
     bindR (requireBigIntArrayField values ''role_bits'' 2) (\<lambda>words.
     bindR (wordsToUnsigned128 words) (\<lambda>heldRoles.
     bindR (requireBigIntField values ''expiry_unix_timestamp'') (\<lambda>expiry.
     bindR (requireBigIntField values ''permission_flags'') (\<lambda>permissionFlags.
     bindR (requirePublicKeyField values ''subject'') (\<lambda>subject.
     bindR (normalizePublicKey expectedSubject) (\<lambda>expected.
     let subjectMatches = (subject = expected) in
     bindR (scope_matches values expectedScopeKind expectedScopeKey) (\<lambda>scopeMatches.
     bindR (requireNumberField values ''role_schema_version'') (\<lambda>version.
     let roleSchemaMatches = (version = 1);
         paused = flag_set permissionFlags 0;
         expired = (expiry \<noteq> 0 \<and> expiry \<le> nowUnixTimestamp);
         hasRequiredRole = (and heldRoles requiredRole = requiredRole) in
     Inr \<lparr>po_required_role = requiredRole, po_held_roles = heldRoles, po_has_required_role = hasRequiredRole,
          po_subject_matches = subjectMatches, po_scope_matches = scopeMatches,
          po_schema_matches = roleSchemaMatches, po_paused = paused, po_expired = expired,
          po_usable = (hasRequiredRole \<and> subjectMatches \<and> scopeMatches \<and> roleSchemaMatches
                       \<and> \<not> paused \<and> \<not> expired)\<rparr>))))))))"

section \<open>Settlement policy\<close>

record settlement_policy_observation =
  sp_identity :: bool
  sp_bump :: bool
  sp_id_nonzero :: bool
  sp_flags_valid :: bool
  sp_modes :: int
  sp_mask_valid :: bool
  sp_mode_allowed :: bool
  sp_asset_allowed :: bool
  sp_principal_a_allowed :: bool
  sp_principal_b_allowed :: bool
  sp_executor_allowed :: bool
  sp_minimum :: int
  sp_maximum :: int
  sp_notional_allowed :: bool
  sp_valid_after :: int
  sp_expires_at :: int
  sp_range_valid :: bool
  sp_effective :: bool
  sp_usable :: bool
  sp_observations :: "string list"

text \<open>The comparisons of mode bits: \<open>>>> 0\<close> makes the number a 32-bit word.\<close>

definition KNOWN_MODE_MASK :: "32 word" where
  "KNOWN_MODE_MASK =
     or (push_bit (SETTLEMENT_MODE_VALUE Delegated) 1) (push_bit (SETTLEMENT_MODE_VALUE Trilateral) 1)"

definition mode_mask_valid :: "32 word \<Rightarrow> bool" where
  "mode_mask_valid modes \<longleftrightarrow> modes \<noteq> 0 \<and> and modes (not KNOWN_MODE_MASK) = 0"

definition mode_allowed :: "32 word \<Rightarrow> settlement_mode \<Rightarrow> bool" where
  "mode_allowed modes mode \<longleftrightarrow>
     mode \<noteq> Direct \<and> and modes (push_bit (SETTLEMENT_MODE_VALUE mode) 1) \<noteq> 0"

text \<open>An allow-list entry: the zero address permits everyone.\<close>

definition key_allowed :: "chancery_schema \<Rightarrow> string \<Rightarrow> string \<Rightarrow> bool" where
  "key_allowed S allowed actual \<longleftrightarrow> allowed = zero_address (schema_wire S) \<or> allowed = actual"

text \<open>The sequence of \<open>if (!check) observations.push(text)\<close>.\<close>

definition failed_checks :: "(bool \<times> string) list \<Rightarrow> string list" where
  "failed_checks checks = map snd (filter (\<lambda>(ok, _). \<not> ok) checks)"

definition observeSettlementPolicy ::
  "(bytes \<Rightarrow> bytes) \<Rightarrow> chancery_schema \<Rightarrow> js_object \<Rightarrow> settlement_mode \<Rightarrow> key_input \<Rightarrow> key_input \<Rightarrow> key_input
   \<Rightarrow> key_input \<Rightarrow> int \<Rightarrow> int \<Rightarrow> key_input \<Rightarrow> int \<Rightarrow> settlement_policy_observation res" where
  "observeSettlementPolicy H S values mode assetMint principalA principalB executor inputNotional
       nowUnixTimestamp expectedAddress expectedBump =
     bindR (requireBytes (obj_get values ''policy_id'') 32) (\<lambda>policyId.
     bindR (deriveSettlementPolicyAddress H S (KeyBytes policyId)) (\<lambda>derivedAddress.
     bindR (normalizePublicKey expectedAddress) (\<lambda>expected.
     let identityMatches = (pda_address derivedAddress = expected) in
     bindR (requireNumberField values ''bump'') (\<lambda>bump.
     let bumpMatches = (bump = expectedBump) in
     bindR (isZeroBytes32 (JBytes policyId)) (\<lambda>policyIdZero.
     let policyIdNonzero = (\<not> policyIdZero) in
     bindR (requireBigIntField values ''policy_flags'') (\<lambda>policyFlags.
     let policyFlagsValid = (policyFlags = 0) in
     bindR (requireNumberField values ''allowed_settlement_modes'') (\<lambda>allowedModes.
     let modes = (word_of_int allowedModes :: 32 word);
         modeMaskValid = mode_mask_valid modes;
         modeAllowed = mode_allowed modes mode in
     bindR (normalizePublicKey assetMint) (\<lambda>normalizedAssetMint.
     bindR (normalizePublicKey principalA) (\<lambda>normalizedPrincipalA.
     bindR (normalizePublicKey principalB) (\<lambda>normalizedPrincipalB.
     bindR (normalizePublicKey executor) (\<lambda>normalizedExecutor.
     bindR (requirePublicKeyField values ''allowed_asset_mint'') (\<lambda>allowedAssetMint.
     bindR (requirePublicKeyField values ''allowed_principal_a'') (\<lambda>allowedPrincipalA.
     bindR (requirePublicKeyField values ''allowed_principal_b'') (\<lambda>allowedPrincipalB.
     bindR (requirePublicKeyField values ''designated_executor'') (\<lambda>designatedExecutor.
     let assetAllowed = key_allowed S allowedAssetMint normalizedAssetMint;
         principalAAllowed = key_allowed S allowedPrincipalA normalizedPrincipalA;
         principalBAllowed = key_allowed S allowedPrincipalB normalizedPrincipalB;
         executorAllowed = key_allowed S designatedExecutor normalizedExecutor in
     bindR (requireBigIntField values ''min_notional'') (\<lambda>minimumNotional.
     bindR (requireBigIntField values ''max_notional'') (\<lambda>maximumNotional.
     let notionalRangeValid = (maximumNotional = 0 \<or> minimumNotional \<le> maximumNotional);
         notionalAllowed = (minimumNotional \<le> inputNotional
                            \<and> (maximumNotional = 0 \<or> inputNotional \<le> maximumNotional)) in
     bindR (requireBigIntField values ''valid_after_unix_timestamp'') (\<lambda>validAfter.
     bindR (requireBigIntField values ''expires_at_unix_timestamp'') (\<lambda>expiresAt.
     let timestampRangeValid = (expiresAt = 0 \<or> validAfter < expiresAt);
         temporallyEffective = ((validAfter = 0 \<or> validAfter \<le> nowUnixTimestamp)
                                \<and> (expiresAt = 0 \<or> nowUnixTimestamp < expiresAt));
         checks =
          [(identityMatches, ''Settlement policy identity does not resolve to the supplied policy PDA''),
           (bumpMatches, ''Settlement policy stored bump does not match the canonical PDA bump''),
           (policyIdNonzero, ''Settlement policy id is zero''),
           (policyFlagsValid, ''Settlement policy contains unsupported policy flags''),
           (modeMaskValid, ''Settlement policy mode mask is empty or contains unsupported settlement modes''),
           (modeAllowed, ''Settlement policy does not permit '' @ mode_name mode @ '' settlement''),
           (assetAllowed, ''Settlement policy does not permit the requested asset mint''),
           (principalAAllowed, ''Settlement policy does not permit principal A''),
           (principalBAllowed, ''Settlement policy does not permit principal B''),
           (executorAllowed, ''Settlement policy does not permit the selected executor''),
           (notionalRangeValid, ''Settlement policy minimum notional exceeds its maximum notional''),
           (notionalAllowed, ''Settlement input notional is outside the settlement policy range''),
           (timestampRangeValid, ''Settlement policy activation timestamp is not earlier than its expiry timestamp''),
           (temporallyEffective, ''Settlement policy is not effective at the supplied timestamp'')];
         usable = (identityMatches \<and> bumpMatches \<and> policyIdNonzero \<and> policyFlagsValid \<and> modeMaskValid
           \<and> modeAllowed \<and> assetAllowed \<and> principalAAllowed \<and> principalBAllowed \<and> executorAllowed
           \<and> notionalRangeValid \<and> notionalAllowed \<and> timestampRangeValid \<and> temporallyEffective) in
     Inr \<lparr>sp_identity = identityMatches, sp_bump = bumpMatches, sp_id_nonzero = policyIdNonzero,
          sp_flags_valid = policyFlagsValid, sp_modes = uint modes, sp_mask_valid = modeMaskValid,
          sp_mode_allowed = modeAllowed, sp_asset_allowed = assetAllowed,
          sp_principal_a_allowed = principalAAllowed, sp_principal_b_allowed = principalBAllowed,
          sp_executor_allowed = executorAllowed, sp_minimum = minimumNotional, sp_maximum = maximumNotional,
          sp_notional_allowed = notionalAllowed, sp_valid_after = validAfter, sp_expires_at = expiresAt,
          sp_range_valid = timestampRangeValid, sp_effective = temporallyEffective, sp_usable = usable,
          sp_observations = failed_checks checks\<rparr>)))))))))))))))))))"

section \<open>Output and fees\<close>

definition computeSettlementGrossOutput :: "settlement_action \<Rightarrow> int \<Rightarrow> js_object \<Rightarrow> int res" where
  "computeSettlementGrossOutput action inputAmount assetConfigValues =
     (if inputAmount < 0 then throw ''Settlement input amount must be non-negative''
      else
        bindR (if action = Mint then requireBigIntField assetConfigValues ''deposit_rate_e9''
               else requireBigIntField assetConfigValues ''redeem_rate_e9'')
          (\<lambda>rate. Inr (big_div (inputAmount * rate) RATE_PRECISION_E9)))"

datatype denomination = AssetDenomination | IssuedTokenDenomination | InvalidDenomination

fun denomination_name :: "denomination \<Rightarrow> string" where
  "denomination_name AssetDenomination = ''asset''"
| "denomination_name IssuedTokenDenomination = ''issued_token''"
| "denomination_name InvalidDenomination = ''invalid''"

record fee_quote =
  fq_gross_input :: int
  fq_gross_output :: int
  fq_denomination :: denomination
  fq_assessed :: int
  fq_nominal_rebate :: int
  fq_effective_rebate :: int
  fq_net_fee :: int
  fq_net_output :: int
  fq_routed :: bool
  fq_recipient :: string
  fq_effective :: bool
  fq_observations :: "string list"

definition roundedBasisPoints :: "int \<Rightarrow> int \<Rightarrow> int \<Rightarrow> int res" where
  "roundedBasisPoints amount basisPoints roundingMode =
     (let product = amount * basisPoints;
          quotient = big_div product 10000;
          remainder = big_rem product 10000 in
      if roundingMode = 0 then Inr quotient
      else if roundingMode = 1 then Inr (quotient + (if remainder = 0 then 0 else 1))
      else if roundingMode = 2 then Inr (quotient + (if 5000 \<le> remainder then 1 else 0))
      else throw ''Unsupported fee rounding mode'')"

definition expected_denomination :: "settlement_action \<Rightarrow> denomination" where
  "expected_denomination action = (if action = Mint then IssuedTokenDenomination else AssetDenomination)"

definition fee_denomination :: "int \<Rightarrow> denomination" where
  "fee_denomination flags =
     (let inAsset = flag_set flags 0; inIssuedToken = flag_set flags 1 in
      if inAsset = inIssuedToken then InvalidDenomination
      else if inAsset then AssetDenomination else IssuedTokenDenomination)"

text \<open>The fee before the rebate: flat or proportional, capped, then raised to the minimum.\<close>

definition assessed_fee :: "settlement_action \<Rightarrow> int \<Rightarrow> js_object \<Rightarrow> int res" where
  "assessed_fee action grossOutput feePolicyValues =
     bindR (if action = Mint then requireBigIntField feePolicyValues ''flat_fee_in_issued_token''
            else requireBigIntField feePolicyValues ''flat_fee_in_asset'') (\<lambda>flatFee.
     bindR (requireNumberField feePolicyValues ''percent_fee_bps'') (\<lambda>percentFeeBasisPoints.
     bindR (if flatFee \<noteq> 0 then Inr flatFee
            else if percentFeeBasisPoints \<noteq> 0 then
              bindR (requireNumberField feePolicyValues ''rounding_mode'') (\<lambda>roundingMode.
                roundedBasisPoints grossOutput percentFeeBasisPoints roundingMode)
            else Inr 0) (\<lambda>rawFee.
     bindR (requireBigIntField feePolicyValues ''fee_cap_amount'') (\<lambda>feeCap.
     bindR (requireBigIntField feePolicyValues ''minimum_fee_amount'') (\<lambda>minimumFee.
       let cappedFee = (if feeCap = 0 \<or> rawFee \<le> feeCap then rawFee else feeCap) in
       Inr (if minimumFee \<le> cappedFee then cappedFee else minimumFee))))))"

text \<open>The rebate before flooring: flat or a share of the assessed fee, capped.\<close>

definition nominal_rebate :: "int \<Rightarrow> js_object \<Rightarrow> int res" where
  "nominal_rebate assessedFee feePolicyValues =
     bindR (requireBigIntField feePolicyValues ''rebate_flat_amount'') (\<lambda>flatRebate.
     bindR (requireNumberField feePolicyValues ''rebate_bps'') (\<lambda>rebateBasisPoints.
     let rawRebate = (if flatRebate \<noteq> 0 then flatRebate
                      else if rebateBasisPoints \<noteq> 0 then big_div (assessedFee * rebateBasisPoints) 10000
                      else 0) in
     bindR (requireBigIntField feePolicyValues ''rebate_cap_amount'') (\<lambda>rebateCap.
       Inr (if rebateCap = 0 \<or> rawRebate \<le> rebateCap then rawRebate else rebateCap))))"

definition free_quote :: "chancery_schema \<Rightarrow> settlement_action \<Rightarrow> int \<Rightarrow> int \<Rightarrow> fee_quote" where
  "free_quote S action grossInput grossOutput =
     \<lparr>fq_gross_input = grossInput, fq_gross_output = grossOutput,
      fq_denomination = expected_denomination action, fq_assessed = 0, fq_nominal_rebate = 0,
      fq_effective_rebate = 0, fq_net_fee = 0, fq_net_output = grossOutput, fq_routed = False,
      fq_recipient = zero_address (schema_wire S), fq_effective = True, fq_observations = []\<rparr>"

definition computeFeeQuote ::
  "chancery_schema \<Rightarrow> settlement_action \<Rightarrow> int \<Rightarrow> int \<Rightarrow> js_object option \<Rightarrow> int \<Rightarrow> fee_quote res" where
  "computeFeeQuote S action grossInput grossOutput feePolicyValues nowUnixTimestamp =
     (case feePolicyValues of
        None \<Rightarrow> Inr (free_quote S action grossInput grossOutput)
      | Some values \<Rightarrow>
          bindR (requireBigIntField values ''fee_policy_flags'') (\<lambda>flags.
          let denomination = fee_denomination flags in
          bindR (requireBigIntField values ''effective_from_unix_timestamp'') (\<lambda>effectiveFrom.
          bindR (requireBigIntField values ''effective_until_unix_timestamp'') (\<lambda>effectiveUntil.
          let effective = (flag_set flags 4 \<and> (effectiveFrom = 0 \<or> effectiveFrom \<le> nowUnixTimestamp)
                           \<and> (effectiveUntil = 0 \<or> nowUnixTimestamp < effectiveUntil)) in
          bindR (assessed_fee action grossOutput values) (\<lambda>assessedFee.
          bindR (nominal_rebate assessedFee values) (\<lambda>nominalRebate.
          bindR (requireNumberField values ''net_fee_floor_zero'') (\<lambda>floorFlag.
          let floorZero = (floorFlag \<noteq> 0);
              effectiveRebate = (if floorZero \<and> assessedFee < nominalRebate then assessedFee else nominalRebate);
              netFee = (if assessedFee < effectiveRebate then 0 else assessedFee - effectiveRebate);
              netOutput = (if netFee \<le> grossOutput then grossOutput - netFee else 0);
              checks =
               [(denomination = expected_denomination action,
                 ''Fee denomination '' @ denomination_name denomination @ '' does not match '' @
                 action_name action @ '' output denomination '' @ denomination_name (expected_denomination action)),
                (\<not> flag_set flags 2, ''Percent-on-input is not supported by the settlement runtime''),
                (effective, ''Fee policy is not effective at the supplied timestamp''),
                (floorZero \<or> nominalRebate \<le> assessedFee,
                 ''Configured rebate exceeds assessed fee while zero-flooring is disabled''),
                (netOutput \<noteq> 0, ''Net settlement output is zero'')] in
          bindR (requireNumberField values ''fee_recipient_policy'') (\<lambda>recipientPolicy.
          bindR (requirePublicKeyField values ''fee_recipient_key'') (\<lambda>recipient.
            Inr \<lparr>fq_gross_input = grossInput, fq_gross_output = grossOutput, fq_denomination = denomination,
                 fq_assessed = assessedFee, fq_nominal_rebate = nominalRebate,
                 fq_effective_rebate = effectiveRebate, fq_net_fee = netFee, fq_net_output = netOutput,
                 fq_routed = (0 < netFee \<and> recipientPolicy \<noteq> 0 \<and> recipientPolicy \<noteq> 4),
                 fq_recipient = recipient, fq_effective = effective,
                 fq_observations = failed_checks checks\<rparr>)))))))))"

section \<open>Limit windows\<close>

text \<open>\<open>/\<close> and \<open>%\<close> of \<open>bigint\<close> truncate; the correction makes the quotient the floor.\<close>

definition floorDivision :: "int \<Rightarrow> int \<Rightarrow> int" where
  "floorDivision numerator denominator =
     (let quotient = big_div numerator denominator; remainder = big_rem numerator denominator in
      if remainder \<noteq> 0 \<and> ((0 < remainder) \<noteq> (0 < denominator)) then quotient - 1 else quotient)"

definition canonicalWindowStart :: "int \<Rightarrow> int \<Rightarrow> int res" where
  "canonicalWindowStart windowKind unixTimestamp =
     bindR (if windowKind = WINDOW_HOURLY then Inr 3600
            else if windowKind = WINDOW_DAILY then Inr 86400
            else if windowKind = WINDOW_WEEKLY then Inr 604800
            else if windowKind = WINDOW_MONTHLY then Inr 2592000
            else throw ''Unknown usage-window kind'')
       (\<lambda>periodSeconds. Inr (floorDivision unixTimestamp periodSeconds * periodSeconds))"

definition maximumBigInt :: "int \<Rightarrow> int \<Rightarrow> int" where
  "maximumBigInt left right = (if right \<le> left then left else right)"

record limit_window_observation =
  lw_name :: string
  lw_kind :: int
  lw_maximum :: int
  lw_accumulator :: string
  lw_stored_start :: "int option"
  lw_canonical_start :: int
  lw_rolled :: bool
  lw_clock_regression :: bool
  lw_current :: int
  lw_proposed :: int
  lw_projected :: int
  lw_remaining_before :: "int option"
  lw_remaining_after :: "int option"
  lw_allowed :: bool
  lw_current_actions :: int
  lw_projected_actions :: int
  lw_maximum_actions :: int
  lw_actions_remaining_before :: "int option"
  lw_actions_remaining_after :: "int option"
  lw_action_allowed :: bool

record limit_observation =
  lo_action :: settlement_action
  lo_accumulator :: string
  lo_transaction_maximum :: int
  lo_proposed :: int
  lo_remaining_before :: "int option"
  lo_remaining_after :: "int option"
  lo_transaction_allowed :: bool
  lo_windows :: "limit_window_observation list"

definition LIMIT_DEFINITIONS :: "(string \<times> int \<times> string \<times> string) list" where
  "LIMIT_DEFINITIONS =
     [(''hourly'', WINDOW_HOURLY, ''per_hour_maximum'', ''maximum_actions_per_hour''),
      (''daily'', WINDOW_DAILY, ''per_day_maximum'', ''maximum_actions_per_day''),
      (''weekly'', WINDOW_WEEKLY, ''per_seven_day_maximum'', ''''),
      (''monthly'', WINDOW_MONTHLY, ''per_thirty_day_maximum'', '''')]"

text \<open>The counters of the stored window, when it is the current one.\<close>

definition stored_counters :: "string \<Rightarrow> js_object option \<Rightarrow> bool \<Rightarrow> (int \<times> int) res" where
  "stored_counters accumulatorField windowValues useStoredCounters =
     (case windowValues of
        Some values \<Rightarrow>
          if useStoredCounters then
            bindR (requireBigIntArrayField values accumulatorField 2) (\<lambda>words.
            bindR (wordsToUnsigned128 words) (\<lambda>amount.
            bindR (requireNumberField values ''action_count'') (\<lambda>count. Inr (amount, count))))
          else Inr (0, 0)
      | None \<Rightarrow> Inr (0, 0))"

definition observe_window ::
  "js_object \<Rightarrow> string \<Rightarrow> int \<Rightarrow> (string \<times> js_object option) list \<Rightarrow> int \<Rightarrow> string \<times> int \<times> string \<times> string
   \<Rightarrow> limit_window_observation res" where
  "observe_window policyValues accumulatorField proposedAmount windows nowUnixTimestamp dfn =
     (case dfn of (name, windowKind, maximumField, actionsField) \<Rightarrow>
        bindR (requireBigIntField policyValues maximumField) (\<lambda>maximum.
        bindR (if actionsField = '''' then Inr 0 else requireNumberField policyValues actionsField)
          (\<lambda>maximumActionCount.
        let windowValues = (case map_of windows name of Some w \<Rightarrow> w | None \<Rightarrow> None) in
        bindR (canonicalWindowStart windowKind nowUnixTimestamp) (\<lambda>canonicalStart.
        bindR (case windowValues of
                 None \<Rightarrow> Inr None
               | Some values \<Rightarrow> bindR (requireBigIntField values ''window_start_unix_timestamp'') (\<lambda>s. Inr (Some s)))
          (\<lambda>storedStart.
        let clockRegression = (case storedStart of Some s \<Rightarrow> canonicalStart < s | None \<Rightarrow> False);
            useStoredCounters = (storedStart = Some canonicalStart) in
        bindR (stored_counters accumulatorField windowValues useStoredCounters)
          (\<lambda>(currentAmount, currentActionCount).
        let projectedAmount = currentAmount + proposedAmount;
            projectedActionCount = currentActionCount + 1 in
        Inr \<lparr>lw_name = name, lw_kind = windowKind, lw_maximum = maximum, lw_accumulator = accumulatorField,
             lw_stored_start = storedStart, lw_canonical_start = canonicalStart,
             lw_rolled = (case storedStart of Some s \<Rightarrow> s < canonicalStart | None \<Rightarrow> False),
             lw_clock_regression = clockRegression, lw_current = currentAmount, lw_proposed = proposedAmount,
             lw_projected = projectedAmount,
             lw_remaining_before = (if maximum = 0 then None else Some (maximumBigInt (maximum - currentAmount) 0)),
             lw_remaining_after = (if maximum = 0 then None else Some (maximumBigInt (maximum - projectedAmount) 0)),
             lw_allowed = (\<not> clockRegression \<and> (maximum = 0 \<or> projectedAmount \<le> maximum)),
             lw_current_actions = currentActionCount, lw_projected_actions = projectedActionCount,
             lw_maximum_actions = maximumActionCount,
             lw_actions_remaining_before =
               (if maximumActionCount = 0 then None else Some (max (maximumActionCount - currentActionCount) 0)),
             lw_actions_remaining_after =
               (if maximumActionCount = 0 then None else Some (max (maximumActionCount - projectedActionCount) 0)),
             lw_action_allowed = (\<not> clockRegression
               \<and> (maximumActionCount = 0 \<or> projectedActionCount \<le> maximumActionCount))\<rparr>))))))"

definition observeLimitPolicy ::
  "js_object \<Rightarrow> settlement_action \<Rightarrow> int \<Rightarrow> (string \<times> js_object option) list \<Rightarrow> int \<Rightarrow> limit_observation res" where
  "observeLimitPolicy policyValues action proposedAmount windows nowUnixTimestamp =
     (if proposedAmount < 0 then throw ''Proposed limit amount must be non-negative''
      else
        let accumulatorField = (if action = Mint then ''gross_in'' else ''gross_output_amount'') in
        bindR (requireBigIntField policyValues ''per_transaction_maximum'') (\<lambda>perTransactionMaximum.
        bindR (mapR (observe_window policyValues accumulatorField proposedAmount windows nowUnixTimestamp)
                 LIMIT_DEFINITIONS) (\<lambda>observations.
          Inr \<lparr>lo_action = action, lo_accumulator = accumulatorField,
               lo_transaction_maximum = perTransactionMaximum, lo_proposed = proposedAmount,
               lo_remaining_before = (if perTransactionMaximum = 0 then None else Some perTransactionMaximum),
               lo_remaining_after =
                 (if perTransactionMaximum = 0 then None
                  else Some (maximumBigInt (perTransactionMaximum - proposedAmount) 0)),
               lo_transaction_allowed = (perTransactionMaximum = 0 \<or> proposedAmount \<le> perTransactionMaximum),
               lo_windows = observations\<rparr>)))"

section \<open>Roles are bits\<close>

definition role_index :: "settlement_action \<Rightarrow> settlement_mode \<Rightarrow> nat" where
  "role_index action mode = (if mode = Direct then 0 else 2) + (if action = Mint then 0 else 1)"

lemma requiredPrincipalRole_bit: "requiredPrincipalRole action mode = 2 ^ role_index action mode"
  by (cases action; cases mode) (simp_all add: requiredPrincipalRole_def role_index_def push_bit_eq_mult)

lemma and_single_bit: "and (x :: int) (2 ^ n) = 2 ^ n \<longleftrightarrow> bit x n"
proof
  assume "and x (2 ^ n) = 2 ^ n"
  then have "bit (and x (2 ^ n)) n" by (simp add: bit_exp_iff)
  then show "bit x n" by (simp add: bit_and_iff)
next
  assume "bit x n"
  then show "and x (2 ^ n) = 2 ^ n" by (auto intro!: bit_eqI simp: bit_and_iff bit_exp_iff)
qed

lemma role_held:
  "and (or w0 (push_bit 64 w1)) (requiredPrincipalRole action mode) = requiredPrincipalRole action mode
   \<longleftrightarrow> bit w0 (role_index action mode)"
  by (simp add: requiredPrincipalRole_bit and_single_bit bit_or_iff bit_push_bit_iff role_index_def)

lemma requireBigIntArrayField_two:
  "requireBigIntArrayField values name 2 = Inr ws \<longleftrightarrow>
   (\<exists>w0 w1. obj_get values name = JArr [JBig w0, JBig w1] \<and> ws = [w0, w1])"
proof -
  have item: "bigintItem x = Inr n \<longleftrightarrow> x = JBig n" for x n by (cases x) auto
  show ?thesis
    by (auto simp: requireBigIntArrayField_def mapR_eq_Inr_iff item length_Suc_conv numeral_2_eq_2
        list_all2_Cons1 split: js.splits if_splits)
qed

lemma wordsToUnsigned128_two [simp]: "wordsToUnsigned128 [w0, w1] = Inr (or w0 (push_bit 64 w1))"
  by (simp add: wordsToUnsigned128_def)

lemma scope_matches_True:
  "scope_matches values kind key = Inr True \<longleftrightarrow>
   requireNumberField values ''scope_kind'' = Inr kind \<and>
   (\<exists>k. requirePublicKeyField values ''scope_key'' = Inr k \<and> normalizePublicKey key = Inr k)"
  by (auto simp: scope_matches_def)

lemma permissionObservation_usable:
  assumes "permissionObservation values (requiredPrincipalRole action mode) subject kind key now = Inr ob"
  shows "po_usable ob \<longleftrightarrow>
    (\<exists>w0 w1. obj_get values ''role_bits'' = JArr [JBig w0, JBig w1] \<and> bit w0 (role_index action mode)) \<and>
    (\<exists>s. requirePublicKeyField values ''subject'' = Inr s \<and> normalizePublicKey subject = Inr s) \<and>
    scope_matches values kind key = Inr True \<and>
    requireNumberField values ''role_schema_version'' = Inr 1 \<and>
    (\<exists>f. requireBigIntField values ''permission_flags'' = Inr f \<and> even f) \<and>
    (\<exists>e. requireBigIntField values ''expiry_unix_timestamp'' = Inr e \<and> (e = 0 \<or> now < e))"
  using assms
  by (auto simp: permissionObservation_def Let_def requireBigIntArrayField_two role_held bit_0)

section \<open>A policy is usable exactly when nothing is observed\<close>

lemma failed_checks_Nil: "failed_checks checks = [] \<longleftrightarrow> list_all fst checks"
  by (auto simp: failed_checks_def filter_empty_conv list_all_iff)

lemma observeSettlementPolicy_usable:
  assumes "observeSettlementPolicy H S values mode assetMint principalA principalB executor notional now
      expectedAddress expectedBump = Inr ob"
  shows "sp_usable ob \<longleftrightarrow> sp_observations ob = []"
  using assms unfolding observeSettlementPolicy_def Let_def
  by (clarsimp simp: failed_checks_Nil)

lemma and_one_bit: "and (w :: 32 word) (push_bit n 1) \<noteq> 0 \<Longrightarrow> bit (uint w) n"
  using bit_imp_le_length [of w n]
  by (simp add: push_bit_eq_mult and_exp_eq_0_iff_not_bit bit_uint_iff)

lemma observeSettlementPolicy_ranges:
  assumes "observeSettlementPolicy H S values mode assetMint principalA principalB executor notional now
      expectedAddress expectedBump = Inr ob"
  shows "sp_usable ob \<longrightarrow> mode \<noteq> Direct \<and> bit (sp_modes ob) (SETTLEMENT_MODE_VALUE mode) \<and>
       (\<exists>r ident. requireBytes (obj_get values ''policy_id'') 32 = Inr ident \<and>
          deriveSettlementPolicyAddress H S (KeyBytes ident) = Inr r \<and> normalizePublicKey expectedAddress = Inr (pda_address r)) \<and>
       sp_minimum ob \<le> notional \<and> (sp_maximum ob = 0 \<or> notional \<le> sp_maximum ob) \<and>
       (sp_valid_after ob = 0 \<or> sp_valid_after ob \<le> now) \<and> (sp_expires_at ob = 0 \<or> now < sp_expires_at ob)"
  using assms unfolding observeSettlementPolicy_def Let_def
  by (clarsimp simp: mode_allowed_def and_one_bit)
section \<open>Fees\<close>

lemma roundedBasisPoints_floor:
  "0 \<le> amount * bp \<Longrightarrow> roundedBasisPoints amount bp 0 = Inr (amount * bp div 10000)"
  by (simp add: roundedBasisPoints_def Let_def)

lemma rounding_bounds:
  fixes k r p :: int
  assumes "p = k * 10000 + r" "0 \<le> r" "r < 10000"
  shows "q = k + (if r = 0 then 0 else 1) \<Longrightarrow> p \<le> q * 10000 \<and> q * 10000 < p + 10000"
    and "q = k + (if 5000 \<le> r then 1 else 0) \<Longrightarrow> p - 5000 < q * 10000 \<and> q * 10000 \<le> p + 5000"
  using assms by auto

lemma roundedBasisPoints_ceiling:
  assumes "0 \<le> amount * bp" "roundedBasisPoints amount bp 1 = Inr q"
  shows "amount * bp \<le> q * 10000 \<and> q * 10000 < amount * bp + 10000"
proof (rule rounding_bounds(1))
  show "q = amount * bp div 10000 + (if amount * bp mod 10000 = 0 then 0 else 1)"
    using assms by (auto simp: roundedBasisPoints_def Let_def)
qed simp_all

lemma roundedBasisPoints_nearest:
  assumes "0 \<le> amount * bp" "roundedBasisPoints amount bp 2 = Inr q"
  shows "amount * bp - 5000 < q * 10000 \<and> q * 10000 \<le> amount * bp + 5000"
proof (rule rounding_bounds(2))
  show "q = amount * bp div 10000 + (if 5000 \<le> amount * bp mod 10000 then 1 else 0)"
    using assms by (auto simp: roundedBasisPoints_def Let_def)
qed simp_all

lemma roundedBasisPoints_nonneg:
  assumes "0 \<le> amount" "0 \<le> bp" "roundedBasisPoints amount bp mode = Inr q"
  shows "0 \<le> q"
proof -
  have "0 \<le> amount * bp div 10000" using assms(1,2) by (simp add: pos_imp_zdiv_nonneg_iff)
  with assms show ?thesis by (auto simp: roundedBasisPoints_def Let_def split: if_splits)
qed

text \<open>The amounts of a fee policy are unsigned.\<close>

definition unsigned_fields :: "string list \<Rightarrow> js_object \<Rightarrow> bool" where
  "unsigned_fields names values \<longleftrightarrow>
     list_all (\<lambda>name. case obj_get values name of JBig n \<Rightarrow> 0 \<le> n | JNum n \<Rightarrow> 0 \<le> n | _ \<Rightarrow> True) names"

definition FEE_AMOUNT_FIELDS :: "string list" where
  "FEE_AMOUNT_FIELDS = [''flat_fee_in_issued_token'', ''flat_fee_in_asset'', ''percent_fee_bps'',
     ''fee_cap_amount'', ''minimum_fee_amount'', ''rebate_flat_amount'', ''rebate_bps'', ''rebate_cap_amount'']"

lemma unsigned_BigInt:
  "unsigned_fields names values \<Longrightarrow> requireBigIntField values name = Inr n \<Longrightarrow> name \<in> set names \<Longrightarrow> 0 \<le> n"
  by (auto simp: unsigned_fields_def requireBigIntField_def list_all_iff split: js.splits)

lemma unsigned_Number:
  "unsigned_fields names values \<Longrightarrow> requireNumberField values name = Inr n \<Longrightarrow> name \<in> set names \<Longrightarrow> 0 \<le> n"
  by (auto simp: unsigned_fields_def requireNumberField_def list_all_iff split: js.splits if_splits)

lemma assessed_fee_bounds:
  assumes "assessed_fee action gross values = Inr fee"
  shows "\<exists>cap minimum. requireBigIntField values ''fee_cap_amount'' = Inr cap \<and>
    requireBigIntField values ''minimum_fee_amount'' = Inr minimum \<and>
    minimum \<le> fee \<and> (cap \<noteq> 0 \<longrightarrow> fee \<le> max cap minimum)"
  using assms by (auto simp: assessed_fee_def Let_def)

lemma assessed_fee_nonneg:
  assumes "assessed_fee action gross values = Inr fee" "unsigned_fields FEE_AMOUNT_FIELDS values"
  shows "0 \<le> fee"
proof -
  obtain m where "requireBigIntField values ''minimum_fee_amount'' = Inr m" "m \<le> fee"
    using assessed_fee_bounds [OF assms(1)] by blast
  with unsigned_BigInt [OF assms(2), of "''minimum_fee_amount''" m] show ?thesis
    by (simp add: FEE_AMOUNT_FIELDS_def)
qed

lemma nominal_rebate_nonneg:
  assumes "nominal_rebate fee values = Inr rebate" "unsigned_fields FEE_AMOUNT_FIELDS values" "0 \<le> fee"
  shows "0 \<le> rebate"
proof -
  obtain flat bps cap where f: "requireBigIntField values ''rebate_flat_amount'' = Inr flat"
    "requireNumberField values ''rebate_bps'' = Inr bps" "requireBigIntField values ''rebate_cap_amount'' = Inr cap"
    "rebate = (let raw = (if flat \<noteq> 0 then flat else if bps \<noteq> 0 then big_div (fee * bps) 10000 else 0) in
      if cap = 0 \<or> raw \<le> cap then raw else cap)"
    using assms(1) by (auto simp: nominal_rebate_def Let_def)
  have "0 \<le> flat" "0 \<le> bps" "0 \<le> cap"
    using unsigned_BigInt [OF assms(2) f(1)] unsigned_Number [OF assms(2) f(2)] unsigned_BigInt [OF assms(2) f(3)]
    by (simp_all add: FEE_AMOUNT_FIELDS_def)
  moreover from this have "0 \<le> big_div (fee * bps) 10000" using assms(3) by (simp add: pos_imp_zdiv_nonneg_iff)
  ultimately show ?thesis by (simp add: f(4) Let_def)
qed

lemma computeFeeQuote_Some:
  assumes "computeFeeQuote S action grossInput gross (Some values) now = Inr q"
  obtains flags start stop floorFlag where
    "requireBigIntField values ''fee_policy_flags'' = Inr flags"
    "requireBigIntField values ''effective_from_unix_timestamp'' = Inr start"
    "requireBigIntField values ''effective_until_unix_timestamp'' = Inr stop"
    "requireNumberField values ''net_fee_floor_zero'' = Inr floorFlag"
    "assessed_fee action gross values = Inr (fq_assessed q)"
    "nominal_rebate (fq_assessed q) values = Inr (fq_nominal_rebate q)"
    "fq_effective q \<longleftrightarrow> bit flags 4 \<and> (start = 0 \<or> start \<le> now) \<and> (stop = 0 \<or> now < stop)"
    "fq_denomination q = fee_denomination flags"
    "fq_effective_rebate q = (if floorFlag \<noteq> (0 :: int) \<and> fq_assessed q < fq_nominal_rebate q
       then fq_assessed q else fq_nominal_rebate q)"
    "fq_net_fee q = (if fq_assessed q < fq_effective_rebate q then 0 else fq_assessed q - fq_effective_rebate q)"
    "fq_net_output q = (if fq_net_fee q \<le> gross then gross - fq_net_fee q else 0)"
    "fq_observations q = [] \<longleftrightarrow> fq_denomination q = expected_denomination action \<and> \<not> bit flags 2 \<and> fq_effective q \<and>
       (floorFlag \<noteq> 0 \<or> fq_nominal_rebate q \<le> fq_assessed q) \<and> fq_net_output q \<noteq> 0"
    "fq_routed q \<longrightarrow> 0 < fq_net_fee q"
  using assms unfolding computeFeeQuote_def Let_def option.case bindR_eq_Inr Inr_inject
  apply (elim exE conjE)
  apply (rule that, assumption, assumption, assumption, assumption)
  apply (drule sym, simp add: failed_checks_Nil)+
  done

section \<open>Windows\<close>

lemma floorDivision_div: "0 < d \<Longrightarrow> floorDivision n d = n div d"
proof (cases "0 \<le> n")
  case True
  assume "0 < d"
  then have "0 \<le> n mod d" by simp
  with True \<open>0 < d\<close> show ?thesis by (simp add: floorDivision_def Let_def order_less_le)
next
  case False
  assume d: "0 < d"
  have "0 \<le> (- n) mod d" using d by simp
  moreover have "n div d = (if (- n) mod d = 0 then - ((- n) div d) else - ((- n) div d) - 1)"
    using d zdiv_zminus1_eq_if [of d "- n"] by simp
  moreover have "big_div n d = - ((- n) div d)" "big_rem n d = - ((- n) mod d)"
    using False d by (simp_all add: big_div_def big_rem_def)
  moreover have "\<not> (- n) mod d < 0" using d by (simp only: not_less pos_mod_sign)
  ultimately show ?thesis using d by (auto simp: floorDivision_def Let_def)
qed

definition window_period :: "int \<Rightarrow> int" where
  "window_period kind = (if kind = WINDOW_HOURLY then 3600 else if kind = WINDOW_DAILY then 86400
     else if kind = WINDOW_WEEKLY then 604800 else 2592000)"

lemma canonicalWindowStart_Inr:
  "canonicalWindowStart kind t = Inr s \<longleftrightarrow> 0 \<le> kind \<and> kind \<le> 3 \<and> s = t - t mod window_period kind"
proof -
  have "floorDivision t p * p = t - t mod p" if "0 < p" for p
    using that by (simp add: floorDivision_div minus_mod_eq_div_mult)
  then show ?thesis
    by (auto simp: canonicalWindowStart_def window_period_def)
qed

lemma window_period_pos: "0 < window_period kind"
  by (simp add: window_period_def)

lemma maximumBigInt_max [simp]: "maximumBigInt a b = max a b"
  by (simp add: maximumBigInt_def max_def)

text \<open>What one window observation satisfies.\<close>

definition window_ok :: "int \<Rightarrow> int \<Rightarrow> limit_window_observation \<Rightarrow> bool" where
  "window_ok proposed now w \<longleftrightarrow>
     lw_projected w = lw_current w + proposed \<and>
     lw_canonical_start w = now - now mod window_period (lw_kind w) \<and>
     (lw_stored_start w \<noteq> Some (lw_canonical_start w) \<longrightarrow> lw_current w = 0 \<and> lw_current_actions w = 0) \<and>
     (lw_clock_regression w \<longleftrightarrow> (\<exists>s. lw_stored_start w = Some s \<and> lw_canonical_start w < s)) \<and>
     (lw_allowed w \<longleftrightarrow> \<not> lw_clock_regression w \<and> (lw_maximum w = 0 \<or> lw_projected w \<le> lw_maximum w)) \<and>
     (lw_action_allowed w \<longleftrightarrow> \<not> lw_clock_regression w \<and>
        (lw_maximum_actions w = 0 \<or> lw_current_actions w < lw_maximum_actions w)) \<and>
     (lw_allowed w \<and> lw_maximum w \<noteq> 0 \<and> 0 \<le> proposed \<longrightarrow>
        lw_remaining_after w = Some (lw_maximum w - lw_projected w) \<and>
        lw_remaining_before w = Some (lw_maximum w - lw_current w))"

lemma stored_counters_zero:
  "stored_counters field w False = Inr (amount, count) \<Longrightarrow> amount = 0 \<and> count = 0"
  by (auto simp: stored_counters_def split: option.splits)

lemma observe_window_Inr:
  assumes "observe_window policy field proposed windows now (name, kind, maxField, actField) = Inr w"
  obtains mx acts start stored amount count where
    "requireBigIntField policy maxField = Inr mx"
    "(if actField = '''' then Inr 0 else requireNumberField policy actField) = Inr acts"
    "canonicalWindowStart kind now = Inr start"
    "(case (case map_of windows name of Some w \<Rightarrow> w | None \<Rightarrow> None) of None \<Rightarrow> Inr None
      | Some stored_window \<Rightarrow>
          bindR (requireBigIntField stored_window ''window_start_unix_timestamp'') (\<lambda>s. Inr (Some s))) = Inr stored"
    "stored_counters field (case map_of windows name of Some w \<Rightarrow> w | None \<Rightarrow> None) (stored = Some start) = Inr (amount, count)"
    "w = \<lparr>lw_name = name, lw_kind = kind, lw_maximum = mx, lw_accumulator = field,
             lw_stored_start = stored, lw_canonical_start = start,
             lw_rolled = (case stored of Some s \<Rightarrow> s < start | None \<Rightarrow> False),
             lw_clock_regression = (case stored of Some s \<Rightarrow> start < s | None \<Rightarrow> False), lw_current = amount,
             lw_proposed = proposed, lw_projected = amount + proposed,
             lw_remaining_before = (if mx = 0 then None else Some (max (mx - amount) 0)),
             lw_remaining_after = (if mx = 0 then None else Some (max (mx - (amount + proposed)) 0)),
             lw_allowed = (\<not> (case stored of Some s \<Rightarrow> start < s | None \<Rightarrow> False) \<and> (mx = 0 \<or> amount + proposed \<le> mx)),
             lw_current_actions = count, lw_projected_actions = count + 1, lw_maximum_actions = acts,
             lw_actions_remaining_before = (if acts = 0 then None else Some (max (acts - count) 0)),
             lw_actions_remaining_after = (if acts = 0 then None else Some (max (acts - (count + 1)) 0)),
             lw_action_allowed = (\<not> (case stored of Some s \<Rightarrow> start < s | None \<Rightarrow> False)
               \<and> (acts = 0 \<or> count + 1 \<le> acts))\<rparr>"
  using assms unfolding observe_window_def Let_def prod.case maximumBigInt_max bindR_eq_Inr
  by (elim exE conjE) (auto split: prod.splits)

lemma observe_window_ok:
  assumes "observe_window policy field proposed windows now dfn = Inr w"
  shows "window_ok proposed now w \<and> lw_name w = fst dfn \<and> lw_kind w = fst (snd dfn)"
proof -
  obtain name kind maxField actField where dfn: "dfn = (name, kind, maxField, actField)" by (cases dfn)
  from assms [unfolded dfn] show ?thesis
  proof (cases rule: observe_window_Inr)
    case (1 mx acts start stored amount count)
    have "stored \<noteq> Some start \<longrightarrow> amount = 0 \<and> count = 0" using 1(5) stored_counters_zero by auto
    moreover have "start = now - now mod window_period kind" using 1(3) by (simp add: canonicalWindowStart_Inr)
    ultimately show ?thesis
      unfolding window_ok_def 1(6) dfn by (auto split: option.splits)
  qed
qed

text \<open>
  Where the numbers of a window come from: the maxima from the fields of the policy; the counters from the stored window
  when it starts where the canonical one does, two 64-bit words and the count of actions, and zero for another window or
  for none; the projections and what remains from both.
\<close>

definition window_counters :: "js_object option \<Rightarrow> string \<Rightarrow> limit_window_observation \<Rightarrow> bool" where
  "window_counters stored field w \<longleftrightarrow>
     (case stored of
        None \<Rightarrow> lw_stored_start w = None \<and> lw_current w = 0 \<and> lw_current_actions w = 0
      | Some stored_window \<Rightarrow>
          (\<exists>start. obj_get stored_window ''window_start_unix_timestamp'' = JBig start \<and> lw_stored_start w = Some start \<and>
             (if start = lw_canonical_start w
              then (\<exists>low high. obj_get stored_window field = JArr [JBig low, JBig high]
                      \<and> lw_current w = or low (push_bit 64 high))
                \<and> obj_get stored_window ''action_count'' = JNum (lw_current_actions w)
              else lw_current w = 0 \<and> lw_current_actions w = 0)))"

fun window_read :: "js_object \<Rightarrow> string \<Rightarrow> (string \<times> js_object option) list \<Rightarrow> int
    \<Rightarrow> string \<times> int \<times> string \<times> string \<Rightarrow> limit_window_observation \<Rightarrow> bool" where
  "window_read policy field windows proposed (name, kind, maximumField, actionsField) w \<longleftrightarrow>
     lw_name w = name \<and> lw_kind w = kind \<and> lw_accumulator w = field \<and> lw_proposed w = proposed \<and>
     obj_get policy maximumField = JBig (lw_maximum w) \<and>
     (if actionsField = '''' then lw_maximum_actions w = 0 else obj_get policy actionsField = JNum (lw_maximum_actions w)) \<and>
     window_counters (case map_of windows name of Some stored \<Rightarrow> stored | None \<Rightarrow> None) field w \<and>
     lw_projected_actions w = lw_current_actions w + 1 \<and>
     (lw_rolled w \<longleftrightarrow> (\<exists>start. lw_stored_start w = Some start \<and> start < lw_canonical_start w)) \<and>
     lw_remaining_before w = (if lw_maximum w = 0 then None else Some (max (lw_maximum w - lw_current w) 0)) \<and>
     lw_remaining_after w = (if lw_maximum w = 0 then None else Some (max (lw_maximum w - lw_projected w) 0)) \<and>
     lw_actions_remaining_before w =
       (if lw_maximum_actions w = 0 then None else Some (max (lw_maximum_actions w - lw_current_actions w) 0)) \<and>
     lw_actions_remaining_after w =
       (if lw_maximum_actions w = 0 then None else Some (max (lw_maximum_actions w - lw_projected_actions w) 0))"

lemma requireBigIntField_Inr: "requireBigIntField record_values name = Inr n \<longleftrightarrow> obj_get record_values name = JBig n"
  by (auto simp: requireBigIntField_def split: js.splits)

lemma requireNumberField_read: "requireNumberField record_values name = Inr n \<Longrightarrow> obj_get record_values name = JNum n"
  by (auto simp: requireNumberField_def split: js.splits if_splits)

lemma stored_counters_read:
  assumes "stored_counters field (Some stored_window) True = Inr (amount, count)"
  shows "(\<exists>low high. obj_get stored_window field = JArr [JBig low, JBig high] \<and> amount = or low (push_bit 64 high))
    \<and> obj_get stored_window ''action_count'' = JNum count"
  using assms by (auto simp: stored_counters_def requireBigIntArrayField_two dest: requireNumberField_read)

lemma observe_window_read:
  assumes "observe_window policy field proposed windows now dfn = Inr w"
  shows "window_read policy field windows proposed dfn w"
proof -
  obtain name kind maxField actField where dfn: "dfn = (name, kind, maxField, actField)" by (cases dfn)
  define stored where "stored = (case map_of windows name of Some w \<Rightarrow> w | None \<Rightarrow> None)"
  from assms [unfolded dfn] show ?thesis
  proof (cases rule: observe_window_Inr)
    case (1 mx acts start storedStart amount count)
    note parts = 1 [folded stored_def]
    have "window_counters stored field w"
    proof (cases stored)
      case None
      with parts(4,5) show ?thesis by (simp add: window_counters_def parts(6) stored_counters_def)
    next
      case (Some stored_window)
      then obtain s where s: "obj_get stored_window ''window_start_unix_timestamp'' = JBig s" "storedStart = Some s"
        using parts(4) by (auto simp: requireBigIntField_Inr)
      with Some parts(5) stored_counters_read [of field stored_window amount count]
        stored_counters_zero [of field stored amount count]
      show ?thesis by (cases "s = start") (simp_all add: window_counters_def parts(6))
    qed
    moreover have "obj_get policy maxField = JBig mx" using parts(1) by (simp add: requireBigIntField_Inr)
    moreover have "if actField = '''' then acts = 0 else obj_get policy actField = JNum acts"
      using parts(2) requireNumberField_read by (auto split: if_splits)
    moreover have "lw_rolled w \<longleftrightarrow> (\<exists>s. lw_stored_start w = Some s \<and> s < lw_canonical_start w)"
      by (simp add: parts(6) split: option.splits)
    ultimately show ?thesis
      unfolding dfn window_read.simps stored_def [symmetric] by (simp add: parts(6))
  qed
qed

lemma observeLimitPolicy_reads:
  assumes "observeLimitPolicy policy action proposed windows now = Inr ob"
  shows "list_all2 (window_read policy (lo_accumulator ob) windows proposed)
      [(''hourly'', 0, ''per_hour_maximum'', ''maximum_actions_per_hour''),
       (''daily'', 1, ''per_day_maximum'', ''maximum_actions_per_day''),
       (''weekly'', 2, ''per_seven_day_maximum'', ''''), (''monthly'', 3, ''per_thirty_day_maximum'', '''')] (lo_windows ob)
    \<and> lo_accumulator ob = (if action = Mint then ''gross_in'' else ''gross_output_amount'')
    \<and> lo_action ob = action \<and> lo_proposed ob = proposed
    \<and> obj_get policy ''per_transaction_maximum'' = JBig (lo_transaction_maximum ob)
    \<and> lo_remaining_before ob = (if lo_transaction_maximum ob = 0 then None else Some (lo_transaction_maximum ob))
    \<and> lo_remaining_after ob =
        (if lo_transaction_maximum ob = 0 then None else Some (max (lo_transaction_maximum ob - proposed) 0))"
proof -
  from assms obtain obs m where ob: "requireBigIntField policy ''per_transaction_maximum'' = Inr m"
      "mapR (observe_window policy (lo_accumulator ob) proposed windows now) LIMIT_DEFINITIONS = Inr obs"
      "lo_windows ob = obs" "lo_transaction_maximum ob = m" "lo_action ob = action" "lo_proposed ob = proposed"
      "lo_accumulator ob = (if action = Mint then ''gross_in'' else ''gross_output_amount'')"
      "lo_remaining_before ob = (if m = 0 then None else Some m)"
      "lo_remaining_after ob = (if m = 0 then None else Some (max (m - proposed) 0))"
    by (auto simp: observeLimitPolicy_def Let_def split: if_splits)
  have "list_all2 (window_read policy (lo_accumulator ob) windows proposed) LIMIT_DEFINITIONS obs"
    using ob(2) unfolding mapR_eq_Inr_iff by (rule list_all2_mono) (rule observe_window_read)
  with ob show ?thesis by (simp add: LIMIT_DEFINITIONS_def requireBigIntField_Inr)
qed

lemma observeLimitPolicy_windows:
  assumes "observeLimitPolicy policy action proposed windows now = Inr ob"
  shows "0 \<le> proposed \<and> list_all (window_ok proposed now) (lo_windows ob) \<and>
    map lw_name (lo_windows ob) = [''hourly'', ''daily'', ''weekly'', ''monthly''] \<and>
    (lo_transaction_allowed ob \<longleftrightarrow> lo_transaction_maximum ob = 0 \<or> proposed \<le> lo_transaction_maximum ob)"
proof -
  from assms obtain obs m where obs: "0 \<le> proposed"
    "list_all2 (\<lambda>d w. observe_window policy (lo_accumulator ob) proposed windows now d = Inr w) LIMIT_DEFINITIONS obs"
    "lo_windows ob = obs" "lo_transaction_allowed ob \<longleftrightarrow> lo_transaction_maximum ob = 0 \<or> proposed \<le> lo_transaction_maximum ob"
    by (auto simp: observeLimitPolicy_def mapR_eq_Inr_iff Let_def split: if_splits)
  have "list_all2 (\<lambda>d w. window_ok proposed now w \<and> lw_name w = fst d) LIMIT_DEFINITIONS obs"
    using obs(2) by (rule list_all2_mono) (use observe_window_ok in blast)
  then show ?thesis using obs by (auto simp: LIMIT_DEFINITIONS_def list_all2_Cons1)
qed

end
