(* ===== verification/SolanaTransaction.thy ===== *)
theory SolanaTransaction
  imports BinaryCodec "HOL-Library.Product_Lexorder"
begin

text \<open>
  \<open>typescript/src/SolanaTransaction.ts\<close>: compiling instructions to a Solana message and signing it. A
  JavaScript \<open>Map\<close> is an association list in insertion order when its values are enumerated, and a
  partial function when it is only looked up; \<open>sort\<close> with a comparator is the stable \<open>sort_key\<close>. Ed25519 is
  \<open>node:crypto\<close>'s: the record \<open>node_crypto\<close> holds its two functions, on the PKCS#8 form of the key.
\<close>

section \<open>Data\<close>

record solana_account_meta =
  sm_address :: string
  sm_signer :: bool
  sm_writable :: bool

record solana_instruction =
  si_program :: string
  si_accounts :: "solana_account_meta list"
  si_data :: bytes

record solana_keypair =
  kp_public_key :: string
  kp_seed :: bytes

record address_lookup_table =
  lt_address :: string
  lt_addresses :: "string list"

record compiled_lookup =
  cl_table :: string
  cl_writable :: "nat list"
  cl_readonly :: "nat list"

datatype message_version = Unversioned | VersionZero

record compiled_message =
  cm_version :: message_version
  cm_bytes :: bytes
  cm_account_keys :: "string list"
  cm_signers :: "string list"
  cm_required_signatures :: nat
  cm_readonly_signed :: nat
  cm_readonly_unsigned :: nat
  cm_lookups :: "compiled_lookup list"

record signed_transaction =
  st_bytes :: bytes
  st_message :: compiled_message
  st_signatures :: "(string \<times> bytes) list"
  st_primary :: string

record aggregated_meta =
  gm_address :: string
  gm_first :: nat
  gm_signer :: bool
  gm_writable :: bool
  gm_program :: bool

record lookup_placement =
  lp_table :: nat
  lp_index :: nat
  lp_writable :: bool

section \<open>Lengths\<close>

function short_vector_bytes :: "nat \<Rightarrow> bytes" where
  "short_vector_bytes remaining =
     (if 0 < remaining div 128
      then or (word_of_nat (remaining mod 128)) 128 # short_vector_bytes (remaining div 128)
      else [word_of_nat (remaining mod 128)])"
  by pat_completeness auto
termination
  by (relation "measure id") auto

declare short_vector_bytes.simps [simp del]

definition encodeShortVectorLength :: "int \<Rightarrow> bytes res" where
  "encodeShortVectorLength value =
     (if \<not> is_safe_integer value \<or> value < 0 then throw ''Short-vector length must be a safe unsigned integer''
      else Inr (short_vector_bytes (nat value)))"

section \<open>Account metas\<close>

definition mergeAccountMeta ::
  "(string \<times> aggregated_meta) list \<Rightarrow> string \<Rightarrow> bool \<Rightarrow> bool \<Rightarrow> bool \<Rightarrow> nat \<Rightarrow> (string \<times> aggregated_meta) list" where
  "mergeAccountMeta metas address isSigner isWritable isProgram firstSeenIndex =
     (case map_of metas address of
        None \<Rightarrow> obj_set metas address \<lparr>gm_address = address, gm_first = firstSeenIndex, gm_signer = isSigner,
                  gm_writable = isWritable, gm_program = isProgram\<rparr>
      | Some existing \<Rightarrow> obj_set metas address (existing\<lparr>gm_signer := gm_signer existing \<or> isSigner,
                  gm_writable := gm_writable existing \<or> isWritable,
                  gm_program := gm_program existing \<or> isProgram\<rparr>))"

type_synonym merge_state = "(string \<times> aggregated_meta) list \<times> nat"

definition merge_account :: "solana_account_meta \<Rightarrow> merge_state \<Rightarrow> merge_state res" where
  "merge_account account st =
     (case st of (metas, n) \<Rightarrow>
        bindR (normalizePublicKey (KeyText (sm_address account))) (\<lambda>address.
          Inr (mergeAccountMeta metas address (sm_signer account) (sm_writable account) False n, n + 1)))"

definition merge_instruction :: "solana_instruction \<Rightarrow> merge_state \<Rightarrow> merge_state res" where
  "merge_instruction instruction st =
     bindR (foldR merge_account (si_accounts instruction) st) (\<lambda>(metas, n).
     bindR (normalizePublicKey (KeyText (si_program instruction))) (\<lambda>program.
       Inr (mergeAccountMeta metas program False False True n, n + 1)))"

definition aggregateAccountMetas :: "solana_instruction list \<Rightarrow> key_input \<Rightarrow> aggregated_meta list res" where
  "aggregateAccountMetas instructions feePayerInput =
     bindR (normalizePublicKey feePayerInput) (\<lambda>feePayer.
     bindR (foldR merge_instruction instructions
              ([(feePayer, \<lparr>gm_address = feePayer, gm_first = 0, gm_signer = True, gm_writable = True,
                            gm_program = False\<rparr>)], 1))
       (\<lambda>(metas, _). Inr (map snd metas)))"

definition accountOrderGroup :: "aggregated_meta \<Rightarrow> nat" where
  "accountOrderGroup m =
     (if gm_signer m \<and> gm_writable m then 0 else if gm_signer m then 1 else if gm_writable m then 2 else 3)"

definition orderStaticAccountMetas :: "aggregated_meta list \<Rightarrow> aggregated_meta list" where
  "orderStaticAccountMetas metas = sort_key (\<lambda>m. (accountOrderGroup m, gm_first m)) metas"

section \<open>Address lookup tables\<close>

definition table_indexes :: "address_lookup_table \<Rightarrow> (string \<times> nat) list res" where
  "table_indexes table =
     (if 256 < length (lt_addresses table) then throw ''Address lookup table has more than 256 addresses''
      else foldR (\<lambda>(addressIndex, address) indexes.
             if map_of indexes address \<noteq> None then Inr indexes
             else bindR (normalizePublicKey (KeyText address)) (\<lambda>key. Inr (obj_set indexes key addressIndex)))
           (enumerate 0 (lt_addresses table)) [])"

fun find_placement :: "(string \<times> nat) list list \<Rightarrow> nat \<Rightarrow> aggregated_meta \<Rightarrow> lookup_placement option" where
  "find_placement [] tableIndex meta = None"
| "find_placement (indexes # rest) tableIndex meta =
     (case map_of indexes (gm_address meta) of
        Some addressIndex \<Rightarrow>
          Some \<lparr>lp_table = tableIndex, lp_index = addressIndex, lp_writable = gm_writable meta\<rparr>
      | None \<Rightarrow> find_placement rest (tableIndex + 1) meta)"

record placement_state =
  ps_static :: "aggregated_meta list"
  ps_placements :: "(string \<times> lookup_placement) list"
  ps_writable :: "nat list list"
  ps_readonly :: "nat list list"

definition place_meta ::
  "(string \<times> nat) list list \<Rightarrow> nat \<times> aggregated_meta \<Rightarrow> placement_state \<Rightarrow> placement_state res" where
  "place_meta tables entry st =
     (case entry of (metaIndex, meta) \<Rightarrow>
        if gm_signer meta \<or> gm_program meta \<or> metaIndex = 0
        then Inr (st\<lparr>ps_static := ps_static st @ [meta]\<rparr>)
        else
          case find_placement tables 0 meta of
            None \<Rightarrow> Inr (st\<lparr>ps_static := ps_static st @ [meta]\<rparr>)
          | Some p \<Rightarrow>
              let st1 = st\<lparr>ps_placements := obj_set (ps_placements st) (gm_address meta) p\<rparr>;
                  t = lp_table p in
              if lp_writable p then
                if t < length (ps_writable st1)
                then Inr (st1\<lparr>ps_writable := (ps_writable st1)[t := ps_writable st1 ! t @ [lp_index p]]\<rparr>)
                else throw ''Address lookup table placement index is invalid''
              else
                if t < length (ps_readonly st1)
                then Inr (st1\<lparr>ps_readonly := (ps_readonly st1)[t := ps_readonly st1 ! t @ [lp_index p]]\<rparr>)
                else throw ''Address lookup table placement index is invalid'')"

definition loaded_address :: "address_lookup_table \<Rightarrow> nat \<Rightarrow> string res" where
  "loaded_address table addressIndex =
     (if addressIndex < length (lt_addresses table)
      then normalizePublicKey (KeyText (lt_addresses table ! addressIndex))
      else throw ''Lookup table index is invalid'')"

record lookup_compilation =
  lc_static :: "aggregated_meta list"
  lc_writable :: "string list"
  lc_readonly :: "string list"
  lc_placements :: "(string \<times> lookup_placement) list"
  lc_lookups :: "compiled_lookup list"

definition collect_lookup ::
  "placement_state \<Rightarrow> nat \<times> address_lookup_table \<Rightarrow> string list \<times> string list \<times> compiled_lookup list
   \<Rightarrow> (string list \<times> string list \<times> compiled_lookup list) res" where
  "collect_lookup st entry acc =
     (case (entry, acc) of ((tableIndex, table), (writable, readonly, lookups)) \<Rightarrow>
        let writableIndexes = (if tableIndex < length (ps_writable st) then ps_writable st ! tableIndex else []);
            readonlyIndexes = (if tableIndex < length (ps_readonly st) then ps_readonly st ! tableIndex else []) in
        if writableIndexes = [] \<and> readonlyIndexes = [] then Inr (writable, readonly, lookups)
        else
          bindR (mapR (loaded_address table) writableIndexes) (\<lambda>newWritable.
          bindR (mapR (loaded_address table) readonlyIndexes) (\<lambda>newReadonly.
          bindR (normalizePublicKey (KeyText (lt_address table))) (\<lambda>tableAddress.
            Inr (writable @ newWritable, readonly @ newReadonly,
                 lookups @ [\<lparr>cl_table = tableAddress, cl_writable = writableIndexes,
                             cl_readonly = readonlyIndexes\<rparr>])))))"

definition placeAccountsInLookupTables ::
  "aggregated_meta list \<Rightarrow> address_lookup_table list \<Rightarrow> lookup_compilation res" where
  "placeAccountsInLookupTables metas lookupTables =
     bindR (mapR table_indexes lookupTables) (\<lambda>tables.
     bindR (foldR (place_meta tables) (enumerate 0 metas)
              \<lparr>ps_static = [], ps_placements = [], ps_writable = replicate (length lookupTables) [],
               ps_readonly = replicate (length lookupTables) []\<rparr>) (\<lambda>st.
     bindR (foldR (collect_lookup st) (enumerate 0 lookupTables) ([], [], [])) (\<lambda>(writable, readonly, lookups).
       Inr \<lparr>lc_static = ps_static st, lc_writable = writable, lc_readonly = readonly,
            lc_placements = ps_placements st, lc_lookups = lookups\<rparr>)))"

section \<open>Message bytes\<close>

text \<open>The map from addresses to indexes: keys are set in order, later ones overwrite.\<close>

fun set_indexes :: "string list \<Rightarrow> nat \<Rightarrow> (string \<rightharpoonup> nat) \<Rightarrow> (string \<rightharpoonup> nat)" where
  "set_indexes [] n m = m"
| "set_indexes (k # ks) n m = set_indexes ks (n + 1) (m(k \<mapsto> n))"

definition countMatching :: "aggregated_meta list \<Rightarrow> (aggregated_meta \<Rightarrow> bool) \<Rightarrow> nat" where
  "countMatching metas predicate = length (filter predicate metas)"

definition index_of_key :: "(string \<rightharpoonup> nat) \<Rightarrow> string \<Rightarrow> string \<Rightarrow> nat res" where
  "index_of_key indexes msg key =
     bindR (normalizePublicKey (KeyText key)) (\<lambda>address.
       case indexes address of
         None \<Rightarrow> throw msg
       | Some i \<Rightarrow> if 255 < i then throw msg else Inr i)"

definition shortvec :: "'a list \<Rightarrow> bytes res" where
  "shortvec xs = encodeShortVectorLength (int (length xs))"

definition compile_instruction :: "(string \<rightharpoonup> nat) \<Rightarrow> solana_instruction \<Rightarrow> bytes list res" where
  "compile_instruction indexes instruction =
     bindR (index_of_key indexes ''Instruction program address is absent from the static account list''
              (si_program instruction)) (\<lambda>programIndex.
     bindR (shortvec (si_accounts instruction)) (\<lambda>accountCount.
     bindR (mapR (\<lambda>account. index_of_key indexes ''Instruction account is absent from compiled keys''
                    (sm_address account)) (si_accounts instruction)) (\<lambda>accountIndexes.
     bindR (shortvec (si_data instruction)) (\<lambda>dataLength.
       Inr [[word_of_nat programIndex], accountCount, map word_of_nat accountIndexes, dataLength,
            si_data instruction]))))"

definition compile_lookup :: "compiled_lookup \<Rightarrow> bytes list res" where
  "compile_lookup lookup =
     bindR (decodePublicKey (KeyText (cl_table lookup))) (\<lambda>table.
     bindR (shortvec (cl_writable lookup)) (\<lambda>writableCount.
     bindR (shortvec (cl_readonly lookup)) (\<lambda>readonlyCount.
       Inr [table, writableCount, map word_of_nat (cl_writable lookup), readonlyCount,
            map word_of_nat (cl_readonly lookup)])))"

definition compile_lookups :: "message_version \<Rightarrow> compiled_lookup list \<Rightarrow> bytes list res" where
  "compile_lookups version lookups =
     (if version = VersionZero then
        bindR (shortvec lookups) (\<lambda>lookupCount.
        bindR (mapR compile_lookup lookups) (\<lambda>parts. Inr (lookupCount # concat parts)))
      else Inr [])"

definition compileMessageBytes ::
  "message_version \<Rightarrow> solana_instruction list \<Rightarrow> aggregated_meta list \<Rightarrow> string list \<Rightarrow> string list
   \<Rightarrow> compiled_lookup list \<Rightarrow> key_input \<Rightarrow> compiled_message res" where
  "compileMessageBytes version instructions staticMetas writableLoaded readonlyLoaded lookups recentBlockhash =
     (if 256 < length staticMetas then throw ''Compiled message has more than 256 static account keys''
      else
        let requiredSignatures = countMatching staticMetas gm_signer;
            readonlySigned = countMatching staticMetas (\<lambda>m. gm_signer m \<and> \<not> gm_writable m);
            readonlyUnsigned = countMatching staticMetas (\<lambda>m. \<not> gm_signer m \<and> \<not> gm_writable m) in
        if 255 < requiredSignatures \<or> 255 < readonlySigned \<or> 255 < readonlyUnsigned
        then throw ''Compiled message header count exceeds one byte''
        else
          let staticKeys = map gm_address staticMetas;
              accountKeys = staticKeys @ writableLoaded @ readonlyLoaded;
              indexes = set_indexes readonlyLoaded (length staticKeys + length writableLoaded)
                          (set_indexes writableLoaded (length staticKeys) (set_indexes staticKeys 0 Map.empty)) in
          if 256 < length accountKeys then throw ''Compiled message has more than 256 total account keys''
          else
            bindR (shortvec staticKeys) (\<lambda>keyCount.
            bindR (mapR (\<lambda>address. decodePublicKey (KeyText address)) staticKeys) (\<lambda>keyParts.
            bindR (decodePublicKey recentBlockhash) (\<lambda>blockhash.
            bindR (shortvec instructions) (\<lambda>instructionCount.
            bindR (mapR (compile_instruction indexes) instructions) (\<lambda>instructionParts.
            bindR (compile_lookups version lookups) (\<lambda>lookupParts.
              Inr \<lparr>cm_version = version,
                   cm_bytes = concatenateBytes ((if version = VersionZero then [[128]] else []) @
                     [[word_of_nat requiredSignatures, word_of_nat readonlySigned, word_of_nat readonlyUnsigned],
                      keyCount] @ keyParts @ [blockhash, instructionCount] @ concat instructionParts @ lookupParts),
                   cm_account_keys = accountKeys, cm_signers = map gm_address (take requiredSignatures staticMetas),
                   cm_required_signatures = requiredSignatures, cm_readonly_signed = readonlySigned,
                   cm_readonly_unsigned = readonlyUnsigned, cm_lookups = lookups\<rparr>)))))))"

definition compileUnversionedMessage ::
  "solana_instruction list \<Rightarrow> key_input \<Rightarrow> key_input \<Rightarrow> compiled_message res" where
  "compileUnversionedMessage instructions feePayer recentBlockhash =
     bindR (aggregateAccountMetas instructions feePayer) (\<lambda>aggregated.
       compileMessageBytes Unversioned instructions (orderStaticAccountMetas aggregated) [] [] [] recentBlockhash)"

definition compileVersionZeroMessage ::
  "solana_instruction list \<Rightarrow> key_input \<Rightarrow> key_input \<Rightarrow> address_lookup_table list \<Rightarrow> compiled_message res" where
  "compileVersionZeroMessage instructions feePayer recentBlockhash lookupTables =
     (if lookupTables = [] then throw ''Version-zero compilation requires at least one address lookup table''
      else
        bindR (aggregateAccountMetas instructions feePayer) (\<lambda>aggregated.
        bindR (placeAccountsInLookupTables aggregated lookupTables) (\<lambda>lc.
          compileMessageBytes VersionZero instructions (orderStaticAccountMetas (lc_static lc))
            (lc_writable lc) (lc_readonly lc) (lc_lookups lc) recentBlockhash)))"

section \<open>Signing\<close>

record node_crypto =
  nc_spki :: "bytes \<Rightarrow> bytes"
  nc_sign :: "bytes \<Rightarrow> bytes \<Rightarrow> bytes"

definition ED25519_PKCS8_PREFIX :: bytes where
  "ED25519_PKCS8_PREFIX = [48, 46, 2, 1, 0, 48, 5, 6, 3, 43, 101, 112, 4, 34, 4, 32]"

definition privateKeyFromSeed :: "bytes \<Rightarrow> bytes res" where
  "privateKeyFromSeed seed =
     (if length seed \<noteq> 32 then throw ''Ed25519 seed must contain 32 bytes''
      else Inr (concatenateBytes [ED25519_PKCS8_PREFIX, seed]))"

definition publicKeyBytesFromPrivateKey :: "node_crypto \<Rightarrow> bytes \<Rightarrow> bytes res" where
  "publicKeyBytesFromPrivateKey nc privateKey =
     (let bs = nc_spki nc privateKey in
      if length bs < 32 then throw ''Ed25519 public-key export is too short''
      else Inr (drop (length bs - 32) bs))"

definition signMessageWithKeypair :: "node_crypto \<Rightarrow> bytes \<Rightarrow> solana_keypair \<Rightarrow> bytes res" where
  "signMessageWithKeypair nc message keypair =
     bindR (privateKeyFromSeed (kp_seed keypair)) (\<lambda>privateKey.
     bindR (publicKeyBytesFromPrivateKey nc privateKey) (\<lambda>publicKeyBytes.
     bindR (normalizePublicKey (KeyText (kp_public_key keypair))) (\<lambda>declared.
       if encodeBase58 publicKeyBytes \<noteq> declared then throw ''Secret seed does not match public key''
       else Inr (nc_sign nc privateKey message))))"

definition keypairFromSecretKeyBytes :: "node_crypto \<Rightarrow> bytes \<Rightarrow> solana_keypair res" where
  "keypairFromSecretKeyBytes nc secretKeyBytes =
     (if length secretKeyBytes \<noteq> 32 \<and> length secretKeyBytes \<noteq> 64
      then throw ''Solana secret key must contain 32 seed bytes or 64 keypair bytes''
      else
        let seed = take 32 secretKeyBytes in
        bindR (privateKeyFromSeed seed) (\<lambda>privateKey.
        bindR (publicKeyBytesFromPrivateKey nc privateKey) (\<lambda>publicKeyBytes.
          if length secretKeyBytes = 64
             \<and> list_ex (\<lambda>i. secretKeyBytes ! (32 + i) \<noteq> publicKeyBytes ! i) [0..<32]
          then throw ''Solana keypair public-key suffix does not match its secret seed''
          else Inr \<lparr>kp_public_key = encodeBase58 publicKeyBytes, kp_seed = seed\<rparr>)))"

text \<open>\<open>loadSolanaKeypairFile\<close> after \<open>JSON.parse\<close>.\<close>

definition keypairFromJson :: "node_crypto \<Rightarrow> js \<Rightarrow> solana_keypair res" where
  "keypairFromJson nc parsed =
     (case parsed of
        JArr xs \<Rightarrow> bindR (mapR byteFromNumber xs) (\<lambda>keyBytes. keypairFromSecretKeyBytes nc keyBytes)
      | _ \<Rightarrow> throw ''Keypair file must contain a JSON byte array'')"

definition parseAddressLookupTableAccount :: "key_input \<Rightarrow> bytes \<Rightarrow> address_lookup_table res" where
  "parseAddressLookupTableAccount tableAddress accountData =
     (if length accountData < 56 \<or> (length accountData - 56) mod 32 \<noteq> 0
      then throw ''Address lookup table account has an invalid byte length''
      else if decodeUnsignedInteger (take 4 accountData) \<noteq> 1
      then throw ''Address lookup table account is not initialized''
      else
        bindR (normalizePublicKey tableAddress) (\<lambda>address.
          Inr \<lparr>lt_address = address, lt_addresses = map encodeBase58 (chunks 32 (drop 56 accountData))\<rparr>))"

definition serializeTransaction :: "bytes \<Rightarrow> bytes list \<Rightarrow> bytes res" where
  "serializeTransaction messageBytes signatures =
     bindR (shortvec signatures) (\<lambda>count.
       if list_ex (\<lambda>signature. length signature \<noteq> 64) signatures
       then throw ''Transaction signature must contain 64 bytes''
       else Inr (concatenateBytes (count # signatures @ [messageBytes])))"

definition createUnsignedTransaction :: "compiled_message \<Rightarrow> bytes res" where
  "createUnsignedTransaction message =
     serializeTransaction (cm_bytes message) (replicate (cm_required_signatures message) (replicate 64 0))"

definition index_keypairs :: "solana_keypair list \<Rightarrow> (string \<rightharpoonup> solana_keypair) res" where
  "index_keypairs keypairs =
     foldR (\<lambda>keypair m. bindR (normalizePublicKey (KeyText (kp_public_key keypair))) (\<lambda>key.
        Inr (m(key \<mapsto> keypair)))) keypairs Map.empty"

definition sign_for :: "node_crypto \<Rightarrow> bytes \<Rightarrow> (string \<rightharpoonup> solana_keypair) \<Rightarrow> string \<Rightarrow> bytes res" where
  "sign_for nc message keypairByPublicKey signerAddress =
     (case keypairByPublicKey signerAddress of
        None \<Rightarrow> throw ''Missing keypair for required signer''
      | Some keypair \<Rightarrow> signMessageWithKeypair nc message keypair)"

abbreviation (input) "MAX_TRANSACTION_BYTES \<equiv> 1232 :: nat"

definition signSolanaTransaction ::
  "node_crypto \<Rightarrow> compiled_message \<Rightarrow> solana_keypair list \<Rightarrow> signed_transaction res" where
  "signSolanaTransaction nc message keypairs =
     bindR (index_keypairs keypairs) (\<lambda>keypairByPublicKey.
     bindR (mapR (sign_for nc (cm_bytes message) keypairByPublicKey) (cm_signers message)) (\<lambda>signatureBytes.
     bindR (serializeTransaction (cm_bytes message) signatureBytes) (\<lambda>bs.
       if MAX_TRANSACTION_BYTES < length bs then throw ''Serialized transaction exceeds the packet limit''
       else
         case signatureBytes of
           [] \<Rightarrow> throw ''Transaction has no required signatures''
         | firstSignature # _ \<Rightarrow>
             Inr \<lparr>st_bytes = bs, st_message = message,
                  st_signatures = fold (\<lambda>(k, v) r. obj_set r k v) (zip (cm_signers message) signatureBytes) [],
                  st_primary = encodeBase58 firstSignature\<rparr>)))"

section \<open>Short vectors\<close>

text \<open>The value of a short vector: base 128 with a continuation bit on every byte but the last.\<close>

fun short_vector_value :: "bytes \<Rightarrow> nat" where
  "short_vector_value [] = 0"
| "short_vector_value (b # bs) = unat (and b 127) + 128 * short_vector_value bs"

definition short_vector_shape :: "bytes \<Rightarrow> bool" where
  "short_vector_shape bs \<longleftrightarrow> bs \<noteq> [] \<and> list_all (\<lambda>b. bit b 7) (butlast bs) \<and> \<not> bit (last bs) 7"

lemma byte_low_bits: "n < 128 \<Longrightarrow> and (word_of_nat n :: byte) 127 = word_of_nat n"
proof -
  assume n: "n < 128"
  have "and (word_of_nat n :: byte) (mask 7) = take_bit 7 (word_of_nat n)" by (simp add: take_bit_eq_mask)
  also have "\<dots> = word_of_nat n"
    using n by (intro unsigned_word_eqI [where ?'a = nat]) (simp add: unsigned_take_bit_eq unat_of_nat take_bit_nat_eq_self)
  finally show ?thesis by (simp add: mask_eq_exp_minus_1)
qed

lemma byte_high_bit: "n < 128 \<Longrightarrow> \<not> bit (word_of_nat n :: byte) 7"
proof
  assume n: "n < 128" and "bit (word_of_nat n :: byte) 7"
  then have "bit (and (word_of_nat n :: byte) 127) 7" by (simp only: byte_low_bits)
  then show False by (simp add: bit_and_iff bit_numeral_rec)
qed

lemma byte_continuation:
  assumes "n < 128"
  shows "and (or (word_of_nat n :: byte) 128) 127 = word_of_nat n" "bit (or (word_of_nat n :: byte) 128) 7"
proof -
  have "and (128 :: byte) 127 = 0" by simp
  then show "and (or (word_of_nat n :: byte) 128) 127 = word_of_nat n"
    using assms by (simp add: and.commute [of _ 127] bit.conj_disj_distrib byte_low_bits)
      (metis and.commute byte_low_bits)
  show "bit (or (word_of_nat n :: byte) 128) 7" by (simp add: bit_or_iff bit_numeral_rec)
qed

lemma short_vector_bytes_correct:
  "short_vector_value (short_vector_bytes n) = n \<and> short_vector_shape (short_vector_bytes n)"
proof (induction n rule: short_vector_bytes.induct)
  case (1 n)
  have m: "n mod 128 < 128" by simp
  have u: "unat (word_of_nat (n mod 128) :: byte) = n mod 128"
    using m by (simp add: unat_of_nat)
  show ?case
  proof (cases "0 < n div 128")
    case True
    then show ?thesis using 1 u byte_continuation [OF m]
      by (subst (1 2) short_vector_bytes.simps) (simp add: short_vector_shape_def)
  next
    case False
    then show ?thesis using u byte_low_bits [OF m] byte_high_bit [OF m]
      by (subst (1 2) short_vector_bytes.simps) (simp add: short_vector_shape_def)
  qed
qed

section \<open>Indexes\<close>

lemma set_indexes_Some:
  "set_indexes ks n m a = Some i \<Longrightarrow> (n \<le> i \<and> i < n + length ks \<and> ks ! (i - n) = a) \<or> m a = Some i"
proof (induction ks arbitrary: n m)
  case (Cons k ks)
  then show ?case by (fastforce simp: nth_Cons' split: if_splits)
qed simp

lemma set_indexes_append: "set_indexes (xs @ ys) n m = set_indexes ys (n + length xs) (set_indexes xs n m)"
  by (induction xs arbitrary: n m) simp_all

lemma set_indexes_keys: "set_indexes keys 0 Map.empty a = Some i \<Longrightarrow> i < length keys \<and> keys ! i = a"
  using set_indexes_Some [of keys 0 Map.empty a i] by simp

text \<open>One instruction in the message: its indexes name the program and the accounts.\<close>

definition instruction_layout :: "string list \<Rightarrow> solana_instruction \<Rightarrow> bytes \<Rightarrow> bool" where
  "instruction_layout keys ins bs \<longleftrightarrow>
     (\<exists>p indexes. bs = [p] @ short_vector_bytes (length (si_accounts ins)) @ indexes @
         short_vector_bytes (length (si_data ins)) @ si_data ins \<and>
       unat p < length keys \<and> keys ! unat p = si_program ins \<and>
       list_all2 (\<lambda>account b. unat b < length keys \<and> keys ! unat b = sm_address account) (si_accounts ins) indexes)"

lemma shortvec_Inr: "shortvec xs = Inr bs \<Longrightarrow> bs = short_vector_bytes (length xs)"
  by (auto simp: shortvec_def encodeShortVectorLength_def split: if_splits)

lemma index_of_key_Inr:
  assumes "index_of_key (set_indexes keys 0 Map.empty) msg key = Inr i"
  shows "i < length keys \<and> keys ! i = key \<and> i < 256"
  using assms set_indexes_keys [of keys key i] by (auto simp: index_of_key_def split: option.splits if_splits)

lemma compile_instruction_layout:
  assumes "compile_instruction (set_indexes keys 0 Map.empty) ins = Inr parts"
  shows "instruction_layout keys ins (concat parts)"
proof -
  obtain p n idx d where *: "index_of_key (set_indexes keys 0 Map.empty)
      ''Instruction program address is absent from the static account list'' (si_program ins) = Inr p"
    "shortvec (si_accounts ins) = Inr n"
    "mapR (\<lambda>account. index_of_key (set_indexes keys 0 Map.empty)
      ''Instruction account is absent from compiled keys'' (sm_address account)) (si_accounts ins) = Inr idx"
    "shortvec (si_data ins) = Inr d"
    "parts = [[word_of_nat p], n, map word_of_nat idx, d, si_data ins]"
    using assms by (auto simp: compile_instruction_def)
  have u: "unat (word_of_nat i :: byte) = i" if "i < 256" for i using that by (simp add: unat_of_nat)
  have "list_all2 (\<lambda>account i. i < length keys \<and> keys ! i = sm_address account \<and> i < 256) (si_accounts ins) idx"
    using *(3) unfolding mapR_eq_Inr_iff by (rule list_all2_mono) (use index_of_key_Inr in blast)
  then have "list_all2 (\<lambda>account b. unat b < length keys \<and> keys ! unat b = sm_address account)
      (si_accounts ins) (map (word_of_nat :: nat \<Rightarrow> byte) idx)"
    unfolding list_all2_map2 by (rule list_all2_mono) (simp add: u)
  moreover have "p < length keys \<and> keys ! p = si_program ins \<and> p < 256" using index_of_key_Inr [OF *(1)] .
  moreover have "n = short_vector_bytes (length (si_accounts ins))" "d = short_vector_bytes (length (si_data ins))"
    using shortvec_Inr [OF *(2)] shortvec_Inr [OF *(4)] by simp_all
  ultimately show ?thesis unfolding instruction_layout_def *(5)
    by (intro exI [of _ "word_of_nat p"] exI [of _ "map word_of_nat idx"]) (simp add: u)
qed

section \<open>Aggregation\<close>

text \<open>What the instructions ask for an address.\<close>

definition asks_signer :: "solana_instruction list \<Rightarrow> string \<Rightarrow> bool" where
  "asks_signer instructions address \<longleftrightarrow>
     list_ex (\<lambda>i. list_ex (\<lambda>a. sm_address a = address \<and> sm_signer a) (si_accounts i)) instructions"

definition asks_writable :: "solana_instruction list \<Rightarrow> string \<Rightarrow> bool" where
  "asks_writable instructions address \<longleftrightarrow>
     list_ex (\<lambda>i. list_ex (\<lambda>a. sm_address a = address \<and> sm_writable a) (si_accounts i)) instructions"

definition mentions :: "solana_instruction list \<Rightarrow> string \<Rightarrow> bool" where
  "mentions instructions address \<longleftrightarrow>
     list_ex (\<lambda>i. si_program i = address \<or> list_ex (\<lambda>a. sm_address a = address) (si_accounts i)) instructions"

definition runs :: "solana_instruction list \<Rightarrow> string \<Rightarrow> bool" where
  "runs instructions address \<longleftrightarrow> list_ex (\<lambda>i. si_program i = address) instructions"

text \<open>
  The table of metas describes four predicates: the addresses present and the three flags. Each entry is
  stored under its address, only the fee payer was seen first, and keys are different.
\<close>

definition metas_inv ::
  "string \<Rightarrow> (string \<Rightarrow> bool) \<Rightarrow> (string \<Rightarrow> bool) \<Rightarrow> (string \<Rightarrow> bool) \<Rightarrow> (string \<Rightarrow> bool) \<Rightarrow> merge_state \<Rightarrow> bool" where
  "metas_inv payer present signer writable program st \<longleftrightarrow>
     (case st of (metas, n) \<Rightarrow> 0 < n \<and> distinct (map fst metas) \<and>
        (\<forall>k. (map_of metas k \<noteq> None) = present k) \<and>
        (\<forall>k m. map_of metas k = Some m \<longrightarrow> gm_address m = k \<and> is_key k \<and> gm_signer m = signer k \<and>
           gm_writable m = writable k \<and> gm_program m = program k \<and> (gm_first m = 0 \<longleftrightarrow> k = payer)) \<and>
        (\<forall>k. signer k \<or> writable k \<or> program k \<longrightarrow> present k) \<and>
        metas \<noteq> [] \<and> fst (hd metas) = payer)"

lemma obj_set_hd: "ob \<noteq> [] \<Longrightarrow> obj_set ob k v \<noteq> [] \<and> fst (hd (obj_set ob k v)) = fst (hd ob)"
  by (cases ob) (auto split: if_splits)

lemma merge_inv:
  assumes inv: "metas_inv payer P S W R (metas, n)" and k: "is_key a"
  shows "metas_inv payer (\<lambda>k. P k \<or> k = a) (\<lambda>k. S k \<or> k = a \<and> s) (\<lambda>k. W k \<or> k = a \<and> w)
    (\<lambda>k. R k \<or> k = a \<and> r) (mergeAccountMeta metas a s w r n, n + 1)"
proof -
  have n: "0 < n" and d: "distinct (map fst metas)" and ne: "metas \<noteq> []" and hd: "fst (hd metas) = payer"
    and present: "\<And>k. (map_of metas k \<noteq> None) = P k"
    and entry: "\<And>k m. map_of metas k = Some m \<Longrightarrow> gm_address m = k \<and> is_key k \<and> gm_signer m = S k \<and>
       gm_writable m = W k \<and> gm_program m = R k \<and> (gm_first m = 0 \<longleftrightarrow> k = payer)"
    and sub: "\<And>k. S k \<or> W k \<or> R k \<Longrightarrow> P k"
    using inv unfolding metas_inv_def prod.case by blast+
  obtain v where v: "mergeAccountMeta metas a s w r n = obj_set metas a v"
    "gm_address v = a" "gm_signer v = (S a \<or> s)" "gm_writable v = (W a \<or> w)" "gm_program v = (R a \<or> r)"
    "gm_first v = 0 \<longleftrightarrow> a = payer"
  proof (cases "map_of metas a")
    case None
    then have "\<not> P a" using present [of a] by simp
    then have "\<not> S a" "\<not> W a" "\<not> R a" using sub by auto
    moreover have "a \<noteq> payer"
    proof
      assume "a = payer"
      with ne hd have "a \<in> set (map fst metas)" by (cases metas) auto
      with None show False by (simp add: map_of_eq_None_iff)
    qed
    ultimately show ?thesis using None n
      by (intro that [of "\<lparr>gm_address = a, gm_first = n, gm_signer = s, gm_writable = w, gm_program = r\<rparr>"])
         (simp_all add: mergeAccountMeta_def)
  next
    case (Some m)
    with entry [OF this] show ?thesis
      by (intro that [of "m\<lparr>gm_signer := gm_signer m \<or> s, gm_writable := gm_writable m \<or> w,
            gm_program := gm_program m \<or> r\<rparr>"]) (simp_all add: mergeAccountMeta_def)
  qed
  show ?thesis
    unfolding metas_inv_def prod.case v(1) map_of_obj_set
    using d ne hd obj_set_hd [OF ne] k n present entry sub v(2-) by (auto intro: distinct_obj_set simp: fun_upd_apply simp del: map_of_eq_Some_iff split: if_splits)
qed

lemma metas_inv_cong:
  "metas_inv payer P S W R st \<Longrightarrow> P = P' \<Longrightarrow> S = S' \<Longrightarrow> W = W' \<Longrightarrow> R = R' \<Longrightarrow> metas_inv payer P' S' W' R' st"
  by simp

lemma merge_accounts_inv:
  "foldR merge_account accounts st = Inr st' \<Longrightarrow> metas_inv payer P S W R st \<Longrightarrow>
   metas_inv payer (\<lambda>k. P k \<or> list_ex (\<lambda>a. sm_address a = k) accounts)
     (\<lambda>k. S k \<or> list_ex (\<lambda>a. sm_address a = k \<and> sm_signer a) accounts)
     (\<lambda>k. W k \<or> list_ex (\<lambda>a. sm_address a = k \<and> sm_writable a) accounts) R st'"
proof (induction accounts arbitrary: st P S W)
  case (Cons a accounts)
  obtain metas n where st: "st = (metas, n)" by (cases st)
  with Cons.prems obtain st1 where "merge_account a st = Inr st1" "foldR merge_account accounts st1 = Inr st'"
    by auto
  moreover from this st have k: "is_key (sm_address a)"
    and st1: "st1 = (mergeAccountMeta metas (sm_address a) (sm_signer a) (sm_writable a) False n, n + 1)"
    by (auto simp: merge_account_def)
  moreover have "metas_inv payer (\<lambda>k. P k \<or> k = sm_address a) (\<lambda>k. S k \<or> k = sm_address a \<and> sm_signer a)
      (\<lambda>k. W k \<or> k = sm_address a \<and> sm_writable a) R st1"
    using merge_inv [OF Cons.prems(2) [unfolded st] k, of "sm_signer a" "sm_writable a" False] st1 by simp
  ultimately have "metas_inv payer
      (\<lambda>k. (P k \<or> k = sm_address a) \<or> list_ex (\<lambda>a. sm_address a = k) accounts)
      (\<lambda>k. (S k \<or> k = sm_address a \<and> sm_signer a) \<or> list_ex (\<lambda>a. sm_address a = k \<and> sm_signer a) accounts)
      (\<lambda>k. (W k \<or> k = sm_address a \<and> sm_writable a) \<or> list_ex (\<lambda>a. sm_address a = k \<and> sm_writable a) accounts) R st'"
    using Cons.IH by blast
  then show ?case by (rule metas_inv_cong) (auto simp: fun_eq_iff)
qed simp

lemma merge_instruction_inv:
  assumes "merge_instruction i st = Inr st'" "metas_inv payer P S W R st"
  shows "metas_inv payer (\<lambda>k. P k \<or> mentions [i] k) (\<lambda>k. S k \<or> asks_signer [i] k) (\<lambda>k. W k \<or> asks_writable [i] k)
    (\<lambda>k. R k \<or> runs [i] k) st'"
proof -
  obtain metas n where *: "foldR merge_account (si_accounts i) st = Inr (metas, n)" "is_key (si_program i)"
    "st' = (mergeAccountMeta metas (si_program i) False False True n, n + 1)"
    using assms(1) by (auto simp: merge_instruction_def)
  from merge_inv [OF merge_accounts_inv [OF *(1) assms(2)] *(2), of False False True] show ?thesis
    unfolding *(3)
    by (rule metas_inv_cong) (auto simp: fun_eq_iff mentions_def asks_signer_def asks_writable_def runs_def)
qed

lemma merge_instructions_inv:
  "foldR merge_instruction instructions st = Inr st' \<Longrightarrow> metas_inv payer P S W R st \<Longrightarrow>
   metas_inv payer (\<lambda>k. P k \<or> mentions instructions k) (\<lambda>k. S k \<or> asks_signer instructions k)
     (\<lambda>k. W k \<or> asks_writable instructions k) (\<lambda>k. R k \<or> runs instructions k) st'"
proof (induction instructions arbitrary: st P S W R)
  case Nil
  then show ?case by (simp add: mentions_def asks_signer_def asks_writable_def runs_def)
next
  case (Cons i instructions)
  then obtain st1 where st1: "merge_instruction i st = Inr st1" "foldR merge_instruction instructions st1 = Inr st'"
    by auto
  from Cons.IH [OF st1(2) merge_instruction_inv [OF st1(1) Cons.prems(2)]] show ?case
    by (rule metas_inv_cong) (auto simp: fun_eq_iff mentions_def asks_signer_def asks_writable_def runs_def)
qed

text \<open>An aggregated list: addresses differ, each meta carries exactly what was asked.\<close>

definition aggregated_ok :: "string \<Rightarrow> solana_instruction list \<Rightarrow> aggregated_meta list \<Rightarrow> bool" where
  "aggregated_ok payer instructions metas \<longleftrightarrow>
     distinct (map gm_address metas) \<and>
     gm_address ` set metas = {k. k = payer \<or> mentions instructions k} \<and>
     (\<forall>m \<in> set metas. is_key (gm_address m) \<and>
        gm_signer m = (gm_address m = payer \<or> asks_signer instructions (gm_address m)) \<and>
        gm_writable m = (gm_address m = payer \<or> asks_writable instructions (gm_address m)) \<and>
        gm_program m = runs instructions (gm_address m) \<and>
        (gm_first m = 0 \<longleftrightarrow> gm_address m = payer))"

lemma aggregateAccountMetas_ok:
  assumes "aggregateAccountMetas instructions payerInput = Inr metas"
  shows "\<exists>payer. normalizePublicKey payerInput = Inr payer \<and> aggregated_ok payer instructions metas \<and>
    metas \<noteq> [] \<and> gm_address (hd metas) = payer"
proof -
  obtain payer table n where *: "normalizePublicKey payerInput = Inr payer"
    "foldR merge_instruction instructions ([(payer, \<lparr>gm_address = payer, gm_first = 0, gm_signer = True,
       gm_writable = True, gm_program = False\<rparr>)], 1) = Inr (table, n)" "metas = map snd table"
    using assms by (auto simp: aggregateAccountMetas_def)
  have "is_key payer" using *(1) by (rule normalizePublicKey_is_key)
  then have "metas_inv payer (\<lambda>k. k = payer) (\<lambda>k. k = payer) (\<lambda>k. k = payer) (\<lambda>k. False)
      ([(payer, \<lparr>gm_address = payer, gm_first = 0, gm_signer = True, gm_writable = True, gm_program = False\<rparr>)], 1)"
    by (auto simp: metas_inv_def)
  from merge_instructions_inv [OF *(2) this] have
    d: "distinct (map fst table)" and ne: "table \<noteq> []" and hd: "fst (hd table) = payer" and
    present: "\<And>k. (map_of table k \<noteq> None) = (k = payer \<or> mentions instructions k)" and
    entry: "\<And>k m. map_of table k = Some m \<Longrightarrow> gm_address m = k \<and> is_key k \<and>
       gm_signer m = (k = payer \<or> asks_signer instructions k) \<and>
       gm_writable m = (k = payer \<or> asks_writable instructions k) \<and>
       gm_program m = (False \<or> runs instructions k) \<and> (gm_first m = 0 \<longleftrightarrow> k = payer)"
    unfolding metas_inv_def prod.case by blast+
  have entries: "gm_address m = k" if "(k, m) \<in> set table" for k m
    using entry [of k m] map_of_is_SomeI [OF d that] by blast
  then have keys: "map gm_address metas = map fst table" by (auto simp: *(3))
  have "gm_address ` set metas = set (map fst table)" unfolding keys [symmetric] by simp
  also have "\<dots> = {k. k = payer \<or> mentions instructions k}"
    using present by (auto simp: map_of_eq_None_iff)
  finally have "gm_address ` set metas = {k. k = payer \<or> mentions instructions k}" .
  moreover have "map_of table (gm_address m) = Some m" if m: "m \<in> set metas" for m
  proof -
    from m obtain k where "(k, m) \<in> set table" by (auto simp: *(3))
    with entries d show ?thesis by (auto intro: map_of_is_SomeI)
  qed
  ultimately have "aggregated_ok payer instructions metas"
    using entry d unfolding aggregated_ok_def keys by blast
  moreover have "metas \<noteq> [] \<and> gm_address (hd metas) = payer"
    using ne hd keys by (cases table) (auto simp: *(3))
  ultimately show ?thesis using *(1) by blast
qed

section \<open>Order\<close>

lemma sorted_prefix:
  "sorted (map f xs) \<Longrightarrow> i < length xs \<Longrightarrow> i < length (filter (\<lambda>x. f x \<le> (t :: nat)) xs) \<longleftrightarrow> f (xs ! i) \<le> t"
proof (induction xs arbitrary: i)
  case (Cons x xs)
  show ?case
  proof (cases "f x \<le> t")
    case True
    then show ?thesis using Cons by (cases i) auto
  next
    case False
    then have "\<forall>y \<in> set xs. \<not> f y \<le> t" using Cons.prems(1) by fastforce
    then have "filter (\<lambda>x. f x \<le> t) xs = []" by (simp add: filter_empty_conv)
    moreover have "\<not> f ((x # xs) ! i) \<le> t"
      using False Cons.prems \<open>\<forall>y \<in> set xs. \<not> f y \<le> t\<close> by (cases i) auto
    ultimately show ?thesis using False by simp
  qed
qed simp

lemma accountOrderGroup_le:
  "accountOrderGroup m \<le> 0 \<longleftrightarrow> gm_signer m \<and> gm_writable m"
  "accountOrderGroup m \<le> 1 \<longleftrightarrow> gm_signer m"
  "accountOrderGroup m \<le> 2 \<longleftrightarrow> gm_signer m \<or> gm_writable m"
  by (auto simp: accountOrderGroup_def)

lemma orderStatic_sorted: "sorted (map accountOrderGroup (orderStaticAccountMetas metas))"
proof -
  have "sorted (map (\<lambda>m. (accountOrderGroup m, gm_first m)) (orderStaticAccountMetas metas))"
    by (simp add: orderStaticAccountMetas_def)
  then show ?thesis unfolding sorted_map by (rule sorted_wrt_mono_rel [rotated]) (auto simp: less_eq_prod_def)
qed

lemma count_split: "countMatching metas p = countMatching metas (\<lambda>m. p m \<and> q m) + countMatching metas (\<lambda>m. p m \<and> \<not> q m)"
  by (induction metas) (auto simp: countMatching_def)

lemma count_not: "countMatching metas p + countMatching metas (\<lambda>m. \<not> p m) = length metas"
  using sum_length_filter_compl [of p metas] by (simp add: countMatching_def)

text \<open>What a runtime concludes from the header counts about the account at an index.\<close>

definition header_signer :: "compiled_message \<Rightarrow> nat \<Rightarrow> bool" where
  "header_signer msg i \<longleftrightarrow> i < cm_required_signatures msg"

definition header_writable :: "compiled_message \<Rightarrow> nat \<Rightarrow> nat \<Rightarrow> bool" where
  "header_writable msg staticCount i \<longleftrightarrow>
     (if i < cm_required_signatures msg then i < cm_required_signatures msg - cm_readonly_signed msg
      else i < staticCount - cm_readonly_unsigned msg)"

lemma header_roles:
  assumes metas: "metas = orderStaticAccountMetas xs" and i: "i < length metas"
    and h: "cm_required_signatures msg = countMatching metas gm_signer"
      "cm_readonly_signed msg = countMatching metas (\<lambda>m. gm_signer m \<and> \<not> gm_writable m)"
      "cm_readonly_unsigned msg = countMatching metas (\<lambda>m. \<not> gm_signer m \<and> \<not> gm_writable m)"
  shows "header_signer msg i = gm_signer (metas ! i)" "header_writable msg (length metas) i = gm_writable (metas ! i)"
proof -
  have prefix: "i < countMatching metas (\<lambda>m. accountOrderGroup m \<le> t) \<longleftrightarrow> accountOrderGroup (metas ! i) \<le> t" for t
    using sorted_prefix [OF _ i, of accountOrderGroup t] orderStatic_sorted [of xs]
    by (simp add: countMatching_def metas)
  have g: "i < countMatching metas gm_signer \<longleftrightarrow> gm_signer (metas ! i)"
    "i < countMatching metas (\<lambda>m. gm_signer m \<and> gm_writable m) \<longleftrightarrow> gm_signer (metas ! i) \<and> gm_writable (metas ! i)"
    "i < countMatching metas (\<lambda>m. gm_signer m \<or> gm_writable m) \<longleftrightarrow> gm_signer (metas ! i) \<or> gm_writable (metas ! i)"
    using prefix [of 1] prefix [of 0] prefix [of 2] by (simp_all only: accountOrderGroup_le)
  have c: "countMatching metas gm_signer - countMatching metas (\<lambda>m. gm_signer m \<and> \<not> gm_writable m)
      = countMatching metas (\<lambda>m. gm_signer m \<and> gm_writable m)"
    "length metas - countMatching metas (\<lambda>m. \<not> gm_signer m \<and> \<not> gm_writable m)
      = countMatching metas (\<lambda>m. gm_signer m \<or> gm_writable m)"
    using count_split [of metas gm_signer gm_writable]
      count_not [of metas "\<lambda>m. gm_signer m \<or> gm_writable m"] by simp_all
  show "header_signer msg i = gm_signer (metas ! i)" using g h by (simp add: header_signer_def)
  show "header_writable msg (length metas) i = gm_writable (metas ! i)"
    using g h c by (auto simp: header_writable_def)
qed

section \<open>The bytes of a message\<close>

lemma concat_concat: "concat (concat xsss) = concat (map concat xsss)"
  by (induction xsss) simp_all

definition message_layout ::
  "message_version \<Rightarrow> solana_instruction list \<Rightarrow> nat \<Rightarrow> key_input \<Rightarrow> compiled_message \<Rightarrow> bytes \<Rightarrow> bool" where
  "message_layout version instructions staticCount blockhash msg tail \<longleftrightarrow>
     (\<exists>keyParts hash bodies.
        cm_bytes msg = (if version = VersionZero then [128] else []) @
          [word_of_nat (cm_required_signatures msg), word_of_nat (cm_readonly_signed msg),
           word_of_nat (cm_readonly_unsigned msg)] @
          short_vector_bytes staticCount @ concat keyParts @ hash @
          short_vector_bytes (length instructions) @ concat bodies @ tail \<and>
        list_all2 (\<lambda>key part. decodePublicKey (KeyText key) = Inr part)
          (take staticCount (cm_account_keys msg)) keyParts \<and>
        decodePublicKey blockhash = Inr hash \<and>
        list_all2 (instruction_layout (cm_account_keys msg)) instructions bodies)"

lemma compileMessageBytes_layout:
  assumes "compileMessageBytes version instructions metas writable readonly lookups blockhash = Inr msg"
  shows "cm_account_keys msg = map gm_address metas @ writable @ readonly \<and>
    length (cm_account_keys msg) \<le> 256 \<and>
    cm_signers msg = map gm_address (take (cm_required_signatures msg) metas) \<and>
    cm_required_signatures msg = countMatching metas gm_signer \<and>
    cm_readonly_signed msg = countMatching metas (\<lambda>m. gm_signer m \<and> \<not> gm_writable m) \<and>
    cm_readonly_unsigned msg = countMatching metas (\<lambda>m. \<not> gm_signer m \<and> \<not> gm_writable m) \<and>
    cm_required_signatures msg \<le> 255 \<and> cm_readonly_signed msg \<le> 255 \<and> cm_readonly_unsigned msg \<le> 255 \<and>
    cm_lookups msg = lookups \<and> cm_version msg = version \<and>
    (\<exists>parts. compile_lookups version lookups = Inr parts \<and>
       message_layout version instructions (length metas) blockhash msg (concat parts))"
proof -
  define keys where "keys = map gm_address metas @ writable @ readonly"
  have idx: "set_indexes readonly (length (map gm_address metas) + length writable)
      (set_indexes writable (length (map gm_address metas)) (set_indexes (map gm_address metas) 0 Map.empty))
      = set_indexes keys 0 Map.empty"
    by (simp add: keys_def set_indexes_append)
  obtain count keyParts hash n bodies parts where *:
    "shortvec (map gm_address metas) = Inr count"
    "mapR (\<lambda>address. decodePublicKey (KeyText address)) (map gm_address metas) = Inr keyParts"
    "decodePublicKey blockhash = Inr hash" "shortvec instructions = Inr n"
    "mapR (compile_instruction (set_indexes keys 0 Map.empty)) instructions = Inr bodies"
    "compile_lookups version lookups = Inr parts" "length keys \<le> 256" "countMatching metas gm_signer \<le> 255"
    "countMatching metas (\<lambda>m. gm_signer m \<and> \<not> gm_writable m) \<le> 255"
    "countMatching metas (\<lambda>m. \<not> gm_signer m \<and> \<not> gm_writable m) \<le> 255"
    and msg: "msg = \<lparr>cm_version = version,
       cm_bytes = concatenateBytes ((if version = VersionZero then [[128]] else []) @
         [[word_of_nat (countMatching metas gm_signer),
           word_of_nat (countMatching metas (\<lambda>m. gm_signer m \<and> \<not> gm_writable m)),
           word_of_nat (countMatching metas (\<lambda>m. \<not> gm_signer m \<and> \<not> gm_writable m))],
          count] @ keyParts @ [hash, n] @ concat bodies @ parts),
       cm_account_keys = keys,
       cm_signers = map gm_address (take (countMatching metas gm_signer) metas),
       cm_required_signatures = countMatching metas gm_signer,
       cm_readonly_signed = countMatching metas (\<lambda>m. gm_signer m \<and> \<not> gm_writable m),
       cm_readonly_unsigned = countMatching metas (\<lambda>m. \<not> gm_signer m \<and> \<not> gm_writable m), cm_lookups = lookups\<rparr>"
    using assms unfolding compileMessageBytes_def Let_def idx keys_def [symmetric]
    by (auto split: if_splits)
  have ks: "list_all2 (\<lambda>key part. decodePublicKey (KeyText key) = Inr part) (take (length metas) keys) keyParts"
    using *(2) by (simp add: mapR_eq_Inr_iff keys_def)
  have "list_all2 (\<lambda>ins parts. compile_instruction (set_indexes keys 0 Map.empty) ins = Inr parts) instructions bodies"
    using *(5) by (simp only: mapR_eq_Inr_iff)
  then have bs: "list_all2 (instruction_layout keys) instructions (map concat bodies)"
    unfolding list_all2_map2 by (rule list_all2_mono) (rule compile_instruction_layout)
  have "count = short_vector_bytes (length metas)" "n = short_vector_bytes (length instructions)"
    using shortvec_Inr [OF *(1)] shortvec_Inr [OF *(4)] by simp_all
  then have bytes: "cm_bytes msg = (if version = VersionZero then [128] else []) @
      [word_of_nat (cm_required_signatures msg), word_of_nat (cm_readonly_signed msg),
       word_of_nat (cm_readonly_unsigned msg)] @
      short_vector_bytes (length metas) @ concat keyParts @ hash @
      short_vector_bytes (length instructions) @ concat (map concat bodies) @ concat parts"
    by (simp add: msg concat_concat)
  have "message_layout version instructions (length metas) blockhash msg (concat parts)"
    unfolding message_layout_def
    by (rule exI [of _ keyParts], rule exI [of _ hash], rule exI [of _ "map concat bodies"])
       (use *(3) ks bs bytes in \<open>simp add: msg\<close>)
  with * show ?thesis by (simp add: msg keys_def)
qed

section \<open>Signatures\<close>

definition signature_ok :: "node_crypto \<Rightarrow> compiled_message \<Rightarrow> solana_keypair list \<Rightarrow> string \<Rightarrow> bytes \<Rightarrow> bool" where
  "signature_ok nc msg keypairs signer signature \<longleftrightarrow>
     length signature = 64 \<and>
     (\<exists>kp \<in> set keypairs. kp_public_key kp = signer \<and> length (kp_seed kp) = 32 \<and>
        signature = nc_sign nc (ED25519_PKCS8_PREFIX @ kp_seed kp) (cm_bytes msg) \<and>
        publicKeyBytesFromPrivateKey nc (ED25519_PKCS8_PREFIX @ kp_seed kp) = decodePublicKey (KeyText signer))"

lemma index_keypairs_Some:
  assumes "index_keypairs keypairs = Inr m" "m key = Some kp"
  shows "kp \<in> set keypairs \<and> kp_public_key kp = key \<and> is_key key"
proof -
  have "\<forall>key kp. m key = Some kp \<longrightarrow> kp \<in> set keypairs \<and> kp_public_key kp = key \<and> is_key key"
    using assms(1) unfolding index_keypairs_def
    by (rule foldR_invariant) (auto split: if_splits)
  with assms(2) show ?thesis by blast
qed

lemma serializeTransaction_Inr:
  "serializeTransaction msg sigs = Inr bs \<Longrightarrow>
   bs = short_vector_bytes (length sigs) @ concat sigs @ msg \<and> list_all (\<lambda>s. length s = 64) sigs"
  by (auto simp: serializeTransaction_def list_all_iff list_ex_iff split: if_splits dest: shortvec_Inr)

lemma sign_for_ok:
  assumes "index_keypairs keypairs = Inr m" "sign_for nc (cm_bytes msg) m signer = Inr signature" "length signature = 64"
  shows "signature_ok nc msg keypairs signer signature"
proof -
  obtain kp where kp: "m signer = Some kp" "signMessageWithKeypair nc (cm_bytes msg) kp = Inr signature"
    using assms(2) by (auto simp: sign_for_def split: option.splits)
  from index_keypairs_Some [OF assms(1) kp(1)] have k: "kp \<in> set keypairs" "kp_public_key kp = signer" "is_key signer"
    by auto
  obtain pk where pk: "publicKeyBytesFromPrivateKey nc (ED25519_PKCS8_PREFIX @ kp_seed kp) = Inr pk"
    "encodeBase58 pk = signer" "length (kp_seed kp) = 32"
    "signature = nc_sign nc (ED25519_PKCS8_PREFIX @ kp_seed kp) (cm_bytes msg)"
    using kp(2) k by (auto simp: signMessageWithKeypair_def privateKeyFromSeed_def split: if_splits)
  have "length pk = 32" using pk(1) by (auto simp: publicKeyBytesFromPrivateKey_def Let_def split: if_splits)
  then have "decodePublicKey (KeyText signer) = Inr pk" using decodePublicKey_encoded pk(2) by blast
  with pk k assms(3) show ?thesis unfolding signature_ok_def by auto
qed

lemma signSolanaTransaction_ok:
  assumes "signSolanaTransaction nc msg keypairs = Inr tx"
  shows "length (st_bytes tx) \<le> 1232 \<and> st_message tx = msg \<and> cm_signers msg \<noteq> [] \<and>
    (\<exists>sigs. st_bytes tx = short_vector_bytes (length sigs) @ concat sigs @ cm_bytes msg \<and>
       list_all2 (signature_ok nc msg keypairs) (cm_signers msg) sigs \<and>
       st_primary tx = encodeBase58 (hd sigs))"
proof -
  obtain m sigs bs where *: "index_keypairs keypairs = Inr m"
    "mapR (sign_for nc (cm_bytes msg) m) (cm_signers msg) = Inr sigs"
    "serializeTransaction (cm_bytes msg) sigs = Inr bs" "length bs \<le> 1232" "sigs \<noteq> []"
    "st_bytes tx = bs" "st_message tx = msg" "st_primary tx = encodeBase58 (hd sigs)"
    using assms by (auto simp: signSolanaTransaction_def split: if_splits list.splits)
  note ser = serializeTransaction_Inr [OF *(3)]
  have "list_all2 (\<lambda>signer s. sign_for nc (cm_bytes msg) m signer = Inr s) (cm_signers msg) sigs"
    using *(2) by (simp only: mapR_eq_Inr_iff)
  then have "list_all2 (signature_ok nc msg keypairs) (cm_signers msg) sigs"
    by (rule list.rel_mono_strong) (use ser sign_for_ok [OF *(1)] in \<open>auto simp: list_all_iff\<close>)
  moreover have "cm_signers msg \<noteq> []" using *(2,5) by (cases "cm_signers msg") auto
  ultimately show ?thesis using * ser by auto
qed

section \<open>The fee payer comes first\<close>

lemma orderStatic_set: "set (orderStaticAccountMetas metas) = set metas"
  by (simp add: orderStaticAccountMetas_def)

lemma orderStatic_first:
  assumes "payer \<in> gm_address ` set metas"
    and ok: "\<And>m. m \<in> set metas \<Longrightarrow> (gm_first m = 0 \<longleftrightarrow> gm_address m = payer) \<and>
      (gm_address m = payer \<longrightarrow> gm_signer m \<and> gm_writable m)"
  shows "orderStaticAccountMetas metas \<noteq> [] \<and> gm_address (hd (orderStaticAccountMetas metas)) = payer"
proof -
  let ?ord = "orderStaticAccountMetas metas"
  let ?key = "\<lambda>m. (accountOrderGroup m, gm_first m)"
  obtain p where p: "p \<in> set ?ord" "gm_address p = payer" using assms(1) by (auto simp: orderStatic_set)
  then have pk: "?key p = (0, 0)"
    using ok by (auto simp: orderStatic_set accountOrderGroup_def)
  obtain h t where ht: "?ord = h # t" using p(1) by (cases ?ord) auto
  have "sorted (map ?key ?ord)" by (simp add: orderStaticAccountMetas_def)
  then have "\<forall>x \<in> set t. ?key h \<le> ?key x" by (simp add: ht)
  then have "?key h \<le> (0, 0)" using p(1) pk ht by (metis order_refl set_ConsD)
  then have "gm_first h = 0" by (auto simp: less_eq_prod_def)
  moreover have "h \<in> set metas" using ht orderStatic_set [of metas] by auto
  ultimately show ?thesis using ok ht by auto
qed

lemma orderStatic_head:
  "aggregated_ok payer instructions metas \<Longrightarrow>
   orderStaticAccountMetas metas \<noteq> [] \<and> gm_address (hd (orderStaticAccountMetas metas)) = payer"
  by (rule orderStatic_first) (auto simp: aggregated_ok_def)

lemma orderStatic_distinct: "aggregated_ok payer instructions metas \<Longrightarrow> distinct (map gm_address (orderStaticAccountMetas metas))"
  by (simp add: orderStaticAccountMetas_def aggregated_ok_def distinct_map)

lemma compileUnversionedMessage_ok:
  assumes "compileUnversionedMessage instructions payerInput blockhash = Inr msg"
  shows "\<exists>payer. normalizePublicKey payerInput = Inr payer \<and>
    (let keys = cm_account_keys msg in
      distinct keys \<and> keys \<noteq> [] \<and> hd keys = payer \<and>
      set keys = {k. k = payer \<or> mentions instructions k} \<and>
      cm_signers msg = take (cm_required_signatures msg) keys \<and>
      (\<forall>i < length keys.
         header_signer msg i = (keys ! i = payer \<or> asks_signer instructions (keys ! i)) \<and>
         header_writable msg (length keys) i = (keys ! i = payer \<or> asks_writable instructions (keys ! i))))"
proof -
  obtain xs where xs: "aggregateAccountMetas instructions payerInput = Inr xs"
    and c: "compileMessageBytes Unversioned instructions (orderStaticAccountMetas xs) [] [] [] blockhash = Inr msg"
    using assms by (auto simp: compileUnversionedMessage_def)
  obtain payer where payer: "normalizePublicKey payerInput = Inr payer" and ok: "aggregated_ok payer instructions xs"
    using aggregateAccountMetas_ok [OF xs] by blast
  let ?metas = "orderStaticAccountMetas xs"
  have l: "cm_account_keys msg = map gm_address ?metas"
    "cm_signers msg = map gm_address (take (cm_required_signatures msg) ?metas)"
    "cm_required_signatures msg = countMatching ?metas gm_signer"
    "cm_readonly_signed msg = countMatching ?metas (\<lambda>m. gm_signer m \<and> \<not> gm_writable m)"
    "cm_readonly_unsigned msg = countMatching ?metas (\<lambda>m. \<not> gm_signer m \<and> \<not> gm_writable m)"
    using compileMessageBytes_layout [OF c] by simp_all
  have "header_signer msg i = (gm_address (?metas ! i) = payer \<or> asks_signer instructions (gm_address (?metas ! i))) \<and>
      header_writable msg (length ?metas) i
        = (gm_address (?metas ! i) = payer \<or> asks_writable instructions (gm_address (?metas ! i)))"
    if "i < length ?metas" for i
  proof -
    have "?metas ! i \<in> set xs" using that nth_mem orderStatic_set by metis
    then show ?thesis using header_roles [OF refl that l(3-5)] ok by (simp add: aggregated_ok_def)
  qed
  then show ?thesis using payer ok orderStatic_distinct [OF ok] orderStatic_head [OF ok]
    by (auto simp: l(1,2) Let_def take_map hd_map orderStatic_set aggregated_ok_def)
qed

end
