(* ===== verification/SampleSchema.thy ===== *)
theory SampleSchema
  imports ChanceryInstruction ChanceryEvent SplToken SettlementRules SolanaTransaction
begin

text \<open>
  Concrete inputs at which the properties are instantiated: keys, a schema with one defined type, one
  account, one instruction and one event, accounts and policies as decoded objects, a hash function of
  the right width, and instructions of a transaction.
\<close>

text \<open>The key with 31 zero bytes and a last byte \<open>n\<close> below 58.\<close>

definition sample_key :: "nat \<Rightarrow> string" where
  "sample_key n = replicate 31 CHR ''1'' @ [base58_char n]"

definition sample_hash :: "bytes \<Rightarrow> bytes" where
  "sample_hash bs = replicate 32 255"

definition sample_pair :: struct_schema where
  "sample_pair = \<lparr>struct_fields = [\<lparr>field_name = ''left'', field_type = Prim U8\<rparr>,
     \<lparr>field_name = ''right'', field_type = Prim U16\<rparr>]\<rparr>"

definition sample_fields :: "field_schema list" where
  "sample_fields = [\<lparr>field_name = ''amount'', field_type = Prim U64\<rparr>,
     \<lparr>field_name = ''open'', field_type = Prim BoolP\<rparr>,
     \<lparr>field_name = ''note'', field_type = OptionT (Prim U8)\<rparr>,
     \<lparr>field_name = ''data'', field_type = VectorT (Prim U8)\<rparr>]"

definition sample_values :: js_object where
  "sample_values = [(''amount'', JBig 258), (''open'', JBool True), (''note'', JNull), (''data'', JBytes [7])]"

definition sample_payload :: bytes where
  "sample_payload = [2, 1, 0, 0, 0, 0, 0, 0, 1, 0, 1, 0, 0, 0, 7]"

definition sample_accounts :: "instruction_account_schema list" where
  "sample_accounts =
     [\<lparr>ia_name = ''payer'', ia_writable = True, ia_signer = True, ia_optional = False, ia_relations = None,
       ia_pda = None, ia_default = None\<rparr>,
      \<lparr>ia_name = ''vault'', ia_writable = True, ia_signer = False, ia_optional = False, ia_relations = None,
       ia_pda = Some \<lparr>pda_seeds = [ConstSeed [118], AccountSeed ''payer'']\<rparr>, ia_default = None\<rparr>]"

definition sample_schema :: chancery_schema where
  "sample_schema = \<lparr>schema_version = 1,
     schema_program = \<lparr>program_name = ''chancery'', program_version = ''1'', program_address = sample_key 9,
       program_description = ''''\<rparr>,
     schema_wire = \<lparr>instruction_discriminator_bytes = 1, account_discriminator_bytes = 1,
       event_discriminator_bytes = 1, event_cpi_prefix = [228, 69], public_key_bytes = 32,
       zero_address = sample_key 0, system_program = sample_key 0\<rparr>,
     known_pdas = [(''event_authority'', \<lparr>known_pda_seeds = [], known_pda_address = sample_key 3\<rparr>)],
     schema_instructions = [(''deposit'', \<lparr>ix_discriminator = [5], ix_accounts = sample_accounts, ix_args = sample_fields\<rparr>)],
     schema_accounts = [(''note'', \<lparr>struct_fields = sample_fields, account_discriminator = [6], account_size = 16\<rparr>)],
     schema_events = [(''noted'', \<lparr>struct_fields = sample_fields, event_discriminator = [4]\<rparr>)],
     schema_types = [(''Pair'', sample_pair)], schema_constants = [], schema_errors = []\<rparr>"


definition sample_fee_policy :: js_object where
  "sample_fee_policy =
     [(''fee_policy_flags'', JBig 18), (''effective_from_unix_timestamp'', JBig 0),
      (''effective_until_unix_timestamp'', JBig 0), (''flat_fee_in_issued_token'', JBig 0),
      (''percent_fee_bps'', JNum 25), (''rounding_mode'', JNum 1), (''fee_cap_amount'', JBig 0),
      (''minimum_fee_amount'', JBig 0), (''rebate_flat_amount'', JBig 0), (''rebate_bps'', JNum 1000),
      (''rebate_cap_amount'', JBig 0), (''net_fee_floor_zero'', JNum 1), (''fee_recipient_policy'', JNum 1),
      (''fee_recipient_key'', JStr (sample_key 2))]"

definition sample_instructions :: "solana_instruction list" where
  "sample_instructions =
     [\<lparr>si_program = sample_key 9,
       si_accounts = [\<lparr>sm_address = sample_key 2, sm_signer = True, sm_writable = False\<rparr>,
         \<lparr>sm_address = sample_key 3, sm_signer = False, sm_writable = True\<rparr>],
       si_data = [1]\<rparr>]"

text \<open>How the samples evaluate.\<close>

lemma sample_key_encoded: "0 < n \<Longrightarrow> n < 58 \<Longrightarrow> encodeBase58 (replicate 31 0 @ [word_of_nat n]) = sample_key n"
proof -
  assume n: "0 < n" "n < 58"
  have w: "(word_of_nat n :: byte) \<noteq> 0" using n by (simp add: word_of_nat_eq_0_iff nat_dvd_not_less)
  have "takeWhile (\<lambda>b. b = 0) (replicate 31 0 @ [word_of_nat n :: byte]) = replicate 31 0"
    using w by (subst takeWhile_append2) auto
  then show ?thesis using n w
    by (simp add: encodeBase58_def sample_key_def Let_def encode_digits_def unat_of_nat)
qed

lemma sample_key_0: "encodeBase58 (replicate 32 0) = sample_key 0"
  by (simp add: encodeBase58_def sample_key_def Let_def takeWhile_replicate base58_char_def
      BASE58_ALPHABET_def numeral_eq_Suc)

lemma sample_key_is_key: "n < 58 \<Longrightarrow> is_key (sample_key n)"
  using is_key_encoded [of "replicate 31 0 @ [word_of_nat n]"] is_key_encoded [of "replicate 32 0"]
  by (cases "n = 0") (simp_all add: sample_key_encoded sample_key_0)

lemma sample_key_decoded: "0 < n \<Longrightarrow> n < 58 \<Longrightarrow>
    decodePublicKey (KeyText (sample_key n)) = Inr (replicate 31 0 @ [word_of_nat n])"
  using decodePublicKey_encoded [of "replicate 31 0 @ [word_of_nat n]"] by (simp add: sample_key_encoded)

lemma sample_key_inj: "m < 58 \<Longrightarrow> n < 58 \<Longrightarrow> sample_key m = sample_key n \<longleftrightarrow> m = n"
proof -
  have "distinct BASE58_ALPHABET" "length BASE58_ALPHABET = 58" by (simp_all add: BASE58_ALPHABET_def)
  then show "m < 58 \<Longrightarrow> n < 58 \<Longrightarrow> ?thesis"
    by (simp add: sample_key_def base58_char_def nth_eq_iff_index_eq)
qed

lemma sample_fields_encoded: "encodeStruct S sample_fields sample_values pad = Inr sample_payload"
  by (simp add: encodeStruct_def encode_struct_with_def sample_fields_def sample_values_def encode_field_def
      obj_get_def sample_payload_def encodePrimitive_def encodeUnsignedInteger_def integerFromValue_def
      is_safe_integer_def MAX_SAFE_INTEGER_def bytesFromValue_def low_digits_numeral)

lemma sample_values_typed: "has_struct S sample_fields sample_values"
  by (simp add: has_struct_def has_fields_with_def sample_fields_def sample_values_def has_primitive_def)

lemma sample_hash_length: "length (sample_hash bs) = 32"
  by (simp add: sample_hash_def)

lemma sample_hash_off_curve: "\<not> on_curve (sample_hash bs)"
proof -
  have "sample_hash bs = [255, 255, 255, 255, 255, 255, 255, 255, 255, 255, 255, 255, 255, 255, 255, 255,
    255, 255, 255, 255, 255, 255, 255, 255, 255, 255, 255, 255, 255, 255, 255, 255]"
    by (simp add: sample_hash_def numeral_eq_Suc)
  then have "isEd25519CurvePoint (sample_hash bs) = Inr False"
    by (simp add: isEd25519CurvePoint_def Let_def littleEndianInteger_def ED25519_FIELD_MODULUS_def)
  then show ?thesis by (simp add: on_curve_def)
qed

lemmas field_defs = obj_get_def requireBigIntField_def requireNumberField_def requirePublicKeyField_def
  is_safe_integer_def MAX_SAFE_INTEGER_def

lemma sample_message_ok: "is_ok (compileUnversionedMessage sample_instructions (KeyText (sample_key 1)) (KeyText (sample_key 4)))"
  by (simp add: is_ok_iff compileUnversionedMessage_def aggregateAccountMetas_def sample_instructions_def merge_instruction_def merge_account_def
    mergeAccountMeta_def sample_key_is_key sample_key_inj orderStaticAccountMetas_def accountOrderGroup_def
    compileMessageBytes_def countMatching_def Let_def shortvec_def encodeShortVectorLength_def is_safe_integer_def MAX_SAFE_INTEGER_def
    sample_key_decoded compile_instruction_def index_of_key_def compile_lookups_def less_eq_prod_def)
section \<open>Accounts, instructions and events of the sample schema\<close>

lemma sample_find:
  assumes "seeds_ok 15 seeds" "is_key p"
  shows "findProgramAddress sample_hash seeds (KeyText p) = Inr \<lparr>pda_address = encodeBase58 (replicate 32 255), pda_bump = 255\<rparr>"
proof -
  obtain pk where pk: "decodePublicKey (KeyText p) = Inr pk" using assms(2) by (rule is_keyE)
  have "find_bump sample_hash seeds (KeyText p) 256 = Inr \<lparr>pda_address = encodeBase58 (replicate 32 255), pda_bump = 255\<rparr>"
    using find_bump_Inr [OF assms(1) pk, of sample_hash 256] sample_hash_off_curve
    by (simp add: candidate_def sample_hash_def)
  with assms(1) pk show ?thesis by (simp add: findProgramAddress_Inr)
qed

lemma sample_key_normalized: "n < 58 \<Longrightarrow> normalizePublicKey (KeyText (sample_key n)) = Inr (sample_key n)"
  by (simp add: sample_key_is_key)

definition sample_inputs :: account_inputs where
  "sample_inputs = [(''payer'', Some (KeyText (sample_key 1))), (''other'', None)]"

definition sample_metas :: "instruction_account_meta list" where
  "sample_metas =
     [\<lparr>am_name = ''payer'', am_address = sample_key 1, am_signer = True, am_writable = True\<rparr>,
      \<lparr>am_name = ''vault'', am_address = encodeBase58 (replicate 32 255), am_signer = False, am_writable = True\<rparr>]"

lemma sample_vault_find: "findProgramAddress sample_hash [[118], replicate 31 0 @ [1]] (KeyText (sample_key 9))
    = Inr \<lparr>pda_address = encodeBase58 (replicate 32 255), pda_bump = 255\<rparr>"
  by (rule sample_find) (auto simp: sample_key_is_key)

lemmas sample_pda_defs = sample_schema_def sample_accounts_def pda_step_def derivePda_def pdaSeedBytes_def
  sample_key_decoded sample_vault_find

lemma sample_resolved:
  "resolveChanceryInstructionAccounts sample_hash sample_schema ''deposit'' [] sample_inputs verify = Inr sample_metas"
  by (cases verify) (simp_all add: resolveChanceryInstructionAccounts_def getInstructionSchema_def lookup_or_def
      initial_addresses_def initial_step_def sample_inputs_def sample_key_normalized
      defaultAccountAddress_def sample_pda_defs account_meta_def numeral_2_eq_2 sample_metas_def Let_def
      del: bindR_eq_Inr)

lemma sample_passes_ok: "is_ok (pda_passes sample_hash sample_schema
    \<lparr>ix_discriminator = [5], ix_accounts = sample_accounts, ix_args = sample_fields\<rparr> []
    (length (ix_accounts \<lparr>ix_discriminator = [5], ix_accounts = sample_accounts, ix_args = sample_fields\<rparr>))
    [(''payer'', sample_key 1)])"
  by (simp add: sample_pda_defs numeral_2_eq_2)

lemma sample_lookups:
  "map_of (schema_accounts sample_schema) ''note''
     = Some \<lparr>struct_fields = sample_fields, account_discriminator = [6], account_size = 16\<rparr>"
  "map_of (schema_instructions sample_schema) ''deposit''
     = Some \<lparr>ix_discriminator = [5], ix_accounts = sample_accounts, ix_args = sample_fields\<rparr>"
  "map_of (schema_events sample_schema) ''noted'' = Some \<lparr>struct_fields = sample_fields, event_discriminator = [4]\<rparr>"
  by (simp_all add: sample_schema_def)

lemma sample_wf: "accounts_wf sample_schema" "instructions_wf sample_schema" "events_wf sample_schema"
  by (simp_all add: accounts_wf_def instructions_wf_def events_wf_def prefix_free_def sample_schema_def)

lemma sample_canonical_fields: "canonical_fields sample_fields"
  by (simp add: canonical_fields_def sample_fields_def)

lemma sample_canonical: "canonical_schema sample_schema"
  by (simp add: canonical_schema_def sample_schema_def sample_pair_def canonical_fields_def)

lemma sample_canonical_accounts: "(n, a) \<in> set (schema_accounts sample_schema) \<Longrightarrow> canonical_fields (struct_fields a)"
  by (simp add: sample_schema_def sample_canonical_fields)

lemma sample_canonical_instructions: "(n, ix) \<in> set (schema_instructions sample_schema) \<Longrightarrow> canonical_fields (ix_args ix)"
  by (simp add: sample_schema_def sample_canonical_fields)

lemma sample_account_encoded: "encodeChanceryAccount sample_schema ''note'' sample_values = Inr (6 # sample_payload)"
  by (simp add: encodeChanceryAccount_Inr sample_lookups sample_fields_encoded) (simp add: sample_payload_def)

lemma sample_instruction_encoded:
  "encodeChanceryInstructionData sample_schema ''deposit'' sample_values = Inr (5 # sample_payload)"
  by (simp add: encodeChanceryInstructionData_def getInstructionSchema_def sample_lookups sample_fields_encoded)

lemma sample_prefix: "event_cpi_prefix (schema_wire sample_schema) = [228, 69]"
  by (simp add: sample_schema_def)

lemma sample_event_encoded:
  "encodeChanceryEventData sample_schema ''noted'' sample_values True = Inr ([228, 69, 4] @ sample_payload)"
  by (simp add: encodeChanceryEventData_Inr sample_lookups sample_fields_encoded sample_prefix)

lemma sample_event_decoded:
  "decodeChanceryEventData sample_schema ([228, 69, 4] @ sample_payload)
     = Inr \<lparr>de_name = ''noted'', de_values = sample_values, de_data = [228, 69, 4] @ sample_payload\<rparr>"
  by (rule event_decode_encode [OF _ sample_event_encoded]) (auto simp: sample_wf sample_lookups sample_values_typed)

definition sample_inner :: "nat \<Rightarrow> chancery_inner_instruction" where
  "sample_inner n = \<lparr>ii_program = sample_key 9, ii_accounts = [sample_key n],
     ii_data = [228, 69, 4] @ sample_payload, ii_parent_index = 0, ii_inner_index = n, ii_stack_height = Some 2\<rparr>"

lemma sample_authority: "event_authority_address sample_schema = Inr (sample_key 3)"
  by (simp add: event_authority_address_def sample_schema_def)

lemma sample_genuine: "n < 58 \<Longrightarrow> genuine_event sample_schema (sample_key 3) (sample_inner n) \<longleftrightarrow> n = 3"
  using sample_event_decoded
  by (simp add: genuine_event_def sample_inner_def sample_prefix sample_key_inj) (simp add: sample_schema_def)

lemma sample_events_ok: "is_ok (decodeChanceryEventsFromInnerInstructions sample_schema [sample_inner 3, sample_inner 7])"
proof -
  have p: "program_address (schema_program sample_schema) = sample_key 9" by (simp add: sample_schema_def)
  show ?thesis using sample_event_decoded
    by (simp add: is_ok_iff decodeChanceryEventsFromInnerInstructions_def sample_authority event_of_instruction_def
        sample_inner_def sample_key_is_key p isEventCpiData_iff sample_prefix sample_key_inj)
qed

section \<open>Observations and signatures\<close>

definition sample_permission :: js_object where
  "sample_permission =
     [(''role_bits'', JArr [JBig 5, JBig 0]), (''expiry_unix_timestamp'', JBig 100), (''permission_flags'', JBig 0),
      (''subject'', JStr (sample_key 1)), (''scope_kind'', JNum 2), (''scope_key'', JStr (sample_key 2)),
      (''role_schema_version'', JNum 1)]"

lemma sample_permission_ok:
  "\<exists>ob. permissionObservation sample_permission (requiredPrincipalRole Mint Delegated) (KeyText (sample_key 1)) 2
     (KeyText (sample_key 2)) 50 = Inr ob \<and> po_held_roles ob = 5"
  by (simp add: permissionObservation_def Let_def sample_permission_def field_defs
      scope_matches_def sample_key_normalized sample_key_inj requireBigIntArrayField_def del: bindR_eq_Inr)

definition sample_policy :: js_object where
  "sample_policy =
     [(''policy_id'', JBytes (replicate 31 0 @ [1])), (''bump'', JNum 255), (''policy_flags'', JBig 0),
      (''allowed_settlement_modes'', JNum 6), (''allowed_asset_mint'', JStr (sample_key 1)),
      (''allowed_principal_a'', JStr (sample_key 0)), (''allowed_principal_b'', JStr (sample_key 0)),
      (''designated_executor'', JStr (sample_key 5)), (''min_notional'', JBig 10), (''max_notional'', JBig 0),
      (''valid_after_unix_timestamp'', JBig 0), (''expires_at_unix_timestamp'', JBig 90)]"

lemma sample_policy_ok:
  "\<exists>ob. observeSettlementPolicy sample_hash sample_schema sample_policy Delegated (KeyText (sample_key 1))
     (KeyText (sample_key 2)) (KeyText (sample_key 3)) (KeyText (sample_key 5)) 20 50
     (KeyBytes (replicate 32 255)) 255 = Inr ob \<and> sp_observations ob = []"
proof -
  have p: "program_address (schema_program sample_schema) = sample_key 9" "zero_address (schema_wire sample_schema) = sample_key 0"
    by (simp_all add: sample_schema_def)
  have derive: "\<exists>r. deriveSettlementPolicyAddress sample_hash sample_schema (KeyBytes (replicate 31 0 @ [1])) = Inr r \<and>
      pda_address r = encodeBase58 (replicate 32 255)"
    by (simp add: deriveSettlementPolicyAddress_def derive_from_id_def bytes32FromInput_def
        deriveNamedProgramAddress_def p utf8_encode_def utf8_unit_def sample_find
        sample_key_is_key)
  then obtain r where r: "deriveSettlementPolicyAddress sample_hash sample_schema (KeyBytes (replicate 31 0 @ [1])) = Inr r"
      "pda_address r = encodeBase58 (replicate 32 255)" by blast
  have z: "isZeroBytes32 (JBytes (replicate 31 0 @ [1])) = Inr False"
    by (simp add: isZeroBytes32_def requireBytes_def list_all_iff) (rule bexI [of _ 31], simp_all add: nth_append)
  show ?thesis
    by (simp add: observeSettlementPolicy_def Let_def sample_policy_def field_defs requireBytes_def r z p
        normalizePublicKey_def [of "KeyBytes _"] decodePublicKey_def sample_key_normalized sample_key_inj key_allowed_def
        mode_mask_valid_def KNOWN_MODE_MASK_def mode_allowed_def failed_checks_def del: bindR_eq_Inr)
qed

definition sample_limit_policy :: js_object where
  "sample_limit_policy =
     [(''per_transaction_maximum'', JBig 100), (''per_hour_maximum'', JBig 60), (''per_day_maximum'', JBig 0),
      (''per_seven_day_maximum'', JBig 500), (''per_thirty_day_maximum'', JBig 0),
      (''maximum_actions_per_hour'', JNum 3), (''maximum_actions_per_day'', JNum 0)]"

definition sample_windows :: "(string \<times> js_object option) list" where
  "sample_windows =
     [(''hourly'', Some [(''window_start_unix_timestamp'', JBig 3600), (''gross_in'', JArr [JBig 40, JBig 0]),
        (''action_count'', JNum 1)]), (''daily'', None)]"

lemma sample_limit_ok: "is_ok (observeLimitPolicy sample_limit_policy Mint 15 sample_windows 4000)"
  by (simp add: is_ok_iff observeLimitPolicy_def Let_def LIMIT_DEFINITIONS_def observe_window_def sample_limit_policy_def
      sample_windows_def field_defs canonicalWindowStart_def floorDivision_def stored_counters_def
      requireBigIntArrayField_two)

definition sample_crypto :: node_crypto where
  "sample_crypto = \<lparr>nc_spki = (\<lambda>key. drop 16 key), nc_sign = (\<lambda>key message. replicate 64 7)\<rparr>"

definition sample_keypair :: solana_keypair where
  "sample_keypair = \<lparr>kp_public_key = sample_key 1, kp_seed = replicate 31 0 @ [1]\<rparr>"

definition sample_compiled :: compiled_message where
  "sample_compiled = \<lparr>cm_version = Unversioned, cm_bytes = [1, 0, 0, 0], cm_account_keys = [sample_key 1],
     cm_signers = [sample_key 1], cm_required_signatures = 1, cm_readonly_signed = 0, cm_readonly_unsigned = 0,
     cm_lookups = []\<rparr>"

lemma sample_sign_ok: "is_ok (signSolanaTransaction sample_crypto sample_compiled [sample_keypair])"
  using sample_key_encoded [of 1]
  by (simp add: is_ok_iff signSolanaTransaction_def index_keypairs_def sample_keypair_def sample_key_is_key
      sample_compiled_def sign_for_def signMessageWithKeypair_def privateKeyFromSeed_def ED25519_PKCS8_PREFIX_def
      publicKeyBytesFromPrivateKey_def sample_crypto_def serializeTransaction_def shortvec_def
      encodeShortVectorLength_def is_safe_integer_def MAX_SAFE_INTEGER_def short_vector_bytes.simps)
definition sample_fee_config :: token_2022_transfer_fee_config where
  "sample_fee_config =
     \<lparr>tfc_authority = None, tfc_withdraw_authority = None, tfc_withheld = 0,
      tfc_older = \<lparr>tf_epoch = 0, tf_maximum = 5, tf_basis_points = 100\<rparr>,
      tfc_newer = \<lparr>tf_epoch = 8, tf_maximum = 50, tf_basis_points = 25\<rparr>\<rparr>"

lemma sample_mint_ok: "is_ok (decodeTokenMint (replicate 82 0))"
  by (simp add: is_ok_iff decodeTokenMint_def decodeCOptionPublicKey_def readUnsignedLittleEndian_def sliceExact_def
    decodeToken2022MintExtensions_def Let_def fold_little_endian decodeUnsignedInteger_def numeral_eq_Suc)

end
