(* ===== verification/SquadsMessage.thy ===== *)
theory SquadsMessage
  imports SolanaTransaction
begin

text \<open>
  \<open>typescript/src/squads/SquadsCodec.ts\<close> and \<open>SquadsVaultMessage.ts\<close>: the message of a Squads vault
  transaction, its validation, its binary form, and its compilation from instructions, which compiles an
  ordinary Solana message and parses it again. The \<open>MessageReader\<close> class is a second reader class and
  interprets \<open>byte_reader\<close>. A number of a message is an integer, since the parser computes differences.
\<close>

section \<open>Integers, vectors and texts\<close>

definition unsignedIntegerFromValue :: "js \<Rightarrow> int res" where
  "unsignedIntegerFromValue value =
     (case value of
        JBig n \<Rightarrow> if n < 0 then throw ''value must be unsigned'' else Inr n
      | JNum n \<Rightarrow> if \<not> is_safe_integer n \<or> n < 0 then throw ''value must be a safe unsigned integer'' else Inr n
      | JFrac \<Rightarrow> throw ''value must be a safe unsigned integer''
      | JStr s \<Rightarrow> if \<not> is_decimal s then throw ''value must be a decimal unsigned integer string''
                else Inr (int (parse_decimal s))
      | _ \<Rightarrow> throw ''value must be a decimal unsigned integer string'')"

definition encodeUnsignedInteger_squads :: "js \<Rightarrow> nat \<Rightarrow> bytes res" where
  "encodeUnsignedInteger_squads value byteLength =
     (if byteLength = 0 then throw ''Unsigned integer byte length must be a positive integer''
      else
        bindR (unsignedIntegerFromValue value) (\<lambda>integerValue.
          if 2 ^ (byteLength * 8) \<le> integerValue then throw ''value exceeds the unsigned range''
          else Inr (map word_of_nat (low_digits 256 byteLength (nat integerValue)))))"

definition encodeU8 :: "js \<Rightarrow> bytes res" where
  "encodeU8 value = encodeUnsignedInteger_squads value 1"

definition encodeU16 :: "js \<Rightarrow> bytes res" where
  "encodeU16 value = encodeUnsignedInteger_squads value 2"

definition encodeU32 :: "js \<Rightarrow> bytes res" where
  "encodeU32 value = encodeUnsignedInteger_squads value 4"

definition encodeU64 :: "js \<Rightarrow> bytes res" where
  "encodeU64 value = encodeUnsignedInteger_squads value 8"

definition encodeBoolean :: "bool \<Rightarrow> bytes" where
  "encodeBoolean value = [if value then 1 else 0]"

definition encodeByteVector :: "bytes \<Rightarrow> bytes res" where
  "encodeByteVector bs = bindR (encodeU32 (JNum (int (length bs)))) (\<lambda>n. Inr (concatenateBytes [n, bs]))"

definition encodeOptionalString :: "string option \<Rightarrow> bytes res" where
  "encodeOptionalString value =
     (case value of
        None \<Rightarrow> Inr [0]
      | Some s \<Rightarrow>
          let bs = utf8_encode s in
          bindR (encodeU32 (JNum (int (length bs)))) (\<lambda>n. Inr (concatenateBytes [[1], n, bs])))"

section \<open>Messages\<close>

record squads_instruction =
  sq_program :: int
  sq_accounts :: "int list"
  sq_data :: bytes

record squads_lookup =
  sq_key :: string
  sq_writable :: "int list"
  sq_readonly :: "int list"

record squads_message =
  vm_signers :: int
  vm_writable_signers :: int
  vm_writable_others :: int
  vm_keys :: "string list"
  vm_instructions :: "squads_instruction list"
  vm_lookups :: "squads_lookup list"

section \<open>The message reader\<close>

record message_reader =
  mr_bytes :: bytes
  mr_offset :: nat

definition newMessageReader :: "bytes \<Rightarrow> message_reader" where
  "newMessageReader bs = \<lparr>mr_bytes = bs, mr_offset = 0\<rparr>"

definition mr_remaining :: "message_reader \<Rightarrow> int" where
  "mr_remaining r = int (length (mr_bytes r)) - int (mr_offset r)"

definition mr_readBytes :: "nat \<Rightarrow> (message_reader, bytes) parser" where
  "mr_readBytes byteLength r =
     (if mr_remaining r < int byteLength then throw ''value exceeds the available message bytes''
      else Inr (take byteLength (drop (mr_offset r) (mr_bytes r)), r\<lparr>mr_offset := mr_offset r + byteLength\<rparr>))"

definition first_byte :: "bytes \<Rightarrow> int" where
  "first_byte bs = (case bs of [] \<Rightarrow> 0 | b # _ \<Rightarrow> uint b)"

definition readU8 :: "(message_reader, int) parser" where
  "readU8 = mapP first_byte (mr_readBytes 1)"

definition readU16 :: "(message_reader, int) parser" where
  "readU16 = mapP (\<lambda>bs. or (first_byte bs) (push_bit 8 (first_byte (tl bs)))) (mr_readBytes 2)"

fun short_vector_loop :: "nat \<Rightarrow> int \<Rightarrow> int \<Rightarrow> (message_reader, int) parser" where
  "short_vector_loop 0 value multiplier = failP ''value has an invalid short-vector encoding''"
| "short_vector_loop (Suc left) value multiplier =
     bindP readU8 (\<lambda>byteValue.
       let value' = value + and byteValue 127 * multiplier in
       if \<not> is_safe_integer value' then failP ''value exceeds the safe integer range''
       else if and byteValue 128 = 0 then returnP value'
       else short_vector_loop left value' (multiplier * 128))"

definition readShortVectorLength :: "(message_reader, int) parser" where
  "readShortVectorLength = short_vector_loop 8 0 1"

section \<open>Validation\<close>

definition assertU8 :: "int \<Rightarrow> unit res" where
  "assertU8 value = (if value < 0 \<or> 255 < value then throw ''value must fit in an unsigned byte'' else Inr ())"

definition assertU16 :: "int \<Rightarrow> unit res" where
  "assertU16 value =
     (if value < 0 \<or> 65535 < value then throw ''value must fit in an unsigned 16-bit integer'' else Inr ())"

abbreviation len :: "'a list \<Rightarrow> int" where
  "len xs \<equiv> int (length xs)"

text \<open>A loop that only checks.\<close>

fun eachR :: "('a \<Rightarrow> unit res) \<Rightarrow> 'a list \<Rightarrow> unit res" where
  "eachR f [] = Inr ()"
| "eachR f (x # xs) = bindR (f x) (\<lambda>_. eachR f xs)"

definition validate_lookup :: "squads_lookup \<Rightarrow> unit res" where
  "validate_lookup lookup =
     bindR (normalizePublicKey (KeyText (sq_key lookup))) (\<lambda>_.
     bindR (assertU8 (len (sq_writable lookup))) (\<lambda>_.
     bindR (assertU8 (len (sq_readonly lookup))) (\<lambda>_.
     bindR (eachR assertU8 (sq_writable lookup)) (\<lambda>_.
       eachR assertU8 (sq_readonly lookup)))))"

definition validate_instruction :: "int \<Rightarrow> int \<Rightarrow> squads_instruction \<Rightarrow> unit res" where
  "validate_instruction keyCount totalAccountCount instruction =
     bindR (assertU8 (sq_program instruction)) (\<lambda>_.
       if keyCount \<le> sq_program instruction then throw ''Instruction program ID must be a static account key''
       else
         bindR (assertU8 (len (sq_accounts instruction))) (\<lambda>_.
         bindR (assertU16 (len (sq_data instruction))) (\<lambda>_.
           eachR (\<lambda>accountIndex. bindR (assertU8 accountIndex) (\<lambda>_.
             if totalAccountCount \<le> accountIndex
             then throw ''Instruction account index exceeds the compiled account-key count'' else Inr ()))
           (sq_accounts instruction))))"

definition loaded_count :: "squads_lookup list \<Rightarrow> int" where
  "loaded_count lookups = sum_list (map (\<lambda>l. len (sq_writable l) + len (sq_readonly l)) lookups)"

definition validateSquadsVaultTransactionMessage :: "squads_message \<Rightarrow> unit res" where
  "validateSquadsVaultTransactionMessage m =
     bindR (assertU8 (vm_signers m)) (\<lambda>_.
     bindR (assertU8 (vm_writable_signers m)) (\<lambda>_.
     bindR (assertU8 (vm_writable_others m)) (\<lambda>_.
     bindR (assertU8 (len (vm_keys m))) (\<lambda>_.
     bindR (assertU8 (len (vm_instructions m))) (\<lambda>_.
     bindR (assertU8 (len (vm_lookups m))) (\<lambda>_.
       if vm_signers m < vm_writable_signers m then throw ''message.numWritableSigners exceeds message.numSigners''
       else if len (vm_keys m) < vm_signers m
       then throw ''message.numSigners exceeds the static account-key count''
       else if len (vm_keys m) - vm_signers m < vm_writable_others m
       then throw ''message.numWritableNonSigners exceeds the static non-signer count''
       else
         bindR (eachR (\<lambda>address. bindR (normalizePublicKey (KeyText address)) (\<lambda>_. Inr ())) (vm_keys m)) (\<lambda>_.
         bindR (eachR validate_lookup (vm_lookups m)) (\<lambda>_.
           let totalAccountCount = len (vm_keys m) + loaded_count (vm_lookups m) in
           if 256 < totalAccountCount then throw ''Squads vault transaction message exceeds 256 total account keys''
           else eachR (validate_instruction (len (vm_keys m)) totalAccountCount) (vm_instructions m)))))))))"

section \<open>The Squads encoding\<close>

definition encode_squads_instruction :: "squads_instruction \<Rightarrow> bytes list res" where
  "encode_squads_instruction instruction =
     bindR (encodeU8 (JNum (sq_program instruction))) (\<lambda>program.
     bindR (encodeU8 (JNum (len (sq_accounts instruction)))) (\<lambda>accountCount.
     bindR (encodeU16 (JNum (len (sq_data instruction)))) (\<lambda>dataLength.
       Inr [program, accountCount, map word_of_int (sq_accounts instruction), dataLength, sq_data instruction])))"

definition encode_squads_lookup :: "squads_lookup \<Rightarrow> bytes list res" where
  "encode_squads_lookup lookup =
     bindR (decodePublicKey (KeyText (sq_key lookup))) (\<lambda>key.
     bindR (encodeU8 (JNum (len (sq_writable lookup)))) (\<lambda>writableCount.
     bindR (encodeU8 (JNum (len (sq_readonly lookup)))) (\<lambda>readonlyCount.
       Inr [key, writableCount, map word_of_int (sq_writable lookup), readonlyCount,
            map word_of_int (sq_readonly lookup)])))"

definition encodeSquadsVaultTransactionMessage :: "squads_message \<Rightarrow> bytes res" where
  "encodeSquadsVaultTransactionMessage m =
     bindR (validateSquadsVaultTransactionMessage m) (\<lambda>_.
     bindR (encodeU8 (JNum (vm_signers m))) (\<lambda>signers.
     bindR (encodeU8 (JNum (vm_writable_signers m))) (\<lambda>writableSigners.
     bindR (encodeU8 (JNum (vm_writable_others m))) (\<lambda>writableOthers.
     bindR (encodeU8 (JNum (len (vm_keys m)))) (\<lambda>keyCount.
     bindR (mapR (\<lambda>key. decodePublicKey (KeyText key)) (vm_keys m)) (\<lambda>keys.
     bindR (encodeU8 (JNum (len (vm_instructions m)))) (\<lambda>instructionCount.
     bindR (mapR encode_squads_instruction (vm_instructions m)) (\<lambda>instructions.
     bindR (encodeU8 (JNum (len (vm_lookups m)))) (\<lambda>lookupCount.
     bindR (mapR encode_squads_lookup (vm_lookups m)) (\<lambda>lookups.
       Inr (concatenateBytes ([signers, writableSigners, writableOthers, keyCount] @ keys @ [instructionCount] @
         concat instructions @ [lookupCount] @ concat lookups))))))))))))"

definition read_indexes :: "(message_reader, int) parser \<Rightarrow> (message_reader, int list) parser" where
  "read_indexes readLength = bindP readLength (\<lambda>n. mapP (map uint) (mr_readBytes (nat n)))"

abbreviation readKey :: "(message_reader, string) parser" where
  "readKey \<equiv> mapP encodeBase58 (mr_readBytes 32)"

definition decode_squads_instruction :: "(message_reader, squads_instruction) parser" where
  "decode_squads_instruction =
     bindP readU8 (\<lambda>program.
     bindP (read_indexes readU8) (\<lambda>accounts.
     bindP (bindP readU16 (\<lambda>n. mr_readBytes (nat n))) (\<lambda>data.
       returnP \<lparr>sq_program = program, sq_accounts = accounts, sq_data = data\<rparr>)))"

definition decode_squads_lookup :: "(message_reader, int) parser \<Rightarrow> (message_reader, squads_lookup) parser" where
  "decode_squads_lookup readLength =
     bindP readKey (\<lambda>key.
     bindP (read_indexes readLength) (\<lambda>writable.
     bindP (read_indexes readLength) (\<lambda>readonly.
       returnP \<lparr>sq_key = key, sq_writable = writable, sq_readonly = readonly\<rparr>)))"

definition read_squads_message :: "(message_reader, squads_message) parser" where
  "read_squads_message =
     bindP readU8 (\<lambda>signers.
     bindP readU8 (\<lambda>writableSigners.
     bindP readU8 (\<lambda>writableOthers.
     bindP (bindP readU8 (\<lambda>n. repeatP (nat n) readKey)) (\<lambda>keys.
     bindP (bindP readU8 (\<lambda>n. repeatP (nat n) decode_squads_instruction)) (\<lambda>instructions.
     bindP (bindP readU8 (\<lambda>n. repeatP (nat n) (decode_squads_lookup readU8))) (\<lambda>lookups.
       returnP \<lparr>vm_signers = signers, vm_writable_signers = writableSigners, vm_writable_others = writableOthers,
         vm_keys = keys, vm_instructions = instructions, vm_lookups = lookups\<rparr>))))))"

definition decodeSquadsVaultTransactionMessage :: "bytes \<Rightarrow> squads_message res" where
  "decodeSquadsVaultTransactionMessage bs =
     bindR (read_squads_message (newMessageReader bs)) (\<lambda>(message, reader).
       if mr_remaining reader \<noteq> 0 then throw ''Squads vault transaction message has trailing bytes''
       else bindR (validateSquadsVaultTransactionMessage message) (\<lambda>_. Inr message))"

section \<open>Parsing a compiled Solana message\<close>

definition parse_instruction :: "(message_reader, squads_instruction) parser" where
  "parse_instruction =
     bindP readU8 (\<lambda>program.
     bindP (read_indexes readShortVectorLength) (\<lambda>accounts.
     bindP (bindP readShortVectorLength (\<lambda>n. mr_readBytes (nat n))) (\<lambda>data.
       returnP \<lparr>sq_program = program, sq_accounts = accounts, sq_data = data\<rparr>)))"

text \<open>The header: whether the message is versioned, and its number of signers.\<close>

definition parse_header :: "(message_reader, bool \<times> int) parser" where
  "parse_header =
     bindP readU8 (\<lambda>firstByte.
       if and firstByte 128 \<noteq> 0 then
         (if and firstByte 127 \<noteq> 0 then failP ''Only Solana message version zero is supported''
          else bindP readU8 (\<lambda>signers. returnP (True, signers)))
       else returnP (False, firstByte))"

definition parse_message :: "(message_reader, squads_message) parser" where
  "parse_message =
     bindP parse_header (\<lambda>(isVersionZero, numSigners).
     bindP readU8 (\<lambda>readonlySigned.
     bindP readU8 (\<lambda>readonlyUnsigned.
     bindP readShortVectorLength (\<lambda>staticAccountCount.
     bindP (repeatP (nat staticAccountCount) readKey) (\<lambda>accountKeys.
     bindP (mr_readBytes 32) (\<lambda>_.
     bindP (bindP readShortVectorLength (\<lambda>n. repeatP (nat n) parse_instruction)) (\<lambda>instructions.
     bindP (if isVersionZero
            then bindP readShortVectorLength (\<lambda>n. repeatP (nat n) (decode_squads_lookup readShortVectorLength))
            else returnP []) (\<lambda>lookups.
       returnP \<lparr>vm_signers = numSigners, vm_writable_signers = numSigners - readonlySigned,
         vm_writable_others = staticAccountCount - numSigners - readonlyUnsigned, vm_keys = accountKeys,
         vm_instructions = instructions, vm_lookups = lookups\<rparr>))))))))"

definition parseStandardCompiledMessage :: "bytes \<Rightarrow> squads_message res" where
  "parseStandardCompiledMessage bs =
     bindR (parse_message (newMessageReader bs)) (\<lambda>(message, reader).
       if mr_remaining reader \<noteq> 0 then throw ''Compiled Solana message has trailing bytes''
       else bindR (validateSquadsVaultTransactionMessage message) (\<lambda>_. Inr message))"

definition compileSquadsVaultTransactionMessage ::
  "solana_instruction list \<Rightarrow> key_input \<Rightarrow> address_lookup_table list \<Rightarrow> squads_message res" where
  "compileSquadsVaultTransactionMessage instructions vaultAddress addressLookupTables =
     bindR (normalizePublicKey vaultAddress) (\<lambda>vault.
     bindR (if addressLookupTables = []
            then compileUnversionedMessage instructions (KeyText vault) (KeyBytes (replicate 32 0))
            else compileVersionZeroMessage instructions (KeyText vault) (KeyBytes (replicate 32 0)) addressLookupTables)
       (\<lambda>compiled.
     bindR (parseStandardCompiledMessage (cm_bytes compiled)) (\<lambda>message.
       if vm_keys message = [] \<or> hd (vm_keys message) \<noteq> vault
       then throw ''Squads vault must be the first static account key''
       else if vm_signers message = 0 \<or> vm_writable_signers message = 0
       then throw ''Squads vault must be a writable signer in the inner message''
       else Inr message)))"

section \<open>The message reader is a reader\<close>

definition mr_unread :: "message_reader \<Rightarrow> bytes option" where
  "mr_unread r = (if mr_offset r \<le> length (mr_bytes r) then Some (drop (mr_offset r) (mr_bytes r)) else None)"

lemma mr_unread_new: "mr_unread (newMessageReader bs) = Some bs"
  by (simp add: mr_unread_def newMessageReader_def)

lemma mr_remaining_unread: "mr_unread r = Some us \<Longrightarrow> mr_remaining r = int (length us)"
  by (auto simp: mr_unread_def mr_remaining_def of_nat_diff split: if_splits)

interpretation message: byte_reader mr_readBytes mr_unread
proof unfold_locales
  fix r us and n :: nat
  assume "mr_unread r = Some us" "n \<le> length us"
  then show "\<exists>r'. mr_readBytes n r = Inr (take n us, r') \<and> mr_unread r' = Some (drop n us)"
    by (auto simp: mr_unread_def mr_readBytes_def mr_remaining_def add.commute split: if_splits)
next
  fix r us and n :: nat
  assume "mr_unread r = Some us" "length us < n"
  then show "\<not> is_ok (mr_readBytes n r)"
    by (auto simp: mr_unread_def mr_readBytes_def mr_remaining_def split: if_splits)
qed

abbreviation exact_message :: "(message_reader, 'a) parser \<Rightarrow> (bytes \<Rightarrow> 'a \<Rightarrow> bool) \<Rightarrow> bool" where
  "exact_message \<equiv> exact mr_unread"

text \<open>A whole message: the reader that stops at the end has read exactly the given bytes.\<close>

lemma read_whole_message:
  assumes "exact_message p R"
  shows "(\<exists>r. p (newMessageReader bs) = Inr (m, r) \<and> mr_remaining r = 0) \<longleftrightarrow> R bs m"
proof -
  have "mr_unread r = Some []" if "p (newMessageReader bs) = Inr (m, r)" "mr_remaining r = 0" for r
  proof -
    have "consumes mr_unread p R" using assms by (simp add: exact_def)
    from consumesD [OF this mr_unread_new that(1)] obtain rest where "mr_unread r = Some rest" by blast
    with mr_remaining_unread [OF this] that(2) show ?thesis by simp
  qed
  moreover have "mr_remaining r = 0" if "mr_unread r = Some []" for r
    using mr_remaining_unread [OF that] by simp
  ultimately show ?thesis using exact_whole [OF assms mr_unread_new, of bs m] by blast
qed

section \<open>Numbers\<close>

lemma byte_range: "0 \<le> uint (b :: byte) \<and> uint b < 256"
  using unsigned_less [where ?'a = int, of b] by simp

lemma unsigned_JNum: "unsignedIntegerFromValue (JNum n) = Inr k \<longleftrightarrow> k = n \<and> 0 \<le> n \<and> is_safe_integer n"
  by (auto simp: unsignedIntegerFromValue_def)

lemma nat_byte: "0 \<le> n \<Longrightarrow> (word_of_nat (nat n mod 256) :: byte) = word_of_int n"
  by (intro unsigned_word_eqI [where ?'a = int])
     (simp add: unsigned_of_nat unsigned_of_int take_bit_eq_mod nat_mod_distrib of_nat_mod)

lemma encodeU8_Inr: "encodeU8 (JNum n) = Inr bs \<longleftrightarrow> 0 \<le> n \<and> n \<le> 255 \<and> bs = [word_of_int n]"
  by (auto simp: encodeU8_def encodeUnsignedInteger_squads_def unsigned_JNum is_safe_integer_def MAX_SAFE_INTEGER_def
      nat_byte)

lemma encodeU16_Inr:
  "encodeU16 (JNum n) = Inr bs \<longleftrightarrow> 0 \<le> n \<and> n \<le> 65535 \<and> bs = [word_of_int n, word_of_int (n div 256)]"
proof -
  have "(word_of_nat (nat n div 256 mod 256) :: byte) = word_of_int (n div 256)" if "0 \<le> n"
    using nat_byte [of "n div 256"] that by (simp add: nat_div_distrib pos_imp_zdiv_nonneg_iff)
  then show ?thesis
    by (auto simp: encodeU16_def encodeUnsignedInteger_squads_def unsigned_JNum is_safe_integer_def MAX_SAFE_INTEGER_def
        nat_byte numeral_2_eq_2)
qed

lemma exact_U8: "exact_message readU8 (\<lambda>bs n. encodeU8 (JNum n) = Inr bs)"
  unfolding readU8_def
proof (rule exact_cong [OF exact_map [OF message.exact_read]])
  fix bs :: bytes and x
  show "(\<exists>cs. (cs = bs \<and> length bs = 1) \<and> x = first_byte cs) \<longleftrightarrow> encodeU8 (JNum x) = Inr bs"
  proof
    assume "\<exists>cs. (cs = bs \<and> length bs = 1) \<and> x = first_byte cs"
    then obtain b where "bs = [b]" "x = uint b" by (auto simp: first_byte_def length_Suc_conv)
    then show "encodeU8 (JNum x) = Inr bs" using byte_range [of b] by (simp add: encodeU8_Inr)
  next
    assume "encodeU8 (JNum x) = Inr bs"
    then show "\<exists>cs. (cs = bs \<and> length bs = 1) \<and> x = first_byte cs"
      by (simp add: encodeU8_Inr first_byte_def unsigned_of_int take_bit_eq_mod)
  qed
qed

lemma two_bytes: "0 \<le> a \<Longrightarrow> a < 256 \<Longrightarrow> or a (push_bit 8 b) = a + 256 * (b :: int)"
proof -
  assume a: "0 \<le> a" "a < 256"
  have "\<not> bit a n" if "8 \<le> n" for n
  proof -
    have "(2 :: int) ^ 8 \<le> 2 ^ n" using that by (intro power_increasing) simp_all
    then show ?thesis using a by (simp add: bit_iff_odd div_pos_pos_trivial)
  qed
  then have "a + push_bit 8 b = or a (push_bit 8 b)"
    by (intro disjunctive_add) (auto simp: bit_push_bit_iff)
  then show ?thesis by (simp add: push_bit_eq_mult mult.commute)
qed

lemma byte_of_int_add: "(word_of_int (k + 256 * j) :: byte) = word_of_int k"
  by (rule unsigned_word_eqI [where ?'a = int]) (simp only: unsigned_of_int take_bit_eq_mod, simp)

lemma exact_U16: "exact_message readU16 (\<lambda>bs n. encodeU16 (JNum n) = Inr bs)"
  unfolding readU16_def
proof (rule exact_cong [OF exact_map [OF message.exact_read]])
  fix bs :: bytes and x
  let ?f = "\<lambda>bs. or (first_byte bs) (push_bit 8 (first_byte (tl bs)))"
  show "(\<exists>cs. (cs = bs \<and> length bs = 2) \<and> x = ?f cs) \<longleftrightarrow> encodeU16 (JNum x) = Inr bs"
  proof
    assume "\<exists>cs. (cs = bs \<and> length bs = 2) \<and> x = ?f cs"
    then obtain a b where "bs = [a, b]" "x = uint a + 256 * uint b"
      using two_bytes byte_range by (auto simp: first_byte_def length_Suc_conv numeral_2_eq_2)
    then show "encodeU16 (JNum x) = Inr bs" using byte_range [of a] byte_range [of b]
      by (simp add: encodeU16_Inr byte_of_int_add del: of_int_add of_int_mult)
  next
    assume "encodeU16 (JNum x) = Inr bs"
    then have x: "0 \<le> x" "x \<le> 65535" "bs = [word_of_int x, word_of_int (x div 256)]" by (auto simp: encodeU16_Inr)
    have "x = x mod 256 + 256 * (x div 256)" by simp
    moreover have "x div 256 mod 256 = x div 256" using x by (simp add: mod_pos_pos_trivial pos_imp_zdiv_nonneg_iff)
    ultimately have "?f bs = x"
      using two_bytes [of "x mod 256" "x div 256"] x
      by (simp add: first_byte_def unsigned_of_int take_bit_eq_mod pos_imp_zdiv_nonneg_iff)
    with x show "\<exists>cs. (cs = bs \<and> length bs = 2) \<and> x = ?f cs" by simp
  qed
qed

section \<open>Keys, indexes and counted lists\<close>

lemma exact_key: "exact_message readKey (\<lambda>bs k. decodePublicKey (KeyText k) = Inr bs)"
  by (rule exact_cong [OF exact_map [OF message.exact_read]])
     (auto simp: decodePublicKey_Inr decode_encode_base58 encode_decode_base58)

lemma exact_counted:
  assumes "exact_message p L" "\<And>bs n. L bs n \<Longrightarrow> 0 \<le> n"
    and f: "\<And>n. exact_message (f n) (\<lambda>bs xs. length xs = n \<and> Q bs xs)"
  shows "exact_message (bindP p (\<lambda>n. f (nat n))) (\<lambda>bs xs. \<exists>h t. bs = h @ t \<and> L h (len xs) \<and> Q t xs)"
proof (rule exact_cong [OF exact_bind [OF assms(1) f]])
  fix bs xs
  show "(\<exists>b1 n b2. bs = b1 @ b2 \<and> L b1 n \<and> length xs = nat n \<and> Q b2 xs)
      \<longleftrightarrow> (\<exists>h t. bs = h @ t \<and> L h (len xs) \<and> Q t xs)"
    using assms(2) by fastforce
qed

definition byte_indexes :: "int list \<Rightarrow> bool" where
  "byte_indexes xs \<longleftrightarrow> (\<forall>x \<in> set xs. 0 \<le> x \<and> x \<le> 255)"

lemma bytes_as_ints: "(xs = map uint (bs :: bytes)) \<longleftrightarrow> bs = map word_of_int xs \<and> byte_indexes xs"
proof
  assume "xs = map uint bs"
  then show "bs = map word_of_int xs \<and> byte_indexes xs"
    using byte_range by (auto simp: byte_indexes_def comp_def) (smt (verit))
next
  assume "bs = map word_of_int xs \<and> byte_indexes xs"
  then show "xs = map uint bs"
    by (auto simp: byte_indexes_def unsigned_of_int take_bit_eq_mod intro!: map_idI [symmetric])
qed

lemma exact_indexes:
  assumes "exact_message p L" "\<And>bs n. L bs n \<Longrightarrow> 0 \<le> n"
  shows "exact_message (read_indexes p)
    (\<lambda>bs xs. \<exists>h. bs = h @ map word_of_int xs \<and> L h (len xs) \<and> byte_indexes xs)"
  unfolding read_indexes_def
proof (rule exact_cong [OF exact_counted [OF assms, where Q = "\<lambda>bs xs. bs = map word_of_int xs \<and> byte_indexes xs"]])
  fix n
  show "exact_message (mapP (map uint) (mr_readBytes n))
      (\<lambda>bs xs. length xs = n \<and> bs = map word_of_int xs \<and> byte_indexes xs)"
    by (rule exact_cong [OF exact_map [OF message.exact_read]])
       (auto simp: bytes_as_ints [symmetric])
qed auto

lemma exact_block:
  assumes "exact_message p L" "\<And>bs n. L bs n \<Longrightarrow> 0 \<le> n"
  shows "exact_message (bindP p (\<lambda>n. mr_readBytes (nat n))) (\<lambda>bs data. \<exists>h. bs = h @ data \<and> L h (len data))"
proof (rule exact_cong [OF exact_counted [OF assms, where Q = "\<lambda>bs xs. xs = bs"]])
  fix n
  show "exact_message (mr_readBytes n) (\<lambda>bs xs. length xs = n \<and> xs = bs)"
    by (rule exact_cong [OF message.exact_read]) auto
qed auto

lemma exact_list:
  assumes "exact_message p L" "\<And>bs n. L bs n \<Longrightarrow> 0 \<le> n" "exact_message q R"
  shows "exact_message (bindP p (\<lambda>n. repeatP (nat n) q))
    (\<lambda>bs xs. \<exists>h bss. bs = h @ concat bss \<and> L h (len xs) \<and> list_all2 R bss xs)"
  by (rule exact_cong [OF exact_counted [OF assms(1,2) exact_repeat [OF assms(3)]]]) auto

lemma U8_nonneg: "encodeU8 (JNum n) = Inr bs \<Longrightarrow> 0 \<le> n" by (simp add: encodeU8_Inr)
lemma U16_nonneg: "encodeU16 (JNum n) = Inr bs \<Longrightarrow> 0 \<le> n" by (simp add: encodeU16_Inr)

lemma squads_instruction_eq: "i = \<lparr>sq_program = p, sq_accounts = a, sq_data = d\<rparr> \<longleftrightarrow>
    p = sq_program i \<and> a = sq_accounts i \<and> d = sq_data i"
  by (cases i) auto

lemma squads_lookup_eq: "l = \<lparr>sq_key = k, sq_writable = w, sq_readonly = r\<rparr> \<longleftrightarrow>
    k = sq_key l \<and> w = sq_writable l \<and> r = sq_readonly l"
  by (cases l) auto

lemma squads_message_eq: "m = \<lparr>vm_signers = s, vm_writable_signers = w, vm_writable_others = v, vm_keys = k,
      vm_instructions = i, vm_lookups = l\<rparr> \<longleftrightarrow>
    s = vm_signers m \<and> w = vm_writable_signers m \<and> v = vm_writable_others m \<and> k = vm_keys m \<and>
    i = vm_instructions m \<and> l = vm_lookups m"
  by (cases m) auto

lemma exact_instruction: "exact_message decode_squads_instruction
  (\<lambda>bs i. (\<exists>parts. encode_squads_instruction i = Inr parts \<and> bs = concat parts) \<and> byte_indexes (sq_accounts i))"
proof -
  note steps = exact_bind [OF exact_U8 exact_bind [OF exact_indexes [OF exact_U8 U8_nonneg]
      exact_bind [OF exact_block [OF exact_U16 U16_nonneg] exact_return]]]
  show ?thesis unfolding decode_squads_instruction_def
    by (rule exact_cong [OF steps]) (auto simp: encode_squads_instruction_def squads_instruction_eq)
qed

lemma exact_lookup: "exact_message (decode_squads_lookup readU8)
  (\<lambda>bs l. (\<exists>parts. encode_squads_lookup l = Inr parts \<and> bs = concat parts) \<and>
     byte_indexes (sq_writable l) \<and> byte_indexes (sq_readonly l))"
proof -
  note steps = exact_bind [OF exact_key exact_bind [OF exact_indexes [OF exact_U8 U8_nonneg]
      exact_bind [OF exact_indexes [OF exact_U8 U8_nonneg] exact_return]]]
  show ?thesis unfolding decode_squads_lookup_def
    by (rule exact_cong [OF steps]) (auto simp: encode_squads_lookup_def squads_lookup_eq)
qed

section \<open>Messages round trip\<close>

lemma list_all2_mapR: "list_all2 (\<lambda>b x. f x = Inr b) bss xs \<longleftrightarrow> mapR f xs = Inr bss"
  by (induction xs arbitrary: bss) (auto simp: list_all2_Cons2)

lemma list_all2_parts:
  "list_all2 (\<lambda>b x. \<exists>parts. enc x = Inr parts \<and> b = concat parts) bss xs
   \<longleftrightarrow> (\<exists>partss. mapR enc xs = Inr partss \<and> bss = map concat partss)"
proof (induction xs arbitrary: bss)
  case (Cons x xs)
  then show ?case by (cases bss) auto
qed simp

lemma list_all2_and: "list_all2 (\<lambda>b x. P b x \<and> Q x) bss xs \<longleftrightarrow> list_all2 P bss xs \<and> list_all Q xs"
  by (auto simp: list_all2_conv_all_nth list_all_length)

lemma encoded_list:
  "(\<exists>bss. bs = concat bss \<and> list_all2 (\<lambda>b x. (\<exists>parts. enc x = Inr parts \<and> b = concat parts) \<and> Q x) bss xs)
   \<longleftrightarrow> (\<exists>partss. mapR enc xs = Inr partss \<and> bs = concat (concat partss)) \<and> list_all Q xs"
  unfolding list_all2_and list_all2_parts by (auto simp: concat_concat)

lemma eachR_Inr [simp]: "eachR f xs = Inr u \<longleftrightarrow> (\<forall>x \<in> set xs. f x = Inr ())"
  by (induction xs) auto

lemma assertU8_Inr [simp]: "assertU8 n = Inr u \<longleftrightarrow> 0 \<le> n \<and> n \<le> 255"
  by (auto simp: assertU8_def)

lemma assertU16_Inr [simp]: "assertU16 n = Inr u \<longleftrightarrow> 0 \<le> n \<and> n \<le> 65535"
  by (auto simp: assertU16_def)

lemma validate_indexes:
  assumes "validateSquadsVaultTransactionMessage m = Inr ()"
  shows "list_all (\<lambda>i. byte_indexes (sq_accounts i)) (vm_instructions m)"
    "list_all (\<lambda>l. byte_indexes (sq_writable l) \<and> byte_indexes (sq_readonly l)) (vm_lookups m)"
  using assms
  by (auto simp: validateSquadsVaultTransactionMessage_def validate_instruction_def validate_lookup_def
      byte_indexes_def list_all_iff Let_def split: if_splits)

text \<open>The bytes of a message, whether or not it is valid.\<close>

definition message_bytes :: "squads_message \<Rightarrow> bytes \<Rightarrow> bool" where
  "message_bytes m bs \<longleftrightarrow>
     (\<exists>s w v k keys i ins l lks. bs = s @ w @ v @ (k @ concat keys) @ (i @ concat (concat ins)) @ l @ concat (concat lks) \<and>
        encodeU8 (JNum (vm_signers m)) = Inr s \<and> encodeU8 (JNum (vm_writable_signers m)) = Inr w \<and>
        encodeU8 (JNum (vm_writable_others m)) = Inr v \<and>
        encodeU8 (JNum (len (vm_keys m))) = Inr k \<and> mapR (\<lambda>key. decodePublicKey (KeyText key)) (vm_keys m) = Inr keys \<and>
        encodeU8 (JNum (len (vm_instructions m))) = Inr i \<and> mapR encode_squads_instruction (vm_instructions m) = Inr ins \<and>
        encodeU8 (JNum (len (vm_lookups m))) = Inr l \<and> mapR encode_squads_lookup (vm_lookups m) = Inr lks) \<and>
     list_all (\<lambda>i. byte_indexes (sq_accounts i)) (vm_instructions m) \<and>
     list_all (\<lambda>l. byte_indexes (sq_writable l) \<and> byte_indexes (sq_readonly l)) (vm_lookups m)"

lemma encode_squads_Inr:
  "encodeSquadsVaultTransactionMessage m = Inr bs \<longleftrightarrow>
   validateSquadsVaultTransactionMessage m = Inr () \<and> message_bytes m bs"
  using validate_indexes [of m]
  by (auto simp: encodeSquadsVaultTransactionMessage_def message_bytes_def)

lemma exact_squads_message: "exact_message read_squads_message (\<lambda>bs m. message_bytes m bs)"
proof -
  note keys = exact_list [OF exact_U8 U8_nonneg exact_key]
    and ins = exact_list [OF exact_U8 U8_nonneg exact_instruction]
    and lks = exact_list [OF exact_U8 U8_nonneg exact_lookup]
  note steps = exact_bind [OF exact_U8 exact_bind [OF exact_U8 exact_bind [OF exact_U8
      exact_bind [OF keys exact_bind [OF ins exact_bind [OF lks exact_return]]]]]]
  show ?thesis unfolding read_squads_message_def
    by (rule exact_cong [OF steps])
       (auto simp: message_bytes_def list_all2_mapR list_all2_and list_all2_parts squads_message_eq concat_concat)
qed

lemma decode_squads_iff:
  "decodeSquadsVaultTransactionMessage bs = Inr m \<longleftrightarrow> encodeSquadsVaultTransactionMessage m = Inr bs"
proof -
  have "decodeSquadsVaultTransactionMessage bs = Inr m \<longleftrightarrow>
      (\<exists>r. read_squads_message (newMessageReader bs) = Inr (m, r) \<and> mr_remaining r = 0) \<and>
      validateSquadsVaultTransactionMessage m = Inr ()"
    by (auto simp: decodeSquadsVaultTransactionMessage_def split: if_splits)
  then show ?thesis unfolding read_whole_message [OF exact_squads_message] encode_squads_Inr by blast
qed
end
