(* ===== verification/LookupTables.thy ===== *)
theory LookupTables
  imports SolanaTransaction "HOL-Library.Multiset" "HOL-Library.Sublist"
begin

text \<open>
  What \<open>placeAccountsInLookupTables\<close> of \<open>SolanaTransaction.ts\<close> computes: an account that neither signs nor is a
  program and is in some table leaves the static list and is loaded from a table, in the writable or the readonly
  half; every other account stays.
\<close>

section \<open>The index of a table\<close>

definition indexed :: "string list \<Rightarrow> (string \<times> nat) list \<Rightarrow> bool" where
  "indexed xs indexes \<longleftrightarrow> (\<forall>k. map_of indexes k = None \<longleftrightarrow> k \<notin> set xs) \<and>
     (\<forall>k i. map_of indexes k = Some i \<longrightarrow> i < length xs \<and> xs ! i = k)"

lemma indexed_snoc:
  "indexed xs indexes \<Longrightarrow> k \<in> set xs \<Longrightarrow> indexed (xs @ [k]) indexes"
  "indexed xs indexes \<Longrightarrow> indexed (xs @ [k]) (obj_set indexes k (length xs))"
  by (auto simp: indexed_def map_of_obj_set nth_append less_Suc_eq)

definition index_table_step :: "nat \<times> string \<Rightarrow> (string \<times> nat) list \<Rightarrow> (string \<times> nat) list res" where
  "index_table_step = (\<lambda>(addressIndex, address) indexes.
     if map_of indexes address \<noteq> None then Inr indexes
     else bindR (normalizePublicKey (KeyText address)) (\<lambda>key. Inr (obj_set indexes key addressIndex)))"

lemma index_table_fold:
  "foldR index_table_step (enumerate (length xs) ys) indexes = Inr indexes' \<Longrightarrow> indexed xs indexes \<Longrightarrow>
   indexed (xs @ ys) indexes'"
proof (induction ys arbitrary: xs indexes)
  case (Cons y ys)
  then obtain indexes1 where s: "index_table_step (length xs, y) indexes = Inr indexes1"
    "foldR index_table_step (enumerate (length (xs @ [y])) ys) indexes1 = Inr indexes'" by auto
  have "indexed (xs @ [y]) indexes1"
  proof (cases "map_of indexes y = None")
    case True
    with s(1) have "indexes1 = obj_set indexes y (length xs)" by (auto simp: index_table_step_def)
    with Cons.prems(2) show ?thesis by (simp add: indexed_snoc(2))
  next
    case False
    with s(1) Cons.prems(2) have "indexes1 = indexes" "y \<in> set xs" by (auto simp: index_table_step_def indexed_def)
    with Cons.prems(2) show ?thesis by (simp add: indexed_snoc(1))
  qed
  from Cons.IH [OF s(2) this] show ?case by simp
qed simp

definition index_of_table :: "address_lookup_table \<Rightarrow> (string \<times> nat) list \<Rightarrow> bool" where
  "index_of_table table indexes \<longleftrightarrow> length (lt_addresses table) \<le> 256 \<and> indexed (lt_addresses table) indexes"

lemma table_indexes_ok: "table_indexes table = Inr indexes \<Longrightarrow> index_of_table table indexes"
  using index_table_fold [of "[]" "lt_addresses table" "[]" indexes]
  by (simp add: table_indexes_def index_of_table_def index_table_step_def indexed_def split: if_splits)

lemma tables_indexed: "mapR table_indexes lookupTables = Inr tables \<Longrightarrow> list_all2 index_of_table lookupTables tables"
  unfolding mapR_eq_Inr_iff by (erule list_all2_mono) (rule table_indexes_ok)

section \<open>Loading\<close>

text \<open>The addresses that index lists load, one list per table.\<close>

definition loads :: "address_lookup_table list \<Rightarrow> nat list list \<Rightarrow> string list" where
  "loads tables indexes = concat (map2 (\<lambda>t. map (\<lambda>i. lt_addresses t ! i)) tables indexes)"

definition in_tables :: "address_lookup_table list \<Rightarrow> string \<Rightarrow> bool" where
  "in_tables tables k \<longleftrightarrow> list_ex (\<lambda>t. k \<in> set (lt_addresses t)) tables"

definition stays :: "address_lookup_table list \<Rightarrow> aggregated_meta \<Rightarrow> bool" where
  "stays tables m \<longleftrightarrow> gm_signer m \<or> gm_program m \<or> \<not> in_tables tables (gm_address m)"

definition indexes_fit :: "address_lookup_table \<Rightarrow> nat list \<Rightarrow> bool" where
  "indexes_fit t indexes \<longleftrightarrow> (\<forall>i \<in> set indexes. i < length (lt_addresses t))"

lemma loads_simps [simp]:
  "loads [] indexes = []" "loads tables [] = []"
  "loads (t # tables) (is # indexes) = map (\<lambda>i. lt_addresses t ! i) is @ loads tables indexes"
  by (simp_all add: loads_def)

lemma loads_replicate [simp]: "loads tables (replicate n []) = []"
  by (induction tables arbitrary: n) (auto simp: loads_def gr0_conv_Suc split: nat.splits dest: in_set_zipE)

lemma loads_update:
  "length indexes = length tables \<Longrightarrow> t < length tables \<Longrightarrow>
   mset (loads tables (indexes[t := indexes ! t @ [i]])) = add_mset (lt_addresses (tables ! t) ! i) (mset (loads tables indexes))"
  by (induction indexes tables arbitrary: t rule: list_induct2) (auto simp: less_Suc_eq_0_disj)

lemma fit_update:
  "list_all2 indexes_fit tables indexes \<Longrightarrow> t < length tables \<Longrightarrow> i < length (lt_addresses (tables ! t)) \<Longrightarrow>
   list_all2 indexes_fit tables (indexes[t := indexes ! t @ [i]])"
  by (auto simp: list_all2_conv_all_nth nth_list_update indexes_fit_def)

lemma find_placement_Some:
  "find_placement tables n meta = Some p \<Longrightarrow> list_all2 index_of_table lookupTables tables \<Longrightarrow>
   n \<le> lp_table p \<and> lp_table p - n < length lookupTables \<and>
   lp_index p < length (lt_addresses (lookupTables ! (lp_table p - n))) \<and>
   lt_addresses (lookupTables ! (lp_table p - n)) ! lp_index p = gm_address meta \<and>
   lp_writable p = gm_writable meta \<and> in_tables lookupTables (gm_address meta)"
proof (induction tables arbitrary: n lookupTables)
  case (Cons indexes rest)
  from Cons.prems(2) obtain t ts where ts: "lookupTables = t # ts" "index_of_table t indexes"
    "list_all2 index_of_table ts rest" by (auto simp: list_all2_Cons2)
  show ?case
  proof (cases "map_of indexes (gm_address meta)")
    case None
    with Cons.prems(1) have "find_placement rest (n + 1) meta = Some p" by simp
    from Cons.IH [OF this ts(3)] show ?thesis by (auto simp: ts(1) in_tables_def nth_Cons' Suc_diff_le)
  next
    case (Some i)
    then have "lt_addresses t ! i = gm_address meta" "i < length (lt_addresses t)"
      using ts(2) by (auto simp: index_of_table_def indexed_def)
    moreover from this have "gm_address meta \<in> set (lt_addresses t)" by (metis nth_mem)
    ultimately show ?thesis using Cons.prems(1) Some by (auto simp: ts(1) in_tables_def)
  qed
qed simp

lemma find_placement_None:
  "list_all2 index_of_table lookupTables tables \<Longrightarrow>
   find_placement tables n meta = None \<longleftrightarrow> \<not> in_tables lookupTables (gm_address meta)"
proof (induction lookupTables tables arbitrary: n rule: list_all2_induct)
  case (Cons t ts indexes rest)
  then have "map_of indexes (gm_address meta) = None \<longleftrightarrow> gm_address meta \<notin> set (lt_addresses t)"
    by (simp add: index_of_table_def indexed_def)
  with Cons.IH show ?case by (auto simp: in_tables_def split: option.splits)
qed (simp add: in_tables_def)

section \<open>Placing\<close>

definition placed :: "address_lookup_table list \<Rightarrow> aggregated_meta list \<Rightarrow> placement_state \<Rightarrow> bool" where
  "placed tables metas st \<longleftrightarrow>
     ps_static st = filter (stays tables) metas \<and>
     list_all2 indexes_fit tables (ps_writable st) \<and> list_all2 indexes_fit tables (ps_readonly st) \<and>
     mset (loads tables (ps_writable st)) = mset (map gm_address (filter (\<lambda>m. \<not> stays tables m \<and> gm_writable m) metas)) \<and>
     mset (loads tables (ps_readonly st)) = mset (map gm_address (filter (\<lambda>m. \<not> stays tables m \<and> \<not> gm_writable m) metas))"

lemma place_meta_placed:
  assumes step: "place_meta tables (n, meta) st = Inr st'" and tables: "list_all2 index_of_table lookupTables tables"
    and first: "n = 0 \<longrightarrow> gm_signer meta" and st: "placed lookupTables metas st"
  shows "placed lookupTables (metas @ [meta]) st'"
proof (cases "stays lookupTables meta")
  case True
  then have "st' = st\<lparr>ps_static := ps_static st @ [meta]\<rparr>"
    using step first find_placement_None [OF tables, of 0 meta]
    by (auto simp: place_meta_def stays_def Let_def split: if_splits option.splits)
  with True st show ?thesis by (simp add: placed_def)
next
  case False
  then obtain p where p: "find_placement tables 0 meta = Some p"
    using find_placement_None [OF tables, of 0 meta] by (auto simp: stays_def)
  note q = find_placement_Some [OF p tables]
  have len: "length (ps_writable st) = length lookupTables" "length (ps_readonly st) = length lookupTables"
    using st by (auto simp: placed_def dest: list_all2_lengthD)
  show ?thesis
  proof (cases "gm_writable meta")
    case True
    then have "st' = st\<lparr>ps_placements := obj_set (ps_placements st) (gm_address meta) p,
        ps_writable := (ps_writable st)[lp_table p := ps_writable st ! lp_table p @ [lp_index p]]\<rparr>"
      using step False first p q len by (auto simp: place_meta_def stays_def Let_def split: if_splits)
    with True False st q len show ?thesis by (auto simp: placed_def loads_update fit_update)
  next
    case W: False
    then have "st' = st\<lparr>ps_placements := obj_set (ps_placements st) (gm_address meta) p,
        ps_readonly := (ps_readonly st)[lp_table p := ps_readonly st ! lp_table p @ [lp_index p]]\<rparr>"
      using step False first p q len by (auto simp: place_meta_def stays_def Let_def split: if_splits)
    with W False st q len show ?thesis by (auto simp: placed_def loads_update fit_update)
  qed
qed

lemma place_metas_placed:
  "foldR (place_meta tables) (enumerate n metas) st = Inr st' \<Longrightarrow> list_all2 index_of_table lookupTables tables \<Longrightarrow>
   n = 0 \<longrightarrow> metas \<noteq> [] \<longrightarrow> gm_signer (hd metas) \<Longrightarrow> placed lookupTables before st \<Longrightarrow>
   placed lookupTables (before @ metas) st'"
proof (induction metas arbitrary: n before st)
  case (Cons m metas)
  then obtain st1 where s: "place_meta tables (n, m) st = Inr st1"
    "foldR (place_meta tables) (enumerate (Suc n) metas) st1 = Inr st'" by auto
  have "placed lookupTables (before @ [m]) st1"
    using s(1) Cons.prems by (intro place_meta_placed) auto
  from Cons.IH [OF s(2) Cons.prems(2) _ this] show ?case by simp
qed simp

section \<open>The lookups\<close>

text \<open>Each lookup belongs to one of the tables, in the order of the tables, and names positions of it.\<close>

definition lookup_into :: "address_lookup_table \<Rightarrow> compiled_lookup \<Rightarrow> bool" where
  "lookup_into t l \<longleftrightarrow> normalizePublicKey (KeyText (lt_address t)) = Inr (cl_table l) \<and>
     indexes_fit t (cl_writable l) \<and> indexes_fit t (cl_readonly l) \<and> (cl_writable l \<noteq> [] \<or> cl_readonly l \<noteq> [])"

definition lookups_load ::
  "address_lookup_table list \<Rightarrow> compiled_lookup list \<Rightarrow> string list \<Rightarrow> string list \<Rightarrow> bool" where
  "lookups_load tables lookups writable readonly \<longleftrightarrow>
     (\<exists>used. subseq used tables \<and> list_all2 lookup_into used lookups \<and>
        writable = loads used (map cl_writable lookups) \<and> readonly = loads used (map cl_readonly lookups))"

lemma loaded_addresses:
  "mapR (loaded_address table) indexes = Inr keys \<Longrightarrow>
   keys = map (\<lambda>i. lt_addresses table ! i) indexes \<and> indexes_fit table indexes"
  by (induction indexes arbitrary: keys) (auto simp: loaded_address_def indexes_fit_def split: if_splits)

lemma loads_append:
  "length a = length ia \<Longrightarrow> loads (a @ b) (ia @ ib) = loads a ia @ loads b ib"
  by (simp add: loads_def)

lemma lookups_load_snoc:
  assumes "lookups_load before lookups w r"
  shows "lookups_load (before @ [t]) lookups w r"
    and "lookup_into t l \<Longrightarrow> lookups_load (before @ [t]) (lookups @ [l])
      (w @ map (\<lambda>i. lt_addresses t ! i) (cl_writable l)) (r @ map (\<lambda>i. lt_addresses t ! i) (cl_readonly l))"
proof -
  obtain used where u: "subseq used before" "list_all2 lookup_into used lookups"
    "w = loads used (map cl_writable lookups)" "r = loads used (map cl_readonly lookups)"
    using assms by (auto simp: lookups_load_def)
  have len: "length used = length lookups" using u(2) by (rule list_all2_lengthD)
  have "subseq used (before @ [t])" using u(1) by (rule subseq_rev_drop_many)
  with u show "lookups_load (before @ [t]) lookups w r" unfolding lookups_load_def by blast
  assume "lookup_into t l"
  then show "lookups_load (before @ [t]) (lookups @ [l])
      (w @ map (\<lambda>i. lt_addresses t ! i) (cl_writable l)) (r @ map (\<lambda>i. lt_addresses t ! i) (cl_readonly l))"
    unfolding lookups_load_def using u len
    by (intro exI [of _ "used @ [t]"]) (simp add: loads_append list_all2_appendI)
qed

lemma collect_lookups:
  "foldR (collect_lookup st) (enumerate n tables) (w, r, lookups) = Inr (w', r', lookups') \<Longrightarrow>
   n + length tables = length (ps_writable st) \<Longrightarrow> length (ps_readonly st) = length (ps_writable st) \<Longrightarrow>
   lookups_load before lookups w r \<Longrightarrow>
   lookups_load (before @ tables) lookups' w' r' \<and>
   w' = w @ loads tables (drop n (ps_writable st)) \<and> r' = r @ loads tables (drop n (ps_readonly st))"
proof (induction tables arbitrary: n before w r lookups)
  case (Cons t tables)
  have n: "n < length (ps_writable st)" "n < length (ps_readonly st)" using Cons.prems by simp_all
  let ?w = "ps_writable st ! n" and ?r = "ps_readonly st ! n"
  obtain w1 r1 l1 where s: "collect_lookup st (n, t) (w, r, lookups) = Inr (w1, r1, l1)"
    "foldR (collect_lookup st) (enumerate (Suc n) tables) (w1, r1, l1) = Inr (w', r', lookups')"
    using Cons.prems(1) by auto
  have load: "w1 = w @ map (\<lambda>i. lt_addresses t ! i) ?w \<and> r1 = r @ map (\<lambda>i. lt_addresses t ! i) ?r \<and>
      lookups_load (before @ [t]) l1 w1 r1"
  proof (cases "?w = [] \<and> ?r = []")
    case True
    then show ?thesis using s(1) n lookups_load_snoc(1) [OF Cons.prems(4), of t]
      by (simp add: collect_lookup_def Let_def)
  next
    case False
    then obtain k nw nr where k: "normalizePublicKey (KeyText (lt_address t)) = Inr k"
      "mapR (loaded_address t) ?w = Inr nw" "mapR (loaded_address t) ?r = Inr nr" "w1 = w @ nw" "r1 = r @ nr"
      "l1 = lookups @ [\<lparr>cl_table = k, cl_writable = ?w, cl_readonly = ?r\<rparr>]"
      using s(1) n by (auto simp: collect_lookup_def Let_def simp del: normalizePublicKey_text)
    note new = loaded_addresses [OF k(2)] loaded_addresses [OF k(3)]
    have "lookup_into t \<lparr>cl_table = k, cl_writable = ?w, cl_readonly = ?r\<rparr>"
      using False k(1) new by (auto simp: lookup_into_def)
    from lookups_load_snoc(2) [OF Cons.prems(4) this] k new show ?thesis by simp
  qed
  then have "lookups_load (before @ [t]) l1 w1 r1" by blast
  from Cons.IH [OF s(2) _ Cons.prems(3) this] Cons.prems(2)
  have l: "lookups_load (before @ t # tables) lookups' w' r'"
    and wr: "w' = w1 @ loads tables (drop (Suc n) (ps_writable st))" "r' = r1 @ loads tables (drop (Suc n) (ps_readonly st))"
    by auto
  have "w' = w @ loads (t # tables) (drop n (ps_writable st)) \<and> r' = r @ loads (t # tables) (drop n (ps_readonly st))"
    using load n by (simp add: wr Cons_nth_drop_Suc [symmetric])
  with l show ?case by blast
qed simp

lemma lookups_load_Nil: "lookups_load [] [] [] []"
  by (simp add: lookups_load_def)

lemma placeAccountsInLookupTables_ok:
  assumes place: "placeAccountsInLookupTables metas tables = Inr lc" and first: "metas \<noteq> []" "gm_signer (hd metas)"
  shows "lc_static lc = filter (stays tables) metas \<and>
    mset (lc_writable lc) = mset (map gm_address (filter (\<lambda>m. \<not> stays tables m \<and> gm_writable m) metas)) \<and>
    mset (lc_readonly lc) = mset (map gm_address (filter (\<lambda>m. \<not> stays tables m \<and> \<not> gm_writable m) metas)) \<and>
    lookups_load tables (lc_lookups lc) (lc_writable lc) (lc_readonly lc) \<and>
    (\<forall>t \<in> set tables. length (lt_addresses t) \<le> 256)"
proof -
  obtain ixs st where *: "mapR table_indexes tables = Inr ixs"
    "foldR (place_meta ixs) (enumerate 0 metas)
        \<lparr>ps_static = [], ps_placements = [], ps_writable = replicate (length tables) [],
         ps_readonly = replicate (length tables) []\<rparr> = Inr st"
    "foldR (collect_lookup st) (enumerate 0 tables) ([], [], []) = Inr (lc_writable lc, lc_readonly lc, lc_lookups lc)"
    "lc_static lc = ps_static st"
    using place by (auto simp: placeAccountsInLookupTables_def)
  note ixs = tables_indexed [OF *(1)]
  have "list_all2 indexes_fit tables (replicate (length tables) [])"
    by (simp add: list_all2_conv_all_nth indexes_fit_def)
  then have "placed tables [] \<lparr>ps_static = [], ps_placements = [], ps_writable = replicate (length tables) [],
      ps_readonly = replicate (length tables) []\<rparr>" by (simp add: placed_def)
  from place_metas_placed [OF *(2) ixs _ this] first have st: "placed tables metas st" by simp
  then have len: "length tables = length (ps_writable st)" "length (ps_readonly st) = length (ps_writable st)"
    unfolding placed_def by (metis list_all2_lengthD)+
  have l: "lookups_load tables (lc_lookups lc) (lc_writable lc) (lc_readonly lc)"
    and w: "lc_writable lc = loads tables (ps_writable st)" and r: "lc_readonly lc = loads tables (ps_readonly st)"
    using collect_lookups [OF *(3) _ len(2) lookups_load_Nil] len(1) by auto
  have "\<forall>t \<in> set tables. length (lt_addresses t) \<le> 256"
    using ixs by (auto simp: list_all2_conv_all_nth index_of_table_def in_set_conv_nth)
  then show ?thesis using st *(4) l unfolding w r by (simp add: placed_def)
qed

section \<open>The versioned message\<close>

text \<open>The keys that must stay in a message: the payer, signers, programs and keys of no table.\<close>

definition must_stay :: "string \<Rightarrow> solana_instruction list \<Rightarrow> address_lookup_table list \<Rightarrow> string \<Rightarrow> bool" where
  "must_stay payer instructions tables k \<longleftrightarrow>
     k = payer \<or> asks_signer instructions k \<or> runs instructions k \<or> \<not> in_tables tables k"

definition versioned_ok ::
  "string \<Rightarrow> solana_instruction list \<Rightarrow> key_input \<Rightarrow> address_lookup_table list \<Rightarrow> compiled_message
   \<Rightarrow> string list \<Rightarrow> string list \<Rightarrow> string list \<Rightarrow> bool" where
  "versioned_ok payer instructions blockhash tables msg static writable readonly \<longleftrightarrow>
     cm_account_keys msg = static @ writable @ readonly \<and> distinct (cm_account_keys msg) \<and>
     set (cm_account_keys msg) = {k. k = payer \<or> mentions instructions k} \<and>
     static \<noteq> [] \<and> hd static = payer \<and> cm_signers msg = take (cm_required_signatures msg) static \<and>
     (\<forall>k \<in> set static. must_stay payer instructions tables k) \<and>
     (\<forall>k \<in> set writable. \<not> must_stay payer instructions tables k \<and> asks_writable instructions k) \<and>
     (\<forall>k \<in> set readonly. \<not> must_stay payer instructions tables k \<and> \<not> asks_writable instructions k) \<and>
     (\<forall>i < length static.
        header_signer msg i = (static ! i = payer \<or> asks_signer instructions (static ! i)) \<and>
        header_writable msg (length static) i = (static ! i = payer \<or> asks_writable instructions (static ! i))) \<and>
     lookups_load tables (cm_lookups msg) writable readonly \<and>
     (\<exists>parts. compile_lookups VersionZero (cm_lookups msg) = Inr parts \<and>
        message_layout VersionZero instructions (length static) blockhash msg (concat parts))"

lemma orderStatic_mset: "mset (orderStaticAccountMetas metas) = mset metas"
  by (simp add: orderStaticAccountMetas_def)

lemma filter_three: "mset xs = mset (filter P xs) + (mset (filter (\<lambda>x. \<not> P x \<and> Q x) xs) + mset (filter (\<lambda>x. \<not> P x \<and> \<not> Q x) xs))"
  by (induction xs) auto

lemma stays_must_stay:
  "aggregated_ok payer instructions metas \<Longrightarrow> m \<in> set metas \<Longrightarrow>
   stays tables m \<longleftrightarrow> must_stay payer instructions tables (gm_address m)"
  by (auto simp: aggregated_ok_def stays_def must_stay_def)

lemma compileVersionZeroMessage_parts:
  assumes "compileVersionZeroMessage instructions payerInput blockhash tables = Inr msg"
  obtains payer xs and lc :: lookup_compilation where "normalizePublicKey payerInput = Inr payer" "aggregated_ok payer instructions xs"
    "compileMessageBytes VersionZero instructions (orderStaticAccountMetas (filter (stays tables) xs))
       (lc_writable lc) (lc_readonly lc) (lc_lookups lc) blockhash = Inr msg"
    "mset (lc_writable lc) = mset (map gm_address (filter (\<lambda>m. \<not> stays tables m \<and> gm_writable m) xs))"
    "mset (lc_readonly lc) = mset (map gm_address (filter (\<lambda>m. \<not> stays tables m \<and> \<not> gm_writable m) xs))"
    "lookups_load tables (lc_lookups lc) (lc_writable lc) (lc_readonly lc)"
    "\<forall>t \<in> set tables. length (lt_addresses t) \<le> 256"
proof -
  obtain xs lc where xs: "aggregateAccountMetas instructions payerInput = Inr xs"
    and lc: "placeAccountsInLookupTables xs tables = Inr lc"
    and c: "compileMessageBytes VersionZero instructions (orderStaticAccountMetas (lc_static lc))
       (lc_writable lc) (lc_readonly lc) (lc_lookups lc) blockhash = Inr msg"
    using assms by (auto simp: compileVersionZeroMessage_def split: if_splits)
  obtain payer where payer: "normalizePublicKey payerInput = Inr payer" and ok: "aggregated_ok payer instructions xs"
    and hd: "xs \<noteq> []" "gm_address (hd xs) = payer"
    using aggregateAccountMetas_ok [OF xs] by blast
  have "gm_signer (hd xs)" using ok hd hd_in_set [OF hd(1)] by (simp add: aggregated_ok_def)
  from placeAccountsInLookupTables_ok [OF lc hd(1) this] that [OF payer ok, of lc] c show ?thesis by simp
qed

lemma compileVersionZeroMessage_ok:
  assumes "compileVersionZeroMessage instructions payerInput blockhash tables = Inr msg"
  shows "\<exists>payer metas writable readonly. normalizePublicKey payerInput = Inr payer \<and>
    versioned_ok payer instructions blockhash tables msg (map gm_address metas) writable readonly \<and>
    compileMessageBytes VersionZero instructions metas writable readonly (cm_lookups msg) blockhash = Inr msg \<and>
    (\<forall>t \<in> set tables. length (lt_addresses t) \<le> 256)"
proof -
  obtain payer xs and lc :: lookup_compilation where 1: "normalizePublicKey payerInput = Inr payer"
    "aggregated_ok payer instructions xs"
    "compileMessageBytes VersionZero instructions (orderStaticAccountMetas (filter (stays tables) xs))
       (lc_writable lc) (lc_readonly lc) (lc_lookups lc) blockhash = Inr msg"
    "mset (lc_writable lc) = mset (map gm_address (filter (\<lambda>m. \<not> stays tables m \<and> gm_writable m) xs))"
    "mset (lc_readonly lc) = mset (map gm_address (filter (\<lambda>m. \<not> stays tables m \<and> \<not> gm_writable m) xs))"
    "lookups_load tables (lc_lookups lc) (lc_writable lc) (lc_readonly lc)"
    "\<forall>t \<in> set tables. length (lt_addresses t) \<le> 256"
    using compileVersionZeroMessage_parts [OF assms] .
  let ?metas = "orderStaticAccountMetas (filter (stays tables) xs)"
  let ?w = "lc_writable lc" and ?r = "lc_readonly lc"
  let ?static = "map gm_address ?metas"
  have l: "cm_account_keys msg = ?static @ ?w @ ?r" "cm_lookups msg = lc_lookups lc"
    "cm_signers msg = map gm_address (take (cm_required_signatures msg) ?metas)"
    "cm_required_signatures msg = countMatching ?metas gm_signer"
    "cm_readonly_signed msg = countMatching ?metas (\<lambda>m. gm_signer m \<and> \<not> gm_writable m)"
    "cm_readonly_unsigned msg = countMatching ?metas (\<lambda>m. \<not> gm_signer m \<and> \<not> gm_writable m)"
    "\<exists>parts. compile_lookups VersionZero (lc_lookups lc) = Inr parts \<and>
       message_layout VersionZero instructions (length ?static) blockhash msg (concat parts)"
    using compileMessageBytes_layout [OF 1(3)] by simp_all
  have same: "mset (cm_account_keys msg) = mset (map gm_address xs)"
    unfolding l(1) using filter_three [of xs "stays tables" gm_writable] 1(4,5)
    by (simp add: orderStatic_mset image_mset_union [symmetric] del: image_mset_union)
  have keys: "distinct (cm_account_keys msg)" "set (cm_account_keys msg) = gm_address ` set xs"
    using 1(2) mset_eq_imp_distinct_iff [OF same] mset_eq_setD [OF same] by (simp_all add: aggregated_ok_def)
  have w: "set ?w = gm_address ` {m \<in> set xs. \<not> stays tables m \<and> gm_writable m}"
    using mset_eq_setD [OF 1(4)] by auto
  have r: "set ?r = gm_address ` {m \<in> set xs. \<not> stays tables m \<and> \<not> gm_writable m}"
    using mset_eq_setD [OF 1(5)] by auto
  have static: "set ?metas = {m \<in> set xs. stays tables m}" by (simp add: orderStatic_set)
  have "payer \<in> gm_address ` set xs" using 1(2) by (simp add: aggregated_ok_def)
  then obtain p where "p \<in> set xs" "gm_address p = payer" by blast
  then have "payer \<in> gm_address ` set (filter (stays tables) xs)"
    using stays_must_stay [OF 1(2), of p] by (auto simp: must_stay_def)
  then have head: "?metas \<noteq> [] \<and> gm_address (hd ?metas) = payer"
    using 1(2) by (intro orderStatic_first) (auto simp: aggregated_ok_def)
  have roles: "header_signer msg i = (gm_address (?metas ! i) = payer \<or> asks_signer instructions (gm_address (?metas ! i))) \<and>
      header_writable msg (length ?metas) i
        = (gm_address (?metas ! i) = payer \<or> asks_writable instructions (gm_address (?metas ! i)))"
    if "i < length ?metas" for i
  proof -
    have "?metas ! i \<in> set xs" using static that nth_mem by blast
    then show ?thesis using header_roles [OF refl that l(4-6)] 1(2) by (simp add: aggregated_ok_def)
  qed
  have "versioned_ok payer instructions blockhash tables msg ?static ?w ?r"
    unfolding versioned_ok_def
  proof (intro conjI)
    show "\<forall>k \<in> set ?static. must_stay payer instructions tables k"
      using static stays_must_stay [OF 1(2)] by auto
    show "\<forall>k \<in> set ?w. \<not> must_stay payer instructions tables k \<and> asks_writable instructions k"
      unfolding w using stays_must_stay [OF 1(2)] 1(2) by (auto simp: aggregated_ok_def must_stay_def)
    show "\<forall>k \<in> set ?r. \<not> must_stay payer instructions tables k \<and> \<not> asks_writable instructions k"
      unfolding r using stays_must_stay [OF 1(2)] 1(2) by (auto simp: aggregated_ok_def must_stay_def)
  qed (use l keys head roles 1(2,6) in \<open>simp_all add: take_map hd_map aggregated_ok_def\<close>)
  moreover have "compileMessageBytes VersionZero instructions ?metas ?w ?r (cm_lookups msg) blockhash = Inr msg"
    using 1(3) by (simp add: l(2))
  ultimately show ?thesis using 1(1,7) by blast
qed

end
