(* ===== verification/SquadsCompile.thy ===== *)
theory SquadsCompile
  imports SquadsMessage LookupTables
begin

text \<open>
  What \<open>parseStandardCompiledMessage\<close> of \<open>SquadsVaultMessage.ts\<close> reads when its input is a message that the
  compiler of \<open>SolanaTransaction.thy\<close> wrote: the header counts, the keys, the lookups, and instructions whose
  indexes name the programs and the accounts of the instructions that were compiled.
\<close>

section \<open>Parsing what was compiled\<close>

abbreviation accepts_message :: "(message_reader, 'a) parser \<Rightarrow> bytes \<Rightarrow> 'a \<Rightarrow> bool" where
  "accepts_message \<equiv> accepts mr_unread"

lemma accepts_U8: "accepts_message readU8 [b] (uint b)"
proof -
  have "encodeU8 (JNum (uint b)) = Inr [b]" using byte_range [of b] by (simp add: encodeU8_Inr)
  then show ?thesis using exact_U8 by (simp add: exact_def)
qed

lemma and_bits: "and (uint (b :: byte)) 127 = uint (and b 127)" "and (uint b) 128 = 0 \<longleftrightarrow> \<not> bit b 7"
proof -
  show "and (uint b) 127 = uint (and b 127)" by (simp add: unsigned_and_eq)
  have "and (uint b) (2 ^ 7) = 0 \<longleftrightarrow> \<not> bit (uint b) 7" by (rule and_exp_eq_0_iff_not_bit)
  then show "and (uint b) 128 = 0 \<longleftrightarrow> \<not> bit b 7" by (simp add: bit_uint_iff)
qed

lemma low_byte: "n < 128 \<Longrightarrow> uint (word_of_nat n :: byte) = int n"
  by (simp add: unsigned_of_nat take_bit_nat_eq_self)

lemma accepts_short_vector:
  "n < 128 ^ k \<Longrightarrow> 0 < k \<Longrightarrow> 0 \<le> v \<Longrightarrow> 0 \<le> m \<Longrightarrow> v + m * int n \<le> MAX_SAFE_INTEGER \<Longrightarrow>
   accepts_message (short_vector_loop k v m) (short_vector_bytes n) (v + m * int n)"
proof (induction n arbitrary: k v m rule: short_vector_bytes.induct)
  case (1 n)
  then obtain j where k: "k = Suc j" by (cases k) auto
  have d: "int n = int (n mod 128) + 128 * int (n div 128)" by (metis mod_mult_div_eq of_nat_add of_nat_mult of_nat_numeral)
  have r: "n mod 128 < 128" by simp
  have safe: "is_safe_integer (v + int (n mod 128) * m)"
  proof -
    have "int (n mod 128) * m \<le> int n * m" using "1.prems"(4) by (intro mult_right_mono) simp_all
    then have "v + int (n mod 128) * m \<le> MAX_SAFE_INTEGER" using "1.prems"(5) by (simp add: mult.commute)
    moreover have "0 \<le> v + int (n mod 128) * m" using "1.prems"(3,4) by simp
    ultimately show ?thesis by (simp add: is_safe_integer_def MAX_SAFE_INTEGER_def)
  qed
  show ?case
  proof (cases "0 < n div 128")
    case True
    let ?b = "or (word_of_nat (n mod 128)) 128 :: byte"
    have b: "and (uint ?b) 127 = int (n mod 128)" "and (uint ?b) 128 \<noteq> 0"
      using byte_continuation [OF r] low_byte [OF r] by (simp_all add: and_bits)
    have j: "n div 128 < 128 ^ j" using "1.prems"(1) k by (simp add: less_mult_imp_div_less mult.commute)
    with True have "0 < j" by (cases j) simp_all
    have total: "(v + int (n mod 128) * m) + (m * 128) * int (n div 128) = v + m * int n"
      unfolding d by (simp add: algebra_simps)
    have "accepts_message (short_vector_loop j (v + int (n mod 128) * m) (m * 128))
        (short_vector_bytes (n div 128)) ((v + int (n mod 128) * m) + (m * 128) * int (n div 128))"
      using True j \<open>0 < j\<close> "1.prems"(3-5) total by (intro "1.IH") simp_all
    then have "accepts_message (short_vector_loop k v m) ([?b] @ short_vector_bytes (n div 128)) (v + m * int n)"
      unfolding k short_vector_loop.simps total
      by (intro accepts_bind [OF accepts_U8]) (use safe b in \<open>simp add: Let_def\<close>)
    with True show ?thesis by (subst short_vector_bytes.simps) simp
  next
    case False
    let ?b = "word_of_nat (n mod 128) :: byte"
    have b: "and (uint ?b) 127 = int (n mod 128)" "and (uint ?b) 128 = 0"
      unfolding and_bits using byte_low_bits [OF r] byte_high_bit [OF r] low_byte [OF r] by simp_all
    have n: "n mod 128 = n" using False by simp
    have "accepts_message (short_vector_loop k v m) ([?b] @ []) (v + m * int n)"
      unfolding k short_vector_loop.simps
      by (intro accepts_bind [OF accepts_U8]) (use safe b in \<open>simp add: Let_def accepts_return n mult.commute\<close>)
    with False show ?thesis by (subst short_vector_bytes.simps) simp
  qed
qed

lemma accepts_length: "n < 2 ^ 50 \<Longrightarrow> accepts_message readShortVectorLength (short_vector_bytes n) (int n)"
  using accepts_short_vector [of n 8 0 1] by (simp add: readShortVectorLength_def MAX_SAFE_INTEGER_def)

text \<open>A parsed instruction means an instruction: its indexes name the program and the accounts.\<close>

definition means_instruction :: "string list \<Rightarrow> solana_instruction \<Rightarrow> squads_instruction \<Rightarrow> bool" where
  "means_instruction keys ins sq \<longleftrightarrow>
     0 \<le> sq_program sq \<and> sq_program sq < len keys \<and> keys ! nat (sq_program sq) = si_program ins \<and>
     list_all2 (\<lambda>account i. 0 \<le> i \<and> i < len keys \<and> keys ! nat i = sm_address account) (si_accounts ins) (sq_accounts sq) \<and>
     sq_data sq = si_data ins"

lemma uint_less_len: "uint (b :: byte) < len keys \<longleftrightarrow> unat b < length keys"
  by (metis int_nat_eq nat_uint_eq of_nat_less_iff unsigned_greater_eq)

lemma accepts_indexes:
  assumes "accepts_message p h (int (length bs))"
  shows "accepts_message (read_indexes p) (h @ bs) (map uint bs)"
  unfolding read_indexes_def
  by (rule accepts_bind [OF assms], rule accepts_map) (simp_all add: message.accepts_read)

lemma accepts_block:
  assumes "accepts_message p h (int (length bs))"
  shows "accepts_message (bindP p (\<lambda>n. mr_readBytes (nat n))) (h @ bs) bs"
  by (rule accepts_bind [OF assms]) (simp add: message.accepts_read)

lemma accepts_counted:
  assumes "accepts_message p h (int (length xs))" "list_all2 (accepts_message q) bss xs"
  shows "accepts_message (bindP p (\<lambda>n. repeatP (nat n) q)) (h @ concat bss) xs"
  by (rule accepts_bind [OF assms(1)]) (simp add: accepts_repeat [OF assms(2)])

lemma accepts_key: "decodePublicKey (KeyText k) = Inr b \<Longrightarrow> accepts_message readKey b k"
  using exact_key by (simp add: exact_def)

text \<open>The sizes that a message of a transaction can have; the length prefixes then fit the parser.\<close>

definition fits :: "solana_instruction list \<Rightarrow> bool" where
  "fits instructions \<longleftrightarrow> length instructions < 2 ^ 50 \<and>
     (\<forall>i \<in> set instructions. length (si_accounts i) < 2 ^ 50 \<and> length (si_data i) < 2 ^ 50)"

lemma accepts_parse_instruction:
  assumes "instruction_layout keys ins bs" "length (si_accounts ins) < 2 ^ 50" "length (si_data ins) < 2 ^ 50"
  shows "\<exists>sq. accepts_message parse_instruction bs sq \<and> means_instruction keys ins sq"
proof -
  obtain p indexes where l: "bs = [p] @ (short_vector_bytes (length (si_accounts ins)) @ indexes) @
      (short_vector_bytes (length (si_data ins)) @ si_data ins) @ []"
    "unat p < length keys" "keys ! unat p = si_program ins"
    "list_all2 (\<lambda>account b. unat b < length keys \<and> keys ! unat b = sm_address account) (si_accounts ins) indexes"
    using assms(1) by (auto simp: instruction_layout_def)
  have n: "length (si_accounts ins) = length indexes" using l(4) by (rule list_all2_lengthD)
  have accounts: "accepts_message (read_indexes readShortVectorLength)
      (short_vector_bytes (length (si_accounts ins)) @ indexes) (map uint indexes)"
    using accepts_length [OF assms(2)] by (intro accepts_indexes) (simp add: n)
  have data: "accepts_message (bindP readShortVectorLength (\<lambda>n. mr_readBytes (nat n)))
      (short_vector_bytes (length (si_data ins)) @ si_data ins) (si_data ins)"
    using accepts_length [OF assms(3)] by (intro accepts_block) simp
  let ?sq = "\<lparr>sq_program = uint p, sq_accounts = map uint indexes, sq_data = si_data ins\<rparr>"
  have "accepts_message parse_instruction bs ?sq"
    unfolding parse_instruction_def l(1)
    by (rule accepts_bind [OF accepts_U8], rule accepts_bind [OF accounts], rule accepts_bind [OF data],
        rule accepts_return)
  moreover have "list_all2 (\<lambda>account i. 0 \<le> i \<and> i < len keys \<and> keys ! nat i = sm_address account)
      (si_accounts ins) (map uint indexes)"
    unfolding list_all2_map2 using l(4) by (rule list_all2_mono) (auto simp: uint_less_len)
  then have "means_instruction keys ins ?sq"
    using l(2,3) by (auto simp: means_instruction_def uint_less_len)
  ultimately show ?thesis by blast
qed

lemma accepts_parse_instructions:
  assumes "list_all2 (instruction_layout keys) instructions bodies" "fits instructions"
  shows "\<exists>sqs. list_all2 (accepts_message parse_instruction) bodies sqs \<and> list_all2 (means_instruction keys) instructions sqs"
  using assms
proof (induction instructions bodies rule: list_all2_induct)
  case (Cons ins instructions body bodies)
  then obtain sqs where "list_all2 (accepts_message parse_instruction) bodies sqs"
    "list_all2 (means_instruction keys) instructions sqs" by (auto simp: fits_def)
  moreover obtain sq where "accepts_message parse_instruction body sq" "means_instruction keys ins sq"
    using accepts_parse_instruction [OF Cons.hyps(1)] Cons.prems by (auto simp: fits_def)
  ultimately show ?case by (intro exI [of _ "sq # sqs"]) simp
qed simp

definition lookup_fits :: "compiled_lookup \<Rightarrow> bool" where
  "lookup_fits cl \<longleftrightarrow> length (cl_writable cl) < 2 ^ 50 \<and> length (cl_readonly cl) < 2 ^ 50 \<and>
     (\<forall>i \<in> set (cl_writable cl) \<union> set (cl_readonly cl). i < 256)"

definition squads_lookup_of :: "compiled_lookup \<Rightarrow> squads_lookup" where
  "squads_lookup_of cl = \<lparr>sq_key = cl_table cl, sq_writable = map int (cl_writable cl), sq_readonly = map int (cl_readonly cl)\<rparr>"

lemma uint_small: "n < 256 \<Longrightarrow> uint (word_of_nat n :: byte) = int n"
  by (simp add: unsigned_of_nat take_bit_nat_eq_self)

lemma map_uint_small: "\<forall>i \<in> set xs. i < 256 \<Longrightarrow> map uint (map word_of_nat xs :: bytes) = map int xs"
  by (simp add: uint_small)

lemma accepts_parse_lookup:
  assumes "compile_lookup cl = Inr parts" "lookup_fits cl"
  shows "accepts_message (decode_squads_lookup readShortVectorLength) (concat parts) (squads_lookup_of cl)"
proof -
  obtain key where key: "decodePublicKey (KeyText (cl_table cl)) = Inr key"
    and parts: "concat parts = key @ (short_vector_bytes (length (cl_writable cl)) @ map word_of_nat (cl_writable cl)) @
      (short_vector_bytes (length (cl_readonly cl)) @ map word_of_nat (cl_readonly cl)) @ []"
    using assms(1) by (auto simp: compile_lookup_def dest!: shortvec_Inr)
  have idx: "accepts_message (read_indexes readShortVectorLength)
      (short_vector_bytes (length xs) @ map word_of_nat xs) (map int xs)"
    if "length xs < 2 ^ 50" "\<forall>i \<in> set xs. i < 256" for xs
  proof -
    have "accepts_message (read_indexes readShortVectorLength)
        (short_vector_bytes (length xs) @ map word_of_nat xs) (map uint (map word_of_nat xs :: bytes))"
      by (rule accepts_indexes) (simp add: accepts_length [OF that(1)])
    then show ?thesis unfolding map_uint_small [OF that(2)] .
  qed
  have w: "accepts_message (read_indexes readShortVectorLength)
      (short_vector_bytes (length (cl_writable cl)) @ map word_of_nat (cl_writable cl)) (map int (cl_writable cl))"
    and r: "accepts_message (read_indexes readShortVectorLength)
      (short_vector_bytes (length (cl_readonly cl)) @ map word_of_nat (cl_readonly cl)) (map int (cl_readonly cl))"
    using assms(2) by (auto simp: lookup_fits_def intro!: idx)
  show ?thesis unfolding decode_squads_lookup_def parts squads_lookup_of_def
    by (rule accepts_bind [OF accepts_key [OF key]], rule accepts_bind [OF w], rule accepts_bind [OF r],
        rule accepts_return)
qed

lemma accepts_parse_lookups:
  "mapR compile_lookup lookups = Inr parts \<Longrightarrow> list_all lookup_fits lookups \<Longrightarrow>
   list_all2 (accepts_message (decode_squads_lookup readShortVectorLength)) (map concat parts) (map squads_lookup_of lookups)"
  by (induction lookups arbitrary: parts) (auto simp: accepts_parse_lookup)

lemma accepts_header:
  "n < 256 \<Longrightarrow> (version = Unversioned \<longrightarrow> n < 128) \<Longrightarrow>
   accepts_message parse_header ((if version = VersionZero then [128] else []) @ [word_of_nat n])
     (version = VersionZero, int n)"
proof -
  assume n: "n < 256" "version = Unversioned \<longrightarrow> n < 128"
  let ?b = "word_of_nat n :: byte"
  show ?thesis
  proof (cases version)
    case Unversioned
    then have "\<not> bit ?b 7" using n byte_high_bit by simp
    then have "and (uint ?b) 128 = 0" unfolding and_bits(2) .
    then have "accepts_message parse_header ([?b] @ []) (False, uint ?b)"
      unfolding parse_header_def by (intro accepts_bind [OF accepts_U8]) (simp add: accepts_return)
    with Unversioned show ?thesis by (simp add: uint_small n)
  next
    case VersionZero
    have inner: "accepts_message (bindP readU8 (\<lambda>signers. returnP (True, signers))) ([?b] @ []) (True, uint ?b)"
      by (rule accepts_bind [OF accepts_U8]) (rule accepts_return)
    have "accepts_message parse_header ([128] @ [?b] @ []) (True, uint ?b)"
      unfolding parse_header_def by (rule accepts_bind [OF accepts_U8]) (use inner in simp)
    with VersionZero show ?thesis by (simp add: uint_small n)
  qed
qed

lemma parse_compiled:
  assumes c: "compileMessageBytes version instructions metas writable readonly lookups blockhash = Inr msg"
    and v: "version = Unversioned \<longrightarrow> cm_required_signatures msg < 128 \<and> lookups = []"
    and f: "fits instructions" "length lookups < 2 ^ 50" "list_all lookup_fits lookups"
  shows "\<exists>sqs. list_all2 (means_instruction (cm_account_keys msg)) instructions sqs \<and>
    accepts_message parse_message (cm_bytes msg)
      \<lparr>vm_signers = int (cm_required_signatures msg),
       vm_writable_signers = int (cm_required_signatures msg) - int (cm_readonly_signed msg),
       vm_writable_others = len metas - int (cm_required_signatures msg) - int (cm_readonly_unsigned msg),
       vm_keys = map gm_address metas, vm_instructions = sqs, vm_lookups = map squads_lookup_of lookups\<rparr>"
proof -
  note l = compileMessageBytes_layout [OF c]
  then obtain parts where parts: "compile_lookups version lookups = Inr parts"
    "message_layout version instructions (length metas) blockhash msg (concat parts)" by blast
  have keys: "take (length metas) (cm_account_keys msg) = map gm_address metas" using l by simp
  obtain keyParts hash bodies where m:
    "cm_bytes msg = (if version = VersionZero then [128] else []) @
          [word_of_nat (cm_required_signatures msg), word_of_nat (cm_readonly_signed msg),
           word_of_nat (cm_readonly_unsigned msg)] @
          short_vector_bytes (length metas) @ concat keyParts @ hash @
          short_vector_bytes (length instructions) @ concat bodies @ concat parts"
    "list_all2 (\<lambda>key part. decodePublicKey (KeyText key) = Inr part) (map gm_address metas) keyParts"
    "decodePublicKey blockhash = Inr hash"
    "list_all2 (instruction_layout (cm_account_keys msg)) instructions bodies"
    using parts(2) unfolding message_layout_def keys by blast
  obtain sqs where sqs: "list_all2 (accepts_message parse_instruction) bodies sqs"
    "list_all2 (means_instruction (cm_account_keys msg)) instructions sqs"
    using accepts_parse_instructions [OF m(4) f(1)] by blast
  have header: "accepts_message parse_header ((if version = VersionZero then [128] else []) @
      [word_of_nat (cm_required_signatures msg)]) (version = VersionZero, int (cm_required_signatures msg))"
    using l v by (intro accepts_header) auto
  have counts: "accepts_message readU8 [word_of_nat (cm_readonly_signed msg)] (int (cm_readonly_signed msg))"
    "accepts_message readU8 [word_of_nat (cm_readonly_unsigned msg)] (int (cm_readonly_unsigned msg))"
    using accepts_U8 [of "word_of_nat (cm_readonly_signed msg)"] accepts_U8 [of "word_of_nat (cm_readonly_unsigned msg)"] l
    by (simp_all add: uint_small)
  have size: "accepts_message readShortVectorLength (short_vector_bytes (length metas)) (len metas)"
  proof (rule accepts_length)
    have "cm_account_keys msg = map gm_address metas @ writable @ readonly" "length (cm_account_keys msg) \<le> 256"
      by (use l in blast)+
    then show "length metas < 2 ^ 50" by simp
  qed
  have ks: "accepts_message (repeatP (nat (len metas)) readKey) (concat keyParts) (map gm_address metas)"
  proof -
    have "list_all2 (accepts_message readKey) keyParts (map gm_address metas)"
      using m(2) unfolding list.rel_flip [symmetric, of _ keyParts]
      by (rule list_all2_mono) (simp add: accepts_key)
    from accepts_repeat [OF this] show ?thesis by simp
  qed
  have hash: "accepts_message (mr_readBytes 32) hash hash"
    using m(3) by (intro message.accepts_read) (simp add: decodePublicKey_Inr)
  have ins: "accepts_message (bindP readShortVectorLength (\<lambda>n. repeatP (nat n) parse_instruction))
      (short_vector_bytes (length instructions) @ concat bodies) sqs"
    using accepts_length [of "length instructions"] f(1) list_all2_lengthD [OF sqs(2)]
    by (intro accepts_counted [OF _ sqs(1)]) (simp add: fits_def)
  have lks: "accepts_message (if version = VersionZero
       then bindP readShortVectorLength (\<lambda>n. repeatP (nat n) (decode_squads_lookup readShortVectorLength))
       else returnP []) (concat parts) (map squads_lookup_of lookups)"
  proof (cases version)
    case Unversioned
    with parts(1) v show ?thesis by (simp add: compile_lookups_def accepts_return)
  next
    case VersionZero
    then obtain ps where ps: "mapR compile_lookup lookups = Inr ps"
      "concat parts = short_vector_bytes (length lookups) @ concat (map concat ps)"
      using parts(1) by (auto simp: compile_lookups_def concat_concat dest!: shortvec_Inr)
    have "accepts_message readShortVectorLength (short_vector_bytes (length lookups)) (len (map squads_lookup_of lookups))"
      using accepts_length [OF f(2)] by simp
    from accepts_counted [OF this accepts_parse_lookups [OF ps(1) f(3)]] VersionZero ps(2) show ?thesis by simp
  qed
  have bytes: "cm_bytes msg = ((if version = VersionZero then [128] else []) @ [word_of_nat (cm_required_signatures msg)]) @
      [word_of_nat (cm_readonly_signed msg)] @ [word_of_nat (cm_readonly_unsigned msg)] @
      short_vector_bytes (length metas) @ concat keyParts @ hash @
      (short_vector_bytes (length instructions) @ concat bodies) @ concat parts @ []"
    by (simp add: m(1))
  have "accepts_message parse_message (cm_bytes msg)
      \<lparr>vm_signers = int (cm_required_signatures msg),
       vm_writable_signers = int (cm_required_signatures msg) - int (cm_readonly_signed msg),
       vm_writable_others = len metas - int (cm_required_signatures msg) - int (cm_readonly_unsigned msg),
       vm_keys = map gm_address metas, vm_instructions = sqs, vm_lookups = map squads_lookup_of lookups\<rparr>"
    unfolding bytes parse_message_def
    by (rule accepts_bind [OF header], unfold prod.case, rule accepts_bind [OF counts(1)],
        rule accepts_bind [OF counts(2)], rule accepts_bind [OF size], rule accepts_bind [OF ks],
        rule accepts_bind [OF hash], rule accepts_bind [OF ins], rule accepts_bind [OF lks], rule accepts_return)
  with sqs(2) show ?thesis by blast
qed
section \<open>A vault message\<close>

lemma parse_compiled_message:
  assumes c: "compileMessageBytes version instructions metas writable readonly lookups blockhash = Inr msg"
    and v: "version = Unversioned \<longrightarrow> cm_required_signatures msg < 128 \<and> lookups = []"
    and f: "fits instructions" "length lookups < 2 ^ 50" "list_all lookup_fits lookups"
    and p: "parseStandardCompiledMessage (cm_bytes msg) = Inr m"
  shows "list_all2 (means_instruction (cm_account_keys msg)) instructions (vm_instructions m) \<and>
    vm_signers m = int (cm_required_signatures msg) \<and>
    vm_writable_signers m = int (cm_required_signatures msg) - int (cm_readonly_signed msg) \<and>
    vm_writable_others m = len metas - int (cm_required_signatures msg) - int (cm_readonly_unsigned msg) \<and>
    vm_keys m = map gm_address metas \<and> vm_lookups m = map squads_lookup_of lookups"
proof -
  obtain sqs where sqs: "list_all2 (means_instruction (cm_account_keys msg)) instructions sqs"
    "accepts_message parse_message (cm_bytes msg)
      \<lparr>vm_signers = int (cm_required_signatures msg),
       vm_writable_signers = int (cm_required_signatures msg) - int (cm_readonly_signed msg),
       vm_writable_others = len metas - int (cm_required_signatures msg) - int (cm_readonly_unsigned msg),
       vm_keys = map gm_address metas, vm_instructions = sqs, vm_lookups = map squads_lookup_of lookups\<rparr>"
    using parse_compiled [OF c v f] by blast
  have "mr_unread (newMessageReader (cm_bytes msg)) = Some (cm_bytes msg @ [])" by (simp add: mr_unread_new)
  from acceptsD [OF sqs(2) this] p have "m =
      \<lparr>vm_signers = int (cm_required_signatures msg),
       vm_writable_signers = int (cm_required_signatures msg) - int (cm_readonly_signed msg),
       vm_writable_others = len metas - int (cm_required_signatures msg) - int (cm_readonly_unsigned msg),
       vm_keys = map gm_address metas, vm_instructions = sqs, vm_lookups = map squads_lookup_of lookups\<rparr>"
    by (auto simp: parseStandardCompiledMessage_def split: if_splits)
  with sqs(1) show ?thesis by simp
qed

text \<open>What the Squads program concludes from the counts of a message about the key at an index.\<close>

definition squads_signer :: "squads_message \<Rightarrow> nat \<Rightarrow> bool" where
  "squads_signer m i \<longleftrightarrow> int i < vm_signers m"

definition squads_writable :: "squads_message \<Rightarrow> nat \<Rightarrow> bool" where
  "squads_writable m i \<longleftrightarrow> int i < vm_writable_signers m \<or>
     (vm_signers m \<le> int i \<and> int i < vm_signers m + vm_writable_others m)"

lemma countMatching_mono: "(\<And>m. p m \<Longrightarrow> q m) \<Longrightarrow> countMatching metas p \<le> countMatching metas q"
  unfolding countMatching_def by (induction metas) (auto intro: le_SucI)

lemma squads_roles:
  assumes h: "cm_required_signatures msg = countMatching metas gm_signer"
      "cm_readonly_signed msg = countMatching metas (\<lambda>m. gm_signer m \<and> \<not> gm_writable m)"
      "cm_readonly_unsigned msg = countMatching metas (\<lambda>m. \<not> gm_signer m \<and> \<not> gm_writable m)"
    and m: "vm_signers m = int (cm_required_signatures msg)"
      "vm_writable_signers m = int (cm_required_signatures msg) - int (cm_readonly_signed msg)"
      "vm_writable_others m = len metas - int (cm_required_signatures msg) - int (cm_readonly_unsigned msg)"
  shows "squads_signer m i = header_signer msg i" "squads_writable m i = header_writable msg (length metas) i"
proof -
  have le: "cm_readonly_signed msg \<le> cm_required_signatures msg"
    unfolding h by (rule countMatching_mono) simp
  have "cm_readonly_unsigned msg \<le> countMatching metas (\<lambda>m. \<not> gm_signer m)"
    unfolding h by (rule countMatching_mono) simp
  with count_not [of metas gm_signer] have "cm_required_signatures msg + cm_readonly_unsigned msg \<le> length metas"
    by (simp add: h)
  with le show "squads_signer m i = header_signer msg i" "squads_writable m i = header_writable msg (length metas) i"
    by (auto simp: squads_signer_def header_signer_def squads_writable_def header_writable_def m)
qed

text \<open>
  A vault message means a list of instructions: its keys and the keys its lookups load are the vault and the
  keys the instructions mention, each once, with the roles asked for, and the compiled instructions name them.
\<close>

definition vault_message_ok ::
  "string \<Rightarrow> solana_instruction list \<Rightarrow> address_lookup_table list \<Rightarrow> squads_message \<Rightarrow> string list \<Rightarrow> string list \<Rightarrow> bool" where
  "vault_message_ok vault instructions tables m writable readonly \<longleftrightarrow>
     (let keys = vm_keys m @ writable @ readonly in
      distinct keys \<and> set keys = {k. k = vault \<or> mentions instructions k} \<and>
      vm_keys m \<noteq> [] \<and> hd (vm_keys m) = vault \<and>
      (\<forall>i < length (vm_keys m).
         squads_signer m i = (vm_keys m ! i = vault \<or> asks_signer instructions (vm_keys m ! i)) \<and>
         squads_writable m i = (vm_keys m ! i = vault \<or> asks_writable instructions (vm_keys m ! i))) \<and>
      (\<forall>k \<in> set (vm_keys m). must_stay vault instructions tables k) \<and>
      (\<forall>k \<in> set writable. \<not> must_stay vault instructions tables k \<and> asks_writable instructions k) \<and>
      (\<forall>k \<in> set readonly. \<not> must_stay vault instructions tables k \<and> \<not> asks_writable instructions k) \<and>
      list_all2 (means_instruction keys) instructions (vm_instructions m) \<and>
      (\<exists>lookups. vm_lookups m = map squads_lookup_of lookups \<and> lookups_load tables lookups writable readonly))"

lemma loads_length: "length tables = length indexes \<Longrightarrow> length (loads tables indexes) = sum_list (map length indexes)"
  by (induction tables indexes rule: list_induct2) simp_all

lemma length_le_sum: "\<forall>x \<in> set xs. 0 < (f x :: nat) \<Longrightarrow> length xs \<le> sum_list (map f xs)"
proof (induction xs)
  case (Cons x xs)
  then have "length xs \<le> sum_list (map f xs)" "0 < f x" by simp_all
  then show ?case by simp
qed simp

lemma lookups_load_fit:
  assumes l: "lookups_load tables lookups writable readonly" and t: "\<forall>t \<in> set tables. length (lt_addresses t) \<le> 256"
    and n: "length writable + length readonly \<le> b" "b < 2 ^ 50"
  shows "list_all lookup_fits lookups \<and> length lookups \<le> b \<and>
    (\<forall>l \<in> set lookups. is_key (cl_table l) \<and> length (cl_writable l) \<le> b \<and> length (cl_readonly l) \<le> b) \<and>
    sum_list (map (\<lambda>l. length (cl_writable l) + length (cl_readonly l)) lookups) = length writable + length readonly"
proof -
  obtain used where u: "subseq used tables" "list_all2 lookup_into used lookups"
    "writable = loads used (map cl_writable lookups)" "readonly = loads used (map cl_readonly lookups)"
    using l by (auto simp: lookups_load_def)
  have len: "length used = length lookups" using u(2) by (rule list_all2_lengthD)
  let ?size = "\<lambda>l. length (cl_writable l) + length (cl_readonly l)"
  have total: "sum_list (map ?size lookups) = length writable + length readonly"
    using len by (simp add: u(3,4) loads_length sum_list_addf comp_def)
  have member: "?size l \<le> b" if "l \<in> set lookups" for l
    using member_le_sum_list [of "?size l" "map ?size lookups"] that n(1) total by auto
  have into: "\<exists>t \<in> set tables. lookup_into t l" if "l \<in> set lookups" for l
  proof -
    obtain i where i: "i < length lookups" "l = lookups ! i" using \<open>l \<in> set lookups\<close> by (auto simp: in_set_conv_nth)
    then have "lookup_into (used ! i) l" "used ! i \<in> set used"
      using list_all2_nthD2 [OF u(2)] len by simp_all
    with list_emb_set [OF u(1)] show ?thesis by blast
  qed
  have fits: "lookup_fits l" and key: "is_key (cl_table l)" if "l \<in> set lookups" for l
  proof -
    obtain t where t': "t \<in> set tables" "lookup_into t l" using into [OF \<open>l \<in> set lookups\<close>] by blast
    then show "is_key (cl_table l)" by (simp add: lookup_into_def)
    have "i < 256" if "i \<in> set (cl_writable l) \<union> set (cl_readonly l)" for i
      using t' t that by (fastforce simp: lookup_into_def indexes_fit_def)
    moreover have "?size l < 2 ^ 50" using member [OF \<open>l \<in> set lookups\<close>] n(2) by linarith
    ultimately show "lookup_fits l" unfolding lookup_fits_def by auto
  qed
  have "\<forall>l \<in> set lookups. 0 < ?size l" using into by (fastforce simp: lookup_into_def)
  then have "length lookups \<le> sum_list (map ?size lookups)" by (rule length_le_sum)
  then have "length lookups \<le> b" using n(1) total by linarith
  moreover have "length (cl_writable l) \<le> b \<and> length (cl_readonly l) \<le> b" if "l \<in> set lookups" for l
    using member [OF that] by linarith
  ultimately show ?thesis using total fits key by (simp add: list_all_iff)
qed

lemma few_signers:
  assumes "finite {k. asks_signer instructions k}" "card {k. asks_signer instructions k} < 127"
    and "distinct keys" "n \<le> length keys"
    and "\<forall>i < n. keys ! i = vault \<or> asks_signer instructions (keys ! i)"
  shows "n < 128"
proof -
  have "set (take n keys) \<subseteq> insert vault {k. asks_signer instructions k}"
    using assms(4,5) by (fastforce simp: in_set_conv_nth)
  then have "card (set (take n keys)) \<le> card (insert vault {k. asks_signer instructions k})"
    using assms(1) by (intro card_mono) simp_all
  also have "\<dots> < 128" using assms(1,2) by (simp add: card_insert_if)
  finally show ?thesis using assms(3,4) by (simp add: distinct_card)
qed

lemma finite_signers: "finite {k. asks_signer instructions k}"
proof (rule finite_subset)
  show "{k. asks_signer instructions k} \<subseteq> sm_address ` (\<Union>i \<in> set instructions. set (si_accounts i))"
    by (auto simp: asks_signer_def list_ex_iff)
qed simp

lemma unversioned_signers:
  assumes c: "compileUnversionedMessage instructions (KeyText vault) blockhash = Inr msg"
    and f: "card {k. asks_signer instructions k} < 127"
  shows "cm_required_signatures msg < 128"
proof -
  let ?keys = "cm_account_keys msg"
  obtain metas where b: "compileMessageBytes Unversioned instructions metas [] [] [] blockhash = Inr msg"
    using c by (auto simp: compileUnversionedMessage_def)
  have r: "distinct ?keys"
    "\<forall>i < length ?keys. header_signer msg i = (?keys ! i = vault \<or> asks_signer instructions (?keys ! i))"
    using compileUnversionedMessage_ok [OF c] by (simp_all add: Let_def)
  have n: "cm_required_signatures msg \<le> length ?keys"
    using compileMessageBytes_layout [OF b] by (simp add: countMatching_def)
  have "?keys ! i = vault \<or> asks_signer instructions (?keys ! i)" if "i < cm_required_signatures msg" for i
    using r(2) n that order.strict_trans2 [OF that n] by (simp add: header_signer_def)
  then show ?thesis
    by (intro few_signers [OF finite_signers f r(1) n, of vault]) blast
qed

lemma must_stay_no_tables: "must_stay payer instructions [] k"
  by (simp add: must_stay_def in_tables_def)

lemma lookups_load_none: "lookups_load [] [] [] []"
  by (simp add: lookups_load_def)

lemma vault_message_unversioned:
  assumes c: "compileUnversionedMessage instructions (KeyText vault) blockhash = Inr msg"
    and p: "parseStandardCompiledMessage (cm_bytes msg) = Inr m"
    and f: "fits instructions" "card {k. asks_signer instructions k} < 127"
  shows "vault_message_ok vault instructions [] m [] []"
proof -
  obtain metas where b: "compileMessageBytes Unversioned instructions metas [] [] [] blockhash = Inr msg"
    using c by (auto simp: compileUnversionedMessage_def)
  note l = compileMessageBytes_layout [OF b]
  let ?keys = "cm_account_keys msg"
  have r: "distinct ?keys" "?keys \<noteq> []" "hd ?keys = vault" "set ?keys = {k. k = vault \<or> mentions instructions k}"
    "\<forall>i < length ?keys.
         header_signer msg i = (?keys ! i = vault \<or> asks_signer instructions (?keys ! i)) \<and>
         header_writable msg (length ?keys) i = (?keys ! i = vault \<or> asks_writable instructions (?keys ! i))"
    using compileUnversionedMessage_ok [OF c] by (simp_all add: Let_def)
  have keys: "?keys = map gm_address metas" using l by simp
  have "cm_required_signatures msg < 128" using c f(2) by (rule unversioned_signers)
  then have parsed: "list_all2 (means_instruction ?keys) instructions (vm_instructions m)"
    "vm_signers m = int (cm_required_signatures msg)"
    "vm_writable_signers m = int (cm_required_signatures msg) - int (cm_readonly_signed msg)"
    "vm_writable_others m = len metas - int (cm_required_signatures msg) - int (cm_readonly_unsigned msg)"
    "vm_keys m = ?keys" "vm_lookups m = []"
    using parse_compiled_message [OF b _ f(1) _ _ p] keys by simp_all
  have roles: "squads_signer m i = header_signer msg i" "squads_writable m i = header_writable msg (length ?keys) i" for i
    using squads_roles [OF _ _ _ parsed(2-4)] l keys by simp_all
  show ?thesis unfolding vault_message_ok_def Let_def
    using r parsed(1,5,6) roles lookups_load_none by (simp add: must_stay_no_tables)
qed

lemma vault_message_versioned:
  assumes c: "compileVersionZeroMessage instructions (KeyText vault) blockhash tables = Inr msg"
    and p: "parseStandardCompiledMessage (cm_bytes msg) = Inr m" and f: "fits instructions"
  shows "\<exists>writable readonly. vault_message_ok vault instructions tables m writable readonly"
proof -
  obtain metas writable readonly where
    ok: "versioned_ok vault instructions blockhash tables msg (map gm_address metas) writable readonly"
    and b: "compileMessageBytes VersionZero instructions metas writable readonly (cm_lookups msg) blockhash = Inr msg"
    and tables: "\<forall>t \<in> set tables. length (lt_addresses t) \<le> 256"
    using compileVersionZeroMessage_ok [OF c] by auto
  note l = compileMessageBytes_layout [OF b]
  have load: "lookups_load tables (cm_lookups msg) writable readonly" using ok by (simp add: versioned_ok_def)
  have keys: "cm_account_keys msg = map gm_address metas @ writable @ readonly" using ok by (simp add: versioned_ok_def)
  have "length (cm_account_keys msg) \<le> 256" using l by blast
  then have "length writable + length readonly \<le> 256" by (simp add: keys)
  from lookups_load_fit [OF load tables this]
  have fit: "length (cm_lookups msg) < 2 ^ 50" "list_all lookup_fits (cm_lookups msg)" by auto
  note parsed = parse_compiled_message [OF b _ f fit p, simplified]
  have roles: "squads_signer m i = header_signer msg i" "squads_writable m i = header_writable msg (length metas) i" for i
    using squads_roles [of msg metas m i] l parsed by simp_all
  have "vault_message_ok vault instructions tables m writable readonly"
    unfolding vault_message_ok_def Let_def
    using ok parsed load roles keys by (auto simp: versioned_ok_def)
  then show ?thesis by blast
qed

lemma compileSquadsVaultTransactionMessage_ok:
  assumes c: "compileSquadsVaultTransactionMessage instructions vaultInput tables = Inr m"
    and f: "fits instructions" "card {k. asks_signer instructions k} < 127"
  shows "\<exists>vault writable readonly. normalizePublicKey vaultInput = Inr vault \<and>
    vault_message_ok vault instructions tables m writable readonly"
proof -
  obtain vault where v: "normalizePublicKey vaultInput = Inr vault"
    using c by (auto simp: compileSquadsVaultTransactionMessage_def)
  show ?thesis
  proof (cases "tables = []")
    case True
    then obtain msg where "compileUnversionedMessage instructions (KeyText vault) (KeyBytes (replicate 32 0)) = Inr msg"
      "parseStandardCompiledMessage (cm_bytes msg) = Inr m"
      using c v by (auto simp: compileSquadsVaultTransactionMessage_def split: if_splits)
    from vault_message_unversioned [OF this f] True v show ?thesis by blast
  next
    case False
    then obtain msg where "compileVersionZeroMessage instructions (KeyText vault) (KeyBytes (replicate 32 0)) tables = Inr msg"
      "parseStandardCompiledMessage (cm_bytes msg) = Inr m"
      using c v by (auto simp: compileSquadsVaultTransactionMessage_def split: if_splits)
    from vault_message_versioned [OF this f(1)] v show ?thesis by blast
  qed
qed

section \<open>Conversion succeeds\<close>

text \<open>The sizes that the Squads format counts in one byte, or two for data.\<close>

definition squads_sized :: "solana_instruction list \<Rightarrow> bool" where
  "squads_sized instructions \<longleftrightarrow> length instructions \<le> 255 \<and>
     (\<forall>i \<in> set instructions. length (si_accounts i) \<le> 255 \<and> length (si_data i) \<le> 65535)"

lemma eachR_ok: "eachR f xs = Inr () \<longleftrightarrow> (\<forall>x \<in> set xs. f x = Inr ())"
  by (induction xs) auto

lemma assertU8_ok: "assertU8 n = Inr () \<longleftrightarrow> 0 \<le> n \<and> n \<le> 255"
  by (auto simp: assertU8_def)

lemma assertU16_ok: "assertU16 n = Inr () \<longleftrightarrow> 0 \<le> n \<and> n \<le> 65535"
  by (auto simp: assertU16_def)

lemma validate_means:
  assumes m: "means_instruction keys ins sq" and n: "length keys \<le> 256"
    and s: "length (si_accounts ins) \<le> 255" "length (si_data ins) \<le> 65535"
    and p: "\<And>i. i < length keys \<Longrightarrow> keys ! i = si_program ins \<Longrightarrow> i < static"
  shows "validate_instruction (int static) (len keys) sq = Inr ()"
proof -
  have "nat (sq_program sq) < static" using m by (intro p) (auto simp: means_instruction_def)
  then have prog: "sq_program sq < int static" "0 \<le> sq_program sq" "sq_program sq \<le> 255"
    using m n by (auto simp: means_instruction_def)
  have idx: "list_all2 (\<lambda>account i. 0 \<le> i \<and> i < len keys \<and> keys ! nat i = sm_address account) (si_accounts ins) (sq_accounts sq)"
    using m by (simp add: means_instruction_def)
  then have "length (sq_accounts sq) \<le> 255" using s(1) by (auto dest: list_all2_lengthD)
  moreover have "\<forall>i \<in> set (sq_accounts sq). 0 \<le> i \<and> i < len keys"
    using idx by (auto simp: list_all2_conv_all_nth in_set_conv_nth)
  moreover have "length (sq_data sq) \<le> 65535" using m s(2) by (simp add: means_instruction_def)
  ultimately show ?thesis using prog n
    by (auto simp: validate_instruction_def bindR_eq_Inr assertU8_ok assertU16_ok eachR_ok)
qed

lemma validate_lookup_ok:
  assumes "is_key (cl_table l)" "length (cl_writable l) \<le> 255" "length (cl_readonly l) \<le> 255" "lookup_fits l"
  shows "validate_lookup (squads_lookup_of l) = Inr ()"
proof -
  have "i \<le> 255" if "i \<in> set (cl_writable l) \<or> i \<in> set (cl_readonly l)" for i
  proof -
    have "i < 256" using assms(4) that unfolding lookup_fits_def by blast
    then show ?thesis by simp
  qed
  with assms(1-3) show ?thesis
    by (auto simp: validate_lookup_def squads_lookup_of_def bindR_eq_Inr assertU8_ok eachR_ok)
qed

lemma loaded_count_of:
  "loaded_count (map squads_lookup_of lookups) =
     int (sum_list (map (\<lambda>l. length (cl_writable l) + length (cl_readonly l)) lookups))"
  by (induction lookups) (simp_all add: loaded_count_def squads_lookup_of_def)

lemma parse_validates:
  assumes c: "compileMessageBytes version instructions metas writable readonly lookups blockhash = Inr msg"
    and v: "version = Unversioned \<longrightarrow> cm_required_signatures msg < 128 \<and> lookups = []"
    and s: "squads_sized instructions" "length metas \<le> 255" "length lookups \<le> 255" "list_all lookup_fits lookups"
    and l: "\<And>l. l \<in> set lookups \<Longrightarrow> is_key (cl_table l) \<and> length (cl_writable l) \<le> 255 \<and> length (cl_readonly l) \<le> 255"
    and n: "sum_list (map (\<lambda>l. length (cl_writable l) + length (cl_readonly l)) lookups) = length writable + length readonly"
    and p: "\<And>ins i. ins \<in> set instructions \<Longrightarrow> i < length (cm_account_keys msg) \<Longrightarrow>
       cm_account_keys msg ! i = si_program ins \<Longrightarrow> i < length metas"
    and k: "\<And>m. m \<in> set metas \<Longrightarrow> is_key (gm_address m)"
  shows "is_ok (parseStandardCompiledMessage (cm_bytes msg))"
proof -
  have fit: "fits instructions" "length lookups < 2 ^ 50" using s by (auto simp: fits_def squads_sized_def)
  obtain sqs where sqs: "list_all2 (means_instruction (cm_account_keys msg)) instructions sqs"
    "accepts_message parse_message (cm_bytes msg)
      \<lparr>vm_signers = int (cm_required_signatures msg),
       vm_writable_signers = int (cm_required_signatures msg) - int (cm_readonly_signed msg),
       vm_writable_others = len metas - int (cm_required_signatures msg) - int (cm_readonly_unsigned msg),
       vm_keys = map gm_address metas, vm_instructions = sqs, vm_lookups = map squads_lookup_of lookups\<rparr>"
    (is "accepts_message _ _ ?m")
    using parse_compiled [OF c v fit s(4)] by blast
  have h: "cm_required_signatures msg = countMatching metas gm_signer"
    "cm_readonly_signed msg = countMatching metas (\<lambda>m. gm_signer m \<and> \<not> gm_writable m)"
    "cm_readonly_unsigned msg = countMatching metas (\<lambda>m. \<not> gm_signer m \<and> \<not> gm_writable m)"
    "cm_required_signatures msg \<le> 255" "length (cm_account_keys msg) \<le> 256"
    "cm_account_keys msg = map gm_address metas @ writable @ readonly"
    using compileMessageBytes_layout [OF c] by blast+
  have le: "cm_readonly_signed msg \<le> cm_required_signatures msg"
    unfolding h by (rule countMatching_mono) simp
  have "cm_readonly_unsigned msg \<le> countMatching metas (\<lambda>m. \<not> gm_signer m)"
    unfolding h by (rule countMatching_mono) simp
  with count_not [of metas gm_signer] have le2: "cm_required_signatures msg + cm_readonly_unsigned msg \<le> length metas"
    by (simp add: h)
  have total: "len (map gm_address metas) + loaded_count (map squads_lookup_of lookups) = len (cm_account_keys msg)"
    unfolding loaded_count_of n by (simp add: h(6))
  have "validate_instruction (len (map gm_address metas)) (len (cm_account_keys msg)) sq = Inr ()" if "sq \<in> set sqs" for sq
  proof -
    obtain j where j: "j < length sqs" "sq = sqs ! j" using \<open>sq \<in> set sqs\<close> by (auto simp: in_set_conv_nth)
    then have "means_instruction (cm_account_keys msg) (instructions ! j) sq" "instructions ! j \<in> set instructions"
      using list_all2_nthD2 [OF sqs(1)] list_all2_lengthD [OF sqs(1)] by simp_all
    with s(1) p show ?thesis by (intro validate_means [OF _ h(5)]) (auto simp: squads_sized_def)
  qed
  moreover have "validate_lookup (squads_lookup_of l) = Inr ()" if "l \<in> set lookups" for l
    using l [OF that] s(4) that by (intro validate_lookup_ok) (auto simp: list_all_iff)
  moreover have "length sqs \<le> 255" using list_all2_lengthD [OF sqs(1)] s(1) by (simp add: squads_sized_def)
  ultimately have valid: "validateSquadsVaultTransactionMessage ?m = Inr ()"
    using le le2 h(4,5) s(2,3) k total
    by (auto simp: validateSquadsVaultTransactionMessage_def bindR_eq_Inr assertU8_ok eachR_ok Let_def)
  have "mr_unread (newMessageReader (cm_bytes msg)) = Some (cm_bytes msg @ [])" by (simp add: mr_unread_new)
  from acceptsD [OF sqs(2) this] obtain r where "parse_message (newMessageReader (cm_bytes msg)) = Inr (?m, r)"
    "mr_unread r = Some []" by blast
  with valid mr_remaining_unread [OF this(2)] show ?thesis
    by (simp add: parseStandardCompiledMessage_def)
qed

lemma key_parts_keys:
  "list_all2 (\<lambda>key part. decodePublicKey (KeyText key) = Inr part) keys parts \<Longrightarrow> k \<in> set keys \<Longrightarrow> is_key k"
  by (induction keys parts rule: list_all2_induct) (auto dest: decodePublicKey_text_is_key)

lemma compiled_keys:
  assumes "compileMessageBytes version instructions metas writable readonly lookups blockhash = Inr msg" "m \<in> set metas"
  shows "is_key (gm_address m)"
proof -
  note l = compileMessageBytes_layout [OF assms(1)]
  obtain parts where "message_layout version instructions (length metas) blockhash msg (concat parts)" using l by blast
  then obtain keyParts where
    "list_all2 (\<lambda>key part. decodePublicKey (KeyText key) = Inr part) (take (length metas) (cm_account_keys msg)) keyParts"
    unfolding message_layout_def by blast
  moreover have "take (length metas) (cm_account_keys msg) = map gm_address metas" using l by simp
  ultimately show ?thesis using key_parts_keys assms(2) by fastforce
qed

lemma unversioned_parses:
  assumes c: "compileUnversionedMessage instructions (KeyText vault) blockhash = Inr msg"
    and s: "squads_sized instructions" "length (cm_account_keys msg) \<le> 255" "card {k. asks_signer instructions k} < 127"
  shows "is_ok (parseStandardCompiledMessage (cm_bytes msg))"
proof -
  obtain metas where b: "compileMessageBytes Unversioned instructions metas [] [] [] blockhash = Inr msg"
    using c by (auto simp: compileUnversionedMessage_def)
  note l = compileMessageBytes_layout [OF b]
  have "length metas \<le> 255" using s(2) l by simp
  with parse_validates [OF b _ s(1), simplified] l unversioned_signers [OF c s(3)] compiled_keys [OF b]
  show ?thesis by simp
qed

lemma versioned_parses:
  assumes c: "compileVersionZeroMessage instructions (KeyText vault) blockhash tables = Inr msg"
    and s: "squads_sized instructions" "length (cm_account_keys msg) \<le> 255"
  shows "is_ok (parseStandardCompiledMessage (cm_bytes msg))"
proof -
  obtain metas writable readonly where
    ok: "versioned_ok vault instructions blockhash tables msg (map gm_address metas) writable readonly"
    and b: "compileMessageBytes VersionZero instructions metas writable readonly (cm_lookups msg) blockhash = Inr msg"
    and tables: "\<forall>t \<in> set tables. length (lt_addresses t) \<le> 256"
    using compileVersionZeroMessage_ok [OF c] by auto
  have keys: "cm_account_keys msg = map gm_address metas @ writable @ readonly"
    and load: "lookups_load tables (cm_lookups msg) writable readonly"
    and runs: "\<And>k. k \<in> set writable \<union> set readonly \<Longrightarrow> \<not> runs instructions k"
    using ok by (auto simp: versioned_ok_def must_stay_def)
  have n: "length metas + (length writable + length readonly) \<le> 255" using s(2) by (simp add: keys)
  then have "length writable + length readonly \<le> 255" by simp
  note fit = lookups_load_fit [OF load tables this]
  show ?thesis
  proof (rule parse_validates [OF b])
    fix ins i assume i: "ins \<in> set instructions" "i < length (cm_account_keys msg)" "cm_account_keys msg ! i = si_program ins"
    have "runs instructions (si_program ins)" using i(1) by (auto simp: runs_def list_ex_iff)
    with runs have "cm_account_keys msg ! i \<notin> set (writable @ readonly)" using i(3) by auto
    with i(2) show "i < length metas" unfolding keys
      by (metis length_append length_map linorder_not_less nth_append nth_mem add_less_cancel_left le_add_diff_inverse)
  qed (use n fit s compiled_keys [OF b] in auto)
qed


text \<open>A message that compiles and whose counts fit becomes a vault message.\<close>

lemma vault_message_checks:
  "vault_message_ok vault instructions tables m writable readonly \<Longrightarrow>
   vm_keys m \<noteq> [] \<and> hd (vm_keys m) = vault \<and> vm_signers m \<noteq> 0 \<and> vm_writable_signers m \<noteq> 0"
proof -
  assume "vault_message_ok vault instructions tables m writable readonly"
  then have "squads_signer m 0" "squads_writable m 0" "vm_keys m \<noteq> []" "hd (vm_keys m) = vault"
    by (auto simp: vault_message_ok_def Let_def hd_conv_nth)
  then show ?thesis by (auto simp: squads_signer_def squads_writable_def)
qed

lemma vault_message_exists:
  assumes v: "normalizePublicKey vaultInput = Inr vault"
    and c: "(if tables = [] then compileUnversionedMessage instructions (KeyText vault) (KeyBytes (replicate 32 0))
      else compileVersionZeroMessage instructions (KeyText vault) (KeyBytes (replicate 32 0)) tables) = Inr msg"
    and s: "squads_sized instructions" "length (cm_account_keys msg) \<le> 255" "card {k. asks_signer instructions k} < 127"
  shows "is_ok (compileSquadsVaultTransactionMessage instructions vaultInput tables)"
proof -
  have fit: "fits instructions" using s(1) by (auto simp: fits_def squads_sized_def)
  have "is_ok (parseStandardCompiledMessage (cm_bytes msg))"
    using c s unversioned_parses versioned_parses by (auto split: if_splits)
  then obtain m where m: "parseStandardCompiledMessage (cm_bytes msg) = Inr m" by (auto simp: is_ok_iff)
  have "\<exists>writable readonly. vault_message_ok vault instructions tables m writable readonly"
    using c vault_message_unversioned [OF _ m fit s(3)] vault_message_versioned [OF _ m fit]
    by (auto split: if_splits)
  then show ?thesis using v c m vault_message_checks
    by (auto simp: compileSquadsVaultTransactionMessage_def split: if_splits)
qed

section \<open>A valid message can be encoded\<close>

lemma valid_instruction_encodes:
  "validate_instruction k n i = Inr () \<Longrightarrow> is_ok (encode_squads_instruction i)"
  by (auto simp: validate_instruction_def bindR_eq_Inr assertU8_ok assertU16_ok is_ok_iff encode_squads_instruction_def
      encodeU8_Inr encodeU16_Inr split: if_splits)

lemma valid_lookup_encodes: "validate_lookup l = Inr () \<Longrightarrow> is_ok (encode_squads_lookup l)"
  by (auto simp: validate_lookup_def bindR_eq_Inr assertU8_ok is_ok_iff encode_squads_lookup_def encodeU8_Inr elim: is_keyE)

lemma mapR_ok: "is_ok (mapR f xs) \<longleftrightarrow> (\<forall>x \<in> set xs. is_ok (f x))"
  by (induction xs) (auto simp: is_ok_iff)

lemma key_decodes: "is_key k \<Longrightarrow> is_ok (decodePublicKey (KeyText k))"
  by (auto simp: is_ok_iff elim: is_keyE)

lemma encode_iff_valid: "is_ok (encodeSquadsVaultTransactionMessage m) \<longleftrightarrow> validateSquadsVaultTransactionMessage m = Inr ()"
proof
  assume "is_ok (encodeSquadsVaultTransactionMessage m)"
  then show "validateSquadsVaultTransactionMessage m = Inr ()" by (auto simp: is_ok_iff encodeSquadsVaultTransactionMessage_def)
next
  assume v: "validateSquadsVaultTransactionMessage m = Inr ()"
  then have "\<forall>k \<in> set (vm_keys m). is_ok (decodePublicKey (KeyText k))"
    "\<forall>i \<in> set (vm_instructions m). is_ok (encode_squads_instruction i)"
    "\<forall>l \<in> set (vm_lookups m). is_ok (encode_squads_lookup l)"
    by (auto simp: validateSquadsVaultTransactionMessage_def bindR_eq_Inr eachR_ok Let_def key_decodes
        valid_instruction_encodes valid_lookup_encodes split: if_splits)
  then obtain ks ins ls where "mapR (\<lambda>key. decodePublicKey (KeyText key)) (vm_keys m) = Inr ks"
    "mapR encode_squads_instruction (vm_instructions m) = Inr ins" "mapR encode_squads_lookup (vm_lookups m) = Inr ls"
    unfolding mapR_ok [symmetric] by (auto simp: is_ok_iff)
  with v show "is_ok (encodeSquadsVaultTransactionMessage m)"
    by (auto simp: is_ok_iff encodeSquadsVaultTransactionMessage_def validateSquadsVaultTransactionMessage_def bindR_eq_Inr
        assertU8_ok encodeU8_Inr split: if_splits)
qed

text \<open>An encoded message is short enough for the length prefix of the instruction that stores it.\<close>

lemma length_concat_le: "\<forall>x \<in> set xs. length x \<le> n \<Longrightarrow> length (concat xs) \<le> n * length xs"
  by (induction xs) auto

lemma mapR_set: "mapR f xs = Inr ys \<Longrightarrow> y \<in> set ys \<Longrightarrow> \<exists>x \<in> set xs. f x = Inr y"
  by (induction xs arbitrary: ys) auto

lemma length_mapR: "mapR f xs = Inr ys \<Longrightarrow> length ys = length xs"
  by (induction xs arbitrary: ys) auto

lemma instruction_size:
  assumes "encode_squads_instruction i = Inr parts"
  shows "length (concat parts) \<le> 65794"
  using assms by (auto simp: encode_squads_instruction_def encodeU8_Inr encodeU16_Inr)

lemma lookup_size:
  assumes "encode_squads_lookup l = Inr parts"
  shows "length (concat parts) \<le> 544"
  using assms by (auto simp: encode_squads_lookup_def encodeU8_Inr dest: decodePublicKey_length)

lemma message_size:
  assumes "encodeSquadsVaultTransactionMessage m = Inr bs"
  shows "length bs < 2 ^ 25"
proof -
  obtain ks ins ls where p: "mapR (\<lambda>key. decodePublicKey (KeyText key)) (vm_keys m) = Inr ks"
    "mapR encode_squads_instruction (vm_instructions m) = Inr ins" "mapR encode_squads_lookup (vm_lookups m) = Inr ls"
    "length (vm_keys m) \<le> 255" "length (vm_instructions m) \<le> 255" "length (vm_lookups m) \<le> 255"
    "length bs = 6 + length (concat ks) + length (concat (concat ins)) + length (concat (concat ls))"
    using assms by (auto simp: encodeSquadsVaultTransactionMessage_def encodeU8_Inr concatenateBytes_def)
  have "length (concat ks) \<le> 32 * length ks"
    using mapR_set [OF p(1)] decodePublicKey_length by (intro length_concat_le) fastforce
  moreover have "length (concat (map concat ins)) \<le> 65794 * length (map concat ins)"
    using mapR_set [OF p(2)] instruction_size by (intro length_concat_le) fastforce
  moreover have "length (concat (map concat ls)) \<le> 544 * length (map concat ls)"
    using mapR_set [OF p(3)] lookup_size by (intro length_concat_le) fastforce
  ultimately have "length bs \<le> 6 + 32 * 255 + 65794 * 255 + 544 * 255"
    using p(4-7) length_mapR [OF p(1)] length_mapR [OF p(2)] length_mapR [OF p(3)] by (simp add: concat_concat)
  then show ?thesis by simp
qed

lemma message_vector: "encodeSquadsVaultTransactionMessage m = Inr bs \<Longrightarrow> is_ok (encodeByteVector bs)"
  using message_size [of m bs]
  by (simp add: is_ok_iff encodeByteVector_def encodeU32_def encodeUnsignedInteger_squads_def unsigned_JNum
      is_safe_integer_def MAX_SAFE_INTEGER_def)

lemma no_tables_no_lookups:
  "vault_message_ok vault instructions [] m writable readonly \<Longrightarrow> vm_lookups m = []"
proof -
  assume "vault_message_ok vault instructions [] m writable readonly"
  then obtain lookups used where u: "vm_lookups m = map squads_lookup_of lookups" "subseq used []"
    "list_all2 lookup_into used lookups" by (auto simp: vault_message_ok_def lookups_load_def Let_def)
  from list_emb_length [OF u(2)] list_all2_lengthD [OF u(3)] show ?thesis by (simp add: u(1))
qed

end
