(* ===== verification/SquadsProposal.thy ===== *)
theory SquadsProposal
  imports SquadsCompile ProgramAddress
begin

text \<open>
  \<open>typescript/src/squads/SquadsProgram.ts\<close>, \<open>SquadsPda.ts\<close>, \<open>SquadsInstruction.ts\<close> and \<open>SquadsProposal.ts\<close>,
  and \<open>resolveSquadsVaultTransactionExecuteAccounts\<close> of \<open>SquadsVaultMessage.ts\<close>: the addresses of a Squads
  proposal, the instructions that create, activate, approve and execute it, and the accounts of its execution.
  A request object is a record; an optional field is an option. \<open>H\<close> is SHA-256.
\<close>

section \<open>Constants\<close>

definition SQUADS_MULTISIG_PROGRAM_ADDRESS :: string where
  "SQUADS_MULTISIG_PROGRAM_ADDRESS = ''SQDS4ep65T869zMMBKyuUq6aD6EgTu8psMjkvj52pCf''"

definition SOLANA_SYSTEM_PROGRAM_ADDRESS :: string where
  "SOLANA_SYSTEM_PROGRAM_ADDRESS = ''11111111111111111111111111111111''"

definition VAULT_TRANSACTION_CREATE :: bytes where
  "VAULT_TRANSACTION_CREATE = [48, 250, 78, 168, 208, 226, 218, 211]"

definition VAULT_TRANSACTION_EXECUTE :: bytes where
  "VAULT_TRANSACTION_EXECUTE = [194, 8, 161, 87, 153, 164, 25, 171]"

definition PROPOSAL_CREATE :: bytes where
  "PROPOSAL_CREATE = [220, 60, 73, 224, 30, 108, 79, 159]"

definition PROPOSAL_ACTIVATE :: bytes where
  "PROPOSAL_ACTIVATE = [11, 34, 92, 248, 154, 27, 51, 106]"

definition PROPOSAL_APPROVE :: bytes where
  "PROPOSAL_APPROVE = [144, 37, 164, 136, 188, 216, 42, 248]"

section \<open>Addresses\<close>

definition SEED_PREFIX :: bytes where "SEED_PREFIX = utf8_encode ''multisig''"
definition SEED_VAULT :: bytes where "SEED_VAULT = utf8_encode ''vault''"
definition SEED_TRANSACTION :: bytes where "SEED_TRANSACTION = utf8_encode ''transaction''"
definition SEED_PROPOSAL :: bytes where "SEED_PROPOSAL = utf8_encode ''proposal''"
definition SEED_EPHEMERAL_SIGNER :: bytes where "SEED_EPHEMERAL_SIGNER = utf8_encode ''ephemeral_signer''"

definition deriveSquadsVaultAddress ::
  "(bytes \<Rightarrow> bytes) \<Rightarrow> key_input \<Rightarrow> js \<Rightarrow> key_input \<Rightarrow> program_address_result res" where
  "deriveSquadsVaultAddress H multisigAddress vaultIndex programAddress =
     bindR (decodePublicKey multisigAddress) (\<lambda>multisig.
     bindR (encodeU8 vaultIndex) (\<lambda>index.
       findProgramAddress H [SEED_PREFIX, multisig, SEED_VAULT, index] programAddress))"

definition deriveSquadsTransactionAddress ::
  "(bytes \<Rightarrow> bytes) \<Rightarrow> key_input \<Rightarrow> js \<Rightarrow> key_input \<Rightarrow> program_address_result res" where
  "deriveSquadsTransactionAddress H multisigAddress transactionIndex programAddress =
     bindR (decodePublicKey multisigAddress) (\<lambda>multisig.
     bindR (encodeU64 transactionIndex) (\<lambda>index.
       findProgramAddress H [SEED_PREFIX, multisig, SEED_TRANSACTION, index] programAddress))"

definition deriveSquadsProposalAddress ::
  "(bytes \<Rightarrow> bytes) \<Rightarrow> key_input \<Rightarrow> js \<Rightarrow> key_input \<Rightarrow> program_address_result res" where
  "deriveSquadsProposalAddress H multisigAddress transactionIndex programAddress =
     bindR (decodePublicKey multisigAddress) (\<lambda>multisig.
     bindR (encodeU64 transactionIndex) (\<lambda>index.
       findProgramAddress H [SEED_PREFIX, multisig, SEED_TRANSACTION, index, SEED_PROPOSAL] programAddress))"

definition deriveSquadsEphemeralSignerAddress ::
  "(bytes \<Rightarrow> bytes) \<Rightarrow> key_input \<Rightarrow> js \<Rightarrow> key_input \<Rightarrow> program_address_result res" where
  "deriveSquadsEphemeralSignerAddress H transactionAddress ephemeralSignerIndex programAddress =
     bindR (decodePublicKey transactionAddress) (\<lambda>transaction.
     bindR (encodeU8 ephemeralSignerIndex) (\<lambda>index.
       findProgramAddress H [SEED_PREFIX, transaction, SEED_EPHEMERAL_SIGNER, index] programAddress))"

section \<open>Instructions\<close>

definition accountMeta :: "key_input \<Rightarrow> bool \<Rightarrow> bool \<Rightarrow> solana_account_meta res" where
  "accountMeta address isSigner isWritable =
     bindR (normalizePublicKey address) (\<lambda>key.
       Inr \<lparr>sm_address = key, sm_signer = isSigner, sm_writable = isWritable\<rparr>)"

definition programAddress :: "key_input option \<Rightarrow> string res" where
  "programAddress value =
     normalizePublicKey (case value of None \<Rightarrow> KeyText SQUADS_MULTISIG_PROGRAM_ADDRESS | Some k \<Rightarrow> k)"

definition rent_payer :: "key_input option \<Rightarrow> string \<Rightarrow> string res" where
  "rent_payer given creator = (case given of None \<Rightarrow> Inr creator | Some k \<Rightarrow> normalizePublicKey k)"

text \<open>An instruction of the Squads program: its address, its metas in order, then its data.\<close>

definition squads_call ::
  "key_input option \<Rightarrow> solana_account_meta res list \<Rightarrow> bytes res list \<Rightarrow> solana_instruction res" where
  "squads_call program metas parts =
     bindR (programAddress program) (\<lambda>address.
     bindR (mapR id metas) (\<lambda>accounts.
     bindR (mapR id parts) (\<lambda>data.
       Inr \<lparr>si_program = address, si_accounts = accounts, si_data = concatenateBytes data\<rparr>)))"

record vault_create_request =
  vc_multisig :: key_input
  vc_transaction :: key_input
  vc_creator :: key_input
  vc_rent_payer :: "key_input option"
  vc_vault_index :: js
  vc_ephemeral :: "js option"
  vc_message :: bytes
  vc_memo :: "string option"
  vc_program :: "key_input option"

record proposal_create_request =
  pc_multisig :: key_input
  pc_proposal :: key_input
  pc_creator :: key_input
  pc_rent_payer :: "key_input option"
  pc_transaction_index :: js
  pc_draft :: "bool option"
  pc_program :: "key_input option"

record proposal_member_request =
  pm_multisig :: key_input
  pm_proposal :: key_input
  pm_member :: key_input
  pm_program :: "key_input option"

record vault_execute_request =
  ve_multisig :: key_input
  ve_proposal :: key_input
  ve_transaction :: key_input
  ve_member :: key_input
  ve_remaining :: "solana_account_meta list"
  ve_program :: "key_input option"

definition buildSquadsVaultTransactionCreateInstruction :: "vault_create_request \<Rightarrow> solana_instruction res" where
  "buildSquadsVaultTransactionCreateInstruction request =
     bindR (normalizePublicKey (vc_creator request)) (\<lambda>creator.
     bindR (rent_payer (vc_rent_payer request) creator) (\<lambda>rentPayer.
       squads_call (vc_program request)
         [accountMeta (vc_multisig request) False True,
          accountMeta (vc_transaction request) False True,
          accountMeta (KeyText creator) True False,
          accountMeta (KeyText rentPayer) True True,
          accountMeta (KeyText SOLANA_SYSTEM_PROGRAM_ADDRESS) False False]
         [Inr VAULT_TRANSACTION_CREATE, encodeU8 (vc_vault_index request),
          encodeU8 (case vc_ephemeral request of None \<Rightarrow> JNum 0 | Some n \<Rightarrow> n),
          encodeByteVector (vc_message request), encodeOptionalString (vc_memo request)]))"

definition buildSquadsProposalCreateInstruction :: "proposal_create_request \<Rightarrow> solana_instruction res" where
  "buildSquadsProposalCreateInstruction request =
     bindR (normalizePublicKey (pc_creator request)) (\<lambda>creator.
     bindR (rent_payer (pc_rent_payer request) creator) (\<lambda>rentPayer.
       squads_call (pc_program request)
         [accountMeta (pc_multisig request) False False,
          accountMeta (pc_proposal request) False True,
          accountMeta (KeyText creator) True False,
          accountMeta (KeyText rentPayer) True True,
          accountMeta (KeyText SOLANA_SYSTEM_PROGRAM_ADDRESS) False False]
         [Inr PROPOSAL_CREATE, encodeU64 (pc_transaction_index request),
          Inr (encodeBoolean (case pc_draft request of None \<Rightarrow> False | Some d \<Rightarrow> d))]))"

definition buildSquadsProposalActivateInstruction :: "proposal_member_request \<Rightarrow> solana_instruction res" where
  "buildSquadsProposalActivateInstruction request =
     squads_call (pm_program request)
       [accountMeta (pm_multisig request) False False, accountMeta (pm_member request) True True,
        accountMeta (pm_proposal request) False True]
       [Inr PROPOSAL_ACTIVATE]"

definition buildSquadsProposalApproveInstruction ::
  "proposal_member_request \<Rightarrow> string option \<Rightarrow> solana_instruction res" where
  "buildSquadsProposalApproveInstruction request memo =
     squads_call (pm_program request)
       [accountMeta (pm_multisig request) False False, accountMeta (pm_member request) True True,
        accountMeta (pm_proposal request) False True]
       [Inr PROPOSAL_APPROVE, encodeOptionalString memo]"

definition buildSquadsVaultTransactionExecuteInstruction :: "vault_execute_request \<Rightarrow> solana_instruction res" where
  "buildSquadsVaultTransactionExecuteInstruction request =
     squads_call (ve_program request)
       ([accountMeta (ve_multisig request) False False, accountMeta (ve_proposal request) False True,
         accountMeta (ve_transaction request) False False, accountMeta (ve_member request) True False] @
        map Inr (ve_remaining request))
       [Inr VAULT_TRANSACTION_EXECUTE]"

section \<open>The accounts of an execution\<close>

record resolve_request =
  rr_message :: squads_message
  rr_vault :: key_input
  rr_transaction :: key_input
  rr_ephemeral :: "int option"
  rr_tables :: "address_lookup_table list option"
  rr_program :: "key_input option"

definition ephemeral_signers ::
  "(bytes \<Rightarrow> bytes) \<Rightarrow> string \<Rightarrow> int \<Rightarrow> key_input \<Rightarrow> string list res" where
  "ephemeral_signers H transaction signerCount program =
     mapR (\<lambda>index. bindR (deriveSquadsEphemeralSignerAddress H (KeyText transaction) (JNum (int index)) program)
             (\<lambda>derived. Inr (pda_address derived)))
       [0..<nat signerCount]"

definition index_lookup_table ::
  "address_lookup_table \<Rightarrow> (string \<times> address_lookup_table) list \<Rightarrow> (string \<times> address_lookup_table) list res" where
  "index_lookup_table table known =
     bindR (normalizePublicKey (KeyText (lt_address table))) (\<lambda>address.
       if map_of known address \<noteq> None then throw ''Duplicate address lookup table''
       else Inr (obj_set known address table))"

definition static_meta :: "squads_message \<Rightarrow> string list \<Rightarrow> nat \<times> string \<Rightarrow> solana_account_meta" where
  "static_meta m programSigners entry =
     (case entry of (index, address) \<Rightarrow>
        \<lparr>sm_address = address, sm_signer = (squads_signer m index \<and> address \<notin> set programSigners),
         sm_writable = squads_writable m index\<rparr>)"

definition table_entry :: "address_lookup_table \<Rightarrow> bool \<Rightarrow> int \<Rightarrow> solana_account_meta res" where
  "table_entry table isWritable addressIndex =
     (if addressIndex < 0 \<or> len (lt_addresses table) \<le> addressIndex
      then throw (if isWritable then ''Writable address lookup index is outside table''
                  else ''Readonly address lookup index is outside table'')
      else accountMeta (KeyText (lt_addresses table ! nat addressIndex)) False isWritable)"

definition resolve_lookup ::
  "(string \<times> address_lookup_table) list \<Rightarrow> squads_lookup \<Rightarrow> solana_account_meta list res" where
  "resolve_lookup tables lookup =
     bindR (normalizePublicKey (KeyText (sq_key lookup))) (\<lambda>address.
       case map_of tables address of
         None \<Rightarrow> throw ''Missing address lookup table contents''
       | Some table \<Rightarrow>
           bindR (mapR (table_entry table True) (sq_writable lookup)) (\<lambda>writable.
           bindR (mapR (table_entry table False) (sq_readonly lookup)) (\<lambda>readonly.
             Inr (writable @ readonly))))"

definition resolveSquadsVaultTransactionExecuteAccounts ::
  "(bytes \<Rightarrow> bytes) \<Rightarrow> resolve_request \<Rightarrow> solana_account_meta list res" where
  "resolveSquadsVaultTransactionExecuteAccounts H request =
     (let m = rr_message request in
      bindR (validateSquadsVaultTransactionMessage m) (\<lambda>_.
      bindR (normalizePublicKey (rr_vault request)) (\<lambda>vault.
      bindR (normalizePublicKey (rr_transaction request)) (\<lambda>transaction.
        let signerCount = (case rr_ephemeral request of None \<Rightarrow> 0 | Some n \<Rightarrow> n) in
        bindR (assertU8 signerCount) (\<lambda>_.
          if vm_keys m = [] \<or> hd (vm_keys m) \<noteq> vault
          then throw ''Squads execution message does not use the requested vault as its payer''
          else if vm_signers m = 0 \<or> vm_writable_signers m = 0
          then throw ''Squads execution message does not mark the vault as a writable signer''
          else
            bindR (ephemeral_signers H transaction signerCount
                     (case rr_program request of None \<Rightarrow> KeyText SQUADS_MULTISIG_PROGRAM_ADDRESS | Some k \<Rightarrow> k))
              (\<lambda>ephemeral.
            bindR (foldR index_lookup_table (case rr_tables request of None \<Rightarrow> [] | Some ts \<Rightarrow> ts) []) (\<lambda>tables.
            bindR (mapR (\<lambda>lookup. accountMeta (KeyText (sq_key lookup)) False False) (vm_lookups m)) (\<lambda>tableMetas.
            bindR (mapR (resolve_lookup tables) (vm_lookups m)) (\<lambda>loaded.
              Inr (tableMetas @ map (static_meta m (vault # ephemeral)) (enumerate 0 (vm_keys m)) @ concat loaded))))))))))"

section \<open>The bundle\<close>

record proposal_request =
  pr_multisig :: key_input
  pr_creator :: key_input
  pr_transaction_index :: js
  pr_instructions :: "solana_instruction list"
  pr_vault_index :: "js option"
  pr_rent_payer :: "key_input option"
  pr_approver :: "key_input option"
  pr_executor :: "key_input option"
  pr_draft :: "bool option"
  pr_memo :: "string option"
  pr_approval_memo :: "string option"
  pr_ephemeral :: "int option"
  pr_tables :: "address_lookup_table list option"
  pr_program :: "key_input option"

record proposal_bundle =
  pb_vault :: program_address_result
  pb_transaction :: program_address_result
  pb_proposal :: program_address_result
  pb_message :: squads_message
  pb_message_bytes :: bytes
  pb_creation :: "solana_instruction \<times> solana_instruction"
  pb_activation :: "solana_instruction option"
  pb_approval :: solana_instruction
  pb_execution :: solana_instruction

definition or_default :: "'a option \<Rightarrow> 'a \<Rightarrow> 'a" where
  "or_default given fallback = (case given of None \<Rightarrow> fallback | Some x \<Rightarrow> x)"

definition buildSquadsProposalBundle :: "(bytes \<Rightarrow> bytes) \<Rightarrow> proposal_request \<Rightarrow> proposal_bundle res" where
  "buildSquadsProposalBundle H request =
     (let vaultIndex = or_default (pr_vault_index request) (JNum 0);
          program = or_default (pr_program request) (KeyText SQUADS_MULTISIG_PROGRAM_ADDRESS);
          tables = or_default (pr_tables request) [];
          ephemeral = or_default (pr_ephemeral request) 0;
          approver = or_default (pr_approver request) (pr_creator request);
          executor = or_default (pr_executor request) (pr_creator request);
          draft = or_default (pr_draft request) False;
          multisig = pr_multisig request in
      bindR (deriveSquadsVaultAddress H multisig vaultIndex program) (\<lambda>vault.
      bindR (deriveSquadsTransactionAddress H multisig (pr_transaction_index request) program) (\<lambda>transaction.
      bindR (deriveSquadsProposalAddress H multisig (pr_transaction_index request) program) (\<lambda>proposal.
      bindR (compileSquadsVaultTransactionMessage (pr_instructions request) (KeyText (pda_address vault)) tables)
        (\<lambda>message.
      bindR (encodeSquadsVaultTransactionMessage message) (\<lambda>messageBytes.
      bindR (buildSquadsVaultTransactionCreateInstruction
          \<lparr>vc_multisig = multisig, vc_transaction = KeyText (pda_address transaction), vc_creator = pr_creator request,
           vc_rent_payer = pr_rent_payer request, vc_vault_index = vaultIndex, vc_ephemeral = Some (JNum ephemeral),
           vc_message = messageBytes, vc_memo = pr_memo request, vc_program = Some program\<rparr>) (\<lambda>createTransaction.
      bindR (buildSquadsProposalCreateInstruction
          \<lparr>pc_multisig = multisig, pc_proposal = KeyText (pda_address proposal), pc_creator = pr_creator request,
           pc_rent_payer = pr_rent_payer request, pc_transaction_index = pr_transaction_index request,
           pc_draft = Some draft, pc_program = Some program\<rparr>) (\<lambda>createProposal.
      bindR (if draft
             then bindR (buildSquadsProposalActivateInstruction
                    \<lparr>pm_multisig = multisig, pm_proposal = KeyText (pda_address proposal),
                     pm_member = pr_creator request, pm_program = Some program\<rparr>) (\<lambda>i. Inr (Some i))
             else Inr None) (\<lambda>activation.
      bindR (buildSquadsProposalApproveInstruction
          \<lparr>pm_multisig = multisig, pm_proposal = KeyText (pda_address proposal), pm_member = approver,
           pm_program = Some program\<rparr> (pr_approval_memo request)) (\<lambda>approval.
      bindR (resolveSquadsVaultTransactionExecuteAccounts H
          \<lparr>rr_message = message, rr_vault = KeyText (pda_address vault),
           rr_transaction = KeyText (pda_address transaction), rr_ephemeral = Some ephemeral,
           rr_tables = Some tables, rr_program = Some program\<rparr>) (\<lambda>accounts.
      bindR (buildSquadsVaultTransactionExecuteInstruction
          \<lparr>ve_multisig = multisig, ve_proposal = KeyText (pda_address proposal),
           ve_transaction = KeyText (pda_address transaction), ve_member = executor, ve_remaining = accounts,
           ve_program = Some program\<rparr>) (\<lambda>execution.
        Inr \<lparr>pb_vault = vault, pb_transaction = transaction, pb_proposal = proposal, pb_message = message,
             pb_message_bytes = messageBytes, pb_creation = (createTransaction, createProposal),
             pb_activation = activation, pb_approval = approval, pb_execution = execution\<rparr>))))))))))))"

section \<open>The execution gives every account its role\<close>

definition loaded_metas :: "address_lookup_table list \<Rightarrow> compiled_lookup list \<Rightarrow> solana_account_meta list" where
  "loaded_metas tables lookups = concat (map2 (\<lambda>t l.
     map (\<lambda>i. \<lparr>sm_address = lt_addresses t ! i, sm_signer = False, sm_writable = True\<rparr>) (cl_writable l) @
     map (\<lambda>i. \<lparr>sm_address = lt_addresses t ! i, sm_signer = False, sm_writable = False\<rparr>) (cl_readonly l)) tables lookups)"

lemma loaded_metas_simps [simp]:
  "loaded_metas [] lookups = []"
  "loaded_metas (t # ts) (l # ls) =
     map (\<lambda>i. \<lparr>sm_address = lt_addresses t ! i, sm_signer = False, sm_writable = True\<rparr>) (cl_writable l) @
     map (\<lambda>i. \<lparr>sm_address = lt_addresses t ! i, sm_signer = False, sm_writable = False\<rparr>) (cl_readonly l) @
     loaded_metas ts ls"
  by (simp_all add: loaded_metas_def)

lemma table_entries:
  assumes "mapR (table_entry t w) (map int is) = Inr metas" "indexes_fit t is"
  shows "metas = map (\<lambda>i. \<lparr>sm_address = lt_addresses t ! i, sm_signer = False, sm_writable = w\<rparr>) is"
  using assms
  by (induction "is" arbitrary: metas) (auto simp: table_entry_def accountMeta_def indexes_fit_def)

lemma index_lookup_tables:
  "foldR index_lookup_table tables known = Inr known' \<Longrightarrow>
   (\<forall>k t. map_of known k = Some t \<longrightarrow> map_of known' k = Some t) \<and>
   (\<forall>t \<in> set tables. map_of known' (lt_address t) = Some t)"
proof (induction tables arbitrary: known)
  case (Cons t tables)
  then obtain known1 where k: "index_lookup_table t known = Inr known1" "foldR index_lookup_table tables known1 = Inr known'"
    by auto
  then have "known1 = obj_set known (lt_address t) t" "map_of known (lt_address t) = None"
    by (auto simp: index_lookup_table_def split: if_splits)
  with Cons.IH [OF k(2)] show ?case by (simp add: map_of_obj_set) (metis option.distinct(1))
qed simp

lemma resolve_lookups:
  assumes r: "mapR (resolve_lookup known) (map squads_lookup_of lookups) = Inr loaded"
    and u: "list_all2 lookup_into used lookups" and k: "\<forall>t \<in> set used. map_of known (lt_address t) = Some t"
  shows "concat loaded = loaded_metas used lookups"
  using u r k
proof (induction used lookups arbitrary: loaded rule: list_all2_induct)
  case (Cons t ts l ls)
  then obtain ms rest where ms: "resolve_lookup known (squads_lookup_of l) = Inr ms"
    "mapR (resolve_lookup known) (map squads_lookup_of ls) = Inr rest" "loaded = ms # rest" by auto
  have "map_of known (cl_table l) = Some t" using Cons by (simp add: lookup_into_def)
  then obtain w r where wr: "mapR (table_entry t True) (map int (cl_writable l)) = Inr w"
    "mapR (table_entry t False) (map int (cl_readonly l)) = Inr r" "ms = w @ r"
    using ms(1) by (auto simp: resolve_lookup_def squads_lookup_of_def)
  have "indexes_fit t (cl_writable l)" "indexes_fit t (cl_readonly l)" using Cons.hyps by (auto simp: lookup_into_def)
  then have "ms = loaded_metas [t] [l]" using wr table_entries [OF wr(1)] table_entries [OF wr(2)] by simp
  with Cons.IH [OF ms(2)] Cons.prems(2) ms(3) show ?case by simp
qed simp

lemma loaded_metas_keys:
  "length used = length lookups \<Longrightarrow>
   mset (map sm_address (loaded_metas used lookups)) =
     mset (loads used (map cl_writable lookups) @ loads used (map cl_readonly lookups)) \<and>
   (\<forall>a \<in> set (loaded_metas used lookups). \<not> sm_signer a \<and>
      (sm_writable a \<longrightarrow> sm_address a \<in> set (loads used (map cl_writable lookups))) \<and>
      (\<not> sm_writable a \<longrightarrow> sm_address a \<in> set (loads used (map cl_readonly lookups))))"
  by (induction used lookups rule: list_induct2) (auto simp: comp_def)

text \<open>
  The metas of an execution: those of the lookup tables, then one for each key that the inner instructions use.
\<close>

definition execution_roles ::
  "string \<Rightarrow> string list \<Rightarrow> solana_instruction list \<Rightarrow> squads_message \<Rightarrow> solana_account_meta list \<Rightarrow> bool" where
  "execution_roles vault signers instructions m metas \<longleftrightarrow>
     (\<exists>used.
        metas = map (\<lambda>l. \<lparr>sm_address = sq_key l, sm_signer = False, sm_writable = False\<rparr>) (vm_lookups m) @ used \<and>
        take (length (vm_keys m)) (map sm_address used) = vm_keys m \<and> distinct (map sm_address used) \<and>
        set (map sm_address used) = {k. k = vault \<or> mentions instructions k} \<and>
        (\<forall>a \<in> set used.
           sm_signer a = (asks_signer instructions (sm_address a) \<and> sm_address a \<noteq> vault \<and> sm_address a \<notin> set signers) \<and>
           sm_writable a = (sm_address a = vault \<or> asks_writable instructions (sm_address a))))"

lemma table_metas:
  "mapR (\<lambda>lookup. accountMeta (KeyText (sq_key lookup)) s w) lookups = Inr metas \<Longrightarrow>
   metas = map (\<lambda>l. \<lparr>sm_address = sq_key l, sm_signer = s, sm_writable = w\<rparr>) lookups"
  by (induction lookups arbitrary: metas) (auto simp: accountMeta_def)

lemma static_metas:
  assumes ok: "vault_message_ok vault instructions tables m writable readonly"
  shows "map sm_address (map (static_meta m (vault # signers)) (enumerate 0 (vm_keys m))) = vm_keys m"
    and "a \<in> set (map (static_meta m (vault # signers)) (enumerate 0 (vm_keys m))) \<Longrightarrow>
      sm_signer a = (asks_signer instructions (sm_address a) \<and> sm_address a \<noteq> vault \<and> sm_address a \<notin> set signers) \<and>
      sm_writable a = (sm_address a = vault \<or> asks_writable instructions (sm_address a))"
proof -
  show "map sm_address (map (static_meta m (vault # signers)) (enumerate 0 (vm_keys m))) = vm_keys m"
    by (rule nth_equalityI) (simp_all add: static_meta_def nth_enumerate_eq)
  assume "a \<in> set (map (static_meta m (vault # signers)) (enumerate 0 (vm_keys m)))"
  then obtain i where "i < length (vm_keys m)" "a = static_meta m (vault # signers) (i, vm_keys m ! i)"
    by (auto simp: in_set_enumerate_eq)
  then show "sm_signer a = (asks_signer instructions (sm_address a) \<and> sm_address a \<noteq> vault \<and> sm_address a \<notin> set signers) \<and>
      sm_writable a = (sm_address a = vault \<or> asks_writable instructions (sm_address a))"
    using ok by (auto simp: vault_message_ok_def Let_def static_meta_def)
qed

lemma resolve_roles:
  assumes ok: "vault_message_ok vault instructions tables m writable readonly"
    and r: "resolveSquadsVaultTransactionExecuteAccounts H
      \<lparr>rr_message = m, rr_vault = KeyText vault, rr_transaction = transactionInput, rr_ephemeral = Some n,
       rr_tables = Some tables, rr_program = Some program\<rparr> = Inr metas"
  shows "\<exists>transaction signers. normalizePublicKey transactionInput = Inr transaction \<and>
    ephemeral_signers H transaction n program = Inr signers \<and> execution_roles vault signers instructions m metas"
proof -
  obtain transaction signers known tableMetas loaded where t: "normalizePublicKey transactionInput = Inr transaction"
    "ephemeral_signers H transaction n program = Inr signers" "foldR index_lookup_table tables [] = Inr known"
    "mapR (\<lambda>lookup. accountMeta (KeyText (sq_key lookup)) False False) (vm_lookups m) = Inr tableMetas"
    "mapR (resolve_lookup known) (vm_lookups m) = Inr loaded"
    "metas = tableMetas @ map (static_meta m (vault # signers)) (enumerate 0 (vm_keys m)) @ concat loaded"
    using r by (auto simp: resolveSquadsVaultTransactionExecuteAccounts_def Let_def split: if_splits)
  obtain lookups used where l: "vm_lookups m = map squads_lookup_of lookups" "subseq used tables"
    "list_all2 lookup_into used lookups" "writable = loads used (map cl_writable lookups)"
    "readonly = loads used (map cl_readonly lookups)"
    using ok by (auto simp: vault_message_ok_def lookups_load_def Let_def)
  have "t \<in> set tables" if "t \<in> set used" for t using list_emb_set [OF l(2) that] by blast
  then have loaded: "concat loaded = loaded_metas used lookups"
    using index_lookup_tables [OF t(3)] t(5) l(1,3) by (intro resolve_lookups) auto
  note lk = loaded_metas_keys [OF list_all2_lengthD [OF l(3)], folded l(4,5)]
  let ?static = "map (static_meta m (vault # signers)) (enumerate 0 (vm_keys m))"
  have same: "mset (map sm_address (?static @ concat loaded)) = mset (vm_keys m @ writable @ readonly)"
    using lk static_metas(1) [OF ok, of signers] unfolding loaded map_append mset_append by simp
  have "distinct (vm_keys m @ writable @ readonly)" "set (vm_keys m @ writable @ readonly) = {k. k = vault \<or> mentions instructions k}"
    using ok by (auto simp: vault_message_ok_def Let_def)
  then have keys: "distinct (map sm_address (?static @ concat loaded))"
    "set (map sm_address (?static @ concat loaded)) = {k. k = vault \<or> mentions instructions k}"
    using mset_eq_imp_distinct_iff [OF same] mset_eq_setD [OF same] by simp_all
  have "sm_signer a = (asks_signer instructions (sm_address a) \<and> sm_address a \<noteq> vault \<and> sm_address a \<notin> set signers) \<and>
      sm_writable a = (sm_address a = vault \<or> asks_writable instructions (sm_address a))" if "a \<in> set (concat loaded)" for a
  proof -
    have a: "\<not> sm_signer a" "sm_address a \<in> set (if sm_writable a then writable else readonly)"
      using lk that unfolding loaded by auto
    have "\<forall>k \<in> set writable. k \<noteq> vault \<and> \<not> asks_signer instructions k \<and> asks_writable instructions k"
      "\<forall>k \<in> set readonly. k \<noteq> vault \<and> \<not> asks_signer instructions k \<and> \<not> asks_writable instructions k"
      using ok by (simp_all add: vault_message_ok_def Let_def must_stay_def)
    with a show ?thesis by (cases "sm_writable a") auto
  qed
  then have roles: "\<forall>a \<in> set (?static @ concat loaded).
      sm_signer a = (asks_signer instructions (sm_address a) \<and> sm_address a \<noteq> vault \<and> sm_address a \<notin> set signers) \<and>
      sm_writable a = (sm_address a = vault \<or> asks_writable instructions (sm_address a))"
    using static_metas(2) [OF ok, of _ signers] unfolding set_append by blast
  have "take (length (vm_keys m)) (map sm_address (?static @ concat loaded)) = vm_keys m"
    unfolding map_append static_metas(1) [OF ok, of signers] by simp
  with keys roles have "execution_roles vault signers instructions m metas"
    unfolding execution_roles_def t(6) table_metas [OF t(4)] by blast
  with t(1,2) show ?thesis by blast
qed

section \<open>The parts of a bundle\<close>

lemma accountMeta_Inr: "accountMeta k s w = Inr a \<longleftrightarrow> (\<exists>key. normalizePublicKey k = Inr key \<and> a = \<lparr>sm_address = key, sm_signer = s, sm_writable = w\<rparr>)"
  by (auto simp: accountMeta_def)

lemma squads_call_Inr:
  "squads_call program metas parts = Inr i \<longleftrightarrow>
     (\<exists>accounts data. programAddress program = Inr (si_program i) \<and> mapR id metas = Inr accounts \<and>
        mapR id parts = Inr data \<and> i = \<lparr>si_program = si_program i, si_accounts = accounts, si_data = concat data\<rparr>)"
  by (auto simp: squads_call_def concatenateBytes_def)

abbreviation addresses_of :: "solana_instruction \<Rightarrow> string list" where
  "addresses_of i \<equiv> map sm_address (si_accounts i)"

lemma execute_parts:
  assumes "buildSquadsVaultTransactionExecuteInstruction
     \<lparr>ve_multisig = multisig, ve_proposal = KeyText proposal, ve_transaction = KeyText transaction,
      ve_member = member, ve_remaining = metas, ve_program = Some program\<rparr> = Inr i"
  shows "\<exists>m k. normalizePublicKey multisig = Inr m \<and> normalizePublicKey member = Inr k \<and>
    normalizePublicKey program = Inr (si_program i) \<and> si_data i = VAULT_TRANSACTION_EXECUTE \<and>
    si_accounts i = [\<lparr>sm_address = m, sm_signer = False, sm_writable = False\<rparr>,
      \<lparr>sm_address = proposal, sm_signer = False, sm_writable = True\<rparr>,
      \<lparr>sm_address = transaction, sm_signer = False, sm_writable = False\<rparr>,
      \<lparr>sm_address = k, sm_signer = True, sm_writable = False\<rparr>] @ metas"
proof -
  have "mapR id (map Inr metas) = Inr metas" by (induction metas) simp_all
  then show ?thesis using assms
    by (auto simp: buildSquadsVaultTransactionExecuteInstruction_def squads_call_def accountMeta_def programAddress_def
        concatenateBytes_def)
qed

lemma bundle_parts:
  assumes "buildSquadsProposalBundle H request = Inr b"
  obtains program tables ephemeral accounts where
    "program = or_default (pr_program request) (KeyText SQUADS_MULTISIG_PROGRAM_ADDRESS)"
    "tables = or_default (pr_tables request) []" "ephemeral = or_default (pr_ephemeral request) 0"
    "deriveSquadsVaultAddress H (pr_multisig request) (or_default (pr_vault_index request) (JNum 0)) program = Inr (pb_vault b)"
    "deriveSquadsTransactionAddress H (pr_multisig request) (pr_transaction_index request) program = Inr (pb_transaction b)"
    "deriveSquadsProposalAddress H (pr_multisig request) (pr_transaction_index request) program = Inr (pb_proposal b)"
    "compileSquadsVaultTransactionMessage (pr_instructions request) (KeyText (pda_address (pb_vault b))) tables = Inr (pb_message b)"
    "encodeSquadsVaultTransactionMessage (pb_message b) = Inr (pb_message_bytes b)"
    "buildSquadsVaultTransactionCreateInstruction
       \<lparr>vc_multisig = pr_multisig request, vc_transaction = KeyText (pda_address (pb_transaction b)), vc_creator = pr_creator request,
        vc_rent_payer = pr_rent_payer request, vc_vault_index = or_default (pr_vault_index request) (JNum 0),
        vc_ephemeral = Some (JNum ephemeral), vc_message = pb_message_bytes b, vc_memo = pr_memo request,
        vc_program = Some program\<rparr> = Inr (fst (pb_creation b))"
    "buildSquadsProposalCreateInstruction
       \<lparr>pc_multisig = pr_multisig request, pc_proposal = KeyText (pda_address (pb_proposal b)), pc_creator = pr_creator request,
        pc_rent_payer = pr_rent_payer request, pc_transaction_index = pr_transaction_index request,
        pc_draft = Some (or_default (pr_draft request) False), pc_program = Some program\<rparr> = Inr (snd (pb_creation b))"
    "if or_default (pr_draft request) False
     then \<exists>i. pb_activation b = Some i \<and> buildSquadsProposalActivateInstruction
       \<lparr>pm_multisig = pr_multisig request, pm_proposal = KeyText (pda_address (pb_proposal b)),
        pm_member = pr_creator request, pm_program = Some program\<rparr> = Inr i
     else pb_activation b = None"
    "buildSquadsProposalApproveInstruction
       \<lparr>pm_multisig = pr_multisig request, pm_proposal = KeyText (pda_address (pb_proposal b)),
        pm_member = or_default (pr_approver request) (pr_creator request), pm_program = Some program\<rparr>
       (pr_approval_memo request) = Inr (pb_approval b)"
    "resolveSquadsVaultTransactionExecuteAccounts H
       \<lparr>rr_message = pb_message b, rr_vault = KeyText (pda_address (pb_vault b)),
        rr_transaction = KeyText (pda_address (pb_transaction b)), rr_ephemeral = Some ephemeral,
        rr_tables = Some tables, rr_program = Some program\<rparr> = Inr accounts"
    "buildSquadsVaultTransactionExecuteInstruction
       \<lparr>ve_multisig = pr_multisig request, ve_proposal = KeyText (pda_address (pb_proposal b)),
        ve_transaction = KeyText (pda_address (pb_transaction b)),
        ve_member = or_default (pr_executor request) (pr_creator request), ve_remaining = accounts,
        ve_program = Some program\<rparr> = Inr (pb_execution b)"
  using assms unfolding buildSquadsProposalBundle_def Let_def
  by (fastforce split: if_splits)


section \<open>The bundle\<close>

text \<open>The accounts of the five instructions, written with the addresses the bundle derives.\<close>

definition bundle_accounts_ok :: "proposal_request \<Rightarrow> proposal_bundle \<Rightarrow> bool" where
  "bundle_accounts_ok request b \<longleftrightarrow>
     (\<exists>multisig creator payer approver executor.
        normalizePublicKey (pr_multisig request) = Inr multisig \<and> normalizePublicKey (pr_creator request) = Inr creator \<and>
        rent_payer (pr_rent_payer request) creator = Inr payer \<and>
        normalizePublicKey (or_default (pr_approver request) (pr_creator request)) = Inr approver \<and>
        normalizePublicKey (or_default (pr_executor request) (pr_creator request)) = Inr executor \<and>
        addresses_of (fst (pb_creation b)) =
          [multisig, pda_address (pb_transaction b), creator, payer, SOLANA_SYSTEM_PROGRAM_ADDRESS] \<and>
        addresses_of (snd (pb_creation b)) =
          [multisig, pda_address (pb_proposal b), creator, payer, SOLANA_SYSTEM_PROGRAM_ADDRESS] \<and>
        (\<forall>i. pb_activation b = Some i \<longrightarrow> addresses_of i = [multisig, creator, pda_address (pb_proposal b)]) \<and>
        addresses_of (pb_approval b) = [multisig, approver, pda_address (pb_proposal b)] \<and>
        take 4 (addresses_of (pb_execution b)) =
          [multisig, pda_address (pb_proposal b), pda_address (pb_transaction b), executor])"

text \<open>The data of the instruction that stores the message, and the message that is stored.\<close>

definition stored_message :: "solana_instruction \<Rightarrow> bytes \<Rightarrow> bool" where
  "stored_message i bs \<longleftrightarrow>
     (\<exists>index signers size memo. si_data i = VAULT_TRANSACTION_CREATE @ [index, signers] @ size @ bs @ memo \<and>
        encodeU32 (JNum (len bs)) = Inr size)"

lemma create_parts:
  assumes "buildSquadsVaultTransactionCreateInstruction
       \<lparr>vc_multisig = multisig, vc_transaction = KeyText transaction, vc_creator = creator,
        vc_rent_payer = payer, vc_vault_index = vaultIndex,
        vc_ephemeral = Some (JNum ephemeral), vc_message = bs, vc_memo = memo, vc_program = Some program\<rparr> = Inr i"
  shows "\<exists>m c p. normalizePublicKey multisig = Inr m \<and> normalizePublicKey creator = Inr c \<and> rent_payer payer c = Inr p \<and>
    addresses_of i = [m, transaction, c, p, SOLANA_SYSTEM_PROGRAM_ADDRESS] \<and> stored_message i bs \<and>
    normalizePublicKey program = Inr (si_program i)"
proof -
  have one: "\<exists>b. bs = [b]" if "encodeU8 v = Inr bs" for v bs
    using that by (auto simp: encodeU8_def encodeUnsignedInteger_squads_def split: if_splits)
  show ?thesis using assms
    by (fastforce simp: buildSquadsVaultTransactionCreateInstruction_def squads_call_def accountMeta_def programAddress_def
        concatenateBytes_def stored_message_def encodeByteVector_def dest: one)
qed

lemma proposal_create_parts:
  assumes "buildSquadsProposalCreateInstruction
       \<lparr>pc_multisig = multisig, pc_proposal = KeyText proposal, pc_creator = creator,
        pc_rent_payer = payer, pc_transaction_index = n, pc_draft = d, pc_program = Some program\<rparr> = Inr i"
  shows "\<exists>m c p. normalizePublicKey multisig = Inr m \<and> normalizePublicKey creator = Inr c \<and> rent_payer payer c = Inr p \<and>
    addresses_of i = [m, proposal, c, p, SOLANA_SYSTEM_PROGRAM_ADDRESS] \<and> normalizePublicKey program = Inr (si_program i)"
  using assms
  by (fastforce simp: buildSquadsProposalCreateInstruction_def squads_call_def accountMeta_def programAddress_def)

lemma member_parts:
  assumes "buildSquadsProposalApproveInstruction
       \<lparr>pm_multisig = multisig, pm_proposal = KeyText proposal, pm_member = member, pm_program = Some program\<rparr> memo = Inr i \<or>
     buildSquadsProposalActivateInstruction
       \<lparr>pm_multisig = multisig, pm_proposal = KeyText proposal, pm_member = member, pm_program = Some program\<rparr> = Inr i"
  shows "\<exists>m k. normalizePublicKey multisig = Inr m \<and> normalizePublicKey member = Inr k \<and>
    addresses_of i = [m, k, proposal] \<and> normalizePublicKey program = Inr (si_program i)"
  using assms
  by (fastforce simp: buildSquadsProposalApproveInstruction_def buildSquadsProposalActivateInstruction_def squads_call_def
      accountMeta_def programAddress_def)

lemma bundle_ok:
  assumes "buildSquadsProposalBundle H request = Inr b"
  shows "bundle_accounts_ok request b \<and> stored_message (fst (pb_creation b)) (pb_message_bytes b) \<and>
    decodeSquadsVaultTransactionMessage (pb_message_bytes b) = Inr (pb_message b) \<and>
    (pb_activation b = None \<longleftrightarrow> \<not> or_default (pr_draft request) False) \<and>
    (\<forall>i \<in> {fst (pb_creation b), snd (pb_creation b), pb_approval b, pb_execution b} \<union> set_option (pb_activation b).
       normalizePublicKey (or_default (pr_program request) (KeyText SQUADS_MULTISIG_PROGRAM_ADDRESS)) = Inr (si_program i))"
  using assms
proof (rule bundle_parts)
  fix program tables ephemeral accounts
  assume default: "program = or_default (pr_program request) (KeyText SQUADS_MULTISIG_PROGRAM_ADDRESS)"
    and message: "encodeSquadsVaultTransactionMessage (pb_message b) = Inr (pb_message_bytes b)"
    and create: "buildSquadsVaultTransactionCreateInstruction
       \<lparr>vc_multisig = pr_multisig request, vc_transaction = KeyText (pda_address (pb_transaction b)), vc_creator = pr_creator request,
        vc_rent_payer = pr_rent_payer request, vc_vault_index = or_default (pr_vault_index request) (JNum 0),
        vc_ephemeral = Some (JNum ephemeral), vc_message = pb_message_bytes b, vc_memo = pr_memo request,
        vc_program = Some program\<rparr> = Inr (fst (pb_creation b))"
    and proposal: "buildSquadsProposalCreateInstruction
       \<lparr>pc_multisig = pr_multisig request, pc_proposal = KeyText (pda_address (pb_proposal b)), pc_creator = pr_creator request,
        pc_rent_payer = pr_rent_payer request, pc_transaction_index = pr_transaction_index request,
        pc_draft = Some (or_default (pr_draft request) False), pc_program = Some program\<rparr> = Inr (snd (pb_creation b))"
    and activation: "if or_default (pr_draft request) False
     then \<exists>i. pb_activation b = Some i \<and> buildSquadsProposalActivateInstruction
       \<lparr>pm_multisig = pr_multisig request, pm_proposal = KeyText (pda_address (pb_proposal b)),
        pm_member = pr_creator request, pm_program = Some program\<rparr> = Inr i
     else pb_activation b = None"
    and approval: "buildSquadsProposalApproveInstruction
       \<lparr>pm_multisig = pr_multisig request, pm_proposal = KeyText (pda_address (pb_proposal b)),
        pm_member = or_default (pr_approver request) (pr_creator request), pm_program = Some program\<rparr>
       (pr_approval_memo request) = Inr (pb_approval b)"
    and execution: "buildSquadsVaultTransactionExecuteInstruction
       \<lparr>ve_multisig = pr_multisig request, ve_proposal = KeyText (pda_address (pb_proposal b)),
        ve_transaction = KeyText (pda_address (pb_transaction b)),
        ve_member = or_default (pr_executor request) (pr_creator request), ve_remaining = accounts,
        ve_program = Some program\<rparr> = Inr (pb_execution b)"
  have active: "pb_activation b = Some i \<Longrightarrow> \<exists>m k. normalizePublicKey (pr_multisig request) = Inr m \<and>
      normalizePublicKey (pr_creator request) = Inr k \<and> addresses_of i = [m, k, pda_address (pb_proposal b)] \<and>
      normalizePublicKey program = Inr (si_program i)" for i
  proof -
    assume "pb_activation b = Some i"
    with activation have "buildSquadsProposalActivateInstruction
       \<lparr>pm_multisig = pr_multisig request, pm_proposal = KeyText (pda_address (pb_proposal b)),
        pm_member = pr_creator request, pm_program = Some program\<rparr> = Inr i" by (auto split: if_splits)
    from member_parts [OF disjI2, OF this] show ?thesis by blast
  qed
  obtain m c p where create: "normalizePublicKey (pr_multisig request) = Inr m" "normalizePublicKey (pr_creator request) = Inr c"
    "rent_payer (pr_rent_payer request) c = Inr p"
    "addresses_of (fst (pb_creation b)) = [m, pda_address (pb_transaction b), c, p, SOLANA_SYSTEM_PROGRAM_ADDRESS]"
    "stored_message (fst (pb_creation b)) (pb_message_bytes b)"
    "normalizePublicKey program = Inr (si_program (fst (pb_creation b)))"
    using create_parts [OF create] by (elim exE conjE) (rule that)
  have proposal: "addresses_of (snd (pb_creation b)) = [m, pda_address (pb_proposal b), c, p, SOLANA_SYSTEM_PROGRAM_ADDRESS]"
    "normalizePublicKey program = Inr (si_program (snd (pb_creation b)))"
    using proposal_create_parts [OF proposal] create(1-3) by auto
  obtain approver where approval: "normalizePublicKey (or_default (pr_approver request) (pr_creator request)) = Inr approver"
    "addresses_of (pb_approval b) = [m, approver, pda_address (pb_proposal b)]"
    "normalizePublicKey program = Inr (si_program (pb_approval b))"
    using member_parts [OF disjI1, OF approval] create(1) by auto
  obtain executor where execution: "normalizePublicKey (or_default (pr_executor request) (pr_creator request)) = Inr executor"
    "take 4 (addresses_of (pb_execution b)) = [m, pda_address (pb_proposal b), pda_address (pb_transaction b), executor]"
    "normalizePublicKey program = Inr (si_program (pb_execution b))"
    using execute_parts [OF execution] create(1) by auto
  have act: "\<forall>i. pb_activation b = Some i \<longrightarrow> addresses_of i = [m, c, pda_address (pb_proposal b)]"
    using active create(1,2) by fastforce
  have "bundle_accounts_ok request b" unfolding bundle_accounts_ok_def
    by (rule exI [of _ m], rule exI [of _ c], rule exI [of _ p], rule exI [of _ approver], rule exI [of _ executor])
      (use create(1-4) proposal(1) approval(1,2) execution(1,2) act in simp)
  moreover have "decodeSquadsVaultTransactionMessage (pb_message_bytes b) = Inr (pb_message b)"
    using message by (simp add: decode_squads_iff)
  moreover have "\<forall>i \<in> {fst (pb_creation b), snd (pb_creation b), pb_approval b, pb_execution b} \<union> set_option (pb_activation b).
      normalizePublicKey program = Inr (si_program i)"
    using create(6) proposal(2) approval(3) execution(3) active by blast
  moreover note create(5)
  moreover have "pb_activation b = None \<longleftrightarrow> \<not> or_default (pr_draft request) False"
    using activation by (auto split: if_splits)
  ultimately show ?thesis unfolding default by blast
qed

lemma bundle_execution_roles:
  assumes b: "buildSquadsProposalBundle H request = Inr b"
    and f: "fits (pr_instructions request)" "card {k. asks_signer (pr_instructions request) k} < 127"
  shows "\<exists>signers metas. drop 4 (si_accounts (pb_execution b)) = metas \<and>
    ephemeral_signers H (pda_address (pb_transaction b)) (or_default (pr_ephemeral request) 0)
      (or_default (pr_program request) (KeyText SQUADS_MULTISIG_PROGRAM_ADDRESS)) = Inr signers \<and>
    execution_roles (pda_address (pb_vault b)) signers (pr_instructions request) (pb_message b) metas"
  using b
proof (rule bundle_parts)
  fix program tables ephemeral accounts
  assume defaults: "program = or_default (pr_program request) (KeyText SQUADS_MULTISIG_PROGRAM_ADDRESS)"
      "ephemeral = or_default (pr_ephemeral request) 0"
    and message: "compileSquadsVaultTransactionMessage (pr_instructions request) (KeyText (pda_address (pb_vault b))) tables
      = Inr (pb_message b)"
    and accounts: "resolveSquadsVaultTransactionExecuteAccounts H
       \<lparr>rr_message = pb_message b, rr_vault = KeyText (pda_address (pb_vault b)),
        rr_transaction = KeyText (pda_address (pb_transaction b)), rr_ephemeral = Some ephemeral,
        rr_tables = Some tables, rr_program = Some program\<rparr> = Inr accounts"
    and execution: "buildSquadsVaultTransactionExecuteInstruction
       \<lparr>ve_multisig = pr_multisig request, ve_proposal = KeyText (pda_address (pb_proposal b)),
        ve_transaction = KeyText (pda_address (pb_transaction b)),
        ve_member = or_default (pr_executor request) (pr_creator request), ve_remaining = accounts,
        ve_program = Some program\<rparr> = Inr (pb_execution b)"
  obtain writable readonly where
    "vault_message_ok (pda_address (pb_vault b)) (pr_instructions request) tables (pb_message b) writable readonly"
    using compileSquadsVaultTransactionMessage_ok [OF message f] by auto
  from resolve_roles [OF this accounts] obtain signers where
    "ephemeral_signers H (pda_address (pb_transaction b)) ephemeral program = Inr signers"
    "execution_roles (pda_address (pb_vault b)) signers (pr_instructions request) (pb_message b) accounts"
    by auto
  moreover have "drop 4 (si_accounts (pb_execution b)) = accounts" using execute_parts [OF execution] by auto
  ultimately show ?thesis unfolding defaults by blast
qed

end
