(* ===== verification/SampleMessages.thy ===== *)
theory SampleMessages
  imports SampleSchema SquadsProposal
begin

text \<open>
  Concrete inputs for the properties of versioned messages, vault messages and proposals: a lookup table,
  and a request that proposes the sample instructions.
\<close>

definition sample_table :: address_lookup_table where
  "sample_table = \<lparr>lt_address = sample_key 5, lt_addresses = [sample_key 7, sample_key 3]\<rparr>"

definition sample_vault :: string where
  "sample_vault = encodeBase58 (replicate 32 255)"

lemma sample_vault_key: "is_key sample_vault"
  by (simp add: sample_vault_def is_key_encoded)

lemma sample_vault_decoded: "decodePublicKey (KeyText sample_vault) = Inr (replicate 32 255)"
  unfolding sample_vault_def by (rule decodePublicKey_encoded) simp

lemma sample_vault_new: "n < 58 \<Longrightarrow> sample_key n \<noteq> sample_vault"
proof
  assume n: "n < 58" "sample_key n = sample_vault"
  have "decodePublicKey (KeyText (sample_key 0)) = Inr (replicate 32 0)"
    using decodePublicKey_encoded [of "replicate 32 0"] by (simp add: sample_key_0)
  moreover have "replicate 32 (255 :: byte) \<noteq> replicate 32 0" by (simp add: replicate_eq_replicate)
  moreover have "replicate 32 (255 :: byte) \<noteq> replicate 31 0 @ [w]" for w
  proof -
    have "hd (replicate 32 (255 :: byte)) \<noteq> hd (replicate 31 0 @ [w])" by simp
    then show ?thesis by metis
  qed
  ultimately show False using n sample_vault_decoded sample_key_decoded [of n] by (cases "n = 0") auto
qed

lemmas compile_defs = aggregateAccountMetas_def sample_instructions_def merge_instruction_def merge_account_def
    mergeAccountMeta_def sample_key_is_key sample_key_inj orderStaticAccountMetas_def accountOrderGroup_def
    compileMessageBytes_def countMatching_def Let_def shortvec_def encodeShortVectorLength_def is_safe_integer_def MAX_SAFE_INTEGER_def
    sample_key_decoded compile_instruction_def index_of_key_def compile_lookups_def less_eq_prod_def

lemma sample_versioned_ok:
  "is_ok (compileVersionZeroMessage sample_instructions (KeyText (sample_key 1)) (KeyText (sample_key 4)) [sample_table])"
  by (simp add: is_ok_iff compileVersionZeroMessage_def compile_defs placeAccountsInLookupTables_def table_indexes_def
      sample_table_def place_meta_def collect_lookup_def loaded_address_def compile_lookup_def)

lemma zero_blockhash: "decodePublicKey (KeyBytes (replicate 32 0)) = Inr (replicate 32 0)"
  by (simp add: decodePublicKey_Inr)

lemma sample_unversioned_key:
  "is_ok (compileUnversionedMessage sample_instructions (KeyText (sample_key 1)) (KeyBytes (replicate 32 0)))"
  by (simp add: is_ok_iff compileUnversionedMessage_def compile_defs zero_blockhash)

lemma sample_unversioned_vault:
  "is_ok (compileUnversionedMessage sample_instructions (KeyText sample_vault) (KeyBytes (replicate 32 0)))"
  by (simp add: is_ok_iff compileUnversionedMessage_def compile_defs zero_blockhash sample_vault_key sample_vault_decoded
      sample_vault_new sample_vault_new [symmetric])

lemma sample_unversioned:
  "p = sample_key 1 \<or> p = sample_vault \<Longrightarrow>
   is_ok (compileUnversionedMessage sample_instructions (KeyText p) (KeyBytes (replicate 32 0)))"
  using sample_unversioned_key sample_unversioned_vault by blast

lemma sample_signers: "{k. asks_signer sample_instructions k} = {sample_key 2}"
  by (auto simp: asks_signer_def sample_instructions_def)

lemma sample_few_signers: "card {k. asks_signer sample_instructions k} < 127"
  by (simp add: sample_signers)

lemma sample_sized: "squads_sized sample_instructions" "fits sample_instructions"
  by (simp_all add: squads_sized_def fits_def sample_instructions_def)

lemma sample_mentions: "{k. k = p \<or> mentions sample_instructions k} = {p, sample_key 9, sample_key 2, sample_key 3}"
  by (auto simp: mentions_def sample_instructions_def)

lemma sample_key_count:
  assumes "compileUnversionedMessage sample_instructions (KeyText p) blockhash = Inr msg"
  shows "length (cm_account_keys msg) \<le> 255"
proof -
  obtain payer where "distinct (cm_account_keys msg)" "set (cm_account_keys msg) = {k. k = payer \<or> mentions sample_instructions k}"
    using compileUnversionedMessage_ok [OF assms] by (auto simp: Let_def)
  then have "length (cm_account_keys msg) = card {payer, sample_key 9, sample_key 2, sample_key 3}"
    using distinct_card sample_mentions by metis
  also have "\<dots> \<le> 255" by (simp add: card_insert_if)
  finally show ?thesis .
qed

lemma sample_vault_message:
  assumes "p = sample_key 1 \<or> p = sample_vault"
  obtains m where "compileSquadsVaultTransactionMessage sample_instructions (KeyText p) [] = Inr m"
proof -
  obtain msg where msg: "compileUnversionedMessage sample_instructions (KeyText p) (KeyBytes (replicate 32 0)) = Inr msg"
    using sample_unversioned [OF assms] by (auto simp: is_ok_iff)
  have "normalizePublicKey (KeyText p) = Inr p" using assms sample_key_is_key sample_vault_key by auto
  from vault_message_exists [OF this _ sample_sized(1) sample_key_count [OF msg] sample_few_signers, of "[]"] msg that
  show ?thesis by (auto simp: is_ok_iff)
qed

section \<open>The sample proposal\<close>

definition sample_request :: proposal_request where
  "sample_request = \<lparr>pr_multisig = KeyText (sample_key 6), pr_creator = KeyText (sample_key 1),
     pr_transaction_index = JNum 1, pr_instructions = sample_instructions, pr_vault_index = None,
     pr_rent_payer = None, pr_approver = None, pr_executor = None, pr_draft = Some True, pr_memo = None,
     pr_approval_memo = None, pr_ephemeral = None, pr_tables = None, pr_program = Some (KeyText (sample_key 9))\<rparr>"

lemma sample_integers:
  "encodeU8 (JNum 0) = Inr [0]" "encodeU64 (JNum 1) = Inr [1, 0, 0, 0, 0, 0, 0, 0]"
  by (simp_all add: encodeU8_def encodeU64_def encodeUnsignedInteger_squads_def unsignedIntegerFromValue_def
      is_safe_integer_def MAX_SAFE_INTEGER_def low_digits_numeral)

lemma sample_squads_seeds: "length SEED_PREFIX \<le> 32" "length SEED_VAULT \<le> 32" "length SEED_TRANSACTION \<le> 32" "length SEED_PROPOSAL \<le> 32"
  by (simp_all add: SEED_PREFIX_def SEED_VAULT_def SEED_TRANSACTION_def SEED_PROPOSAL_def utf8_encode_def utf8_unit_def)

lemma sample_addresses:
  "deriveSquadsVaultAddress sample_hash (KeyText (sample_key 6)) (JNum 0) (KeyText (sample_key 9)) = Inr \<lparr>pda_address = sample_vault, pda_bump = 255\<rparr>"
  "deriveSquadsTransactionAddress sample_hash (KeyText (sample_key 6)) (JNum 1) (KeyText (sample_key 9)) = Inr \<lparr>pda_address = sample_vault, pda_bump = 255\<rparr>"
  "deriveSquadsProposalAddress sample_hash (KeyText (sample_key 6)) (JNum 1) (KeyText (sample_key 9)) = Inr \<lparr>pda_address = sample_vault, pda_bump = 255\<rparr>"
  using sample_squads_seeds
  by (simp_all add: deriveSquadsVaultAddress_def deriveSquadsTransactionAddress_def deriveSquadsProposalAddress_def
      sample_key_decoded sample_integers sample_find sample_key_is_key sample_vault_def)

lemma mapR_id_Inr: "mapR id (map (Inr \<circ> f) xs) = Inr (map f xs)"
  by (induction xs) simp_all

lemma system_key: "SOLANA_SYSTEM_PROGRAM_ADDRESS = sample_key 0"
  by (simp add: SOLANA_SYSTEM_PROGRAM_ADDRESS_def sample_key_def base58_char_def BASE58_ALPHABET_def numeral_eq_Suc)

lemma sample_bundle: "is_ok (buildSquadsProposalBundle sample_hash sample_request)"
proof -
  obtain m where m: "compileSquadsVaultTransactionMessage sample_instructions (KeyText sample_vault) [] = Inr m"
    using sample_vault_message by blast
  obtain writable readonly where ok: "vault_message_ok sample_vault sample_instructions [] m writable readonly"
    using compileSquadsVaultTransactionMessage_ok [OF m sample_sized(2) sample_few_signers] by auto
  note facts = no_tables_no_lookups [OF ok] vault_message_checks [OF ok]
  have valid: "validateSquadsVaultTransactionMessage m = Inr ()"
    using m by (auto simp: compileSquadsVaultTransactionMessage_def parseStandardCompiledMessage_def split: if_splits)
  then obtain bs where bs: "encodeSquadsVaultTransactionMessage m = Inr bs"
    using encode_iff_valid by (auto simp: is_ok_iff)
  obtain vec where vec: "encodeByteVector bs = Inr vec" using message_vector [OF bs] by (auto simp: is_ok_iff)
  show ?thesis
    unfolding is_ok_iff buildSquadsProposalBundle_def Let_def
    by (simp add: sample_request_def or_default_def sample_addresses m bs vec facts valid
        buildSquadsVaultTransactionCreateInstruction_def buildSquadsProposalCreateInstruction_def
        buildSquadsProposalActivateInstruction_def buildSquadsProposalApproveInstruction_def
        resolveSquadsVaultTransactionExecuteAccounts_def buildSquadsVaultTransactionExecuteInstruction_def
        squads_call_def accountMeta_def programAddress_def rent_payer_def sample_key_normalized sample_vault_key
        sample_integers system_key encodeOptionalString_def ephemeral_signers_def assertU8_def sample_key_is_key mapR_id_Inr)
qed

end
