(* ===== verification/ChanceryRpc.thy ===== *)
theory ChanceryRpc
  imports ChanceryEvent ChanceryAccount
begin

text \<open>
  \<open>typescript/src/JsonRpcCodec.ts\<close> and \<open>ChanceryRpc.ts\<close>: the JSON-RPC client. What it sends and what it makes
  of a response is modelled; the transport is a parameter: \<open>fetch\<close> maps a request and a state of the outside
  world to a response and the next state, or throws. \<open>JSON.parse\<close> of a response text is part of that parameter and
  gives a tree whose numbers carry their source text, as the reviver of \<open>parseJsonRpcResponse\<close> sees them. An
  \<open>async\<close> method is a function on the state of the client object, and \<open>await\<close> is sequencing. The state after a throw
  is not modelled, since no code of the client goes on with an object that has thrown.
\<close>

section \<open>JSON\<close>

datatype json =
    JsonNull
  | JsonBool bool
  | JsonNumber string js
  | JsonString string
  | JsonArray "json list"
  | JsonObject "(string \<times> json) list"

text \<open>The patterns \<open>(0|[1-9][0-9]*)\<close> and \<open>-?(0|[1-9][0-9]*)\<close>.\<close>

definition is_plain_decimal :: "string \<Rightarrow> bool" where
  "is_plain_decimal s \<longleftrightarrow> is_decimal s \<and> (hd s = CHR ''0'' \<longrightarrow> length s = 1)"

definition is_plain_integer :: "string \<Rightarrow> bool" where
  "is_plain_integer s \<longleftrightarrow>
     (case s of [] \<Rightarrow> False | c # cs \<Rightarrow> if c = CHR ''-'' then is_plain_decimal cs else is_plain_decimal s)"

definition reviveUnsafeInteger :: "string \<Rightarrow> js \<Rightarrow> js" where
  "reviveUnsafeInteger source value =
     (case value of
        JNum n \<Rightarrow> if \<not> is_safe_integer n \<and> is_plain_integer source then JBig (parse_signed_decimal source) else value
      | _ \<Rightarrow> value)"

text \<open>A repeated key keeps the place of its first occurrence and the value of its last.\<close>

definition object_of :: "(string \<times> js) list \<Rightarrow> js_object" where
  "object_of entries = foldl (\<lambda>ob (k, v). obj_set ob k v) [] entries"

fun parseJsonRpcResponse :: "json \<Rightarrow> js" where
  "parseJsonRpcResponse JsonNull = JNull"
| "parseJsonRpcResponse (JsonBool b) = JBool b"
| "parseJsonRpcResponse (JsonNumber source value) = reviveUnsafeInteger source value"
| "parseJsonRpcResponse (JsonString s) = JStr s"
| "parseJsonRpcResponse (JsonArray xs) = JArr (map parseJsonRpcResponse xs)"
| "parseJsonRpcResponse (JsonObject entries) = JObj (object_of (map (\<lambda>(k, v). (k, parseJsonRpcResponse v)) entries))"

section \<open>Values of a response\<close>

definition parseUnsignedBigInteger :: "js \<Rightarrow> int res" where
  "parseUnsignedBigInteger value =
     (case value of
        JBig n \<Rightarrow> if n < 0 then throw ''field must be an unsigned integer'' else Inr n
      | JNum n \<Rightarrow> if is_safe_integer n \<and> 0 \<le> n then Inr n else throw ''field must be an unsigned integer''
      | JStr s \<Rightarrow> if is_plain_decimal s then Inr (int (parse_decimal s)) else throw ''field must be an unsigned integer''
      | _ \<Rightarrow> throw ''field must be an unsigned integer'')"

definition parseRpcError :: "js \<Rightarrow> (js \<times> string) res" where
  "parseRpcError value =
     bindR (recordFromUnknown value) (\<lambda>errorRecord.
       case (obj_get errorRecord ''code'', obj_get errorRecord ''message'') of
         (JNum n, JStr message) \<Rightarrow> Inr (JNum n, message)
       | (JFrac, JStr message) \<Rightarrow> Inr (JFrac, message)
       | _ \<Rightarrow> throw ''RPC error requires numeric code and string message fields'')"

definition item_at :: "js list \<Rightarrow> nat \<Rightarrow> js" where
  "item_at xs i = (if i < length xs then xs ! i else JUndef)"

record rpc_account_info =
  ra_data :: bytes
  ra_executable :: bool
  ra_lamports :: int
  ra_owner :: string
  ra_rent_epoch :: int
  ra_space :: int

definition account_space :: "js \<Rightarrow> bytes \<Rightarrow> int res" where
  "account_space spaceValue data =
     (if spaceValue = JUndef then Inr (int (length data))
      else
        bindR (parseUnsignedBigInteger spaceValue) (\<lambda>parsedSpace.
          if MAX_SAFE_INTEGER < parsedSpace then throw ''RPC account space exceeds the safe integer range''
          else Inr parsedSpace))"

definition parseAccountInfoValue :: "js \<Rightarrow> rpc_account_info res" where
  "parseAccountInfoValue value =
     bindR (recordFromUnknown value) (\<lambda>accountRecord.
       case (obj_get accountRecord ''data'', obj_get accountRecord ''executable'', obj_get accountRecord ''owner'') of
         (JArr xs, JBool executable, JStr owner) \<Rightarrow>
           (case (item_at xs 0, item_at xs 1) of
              (JStr text, JStr encoding) \<Rightarrow>
                if encoding \<noteq> ''base64'' then throw ''RPC account value has an unsupported shape''
                else
                  bindR (parseUnsignedBigInteger (obj_get accountRecord ''lamports'')) (\<lambda>lamports.
                  bindR (parseUnsignedBigInteger (obj_get accountRecord ''rentEpoch'')) (\<lambda>rentEpoch.
                  bindR (decodeBase64 text) (\<lambda>data.
                  bindR (account_space (obj_get accountRecord ''space'') data) (\<lambda>space.
                  bindR (normalizePublicKey (KeyText owner)) (\<lambda>address.
                    Inr \<lparr>ra_data = data, ra_executable = executable, ra_lamports = lamports, ra_owner = address,
                         ra_rent_epoch = rentEpoch, ra_space = space\<rparr>)))))
            | _ \<Rightarrow> throw ''RPC account value has an unsupported shape'')
       | _ \<Rightarrow> throw ''RPC account value has an unsupported shape'')"

definition parseAccountInfoResult :: "js \<Rightarrow> rpc_account_info option res" where
  "parseAccountInfoResult result =
     bindR (recordFromUnknown result) (\<lambda>resultRecord.
       if obj_get resultRecord ''value'' = JNull then Inr None
       else bindR (parseAccountInfoValue (obj_get resultRecord ''value'')) (\<lambda>info. Inr (Some info)))"

record rpc_address_account_info =
  rx_address :: string
  rx_account :: rpc_account_info

definition parse_address_account :: "js \<Rightarrow> rpc_address_account_info res" where
  "parse_address_account value =
     bindR (recordFromUnknown value) (\<lambda>item.
       case obj_get item ''pubkey'' of
         JStr pubkey \<Rightarrow>
           bindR (normalizePublicKey (KeyText pubkey)) (\<lambda>address.
           bindR (parseAccountInfoValue (obj_get item ''account'')) (\<lambda>account.
             Inr \<lparr>rx_address = address, rx_account = account\<rparr>))
       | _ \<Rightarrow> throw ''pubkey must be a string'')"

definition array_of :: "string \<Rightarrow> js \<Rightarrow> js list res" where
  "array_of message value = (case value of JArr xs \<Rightarrow> Inr xs | _ \<Rightarrow> throw message)"

definition nullable_unsigned :: "js \<Rightarrow> int option res" where
  "nullable_unsigned value =
     (if is_nullish value then Inr None else bindR (parseUnsignedBigInteger value) (\<lambda>n. Inr (Some n)))"

section \<open>The client object\<close>

datatype rpc_commitment = Processed | Confirmed | Finalized

fun commitment_name :: "rpc_commitment \<Rightarrow> string" where
  "commitment_name Processed = ''processed''"
| "commitment_name Confirmed = ''confirmed''"
| "commitment_name Finalized = ''finalized''"

record parsed_url =
  url_protocol :: string
  url_href :: string

record rpc_call =
  rc_endpoint :: string
  rc_id :: nat
  rc_method :: string
  rc_params :: "js list"

record http_response =
  hr_ok :: bool
  hr_body :: "json res"

type_synonym 'w fetch = "rpc_call \<Rightarrow> 'w \<Rightarrow> (http_response \<times> 'w) res"

record 'w rpc =
  rpc_endpoint :: string
  rpc_request_id :: nat
  rpc_minimum_context_slot :: "int option"
  rpc_world :: 'w

type_synonym ('w, 'a) rpc_io = "('w rpc, 'a) parser"

definition liftP :: "'a res \<Rightarrow> ('r, 'a) parser" where
  "liftP r st = bindR r (\<lambda>x. Inr (x, st))"

lemma liftP_Inr: "liftP r st = Inr z \<longleftrightarrow> (\<exists>x. r = Inr x \<and> z = (x, st))"
  by (auto simp: liftP_def)

definition newChanceryRpc :: "parsed_url \<Rightarrow> 'w \<Rightarrow> 'w rpc res" where
  "newChanceryRpc url w =
     (if url_protocol url \<noteq> ''http:'' \<and> url_protocol url \<noteq> ''https:'' then throw ''RPC endpoint must use HTTP or HTTPS''
      else Inr \<lparr>rpc_endpoint = url_href url, rpc_request_id = 0, rpc_minimum_context_slot = None, rpc_world = w\<rparr>)"

definition setMinimumContextSlot :: "int option \<Rightarrow> ('w, unit) rpc_io" where
  "setMinimumContextSlot slot st =
     (case slot of
        Some n \<Rightarrow> if n < 0 then throw ''Minimum context slot must be nonnegative''
                  else Inr ((), st\<lparr>rpc_minimum_context_slot := Some n\<rparr>)
      | None \<Rightarrow> Inr ((), st\<lparr>rpc_minimum_context_slot := None\<rparr>))"

definition response_result :: "js \<Rightarrow> js res" where
  "response_result responseValue =
     (case responseValue of
        JObj responseRecord \<Rightarrow>
          if obj_get responseRecord ''error'' \<noteq> JUndef
          then bindR (parseRpcError (obj_get responseRecord ''error'')) (\<lambda>_. throw ''RPC '')
          else (case map_of responseRecord ''result'' of
                  None \<Rightarrow> throw ''RPC response has no result field''
                | Some result \<Rightarrow> Inr result)
      | JArr _ \<Rightarrow> throw ''RPC response has no result field''
      | _ \<Rightarrow> throw ''RPC response root must be an object'')"

definition rpc_request :: "'w fetch \<Rightarrow> string \<Rightarrow> js list \<Rightarrow> ('w, js) rpc_io" where
  "rpc_request fetch method parameters st =
     (let st1 = st\<lparr>rpc_request_id := rpc_request_id st + 1\<rparr> in
      bindR (fetch \<lparr>rc_endpoint = rpc_endpoint st1, rc_id = rpc_request_id st1, rc_method = method, rc_params = parameters\<rparr>
               (rpc_world st1)) (\<lambda>(response, w).
        if \<not> hr_ok response then throw ''RPC HTTP ''
        else
          bindR (hr_body response) (\<lambda>tree.
          bindR (response_result (parseJsonRpcResponse tree)) (\<lambda>result.
            Inr (result, st1\<lparr>rpc_world := w\<rparr>)))))"

definition contextConfiguration :: "js_object \<Rightarrow> ('w, js) rpc_io" where
  "contextConfiguration configuration st =
     (case rpc_minimum_context_slot st of
        None \<Rightarrow> Inr (JObj configuration, st)
      | Some slot \<Rightarrow>
          if MAX_SAFE_INTEGER < slot then throw ''Minimum context slot exceeds the safe integer range''
          else Inr (JObj (obj_set configuration ''minContextSlot'' (JNum slot)), st))"

section \<open>The methods\<close>

definition text_js :: "rpc_commitment \<Rightarrow> js" where
  "text_js commitment = JStr (commitment_name commitment)"

definition account_configuration :: "rpc_commitment \<Rightarrow> js_object" where
  "account_configuration commitment = [(''encoding'', JStr ''base64''), (''commitment'', text_js commitment)]"

definition getAccountInfo :: "'w fetch \<Rightarrow> key_input \<Rightarrow> rpc_commitment \<Rightarrow> ('w, rpc_account_info option) rpc_io" where
  "getAccountInfo fetch address commitment =
     bindP (liftP (normalizePublicKey address)) (\<lambda>key.
     bindP (contextConfiguration (account_configuration commitment)) (\<lambda>configuration.
     bindP (rpc_request fetch ''getAccountInfo'' [JStr key, configuration]) (\<lambda>result.
       liftP (parseAccountInfoResult result))))"

definition getMultipleAccounts ::
  "'w fetch \<Rightarrow> key_input list \<Rightarrow> rpc_commitment \<Rightarrow> ('w, rpc_account_info option list) rpc_io" where
  "getMultipleAccounts fetch addresses commitment =
     bindP (liftP (mapR normalizePublicKey addresses)) (\<lambda>keys.
     bindP (contextConfiguration (account_configuration commitment)) (\<lambda>configuration.
     bindP (rpc_request fetch ''getMultipleAccounts'' [JArr (map JStr keys), configuration]) (\<lambda>result.
       liftP (bindR (recordFromUnknown result) (\<lambda>resultRecord.
              bindR (array_of ''getMultipleAccounts result.value must be an array'' (obj_get resultRecord ''value''))
                (mapR (\<lambda>value. if value = JNull then Inr None
                   else bindR (parseAccountInfoValue value) (\<lambda>info. Inr (Some info)))))))))"

datatype rpc_filter = DataSize nat | Memcmp nat string "string option"

fun filter_js :: "rpc_filter \<Rightarrow> js" where
  "filter_js (DataSize n) = JObj [(''dataSize'', JNum (int n))]"
| "filter_js (Memcmp off text encoding) =
     JObj [(''memcmp'', JObj ([(''offset'', JNum (int off)), (''bytes'', JStr text)] @
       (case encoding of None \<Rightarrow> [] | Some e \<Rightarrow> [(''encoding'', JStr e)])))]"

definition getProgramAccounts ::
  "'w fetch \<Rightarrow> key_input \<Rightarrow> rpc_filter list \<Rightarrow> rpc_commitment \<Rightarrow> ('w, rpc_address_account_info list) rpc_io" where
  "getProgramAccounts fetch programAddress filters commitment =
     bindP (liftP (normalizePublicKey programAddress)) (\<lambda>key.
     bindP (contextConfiguration (account_configuration commitment @ [(''filters'', JArr (map filter_js filters))]))
       (\<lambda>configuration.
     bindP (rpc_request fetch ''getProgramAccounts'' [JStr key, configuration]) (\<lambda>result.
       liftP (bindR (array_of ''getProgramAccounts result must be an array'' result) (mapR parse_address_account)))))"

definition getTokenAccountsByOwner ::
  "'w fetch \<Rightarrow> key_input \<Rightarrow> key_input \<Rightarrow> rpc_commitment \<Rightarrow> ('w, rpc_address_account_info list) rpc_io" where
  "getTokenAccountsByOwner fetch owner mint commitment =
     bindP (liftP (normalizePublicKey owner)) (\<lambda>ownerKey.
     bindP (liftP (normalizePublicKey mint)) (\<lambda>mintKey.
     bindP (contextConfiguration (account_configuration commitment)) (\<lambda>configuration.
     bindP (rpc_request fetch ''getTokenAccountsByOwner'' [JStr ownerKey, JObj [(''mint'', JStr mintKey)], configuration])
       (\<lambda>result.
         liftP (bindR (recordFromUnknown result) (\<lambda>resultRecord.
                bindR (array_of ''getTokenAccountsByOwner result.value must be an array'' (obj_get resultRecord ''value''))
                  (mapR parse_address_account)))))))"

record rpc_latest_blockhash =
  rb_blockhash :: string
  rb_last_valid_block_height :: int

definition getLatestBlockhash :: "'w fetch \<Rightarrow> rpc_commitment \<Rightarrow> ('w, rpc_latest_blockhash) rpc_io" where
  "getLatestBlockhash fetch commitment =
     bindP (contextConfiguration [(''commitment'', text_js commitment)]) (\<lambda>configuration.
     bindP (rpc_request fetch ''getLatestBlockhash'' [configuration]) (\<lambda>result.
       liftP (bindR (recordFromUnknown result) (\<lambda>resultRecord.
              bindR (recordFromUnknown (obj_get resultRecord ''value'')) (\<lambda>valueRecord.
                case obj_get valueRecord ''blockhash'' of
                  JStr text \<Rightarrow>
                    bindR (normalizePublicKey (KeyText text)) (\<lambda>blockhash.
                    bindR (parseUnsignedBigInteger (obj_get valueRecord ''lastValidBlockHeight'')) (\<lambda>height.
                      Inr \<lparr>rb_blockhash = blockhash, rb_last_valid_block_height = height\<rparr>))
                | _ \<Rightarrow> throw ''getLatestBlockhash blockhash must be a string'')))))"

definition getBlockHeight :: "'w fetch \<Rightarrow> rpc_commitment \<Rightarrow> ('w, int) rpc_io" where
  "getBlockHeight fetch commitment =
     bindP (rpc_request fetch ''getBlockHeight'' [JObj [(''commitment'', text_js commitment)]])
       (\<lambda>result. liftP (parseUnsignedBigInteger result))"

definition getSlot :: "'w fetch \<Rightarrow> rpc_commitment \<Rightarrow> ('w, int) rpc_io" where
  "getSlot fetch commitment =
     bindP (rpc_request fetch ''getSlot'' [JObj [(''commitment'', text_js commitment)]])
       (\<lambda>result. liftP (parseUnsignedBigInteger result))"

definition parse_block_time :: "js \<Rightarrow> int option res" where
  "parse_block_time result =
     (case result of
        JNull \<Rightarrow> Inr None
      | JBig n \<Rightarrow> Inr (Some n)
      | JNum n \<Rightarrow> if is_safe_integer n then Inr (Some n) else throw ''getBlockTime result must be an integer or null''
      | JStr s \<Rightarrow> if is_plain_integer s then Inr (Some (parse_signed_decimal s))
                else throw ''getBlockTime result must be an integer or null''
      | _ \<Rightarrow> throw ''getBlockTime result must be an integer or null'')"

definition getBlockTime :: "'w fetch \<Rightarrow> int \<Rightarrow> ('w, int option) rpc_io" where
  "getBlockTime fetch slot =
     (if slot < 0 \<or> MAX_SAFE_INTEGER < slot then failP ''getBlockTime slot exceeds the safe integer range''
      else bindP (rpc_request fetch ''getBlockTime'' [JNum slot]) (\<lambda>result. liftP (parse_block_time result)))"

definition CLOCK_SYSVAR :: string where
  "CLOCK_SYSVAR = ''SysvarC1ock11111111111111111111111111111111''"

record rpc_clock =
  ck_slot :: int
  ck_epoch_start :: int
  ck_epoch :: int
  ck_leader_schedule_epoch :: int
  ck_unix_timestamp :: int

definition clock_field :: "bytes \<Rightarrow> nat \<Rightarrow> bytes" where
  "clock_field data off = take 8 (drop off data)"

definition parse_clock :: "rpc_account_info option \<Rightarrow> rpc_clock res" where
  "parse_clock account =
     (case account of
        None \<Rightarrow> throw ''Clock sysvar account is unavailable or truncated''
      | Some info \<Rightarrow>
          if length (ra_data info) < 40 then throw ''Clock sysvar account is unavailable or truncated''
          else
            let data = ra_data info in
            Inr \<lparr>ck_slot = decodeUnsignedInteger (clock_field data 0),
                 ck_epoch_start = decodeSignedInteger (clock_field data 8),
                 ck_epoch = decodeUnsignedInteger (clock_field data 16),
                 ck_leader_schedule_epoch = decodeUnsignedInteger (clock_field data 24),
                 ck_unix_timestamp = decodeSignedInteger (clock_field data 32)\<rparr>)"

definition getClock :: "'w fetch \<Rightarrow> rpc_commitment \<Rightarrow> ('w, rpc_clock) rpc_io" where
  "getClock fetch commitment =
     bindP (getAccountInfo fetch (KeyText CLOCK_SYSVAR) commitment) (\<lambda>account. liftP (parse_clock account))"

record rpc_epoch_info =
  ei_epoch :: int
  ei_slot_index :: int
  ei_slots_in_epoch :: int
  ei_absolute_slot :: int
  ei_block_height :: "int option"
  ei_transaction_count :: "int option"

definition parse_epoch_info :: "js \<Rightarrow> rpc_epoch_info res" where
  "parse_epoch_info result =
     bindR (recordFromUnknown result) (\<lambda>ob.
     bindR (parseUnsignedBigInteger (obj_get ob ''epoch'')) (\<lambda>epoch.
     bindR (parseUnsignedBigInteger (obj_get ob ''slotIndex'')) (\<lambda>slotIndex.
     bindR (parseUnsignedBigInteger (obj_get ob ''slotsInEpoch'')) (\<lambda>slotsInEpoch.
     bindR (parseUnsignedBigInteger (obj_get ob ''absoluteSlot'')) (\<lambda>absoluteSlot.
     bindR (nullable_unsigned (obj_get ob ''blockHeight'')) (\<lambda>blockHeight.
     bindR (nullable_unsigned (obj_get ob ''transactionCount'')) (\<lambda>transactionCount.
       Inr \<lparr>ei_epoch = epoch, ei_slot_index = slotIndex, ei_slots_in_epoch = slotsInEpoch,
            ei_absolute_slot = absoluteSlot, ei_block_height = blockHeight,
            ei_transaction_count = transactionCount\<rparr>)))))))"

definition getEpochInfo :: "'w fetch \<Rightarrow> rpc_commitment \<Rightarrow> ('w, rpc_epoch_info) rpc_io" where
  "getEpochInfo fetch commitment =
     bindP (contextConfiguration [(''commitment'', text_js commitment)]) (\<lambda>configuration.
     bindP (rpc_request fetch ''getEpochInfo'' [configuration]) (\<lambda>result. liftP (parse_epoch_info result)))"

record rpc_simulation_result =
  sr_err :: js
  sr_logs :: "string list option"
  sr_units_consumed :: "int option"
  sr_return_data :: js
  sr_accounts :: js
  sr_raw :: js_object

definition log_text :: "js \<Rightarrow> string res" where
  "log_text value = (case value of JStr s \<Rightarrow> Inr s | _ \<Rightarrow> throw ''simulateTransaction logs must be a string'')"

definition parse_logs :: "js \<Rightarrow> string list option res" where
  "parse_logs logsValue =
     (if is_nullish logsValue then Inr None
      else bindR (array_of ''simulateTransaction logs must be an array or null'' logsValue) (\<lambda>xs.
           bindR (mapR log_text xs) (\<lambda>logs. Inr (Some logs))))"

definition parse_simulation :: "js \<Rightarrow> rpc_simulation_result res" where
  "parse_simulation result =
     bindR (recordFromUnknown result) (\<lambda>resultRecord.
     bindR (recordFromUnknown (obj_get resultRecord ''value'')) (\<lambda>valueRecord.
     bindR (parse_logs (obj_get valueRecord ''logs'')) (\<lambda>logs.
     bindR (nullable_unsigned (obj_get valueRecord ''unitsConsumed'')) (\<lambda>unitsConsumed.
       Inr \<lparr>sr_err = or_else (obj_get valueRecord ''err'') JNull, sr_logs = logs, sr_units_consumed = unitsConsumed,
            sr_return_data = or_else (obj_get valueRecord ''returnData'') JNull,
            sr_accounts = or_else (obj_get valueRecord ''accounts'') JNull, sr_raw = valueRecord\<rparr>))))"

definition rpc_simulateTransaction ::
  "'w fetch \<Rightarrow> bytes \<Rightarrow> rpc_commitment \<Rightarrow> bool \<Rightarrow> ('w, rpc_simulation_result) rpc_io" where
  "rpc_simulateTransaction fetch transaction commitment signatureVerification =
     bindP (rpc_request fetch ''simulateTransaction'' [JStr (encodeBase64 transaction),
              JObj [(''encoding'', JStr ''base64''), (''commitment'', text_js commitment),
                    (''sigVerify'', JBool signatureVerification), (''replaceRecentBlockhash'', JBool False)]])
       (\<lambda>result. liftP (parse_simulation result))"

definition rpc_sendTransaction ::
  "'w fetch \<Rightarrow> bytes \<Rightarrow> rpc_commitment \<Rightarrow> bool \<Rightarrow> nat \<Rightarrow> ('w, string) rpc_io" where
  "rpc_sendTransaction fetch transaction commitment skipPreflight maximumRetries =
     bindP (rpc_request fetch ''sendTransaction'' [JStr (encodeBase64 transaction),
              JObj [(''encoding'', JStr ''base64''), (''preflightCommitment'', text_js commitment),
                    (''skipPreflight'', JBool skipPreflight), (''maxRetries'', JNum (int maximumRetries))]])
       (\<lambda>result. case result of
          JStr signature \<Rightarrow> returnP signature
        | _ \<Rightarrow> failP ''sendTransaction result must be a signature string'')"

record rpc_signature_status =
  ss_slot :: int
  ss_confirmations :: "int option"
  ss_err :: js
  ss_confirmation_status :: "rpc_commitment option"

definition parse_confirmation_status :: "js \<Rightarrow> rpc_commitment option res" where
  "parse_confirmation_status value =
     (if is_nullish value then Inr None
      else if value = JStr ''processed'' then Inr (Some Processed)
      else if value = JStr ''confirmed'' then Inr (Some Confirmed)
      else if value = JStr ''finalized'' then Inr (Some Finalized)
      else throw ''getSignatureStatuses confirmationStatus is invalid'')"

definition parse_signature_status :: "js \<Rightarrow> rpc_signature_status option res" where
  "parse_signature_status result =
     bindR (recordFromUnknown result) (\<lambda>resultRecord.
       case obj_get resultRecord ''value'' of
         JArr [statusValue] \<Rightarrow>
           if statusValue = JNull then Inr None
           else
             bindR (recordFromUnknown statusValue) (\<lambda>statusRecord.
             bindR (parse_confirmation_status (obj_get statusRecord ''confirmationStatus'')) (\<lambda>confirmationStatus.
             bindR (if obj_get statusRecord ''confirmations'' = JNull then Inr None
                    else bindR (parseUnsignedBigInteger (obj_get statusRecord ''confirmations'')) (\<lambda>n. Inr (Some n)))
               (\<lambda>confirmations.
             bindR (parseUnsignedBigInteger (obj_get statusRecord ''slot'')) (\<lambda>slot.
               Inr (Some \<lparr>ss_slot = slot, ss_confirmations = confirmations,
                          ss_err = or_else (obj_get statusRecord ''err'') JNull,
                          ss_confirmation_status = confirmationStatus\<rparr>)))))
       | _ \<Rightarrow> throw ''getSignatureStatuses result.value must contain one entry'')"

definition getSignatureStatus :: "'w fetch \<Rightarrow> string \<Rightarrow> ('w, rpc_signature_status option) rpc_io" where
  "getSignatureStatus fetch signature =
     bindP (rpc_request fetch ''getSignatureStatuses''
              [JArr [JStr signature], JObj [(''searchTransactionHistory'', JBool True)]])
       (\<lambda>result. liftP (parse_signature_status result))"

definition getTransaction :: "'w fetch \<Rightarrow> string \<Rightarrow> rpc_commitment \<Rightarrow> ('w, js) rpc_io" where
  "getTransaction fetch signature commitment =
     rpc_request fetch ''getTransaction'' [JStr signature,
       JObj [(''encoding'', JStr ''json''), (''commitment'', text_js commitment),
             (''maxSupportedTransactionVersion'', JNum 0)]]"

definition getDecodedChanceryAccount ::
  "chancery_schema \<Rightarrow> 'w fetch \<Rightarrow> key_input \<Rightarrow> rpc_commitment \<Rightarrow> ('w, decoded_chancery_account option) rpc_io" where
  "getDecodedChanceryAccount S fetch address commitment =
     bindP (getAccountInfo fetch address commitment) (\<lambda>accountInfo.
       case accountInfo of
         None \<Rightarrow> returnP None
       | Some info \<Rightarrow> liftP (bindR (decodeChanceryAccount S (ra_data info)) (\<lambda>decoded. Inr (Some decoded))))"

definition getChanceryEvents ::
  "chancery_schema \<Rightarrow> 'w fetch \<Rightarrow> string \<Rightarrow> rpc_commitment \<Rightarrow> ('w, chancery_event_occurrence list option) rpc_io" where
  "getChanceryEvents S fetch signature commitment =
     bindP (getTransaction fetch signature commitment) (\<lambda>result.
       if result = JNull then returnP None
       else liftP (bindR (decodeChanceryEventsFromRpcTransaction S result) (\<lambda>events. Inr (Some events))))"

section \<open>Integers and accounts arrive exactly\<close>

text \<open>
  What \<open>JSON.parse\<close> makes of the text of an integer: the integer when it is safe, and otherwise the nearest
  double, an integer that is not safe either.
\<close>

definition double_of :: "int \<Rightarrow> js \<Rightarrow> bool" where
  "double_of n v \<longleftrightarrow> (if is_safe_integer n then v = JNum n else (\<exists>k. v = JNum k \<and> \<not> is_safe_integer k))"

definition exact_integer :: "int \<Rightarrow> js" where
  "exact_integer n = (if is_safe_integer n then JNum n else JBig n)"

lemma digit_char_nonzero: "d \<noteq> 0 \<Longrightarrow> d < 10 \<Longrightarrow> digit_char d \<noteq> CHR ''0''"
proof
  assume "d \<noteq> 0" "d < 10" "digit_char d = CHR ''0''"
  then show False using digit_val_char [of d] by (simp add: digit_val_def)
qed

lemma plain_show_nat: "is_plain_decimal (show_nat n)"
proof (cases "n = 0")
  case True
  then show ?thesis using show_nat_decimal [of n] by (simp add: is_plain_decimal_def show_nat_def)
next
  case False
  then have canon: "push_carry 10 n \<noteq> []" "last (push_carry 10 n) \<noteq> 0"
    using push_carry_last [of 10 n] by simp_all
  then have "last (push_carry 10 n) < 10"
    using push_carry_below [of 10 n] last_in_set by (fastforce simp: all_below_def list_all_iff)
  then have "hd (show_nat n) \<noteq> CHR ''0''"
    using False canon digit_char_nonzero by (simp add: show_nat_def hd_map hd_rev)
  then show ?thesis using show_nat_decimal [of n] by (simp add: is_plain_decimal_def)
qed

lemma show_nat_digit: obtains c cs where "show_nat n = c # cs" "c \<noteq> CHR ''-''"
proof (cases "show_nat n")
  case (Cons c cs)
  then have "is_digit c" using show_nat_decimal [of n] by (simp add: is_decimal_def)
  then have "c \<noteq> CHR ''-''" by (auto simp: is_digit_def)
  with Cons show thesis by (rule that)
qed (use show_nat_decimal [of n] in \<open>simp add: is_decimal_def\<close>)

lemma plain_show_int: "is_plain_integer (show_int n)" "parse_signed_decimal (show_int n) = n"
proof -
  obtain c cs where s: "show_nat (nat n) = c # cs" "c \<noteq> CHR ''-''" by (rule show_nat_digit)
  have "is_plain_decimal (c # cs)" "parse_decimal (c # cs) = nat n"
    using plain_show_nat [of "nat n"] parse_show_nat [of "nat n"] s by simp_all
  with s plain_show_nat [of "nat (- n)"]
  show "is_plain_integer (show_int n)" "parse_signed_decimal (show_int n) = n"
    by (simp_all add: show_int_def is_plain_integer_def parse_signed_decimal_def)
qed

lemma revive_exact: "double_of n v \<Longrightarrow> reviveUnsafeInteger (show_int n) v = exact_integer n"
  using plain_show_int [of n] by (auto simp: double_of_def reviveUnsafeInteger_def exact_integer_def split: if_splits)

lemma parse_exact: "0 \<le> n \<Longrightarrow> parseUnsignedBigInteger (exact_integer n) = Inr n"
  by (simp add: parseUnsignedBigInteger_def exact_integer_def)

text \<open>How a server writes an account, and its answer to \<open>getAccountInfo\<close>.\<close>

record platform_numbers =
  pn_lamports :: js
  pn_rent_epoch :: js
  pn_space :: js

definition account_json :: "rpc_account_info \<Rightarrow> platform_numbers \<Rightarrow> json" where
  "account_json a v = JsonObject
     [(''data'', JsonArray [JsonString (encodeBase64 (ra_data a)), JsonString ''base64'']),
      (''executable'', JsonBool (ra_executable a)),
      (''lamports'', JsonNumber (show_int (ra_lamports a)) (pn_lamports v)),
      (''owner'', JsonString (ra_owner a)),
      (''rentEpoch'', JsonNumber (show_int (ra_rent_epoch a)) (pn_rent_epoch v)),
      (''space'', JsonNumber (show_int (ra_space a)) (pn_space v))]"

definition account_response :: "json \<Rightarrow> http_response" where
  "account_response account = \<lparr>hr_ok = True, hr_body = Inr (JsonObject
     [(''jsonrpc'', JsonString ''2.0''), (''result'', JsonObject [(''value'', account)])])\<rparr>"

definition account_ok :: "rpc_account_info \<Rightarrow> platform_numbers \<Rightarrow> bool" where
  "account_ok a v \<longleftrightarrow> is_key (ra_owner a) \<and> 0 \<le> ra_lamports a \<and> 0 \<le> ra_rent_epoch a \<and>
     0 \<le> ra_space a \<and> is_safe_integer (ra_space a) \<and> double_of (ra_lamports a) (pn_lamports v) \<and>
     double_of (ra_rent_epoch a) (pn_rent_epoch v) \<and> double_of (ra_space a) (pn_space v)"

lemma account_value_exact:
  assumes "account_ok a v"
  shows "parseAccountInfoValue (parseJsonRpcResponse (account_json a v)) = Inr a"
proof -
  have "exact_integer n \<noteq> JUndef" for n by (simp add: exact_integer_def)
  then show ?thesis using assms
    by (simp add: account_ok_def account_json_def object_of_def revive_exact parseAccountInfoValue_def recordFromUnknown_def
        obj_get_def item_at_def parse_exact decode_encode_base64 account_space_def is_safe_integer_def)
qed

text \<open>The request that \<open>getAccountInfo\<close> sends: it names the least slot the answer may come from.\<close>

definition account_call :: "'w rpc \<Rightarrow> string \<Rightarrow> rpc_commitment \<Rightarrow> rpc_call" where
  "account_call st key commitment =
     \<lparr>rc_endpoint = rpc_endpoint st, rc_id = rpc_request_id st + 1, rc_method = ''getAccountInfo'',
      rc_params = [JStr key, JObj ([(''encoding'', JStr ''base64''), (''commitment'', JStr (commitment_name commitment))] @
        (case rpc_minimum_context_slot st of None \<Rightarrow> [] | Some slot \<Rightarrow> [(''minContextSlot'', JNum slot)]))]\<rparr>"

lemma getAccountInfo_exact:
  assumes "normalizePublicKey address = Inr key" "\<forall>slot. rpc_minimum_context_slot st = Some slot \<longrightarrow> slot \<le> MAX_SAFE_INTEGER"
    and "fetch (account_call st key commitment) (rpc_world st) = Inr (account_response (account_json a v), w)"
    and "account_ok a v"
  shows "getAccountInfo fetch address commitment st =
    Inr (Some a, st\<lparr>rpc_request_id := rpc_request_id st + 1, rpc_world := w\<rparr>)"
proof -
  have "parseJsonRpcResponse (account_json a v) \<noteq> JNull" by (simp add: account_json_def)
  then show ?thesis using assms account_value_exact [OF assms(4)]
    by (cases "rpc_minimum_context_slot st")
      (simp_all add: getAccountInfo_def bindP_def liftP_def contextConfiguration_def account_configuration_def text_js_def
        rpc_request_def account_call_def Let_def account_response_def object_of_def response_result_def obj_get_def
        parseAccountInfoResult_def recordFromUnknown_def)
qed

end
