(* ===== verification/SampleClient.thy ===== *)
theory SampleClient
  imports SampleSchema ChanceryRpc
begin

text \<open>
  Concrete inputs for the properties of the RPC client: an account whose lamports exceed the safe integers, and a server
  that answers every request with it.
\<close>

definition sample_account :: rpc_account_info where
  "sample_account = \<lparr>ra_data = [1, 2, 3], ra_executable = False, ra_lamports = 2 ^ 60 + 1, ra_owner = sample_key 9,
     ra_rent_epoch = 2 ^ 64 - 1, ra_space = 3\<rparr>"

definition sample_numbers :: platform_numbers where
  "sample_numbers = \<lparr>pn_lamports = JNum (2 ^ 60), pn_rent_epoch = JNum (2 ^ 64), pn_space = JNum 3\<rparr>"

lemma sample_account_ok: "account_ok sample_account sample_numbers"
  by (simp add: account_ok_def sample_account_def sample_numbers_def sample_key_is_key is_safe_integer_def
      MAX_SAFE_INTEGER_def double_of_def)

definition sample_fetch :: "nat fetch" where
  "sample_fetch call w = Inr (account_response (account_json sample_account sample_numbers), w + 1)"

definition sample_rpc :: "nat rpc" where
  "sample_rpc = \<lparr>rpc_endpoint = ''https://rpc'', rpc_request_id = 0, rpc_minimum_context_slot = Some 7, rpc_world = 0\<rparr>"

end
