(* ===== verification/SettlementState.thy ===== *)
theory SettlementState
  imports ChanceryRpc SettlementRules SplToken SolanaTransaction
begin

text \<open>
  The first half of \<open>typescript/src/client/ChanceryClient.ts\<close>: what the settlement client reads. A request is
  normalised, then accounts are loaded over the RPC client into snapshots: program accounts, token mints, token
  accounts, the pathways, the intent with its parties, the policies, the permissions and the limit windows.

  The parameters and the readonly fields of the client object are one record; the RPC client it drives is the
  threaded state. An array that a method extends by \<open>push\<close> is returned as the list of what was pushed, and the caller
  appends it. \<open>Promise.all\<close> runs its calls one after the other.
\<close>

section \<open>Loops with effects\<close>

fun eachP :: "('a \<Rightarrow> ('r, 'b) parser) \<Rightarrow> 'a list \<Rightarrow> ('r, 'b list) parser" where
  "eachP f [] = returnP []"
| "eachP f (x # xs) = bindP (f x) (\<lambda>y. bindP (eachP f xs) (\<lambda>ys. returnP (y # ys)))"

lemma eachP_Inr:
  "eachP f xs s = Inr (ys, t) \<Longrightarrow> list_all2 (\<lambda>x y. \<exists>s t. f x s = Inr (y, t)) xs ys"
  by (induction xs arbitrary: s ys) (fastforce simp: parser_Inr)+

definition optionalR :: "('a \<Rightarrow> 'b res) \<Rightarrow> 'a option \<Rightarrow> 'b option res" where
  "optionalR f x = (case x of None \<Rightarrow> Inr None | Some a \<Rightarrow> bindR (f a) (\<lambda>b. Inr (Some b)))"

section \<open>The client and its request\<close>

record 'w client =
  cc_hash :: "bytes \<Rightarrow> bytes"
  cc_schema :: chancery_schema
  cc_crypto :: node_crypto
  cc_fetch :: "'w fetch"
  cc_commitment :: rpc_commitment

definition CHANCERY_PROGRAM_ADDRESS :: "'w client \<Rightarrow> string" where
  "CHANCERY_PROGRAM_ADDRESS c = program_address (schema_program (cc_schema c))"

definition ZERO_ADDRESS :: "'w client \<Rightarrow> string" where
  "ZERO_ADDRESS c = zero_address (schema_wire (cc_schema c))"

record operation_request =
  rq_action :: string
  rq_mode :: string
  rq_asset_mint :: string
  rq_principal :: string
  rq_amount :: "int option"
  rq_minimum_output :: "int option"
  rq_pathway_id :: "key_input option"
  rq_intent_id :: "key_input option"
  rq_executor :: "string option"
  rq_principal_b :: "string option"
  rq_source :: "string option"
  rq_destination :: "string option"
  rq_fee_recipient :: "string option"
  rq_rent_refund :: "string option"
  rq_now :: "int option"

record normalized_request =
  nr_action :: settlement_action
  nr_mode :: settlement_mode
  nr_asset_mint :: string
  nr_principal :: string
  nr_amount :: "int option"
  nr_minimum_output :: "int option"
  nr_pathway_id :: "bytes option"
  nr_intent_id :: "bytes option"
  nr_executor :: "string option"
  nr_principal_b :: "string option"
  nr_source :: "string option"
  nr_destination :: "string option"
  nr_fee_recipient :: "string option"
  nr_rent_refund :: "string option"
  nr_now :: int

definition action_of :: "string \<Rightarrow> settlement_action res" where
  "action_of text =
     (if text = ''mint'' then Inr Mint else if text = ''redeem'' then Inr Redeem
      else throw ''Unsupported settlement action'')"

definition mode_of :: "string \<Rightarrow> settlement_mode res" where
  "mode_of text =
     (if text = ''direct'' then Inr Direct else if text = ''delegated'' then Inr Delegated
      else if text = ''trilateral'' then Inr Trilateral else throw ''Unsupported settlement mode'')"

definition key_of :: "string \<Rightarrow> string res" where
  "key_of text = normalizePublicKey (KeyText text)"

definition normalizeRequest :: "operation_request \<Rightarrow> int \<Rightarrow> normalized_request res" where
  "normalizeRequest request observedUnixTimestamp =
     bindR (action_of (rq_action request)) (\<lambda>action.
     bindR (mode_of (rq_mode request)) (\<lambda>mode.
     if (\<exists>a \<in> set_option (rq_amount request). a < 0) then throw ''Settlement amount cannot be negative''
     else if (\<exists>m \<in> set_option (rq_minimum_output request). m < 0) then throw ''Minimum output cannot be negative''
     else
       bindR (key_of (rq_asset_mint request)) (\<lambda>assetMint.
       bindR (key_of (rq_principal request)) (\<lambda>principal.
       bindR (optionalR bytes32FromInput (rq_pathway_id request)) (\<lambda>pathwayId.
       bindR (optionalR bytes32FromInput (rq_intent_id request)) (\<lambda>intentId.
       bindR (optionalR key_of (rq_executor request)) (\<lambda>executor.
       bindR (optionalR key_of (rq_principal_b request)) (\<lambda>principalB.
       bindR (optionalR key_of (rq_source request)) (\<lambda>source.
       bindR (optionalR key_of (rq_destination request)) (\<lambda>destination.
       bindR (optionalR key_of (rq_fee_recipient request)) (\<lambda>feeRecipient.
       bindR (optionalR key_of (rq_rent_refund request)) (\<lambda>rentRefund.
         Inr \<lparr>nr_action = action, nr_mode = mode, nr_asset_mint = assetMint, nr_principal = principal,
              nr_amount = rq_amount request, nr_minimum_output = rq_minimum_output request,
              nr_pathway_id = pathwayId, nr_intent_id = intentId, nr_executor = executor, nr_principal_b = principalB,
              nr_source = source, nr_destination = destination, nr_fee_recipient = feeRecipient,
              nr_rent_refund = rentRefund,
              nr_now = (case rq_now request of Some t \<Rightarrow> t | None \<Rightarrow> observedUnixTimestamp)\<rparr>))))))))))))"

section \<open>Snapshots\<close>

record state_snapshot =
  cs_address :: string
  cs_expected :: string
  cs_exists :: bool
  cs_owner :: "string option"
  cs_lamports :: "int option"
  cs_data_length :: nat
  cs_values :: "js_object option"

definition missing_snapshot :: "string \<Rightarrow> string \<Rightarrow> string option \<Rightarrow> int option \<Rightarrow> state_snapshot" where
  "missing_snapshot address expectedName owner lamports =
     \<lparr>cs_address = address, cs_expected = expectedName, cs_exists = False, cs_owner = owner, cs_lamports = lamports,
      cs_data_length = 0, cs_values = None\<rparr>"

definition snapshotFromDecoded :: "string \<Rightarrow> rpc_account_info \<Rightarrow> string \<Rightarrow> js_object \<Rightarrow> state_snapshot" where
  "snapshotFromDecoded address account expectedName values =
     \<lparr>cs_address = address, cs_expected = expectedName, cs_exists = True, cs_owner = Some (ra_owner account),
      cs_lamports = Some (ra_lamports account), cs_data_length = length (ra_data account), cs_values = Some values\<rparr>"

definition requireSnapshotValues :: "state_snapshot \<Rightarrow> js_object res" where
  "requireSnapshotValues snapshot =
     (case cs_values snapshot of None \<Rightarrow> throw ''account has no decoded values'' | Some values \<Rightarrow> Inr values)"

definition state_of_account ::
  "'w client \<Rightarrow> string \<Rightarrow> string \<Rightarrow> bool \<Rightarrow> rpc_account_info option \<Rightarrow> state_snapshot res" where
  "state_of_account c address expectedName allowMissing account =
     (case account of
        None \<Rightarrow>
          if \<not> allowMissing then throw ''account does not exist''
          else Inr (missing_snapshot address expectedName None None)
      | Some info \<Rightarrow>
          if ra_owner info \<noteq> CHANCERY_PROGRAM_ADDRESS c then
            (if allowMissing \<and> ra_data info = []
             then Inr (missing_snapshot address expectedName (Some (ra_owner info)) (Some (ra_lamports info)))
             else throw ''account is owned by another program'')
          else
            bindR (decodeChanceryAccount (cc_schema c) (ra_data info)) (\<lambda>decoded.
              if decoded_account_name decoded \<noteq> expectedName then throw ''account contains another type''
              else Inr (snapshotFromDecoded address info expectedName (decoded_account_values decoded))))"

definition loadChanceryState :: "'w client \<Rightarrow> string \<Rightarrow> string \<Rightarrow> bool \<Rightarrow> ('w, state_snapshot) rpc_io" where
  "loadChanceryState c addressInput expectedName allowMissing =
     bindP (liftP (key_of addressInput)) (\<lambda>address.
     bindP (getAccountInfo (cc_fetch c) (KeyText address) (cc_commitment c)) (\<lambda>account.
       liftP (state_of_account c address expectedName allowMissing account)))"

section \<open>Token mints and token accounts\<close>

record token_mint_snapshot =
  ms_address :: string
  ms_program :: string
  ms_exists :: bool
  ms_values :: "decoded_token_mint option"

definition mint_of_account :: "string \<Rightarrow> string \<Rightarrow> rpc_account_info option \<Rightarrow> token_mint_snapshot res" where
  "mint_of_account address tokenProgramAddress account =
     (case account of
        None \<Rightarrow> Inr \<lparr>ms_address = address, ms_program = tokenProgramAddress, ms_exists = False, ms_values = None\<rparr>
      | Some info \<Rightarrow>
          if ra_owner info \<noteq> tokenProgramAddress then throw ''Token mint is owned by another program''
          else bindR (decodeTokenMint (ra_data info)) (\<lambda>values.
            Inr \<lparr>ms_address = address, ms_program = tokenProgramAddress, ms_exists = True, ms_values = Some values\<rparr>))"

definition loadTokenMint :: "'w client \<Rightarrow> string \<Rightarrow> string \<Rightarrow> ('w, token_mint_snapshot) rpc_io" where
  "loadTokenMint c addressInput tokenProgramAddress =
     bindP (liftP (key_of addressInput)) (\<lambda>address.
     bindP (getAccountInfo (cc_fetch c) (KeyText address) (cc_commitment c)) (\<lambda>account.
       liftP (mint_of_account address tokenProgramAddress account)))"

datatype token_selection = Override | AssociatedTokenAccount | UniqueOwnerAccount | DerivedMissing

record token_account_snapshot =
  ts_address :: string
  ts_program :: string
  ts_selection :: token_selection
  ts_exists :: bool
  ts_values :: "decoded_token_account option"

definition missing_token_account :: "string \<Rightarrow> string \<Rightarrow> token_account_snapshot" where
  "missing_token_account address tokenProgramAddress =
     \<lparr>ts_address = address, ts_program = tokenProgramAddress, ts_selection = DerivedMissing, ts_exists = False,
      ts_values = None\<rparr>"

text \<open>Decoding a token account and checking whose it is.\<close>

definition bound_token_account ::
  "string \<Rightarrow> string \<Rightarrow> string \<Rightarrow> string \<Rightarrow> token_selection \<Rightarrow> bytes \<Rightarrow> token_account_snapshot res" where
  "bound_token_account address expectedOwner expectedMint tokenProgramAddress selection data =
     bindR (decodeTokenAccount data) (\<lambda>values.
     bindR (assertTokenAccountBinding values (KeyText expectedMint) (KeyText expectedOwner)) (\<lambda>_.
       Inr \<lparr>ts_address = address, ts_program = tokenProgramAddress, ts_selection = selection, ts_exists = True,
            ts_values = Some values\<rparr>))"

definition loadTokenAccountAtAddress ::
  "'w client \<Rightarrow> string \<Rightarrow> string \<Rightarrow> string \<Rightarrow> string \<Rightarrow> token_selection \<Rightarrow> bool \<Rightarrow> ('w, token_account_snapshot) rpc_io" where
  "loadTokenAccountAtAddress c addressInput expectedOwner expectedMint tokenProgramAddress selection allowMissing =
     bindP (liftP (key_of addressInput)) (\<lambda>address.
     bindP (getAccountInfo (cc_fetch c) (KeyText address) (cc_commitment c)) (\<lambda>account.
       case account of
         None \<Rightarrow>
           if \<not> allowMissing then failP ''Token account does not exist''
           else returnP (missing_token_account address tokenProgramAddress)
       | Some info \<Rightarrow>
           if ra_owner info \<noteq> tokenProgramAddress then failP ''Token account is owned by another program''
           else liftP (bound_token_account address expectedOwner expectedMint tokenProgramAddress selection (ra_data info))))"

record token_resolution_input =
  ti_owner :: string
  ti_mint :: string
  ti_program :: string
  ti_override :: "string option"
  ti_allow_missing :: bool

text \<open>An account of the owner that cannot be decoded or is bound to another owner or mint is skipped.\<close>

definition owner_match :: "token_resolution_input \<Rightarrow> rpc_address_account_info \<Rightarrow> token_account_snapshot option" where
  "owner_match input ownerAccount =
     (if ra_owner (rx_account ownerAccount) \<noteq> ti_program input then None
      else
        case bound_token_account (rx_address ownerAccount) (ti_owner input) (ti_mint input) (ti_program input)
               UniqueOwnerAccount (ra_data (rx_account ownerAccount)) of
          Inl _ \<Rightarrow> None
        | Inr snapshot \<Rightarrow> Some snapshot)"

definition unique_match ::
  "token_resolution_input \<Rightarrow> string \<Rightarrow> rpc_address_account_info list \<Rightarrow> token_account_snapshot res" where
  "unique_match input derived ownerAccounts =
     (case List.map_filter (owner_match input) ownerAccounts of
        [match] \<Rightarrow> Inr match
      | [] \<Rightarrow>
          if \<not> ti_allow_missing input then throw ''token account does not exist''
          else Inr (missing_token_account derived (ti_program input))
      | _ \<Rightarrow> throw ''token account is ambiguous; supply an explicit token account address'')"

definition resolveTokenAccount :: "'w client \<Rightarrow> token_resolution_input \<Rightarrow> ('w, token_account_snapshot) rpc_io" where
  "resolveTokenAccount c input =
     (case ti_override input of
        Some overrideAddress \<Rightarrow>
          loadTokenAccountAtAddress c overrideAddress (ti_owner input) (ti_mint input) (ti_program input) Override
            (ti_allow_missing input)
      | None \<Rightarrow>
          bindP (liftP (deriveAssociatedTokenAddress (cc_hash c) (KeyText (ti_owner input)) (KeyText (ti_mint input))
                   (KeyText (ti_program input)))) (\<lambda>associated.
          bindP (loadTokenAccountAtAddress c (pda_address associated) (ti_owner input) (ti_mint input) (ti_program input)
                   AssociatedTokenAccount True) (\<lambda>associatedSnapshot.
            if ts_exists associatedSnapshot then returnP associatedSnapshot
            else
              bindP (getTokenAccountsByOwner (cc_fetch c) (KeyText (ti_owner input)) (KeyText (ti_mint input))
                       (cc_commitment c)) (\<lambda>ownerAccounts.
                liftP (unique_match input (pda_address associated) ownerAccounts)))))"

section \<open>Accounts of one type\<close>

text \<open>\<open>getProgramAccounts\<close> for the accounts with the size and the discriminator of a type.\<close>

definition accounts_of_type :: "'w client \<Rightarrow> string \<Rightarrow> ('w, rpc_address_account_info list) rpc_io" where
  "accounts_of_type c typeName =
     bindP (liftP (getAccountSchema (cc_schema c) typeName)) (\<lambda>accountSchema.
       getProgramAccounts (cc_fetch c) (KeyText (CHANCERY_PROGRAM_ADDRESS c))
         [DataSize (account_size accountSchema), Memcmp 0 (encodeBase58 (account_discriminator accountSchema)) None]
         (cc_commitment c))"

text \<open>The values of an account of the type, \<open>None\<close> for an account the loops pass over.\<close>

definition values_of_type :: "'w client \<Rightarrow> string \<Rightarrow> rpc_address_account_info \<Rightarrow> js_object option res" where
  "values_of_type c typeName programAccount =
     (if ra_owner (rx_account programAccount) \<noteq> CHANCERY_PROGRAM_ADDRESS c then Inr None
      else
        bindR (decodeChanceryAccount (cc_schema c) (ra_data (rx_account programAccount))) (\<lambda>decoded.
          Inr (if decoded_account_name decoded \<noteq> typeName then None else Some (decoded_account_values decoded))))"

definition reserve_destination ::
  "'w client \<Rightarrow> string \<Rightarrow> rpc_address_account_info \<Rightarrow> state_snapshot option res" where
  "reserve_destination c assetMint programAccount =
     bindR (values_of_type c ''ReserveDestination'' programAccount) (\<lambda>vs.
       case vs of
         None \<Rightarrow> Inr None
       | Some values \<Rightarrow>
           bindR (requirePublicKeyField values ''asset_mint'') (\<lambda>mint.
             Inr (if mint \<noteq> assetMint then None
                  else Some (snapshotFromDecoded (rx_address programAccount) (rx_account programAccount)
                              ''ReserveDestination'' values))))"

definition discoverReserveDestinations :: "'w client \<Rightarrow> string \<Rightarrow> ('w, state_snapshot list) rpc_io" where
  "discoverReserveDestinations c assetMint =
     bindP (accounts_of_type c ''ReserveDestination'') (\<lambda>programAccounts.
     bindP (liftP (mapR (reserve_destination c assetMint) programAccounts)) (\<lambda>found.
       returnP (List.map_filter id found)))"

section \<open>Pathways\<close>

record pathway_candidate =
  pc_address :: string
  pc_pathway_id :: string
  pc_asset_mint :: string
  pc_issued_token_mint :: string
  pc_kind :: int
  pc_executor :: string
  pc_active :: bool
  pc_asset :: bool
  pc_issued :: bool
  pc_mode :: bool
  pc_requested_id :: bool
  pc_canonical :: bool

fun PATHWAY_KIND_VALUE :: "settlement_mode \<Rightarrow> int" where
  "PATHWAY_KIND_VALUE Direct = 0"
| "PATHWAY_KIND_VALUE Delegated = 1"
| "PATHWAY_KIND_VALUE Trilateral = 2"

definition matches_id :: "bytes option \<Rightarrow> bytes \<Rightarrow> bool res" where
  "matches_id constraint pathwayId =
     (case constraint of
        None \<Rightarrow> Inr True
      | Some wanted \<Rightarrow>
          bindR (bytes32Hex (JBytes pathwayId)) (\<lambda>hexId. bindR (bytes32Hex (JBytes wanted)) (\<lambda>hexWanted. Inr (hexId = hexWanted))))"

definition candidate_of ::
  "'w client \<Rightarrow> normalized_request \<Rightarrow> bytes option \<Rightarrow> string \<Rightarrow> string \<Rightarrow> js_object \<Rightarrow> pathway_candidate res" where
  "candidate_of c request pathwayIdConstraint issuedTokenMint address values =
     bindR (requireBytes (obj_get values ''pathway_id'') 32) (\<lambda>pathwayId.
     bindR (derivePathwayPolicyAddress (cc_hash c) (cc_schema c) (KeyBytes pathwayId)) (\<lambda>derived.
     bindR (bytes32Hex (JBytes pathwayId)) (\<lambda>hexId.
     bindR (requirePublicKeyField values ''asset_mint'') (\<lambda>assetMint.
     bindR (requirePublicKeyField values ''issued_token_mint'') (\<lambda>issuedMint.
     bindR (requireNumberField values ''pathway_kind'') (\<lambda>kind.
     bindR (requirePublicKeyField values ''designated_executor'') (\<lambda>executor.
     bindR (pathwayIsActive values) (\<lambda>active.
     bindR (matches_id pathwayIdConstraint pathwayId) (\<lambda>matchesId.
       Inr \<lparr>pc_address = address, pc_pathway_id = hexId, pc_asset_mint = assetMint, pc_issued_token_mint = issuedMint,
            pc_kind = kind, pc_executor = executor, pc_active = active,
            pc_asset = (assetMint = nr_asset_mint request), pc_issued = (issuedMint = issuedTokenMint),
            pc_mode = (kind = PATHWAY_KIND_VALUE (nr_mode request)), pc_requested_id = matchesId,
            pc_canonical = (pda_address derived = address)\<rparr>)))))))))"

definition pathway_of_account ::
  "'w client \<Rightarrow> normalized_request \<Rightarrow> bytes option \<Rightarrow> string \<Rightarrow> rpc_address_account_info
   \<Rightarrow> pathway_candidate option res" where
  "pathway_of_account c request pathwayIdConstraint issuedTokenMint programAccount =
     bindR (values_of_type c ''PathwayPolicy'' programAccount) (\<lambda>vs.
       optionalR (candidate_of c request pathwayIdConstraint issuedTokenMint (rx_address programAccount)) vs)"

definition discoverPathways ::
  "'w client \<Rightarrow> normalized_request \<Rightarrow> bytes option \<Rightarrow> string \<Rightarrow> ('w, pathway_candidate list) rpc_io" where
  "discoverPathways c request pathwayIdConstraint issuedTokenMint =
     bindP (accounts_of_type c ''PathwayPolicy'') (\<lambda>programAccounts.
     bindP (liftP (mapR (pathway_of_account c request pathwayIdConstraint issuedTokenMint) programAccounts)) (\<lambda>found.
       returnP (List.map_filter id found)))"

definition candidate_matches :: "pathway_candidate \<Rightarrow> bool" where
  "candidate_matches pathway \<longleftrightarrow>
     pc_asset pathway \<and> pc_issued pathway \<and> pc_mode pathway \<and> pc_requested_id pathway \<and> pc_canonical pathway"

definition selectPathwayCandidate :: "pathway_candidate list \<Rightarrow> pathway_candidate res" where
  "selectPathwayCandidate candidates =
     (case filter candidate_matches candidates of
        [] \<Rightarrow> throw ''No canonical Chancery pathway matches the requested asset, issued token, mode, and pathway id''
      | [selected] \<Rightarrow> Inr selected
      | _ \<Rightarrow> throw ''Multiple Chancery pathways match; supply an explicit pathway id'')"

end
