(* ===== verification/SettlementResolve.thy ===== *)
theory SettlementResolve
  imports SettlementState
begin

text \<open>
  \<open>typescript/src/client/ChanceryClient.ts\<close>: who takes part in a settlement and under which policies. The parties
  come from the request (direct) or from the intent account; a policy is loaded from the address its identifier
  derives, unless the identifier is zero; a permission is loaded for each party; a limit dimension consists of a
  policy, the windows it enforces and the observation of \<open>observeLimitPolicy\<close>.
\<close>

section \<open>Policies\<close>

record policy_resolution =
  pr_snapshot :: "state_snapshot option"
  pr_pda :: "named_program_address option"

definition NO_POLICY :: policy_resolution where
  "NO_POLICY = \<lparr>pr_snapshot = None, pr_pda = None\<rparr>"

definition resolvePolicyFromIdentifier ::
  "'w client \<Rightarrow> js \<Rightarrow> string \<Rightarrow> ((bytes \<Rightarrow> bytes) \<Rightarrow> chancery_schema \<Rightarrow> key_input \<Rightarrow> named_program_address res)
   \<Rightarrow> ('w, policy_resolution) rpc_io" where
  "resolvePolicyFromIdentifier c identifierValue expectedName derive =
     bindP (liftP (isZeroBytes32 identifierValue)) (\<lambda>isZero.
       if isZero then returnP NO_POLICY
       else
         bindP (liftP (requireBytes identifierValue 32)) (\<lambda>identifier.
         bindP (liftP (derive (cc_hash c) (cc_schema c) (KeyBytes identifier))) (\<lambda>pda.
         bindP (loadChanceryState c (pda_address pda) expectedName False) (\<lambda>snapshot.
           returnP \<lparr>pr_snapshot = Some snapshot, pr_pda = Some pda\<rparr>))))"

text \<open>The address a policy resolution pushes, and the decoded values behind \<open>snapshot?.values ?? null\<close>.\<close>

definition pushed_pda :: "policy_resolution \<Rightarrow> named_program_address list" where
  "pushed_pda policy = (case pr_pda policy of None \<Rightarrow> [] | Some pda \<Rightarrow> [pda])"

definition policy_values :: "policy_resolution \<Rightarrow> js_object option" where
  "policy_values policy = Option.bind (pr_snapshot policy) cs_values"

section \<open>The parties\<close>

record operation_identity =
  id_principal_a :: string
  id_principal_b :: string
  id_executor :: string
  id_intent_id :: "bytes option"
  id_pathway_constraint :: "bytes option"
  id_input_amount :: int
  id_minimum_output :: "int option"
  id_intent :: "state_snapshot option"
  id_settlement_policy :: policy_resolution
  id_rent_refund :: string

definition direct_identity :: "normalized_request \<Rightarrow> operation_identity res" where
  "direct_identity request =
     (case nr_amount request of
        None \<Rightarrow> throw ''Direct settlement requires a positive amount''
      | Some amount \<Rightarrow>
          if amount \<le> 0 then throw ''Direct settlement requires a positive amount''
          else
            let principal = nr_principal request in
            Inr \<lparr>id_principal_a = principal, id_principal_b = principal, id_executor = principal, id_intent_id = None,
                 id_pathway_constraint = nr_pathway_id request, id_input_amount = amount, id_minimum_output = None,
                 id_intent = None, id_settlement_policy = NO_POLICY,
                 id_rent_refund = (case nr_rent_refund request of Some k \<Rightarrow> k | None \<Rightarrow> principal)\<rparr>)"

text \<open>What the intent binds, checked against what the request names.\<close>

record intent_binding =
  ib_principal_a :: string
  ib_principal_b :: string
  ib_executor :: string
  ib_input_amount :: int
  ib_minimum_output :: int
  ib_pathway_id :: bytes

definition intent_binding_of :: "normalized_request \<Rightarrow> js_object \<Rightarrow> intent_binding res" where
  "intent_binding_of request values =
     bindR (requirePublicKeyField values ''principal_a'') (\<lambda>principalA.
     bindR (requirePublicKeyField values ''principal_b'') (\<lambda>principalB.
     bindR (requirePublicKeyField values ''executor'') (\<lambda>executor.
     if principalA \<noteq> nr_principal request then throw ''Settlement intent principal A differs''
     else if nr_principal_b request \<notin> {None, Some principalB} then throw ''Settlement intent principal B differs''
     else if nr_executor request \<notin> {None, Some executor} then throw ''Settlement intent executor differs''
     else
       bindR (requireBigIntField values (if nr_action request = Mint then ''asset_amount'' else ''issued_token_amount''))
         (\<lambda>inputAmount.
       if nr_amount request \<notin> {None, Some inputAmount} then throw ''Requested amount does not match settlement intent amount''
       else
         bindR (requireBigIntField values
                  (if nr_action request = Mint then ''minimum_issued_token_amount'' else ''minimum_asset_amount''))
           (\<lambda>minimumOutput.
         bindR (requireBytes (obj_get values ''pathway_id'') 32) (\<lambda>pathwayId.
         bindR (case nr_pathway_id request of
                  None \<Rightarrow> Inr True
                | Some requested \<Rightarrow> matches_id (Some pathwayId) requested) (\<lambda>same.
           if \<not> same then throw ''Requested pathway id does not match settlement intent pathway id''
           else Inr \<lparr>ib_principal_a = principalA, ib_principal_b = principalB, ib_executor = executor,
                     ib_input_amount = inputAmount, ib_minimum_output = minimumOutput, ib_pathway_id = pathwayId\<rparr>)))))))"

definition resolveOperationIdentity ::
  "'w client \<Rightarrow> normalized_request \<Rightarrow> ('w, operation_identity \<times> named_program_address list) rpc_io" where
  "resolveOperationIdentity c request =
     (if nr_mode request = Direct then
        bindP (liftP (direct_identity request)) (\<lambda>identity. returnP (identity, []))
      else
        case nr_intent_id request of
          None \<Rightarrow> failP ''settlement requires an intent id''
        | Some intentId \<Rightarrow>
            bindP (liftP (deriveSettlementIntentAddress (cc_hash c) (cc_schema c) (KeyBytes intentId))) (\<lambda>intentPda.
            bindP (loadChanceryState c (pda_address intentPda) ''SettlementIntent'' False) (\<lambda>intent.
            bindP (liftP (requireSnapshotValues intent)) (\<lambda>intentValues.
            bindP (liftP (intent_binding_of request intentValues)) (\<lambda>binding.
            bindP (resolvePolicyFromIdentifier c (obj_get intentValues ''policy_id'') ''SettlementPolicy''
                     deriveSettlementPolicyAddress) (\<lambda>settlementPolicy.
            bindP (case nr_rent_refund request of
                     Some key \<Rightarrow> returnP key
                   | None \<Rightarrow> liftP (requirePublicKeyField intentValues ''rent_refund_recipient'')) (\<lambda>rentRefund.
              returnP
                (\<lparr>id_principal_a = ib_principal_a binding, id_principal_b = ib_principal_b binding,
                  id_executor = ib_executor binding, id_intent_id = Some intentId,
                  id_pathway_constraint = Some (ib_pathway_id binding), id_input_amount = ib_input_amount binding,
                  id_minimum_output = Some (ib_minimum_output binding), id_intent = Some intent,
                  id_settlement_policy = settlementPolicy, id_rent_refund = rentRefund\<rparr>,
                 intentPda # pushed_pda settlementPolicy))))))))"

section \<open>Permissions\<close>

abbreviation (input) "SCOPE_ASSET \<equiv> 1 :: int"
abbreviation (input) "SCOPE_PATHWAY \<equiv> 2 :: int"
abbreviation (input) "SCOPE_EXECUTOR \<equiv> 4 :: int"
abbreviation (input) "SCOPE_COUNTERPARTY \<equiv> 12 :: int"
abbreviation (input) "ROLE_CAN_EXECUTE_SETTLEMENT \<equiv> push_bit 4 1 :: int"
abbreviation (input) "ROLE_CAN_USE_TRILATERAL_PATHWAY \<equiv> push_bit 5 1 :: int"

record permission_definition =
  pd_label :: string
  pd_subject :: string
  pd_role :: int

record resolved_permission =
  rp_label :: string
  rp_address :: string
  rp_role :: int
  rp_snapshot :: state_snapshot
  rp_observation :: "permission_observation option"

definition permission_definitions :: "normalized_request \<Rightarrow> operation_identity \<Rightarrow> permission_definition list" where
  "permission_definitions request identity =
     [\<lparr>pd_label = (if nr_mode request = Trilateral then ''principal A permission'' else ''principal permission''),
       pd_subject = id_principal_a identity, pd_role = requiredPrincipalRole (nr_action request) (nr_mode request)\<rparr>] @
     (if nr_mode request = Trilateral
      then [\<lparr>pd_label = ''principal B permission'', pd_subject = id_principal_b identity,
             pd_role = ROLE_CAN_USE_TRILATERAL_PATHWAY\<rparr>] else []) @
     (if nr_mode request \<noteq> Direct
      then [\<lparr>pd_label = ''executor permission'', pd_subject = id_executor identity,
             pd_role = ROLE_CAN_EXECUTE_SETTLEMENT\<rparr>] else [])"

text \<open>\<open>label.replaceAll(" ", "_")\<close>.\<close>

definition underscored :: "string \<Rightarrow> string" where
  "underscored label = map (\<lambda>ch. if ch = CHR '' '' then CHR ''_'' else ch) label"

definition observe_permission ::
  "normalized_request \<Rightarrow> string \<Rightarrow> permission_definition \<Rightarrow> state_snapshot \<Rightarrow> permission_observation option res" where
  "observe_permission request pathwayPolicyAddress dfn snapshot =
     optionalR (\<lambda>values. permissionObservation values (pd_role dfn) (KeyText (pd_subject dfn)) SCOPE_PATHWAY
                  (KeyText pathwayPolicyAddress) (nr_now request)) (cs_values snapshot)"

definition resolve_permission ::
  "'w client \<Rightarrow> normalized_request \<Rightarrow> string \<Rightarrow> permission_definition
   \<Rightarrow> ('w, resolved_permission \<times> named_program_address) rpc_io" where
  "resolve_permission c request pathwayPolicyAddress dfn =
     bindP (liftP (derivePermissionRecordAddress (cc_hash c) (cc_schema c) (KeyText (pd_subject dfn)) (JNum SCOPE_PATHWAY)
              (KeyText pathwayPolicyAddress))) (\<lambda>pda.
     bindP (loadChanceryState c (pda_address pda) ''PermissionRecord'' True) (\<lambda>snapshot.
     bindP (liftP (observe_permission request pathwayPolicyAddress dfn snapshot)) (\<lambda>observation.
       returnP (\<lparr>rp_label = pd_label dfn, rp_address = pda_address pda, rp_role = pd_role dfn, rp_snapshot = snapshot,
                 rp_observation = observation\<rparr>,
                pda\<lparr>np_name := underscored (pd_label dfn)\<rparr>))))"

definition resolvePermissions ::
  "'w client \<Rightarrow> normalized_request \<Rightarrow> operation_identity \<Rightarrow> string
   \<Rightarrow> ('w, (resolved_permission \<times> named_program_address) list) rpc_io" where
  "resolvePermissions c request identity pathwayPolicyAddress =
     eachP (resolve_permission c request pathwayPolicyAddress) (permission_definitions request identity)"

section \<open>Limits\<close>

type_synonym limit_windows = "(string \<times> state_snapshot option) list"

record limit_dimension =
  ld_label :: string
  ld_policy :: "state_snapshot option"
  ld_scope_hash :: "bytes option"
  ld_windows :: limit_windows
  ld_observation :: "limit_observation option"
  ld_issues :: "string list"

definition emptyLimitDimension :: "string \<Rightarrow> limit_dimension" where
  "emptyLimitDimension label =
     \<lparr>ld_label = label, ld_policy = None, ld_scope_hash = None,
      ld_windows = [(''hourly'', None), (''daily'', None), (''weekly'', None), (''monthly'', None)],
      ld_observation = None, ld_issues = []\<rparr>"

definition snapshotValuesByWindow :: "limit_windows \<Rightarrow> (string \<times> js_object option) list" where
  "snapshotValuesByWindow windows = map (\<lambda>(name, snapshot). (name, Option.bind snapshot cs_values)) windows"

text \<open>\<open>||\<close> evaluates its operands from left to right, and no operand after the first that holds.\<close>

fun anyR :: "bool res list \<Rightarrow> bool res" where
  "anyR [] = Inr False"
| "anyR (r # rs) = bindR r (\<lambda>b. if b then Inr True else anyR rs)"

definition nonzero_bigint :: "js_object \<Rightarrow> string \<Rightarrow> bool res" where
  "nonzero_bigint values field = bindR (requireBigIntField values field) (\<lambda>n. Inr (n \<noteq> 0))"

definition nonzero_number :: "js_object \<Rightarrow> string \<Rightarrow> bool res" where
  "nonzero_number values field = bindR (requireNumberField values field) (\<lambda>n. Inr (n \<noteq> 0))"

text \<open>The windows that the policy of a pathway enforces.\<close>

definition window_definitions :: "js_object \<Rightarrow> (string \<times> int \<times> bool) list res" where
  "window_definitions policyValues =
     bindR (anyR [nonzero_bigint policyValues ''per_hour_maximum'', nonzero_number policyValues ''maximum_actions_per_hour''])
       (\<lambda>hourly.
     bindR (anyR [nonzero_bigint policyValues ''per_day_maximum'', nonzero_number policyValues ''maximum_actions_per_day''])
       (\<lambda>daily.
     bindR (nonzero_bigint policyValues ''per_seven_day_maximum'') (\<lambda>weekly.
     bindR (nonzero_bigint policyValues ''per_thirty_day_maximum'') (\<lambda>monthly.
       Inr [(''hourly'', WINDOW_HOURLY, hourly), (''daily'', WINDOW_DAILY, daily), (''weekly'', WINDOW_WEEKLY, weekly),
            (''monthly'', WINDOW_MONTHLY, monthly)]))))"

definition load_window ::
  "'w client \<Rightarrow> bytes \<Rightarrow> string \<times> int \<times> bool
   \<Rightarrow> ('w, (string \<times> state_snapshot option) \<times> named_program_address list) rpc_io" where
  "load_window c scopeHash dfn =
     (case dfn of (name, kind, enforced) \<Rightarrow>
        if \<not> enforced then returnP ((name, None), [])
        else
          bindP (liftP (deriveUsageWindowAddress (cc_hash c) (cc_schema c) scopeHash (JNum kind))) (\<lambda>pda.
          bindP (loadChanceryState c (pda_address pda) ''UsageWindow'' True) (\<lambda>snapshot.
            returnP ((name, Some snapshot), [pda\<lparr>np_name := name @ ''_usage_window''\<rparr>]))))"

definition loadLimitWindows ::
  "'w client \<Rightarrow> js_object \<Rightarrow> bytes \<Rightarrow> ('w, limit_windows \<times> named_program_address list) rpc_io" where
  "loadLimitWindows c policyValues scopeHash =
     bindP (liftP (window_definitions policyValues)) (\<lambda>definitions.
     bindP (eachP (load_window c scopeHash) definitions) (\<lambda>loaded.
       returnP (map fst loaded, concat (map snd loaded))))"

definition resolvePathwayLimitDimension ::
  "'w client \<Rightarrow> policy_resolution \<Rightarrow> settlement_action \<Rightarrow> int \<Rightarrow> int
   \<Rightarrow> ('w, limit_dimension \<times> named_program_address list) rpc_io" where
  "resolvePathwayLimitDimension c policy action proposedAmount nowUnixTimestamp =
     (case policy_values policy of
        None \<Rightarrow> returnP (emptyLimitDimension ''pathway'', [])
      | Some policyValues \<Rightarrow>
          bindP (liftP (policyScopeHash (cc_hash c) policyValues)) (\<lambda>scopeHash.
          bindP (loadLimitWindows c policyValues scopeHash) (\<lambda>(windows, pdas).
          bindP (liftP (observeLimitPolicy policyValues action proposedAmount (snapshotValuesByWindow windows)
                   nowUnixTimestamp)) (\<lambda>observation.
            returnP (\<lparr>ld_label = ''pathway'', ld_policy = pr_snapshot policy, ld_scope_hash = Some scopeHash,
                      ld_windows = windows, ld_observation = Some observation, ld_issues = []\<rparr>, pdas)))))"

text \<open>A sequence of \<open>if (condition) issues.push(text)\<close>.\<close>

definition issues_of :: "(bool \<times> string) list \<Rightarrow> string list" where
  "issues_of conditions = map snd (filter fst conditions)"

definition dimensionPolicyValidationIssues :: "js_object \<Rightarrow> int \<Rightarrow> string \<Rightarrow> bool \<Rightarrow> string list res" where
  "dimensionPolicyValidationIssues policyValues expectedScopeKind expectedScopeKey requireDailyMaximum =
     bindR (requireNumberField policyValues ''scope_kind'') (\<lambda>scopeKind.
     bindR (requirePublicKeyField policyValues ''scope_key'') (\<lambda>scopeKey.
     bindR (anyR [nonzero_bigint policyValues ''per_hour_maximum'', nonzero_bigint policyValues ''per_seven_day_maximum'',
                  nonzero_bigint policyValues ''per_thirty_day_maximum'',
                  nonzero_number policyValues ''maximum_actions_per_hour'',
                  nonzero_number policyValues ''maximum_actions_per_day'']) (\<lambda>otherCaps.
     bindR (if requireDailyMaximum
            then bindR (requireBigIntField policyValues ''per_day_maximum'') (\<lambda>n. Inr (n = 0)) else Inr False) (\<lambda>noDaily.
       Inr (issues_of
         [(scopeKind \<noteq> expectedScopeKind, ''limit policy scope kind does not match '' @ show_int expectedScopeKind),
          (scopeKey \<noteq> expectedScopeKey, ''limit policy scope key does not match '' @ expectedScopeKey),
          (otherCaps, ''dimension policy contains caps that settlement does not enforce''),
          (noDaily, ''delegated counterparty policy requires a daily maximum'')])))))"

definition daily_windows :: "state_snapshot \<Rightarrow> limit_windows" where
  "daily_windows daily = [(''hourly'', None), (''daily'', Some daily), (''weekly'', None), (''monthly'', None)]"

definition resolveDailyLimitDimension ::
  "'w client \<Rightarrow> string \<Rightarrow> policy_resolution \<Rightarrow> int \<Rightarrow> string \<Rightarrow> int \<Rightarrow> settlement_action \<Rightarrow> int \<Rightarrow> bool
   \<Rightarrow> ('w, limit_dimension \<times> named_program_address list) rpc_io" where
  "resolveDailyLimitDimension c label policy scopeKind concreteScopeKey proposedAmount action nowUnixTimestamp
       requireDailyMaximum =
     (case policy_values policy of
        None \<Rightarrow> returnP (emptyLimitDimension label, [])
      | Some policyValues \<Rightarrow>
          bindP (liftP (dimensionScopeHash (cc_hash c) (JNum scopeKind) (KeyText concreteScopeKey))) (\<lambda>scopeHash.
          bindP (liftP (deriveUsageWindowAddress (cc_hash c) (cc_schema c) scopeHash (JNum WINDOW_DAILY))) (\<lambda>dailyPda.
          bindP (loadChanceryState c (pda_address dailyPda) ''UsageWindow'' True) (\<lambda>dailySnapshot.
          bindP (liftP (observeLimitPolicy policyValues action proposedAmount
                   (snapshotValuesByWindow (daily_windows dailySnapshot)) nowUnixTimestamp)) (\<lambda>observation.
          bindP (liftP (dimensionPolicyValidationIssues policyValues scopeKind
                   (if scopeKind = SCOPE_ASSET then concreteScopeKey else ZERO_ADDRESS c) requireDailyMaximum)) (\<lambda>issues.
            returnP (\<lparr>ld_label = label, ld_policy = pr_snapshot policy, ld_scope_hash = Some scopeHash,
                      ld_windows = daily_windows dailySnapshot, ld_observation = Some observation, ld_issues = issues\<rparr>,
                     [dailyPda\<lparr>np_name := label @ ''_daily_usage_window''\<rparr>])))))))"

end
