(* ===== verification/SettlementGates.thy ===== *)
theory SettlementGates
  imports SettlementResolve
begin

text \<open>
  \<open>typescript/src/client/ChanceryClient.ts\<close>: what the settlement client computes from what it has read. The effective
  quote predicts what the principal receives after transfer fees and the program's fee; the gates each return the
  issues they push, in the order of the source; the arguments and accounts of the instruction are collected last.
\<close>

section \<open>The effective quote\<close>

record settlement_effective_quote =
  eq_action :: settlement_action
  eq_epoch :: int
  eq_rate :: int
  eq_configured_output :: int
  eq_rate_input :: int
  eq_gross_output :: int
  eq_input_transfer :: token_transfer_fee_calculation
  eq_fee_amount :: int
  eq_fee_basis_points :: "int option"
  eq_before_transfer :: int
  eq_principal_transfer :: token_transfer_fee_calculation
  eq_received :: int
  eq_routed_transfer :: "token_transfer_fee_calculation option"
  eq_recipient_received :: int
  eq_reduction :: int
  eq_all_in_basis_points :: "int option"
  eq_output_rate :: "int option"
  eq_needs_simulation :: bool
  eq_observations :: "string list"

record effective_quote_resolution =
  er_gross_output :: int
  er_fee_quote :: fee_quote
  er_quote :: settlement_effective_quote

definition ratio_unless_zero :: "int \<Rightarrow> int \<Rightarrow> int option" where
  "ratio_unless_zero numerator denominator = (if denominator = 0 then None else Some (big_div numerator denominator))"

definition computeSettlementEffectiveQuote ::
  "chancery_schema \<Rightarrow> settlement_action \<Rightarrow> int \<Rightarrow> js_object \<Rightarrow> decoded_token_mint option \<Rightarrow> js_object option \<Rightarrow> int \<Rightarrow> int
   \<Rightarrow> effective_quote_resolution res" where
  "computeSettlementEffectiveQuote S action requestedInputAmount assetValues assetMintValues feePolicyValues
       nowUnixTimestamp currentEpoch =
     (if requestedInputAmount < 0 then throw ''Requested input amount must be non-negative''
      else
        bindR (if action = Mint then requireBigIntField assetValues ''deposit_rate_e9''
               else requireBigIntField assetValues ''redeem_rate_e9'') (\<lambda>configuredRateE9.
        bindR (computeSettlementGrossOutput action requestedInputAmount assetValues) (\<lambda>configuredOutput.
        let transferFeeConfig = Option.bind assetMintValues tm_transfer_fee_config in
        bindR (if action = Mint then calculateTokenTransferFee requestedInputAmount transferFeeConfig currentEpoch
               else calculateTokenTransferFee 0 None currentEpoch) (\<lambda>inputTransfer.
        let rateInputAmount = (if action = Mint then tc_received inputTransfer else requestedInputAmount) in
        bindR (computeSettlementGrossOutput action rateInputAmount assetValues) (\<lambda>grossOutput.
        let grossInputForFee = (if action = Mint then rateInputAmount else requestedInputAmount) in
        bindR (computeFeeQuote S action grossInputForFee grossOutput feePolicyValues nowUnixTimestamp) (\<lambda>feeQuote.
        bindR (if action = Redeem then calculateTokenTransferFee (fq_net_output feeQuote) transferFeeConfig currentEpoch
               else calculateTokenTransferFee (fq_net_output feeQuote) None currentEpoch) (\<lambda>principalTransfer.
        bindR (if \<not> fq_routed feeQuote then Inr None
               else
                 bindR (if action = Redeem then calculateTokenTransferFee (fq_net_fee feeQuote) transferFeeConfig currentEpoch
                        else calculateTokenTransferFee (fq_net_fee feeQuote) None currentEpoch) (\<lambda>t. Inr (Some t)))
          (\<lambda>routedTransfer.
        let received = tc_received principalTransfer;
            reduction = (if received < configuredOutput then configuredOutput - received else 0);
            unmodeled = (case assetMintValues of None \<Rightarrow> False | Some mint \<Rightarrow> tm_unmodeled mint) in
        Inr \<lparr>er_gross_output = grossOutput, er_fee_quote = feeQuote, er_quote =
          \<lparr>eq_action = action, eq_epoch = currentEpoch, eq_rate = configuredRateE9,
           eq_configured_output = configuredOutput, eq_rate_input = rateInputAmount, eq_gross_output = grossOutput,
           eq_input_transfer = inputTransfer, eq_fee_amount = fq_net_fee feeQuote,
           eq_fee_basis_points = ratio_unless_zero (fq_net_fee feeQuote * 10000) grossOutput,
           eq_before_transfer = fq_net_output feeQuote, eq_principal_transfer = principalTransfer, eq_received = received,
           eq_routed_transfer = routedTransfer,
           eq_recipient_received = (case routedTransfer of Some t \<Rightarrow> tc_received t | None \<Rightarrow> 0),
           eq_reduction = reduction, eq_all_in_basis_points = ratio_unless_zero (reduction * 10000) configuredOutput,
           eq_output_rate = ratio_unless_zero (received * 1000000000) requestedInputAmount,
           eq_needs_simulation = (assetMintValues = None \<or> unmodeled),
           eq_observations = issues_of
             [(assetMintValues = None,
               ''Asset mint state is unavailable; transfer-fee effects cannot be calculated locally''),
              (unmodeled,
               ''The asset mint has transfer behavior that requires transaction simulation for an exact received amount'')]\<rparr>\<rparr>))))))))"

section \<open>The intent and the amounts\<close>

definition validateIntentAgainstPathway ::
  "normalized_request \<Rightarrow> operation_identity \<Rightarrow> js_object \<Rightarrow> string \<Rightarrow> string list res" where
  "validateIntentAgainstPathway request identity pathwayValues issuedTokenMint =
     (case Option.bind (id_intent identity) cs_values of
        None \<Rightarrow> Inr []
      | Some intent \<Rightarrow>
          bindR (requireNumberField intent ''settlement_mode'') (\<lambda>mode.
          bindR (requireNumberField intent ''settlement_action'') (\<lambda>action.
          bindR (requirePublicKeyField intent ''asset_mint'') (\<lambda>assetMint.
          bindR (requirePublicKeyField intent ''issued_token_mint'') (\<lambda>issuedMint.
          bindR (bytes32Hex (obj_get intent ''pathway_id'')) (\<lambda>intentPathway.
          bindR (bytes32Hex (obj_get pathwayValues ''pathway_id'')) (\<lambda>pathway.
          bindR (requireNumberField intent ''status'') (\<lambda>status.
          bindR (requireBigIntField intent ''valid_after_unix_timestamp'') (\<lambda>validAfter.
          bindR (requireBigIntField intent ''expires_at_unix_timestamp'') (\<lambda>expiresAt.
            Inr (issues_of
              [(mode \<noteq> int (SETTLEMENT_MODE_VALUE (nr_mode request)),
                ''Settlement intent mode does not match the requested mode''),
               (action \<noteq> int (SETTLEMENT_ACTION_VALUE (nr_action request)),
                ''Settlement intent action does not match the requested action''),
               (assetMint \<noteq> nr_asset_mint request,
                ''Settlement intent asset mint does not match the requested asset mint''),
               (issuedMint \<noteq> issuedTokenMint, ''Settlement intent issued token mint does not match ChanceryConfig''),
               (intentPathway \<noteq> pathway, ''Settlement intent pathway id does not match the selected pathway''),
               (status \<noteq> 0, ''Settlement intent status is '' @ show_int status @ '', not pending''),
               (validAfter \<noteq> 0 \<and> nr_now request < validAfter, ''Settlement intent is not yet valid''),
               (expiresAt \<noteq> 0 \<and> expiresAt \<le> nr_now request, ''Settlement intent has expired'')])))))))))))"

definition validateAmount :: "settlement_action \<Rightarrow> int \<Rightarrow> int \<Rightarrow> js_object \<Rightarrow> int \<Rightarrow> string list res" where
  "validateAmount action inputAmount minimumOutput assetValues principalReceivedAmount =
     bindR (requireBigIntField assetValues (if action = Mint then ''minimum_deposit_amount'' else ''minimum_redeem_amount''))
       (\<lambda>minimumInput.
     bindR (requireBigIntField assetValues ''maximum_single_settlement_amount'') (\<lambda>maximumInput.
       Inr (issues_of
         [(inputAmount < minimumInput,
           ''Input amount '' @ show_int inputAmount @ '' is below minimum '' @ show_int minimumInput),
          (maximumInput \<noteq> 0 \<and> maximumInput < inputAmount,
           ''Input amount '' @ show_int inputAmount @ '' exceeds maximum '' @ show_int maximumInput),
          (principalReceivedAmount < minimumOutput,
           ''Minimum output '' @ show_int minimumOutput @ '' exceeds predicted principal receipt '' @
           show_int principalReceivedAmount)])))"

section \<open>The core gates\<close>

abbreviation (input) "SETTLEMENT_MODULE_ID \<equiv> 4 :: nat"
abbreviation (input) "MODULE_STATUS_ACTIVE \<equiv> 2 :: byte"
abbreviation (input) "ASSET_MODE_ACTIVE \<equiv> 0 :: int"
abbreviation (input) "ASSET_MODE_WIND_DOWN \<equiv> 1 :: int"
abbreviation (input) "COLLATERAL_TRANSFER_HOOK_EXTENSION \<equiv> push_bit 0 1 :: int"

definition SETTLEMENT_EVIDENCE_SUPPORTED_FIELD_MASK :: int where
  "SETTLEMENT_EVIDENCE_SUPPORTED_FIELD_MASK = push_bit 19 1 - 1"

definition validateExtensionFreshness :: "string \<Rightarrow> int \<Rightarrow> int \<Rightarrow> int \<Rightarrow> string list" where
  "validateExtensionFreshness label observedAtSlot maximumAgeSlots currentSlot =
     (if currentSlot < observedAtSlot then [label @ '' extension observation is future-dated'']
      else if maximumAgeSlots \<noteq> 0 \<and> maximumAgeSlots < currentSlot - observedAtSlot
      then [label @ '' extension observation is stale''] else [])"

text \<open>
  The extensions of the collateral: the two words of the observed, approved and forbidden masks. The loop stops at the
  first word that has an issue.
\<close>

definition collateral_issue :: "int \<times> int \<times> int \<times> int \<Rightarrow> string option" where
  "collateral_issue masks =
     (case masks of (observed, approved, effectiveForbidden, pathwayForbidden) \<Rightarrow>
        if and observed (not approved) \<noteq> 0
        then Some ''Asset extension observation contains an extension not approved by AssetConfig''
        else if and observed effectiveForbidden \<noteq> 0
        then Some ''Asset extension observation contains a forbidden extension''
        else if and observed pathwayForbidden \<noteq> 0
        then Some ''Asset extension observation is forbidden by the selected pathway''
        else None)"

definition issued_issue :: "int \<times> int \<Rightarrow> string option" where
  "issued_issue masks =
     (case masks of (active, forbidden) \<Rightarrow>
        if and active forbidden \<noteq> 0
        then Some ''Issued-token extension observation is forbidden by the selected pathway'' else None)"

fun first_issue :: "('a \<Rightarrow> string option) \<Rightarrow> 'a list \<Rightarrow> string list" where
  "first_issue f [] = []"
| "first_issue f (x # xs) = (case f x of Some issue \<Rightarrow> [issue] | None \<Rightarrow> first_issue f xs)"

definition collateral_issues :: "js_object \<Rightarrow> js_object \<Rightarrow> string list res" where
  "collateral_issues assetValues pathwayValues =
     bindR (requireBigIntArrayField assetValues ''observed_extension_mask'' 2) (\<lambda>observed.
     bindR (requireBigIntArrayField assetValues ''approved_extension_mask'' 2) (\<lambda>approved.
     bindR (requireBigIntArrayField assetValues ''forbidden_extension_mask'' 2) (\<lambda>forbidden.
     bindR (requireBigIntArrayField pathwayValues ''forbidden_collateral_extension_mask'' 2) (\<lambda>pathwayForbidden.
       Inr (first_issue collateral_issue
         [(observed ! 0, approved ! 0, or (forbidden ! 0) COLLATERAL_TRANSFER_HOOK_EXTENSION, pathwayForbidden ! 0),
          (observed ! 1, approved ! 1, or (forbidden ! 1) 0, pathwayForbidden ! 1)])))))"

definition issued_token_issues :: "int \<Rightarrow> js_object \<Rightarrow> js_object \<Rightarrow> string list res" where
  "issued_token_issues currentSlot controlValues pathwayValues =
     bindR (requireBigIntField controlValues ''control_flags'') (\<lambda>controlFlags.
     bindR (requireBigIntField controlValues ''extension_observed_at_slot'') (\<lambda>observedAt.
     bindR (requireBigIntField controlValues ''max_extension_observation_age_slots'') (\<lambda>maximumAge.
     bindR (requireBigIntArrayField controlValues ''active_mint_extension_mask'' 2) (\<lambda>active.
     bindR (requireBigIntArrayField pathwayValues ''forbidden_issued_token_extension_mask'' 2) (\<lambda>forbidden.
       Inr (issues_of [(\<not> flag_set controlFlags 63, ''Issued token deployment is not ready for settlement'')] @
            validateExtensionFreshness ''Issued token'' observedAt maximumAge currentSlot @
            first_issue issued_issue [(active ! 0, forbidden ! 0), (active ! 1, forbidden ! 1)]))))))"

definition evidence_configuration_issues :: "js_object \<Rightarrow> string list res" where
  "evidence_configuration_issues values =
     bindR (requireBigIntArrayField values ''required_field_mask'' 2) (\<lambda>mask.
     bindR (requireBytes (obj_get values ''counterparty_reporting_schema_hash'') 32) (\<lambda>schemaHash.
     bindR (anyR [nonzero_number values ''allow_freeform_counterparty_fields'',
                  bindR (isZeroBytes32 (JBytes schemaHash)) (\<lambda>z. Inr (\<not> z)),
                  nonzero_number values ''maximum_freeform_field_count'',
                  nonzero_number values ''maximum_freeform_value_bytes'',
                  nonzero_bigint values ''retention_flags'']) (\<lambda>unsupported.
       Inr (issues_of
         [(mask ! 1 \<noteq> 0 \<or> and (mask ! 0) (not SETTLEMENT_EVIDENCE_SUPPORTED_FIELD_MASK) \<noteq> 0,
           ''Evidence policy requires fields that settlement evidence cannot prove''),
          (unsupported, ''Evidence policy uses a configuration unsupported by settlement evidence'')]))))"

definition evidence_issues :: "js_object \<Rightarrow> js_object option \<Rightarrow> string list res" where
  "evidence_issues pathwayValues evidencePolicyValues =
     bindR (requireBytes (obj_get pathwayValues ''evidence_policy_id'') 32) (\<lambda>evidencePolicyId.
     bindR (isZeroBytes32 (JBytes evidencePolicyId)) (\<lambda>isZero.
     bindR (case evidencePolicyValues of None \<Rightarrow> Inr [] | Some values \<Rightarrow> evidence_configuration_issues values) (\<lambda>configuration.
       Inr (issues_of
         [(\<not> isZero \<and> evidencePolicyValues = None, ''Selected pathway requires an evidence policy account''),
          (isZero \<and> evidencePolicyValues \<noteq> None,
           ''Evidence policy account is present but the selected pathway has no evidence policy binding'')] @ configuration))))"

definition validateCoreSettlementGates ::
  "settlement_action \<Rightarrow> int \<Rightarrow> js_object \<Rightarrow> js_object \<Rightarrow> js_object \<Rightarrow> js_object \<Rightarrow> js_object option \<Rightarrow> string list res" where
  "validateCoreSettlementGates action currentSlot moduleActivationValues assetValues issuedTokenControlValues
       pathwayValues evidencePolicyValues =
     bindR (requireBytes (obj_get moduleActivationValues ''module_statuses'') 32) (\<lambda>moduleStatuses.
     bindR (requireNumberField assetValues ''mode'') (\<lambda>assetMode.
     bindR (requireBigIntField assetValues ''extension_observed_at_slot'') (\<lambda>observedAt.
     bindR (requireBigIntField assetValues ''max_extension_observation_age_slots'') (\<lambda>maximumAge.
     bindR (collateral_issues assetValues pathwayValues) (\<lambda>collateral.
     bindR (issued_token_issues currentSlot issuedTokenControlValues pathwayValues) (\<lambda>issued.
     bindR (evidence_issues pathwayValues evidencePolicyValues) (\<lambda>evidence.
       Inr (issues_of
              [(moduleStatuses ! SETTLEMENT_MODULE_ID \<noteq> MODULE_STATUS_ACTIVE, ''Settlement module is not active''),
               (action = Mint \<and> assetMode \<noteq> ASSET_MODE_ACTIVE, ''Asset mode forbids mint settlement''),
               (action = Redeem \<and> assetMode \<noteq> ASSET_MODE_ACTIVE \<and> assetMode \<noteq> ASSET_MODE_WIND_DOWN,
                ''Asset mode forbids redeem settlement'')] @
            validateExtensionFreshness ''Asset'' observedAt maximumAge currentSlot @ collateral @ issued @ evidence))))))))"

section \<open>Limits, token accounts and pauses\<close>

definition window_issues :: "limit_dimension \<Rightarrow> limit_window_observation \<Rightarrow> string list" where
  "window_issues limit window =
     (let text = (\<lambda>suffix. ld_label limit @ '' '' @ lw_name window @ suffix) in
      (if lw_clock_regression window then [text '' usage window starts after the canonical current period'']
       else issues_of [(\<not> lw_allowed window, text '' volume limit is exceeded''),
                       (\<not> lw_action_allowed window, text '' action-count limit is exceeded'')]) @
      issues_of
        [((lw_maximum window \<noteq> 0 \<or> lw_maximum_actions window \<noteq> 0) \<and>
          (case map_of (ld_windows limit) (lw_name window) of Some (Some snapshot) \<Rightarrow> \<not> cs_exists snapshot | _ \<Rightarrow> True),
          text '' usage window does not exist'')])"

definition limit_issues :: "limit_dimension \<Rightarrow> string list" where
  "limit_issues limit =
     map (\<lambda>issue. ld_label limit @ '' '' @ issue) (ld_issues limit) @
     (case ld_observation limit of
        None \<Rightarrow> []
      | Some observation \<Rightarrow>
          issues_of [(\<not> lo_transaction_allowed observation, ld_label limit @ '' per-transaction limit is exceeded'')] @
          concat (map (window_issues limit) (lo_windows observation)))"

definition validateLimits :: "limit_dimension list \<Rightarrow> string list" where
  "validateLimits limits = concat (map limit_issues limits)"

definition validateTokenAccounts ::
  "settlement_action \<Rightarrow> int \<Rightarrow> int \<Rightarrow> token_account_snapshot \<Rightarrow> token_account_snapshot \<Rightarrow> token_account_snapshot
   \<Rightarrow> token_account_snapshot \<Rightarrow> bool \<Rightarrow> string list" where
  "validateTokenAccounts action inputAmount requiredReserveBalance source destination reserve feeRecipient feeRouted =
     (case ts_values source of
        Some values \<Rightarrow>
          if \<not> ts_exists source then [''Source token account '' @ ts_address source @ '' does not exist'']
          else issues_of [(ta_amount values < inputAmount,
            ''Source token balance '' @ show_int (ta_amount values) @ '' is below input amount '' @ show_int inputAmount)]
      | None \<Rightarrow> [''Source token account '' @ ts_address source @ '' does not exist'']) @
     issues_of [(\<not> ts_exists destination, ''Destination token account '' @ ts_address destination @ '' does not exist'')] @
     (case ts_values reserve of
        Some values \<Rightarrow>
          if \<not> ts_exists reserve then [''Reserve token account '' @ ts_address reserve @ '' does not exist'']
          else issues_of [(action = Redeem \<and> ta_amount values < requiredReserveBalance,
            ''Reserve balance '' @ show_int (ta_amount values) @ '' is below required reserve outflow '' @
            show_int requiredReserveBalance)]
      | None \<Rightarrow> [''Reserve token account '' @ ts_address reserve @ '' does not exist'']) @
     issues_of [(feeRouted \<and> \<not> ts_exists feeRecipient,
       ''Fee recipient token account '' @ ts_address feeRecipient @ '' does not exist'')]"

record pause_observation =
  pause_slot :: int
  pause_global :: bool
  pause_asset :: bool
  pause_pathway :: bool

definition pause_in_force :: "js_object \<Rightarrow> string \<Rightarrow> nat \<Rightarrow> int \<Rightarrow> bool res" where
  "pause_in_force values bitsField actionBit currentSlot =
     bindR (requireBigIntField values ''expires_at_slot'') (\<lambda>expiry.
       if expiry = 0 \<or> currentSlot < expiry
       then bindR (requireBigIntField values bitsField) (\<lambda>bits. Inr (flag_set bits actionBit))
       else Inr False)"

definition observePauses ::
  "settlement_action \<Rightarrow> int \<Rightarrow> state_snapshot \<Rightarrow> state_snapshot \<Rightarrow> state_snapshot \<Rightarrow> pause_observation res" where
  "observePauses action currentSlot pauseState assetPauseState pathway =
     (let actionBit = (if action = Mint then 0 else 1) in
      bindR (requireSnapshotValues pauseState) (\<lambda>globalValues.
      bindR (pause_in_force globalValues ''global_pause_bits'' actionBit currentSlot) (\<lambda>globalPaused.
      bindR (case cs_values assetPauseState of
               None \<Rightarrow> Inr False
             | Some values \<Rightarrow> pause_in_force values ''asset_pause_bits'' actionBit currentSlot) (\<lambda>assetPaused.
      bindR (requireSnapshotValues pathway) (\<lambda>pathwayValues.
      bindR (requireBigIntField pathwayValues ''status_flags'') (\<lambda>statusFlags.
        Inr \<lparr>pause_slot = currentSlot, pause_global = globalPaused, pause_asset = assetPaused,
             pause_pathway = flag_set statusFlags 3\<rparr>))))))"

definition pause_issues :: "settlement_action \<Rightarrow> pause_observation \<Rightarrow> string list" where
  "pause_issues action pauses = issues_of
     [(pause_global pauses, ''Global '' @ action_name action @ '' pause is active''),
      (pause_asset pauses, ''Asset '' @ action_name action @ '' pause is active''),
      (pause_pathway pauses, ''Pathway pause is active'')]"

text \<open>The values of a \<open>Set\<close> in insertion order.\<close>

definition uniqueStrings :: "string list \<Rightarrow> string list" where
  "uniqueStrings values = foldl (\<lambda>unique text. if text \<in> set unique then unique else unique @ [text]) [] values"

section \<open>The effective quote accounts for every unit\<close>

lemma computeFeeQuote_conserves:
  assumes "computeFeeQuote S action grossInput gross (Some values) now = Inr q"
    and "fq_observations q = []" and "unsigned_fields FEE_AMOUNT_FIELDS values"
  shows "fq_net_output q + fq_net_fee q = gross \<and> fq_net_fee q + fq_effective_rebate q = fq_assessed q \<and>
    0 \<le> fq_net_fee q \<and> fq_net_fee q \<le> fq_assessed q \<and> 0 < fq_net_output q \<and>
    fq_denomination q = expected_denomination action \<and> fq_effective q \<and>
    (fq_routed q \<longrightarrow> 0 < fq_net_fee q)"
  using assms(1)
proof (cases rule: computeFeeQuote_Some)
  case (1 flags start stop floorFlag)
  have "0 \<le> fq_assessed q" using assessed_fee_nonneg [OF 1(5) assms(3)] .
  moreover have "0 \<le> fq_nominal_rebate q" using nominal_rebate_nonneg [OF 1(6) assms(3)] calculation .
  ultimately show ?thesis using 1 assms(2) by (auto split: if_splits)
qed

lemma fee_quote_sum:
  assumes "computeFeeQuote S action grossInput gross policy now = Inr q" "fq_observations q = []"
    and "\<And>values. policy = Some values \<Longrightarrow> unsigned_fields FEE_AMOUNT_FIELDS values"
  shows "fq_net_output q + fq_net_fee q = gross \<and> 0 \<le> fq_net_fee q"
proof (cases policy)
  case None
  with assms(1) show ?thesis by (auto simp: computeFeeQuote_def free_quote_def)
next
  case (Some vs)
  with computeFeeQuote_conserves [of S action grossInput gross vs now q] assms show ?thesis by auto
qed

lemma transfer_fee_sum:
  assumes "calculateTokenTransferFee amount config epoch = Inr t" "\<And>c. config = Some c \<Longrightarrow> fee_config_ok c"
  shows "0 \<le> amount \<and> tc_fee t + tc_received t = amount \<and> 0 \<le> tc_fee t \<and> 0 \<le> tc_received t"
proof (cases config)
  case None
  with assms(1) show ?thesis by (auto simp: calculateTokenTransferFee_def split: if_splits)
next
  case (Some c)
  have "0 \<le> amount" "0 \<le> epoch"
    using assms(1) Some by (auto simp: calculateTokenTransferFee_def selectActiveTransferFee_def split: if_splits)
  with calculateTokenTransferFee_ok [of amount epoch c] assms Some show ?thesis by auto
qed

lemma ratio_bound:
  "0 \<le> n \<Longrightarrow> n \<le> k * d \<Longrightarrow> 0 \<le> d \<Longrightarrow> ratio_unless_zero n d = Some b \<Longrightarrow> 0 \<le> b \<and> b \<le> k"
  using zdiv_mono1 [of n "k * d" d]
  by (auto simp: ratio_unless_zero_def pos_imp_zdiv_nonneg_iff split: if_split_asm)

lemma gross_output_Inr:
  "computeSettlementGrossOutput action amount values = Inr gross \<Longrightarrow>
   0 \<le> amount \<and> (\<exists>rate. requireBigIntField values (if action = Mint then ''deposit_rate_e9'' else ''redeem_rate_e9'') = Inr rate \<and>
     gross = big_div (amount * rate) 1000000000)"
  by (auto simp: computeSettlementGrossOutput_def split: if_splits)

text \<open>Nothing is lost: the parts of a quote add up to the gross output, and that to the configured output.\<close>

definition quote_accounts :: "int \<Rightarrow> effective_quote_resolution \<Rightarrow> bool" where
  "quote_accounts requested r \<longleftrightarrow>
     (let q = er_quote r in
      (eq_action q = Mint \<longrightarrow> eq_rate_input q + tc_fee (eq_input_transfer q) = requested) \<and>
      (eq_action q = Redeem \<longrightarrow> eq_rate_input q = requested) \<and>
      eq_gross_output q = eq_rate_input q * eq_rate q div 1000000000 \<and>
      eq_received q + tc_fee (eq_principal_transfer q) + eq_fee_amount q = eq_gross_output q \<and>
      (\<forall>t. eq_routed_transfer q = Some t \<longrightarrow> eq_recipient_received q + tc_fee t = eq_fee_amount q) \<and>
      0 \<le> eq_received q \<and> 0 \<le> eq_reduction q \<and> eq_received q + eq_reduction q = eq_configured_output q \<and>
      (\<forall>b. eq_all_in_basis_points q = Some b \<longrightarrow> 0 \<le> b \<and> b \<le> 10000) \<and>
      (\<forall>x. eq_output_rate q = Some x \<longrightarrow> 0 \<le> x \<and> x \<le> eq_rate q))"

lemma effective_quote_accounts:
  assumes quote: "computeSettlementEffectiveQuote S action requested assetValues mint policy now epoch = Inr r"
    and clean: "fq_observations (er_fee_quote r) = []"
    and config: "\<And>m c. mint = Some m \<Longrightarrow> tm_transfer_fee_config m = Some c \<Longrightarrow> fee_config_ok c"
    and amounts: "\<And>values. policy = Some values \<Longrightarrow> unsigned_fields FEE_AMOUNT_FIELDS values"
    and rates: "unsigned_fields [''deposit_rate_e9'', ''redeem_rate_e9''] assetValues"
  shows "quote_accounts requested r"
proof -
  define cfg where "cfg = Option.bind mint tm_transfer_fee_config"
  have ok: "\<And>c. cfg = Some c \<Longrightarrow> fee_config_ok c" using config by (auto simp: cfg_def bind_eq_Some_conv)
  have nonneg: "\<not> requested < 0" using quote unfolding computeSettlementEffectiveQuote_def by (auto split: if_split_asm)
  obtain rate configured input gross fee principal routed where parts:
    "(if action = Mint then requireBigIntField assetValues ''deposit_rate_e9'' else requireBigIntField assetValues ''redeem_rate_e9'') = Inr rate"
    "computeSettlementGrossOutput action requested assetValues = Inr configured"
    "(if action = Mint then calculateTokenTransferFee requested cfg epoch else calculateTokenTransferFee 0 None epoch) = Inr input"
    "computeSettlementGrossOutput action (if action = Mint then tc_received input else requested) assetValues = Inr gross"
    "computeFeeQuote S action (if action = Mint then if action = Mint then tc_received input else requested else requested) gross policy now = Inr fee"
    "(if action = Redeem then calculateTokenTransferFee (fq_net_output fee) cfg epoch
      else calculateTokenTransferFee (fq_net_output fee) None epoch) = Inr principal"
    "(if \<not> fq_routed fee then Inr None
      else bindR (if action = Redeem then calculateTokenTransferFee (fq_net_fee fee) cfg epoch
      else calculateTokenTransferFee (fq_net_fee fee) None epoch) (\<lambda>t. Inr (Some t))) = Inr routed"
    and r: "er_fee_quote r = fee"
    "eq_action (er_quote r) = action" "eq_rate (er_quote r) = rate" "eq_configured_output (er_quote r) = configured"
    "eq_rate_input (er_quote r) = (if action = Mint then tc_received input else requested)"
    "eq_gross_output (er_quote r) = gross" "eq_input_transfer (er_quote r) = input"
    "eq_fee_amount (er_quote r) = fq_net_fee fee" "eq_principal_transfer (er_quote r) = principal"
    "eq_received (er_quote r) = tc_received principal" "eq_routed_transfer (er_quote r) = routed"
    "eq_recipient_received (er_quote r) = (case routed of Some t \<Rightarrow> tc_received t | None \<Rightarrow> 0)"
    "eq_reduction (er_quote r) = (if tc_received principal < configured then configured - tc_received principal else 0)"
    "eq_all_in_basis_points (er_quote r) = ratio_unless_zero (eq_reduction (er_quote r) * 10000) configured"
    "eq_output_rate (er_quote r) = ratio_unless_zero (tc_received principal * 1000000000) requested"
    using quote unfolding computeSettlementEffectiveQuote_def Let_def cfg_def [symmetric] if_not_P [OF nonneg] bindR_eq_Inr sum.inject
    apply (elim exE conjE)
    apply (rule that, assumption, assumption, assumption, assumption, assumption, assumption, assumption)
    apply (drule sym, simp only: settlement_effective_quote.select_convs effective_quote_resolution.select_convs)+
    done
  have amount: "0 \<le> tc_received input" "action = Mint \<Longrightarrow> tc_fee input + tc_received input = requested"
    "action = Mint \<Longrightarrow> 0 \<le> tc_fee input"
    using parts(3) transfer_fee_sum [of requested cfg epoch input] transfer_fee_sum [of 0 None epoch input] ok
    by (auto split: if_split_asm)
  define rin where "rin = (if action = Mint then tc_received input else requested)"
  have rin: "0 \<le> rin" "rin \<le> requested" using amount nonneg by (auto simp: rin_def)
  have "0 \<le> rate" using parts(1) unsigned_BigInt [OF rates] by (auto split: if_split_asm)
  have gross: "gross = rin * rate div 1000000000" "configured = requested * rate div 1000000000"
    using gross_output_Inr [OF parts(2)] gross_output_Inr [OF parts(4)] parts(1) rin \<open>0 \<le> rate\<close> nonneg
    by (auto simp: rin_def split: if_split_asm)
  have le: "gross \<le> configured" "0 \<le> gross"
    using rin \<open>0 \<le> rate\<close> by (auto simp: gross intro!: zdiv_mono1 mult_right_mono div_int_pos_iff [THEN iffD2])
  have fee: "fq_net_output fee + fq_net_fee fee = gross" "0 \<le> fq_net_fee fee"
    using fee_quote_sum [OF parts(5)] clean r(1) amounts by auto
  have principal: "tc_fee principal + tc_received principal = fq_net_output fee" "0 \<le> tc_received principal" "0 \<le> tc_fee principal"
    using parts(6) transfer_fee_sum [of "fq_net_output fee" cfg epoch principal] transfer_fee_sum [of "fq_net_output fee" None epoch principal] ok
    by (auto split: if_split_asm)
  have routed: "\<forall>t. routed = Some t \<longrightarrow> tc_fee t + tc_received t = fq_net_fee fee"
    using parts(7) transfer_fee_sum [of "fq_net_fee fee" cfg epoch] transfer_fee_sum [of "fq_net_fee fee" None epoch] ok
    by (auto split: if_split_asm)
  have received: "tc_received principal \<le> configured" using fee principal le by linarith
  then have reduction: "eq_reduction (er_quote r) = configured - tc_received principal" by (simp add: r)
  have "tc_received principal * 1000000000 \<le> configured * 1000000000" using received by simp
  also have "\<dots> \<le> requested * rate" using div_mult_mod_eq [of "requested * rate" 1000000000] pos_mod_sign [of 1000000000 "requested * rate"]
    unfolding gross(2) by linarith
  finally have rate_bound: "tc_received principal * 1000000000 \<le> rate * requested" by (simp add: mult.commute)
  note bps = ratio_bound [of "eq_reduction (er_quote r) * 10000" 10000 configured]
    and output_rate = ratio_bound [of "tc_received principal * 1000000000" rate requested]
  show ?thesis
    unfolding quote_accounts_def Let_def
  proof (intro conjI allI impI)
    show "eq_rate_input (er_quote r) + tc_fee (eq_input_transfer (er_quote r)) = requested" if "eq_action (er_quote r) = Mint"
      using that amount by (simp add: r)
    show "eq_rate_input (er_quote r) = requested" if "eq_action (er_quote r) = Redeem" using that by (simp add: r)
    show "eq_gross_output (er_quote r) = eq_rate_input (er_quote r) * eq_rate (er_quote r) div 1000000000"
      using gross(1) by (simp add: r rin_def)
    show "eq_received (er_quote r) + tc_fee (eq_principal_transfer (er_quote r)) + eq_fee_amount (er_quote r) =
        eq_gross_output (er_quote r)" using principal fee by (simp add: r)
    show "eq_recipient_received (er_quote r) + tc_fee t = eq_fee_amount (er_quote r)"
      if "eq_routed_transfer (er_quote r) = Some t" for t using that routed by (simp add: r)
    show "0 \<le> eq_received (er_quote r)" using principal by (simp add: r)
    show "0 \<le> eq_reduction (er_quote r)" "eq_received (er_quote r) + eq_reduction (er_quote r) = eq_configured_output (er_quote r)"
      using received by (simp_all add: reduction r(4,10))
    show "0 \<le> b" "b \<le> 10000" if "eq_all_in_basis_points (er_quote r) = Some b" for b
      using that bps [of b] received principal by (simp_all add: r(14) reduction)
    show "0 \<le> x" "x \<le> eq_rate (er_quote r)" if "eq_output_rate (er_quote r) = Some x" for x
      using that output_rate [of x] rate_bound principal nonneg by (simp_all add: r(3,15))
  qed
qed

end
