(* ===== verification/SettlementInspect.thy ===== *)
theory SettlementInspect
  imports SettlementGates ChanceryInstruction
begin

text \<open>
  \<open>typescript/src/client/ChanceryClient.ts\<close>: \<open>inspect\<close>. It reads the state of the program phase by phase, collects
  the blocking issues of every gate, and ends with the arguments and the accounts of the instruction. Each phase
  returns what it read, the addresses it pushed and the issues it pushed.
\<close>

section \<open>Arguments and accounts of the instruction\<close>

record core_accounts =
  ca_module_activation :: state_snapshot
  ca_config :: state_snapshot
  ca_pause_state :: state_snapshot
  ca_asset_config :: state_snapshot
  ca_asset_pause :: state_snapshot
  ca_issued_control :: state_snapshot

record settlement_policies =
  pol_fee :: "state_snapshot option"
  pol_pathway_limit :: "state_snapshot option"
  pol_evidence :: "state_snapshot option"
  pol_settlement :: "state_snapshot option"
  pol_asset_limit :: "state_snapshot option"
  pol_counterparty_limit :: "state_snapshot option"
  pol_executor_limit :: "state_snapshot option"

record settlement_token_accounts =
  sa_source :: token_account_snapshot
  sa_reserve :: token_account_snapshot
  sa_destination :: token_account_snapshot
  sa_fee_recipient :: token_account_snapshot

definition buildInstructionArguments ::
  "normalized_request \<Rightarrow> operation_identity \<Rightarrow> js_object \<Rightarrow> int \<Rightarrow> js_object res" where
  "buildInstructionArguments request identity pathwayValues minimumOutput =
     bindR (requireBytes (obj_get pathwayValues ''pathway_id'') 32) (\<lambda>pathwayId.
       if nr_mode request = Direct then
         Inr (if nr_action request = Mint
              then [(''pathway_id'', JBytes pathwayId), (''asset_amount'', JBig (id_input_amount identity)),
                    (''minimum_issued_token_amount'', JBig minimumOutput)]
              else [(''pathway_id'', JBytes pathwayId), (''issued_token_amount'', JBig (id_input_amount identity)),
                    (''minimum_asset_amount'', JBig minimumOutput)])
       else
         case id_intent_id identity of
           None \<Rightarrow> throw ''Non-direct settlement has no intent id''
         | Some intentId \<Rightarrow> Inr [(''intent_id'', JBytes intentId), (''pathway_id'', JBytes pathwayId)])"

definition requiredSnapshotAddress :: "state_snapshot \<Rightarrow> bool \<Rightarrow> string res" where
  "requiredSnapshotAddress snapshot allowUninitializedPda =
     (if \<not> cs_exists snapshot \<and> \<not> allowUninitializedPda then throw ''account does not exist''
      else Inr (cs_address snapshot))"

definition requiredTokenAddress :: "token_account_snapshot \<Rightarrow> string res" where
  "requiredTokenAddress snapshot =
     (if \<not> ts_exists snapshot then throw ''token account is unavailable'' else Inr (ts_address snapshot))"

fun limitByLabel :: "limit_dimension list \<Rightarrow> string \<Rightarrow> limit_dimension option" where
  "limitByLabel [] label = None"
| "limitByLabel (limit # limits) label = (if ld_label limit = label then Some limit else limitByLabel limits label)"

definition windowAddress :: "limit_dimension option \<Rightarrow> string \<Rightarrow> string option" where
  "windowAddress limit name =
     (case Option.bind limit (\<lambda>l. map_of (ld_windows l) name) of
        Some (Some snapshot) \<Rightarrow> if cs_exists snapshot then Some (cs_address snapshot) else None
      | _ \<Rightarrow> None)"

definition limit_policy_address :: "limit_dimension option \<Rightarrow> string option" where
  "limit_policy_address limit = map_option cs_address (Option.bind limit ld_policy)"

definition compactAccountInputs :: "(string \<times> string option) list \<Rightarrow> account_inputs" where
  "compactAccountInputs values =
     List.map_filter (\<lambda>(name, value). map_option (\<lambda>v. (name, Some (KeyText v))) value) values"

record account_build_input =
  ab_request :: normalized_request
  ab_identity :: operation_identity
  ab_core :: core_accounts
  ab_pathway :: state_snapshot
  ab_permissions :: "resolved_permission list"
  ab_policies :: settlement_policies
  ab_limits :: "limit_dimension list"
  ab_tokens :: settlement_token_accounts
  ab_issued_mint :: string
  ab_asset_program :: string
  ab_issued_program :: string
  ab_mint_authority :: string
  ab_reserve_authority :: string

definition on_mint :: "account_build_input \<Rightarrow> 'a \<Rightarrow> 'a option" where
  "on_mint input x = (if nr_action (ab_request input) = Mint then Some x else None)"

definition on_redeem :: "account_build_input \<Rightarrow> 'a \<Rightarrow> 'a option" where
  "on_redeem input x = (if nr_action (ab_request input) = Redeem then Some x else None)"

text \<open>The accounts every mode passes.\<close>

definition common_accounts :: "account_build_input \<Rightarrow> (string \<times> string option) list res" where
  "common_accounts input =
     (let limits = ab_limits input;
          mode = nr_mode (ab_request input);
          pathwayLimit = limitByLabel limits ''pathway'';
          assetLimit = limitByLabel limits ''asset'';
          counterpartyLimit = (if mode = Trilateral then None else limitByLabel limits ''counterparty'');
          executorLimit = (if mode = Direct then None else limitByLabel limits ''executor'');
          feeRecipient = sa_fee_recipient (ab_tokens input);
          policies = ab_policies input in
      bindR (requiredSnapshotAddress (ca_asset_config (ab_core input)) False) (\<lambda>assetConfig.
      bindR (requiredTokenAddress (sa_source (ab_tokens input))) (\<lambda>source.
      bindR (requiredTokenAddress (sa_reserve (ab_tokens input))) (\<lambda>reserve.
      bindR (requiredTokenAddress (sa_destination (ab_tokens input))) (\<lambda>destination.
      bindR (requiredSnapshotAddress (ca_asset_pause (ab_core input)) True) (\<lambda>assetPause.
        Inr [(''asset_config'', Some assetConfig),
             (''pathway_policy'', Some (cs_address (ab_pathway input))),
             (''source_asset_token_account'', on_mint input source),
             (''source_issued_token_account'', on_redeem input source),
             (''reserve_asset_token_account'', Some reserve),
             (''destination_issued_token_account'', on_mint input destination),
             (''destination_asset_token_account'', on_redeem input destination),
             (''asset_mint'', Some (nr_asset_mint (ab_request input))),
             (''issued_token_mint'', Some (ab_issued_mint input)),
             (''mint_authority_pda'', on_mint input (ab_mint_authority input)),
             (''reserve_authority_pda'', on_redeem input (ab_reserve_authority input)),
             (''asset_token_program'', Some (ab_asset_program input)),
             (''issued_token_program'', Some (ab_issued_program input)),
             (''asset_pause_state'', Some assetPause),
             (''fee_policy'', map_option cs_address (pol_fee policies)),
             (''fee_recipient_token_account'',
              if ts_exists feeRecipient then Some (ts_address feeRecipient) else None),
             (''limit_policy'', limit_policy_address pathwayLimit),
             (''hourly_usage_window'', windowAddress pathwayLimit ''hourly''),
             (''daily_usage_window'', windowAddress pathwayLimit ''daily''),
             (''weekly_usage_window'', windowAddress pathwayLimit ''weekly''),
             (''monthly_usage_window'', windowAddress pathwayLimit ''monthly''),
             (''evidence_policy'', map_option cs_address (pol_evidence policies)),
             (''asset_limit_policy'', limit_policy_address assetLimit),
             (''asset_daily_usage_window'', windowAddress assetLimit ''daily''),
             (''counterparty_limit_policy'', map_option cs_address (pol_counterparty_limit policies)),
             (''counterparty_daily_usage_window'', windowAddress counterpartyLimit ''daily''),
             (''executor_limit_policy'', map_option cs_address (pol_executor_limit policies)),
             (''executor_daily_usage_window'', windowAddress executorLimit ''daily'')]))))))"

text \<open>The accounts of the mode, added after them.\<close>

definition mode_accounts :: "account_build_input \<Rightarrow> resolved_permission \<Rightarrow> (string \<times> string option) list res" where
  "mode_accounts input directPermission =
     (let identity = ab_identity input;
          settlementPolicy = map_option cs_address (pol_settlement (ab_policies input)) in
      case nr_mode (ab_request input) of
        Direct \<Rightarrow>
          Inr [(''permission_record'', Some (rp_address directPermission)),
               (''principal'', Some (id_principal_a identity))]
      | Delegated \<Rightarrow>
          (case (ab_permissions input, id_intent identity) of
             (_ # executorPermission # _, Some intent) \<Rightarrow>
               Inr [(''intent'', Some (cs_address intent)),
                    (''principal_permission_record'', Some (rp_address directPermission)),
                    (''executor_permission_record'', Some (rp_address executorPermission)),
                    (''executor'', Some (id_executor identity)),
                    (''principal'', Some (id_principal_a identity)),
                    (''settlement_policy'', settlementPolicy),
                    (''rent_refund_recipient'', Some (id_rent_refund identity))]
           | _ \<Rightarrow> throw ''Delegated settlement permission or intent resolution is missing'')
      | Trilateral \<Rightarrow>
          (case (ab_permissions input, id_intent identity) of
             (_ # principalBPermission # executorPermission # _, Some intent) \<Rightarrow>
               Inr [(''intent'', Some (cs_address intent)),
                    (''principal_a_permission_record'', Some (rp_address directPermission)),
                    (''principal_b_permission_record'', Some (rp_address principalBPermission)),
                    (''executor_permission_record'', Some (rp_address executorPermission)),
                    (''executor'', Some (id_executor identity)),
                    (''principal_a'', Some (id_principal_a identity)),
                    (''principal_b'', Some (id_principal_b identity)),
                    (''settlement_policy'', settlementPolicy),
                    (''counterparty_a_daily_usage_window'',
                     windowAddress (limitByLabel (ab_limits input) ''counterparty_a'') ''daily''),
                    (''counterparty_b_daily_usage_window'',
                     windowAddress (limitByLabel (ab_limits input) ''counterparty_b'') ''daily''),
                    (''rent_refund_recipient'', Some (id_rent_refund identity))]
           | _ \<Rightarrow> throw ''Trilateral settlement permission or intent resolution is missing''))"

definition buildInstructionAccounts :: "account_build_input \<Rightarrow> account_inputs res" where
  "buildInstructionAccounts input =
     (case ab_permissions input of
        [] \<Rightarrow> throw ''Principal permission resolution is missing''
      | directPermission # _ \<Rightarrow>
          bindR (common_accounts input) (\<lambda>common.
          bindR (mode_accounts input directPermission) (\<lambda>byMode.
            Inr (compactAccountInputs (common @ byMode)))))"

section \<open>The inspection\<close>

record observation_context =
  oc_slot :: int
  oc_timestamp :: int
  oc_epoch :: int
  oc_commitment :: rpc_commitment
  oc_expires_after :: int
  oc_overridden :: bool

record settlement_amounts =
  amt_input :: int
  amt_gross_output :: int
  amt_minimum_output :: int
  amt_limit_notional :: int
  amt_source_balance :: "int option"
  amt_reserve_balance :: "int option"

record settlement_inspection =
  in_request :: normalized_request
  in_observation :: observation_context
  in_instruction_name :: string
  in_candidates :: "pathway_candidate list"
  in_pathway :: state_snapshot
  in_intent :: "state_snapshot option"
  in_core :: core_accounts
  in_policies :: settlement_policies
  in_permissions :: "resolved_permission list"
  in_limits :: "limit_dimension list"
  in_pdas :: "named_program_address list"
  in_asset_mint :: token_mint_snapshot
  in_issued_mint :: token_mint_snapshot
  in_tokens :: settlement_token_accounts
  in_reserve_destinations :: "state_snapshot list"
  in_fee_quote :: fee_quote
  in_effective_quote :: settlement_effective_quote
  in_policy_observation :: "settlement_policy_observation option"
  in_amounts :: settlement_amounts
  in_pauses :: pause_observation
  in_arguments :: js_object
  in_accounts :: account_inputs
  in_issues :: "string list"
  in_ready :: bool

abbreviation (input) "OBSERVATION_VALIDITY_SLOTS \<equiv> 64 :: int"

text \<open>The observed slot, epoch and time: the clock is read at or after the slot the server has reached.\<close>

definition observe_context ::
  "'w client \<Rightarrow> operation_request \<Rightarrow> ('w, normalized_request \<times> observation_context) rpc_io" where
  "observe_context c requestInput =
     bindP (getSlot (cc_fetch c) (cc_commitment c)) (\<lambda>initialContextSlot.
     bindP (setMinimumContextSlot (Some initialContextSlot)) (\<lambda>_.
     bindP (getClock (cc_fetch c) (cc_commitment c)) (\<lambda>clock.
     bindP (setMinimumContextSlot (Some (ck_slot clock))) (\<lambda>_.
     let timestamp = (case rq_now requestInput of Some t \<Rightarrow> t | None \<Rightarrow> ck_unix_timestamp clock) in
     bindP (liftP (normalizeRequest requestInput timestamp)) (\<lambda>request.
       returnP (request,
         \<lparr>oc_slot = ck_slot clock, oc_timestamp = timestamp, oc_epoch = ck_epoch clock,
          oc_commitment = cc_commitment c, oc_expires_after = ck_slot clock + OBSERVATION_VALIDITY_SLOTS,
          oc_overridden = (rq_now requestInput \<noteq> None)\<rparr>))))))"

text \<open>The six accounts of the program that every settlement reads, and the addresses derived for them.\<close>

definition load_core ::
  "'w client \<Rightarrow> normalized_request
   \<Rightarrow> ('w, core_accounts \<times> named_program_address \<times> named_program_address \<times> named_program_address list) rpc_io" where
  "load_core c request =
     (let H = cc_hash c; S = cc_schema c; mint = KeyText (nr_asset_mint request) in
      bindP (liftP (knownPdaAddress S ''module_activation_state'')) (\<lambda>moduleAddress.
      bindP (liftP (knownPdaAddress S ''chancery_config'')) (\<lambda>configAddress.
      bindP (liftP (knownPdaAddress S ''pause_state'')) (\<lambda>pauseAddress.
      bindP (liftP (knownPdaAddress S ''issued_token_control'')) (\<lambda>controlAddress.
      bindP (liftP (deriveAssetConfigAddress H S mint)) (\<lambda>assetConfigPda.
      bindP (liftP (deriveAssetPauseStateAddress H S mint)) (\<lambda>assetPausePda.
      bindP (liftP (deriveSingletonAddress H S ''mint_authority_pda'' ''mint-authority'')) (\<lambda>mintAuthorityPda.
      bindP (liftP (deriveSingletonAddress H S ''reserve_authority_pda'' ''reserve-authority'')) (\<lambda>reserveAuthorityPda.
      bindP (loadChanceryState c moduleAddress ''ModuleActivationState'' False) (\<lambda>moduleActivation.
      bindP (loadChanceryState c configAddress ''ChanceryConfig'' False) (\<lambda>config.
      bindP (loadChanceryState c pauseAddress ''PauseState'' False) (\<lambda>pauseState.
      bindP (loadChanceryState c (pda_address assetConfigPda) ''AssetConfig'' False) (\<lambda>assetConfig.
      bindP (loadChanceryState c (pda_address assetPausePda) ''AssetPauseState'' True) (\<lambda>assetPause.
      bindP (loadChanceryState c controlAddress ''IssuedTokenControl'' False) (\<lambda>issuedControl.
        returnP
          (\<lparr>ca_module_activation = moduleActivation, ca_config = config, ca_pause_state = pauseState,
            ca_asset_config = assetConfig, ca_asset_pause = assetPause, ca_issued_control = issuedControl\<rparr>,
           mintAuthorityPda, reserveAuthorityPda,
           [assetConfigPda, assetPausePda, mintAuthorityPda, reserveAuthorityPda]))))))))))))))))"

text \<open>The mints and programs the accounts bind, and whether they agree.\<close>

record settlement_bindings =
  sb_asset_values :: js_object
  sb_control_values :: js_object
  sb_issued_mint :: string
  sb_issued_program :: string
  sb_asset_program :: string
  sb_asset_snapshot :: token_mint_snapshot
  sb_issued_snapshot :: token_mint_snapshot

definition mint_issues :: "string \<Rightarrow> string \<Rightarrow> token_mint_snapshot \<Rightarrow> string list" where
  "mint_issues label address snapshot =
     (case ms_values snapshot of
        Some values \<Rightarrow>
          if \<not> ms_exists snapshot then [label @ '' mint '' @ address @ '' does not exist'']
          else issues_of [(\<not> tm_initialized values, label @ '' mint '' @ address @ '' is not initialized'')]
      | None \<Rightarrow> [label @ '' mint '' @ address @ '' does not exist''])"

definition load_bindings ::
  "'w client \<Rightarrow> normalized_request \<Rightarrow> core_accounts \<Rightarrow> string \<Rightarrow> ('w, settlement_bindings \<times> string list) rpc_io" where
  "load_bindings c request core mintAuthority =
     bindP (liftP (requireSnapshotValues (ca_config core))) (\<lambda>configValues.
     bindP (liftP (requireSnapshotValues (ca_asset_config core))) (\<lambda>assetValues.
     bindP (liftP (requireSnapshotValues (ca_issued_control core))) (\<lambda>controlValues.
     bindP (liftP (requirePublicKeyField configValues ''issued_token_mint'')) (\<lambda>issuedTokenMint.
     bindP (liftP (bindR (requirePublicKeyField configValues ''issued_token_program'')
              (\<lambda>k. assertSupportedTokenProgram (KeyText k)))) (\<lambda>issuedTokenProgram.
     bindP (liftP (bindR (requirePublicKeyField assetValues ''asset_token_program'')
              (\<lambda>k. assertSupportedTokenProgram (KeyText k)))) (\<lambda>assetTokenProgram.
     bindP (loadTokenMint c (nr_asset_mint request) assetTokenProgram) (\<lambda>assetMint.
     bindP (loadTokenMint c issuedTokenMint issuedTokenProgram) (\<lambda>issuedMint.
     bindP (liftP (requirePublicKeyField assetValues ''asset_mint'')) (\<lambda>configuredAssetMint.
     bindP (liftP (requirePublicKeyField controlValues ''issued_token_mint'')) (\<lambda>controlMint.
     bindP (liftP (requirePublicKeyField controlValues ''issued_token_program'')) (\<lambda>controlProgram.
     bindP (liftP (requirePublicKeyField configValues ''mint_authority_pda'')) (\<lambda>configuredAuthority.
       returnP
         (\<lparr>sb_asset_values = assetValues, sb_control_values = controlValues, sb_issued_mint = issuedTokenMint,
           sb_issued_program = issuedTokenProgram, sb_asset_program = assetTokenProgram, sb_asset_snapshot = assetMint,
           sb_issued_snapshot = issuedMint\<rparr>,
          mint_issues ''Asset'' (nr_asset_mint request) assetMint @
          mint_issues ''Issued-token'' issuedTokenMint issuedMint @
          issues_of
            [(configuredAssetMint \<noteq> nr_asset_mint request,
              ''AssetConfig asset mint does not match the requested asset mint''),
             (controlMint \<noteq> issuedTokenMint,
              ''IssuedTokenControl does not bind the ChanceryConfig issued token mint''),
             (controlProgram \<noteq> issuedTokenProgram,
              ''IssuedTokenControl does not bind the ChanceryConfig issued token program''),
             (configuredAuthority \<noteq> mintAuthority,
              ''ChanceryConfig mint authority does not match the canonical mint-authority PDA'')])))))))))))))"

text \<open>The pathway: the one matching candidate, loaded again and checked.\<close>

definition pathway_issues ::
  "'w client \<Rightarrow> normalized_request \<Rightarrow> operation_identity \<Rightarrow> js_object \<Rightarrow> string list res" where
  "pathway_issues c request identity pathwayValues =
     bindR (pathwayIsActive pathwayValues) (\<lambda>active.
     bindR (nonzero_bigint pathwayValues ''source_account_policy'') (\<lambda>sourcePolicy.
     bindR (nonzero_bigint pathwayValues ''destination_account_policy'') (\<lambda>destinationPolicy.
     bindR (requirePublicKeyField pathwayValues ''designated_executor'') (\<lambda>designatedExecutor.
       Inr (issues_of
         [(\<not> active, ''Selected pathway is not active''),
          (sourcePolicy, ''Selected pathway has a nonzero source-account policy unsupported by the settlement runtime''),
          (destinationPolicy,
           ''Selected pathway has a nonzero destination-account policy unsupported by the settlement runtime''),
          (nr_mode request \<noteq> Direct \<and> designatedExecutor \<noteq> ZERO_ADDRESS c \<and> designatedExecutor \<noteq> id_executor identity,
           ''Selected pathway designates a different executor'')])))))"

definition load_pathway ::
  "'w client \<Rightarrow> normalized_request \<Rightarrow> operation_identity \<Rightarrow> string
   \<Rightarrow> ('w, pathway_candidate list \<times> state_snapshot \<times> js_object \<times> named_program_address \<times> string list) rpc_io" where
  "load_pathway c request identity issuedTokenMint =
     bindP (discoverPathways c request (id_pathway_constraint identity) issuedTokenMint) (\<lambda>candidates.
     bindP (liftP (selectPathwayCandidate candidates)) (\<lambda>selected.
     bindP (loadChanceryState c (pc_address selected) ''PathwayPolicy'' False) (\<lambda>pathway.
     bindP (liftP (requireSnapshotValues pathway)) (\<lambda>pathwayValues.
     bindP (liftP (bindR (requireBytes (obj_get pathwayValues ''pathway_id'') 32)
              (\<lambda>pathwayId. derivePathwayPolicyAddress (cc_hash c) (cc_schema c) (KeyBytes pathwayId)))) (\<lambda>pda.
     bindP (liftP (pathway_issues c request identity pathwayValues)) (\<lambda>issues.
     bindP (liftP (validateIntentAgainstPathway request identity pathwayValues issuedTokenMint)) (\<lambda>intentIssues.
       returnP (candidates, pathway, pathwayValues, pda, issues @ intentIssues))))))))"

text \<open>The policies that the pathway names. The core gates run once the evidence policy is known.\<close>

record policy_set =
  ps_fee :: policy_resolution
  ps_pathway_limit :: policy_resolution
  ps_evidence :: policy_resolution
  ps_asset_limit :: policy_resolution
  ps_counterparty_limit :: policy_resolution
  ps_executor_limit :: policy_resolution

definition core_gates ::
  "normalized_request \<Rightarrow> int \<Rightarrow> core_accounts \<Rightarrow> settlement_bindings \<Rightarrow> js_object \<Rightarrow> policy_resolution
   \<Rightarrow> string list res" where
  "core_gates request currentSlot core bindings pathwayValues evidencePolicy =
     bindR (requireSnapshotValues (ca_module_activation core)) (\<lambda>moduleValues.
       validateCoreSettlementGates (nr_action request) currentSlot moduleValues (sb_asset_values bindings)
         (sb_control_values bindings) pathwayValues (policy_values evidencePolicy))"

definition load_policies ::
  "'w client \<Rightarrow> normalized_request \<Rightarrow> int \<Rightarrow> core_accounts \<Rightarrow> settlement_bindings \<Rightarrow> js_object
   \<Rightarrow> ('w, policy_set \<times> named_program_address list \<times> string list) rpc_io" where
  "load_policies c request currentSlot core bindings pathwayValues =
     (let limitPolicy = (\<lambda>field. resolvePolicyFromIdentifier c (obj_get pathwayValues field) ''LimitPolicy''
                            deriveLimitPolicyAddress) in
      bindP (resolvePolicyFromIdentifier c (obj_get pathwayValues ''fee_policy_id'') ''FeePolicy'' deriveFeePolicyAddress)
        (\<lambda>feePolicy.
      bindP (limitPolicy ''limit_policy_id'') (\<lambda>pathwayLimitPolicy.
      bindP (resolvePolicyFromIdentifier c (obj_get pathwayValues ''evidence_policy_id'') ''EvidencePolicy''
               deriveEvidencePolicyAddress) (\<lambda>evidencePolicy.
      bindP (liftP (core_gates request currentSlot core bindings pathwayValues evidencePolicy)) (\<lambda>gateIssues.
      bindP (limitPolicy (if nr_action request = Mint then ''asset_mint_limit_policy_id'' else ''asset_redeem_limit_policy_id''))
        (\<lambda>assetLimitPolicy.
      bindP (limitPolicy ''counterparty_limit_policy_id'') (\<lambda>counterpartyLimitPolicy.
      bindP (if nr_mode request = Direct then returnP NO_POLICY else limitPolicy ''executor_limit_policy_id'')
        (\<lambda>executorLimitPolicy.
        returnP
          (\<lparr>ps_fee = feePolicy, ps_pathway_limit = pathwayLimitPolicy, ps_evidence = evidencePolicy,
            ps_asset_limit = assetLimitPolicy, ps_counterparty_limit = counterpartyLimitPolicy,
            ps_executor_limit = executorLimitPolicy\<rparr>,
           concat (map pushed_pda [feePolicy, pathwayLimitPolicy, evidencePolicy, assetLimitPolicy,
                                   counterpartyLimitPolicy, executorLimitPolicy]),
           gateIssues)))))))))"

text \<open>The quote, the settlement policy and the amounts.\<close>

definition observe_settlement_policy ::
  "'w client \<Rightarrow> normalized_request \<Rightarrow> operation_identity \<Rightarrow> settlement_policy_observation option res" where
  "observe_settlement_policy c request identity =
     (case (policy_values (id_settlement_policy identity), pr_pda (id_settlement_policy identity)) of
        (Some values, Some pda) \<Rightarrow>
          bindR (observeSettlementPolicy (cc_hash c) (cc_schema c) values (nr_mode request)
                   (KeyText (nr_asset_mint request)) (KeyText (id_principal_a identity))
                   (KeyText (id_principal_b identity)) (KeyText (id_executor identity)) (id_input_amount identity)
                   (nr_now request) (KeyText (pda_address pda)) (int (pda_bump pda))) (\<lambda>ob. Inr (Some ob))
      | _ \<Rightarrow> Inr None)"

definition minimum_output_of :: "normalized_request \<Rightarrow> operation_identity \<Rightarrow> settlement_effective_quote \<Rightarrow> int" where
  "minimum_output_of request identity quote =
     (case nr_minimum_output request of
        Some m \<Rightarrow> m
      | None \<Rightarrow> (case id_minimum_output identity of Some m \<Rightarrow> m | None \<Rightarrow> eq_received quote))"

definition amount_gates ::
  "'w client \<Rightarrow> normalized_request \<Rightarrow> operation_identity \<Rightarrow> settlement_bindings \<Rightarrow> policy_set \<Rightarrow> int
   \<Rightarrow> (effective_quote_resolution \<times> settlement_policy_observation option \<times> string list) res" where
  "amount_gates c request identity bindings policies currentEpoch =
     bindR (computeSettlementEffectiveQuote (cc_schema c) (nr_action request) (id_input_amount identity)
              (sb_asset_values bindings) (ms_values (sb_asset_snapshot bindings)) (policy_values (ps_fee policies))
              (nr_now request) currentEpoch) (\<lambda>quote.
     bindR (observe_settlement_policy c request identity) (\<lambda>policyObservation.
     bindR (validateAmount (nr_action request) (id_input_amount identity)
              (minimum_output_of request identity (er_quote quote)) (sb_asset_values bindings)
              (eq_received (er_quote quote))) (\<lambda>amountIssues.
       Inr (quote, policyObservation,
            (case policyObservation of None \<Rightarrow> [] | Some ob \<Rightarrow> sp_observations ob) @ amountIssues @
            fq_observations (er_fee_quote quote)))))"

definition permission_issues :: "resolved_permission list \<Rightarrow> string list" where
  "permission_issues permissions = issues_of (map (\<lambda>permission.
     (\<not> (case rp_observation permission of Some ob \<Rightarrow> po_usable ob | None \<Rightarrow> False),
      rp_label permission @ '' is not usable'')) permissions)"

text \<open>The limit dimensions of the mode, in the order of the source.\<close>

definition resolve_limits ::
  "'w client \<Rightarrow> normalized_request \<Rightarrow> operation_identity \<Rightarrow> policy_set \<Rightarrow> int
   \<Rightarrow> ('w, (limit_dimension \<times> named_program_address list) list) rpc_io" where
  "resolve_limits c request identity policies limitNotional =
     (let action = nr_action request; mode = nr_mode request;
          daily = (\<lambda>label policy scope key required.
            resolveDailyLimitDimension c label policy scope key limitNotional action (nr_now request) required);
          counterparty = ps_counterparty_limit policies in
      bindP (resolvePathwayLimitDimension c (ps_pathway_limit policies) action limitNotional (nr_now request)) (\<lambda>pathway.
      bindP (daily ''asset'' (ps_asset_limit policies) SCOPE_ASSET (nr_asset_mint request) False) (\<lambda>asset.
      bindP (if mode = Trilateral then
               bindP (daily ''counterparty_a'' counterparty SCOPE_COUNTERPARTY (id_principal_a identity) False) (\<lambda>a.
               bindP (daily ''counterparty_b'' counterparty SCOPE_COUNTERPARTY (id_principal_b identity) False) (\<lambda>b.
                 returnP [a, b]))
             else
               bindP (daily ''counterparty'' counterparty SCOPE_COUNTERPARTY (id_principal_a identity) (mode = Delegated))
                 (\<lambda>x. returnP [x])) (\<lambda>counterparties.
      bindP (if mode \<noteq> Direct then
               bindP (daily ''executor'' (ps_executor_limit policies) SCOPE_EXECUTOR (id_executor identity) False)
                 (\<lambda>x. returnP [x])
             else returnP []) (\<lambda>executor.
        returnP ([pathway, asset] @ counterparties @ executor))))))"

text \<open>The token accounts of the two transfers, and what the reserve has to pay out.\<close>

definition required_reserve :: "settlement_action \<Rightarrow> effective_quote_resolution \<Rightarrow> int" where
  "required_reserve action quote =
     (if action = Redeem
      then eq_before_transfer (er_quote quote) +
           (if fq_routed (er_fee_quote quote) then fq_net_fee (er_fee_quote quote) else 0)
      else 0)"

definition resolve_tokens ::
  "'w client \<Rightarrow> normalized_request \<Rightarrow> operation_identity \<Rightarrow> settlement_bindings \<Rightarrow> named_program_address
   \<Rightarrow> effective_quote_resolution
   \<Rightarrow> ('w, settlement_token_accounts \<times> named_program_address \<times> string list) rpc_io" where
  "resolve_tokens c request identity bindings reserveAuthority quote =
     (let action = nr_action request;
          sourceMint = (if action = Mint then nr_asset_mint request else sb_issued_mint bindings);
          sourceProgram = (if action = Mint then sb_asset_program bindings else sb_issued_program bindings);
          destinationMint = (if action = Mint then sb_issued_mint bindings else nr_asset_mint request);
          destinationProgram = (if action = Mint then sb_issued_program bindings else sb_asset_program bindings);
          destinationOwner = (if nr_mode request = Trilateral then id_principal_b identity else id_principal_a identity);
          feeQuote = er_fee_quote quote in
      bindP (liftP (deriveAssociatedTokenAddress (cc_hash c) (KeyText (pda_address reserveAuthority))
               (KeyText (nr_asset_mint request)) (KeyText (sb_asset_program bindings)))) (\<lambda>reserveAddress.
      bindP (resolveTokenAccount c \<lparr>ti_owner = id_principal_a identity, ti_mint = sourceMint, ti_program = sourceProgram,
               ti_override = nr_source request, ti_allow_missing = True\<rparr>) (\<lambda>source.
      bindP (resolveTokenAccount c \<lparr>ti_owner = destinationOwner, ti_mint = destinationMint,
               ti_program = destinationProgram, ti_override = nr_destination request, ti_allow_missing = True\<rparr>)
        (\<lambda>destination.
      bindP (loadTokenAccountAtAddress c (pda_address reserveAddress) (pda_address reserveAuthority)
               (nr_asset_mint request) (sb_asset_program bindings) AssociatedTokenAccount True) (\<lambda>reserve.
      bindP (if fq_routed feeQuote
             then resolveTokenAccount c \<lparr>ti_owner = fq_recipient feeQuote, ti_mint = destinationMint,
                    ti_program = destinationProgram, ti_override = nr_fee_recipient request, ti_allow_missing = True\<rparr>
             else returnP (missing_token_account (ZERO_ADDRESS c) destinationProgram)) (\<lambda>feeRecipient.
        returnP
          (\<lparr>sa_source = source, sa_reserve = reserve, sa_destination = destination, sa_fee_recipient = feeRecipient\<rparr>,
           \<lparr>pda_address = pda_address reserveAddress, pda_bump = pda_bump reserveAddress,
            np_name = ''reserve_asset_token_account'',
            np_seeds = [pda_address reserveAuthority, sb_asset_program bindings, nr_asset_mint request]\<rparr>,
           validateTokenAccounts action (id_input_amount identity) (required_reserve action quote) source destination
             reserve feeRecipient (fq_routed feeQuote))))))))"

definition named_policies :: "operation_identity \<Rightarrow> policy_set \<Rightarrow> settlement_policies" where
  "named_policies identity policies =
     \<lparr>pol_fee = pr_snapshot (ps_fee policies), pol_pathway_limit = pr_snapshot (ps_pathway_limit policies),
      pol_evidence = pr_snapshot (ps_evidence policies),
      pol_settlement = pr_snapshot (id_settlement_policy identity),
      pol_asset_limit = pr_snapshot (ps_asset_limit policies),
      pol_counterparty_limit = pr_snapshot (ps_counterparty_limit policies),
      pol_executor_limit = pr_snapshot (ps_executor_limit policies)\<rparr>"

definition inspect :: "'w client \<Rightarrow> operation_request \<Rightarrow> ('w, settlement_inspection) rpc_io" where
  "inspect c requestInput =
     bindP (observe_context c requestInput) (\<lambda>(request, observation).
     bindP (load_core c request) (\<lambda>(core, mintAuthority, reserveAuthority, corePdas).
     bindP (load_bindings c request core (pda_address mintAuthority)) (\<lambda>(bindings, bindingIssues).
     bindP (resolveOperationIdentity c request) (\<lambda>(identity, identityPdas).
     bindP (load_pathway c request identity (sb_issued_mint bindings))
       (\<lambda>(candidates, pathway, pathwayValues, pathwayPda, pathwayIssues).
     bindP (load_policies c request (oc_slot observation) core bindings pathwayValues)
       (\<lambda>(policies, policyPdas, gateIssues).
     bindP (liftP (amount_gates c request identity bindings policies (oc_epoch observation)))
       (\<lambda>(quote, policyObservation, amountIssues).
     bindP (resolvePermissions c request identity (cs_address pathway)) (\<lambda>permissions.
     let limitNotional = (if nr_action request = Mint then id_input_amount identity else er_gross_output quote);
         minimumOutput = minimum_output_of request identity (er_quote quote);
         named = named_policies identity policies in
     bindP (resolve_limits c request identity policies limitNotional) (\<lambda>limits.
     bindP (resolve_tokens c request identity bindings reserveAuthority quote) (\<lambda>(tokens, reservePda, tokenIssues).
     bindP (discoverReserveDestinations c (nr_asset_mint request)) (\<lambda>reserveDestinations.
     bindP (liftP (observePauses (nr_action request) (oc_slot observation) (ca_pause_state core) (ca_asset_pause core)
              pathway)) (\<lambda>pauses.
     bindP (liftP (buildInstructionArguments request identity pathwayValues minimumOutput)) (\<lambda>arguments.
     bindP (liftP (buildInstructionAccounts
              \<lparr>ab_request = request, ab_identity = identity, ab_core = core, ab_pathway = pathway,
               ab_permissions = map fst permissions, ab_policies = named, ab_limits = map fst limits,
               ab_tokens = tokens, ab_issued_mint = sb_issued_mint bindings,
               ab_asset_program = sb_asset_program bindings, ab_issued_program = sb_issued_program bindings,
               ab_mint_authority = pda_address mintAuthority, ab_reserve_authority = pda_address reserveAuthority\<rparr>))
       (\<lambda>accounts.
     let issues = uniqueStrings (bindingIssues @ pathwayIssues @ gateIssues @ amountIssues @
           permission_issues (map fst permissions) @ validateLimits (map fst limits) @ tokenIssues @
           pause_issues (nr_action request) pauses) in
       returnP
         \<lparr>in_request = request, in_observation = observation,
          in_instruction_name = settlementInstructionName (nr_action request) (nr_mode request),
          in_candidates = candidates, in_pathway = pathway, in_intent = id_intent identity, in_core = core,
          in_policies = named, in_permissions = map fst permissions, in_limits = map fst limits,
          in_pdas = corePdas @ identityPdas @ [pathwayPda] @ policyPdas @ map snd permissions @
                    concat (map snd limits) @ [reservePda],
          in_asset_mint = sb_asset_snapshot bindings, in_issued_mint = sb_issued_snapshot bindings, in_tokens = tokens,
          in_reserve_destinations = reserveDestinations, in_fee_quote = er_fee_quote quote,
          in_effective_quote = er_quote quote, in_policy_observation = policyObservation,
          in_amounts = \<lparr>amt_input = id_input_amount identity, amt_gross_output = er_gross_output quote,
            amt_minimum_output = minimumOutput, amt_limit_notional = limitNotional,
            amt_source_balance = map_option ta_amount (ts_values (sa_source tokens)),
            amt_reserve_balance = map_option ta_amount (ts_values (sa_reserve tokens))\<rparr>,
          in_pauses = pauses, in_arguments = arguments, in_accounts = accounts, in_issues = issues,
          in_ready = (length issues = 0)\<rparr>))))))))))))))"

end
