(* ===== verification/SettlementSafety.thy ===== *)
theory SettlementSafety
  imports SettlementInspect
begin

text \<open>
  What an inspection that \<open>SettlementInspect\<close> returned means, in terms of the accounts it read. Each phase of
  \<open>inspect\<close> appends its issues; the lemmas of the first section say what holds when a phase found none. Then
  \<open>inspect_parts\<close> takes a returned inspection apart into its phases, \<open>settlement_clear\<close> collects what a ready
  inspection stands for, and \<open>inspection_resolved\<close> what any returned inspection stands for.
\<close>

section \<open>What the phases establish\<close>

lemma issues_of_Nil: "issues_of conditions = [] \<longleftrightarrow> list_all (\<lambda>(b, _). \<not> b) conditions"
  by (auto simp: issues_of_def filter_empty_conv list_all_iff)

lemma uniqueStrings_Nil: "uniqueStrings xs = [] \<longleftrightarrow> xs = []"
proof -
  have "set (foldl (\<lambda>unique text. if text \<in> set unique then unique else unique @ [text]) us xs) = set us \<union> set xs" for us
    by (induction xs arbitrary: us) auto
  then have "set (uniqueStrings xs) = set xs" by (simp add: uniqueStrings_def)
  then show ?thesis using set_empty [of "uniqueStrings xs"] set_empty [of xs] by simp
qed

lemma map_filter_id: "x \<in> set (List.map_filter id xs) \<longleftrightarrow> Some x \<in> set xs"
  by (force simp: List.map_filter_def)

text \<open>A snapshot that exists was decoded from an account of the program at that address.\<close>

definition genuine_snapshot :: "'w client \<Rightarrow> string \<Rightarrow> string \<Rightarrow> state_snapshot \<Rightarrow> bool" where
  "genuine_snapshot c address typeName s \<longleftrightarrow>
     cs_address s = address \<and> cs_expected s = typeName \<and>
     (cs_exists s \<longrightarrow> cs_owner s = Some (CHANCERY_PROGRAM_ADDRESS c) \<and>
        (\<exists>data decoded. decodeChanceryAccount (cc_schema c) data = Inr decoded \<and>
           decoded_account_name decoded = typeName \<and> cs_values s = Some (decoded_account_values decoded) \<and>
           cs_data_length s = length data)) \<and>
     (\<not> cs_exists s \<longrightarrow> cs_values s = None)"

lemma missing_genuine: "genuine_snapshot c address typeName (missing_snapshot address typeName owner lamports)"
  by (simp add: genuine_snapshot_def missing_snapshot_def)

lemma decoded_genuine:
  assumes "ra_owner info = CHANCERY_PROGRAM_ADDRESS c" "decodeChanceryAccount (cc_schema c) (ra_data info) = Inr decoded"
    and "decoded_account_name decoded = typeName"
  shows "genuine_snapshot c address typeName (snapshotFromDecoded address info typeName (decoded_account_values decoded))"
  unfolding genuine_snapshot_def snapshotFromDecoded_def
  using assms by (simp, intro exI [of _ "ra_data info"]) simp

lemma state_of_account_genuine:
  assumes "state_of_account c address typeName allowMissing account = Inr s"
  shows "genuine_snapshot c address typeName s \<and> (\<not> allowMissing \<longrightarrow> cs_exists s)"
proof (cases account)
  case None
  with assms missing_genuine show ?thesis by (auto simp: state_of_account_def split: if_splits)
next
  case (Some info)
  show ?thesis
  proof (cases "ra_owner info = CHANCERY_PROGRAM_ADDRESS c")
    case True
    then obtain decoded where d: "decodeChanceryAccount (cc_schema c) (ra_data info) = Inr decoded"
      "decoded_account_name decoded = typeName"
      "s = snapshotFromDecoded address info typeName (decoded_account_values decoded)"
      using assms Some by (auto simp: state_of_account_def split: if_splits)
    with decoded_genuine [OF True d(1,2)] show ?thesis by (simp add: snapshotFromDecoded_def)
  next
    case False
    with assms Some missing_genuine show ?thesis by (auto simp: state_of_account_def split: if_splits)
  qed
qed

lemma loadChanceryState_genuine:
  assumes "loadChanceryState c address typeName allowMissing st = Inr (s, st')"
  shows "genuine_snapshot c address typeName s \<and> (\<not> allowMissing \<longrightarrow> cs_exists s) \<and> is_key address"
proof -
  obtain account where "key_of address = Inr address" "is_key address"
    "state_of_account c address typeName allowMissing account = Inr s"
    using assms unfolding loadChanceryState_def parser_Inr liftP_Inr key_of_def normalizePublicKey_text by auto
  with state_of_account_genuine show ?thesis by blast
qed

text \<open>A token account that exists belongs to the owner and the mint asked for.\<close>


definition genuine_token :: "string \<Rightarrow> string \<Rightarrow> string \<Rightarrow> token_account_snapshot \<Rightarrow> bool" where
  "genuine_token owner mint program t \<longleftrightarrow>
     (ts_exists t \<longrightarrow> ts_program t = program \<and>
        (\<exists>v. ts_values t = Some v \<and> ta_owner v = owner \<and> ta_mint v = mint \<and> ta_state v = 1)) \<and>
     (\<not> ts_exists t \<longrightarrow> ts_values t = None)"

lemma missing_token_genuine: "genuine_token owner mint program (missing_token_account address program)"
  by (simp add: genuine_token_def missing_token_account_def)

lemma bound_token_genuine:
  "bound_token_account address owner mint program selection data = Inr t \<Longrightarrow> genuine_token owner mint program t"
  by (auto simp: bound_token_account_def genuine_token_def assertTokenAccountBinding_def split: if_splits)

lemma loadTokenAccount_genuine:
  assumes "loadTokenAccountAtAddress c address owner mint program selection allowMissing st = Inr (t, st')"
  shows "genuine_token owner mint program t"
  using assms bound_token_genuine missing_token_genuine unfolding loadTokenAccountAtAddress_def bindP_Inr liftP_Inr
  by (elim exE conjE) (auto simp: parser_Inr liftP_Inr split: option.splits if_splits)

lemma unique_match_genuine:
  assumes "unique_match input derived ownerAccounts = Inr t"
  shows "genuine_token (ti_owner input) (ti_mint input) (ti_program input) t"
proof (cases "List.map_filter (owner_match input) ownerAccounts")
  case Nil
  with assms missing_token_genuine show ?thesis by (auto simp: unique_match_def split: if_splits)
next
  case (Cons m ms)
  with assms have t: "t = m" "ms = []" by (auto simp: unique_match_def split: list.splits)
  have "m \<in> set (List.map_filter (owner_match input) ownerAccounts)" using Cons by simp
  then obtain a where "owner_match input a = Some m" by (auto simp: List.map_filter_def)
  then show ?thesis
    using bound_token_genuine t by (auto simp: owner_match_def split: if_splits sum.splits)
qed

lemma resolveTokenAccount_genuine:
  assumes "resolveTokenAccount c input st = Inr (t, st')"
  shows "genuine_token (ti_owner input) (ti_mint input) (ti_program input) t"
proof (cases "ti_override input")
  case None
  then obtain a associated s1 s2 where s: "loadTokenAccountAtAddress c a (ti_owner input) (ti_mint input) (ti_program input)
      AssociatedTokenAccount True s1 = Inr (associated, s2)"
    "t = associated \<or> (\<exists>ownerAccounts. unique_match input a ownerAccounts = Inr t)"
    using assms unfolding resolveTokenAccount_def None option.case bindP_Inr liftP_Inr
    apply (elim exE conjE)
    apply (rule that, simp)
    apply (auto simp: parser_Inr liftP_Inr split: if_splits)
    done
  from s(2) show ?thesis
  proof
    assume "t = associated" then show ?thesis using loadTokenAccount_genuine [OF s(1)] by simp
  qed (use unique_match_genuine in blast)
next
  case (Some address)
  with assms have "loadTokenAccountAtAddress c address (ti_owner input) (ti_mint input) (ti_program input) Override
      (ti_allow_missing input) st = Inr (t, st')" by (simp add: resolveTokenAccount_def)
  then show ?thesis by (rule loadTokenAccount_genuine)
qed

text \<open>No issue about token accounts: the source can pay the input and the reserve can pay what leaves it.\<close>

definition funded :: "settlement_action \<Rightarrow> int \<Rightarrow> effective_quote_resolution \<Rightarrow> settlement_token_accounts \<Rightarrow> bool" where
  "funded action inputAmount quote tokens \<longleftrightarrow>
     (\<exists>v. ts_exists (sa_source tokens) \<and> ts_values (sa_source tokens) = Some v \<and> inputAmount \<le> ta_amount v) \<and>
     ts_exists (sa_destination tokens) \<and>
     (\<exists>v. ts_exists (sa_reserve tokens) \<and> ts_values (sa_reserve tokens) = Some v \<and>
        (action = Redeem \<longrightarrow> required_reserve action quote \<le> ta_amount v)) \<and>
     (fq_routed (er_fee_quote quote) \<longrightarrow> ts_exists (sa_fee_recipient tokens))"

definition token_parties ::
  "normalized_request \<Rightarrow> operation_identity \<Rightarrow> settlement_bindings \<Rightarrow> string \<Rightarrow> effective_quote_resolution
   \<Rightarrow> settlement_token_accounts \<Rightarrow> bool" where
  "token_parties request identity bindings reserveAuthority quote tokens \<longleftrightarrow>
     (let asset = (nr_asset_mint request, sb_asset_program bindings);
          issued = (sb_issued_mint bindings, sb_issued_program bindings);
          paid = (if nr_action request = Mint then asset else issued);
          received = (if nr_action request = Mint then issued else asset) in
      genuine_token (id_principal_a identity) (fst paid) (snd paid) (sa_source tokens) \<and>
      genuine_token (if nr_mode request = Trilateral then id_principal_b identity else id_principal_a identity)
        (fst received) (snd received) (sa_destination tokens) \<and>
      genuine_token reserveAuthority (fst asset) (snd asset) (sa_reserve tokens) \<and>
      (fq_routed (er_fee_quote quote) \<longrightarrow>
        genuine_token (fq_recipient (er_fee_quote quote)) (fst received) (snd received) (sa_fee_recipient tokens)))"

lemma validateTokenAccounts_Nil:
  "validateTokenAccounts action amount (required_reserve action quote) (sa_source tokens) (sa_destination tokens)
     (sa_reserve tokens) (sa_fee_recipient tokens) (fq_routed (er_fee_quote quote)) = [] \<longleftrightarrow> funded action amount quote tokens"
  by (auto simp: validateTokenAccounts_def funded_def issues_of_Nil split: option.splits if_splits)

lemma resolve_tokens_ok:
  assumes "resolve_tokens c request identity bindings reserveAuthority quote st = Inr ((tokens, pda, issues), st')"
  shows "token_parties request identity bindings (pda_address reserveAuthority) quote tokens \<and>
    (issues = [] \<longleftrightarrow> funded (nr_action request) (id_input_amount identity) quote tokens)"
proof -
  define input where "input = (\<lambda>owner program mint (override :: string option).
     \<lparr>ti_owner = owner, ti_mint = mint, ti_program = program, ti_override = override, ti_allow_missing = True\<rparr>)"
  define action where "action = nr_action request"
  obtain s1 s2 s3 s4 s5 a where loads:
    "resolveTokenAccount c \<lparr>ti_owner = id_principal_a identity,
       ti_mint = (if action = Mint then nr_asset_mint request else sb_issued_mint bindings),
       ti_program = (if action = Mint then sb_asset_program bindings else sb_issued_program bindings),
       ti_override = nr_source request, ti_allow_missing = True\<rparr> s1 = Inr (sa_source tokens, s2)"
    "resolveTokenAccount c \<lparr>ti_owner = (if nr_mode request = Trilateral then id_principal_b identity else id_principal_a identity),
       ti_mint = (if action = Mint then sb_issued_mint bindings else nr_asset_mint request),
       ti_program = (if action = Mint then sb_issued_program bindings else sb_asset_program bindings),
       ti_override = nr_destination request, ti_allow_missing = True\<rparr> s2 = Inr (sa_destination tokens, s3)"
    "loadTokenAccountAtAddress c a (pda_address reserveAuthority) (nr_asset_mint request) (sb_asset_program bindings)
       AssociatedTokenAccount True s3 = Inr (sa_reserve tokens, s4)"
    "(if fq_routed (er_fee_quote quote)
      then resolveTokenAccount c \<lparr>ti_owner = fq_recipient (er_fee_quote quote),
             ti_mint = (if action = Mint then sb_issued_mint bindings else nr_asset_mint request),
             ti_program = (if action = Mint then sb_issued_program bindings else sb_asset_program bindings),
             ti_override = nr_fee_recipient request, ti_allow_missing = True\<rparr>
      else returnP (missing_token_account (ZERO_ADDRESS c)
             (if action = Mint then sb_issued_program bindings else sb_asset_program bindings))) s4 = Inr (sa_fee_recipient tokens, s5)"
    "issues = validateTokenAccounts action (id_input_amount identity) (required_reserve action quote)
       (sa_source tokens) (sa_destination tokens) (sa_reserve tokens) (sa_fee_recipient tokens) (fq_routed (er_fee_quote quote))"
    using assms unfolding resolve_tokens_def Let_def action_def [symmetric] bindP_Inr liftP_Inr returnP_Inr prod.inject
    apply (elim exE conjE)
    apply (rule that)
    apply (simp_all only: settlement_token_accounts.select_convs)
    done
  note genuine = resolveTokenAccount_genuine [OF loads(1), simplified] resolveTokenAccount_genuine [OF loads(2), simplified]
    loadTokenAccount_genuine [OF loads(3)]
  have recipient: "fq_routed (er_fee_quote quote) \<longrightarrow> genuine_token (fq_recipient (er_fee_quote quote))
      (if action = Mint then sb_issued_mint bindings else nr_asset_mint request)
      (if action = Mint then sb_issued_program bindings else sb_asset_program bindings) (sa_fee_recipient tokens)"
    using loads(4) resolveTokenAccount_genuine by (auto dest!: resolveTokenAccount_genuine split: if_split_asm)
  show ?thesis
    using genuine recipient validateTokenAccounts_Nil loads(5)
    by (cases "nr_action request = Mint"; cases "nr_mode request = Trilateral"; simp add: token_parties_def Let_def action_def)
qed

lemma list_all2_mono_mem:
  "list_all2 P xs ys \<Longrightarrow> (\<And>y. y \<in> set ys \<Longrightarrow> Q y) \<Longrightarrow> (\<And>x y. P x y \<Longrightarrow> y \<in> set ys \<Longrightarrow> Q y \<Longrightarrow> R x y) \<Longrightarrow> list_all2 R xs ys"
  by (auto simp: list_all2_conv_all_nth)

text \<open>No issue about permissions: every party holds the role its part needs, at the pathway.\<close>

definition permission_granted :: "normalized_request \<Rightarrow> string \<Rightarrow> permission_definition \<Rightarrow> resolved_permission \<Rightarrow> bool" where
  "permission_granted request pathway dfn p \<longleftrightarrow>
     rp_label p = pd_label dfn \<and> rp_role p = pd_role dfn \<and>
     (\<exists>vs ob. cs_values (rp_snapshot p) = Some vs \<and> rp_observation p = Some ob \<and>
        permissionObservation vs (pd_role dfn) (KeyText (pd_subject dfn)) SCOPE_PATHWAY (KeyText pathway) (nr_now request) = Inr ob \<and>
        po_usable ob)"

lemma resolve_permission_ok:
  assumes "resolve_permission c request pathway dfn st = Inr ((p, pda), st')"
    and "\<exists>ob. rp_observation p = Some ob \<and> po_usable ob"
  shows "permission_granted request pathway dfn p"
  using assms unfolding resolve_permission_def
  by (auto simp: parser_Inr liftP_Inr permission_granted_def observe_permission_def optionalR_def split: option.splits)

lemma permission_issues_Nil:
  "permission_issues permissions = [] \<longleftrightarrow> (\<forall>p \<in> set permissions. \<exists>ob. rp_observation p = Some ob \<and> po_usable ob)"
  by (fastforce simp: permission_issues_def issues_of_Nil list_all_iff split: option.splits)

lemma resolvePermissions_ok:
  assumes "resolvePermissions c request identity pathway st = Inr (permissions, st')"
    and "permission_issues (map fst permissions) = []"
  shows "list_all2 (permission_granted request pathway) (permission_definitions request identity) (map fst permissions)"
proof -
  have loaded: "list_all2 (\<lambda>dfn r. \<exists>s t. resolve_permission c request pathway dfn s = Inr (r, t))
      (permission_definitions request identity) permissions"
    using assms(1) unfolding resolvePermissions_def by (rule eachP_Inr)
  have usable: "\<exists>ob. rp_observation (fst r) = Some ob \<and> po_usable ob" if "r \<in> set permissions" for r
    using assms(2) that by (simp add: permission_issues_Nil)
  show ?thesis
    unfolding list_all2_map2
  proof (rule list_all2_mono_mem [OF loaded usable])
    fix dfn r
    assume "\<exists>s t. resolve_permission c request pathway dfn s = Inr (r, t)"
      and ok: "\<exists>ob. rp_observation (fst r) = Some ob \<and> po_usable ob"
    then obtain s t where "resolve_permission c request pathway dfn s = Inr ((fst r, snd r), t)" by auto
    then show "permission_granted request pathway dfn (fst r)" by (rule resolve_permission_ok) (rule ok)
  qed
qed

text \<open>No issue about limits: the amount fits under every maximum of every dimension.\<close>

definition within_limits :: "int \<Rightarrow> limit_dimension \<Rightarrow> bool" where
  "within_limits notional limit \<longleftrightarrow>
     ld_issues limit = [] \<and>
     (\<forall>ob. ld_observation limit = Some ob \<longrightarrow>
        (lo_transaction_maximum ob = 0 \<or> notional \<le> lo_transaction_maximum ob) \<and>
        (\<forall>w \<in> set (lo_windows ob). \<not> lw_clock_regression w \<and>
           (lw_maximum w = 0 \<or> lw_current w + notional \<le> lw_maximum w) \<and>
           (lw_maximum_actions w = 0 \<or> lw_current_actions w < lw_maximum_actions w) \<and>
           (lw_maximum w \<noteq> 0 \<or> lw_maximum_actions w \<noteq> 0 \<longrightarrow>
             (\<exists>s. map_of (ld_windows limit) (lw_name w) = Some (Some s) \<and> cs_exists s))))"

definition limit_observed :: "int \<Rightarrow> int \<Rightarrow> limit_dimension \<Rightarrow> bool" where
  "limit_observed notional now limit \<longleftrightarrow>
     (\<forall>ob. ld_observation limit = Some ob \<longrightarrow>
        (\<exists>policy action windows. observeLimitPolicy policy action notional windows now = Inr ob))"

lemma window_issues_Nil:
  "window_issues limit w = [] \<Longrightarrow> window_ok notional now w \<Longrightarrow>
   \<not> lw_clock_regression w \<and> (lw_maximum w = 0 \<or> lw_current w + notional \<le> lw_maximum w) \<and>
   (lw_maximum_actions w = 0 \<or> lw_current_actions w < lw_maximum_actions w) \<and>
   (lw_maximum w \<noteq> 0 \<or> lw_maximum_actions w \<noteq> 0 \<longrightarrow>
     (\<exists>s. map_of (ld_windows limit) (lw_name w) = Some (Some s) \<and> cs_exists s))"
  unfolding window_issues_def window_ok_def Let_def issues_of_def
  by (auto split: option.splits if_splits)

lemma limit_issues_Nil:
  assumes "limit_issues limit = []" "limit_observed notional now limit"
  shows "within_limits notional limit"
proof -
  have "ld_issues limit = []" using assms(1) by (simp add: limit_issues_def)
  moreover have "(lo_transaction_maximum ob = 0 \<or> notional \<le> lo_transaction_maximum ob) \<and>
      (\<forall>w \<in> set (lo_windows ob). window_issues limit w = [] \<and> window_ok notional now w)"
    if ob: "ld_observation limit = Some ob" for ob
  proof -
    obtain policy action windows where "observeLimitPolicy policy action notional windows now = Inr ob"
      using assms(2) ob by (auto simp: limit_observed_def)
    from observeLimitPolicy_windows [OF this] assms(1) ob show ?thesis
      by (auto simp: limit_issues_def issues_of_def list_all_iff split: if_splits)
  qed
  ultimately show ?thesis unfolding within_limits_def using window_issues_Nil by blast
qed

lemma resolveDaily_observed:
  assumes "resolveDailyLimitDimension c label policy scopeKind key notional action now required st = Inr ((limit, pdas), st')"
  shows "limit_observed notional now limit \<and> ld_label limit = label"
  using assms unfolding resolveDailyLimitDimension_def
  by (auto simp: parser_Inr liftP_Inr emptyLimitDimension_def limit_observed_def split: option.splits) blast

lemma resolvePathway_observed:
  assumes "resolvePathwayLimitDimension c policy action notional now st = Inr ((limit, pdas), st')"
  shows "limit_observed notional now limit \<and> ld_label limit = ''pathway''"
  using assms unfolding resolvePathwayLimitDimension_def
  by (auto simp: parser_Inr liftP_Inr emptyLimitDimension_def limit_observed_def split: option.splits prod.splits) blast

definition limit_labels :: "settlement_mode \<Rightarrow> string list" where
  "limit_labels mode = [''pathway'', ''asset''] @
     (if mode = Trilateral then [''counterparty_a'', ''counterparty_b''] else [''counterparty'']) @
     (if mode \<noteq> Direct then [''executor''] else [])"

lemma resolve_limits_ok:
  assumes "resolve_limits c request identity policies notional st = Inr (limits, st')"
  shows "map (ld_label \<circ> fst) limits = limit_labels (nr_mode request) \<and>
    (\<forall>l \<in> set limits. limit_observed notional (nr_now request) (fst l))"
  using assms unfolding resolve_limits_def Let_def limit_labels_def
  by (cases "nr_mode request") (auto simp: parser_Inr dest!: resolveDaily_observed resolvePathway_observed)

lemma validateLimits_Nil:
  assumes "resolve_limits c request identity policies notional st = Inr (limits, st')" "validateLimits (map fst limits) = []"
  shows "map ld_label (map fst limits) = limit_labels (nr_mode request) \<and> (\<forall>l \<in> set (map fst limits). within_limits notional l)"
  using resolve_limits_ok [OF assms(1)] assms(2) limit_issues_Nil [where now = "nr_now request"] by (auto simp: validateLimits_def)

text \<open>No issue about amounts: the input is in range and the principal receives at least the minimum output.\<close>

definition amounts_clear ::
  "normalized_request \<Rightarrow> operation_identity \<Rightarrow> js_object \<Rightarrow> effective_quote_resolution
   \<Rightarrow> settlement_policy_observation option \<Rightarrow> bool" where
  "amounts_clear request identity assetValues quote policyObservation \<longleftrightarrow>
     fq_observations (er_fee_quote quote) = [] \<and>
     (\<forall>ob. policyObservation = Some ob \<longrightarrow> sp_usable ob) \<and>
     minimum_output_of request identity (er_quote quote) \<le> eq_received (er_quote quote) \<and>
     (\<exists>low high.
        requireBigIntField assetValues (if nr_action request = Mint then ''minimum_deposit_amount'' else ''minimum_redeem_amount'') = Inr low \<and>
        requireBigIntField assetValues ''maximum_single_settlement_amount'' = Inr high \<and>
        low \<le> id_input_amount identity \<and> (high = 0 \<or> id_input_amount identity \<le> high))"

lemma observe_settlement_policy_usable:
  "observe_settlement_policy c request identity = Inr (Some ob) \<Longrightarrow> sp_usable ob \<longleftrightarrow> sp_observations ob = []"
  by (auto simp: observe_settlement_policy_def observeSettlementPolicy_usable split: option.splits)

lemma amount_gates_ok:
  assumes "amount_gates c request identity bindings policies epoch = Inr (quote, policyObservation, [])"
  shows "amounts_clear request identity (sb_asset_values bindings) quote policyObservation \<and>
    computeSettlementEffectiveQuote (cc_schema c) (nr_action request) (id_input_amount identity) (sb_asset_values bindings)
      (ms_values (sb_asset_snapshot bindings)) (policy_values (ps_fee policies)) (nr_now request) epoch = Inr quote"
  using assms observe_settlement_policy_usable [of c request identity]
  by (auto simp: amount_gates_def amounts_clear_def validateAmount_def issues_of_Nil split: option.splits)

text \<open>No issue of the core gates.\<close>

definition fresh :: "int \<Rightarrow> int \<Rightarrow> int \<Rightarrow> bool" where
  "fresh observedAt maximumAge slot \<longleftrightarrow> observedAt \<le> slot \<and> (maximumAge = 0 \<or> slot - observedAt \<le> maximumAge)"

lemma validateExtensionFreshness_Nil:
  "validateExtensionFreshness label observedAt maximumAge slot = [] \<longleftrightarrow> fresh observedAt maximumAge slot"
  by (auto simp: validateExtensionFreshness_def fresh_def)

lemma first_issue_Nil: "first_issue f xs = [] \<longleftrightarrow> (\<forall>x \<in> set xs. f x = None)"
  by (induction xs) (auto split: option.splits)

definition collateral_clear :: "js_object \<Rightarrow> js_object \<Rightarrow> bool" where
  "collateral_clear assetValues pathwayValues \<longleftrightarrow>
     (\<exists>o0 o1 a0 a1 f0 f1 p0 p1. requireBigIntArrayField assetValues ''observed_extension_mask'' 2 = Inr [o0, o1] \<and>
        requireBigIntArrayField assetValues ''approved_extension_mask'' 2 = Inr [a0, a1] \<and>
        requireBigIntArrayField assetValues ''forbidden_extension_mask'' 2 = Inr [f0, f1] \<and>
        requireBigIntArrayField pathwayValues ''forbidden_collateral_extension_mask'' 2 = Inr [p0, p1] \<and>
        (\<forall>k. bit o0 k \<longrightarrow> bit a0 k \<and> \<not> bit f0 k \<and> \<not> bit p0 k \<and> k \<noteq> 0) \<and>
        (\<forall>k. bit o1 k \<longrightarrow> bit a1 k \<and> \<not> bit f1 k \<and> \<not> bit p1 k))"

definition issued_clear :: "int \<Rightarrow> js_object \<Rightarrow> js_object \<Rightarrow> bool" where
  "issued_clear slot controlValues pathwayValues \<longleftrightarrow>
     (\<exists>flags observedAt age i0 i1 n0 n1. requireBigIntField controlValues ''control_flags'' = Inr flags \<and> bit flags 63 \<and>
        requireBigIntField controlValues ''extension_observed_at_slot'' = Inr observedAt \<and>
        requireBigIntField controlValues ''max_extension_observation_age_slots'' = Inr age \<and> fresh observedAt age slot \<and>
        requireBigIntArrayField controlValues ''active_mint_extension_mask'' 2 = Inr [i0, i1] \<and>
        requireBigIntArrayField pathwayValues ''forbidden_issued_token_extension_mask'' 2 = Inr [n0, n1] \<and>
        (\<forall>k. \<not> (bit i0 k \<and> bit n0 k)) \<and> (\<forall>k. \<not> (bit i1 k \<and> bit n1 k)))"

definition gates_clear :: "settlement_action \<Rightarrow> int \<Rightarrow> js_object \<Rightarrow> js_object \<Rightarrow> js_object \<Rightarrow> js_object \<Rightarrow> bool" where
  "gates_clear action slot moduleValues assetValues controlValues pathwayValues \<longleftrightarrow>
     (\<exists>statuses mode observedAt age.
        requireBytes (obj_get moduleValues ''module_statuses'') 32 = Inr statuses \<and> statuses ! 4 = 2 \<and>
        requireNumberField assetValues ''mode'' = Inr mode \<and> (mode = 0 \<or> action = Redeem \<and> mode = 1) \<and>
        requireBigIntField assetValues ''extension_observed_at_slot'' = Inr observedAt \<and>
        requireBigIntField assetValues ''max_extension_observation_age_slots'' = Inr age \<and> fresh observedAt age slot) \<and>
     collateral_clear assetValues pathwayValues \<and> issued_clear slot controlValues pathwayValues"

lemma masks_disjoint: "and (x :: int) y = 0 \<longleftrightarrow> (\<forall>k. \<not> (bit x k \<and> bit y k))"
  by (simp add: bit_eq_iff bit_and_iff)

lemma collateral_issue_None:
  "collateral_issue (o0, a0, f0, p0) = None \<longleftrightarrow> (\<forall>k. bit o0 k \<longrightarrow> bit a0 k \<and> \<not> bit f0 k \<and> \<not> bit p0 k)"
  unfolding collateral_issue_def by (auto simp: masks_disjoint bit_not_iff split: if_splits)

lemma two_words: "requireBigIntArrayField vs field 2 = Inr xs \<Longrightarrow> \<exists>a b. xs = [a, b]"
  by (auto simp: requireBigIntArrayField_def mapR_eq_Inr_iff length_Suc_conv list_all2_Cons1 numeral_2_eq_2
      split: js.splits if_splits)

lemma collateral_issues_Nil:
  assumes "collateral_issues assetValues pathwayValues = Inr []"
  shows "collateral_clear assetValues pathwayValues"
proof -
  obtain observed approved forbidden pathwayForbidden where r:
    "requireBigIntArrayField assetValues ''observed_extension_mask'' 2 = Inr observed"
    "requireBigIntArrayField assetValues ''approved_extension_mask'' 2 = Inr approved"
    "requireBigIntArrayField assetValues ''forbidden_extension_mask'' 2 = Inr forbidden"
    "requireBigIntArrayField pathwayValues ''forbidden_collateral_extension_mask'' 2 = Inr pathwayForbidden"
    "first_issue collateral_issue
         [(observed ! 0, approved ! 0, or (forbidden ! 0) COLLATERAL_TRANSFER_HOOK_EXTENSION, pathwayForbidden ! 0),
          (observed ! 1, approved ! 1, or (forbidden ! 1) 0, pathwayForbidden ! 1)] = []"
    using assms unfolding collateral_issues_def by auto
  obtain o0 o1 a0 a1 f0 f1 p0 p1 where w: "observed = [o0, o1]" "approved = [a0, a1]" "forbidden = [f0, f1]"
      "pathwayForbidden = [p0, p1]"
    using r(1-4) [THEN two_words] by blast
  have "(\<forall>k. bit o0 k \<longrightarrow> bit a0 k \<and> \<not> bit f0 k \<and> \<not> bit p0 k \<and> k \<noteq> 0) \<and>
      (\<forall>k. bit o1 k \<longrightarrow> bit a1 k \<and> \<not> bit f1 k \<and> \<not> bit p1 k)"
    using r(5) unfolding w first_issue_Nil by (auto simp: collateral_issue_None bit_or_iff bit_1_iff)
  with r(1-4) w show ?thesis unfolding collateral_clear_def by blast
qed

lemma issued_token_issues_Nil:
  assumes "issued_token_issues slot controlValues pathwayValues = Inr []"
  shows "issued_clear slot controlValues pathwayValues"
proof -
  obtain flags observedAt age active forbidden where r: "requireBigIntField controlValues ''control_flags'' = Inr flags"
    "requireBigIntField controlValues ''extension_observed_at_slot'' = Inr observedAt"
    "requireBigIntField controlValues ''max_extension_observation_age_slots'' = Inr age"
    "requireBigIntArrayField controlValues ''active_mint_extension_mask'' 2 = Inr active"
    "requireBigIntArrayField pathwayValues ''forbidden_issued_token_extension_mask'' 2 = Inr forbidden"
    "bit flags 63" "fresh observedAt age slot"
    "first_issue issued_issue [(active ! 0, forbidden ! 0), (active ! 1, forbidden ! 1)] = []"
    using assms unfolding issued_token_issues_def by (auto simp: issues_of_Nil validateExtensionFreshness_Nil)
  obtain i0 i1 n0 n1 where w: "active = [i0, i1]" "forbidden = [n0, n1]"
    using r(4,5) [THEN two_words] by blast
  have "(\<forall>k. \<not> (bit i0 k \<and> bit n0 k)) \<and> (\<forall>k. \<not> (bit i1 k \<and> bit n1 k))"
    using r(8) unfolding w first_issue_Nil issued_issue_def by (auto simp: masks_disjoint split: if_splits)
  with r(1-7) w show ?thesis unfolding issued_clear_def by blast
qed

lemma core_gates_ok:
  assumes "core_gates request slot core bindings pathwayValues evidencePolicy = Inr []"
  shows "\<exists>moduleValues. cs_values (ca_module_activation core) = Some moduleValues \<and>
    gates_clear (nr_action request) slot moduleValues (sb_asset_values bindings) (sb_control_values bindings) pathwayValues"
proof -
  obtain moduleValues statuses mode observedAt age where r: "cs_values (ca_module_activation core) = Some moduleValues"
    "requireBytes (obj_get moduleValues ''module_statuses'') 32 = Inr statuses"
    "requireNumberField (sb_asset_values bindings) ''mode'' = Inr mode"
    "requireBigIntField (sb_asset_values bindings) ''extension_observed_at_slot'' = Inr observedAt"
    "requireBigIntField (sb_asset_values bindings) ''max_extension_observation_age_slots'' = Inr age"
    "collateral_issues (sb_asset_values bindings) pathwayValues = Inr []"
    "issued_token_issues slot (sb_control_values bindings) pathwayValues = Inr []"
    "statuses ! 4 = 2" "mode = 0 \<or> nr_action request = Redeem \<and> mode = 1" "fresh observedAt age slot"
    using assms unfolding core_gates_def validateCoreSettlementGates_def requireSnapshotValues_def
    by (auto simp: issues_of_Nil validateExtensionFreshness_Nil split: option.splits) (cases "nr_action request"; auto)+
  from collateral_issues_Nil [OF r(6)] issued_token_issues_Nil [OF r(7)] r show ?thesis
    unfolding gates_clear_def by blast
qed

lemma pause_issues_Nil: "pause_issues action p = [] \<longleftrightarrow> \<not> pause_global p \<and> \<not> pause_asset p \<and> \<not> pause_pathway p"
  by (auto simp: pause_issues_def issues_of_Nil)

text \<open>The pathway that is selected.\<close>

definition bytes32_field :: "js_object \<Rightarrow> string \<Rightarrow> bytes \<Rightarrow> bool" where
  "bytes32_field vs field bs \<longleftrightarrow> obj_get vs field = JBytes bs \<and> length bs = 32"

definition pathway_listed ::
  "'w client \<Rightarrow> normalized_request \<Rightarrow> operation_identity \<Rightarrow> string \<Rightarrow> string \<Rightarrow> js_object \<Rightarrow> bool" where
  "pathway_listed c request identity issuedMint address vs \<longleftrightarrow>
     (\<exists>ident r. bytes32_field vs ''pathway_id'' ident \<and>
        derivePathwayPolicyAddress (cc_hash c) (cc_schema c) (KeyBytes ident) = Inr r \<and> pda_address r = address \<and>
        id_pathway_constraint identity \<in> {None, Some ident} \<and>
        requirePublicKeyField vs ''asset_mint'' = Inr (nr_asset_mint request) \<and>
        requirePublicKeyField vs ''issued_token_mint'' = Inr issuedMint \<and>
        requireNumberField vs ''pathway_kind'' = Inr (PATHWAY_KIND_VALUE (nr_mode request)))"

lemma matches_id_True: "matches_id constraint ident = Inr True \<longleftrightarrow>
    (\<exists>w. constraint = Some w \<and> length w = 32 \<and> length ident = 32 \<and> w = ident) \<or> constraint = None"
  by (auto simp: matches_id_def bytes32Hex_def requireBytes_def bytesToHex_inj split: option.splits if_splits)

lemma candidate_listed:
  assumes "candidate_of c request (id_pathway_constraint identity) issuedMint address vs = Inr p" "candidate_matches p"
  shows "pathway_listed c request identity issuedMint address vs \<and> pc_address p = address"
proof -
  obtain ident r matchesId where "requireBytes (obj_get vs ''pathway_id'') 32 = Inr ident"
    "derivePathwayPolicyAddress (cc_hash c) (cc_schema c) (KeyBytes ident) = Inr r"
    "requirePublicKeyField vs ''asset_mint'' = Inr (pc_asset_mint p)"
    "requirePublicKeyField vs ''issued_token_mint'' = Inr (pc_issued_token_mint p)"
    "requireNumberField vs ''pathway_kind'' = Inr (pc_kind p)"
    "matches_id (id_pathway_constraint identity) ident = Inr matchesId"
    and p: "pc_asset p = (pc_asset_mint p = nr_asset_mint request)" "pc_issued p = (pc_issued_token_mint p = issuedMint)"
    "pc_mode p = (pc_kind p = PATHWAY_KIND_VALUE (nr_mode request))" "pc_requested_id p = matchesId"
    "pc_canonical p = (pda_address r = address)" "pc_address p = address"
    using assms(1) unfolding candidate_of_def bindR_eq_Inr sum.inject
    apply (elim exE conjE)
    apply (rule that, assumption, assumption)
    apply (drule sym, simp only: pathway_candidate.select_convs)+
    done
  moreover from this have "bytes32_field vs ''pathway_id'' ident"
    by (auto simp: bytes32_field_def requireBytes_def split: js.splits if_splits)
  ultimately show ?thesis using assms(2) unfolding candidate_matches_def pathway_listed_def p
    by (auto simp: matches_id_True)
qed

lemma discoverPathways_member:
  assumes "discoverPathways c request constraint issuedMint st = Inr (candidates, st')" "p \<in> set candidates"
  shows "\<exists>a vs. values_of_type c ''PathwayPolicy'' a = Inr (Some vs) \<and>
    candidate_of c request constraint issuedMint (rx_address a) vs = Inr p"
proof -
  obtain accounts found where "mapR (pathway_of_account c request constraint issuedMint) accounts = Inr found"
    "candidates = List.map_filter id found"
    using assms(1) by (auto simp: discoverPathways_def parser_Inr liftP_Inr)
  then have found: "list_all2 (\<lambda>a r. pathway_of_account c request constraint issuedMint a = Inr r) accounts found"
    "Some p \<in> set found"
    using assms(2) by (simp_all add: map_filter_id mapR_eq_Inr_iff)
  then obtain a where "pathway_of_account c request constraint issuedMint a = Inr (Some p)"
    by (auto simp: in_set_conv_nth dest!: list_all2_nthD2)
  then show ?thesis by (auto simp: pathway_of_account_def optionalR_def split: option.splits)
qed

lemma selectPathwayCandidate_Inr:
  "selectPathwayCandidate candidates = Inr p \<Longrightarrow> filter candidate_matches candidates = [p]"
  by (auto simp: selectPathwayCandidate_def split: list.splits)

lemma load_pathway_ok:
  assumes "load_pathway c request identity issuedMint st = Inr ((candidates, pathway, vs, pda, issues), st')"
  shows "\<exists>p a found. filter candidate_matches candidates = [p] \<and>
    values_of_type c ''PathwayPolicy'' a = Inr (Some found) \<and> rx_address a = cs_address pathway \<and>
    pathway_listed c request identity issuedMint (cs_address pathway) found \<and>
    genuine_snapshot c (cs_address pathway) ''PathwayPolicy'' pathway \<and> cs_exists pathway \<and> cs_values pathway = Some vs \<and>
    (issues = [] \<longrightarrow> pathwayIsActive vs = Inr True)"
proof -
  obtain selected s1 s2 other intentIssues where l:
    "discoverPathways c request (id_pathway_constraint identity) issuedMint st = Inr (candidates, s1)"
    "selectPathwayCandidate candidates = Inr selected"
    "loadChanceryState c (pc_address selected) ''PathwayPolicy'' False s1 = Inr (pathway, s2)"
    "requireSnapshotValues pathway = Inr vs" "pathway_issues c request identity vs = Inr other"
    "issues = other @ intentIssues"
    using assms unfolding load_pathway_def bindP_Inr liftP_Inr returnP_Inr prod.inject
    by (elim exE conjE) (rule that, simp_all)
  note only = selectPathwayCandidate_Inr [OF l(2)]
  then have member: "selected \<in> set candidates" "candidate_matches selected" by (auto simp: filter_eq_Cons_iff)
  obtain a found where f: "values_of_type c ''PathwayPolicy'' a = Inr (Some found)"
    "candidate_of c request (id_pathway_constraint identity) issuedMint (rx_address a) found = Inr selected"
    using discoverPathways_member [OF l(1) member(1)] by blast
  note listed = candidate_listed [OF f(2) member(2)] and g = loadChanceryState_genuine [OF l(3)]
  then have address: "cs_address pathway = rx_address a" by (simp add: genuine_snapshot_def)
  have "other = [] \<longrightarrow> pathwayIsActive vs = Inr True"
    using l(5) by (auto simp: pathway_issues_def issues_of_Nil)
  with only f(1) listed g l(4,6) address show ?thesis
    by (intro exI [of _ selected] exI [of _ a] exI [of _ found])
      (auto simp: requireSnapshotValues_def split: option.splits)
qed

lemma load_bindings_values:
  assumes "load_bindings c request core authority st = Inr ((bindings, issues), st')"
  shows "cs_values (ca_asset_config core) = Some (sb_asset_values bindings) \<and>
    cs_values (ca_issued_control core) = Some (sb_control_values bindings)"
proof -
  obtain v1 v2 where "requireSnapshotValues (ca_asset_config core) = Inr v1" "sb_asset_values bindings = v1"
    "requireSnapshotValues (ca_issued_control core) = Inr v2" "sb_control_values bindings = v2"
    using assms unfolding load_bindings_def bindP_Inr liftP_Inr returnP_Inr prod.inject
    by (elim exE conjE) (rule that, simp_all)
  then show ?thesis by (auto simp: requireSnapshotValues_def split: option.splits)
qed

lemma load_policies_gates:
  assumes "load_policies c request slot core bindings pathwayValues st = Inr ((policies, pdas, issues), st')"
  shows "core_gates request slot core bindings pathwayValues (ps_evidence policies) = Inr issues"
proof -
  obtain ev where "core_gates request slot core bindings pathwayValues ev = Inr issues" "ps_evidence policies = ev"
    using assms unfolding load_policies_def Let_def bindP_Inr liftP_Inr returnP_Inr prod.inject
    by (elim exE conjE) (rule that, simp_all)
  then show ?thesis by simp
qed

section \<open>A ready inspection\<close>

lemma inspect_parts:
  assumes "inspect c requestInput st = Inr (insp, st')"
  obtains request observation core mintAuthority reserveAuthority corePdas bindings bindingIssues identity identityPdas
    candidates pathway pathwayValues pathwayPda pathwayIssues policies policyPdas gateIssues quote policyObservation
    amountIssues permissions limits tokens reservePda tokenIssues reserveDestinations pauses arguments accounts
    s1 s2 s3 s4 s5 s6 s7 s8 s9 s10 where
    "observe_context c requestInput st = Inr ((request, observation), s1)"
    "load_core c request s1 = Inr ((core, mintAuthority, reserveAuthority, corePdas), s2)"
    "load_bindings c request core (pda_address mintAuthority) s2 = Inr ((bindings, bindingIssues), s3)"
    "resolveOperationIdentity c request s3 = Inr ((identity, identityPdas), s4)"
    "load_pathway c request identity (sb_issued_mint bindings) s4 =
       Inr ((candidates, pathway, pathwayValues, pathwayPda, pathwayIssues), s5)"
    "load_policies c request (oc_slot observation) core bindings pathwayValues s5 =
       Inr ((policies, policyPdas, gateIssues), s6)"
    "amount_gates c request identity bindings policies (oc_epoch observation) =
       Inr (quote, policyObservation, amountIssues)"
    "resolvePermissions c request identity (cs_address pathway) s6 = Inr (permissions, s7)"
    "resolve_limits c request identity policies
       (if nr_action request = Mint then id_input_amount identity else er_gross_output quote) s7 = Inr (limits, s8)"
    "resolve_tokens c request identity bindings reserveAuthority quote s8 = Inr ((tokens, reservePda, tokenIssues), s9)"
    "discoverReserveDestinations c (nr_asset_mint request) s9 = Inr (reserveDestinations, s10)"
    "observePauses (nr_action request) (oc_slot observation) (ca_pause_state core) (ca_asset_pause core) pathway = Inr pauses"
    "buildInstructionArguments request identity pathwayValues (minimum_output_of request identity (er_quote quote)) = Inr arguments"
    "buildInstructionAccounts
       \<lparr>ab_request = request, ab_identity = identity, ab_core = core, ab_pathway = pathway,
        ab_permissions = map fst permissions, ab_policies = named_policies identity policies, ab_limits = map fst limits,
        ab_tokens = tokens, ab_issued_mint = sb_issued_mint bindings, ab_asset_program = sb_asset_program bindings,
        ab_issued_program = sb_issued_program bindings, ab_mint_authority = pda_address mintAuthority,
        ab_reserve_authority = pda_address reserveAuthority\<rparr> = Inr accounts"
    "in_issues insp = uniqueStrings (bindingIssues @ pathwayIssues @ gateIssues @ amountIssues @
       permission_issues (map fst permissions) @ validateLimits (map fst limits) @ tokenIssues @
       pause_issues (nr_action request) pauses)"
    "in_ready insp \<longleftrightarrow> in_issues insp = []"
    "in_request insp = request" "in_observation insp = observation" "in_core insp = core" "in_pathway insp = pathway"
    "in_permissions insp = map fst permissions" "in_limits insp = map fst limits" "in_tokens insp = tokens"
    "in_fee_quote insp = er_fee_quote quote" "in_effective_quote insp = er_quote quote"
    "in_policy_observation insp = policyObservation" "in_pauses insp = pauses" "in_arguments insp = arguments"
    "in_accounts insp = accounts" "in_candidates insp = candidates"
    "in_instruction_name insp = settlementInstructionName (nr_action request) (nr_mode request)"
    "in_policies insp = named_policies identity policies"
    "amt_input (in_amounts insp) = id_input_amount identity"
    "amt_minimum_output (in_amounts insp) = minimum_output_of request identity (er_quote quote)"
    "amt_limit_notional (in_amounts insp) =
       (if nr_action request = Mint then id_input_amount identity else er_gross_output quote)"
  using assms unfolding inspect_def Let_def bindP_Inr split_paired_Ex prod.case liftP_Inr returnP_Inr prod.inject sum.inject
  apply (elim exE conjE)
  apply (rule that)
                      apply (simp_all only: settlement_inspection.select_convs settlement_amounts.select_convs length_0_conv)
  done

text \<open>What holds of an inspection that is ready, in terms of the accounts it read.\<close>

definition settlement_clear :: "'w client \<Rightarrow> settlement_inspection \<Rightarrow> bool" where
  "settlement_clear c insp \<longleftrightarrow>
     (let request = in_request insp; slot = oc_slot (in_observation insp); amounts = in_amounts insp;
          pathway = in_pathway insp; core = in_core insp in
      \<exists>identity bindings quote reserveAuthority moduleValues pathwayValues.
        id_input_amount identity = amt_input amounts \<and>
        minimum_output_of request identity (er_quote quote) = amt_minimum_output amounts \<and>
        er_fee_quote quote = in_fee_quote insp \<and> er_quote quote = in_effective_quote insp \<and>
        cs_values (ca_asset_config core) = Some (sb_asset_values bindings) \<and>
        cs_values (ca_issued_control core) = Some (sb_control_values bindings) \<and>
        cs_values (ca_module_activation core) = Some moduleValues \<and> cs_values pathway = Some pathwayValues \<and>
        pathwayIsActive pathwayValues = Inr True \<and>
        gates_clear (nr_action request) slot moduleValues (sb_asset_values bindings) (sb_control_values bindings) pathwayValues \<and>
        amounts_clear request identity (sb_asset_values bindings) quote (in_policy_observation insp) \<and>
        funded (nr_action request) (amt_input amounts) quote (in_tokens insp) \<and>
        token_parties request identity bindings reserveAuthority quote (in_tokens insp) \<and>
        list_all2 (permission_granted request (cs_address pathway)) (permission_definitions request identity)
          (in_permissions insp) \<and>
        map ld_label (in_limits insp) = limit_labels (nr_mode request) \<and>
        (\<forall>l \<in> set (in_limits insp). within_limits (amt_limit_notional amounts) l) \<and>
        \<not> pause_global (in_pauses insp) \<and> \<not> pause_asset (in_pauses insp) \<and> \<not> pause_pathway (in_pauses insp))"

lemma inspect_ready_clear:
  assumes "inspect c requestInput st = Inr (insp, st')" "in_ready insp"
  shows "settlement_clear c insp"
  using assms(1)
proof (cases rule: inspect_parts)
  case (1 request observation core mintAuthority reserveAuthority corePdas bindings bindingIssues identity identityPdas
    candidates pathway pathwayValues pathwayPda pathwayIssues policies policyPdas gateIssues quote policyObservation
    amountIssues permissions limits tokens reservePda tokenIssues reserveDestinations pauses arguments accounts
    s1 s2 s3 s4 s5 s6 s7 s8 s9 s10)
  have clean: "pathwayIssues = []" "gateIssues = []" "amountIssues = []" "permission_issues (map fst permissions) = []"
    "validateLimits (map fst limits) = []" "tokenIssues = []" "pause_issues (nr_action request) pauses = []"
    using 1(15,16) assms(2) by (auto simp: uniqueStrings_Nil)
  have pathwayFacts: "cs_values pathway = Some pathwayValues" "pathwayIsActive pathwayValues = Inr True"
    using load_pathway_ok [OF 1(5)] clean(1) by auto
  obtain moduleValues where gates: "cs_values (ca_module_activation core) = Some moduleValues"
    "gates_clear (nr_action request) (oc_slot observation) moduleValues (sb_asset_values bindings)
       (sb_control_values bindings) pathwayValues"
    using core_gates_ok load_policies_gates [OF 1(6)] clean(2) by metis
  show ?thesis
    unfolding settlement_clear_def Let_def
    using load_bindings_values [OF 1(3)] pathwayFacts gates amount_gates_ok [OF 1(7) [unfolded clean(3)]]
      resolve_tokens_ok [OF 1(10)] clean(6) resolvePermissions_ok [OF 1(8) clean(4)] validateLimits_Nil [OF 1(9) clean(5)]
      clean(7) [unfolded pause_issues_Nil]
    by (intro exI [of _ identity] exI [of _ bindings] exI [of _ quote] exI [of _ "pda_address reserveAuthority"]
        exI [of _ moduleValues] exI [of _ pathwayValues]) (simp add: 1(17-))
qed

section \<open>Any inspection that is returned\<close>

lemma buildInstructionAccounts_tokens:
  assumes "buildInstructionAccounts input = Inr accounts"
  shows "ts_exists (sa_source (ab_tokens input)) \<and> ts_exists (sa_reserve (ab_tokens input)) \<and>
    ts_exists (sa_destination (ab_tokens input)) \<and> cs_exists (ca_asset_config (ab_core input))"
  using assms
  by (auto simp: buildInstructionAccounts_def common_accounts_def Let_def requiredTokenAddress_def
      requiredSnapshotAddress_def split: list.splits if_splits)

definition inspection_resolved :: "'w client \<Rightarrow> settlement_inspection \<Rightarrow> bool" where
  "inspection_resolved c insp \<longleftrightarrow>
     ts_exists (sa_source (in_tokens insp)) \<and> ts_exists (sa_reserve (in_tokens insp)) \<and>
     ts_exists (sa_destination (in_tokens insp)) \<and>
     (\<exists>selected listing found issuedMint identity.
        filter candidate_matches (in_candidates insp) = [selected] \<and>
        values_of_type c ''PathwayPolicy'' listing = Inr (Some found) \<and>
        rx_address listing = cs_address (in_pathway insp) \<and>
        pathway_listed c (in_request insp) identity issuedMint (cs_address (in_pathway insp)) found) \<and>
     cs_exists (in_pathway insp) \<and>
     genuine_snapshot c (cs_address (in_pathway insp)) ''PathwayPolicy'' (in_pathway insp) \<and>
     in_instruction_name insp = settlementInstructionName (nr_action (in_request insp)) (nr_mode (in_request insp)) \<and>
     (in_ready insp \<longleftrightarrow> in_issues insp = []) \<and> distinct (in_issues insp)"

lemma uniqueStrings_distinct: "distinct (uniqueStrings xs)"
proof -
  have "distinct us \<Longrightarrow> distinct (foldl (\<lambda>unique text. if text \<in> set unique then unique else unique @ [text]) us xs)" for us
    by (induction xs arbitrary: us) auto
  then show ?thesis by (simp add: uniqueStrings_def)
qed

lemma inspect_resolved:
  assumes "inspect c requestInput st = Inr (insp, st')"
  shows "inspection_resolved c insp"
  using assms
proof (cases rule: inspect_parts)
  case (1 request observation core mintAuthority reserveAuthority corePdas bindings bindingIssues identity identityPdas
    candidates pathway pathwayValues pathwayPda pathwayIssues policies policyPdas gateIssues quote policyObservation
    amountIssues permissions limits tokens reservePda tokenIssues reserveDestinations pauses arguments accounts
    s1 s2 s3 s4 s5 s6 s7 s8 s9 s10)
  have tokens: "ts_exists (sa_source tokens) \<and> ts_exists (sa_reserve tokens) \<and> ts_exists (sa_destination tokens)"
    using buildInstructionAccounts_tokens [OF 1(14)] by simp
  obtain selected listing found where p: "filter candidate_matches candidates = [selected]"
    "values_of_type c ''PathwayPolicy'' listing = Inr (Some found)" "rx_address listing = cs_address pathway"
    "pathway_listed c request identity (sb_issued_mint bindings) (cs_address pathway) found"
    "genuine_snapshot c (cs_address pathway) ''PathwayPolicy'' pathway" "cs_exists pathway"
    using load_pathway_ok [OF 1(5)] by (elim exE conjE) (rule that)
  have "distinct (in_issues insp)" unfolding 1(15) by (rule uniqueStrings_distinct)
  then show ?thesis
    unfolding inspection_resolved_def 1(17-) using tokens p 1(16)
    by (intro conjI exI [of _ selected] exI [of _ listing] exI [of _ found] exI [of _ "sb_issued_mint bindings"]
        exI [of _ identity]) auto
qed

end
