(* ===== verification/ChanceryClient.thy ===== *)
theory ChanceryClient
  imports SettlementInspect
begin

text \<open>
  \<open>typescript/src/client/ChanceryClient.ts\<close>: the operations on an inspection. \<open>buildInstruction\<close> accepts a ready one
  only; \<open>prepareTransaction\<close> compiles and signs, \<open>simulateTransaction\<close> and \<open>submitTransaction\<close> simulate and send, and
  the confirmation polls until the commitment is reached. \<open>delay\<close> has no effect on the client; what the cluster does
  meanwhile is part of the answers of \<open>fetch\<close>.
\<close>

definition assertInspectionReady :: "settlement_inspection \<Rightarrow> unit res" where
  "assertInspectionReady inspection =
     (if \<not> in_ready inspection then throw ''Settlement operation is not ready'' else Inr ())"

definition buildInstruction :: "'w client \<Rightarrow> settlement_inspection \<Rightarrow> chancery_instruction res" where
  "buildInstruction c inspection =
     bindR (assertInspectionReady inspection) (\<lambda>_.
       buildChanceryInstruction (cc_hash c) (cc_schema c) (in_instruction_name inspection) (in_arguments inspection)
         (in_accounts inspection) True)"

record transaction_request =
  tr_fee_payer :: string
  tr_keypairs :: "solana_keypair list"
  tr_tables :: "string list option"
  tr_commitment :: "rpc_commitment option"

record prepared_transaction =
  pt_inspection :: settlement_inspection
  pt_instruction :: chancery_instruction
  pt_transaction :: signed_transaction
  pt_blockhash :: string
  pt_last_valid :: int
  pt_tables :: "address_lookup_table list"

record submitted_transaction =
  sx_prepared :: prepared_transaction
  sx_simulation :: rpc_simulation_result
  sx_signature :: string
  sx_status :: rpc_signature_status
  sx_transaction :: js
  sx_events :: "chancery_event_occurrence list option"

definition commitment_of :: "'w client \<Rightarrow> transaction_request \<Rightarrow> rpc_commitment" where
  "commitment_of c request = (case tr_commitment request of Some k \<Rightarrow> k | None \<Rightarrow> cc_commitment c)"

definition load_lookup_table :: "'w client \<Rightarrow> string \<Rightarrow> ('w, address_lookup_table) rpc_io" where
  "load_lookup_table c addressInput =
     bindP (liftP (key_of addressInput)) (\<lambda>address.
     bindP (getAccountInfo (cc_fetch c) (KeyText address) (cc_commitment c)) (\<lambda>account.
       case account of
         None \<Rightarrow> failP ''Address lookup table does not exist''
       | Some info \<Rightarrow> liftP (parseAddressLookupTableAccount (KeyText address) (ra_data info))))"

definition loadAddressLookupTables :: "'w client \<Rightarrow> string list \<Rightarrow> ('w, address_lookup_table list) rpc_io" where
  "loadAddressLookupTables c addresses = eachP (load_lookup_table c) addresses"

definition solana_instruction_of :: "chancery_instruction \<Rightarrow> solana_instruction" where
  "solana_instruction_of instruction =
     \<lparr>si_program = ci_program instruction,
      si_accounts = map (\<lambda>meta. \<lparr>sm_address = am_address meta, sm_signer = am_signer meta, sm_writable = am_writable meta\<rparr>)
        (ci_accounts instruction),
      si_data = ci_data instruction\<rparr>"

definition prepareTransaction ::
  "'w client \<Rightarrow> settlement_inspection \<Rightarrow> transaction_request \<Rightarrow> ('w, prepared_transaction) rpc_io" where
  "prepareTransaction c inspection request =
     bindP (getSlot (cc_fetch c) (commitment_of c request)) (\<lambda>currentSlot.
       if oc_expires_after (in_observation inspection) < currentSlot then failP ''Inspection expired''
       else
         bindP (liftP (buildInstruction c inspection)) (\<lambda>instruction.
         bindP (liftP (key_of (tr_fee_payer request))) (\<lambda>feePayer.
         bindP (getLatestBlockhash (cc_fetch c) (commitment_of c request)) (\<lambda>latest.
         bindP (loadAddressLookupTables c (case tr_tables request of Some ts \<Rightarrow> ts | None \<Rightarrow> [])) (\<lambda>lookupTables.
         bindP (liftP (let instructions = [solana_instruction_of instruction] in
                  if lookupTables = []
                  then compileUnversionedMessage instructions (KeyText feePayer) (KeyText (rb_blockhash latest))
                  else compileVersionZeroMessage instructions (KeyText feePayer) (KeyText (rb_blockhash latest)) lookupTables))
           (\<lambda>message.
         bindP (liftP (signSolanaTransaction (cc_crypto c) message (tr_keypairs request))) (\<lambda>transaction.
           returnP \<lparr>pt_inspection = inspection, pt_instruction = instruction, pt_transaction = transaction,
                    pt_blockhash = rb_blockhash latest, pt_last_valid = rb_last_valid_block_height latest,
                    pt_tables = lookupTables\<rparr>)))))))"

definition simulateTransaction ::
  "'w client \<Rightarrow> settlement_inspection \<Rightarrow> transaction_request \<Rightarrow> ('w, prepared_transaction \<times> rpc_simulation_result) rpc_io" where
  "simulateTransaction c inspection request =
     bindP (prepareTransaction c inspection request) (\<lambda>prepared.
     bindP (rpc_simulateTransaction (cc_fetch c) (st_bytes (pt_transaction prepared)) (commitment_of c request) True)
       (\<lambda>simulation. returnP (prepared, simulation)))"

section \<open>Confirmation\<close>

fun commitment_rank :: "rpc_commitment \<Rightarrow> nat" where
  "commitment_rank Processed = 0"
| "commitment_rank Confirmed = 1"
| "commitment_rank Finalized = 2"

definition commitmentSatisfied :: "rpc_commitment option \<Rightarrow> rpc_commitment \<Rightarrow> bool" where
  "commitmentSatisfied actual required =
     (case actual of None \<Rightarrow> False | Some a \<Rightarrow> commitment_rank required \<le> commitment_rank a)"

definition MAXIMUM_POLLS :: nat where
  "MAXIMUM_POLLS = 120"

text \<open>One turn of the loop: a status that ends it, or \<open>None\<close> to go on.\<close>

definition poll ::
  "'w client \<Rightarrow> string \<Rightarrow> int \<Rightarrow> rpc_commitment \<Rightarrow> ('w, rpc_signature_status option) rpc_io" where
  "poll c signature lastValidBlockHeight commitment =
     bindP (getSignatureStatus (cc_fetch c) signature) (\<lambda>status.
       let waiting =
         bindP (getBlockHeight (cc_fetch c) commitment) (\<lambda>blockHeight.
           if lastValidBlockHeight < blockHeight then failP ''Transaction expired'' else returnP None) in
       case status of
         None \<Rightarrow> waiting
       | Some s \<Rightarrow>
           if ss_err s \<noteq> JNull then failP ''Transaction failed''
           else if commitmentSatisfied (ss_confirmation_status s) commitment then returnP (Some s)
           else waiting)"

fun poll_times ::
  "'w client \<Rightarrow> string \<Rightarrow> int \<Rightarrow> rpc_commitment \<Rightarrow> nat \<Rightarrow> ('w, rpc_signature_status) rpc_io" where
  "poll_times c signature lastValidBlockHeight commitment 0 =
     failP ''Transaction did not reach the commitment within the confirmation poll limit''"
| "poll_times c signature lastValidBlockHeight commitment (Suc n) =
     bindP (poll c signature lastValidBlockHeight commitment) (\<lambda>result.
       case result of
         Some status \<Rightarrow> returnP status
       | None \<Rightarrow> poll_times c signature lastValidBlockHeight commitment n)"

definition confirmTransaction ::
  "'w client \<Rightarrow> string \<Rightarrow> int \<Rightarrow> rpc_commitment \<Rightarrow> ('w, rpc_signature_status) rpc_io" where
  "confirmTransaction c signature lastValidBlockHeight commitment =
     poll_times c signature lastValidBlockHeight commitment MAXIMUM_POLLS"

definition submitTransaction ::
  "'w client \<Rightarrow> settlement_inspection \<Rightarrow> transaction_request \<Rightarrow> ('w, submitted_transaction) rpc_io" where
  "submitTransaction c inspection request =
     bindP (simulateTransaction c inspection request) (\<lambda>(prepared, simulation).
       if sr_err simulation \<noteq> JNull then failP ''Chancery transaction simulation failed''
       else
         let commitment = commitment_of c request in
         bindP (rpc_sendTransaction (cc_fetch c) (st_bytes (pt_transaction prepared)) commitment False 5) (\<lambda>signature.
         bindP (confirmTransaction c signature (pt_last_valid prepared) commitment) (\<lambda>status.
         bindP (getTransaction (cc_fetch c) signature commitment) (\<lambda>transaction.
         bindP (getChanceryEvents (cc_schema c) (cc_fetch c) signature commitment) (\<lambda>events.
           returnP \<lparr>sx_prepared = prepared, sx_simulation = simulation, sx_signature = signature, sx_status = status,
                    sx_transaction = transaction, sx_events = events\<rparr>)))))"

definition decodeTransactionEvidence ::
  "'w client \<Rightarrow> string \<Rightarrow> ('w, chancery_event_occurrence list option) rpc_io" where
  "decodeTransactionEvidence c signature = getChanceryEvents (cc_schema c) (cc_fetch c) signature (cc_commitment c)"

end
