(* ===== verification/SubmissionSafety.thy ===== *)
theory SubmissionSafety
  imports ChanceryClient
begin

text \<open>
  What a confirmed and a submitted transaction of \<open>ChanceryClient\<close> are: the polls a confirmation took, as a relation
  \<open>waits\<close> between the states of the connection, and the steps of a submission.
\<close>

section \<open>What a confirmation is\<close>


text \<open>The requests a method sends are counted by the request id.\<close>

definition requests :: "nat \<Rightarrow> ('w, 'a) rpc_io \<Rightarrow> bool" where
  "requests n m \<longleftrightarrow> (\<forall>st x st'. m st = Inr (x, st') \<longrightarrow> rpc_request_id st' = rpc_request_id st + n)"

lemma rpc_request_one: "rpc_request fetch method parameters st = Inr (x, st') \<Longrightarrow> rpc_request_id st' = rpc_request_id st + 1"
  by (auto simp: rpc_request_def Let_def split: if_splits prod.splits)

lemma requests_pure [intro]: "requests 0 (liftP r)" "requests 0 (returnP x)" "requests 0 (failP msg)"
  "requests 0 (contextConfiguration configuration)"
  by (auto simp: requests_def liftP_Inr returnP_Inr failP_Inr contextConfiguration_def split: option.splits if_splits)

lemma requests_bind: "requests m p \<Longrightarrow> (\<And>x. requests n (f x)) \<Longrightarrow> requests (m + n) (bindP p f)"
  unfolding requests_def bindP_Inr by fastforce

lemma requests_request: "requests 1 (rpc_request fetch method parameters)"
  using rpc_request_one unfolding requests_def by blast

lemma requests_parsed: "requests 1 (bindP (rpc_request fetch method parameters) (\<lambda>result. liftP (parse result)))"
proof -
  have "requests (1 + 0) (bindP (rpc_request fetch method parameters) (\<lambda>result. liftP (parse result)))"
    by (rule requests_bind [OF requests_request]) (rule requests_pure)
  then show ?thesis by simp
qed

lemma requests_getSignatureStatus: "requests 1 (getSignatureStatus fetch signature)"
  unfolding getSignatureStatus_def by (rule requests_parsed)

lemma requests_getBlockHeight: "requests 1 (getBlockHeight fetch commitment)"
  unfolding getBlockHeight_def by (rule requests_parsed)

text \<open>A poll that goes on found the transaction pending, and the block height not past the last valid one.\<close>

definition pending :: "'w client \<Rightarrow> string \<Rightarrow> int \<Rightarrow> rpc_commitment \<Rightarrow> 'w rpc \<Rightarrow> 'w rpc \<Rightarrow> bool" where
  "pending c signature lastValid commitment st st' \<longleftrightarrow>
     (\<exists>status w height. getSignatureStatus (cc_fetch c) signature st = Inr (status, w) \<and>
        (\<forall>s. status = Some s \<longrightarrow> ss_err s = JNull \<and> \<not> commitmentSatisfied (ss_confirmation_status s) commitment) \<and>
        getBlockHeight (cc_fetch c) commitment w = Inr (height, st') \<and> height \<le> lastValid)"

lemma poll_Some:
  "poll c signature lastValid commitment st = Inr (Some s, st') \<longleftrightarrow>
   getSignatureStatus (cc_fetch c) signature st = Inr (Some s, st') \<and>
   ss_err s = JNull \<and> commitmentSatisfied (ss_confirmation_status s) commitment"
  unfolding poll_def by (auto simp: parser_Inr Let_def split: option.splits if_splits)

lemma poll_None: "poll c signature lastValid commitment st = Inr (None, st') \<longleftrightarrow> pending c signature lastValid commitment st st'"
  unfolding poll_def pending_def by (auto simp: parser_Inr Let_def split: option.splits if_splits) (force simp: not_less)+

lemma pending_requests: "pending c signature lastValid commitment st st' \<Longrightarrow> rpc_request_id st' = rpc_request_id st + 2"
  using requests_getSignatureStatus requests_getBlockHeight unfolding pending_def requests_def by fastforce

text \<open>Polls that go on: the states between them.\<close>

inductive waits :: "'w client \<Rightarrow> string \<Rightarrow> int \<Rightarrow> rpc_commitment \<Rightarrow> nat \<Rightarrow> 'w rpc \<Rightarrow> 'w rpc \<Rightarrow> bool"
  for c signature lastValid commitment where
  wait_none: "waits c signature lastValid commitment 0 st st"
| wait_more: "pending c signature lastValid commitment st st1 \<Longrightarrow>
    waits c signature lastValid commitment n st1 st2 \<Longrightarrow> waits c signature lastValid commitment (Suc n) st st2"

inductive_cases waits_SucE: "waits c signature lastValid commitment (Suc n) st st2"
inductive_cases waits_0E: "waits c signature lastValid commitment 0 st st2"

lemma waits_requests:
  "waits c signature lastValid commitment n st st' \<Longrightarrow> rpc_request_id st' = rpc_request_id st + 2 * n"
  by (induction rule: waits.induct) (auto dest: pending_requests)

lemma poll_times_iff:
  "poll_times c signature lastValid commitment m st = Inr (s, st') \<longleftrightarrow>
   (\<exists>n w. n < m \<and> waits c signature lastValid commitment n st w \<and>
      getSignatureStatus (cc_fetch c) signature w = Inr (Some s, st') \<and>
      ss_err s = JNull \<and> commitmentSatisfied (ss_confirmation_status s) commitment)"
  (is "_ \<longleftrightarrow> (\<exists>n w. ?P m n w st)")
proof (induction m arbitrary: st)
  case (Suc m)
  have "poll_times c signature lastValid commitment (Suc m) st = Inr (s, st') \<longleftrightarrow>
      poll c signature lastValid commitment st = Inr (Some s, st') \<or>
      (\<exists>w. poll c signature lastValid commitment st = Inr (None, w) \<and> (\<exists>n v. ?P m n v w))"
    unfolding poll_times.simps bindP_Inr
    by (auto simp: returnP_Inr Suc.IH split: option.splits)
  also have "\<dots> \<longleftrightarrow> (\<exists>n w. ?P (Suc m) n w st)"
    unfolding poll_Some poll_None by (auto intro: waits.intros elim: waits_0E waits_SucE simp: less_Suc_eq_0_disj)
  finally show ?case .
qed (simp add: failP_Inr)

lemma confirmTransaction_iff:
  "confirmTransaction c signature lastValid commitment st = Inr (s, st') \<longleftrightarrow>
   (\<exists>n w. n < 120 \<and> waits c signature lastValid commitment n st w \<and>
      getSignatureStatus (cc_fetch c) signature w = Inr (Some s, st') \<and>
      ss_err s = JNull \<and> commitmentSatisfied (ss_confirmation_status s) commitment \<and>
      rpc_request_id st' = rpc_request_id st + 2 * n + 1)"
proof -
  have "rpc_request_id st' = rpc_request_id st + 2 * n + 1"
    if "waits c signature lastValid commitment n st w" "getSignatureStatus (cc_fetch c) signature w = Inr (Some s, st')" for n w
    using requests_getSignatureStatus that(2) waits_requests [OF that(1)] unfolding requests_def by fastforce
  then show ?thesis
    unfolding confirmTransaction_def poll_times_iff MAXIMUM_POLLS_def by blast
qed

section \<open>Submission\<close>

lemma buildInstruction_Inr:
  "buildInstruction c insp = Inr instruction \<longleftrightarrow> in_ready insp \<and>
   buildChanceryInstruction (cc_hash c) (cc_schema c) (in_instruction_name insp) (in_arguments insp) (in_accounts insp) True
     = Inr instruction"
  by (auto simp: buildInstruction_def assertInspectionReady_def)

text \<open>
  A prepared transaction, from the state \<open>st\<close> to the state \<open>st'\<close>: the slot read first is not past the slot at which the
  inspection expires; the transaction is the one instruction of the ready inspection, compiled for the fee payer of the
  request with the latest blockhash and the lookup tables of the request, and signed with its keypairs.
\<close>

definition prepared_ok ::
  "'w client \<Rightarrow> settlement_inspection \<Rightarrow> transaction_request \<Rightarrow> 'w rpc \<Rightarrow> prepared_transaction \<Rightarrow> 'w rpc \<Rightarrow> bool" where
  "prepared_ok c insp request st p st' \<longleftrightarrow>
     (\<exists>slot st1 latest st2 message.
        getSlot (cc_fetch c) (commitment_of c request) st = Inr (slot, st1) \<and> slot \<le> oc_expires_after (in_observation insp) \<and>
        in_ready insp \<and> pt_inspection p = insp \<and>
        buildChanceryInstruction (cc_hash c) (cc_schema c) (in_instruction_name insp) (in_arguments insp) (in_accounts insp) True
          = Inr (pt_instruction p) \<and>
        getLatestBlockhash (cc_fetch c) (commitment_of c request) st1 = Inr (latest, st2) \<and>
        pt_blockhash p = rb_blockhash latest \<and> pt_last_valid p = rb_last_valid_block_height latest \<and>
        loadAddressLookupTables c (case tr_tables request of Some tables \<Rightarrow> tables | None \<Rightarrow> []) st2 = Inr (pt_tables p, st') \<and>
        (if pt_tables p = []
         then compileUnversionedMessage [solana_instruction_of (pt_instruction p)] (KeyText (tr_fee_payer request))
                (KeyText (pt_blockhash p)) = Inr message
         else compileVersionZeroMessage [solana_instruction_of (pt_instruction p)] (KeyText (tr_fee_payer request))
                (KeyText (pt_blockhash p)) (pt_tables p) = Inr message) \<and>
        signSolanaTransaction (cc_crypto c) message (tr_keypairs request) = Inr (pt_transaction p))"

lemma prepareTransaction_ok:
  assumes "prepareTransaction c insp request st = Inr (p, st')"
  shows "prepared_ok c insp request st p st'"
proof -
  obtain slot st1 instruction feePayer latest st2 message where
    "getSlot (cc_fetch c) (commitment_of c request) st = Inr (slot, st1)"
    "slot \<le> oc_expires_after (in_observation insp)" "buildInstruction c insp = Inr instruction"
    "key_of (tr_fee_payer request) = Inr feePayer"
    "getLatestBlockhash (cc_fetch c) (commitment_of c request) st1 = Inr (latest, st2)"
    "pt_blockhash p = rb_blockhash latest" "pt_last_valid p = rb_last_valid_block_height latest"
    "loadAddressLookupTables c (case tr_tables request of Some tables \<Rightarrow> tables | None \<Rightarrow> []) st2 = Inr (pt_tables p, st')"
    "(if pt_tables p = []
      then compileUnversionedMessage [solana_instruction_of instruction] (KeyText feePayer) (KeyText (pt_blockhash p))
      else compileVersionZeroMessage [solana_instruction_of instruction] (KeyText feePayer) (KeyText (pt_blockhash p))
        (pt_tables p)) = Inr message"
    "signSolanaTransaction (cc_crypto c) message (tr_keypairs request) = Inr (pt_transaction p)"
    "pt_inspection p = insp" "pt_instruction p = instruction"
    using assms unfolding prepareTransaction_def Let_def
    by (auto simp: bindP_Inr liftP_Inr returnP_Inr failP_Inr split: if_split_asm)
  then show ?thesis
    unfolding prepared_ok_def by (auto simp: buildInstruction_Inr key_of_def split: if_splits)
qed

text \<open>
  What a submission did: it prepared a transaction from an unexpired inspection, simulated exactly its bytes and got no
  error, sent the same bytes in the state the simulation left, and saw the signature reach the commitment without an error.
\<close>

definition submission_ok ::
  "'w client \<Rightarrow> settlement_inspection \<Rightarrow> transaction_request \<Rightarrow> 'w rpc \<Rightarrow> submitted_transaction \<Rightarrow> bool" where
  "submission_ok c insp request st sub \<longleftrightarrow>
     (let bytes = st_bytes (pt_transaction (sx_prepared sub)); commitment = commitment_of c request in
      (\<exists>w1 w2 w3 w4.
         prepared_ok c insp request st (sx_prepared sub) w1 \<and>
         rpc_simulateTransaction (cc_fetch c) bytes commitment True w1 = Inr (sx_simulation sub, w2) \<and>
         sr_err (sx_simulation sub) = JNull \<and>
         rpc_sendTransaction (cc_fetch c) bytes commitment False 5 w2 = Inr (sx_signature sub, w3) \<and>
         confirmTransaction c (sx_signature sub) (pt_last_valid (sx_prepared sub)) commitment w3 = Inr (sx_status sub, w4)) \<and>
      ss_err (sx_status sub) = JNull \<and> commitmentSatisfied (ss_confirmation_status (sx_status sub)) commitment)"

lemma confirmed:
  "confirmTransaction c signature lastValid commitment st = Inr (s, st') \<Longrightarrow>
   ss_err s = JNull \<and> commitmentSatisfied (ss_confirmation_status s) commitment"
  unfolding confirmTransaction_iff by blast

lemma submitTransaction_ok:
  assumes "submitTransaction c insp request st = Inr (sub, st')"
  shows "submission_ok c insp request st sub"
proof -
  obtain w1 w2 w3 w4 where "prepareTransaction c insp request st = Inr (sx_prepared sub, w1)"
    "rpc_simulateTransaction (cc_fetch c) (st_bytes (pt_transaction (sx_prepared sub))) (commitment_of c request) True w1
       = Inr (sx_simulation sub, w2)" "sr_err (sx_simulation sub) = JNull"
    "rpc_sendTransaction (cc_fetch c) (st_bytes (pt_transaction (sx_prepared sub))) (commitment_of c request) False 5 w2
       = Inr (sx_signature sub, w3)"
    "confirmTransaction c (sx_signature sub) (pt_last_valid (sx_prepared sub)) (commitment_of c request) w3
       = Inr (sx_status sub, w4)"
    using assms unfolding submitTransaction_def simulateTransaction_def Let_def
    by (auto simp: bindP_Inr returnP_Inr failP_Inr split: if_split_asm)
  with prepareTransaction_ok confirmed show ?thesis unfolding submission_ok_def Let_def by blast
qed

end
