(* ===== verification/SampleServer.thy ===== *)
theory SampleServer
  imports SampleSchema SampleClient SettlementSafety SubmissionSafety
begin

text \<open>
  A concrete program state and a server that holds it: the accounts that a direct mint reads, at addresses derived with
  a hash function that keeps the seed texts apart, the two mints, and the token accounts of the principal and of the
  reserve. \<open>answers\<close> is a small program logic for runs against this server.
\<close>

section \<open>Keys\<close>

text \<open>Nineteen hashes that are no curve points: their numbers are not below the field modulus.\<close>

definition server_digest :: "nat \<Rightarrow> bytes" where
  "server_digest n = word_of_nat (237 + n) # replicate 31 255"

definition server_hash :: "bytes \<Rightarrow> bytes" where
  "server_hash bs = server_digest (unat (bs ! 6) mod 19)"

definition pda_key :: "nat \<Rightarrow> string" where
  "pda_key n = encodeBase58 (server_digest n)"

lemma server_digest_length: "length (server_digest n) = 32"
  by (simp add: server_digest_def)

lemma pda_key_decoded: "decodePublicKey (KeyText (pda_key n)) = Inr (server_digest n)"
  by (simp add: pda_key_def decodePublicKey_encoded server_digest_length)

lemma pda_key_is_key: "is_key (pda_key n)"
  by (simp add: pda_key_def is_key_encoded server_digest_length)

lemma server_digest_off_curve: "n < 19 \<Longrightarrow> \<not> on_curve (server_digest n)"
proof -
  assume n: "n < 19"
  have d: "server_digest n = [word_of_nat (237 + n), 255, 255, 255, 255, 255, 255, 255, 255, 255, 255, 255, 255, 255, 255, 255,
    255, 255, 255, 255, 255, 255, 255, 255, 255, 255, 255, 255, 255, 255, 255, 255]"
    by (simp add: server_digest_def numeral_eq_Suc)
  have "unat (237 + word_of_nat n :: byte) = 237 + n"
    using n unat_of_nat [where 'a = 8, of "237 + n"] by simp
  then have "isEd25519CurvePoint (server_digest n) = Inr False"
    unfolding d using n
    by (simp add: isEd25519CurvePoint_def Let_def littleEndianInteger_def ED25519_FIELD_MODULUS_def)
  then show ?thesis by (simp add: on_curve_def)
qed

lemma server_find:
  assumes "seeds_ok 15 seeds" "is_key p" "6 < length (concat seeds)"
  shows "findProgramAddress server_hash seeds (KeyText p) =
    Inr \<lparr>pda_address = pda_key (unat (concat seeds ! 6) mod 19), pda_bump = 255\<rparr>"
proof -
  obtain pk where pk: "decodePublicKey (KeyText p) = Inr pk" using assms(2) by (rule is_keyE)
  have "candidate server_hash seeds pk b = server_digest (unat (concat seeds ! 6) mod 19)" for b
    using assms(3) by (simp add: candidate_def server_hash_def nth_append)
  then have "find_bump server_hash seeds (KeyText p) 256 =
      Inr \<lparr>pda_address = pda_key (unat (concat seeds ! 6) mod 19), pda_bump = 255\<rparr>"
    using find_bump_Inr [OF assms(1) pk, of server_hash 256] server_digest_off_curve
    by (simp add: pda_key_def)
  with assms(1) pk show ?thesis by (simp add: findProgramAddress_Inr)
qed

section \<open>The programs and the clock\<close>

definition spl_bytes :: bytes where
  "spl_bytes = [6, 221, 246, 225, 215, 101, 161, 147, 217, 203, 225, 70, 206, 235, 121, 172, 28, 180, 133, 237, 95, 91, 55,
     145, 58, 140, 245, 133, 126, 255, 0, 169]"

lemma spl_encoded: "encodeBase58 spl_bytes = SPL_TOKEN_PROGRAM_ADDRESS"
  unfolding spl_bytes_def
  by (simp add: encodeBase58_def Let_def encode_digits_def push_carry.simps base58_char_def
      BASE58_ALPHABET_def SPL_TOKEN_PROGRAM_ADDRESS_def)

lemma ata_encoded: "encodeBase58 [140, 151, 37, 143, 78, 36, 137, 241, 187, 61, 16, 41, 20, 142, 13, 131, 11, 90, 19, 153,
    218, 255, 16, 132, 4, 142, 123, 216, 219, 233, 248, 89] = ASSOCIATED_TOKEN_PROGRAM_ADDRESS"
  by (simp add: encodeBase58_def Let_def encode_digits_def push_carry.simps base58_char_def
      BASE58_ALPHABET_def ASSOCIATED_TOKEN_PROGRAM_ADDRESS_def)

definition clock_key_bytes :: bytes where
  "clock_key_bytes = [6, 167, 213, 23, 24, 199, 116, 201, 40, 86, 99, 152, 105, 29, 94, 182, 139, 94, 184, 163, 155, 75, 109,
     92, 115, 85, 91, 33, 0, 0, 0, 0]"

lemma clock_encoded: "encodeBase58 clock_key_bytes = CLOCK_SYSVAR"
  unfolding clock_key_bytes_def
  by (simp add: encodeBase58_def Let_def encode_digits_def push_carry.simps base58_char_def
      BASE58_ALPHABET_def CLOCK_SYSVAR_def)

lemma spl_decoded: "decodePublicKey (KeyText SPL_TOKEN_PROGRAM_ADDRESS) = Inr spl_bytes"
  using decodePublicKey_encoded [of spl_bytes] by (simp add: spl_encoded) (simp add: spl_bytes_def)

lemma clock_decoded: "decodePublicKey (KeyText CLOCK_SYSVAR) = Inr clock_key_bytes"
  using decodePublicKey_encoded [of clock_key_bytes] by (simp add: clock_encoded) (simp add: clock_key_bytes_def)

lemma program_keys: "is_key SPL_TOKEN_PROGRAM_ADDRESS" "is_key ASSOCIATED_TOKEN_PROGRAM_ADDRESS" "is_key CLOCK_SYSVAR"
  using decodePublicKey_text_is_key [OF spl_decoded] decodePublicKey_text_is_key [OF clock_decoded]
  by (simp_all add: is_key_encoded flip: ata_encoded)

lemma sample_key_0_decoded: "decodePublicKey (KeyText (sample_key 0)) = Inr (replicate 32 0)"
  using decodePublicKey_encoded [of "replicate 32 0"] by (simp add: sample_key_0)

section \<open>The accounts\<close>

definition typed_fields :: "(string \<times> type_schema) list \<Rightarrow> field_schema list" where
  "typed_fields fields_list = map (\<lambda>(name, ty). \<lparr>field_name = name, field_type = ty\<rparr>) fields_list"

definition sample_module_fields :: "field_schema list" where
  "sample_module_fields = typed_fields
     [(''module_statuses'', ArrayT (Prim U8) 32)]"

definition sample_module_values :: js_object where
  "sample_module_values =
     [(''module_statuses'', JBytes ([0, 0, 0, 0, 2] @ replicate 27 0))]"

definition sample_config_fields :: "field_schema list" where
  "sample_config_fields = typed_fields
     [(''issued_token_mint'', Prim Pubkey), (''issued_token_program'', Prim Pubkey),
      (''mint_authority_pda'', Prim Pubkey)]"

definition sample_config_values :: js_object where
  "sample_config_values =
     [(''issued_token_mint'', JStr (sample_key 6)), (''issued_token_program'', JStr SPL_TOKEN_PROGRAM_ADDRESS),
      (''mint_authority_pda'', JStr (pda_key 3))]"

definition sample_pause_fields :: "field_schema list" where
  "sample_pause_fields = typed_fields
     [(''expires_at_slot'', Prim U64), (''global_pause_bits'', Prim U64)]"

definition sample_pause_values :: js_object where
  "sample_pause_values =
     [(''expires_at_slot'', JBig 0), (''global_pause_bits'', JBig 0)]"

definition sample_asset_fields :: "field_schema list" where
  "sample_asset_fields = typed_fields
     [(''asset_mint'', Prim Pubkey), (''asset_token_program'', Prim Pubkey), (''mode'', Prim U8),
      (''extension_observed_at_slot'', Prim U64), (''max_extension_observation_age_slots'', Prim U64),
      (''observed_extension_mask'', ArrayT (Prim U64) 2), (''approved_extension_mask'', ArrayT (Prim U64) 2),
      (''forbidden_extension_mask'', ArrayT (Prim U64) 2), (''deposit_rate_e9'', Prim U64), (''redeem_rate_e9'', Prim U64),
      (''minimum_deposit_amount'', Prim U64), (''maximum_single_settlement_amount'', Prim U64)]"

definition sample_asset_values :: js_object where
  "sample_asset_values =
     [(''asset_mint'', JStr (sample_key 5)), (''asset_token_program'', JStr SPL_TOKEN_PROGRAM_ADDRESS),
      (''mode'', JNum 0), (''extension_observed_at_slot'', JBig 990),
      (''max_extension_observation_age_slots'', JBig 50), (''observed_extension_mask'', JArr [JBig 0, JBig 0]),
      (''approved_extension_mask'', JArr [JBig 0, JBig 0]),
      (''forbidden_extension_mask'', JArr [JBig 0, JBig 0]), (''deposit_rate_e9'', JBig 2000000000), (''redeem_rate_e9'', JBig 500000000),
      (''minimum_deposit_amount'', JBig 10), (''maximum_single_settlement_amount'', JBig 5000)]"

definition sample_control_fields :: "field_schema list" where
  "sample_control_fields = typed_fields
     [(''issued_token_mint'', Prim Pubkey), (''issued_token_program'', Prim Pubkey),
      (''control_flags'', Prim U64), (''extension_observed_at_slot'', Prim U64),
      (''max_extension_observation_age_slots'', Prim U64), (''active_mint_extension_mask'', ArrayT (Prim U64) 2)]"

definition sample_control_values :: js_object where
  "sample_control_values =
     [(''issued_token_mint'', JStr (sample_key 6)), (''issued_token_program'', JStr SPL_TOKEN_PROGRAM_ADDRESS),
      (''control_flags'', JBig 9223372036854775808), (''extension_observed_at_slot'', JBig 1000),
      (''max_extension_observation_age_slots'', JBig 0), (''active_mint_extension_mask'', JArr [JBig 0, JBig 0])]"

definition sample_pathway_fields :: "field_schema list" where
  "sample_pathway_fields = typed_fields
     [(''pathway_id'', ArrayT (Prim U8) 32), (''asset_mint'', Prim Pubkey),
      (''issued_token_mint'', Prim Pubkey), (''pathway_kind'', Prim U8),
      (''designated_executor'', Prim Pubkey), (''status_flags'', Prim U64),
      (''source_account_policy'', Prim U64), (''destination_account_policy'', Prim U64),
      (''fee_policy_id'', ArrayT (Prim U8) 32), (''limit_policy_id'', ArrayT (Prim U8) 32),
      (''evidence_policy_id'', ArrayT (Prim U8) 32), (''asset_mint_limit_policy_id'', ArrayT (Prim U8) 32),
      (''asset_redeem_limit_policy_id'', ArrayT (Prim U8) 32), (''counterparty_limit_policy_id'', ArrayT (Prim U8) 32),
      (''executor_limit_policy_id'', ArrayT (Prim U8) 32),
      (''forbidden_collateral_extension_mask'', ArrayT (Prim U64) 2),
      (''forbidden_issued_token_extension_mask'', ArrayT (Prim U64) 2)]"

definition sample_pathway_values :: js_object where
  "sample_pathway_values =
     [(''pathway_id'', JBytes (replicate 32 7)), (''asset_mint'', JStr (sample_key 5)),
      (''issued_token_mint'', JStr (sample_key 6)), (''pathway_kind'', JNum 0),
      (''designated_executor'', JStr (sample_key 0)), (''status_flags'', JBig 1),
      (''source_account_policy'', JBig 0), (''destination_account_policy'', JBig 0),
      (''fee_policy_id'', JBytes (replicate 32 0)), (''limit_policy_id'', JBytes (replicate 32 0)),
      (''evidence_policy_id'', JBytes (replicate 32 0)),
      (''asset_mint_limit_policy_id'', JBytes (replicate 32 0)),
      (''asset_redeem_limit_policy_id'', JBytes (replicate 32 0)),
      (''counterparty_limit_policy_id'', JBytes (replicate 32 0)),
      (''executor_limit_policy_id'', JBytes (replicate 32 0)),
      (''forbidden_collateral_extension_mask'', JArr [JBig 0, JBig 0]),
      (''forbidden_issued_token_extension_mask'', JArr [JBig 0, JBig 0])]"

definition sample_permission_fields :: "field_schema list" where
  "sample_permission_fields = typed_fields
     [(''role_bits'', ArrayT (Prim U64) 2), (''expiry_unix_timestamp'', Prim I64),
      (''permission_flags'', Prim U64), (''subject'', Prim Pubkey), (''scope_kind'', Prim U8),
      (''scope_key'', Prim Pubkey), (''role_schema_version'', Prim U8)]"

definition sample_permission_values :: js_object where
  "sample_permission_values =
     [(''role_bits'', JArr [JBig 1, JBig 0]), (''expiry_unix_timestamp'', JBig 0),
      (''permission_flags'', JBig 0), (''subject'', JStr (sample_key 1)), (''scope_kind'', JNum 2),
      (''scope_key'', JStr (pda_key 7)), (''role_schema_version'', JNum 1)]"

definition sample_reserve_fields :: "field_schema list" where
  "sample_reserve_fields = typed_fields
     [(''asset_mint'', Prim Pubkey)]"

definition sample_fee_fields :: "field_schema list" where
  "sample_fee_fields = typed_fields
     [(''fee_policy_id'', ArrayT (Prim U8) 32)]"

definition server_schema :: chancery_schema where
  "server_schema = sample_schema\<lparr>
     known_pdas := [(''module_activation_state'', \<lparr>known_pda_seeds = [], known_pda_address = sample_key 20\<rparr>),
        (''chancery_config'', \<lparr>known_pda_seeds = [], known_pda_address = sample_key 21\<rparr>),
        (''pause_state'', \<lparr>known_pda_seeds = [], known_pda_address = sample_key 22\<rparr>),
        (''issued_token_control'', \<lparr>known_pda_seeds = [], known_pda_address = sample_key 23\<rparr>),
        (''event_authority'', \<lparr>known_pda_seeds = [], known_pda_address = sample_key 3\<rparr>)],
     schema_accounts :=
       [(''ModuleActivationState'', \<lparr>struct_fields = sample_module_fields, account_discriminator = [1], account_size = 33\<rparr>),
        (''ChanceryConfig'', \<lparr>struct_fields = sample_config_fields, account_discriminator = [2], account_size = 97\<rparr>),
        (''PauseState'', \<lparr>struct_fields = sample_pause_fields, account_discriminator = [3], account_size = 17\<rparr>),
        (''AssetConfig'', \<lparr>struct_fields = sample_asset_fields, account_discriminator = [4], account_size = 162\<rparr>),
        (''IssuedTokenControl'', \<lparr>struct_fields = sample_control_fields, account_discriminator = [5], account_size = 105\<rparr>),
        (''PathwayPolicy'', \<lparr>struct_fields = sample_pathway_fields, account_discriminator = [6], account_size = 410\<rparr>),
        (''PermissionRecord'', \<lparr>struct_fields = sample_permission_fields, account_discriminator = [7], account_size = 99\<rparr>),
        (''ReserveDestination'', \<lparr>struct_fields = sample_reserve_fields, account_discriminator = [8], account_size = 33\<rparr>),
        (''FeePolicy'', \<lparr>struct_fields = sample_fee_fields, account_discriminator = [9], account_size = 33\<rparr>)],
     schema_instructions :=
       [(''mint_direct'', \<lparr>ix_discriminator = [5],
          ix_accounts =
            [\<lparr>ia_name = ''principal'', ia_writable = True, ia_signer = True, ia_optional = False, ia_relations = None,
              ia_pda = None, ia_default = None\<rparr>,
             \<lparr>ia_name = ''pathway_policy'', ia_writable = False, ia_signer = False, ia_optional = False,
              ia_relations = None, ia_pda = None, ia_default = None\<rparr>],
          ix_args = typed_fields [(''pathway_id'', ArrayT (Prim U8) 32), (''asset_amount'', Prim U64),
            (''minimum_issued_token_amount'', Prim U64)]\<rparr>)]\<rparr>"

definition account_bytes :: "string \<Rightarrow> js_object \<Rightarrow> bytes" where
  "account_bytes name values = (case encodeChanceryAccount server_schema name values of Inr data \<Rightarrow> data | Inl _ \<Rightarrow> [])"

definition stored :: "string \<Rightarrow> js_object \<Rightarrow> bool" where
  "stored name values \<longleftrightarrow>
     (\<exists>a n. map_of (schema_accounts server_schema) name = Some a \<and> has_struct server_schema (struct_fields a) values \<and>
       struct_size (struct_fields a) = Some n \<and> account_size a = length (account_discriminator a) + n \<and>
       account_size a \<le> 1000)"

lemma server_wf: "accounts_wf server_schema"
  by (simp add: accounts_wf_def prefix_free_def server_schema_def sample_schema_def)

lemma stored_decoded:
  assumes "stored name vs"
  shows "decodeChanceryAccount server_schema (account_bytes name vs) =
      Inr \<lparr>decoded_account_name = name, decoded_account_values = vs\<rparr>"
    and "length (account_bytes name vs) \<le> 1000"
proof -
  obtain a n where "map_of (schema_accounts server_schema) name = Some a" "has_struct server_schema (struct_fields a) vs"
    "struct_size (struct_fields a) = Some n" "account_size a = length (account_discriminator a) + n" "account_size a \<le> 1000"
    using assms unfolding stored_def by blast
  then show "decodeChanceryAccount server_schema (account_bytes name vs) =
      Inr \<lparr>decoded_account_name = name, decoded_account_values = vs\<rparr>" "length (account_bytes name vs) \<le> 1000"
    using encodeChanceryAccount_fits [of server_schema name a vs n] account_decode_encode [OF server_wf]
    by (fastforce simp: account_bytes_def)+
qed

lemmas typed_defs = has_struct_def has_fields_with_def has_primitive_def

lemmas server_keys = sample_key_is_key pda_key_is_key program_keys sample_key_decoded sample_key_0_decoded pda_key_decoded
  spl_decoded

lemma stored_module: "stored ''ModuleActivationState'' sample_module_values"
  by (simp add: stored_def server_schema_def typed_fields_def sample_module_fields_def sample_module_values_def typed_defs
      server_keys is_ok_iff)

lemma stored_config: "stored ''ChanceryConfig'' sample_config_values"
  by (simp add: stored_def server_schema_def typed_fields_def sample_config_fields_def sample_config_values_def typed_defs
      server_keys is_ok_iff)

lemma stored_pause: "stored ''PauseState'' sample_pause_values"
  by (simp add: stored_def server_schema_def typed_fields_def sample_pause_fields_def sample_pause_values_def typed_defs
      server_keys is_ok_iff)

lemma stored_asset: "stored ''AssetConfig'' sample_asset_values"
  by (simp add: stored_def server_schema_def typed_fields_def sample_asset_fields_def sample_asset_values_def typed_defs
      server_keys is_ok_iff)

lemma stored_control: "stored ''IssuedTokenControl'' sample_control_values"
  by (simp add: stored_def server_schema_def typed_fields_def sample_control_fields_def sample_control_values_def typed_defs
      server_keys is_ok_iff)

lemma stored_pathway: "stored ''PathwayPolicy'' sample_pathway_values"
  by (simp add: stored_def server_schema_def typed_fields_def sample_pathway_fields_def sample_pathway_values_def typed_defs
      server_keys is_ok_iff)

lemma stored_permission: "stored ''PermissionRecord'' sample_permission_values"
  by (simp add: stored_def server_schema_def typed_fields_def sample_permission_fields_def sample_permission_values_def typed_defs
      server_keys is_ok_iff)

section \<open>The server\<close>

definition plain_account :: "string \<Rightarrow> bytes \<Rightarrow> rpc_account_info" where
  "plain_account owner data = \<lparr>ra_data = data, ra_executable = False, ra_lamports = 1, ra_owner = owner,
     ra_rent_epoch = 0, ra_space = int (length data)\<rparr>"

definition state_account :: "string \<Rightarrow> js_object \<Rightarrow> rpc_account_info" where
  "state_account name vs = plain_account (sample_key 9) (account_bytes name vs)"

text \<open>An initialized mint without authorities, and a token account of 4000 units.\<close>

definition mint_bytes :: bytes where
  "mint_bytes = replicate 44 0 @ [6, 1] @ replicate 36 0"

definition token_bytes :: "bytes \<Rightarrow> bytes \<Rightarrow> bytes" where
  "token_bytes mint owner = mint @ owner @ [160, 15, 0, 0, 0, 0, 0, 0] @ replicate 36 0 @ [1] @ replicate 56 0"

text \<open>Slot 1000 of epoch 3, at time 100.\<close>

definition clock_bytes :: bytes where
  "clock_bytes = [232, 3, 0, 0, 0, 0, 0, 0] @ replicate 8 0 @ [3, 0, 0, 0, 0, 0, 0, 0] @ replicate 8 0 @
     [100, 0, 0, 0, 0, 0, 0, 0]"

definition small_key :: "nat \<Rightarrow> bytes" where
  "small_key n = replicate 31 0 @ [word_of_nat n]"

definition server_accounts :: "(bytes \<times> rpc_account_info) list" where
  "server_accounts =
     [(small_key 20, state_account ''ModuleActivationState'' sample_module_values),
      (small_key 21, state_account ''ChanceryConfig'' sample_config_values),
      (small_key 22, state_account ''PauseState'' sample_pause_values),
      (small_key 23, state_account ''IssuedTokenControl'' sample_control_values),
      (server_digest 4, state_account ''AssetConfig'' sample_asset_values),
      (server_digest 7, state_account ''PathwayPolicy'' sample_pathway_values),
      (server_digest 1, state_account ''PermissionRecord'' sample_permission_values),
      (small_key 5, plain_account SPL_TOKEN_PROGRAM_ADDRESS mint_bytes),
      (small_key 6, plain_account SPL_TOKEN_PROGRAM_ADDRESS mint_bytes),
      (small_key 11, plain_account SPL_TOKEN_PROGRAM_ADDRESS (token_bytes (small_key 5) (small_key 1))),
      (small_key 12, plain_account SPL_TOKEN_PROGRAM_ADDRESS (token_bytes (small_key 6) (small_key 1))),
      (server_digest 8, plain_account SPL_TOKEN_PROGRAM_ADDRESS (token_bytes (small_key 5) (server_digest 6))),
      (clock_key_bytes, plain_account (sample_key 0) clock_bytes)]"

definition account_at :: "string \<Rightarrow> rpc_account_info option" where
  "account_at key = (case decodePublicKey (KeyText key) of Inr bs \<Rightarrow> map_of server_accounts bs | Inl _ \<Rightarrow> None)"

definition plain_numbers :: "rpc_account_info \<Rightarrow> platform_numbers" where
  "plain_numbers a = \<lparr>pn_lamports = JNum (ra_lamports a), pn_rent_epoch = JNum (ra_rent_epoch a),
     pn_space = JNum (ra_space a)\<rparr>"

definition json_int :: "int \<Rightarrow> json" where
  "json_int n = JsonNumber (show_int n) (JNum n)"

definition value_json :: "json \<Rightarrow> json" where
  "value_json v = JsonObject [(''value'', v)]"

definition server_result :: "string \<Rightarrow> js list \<Rightarrow> json" where
  "server_result method parameters =
     (if method = ''getAccountInfo'' then
        value_json (case parameters of
          JStr key # _ \<Rightarrow> (case account_at key of Some a \<Rightarrow> account_json a (plain_numbers a) | None \<Rightarrow> JsonNull)
        | _ \<Rightarrow> JsonNull)
      else if method = ''getProgramAccounts'' then
        JsonArray [JsonObject [(''pubkey'', JsonString (pda_key 7)),
          (''account'', account_json (state_account ''PathwayPolicy'' sample_pathway_values)
             (plain_numbers (state_account ''PathwayPolicy'' sample_pathway_values)))]]
      else if method = ''getSlot'' then json_int 1000
      else if method = ''getLatestBlockhash'' then
        value_json (JsonObject [(''blockhash'', JsonString (sample_key 4)), (''lastValidBlockHeight'', json_int 2000)])
      else if method = ''simulateTransaction'' then value_json (JsonObject [(''err'', JsonNull)])
      else if method = ''sendTransaction'' then JsonString ''signature''
      else if method = ''getSignatureStatuses'' then
        value_json (JsonArray [JsonObject [(''slot'', json_int 1001), (''confirmations'', JsonNull), (''err'', JsonNull),
          (''confirmationStatus'', JsonString ''finalized'')]])
      else JsonNull)"

definition server :: "unit fetch" where
  "server call w = Inr (\<lparr>hr_ok = True, hr_body = Inr (JsonObject [(''jsonrpc'', JsonString ''2.0''),
     (''result'', server_result (rc_method call) (rc_params call))])\<rparr>, w)"

section \<open>Runs against the server\<close>

definition slot_ok :: "'w rpc \<Rightarrow> bool" where
  "slot_ok st \<longleftrightarrow> (\<forall>slot. rpc_minimum_context_slot st = Some slot \<longrightarrow> slot \<le> MAX_SAFE_INTEGER)"

definition answers :: "('w, 'a) rpc_io \<Rightarrow> 'a \<Rightarrow> bool" where
  "answers m x \<longleftrightarrow> (\<forall>st. slot_ok st \<longrightarrow> (\<exists>st'. m st = Inr (x, st') \<and> slot_ok st'))"

lemma answers_bind: "answers m x \<Longrightarrow> answers (f x) y \<Longrightarrow> answers (bindP m f) y"
  unfolding answers_def bindP_Inr by meson

lemma answers_lift: "r = Inr x \<Longrightarrow> answers (liftP r) x"
  by (auto simp: answers_def liftP_Inr)

lemma answers_return: "answers (returnP x) x"
  by (auto simp: answers_def returnP_Inr)

lemma answers_each: "list_all2 (\<lambda>x y. answers (f x) y) xs ys \<Longrightarrow> answers (eachP f xs) ys"
  by (induction xs ys rule: list_all2_induct) (auto intro: answers_bind answers_return)

lemma answers_slot: "0 \<le> n \<Longrightarrow> n \<le> MAX_SAFE_INTEGER \<Longrightarrow> answers (setMinimumContextSlot (Some n)) ()"
  by (auto simp: answers_def setMinimumContextSlot_def slot_ok_def)

lemma answers_configuration: "(\<And>c. answers (f c) x) \<Longrightarrow> answers (bindP (contextConfiguration configuration) f) x"
proof -
  assume f: "\<And>c. answers (f c) x"
  have "\<exists>c. contextConfiguration configuration st = Inr (c, st)" if "slot_ok st" for st :: "'w rpc"
    using that by (cases "rpc_minimum_context_slot st") (auto simp: contextConfiguration_def slot_ok_def)
  with f show ?thesis unfolding answers_def bindP_Inr by meson
qed

lemma answers_request: "answers (rpc_request server method parameters) (parseJsonRpcResponse (server_result method parameters))"
  by (auto simp: answers_def rpc_request_def Let_def server_def object_of_def response_result_def obj_get_def slot_ok_def)

lemma answers_getAccountInfo:
  assumes "is_key key" "account_at key = Some a" "account_ok a (plain_numbers a)"
  shows "answers (getAccountInfo server (KeyText key) commitment) (Some a)"
proof -
  have "parseJsonRpcResponse (account_json a (plain_numbers a)) \<noteq> JNull" by (simp add: account_json_def)
  then show ?thesis
    unfolding getAccountInfo_def using assms account_value_exact [OF assms(3)]
    by (intro answers_bind [OF answers_lift [where x = key]] answers_configuration answers_bind [OF answers_request]
        answers_lift) (simp_all add: server_result_def value_json_def parseAccountInfoResult_def recordFromUnknown_def
        object_of_def obj_get_def)
qed

lemma answers_getAccountInfo_missing:
  assumes "is_key key" "account_at key = None"
  shows "answers (getAccountInfo server (KeyText key) commitment) None"
  unfolding getAccountInfo_def using assms
  by (intro answers_bind [OF answers_lift [where x = key]] answers_configuration answers_bind [OF answers_request] answers_lift)
    (simp_all add: server_result_def value_json_def parseAccountInfoResult_def recordFromUnknown_def
      object_of_def obj_get_def)

lemma plain_account_ok: "is_key owner \<Longrightarrow> length data \<le> 1000 \<Longrightarrow> account_ok (plain_account owner data)
    (plain_numbers (plain_account owner data))"
  by (simp add: account_ok_def plain_account_def plain_numbers_def double_of_def is_safe_integer_def MAX_SAFE_INTEGER_def)

lemma state_account_ok: "stored name vs \<Longrightarrow> account_ok (state_account name vs) (plain_numbers (state_account name vs))"
  unfolding state_account_def using stored_decoded(2) by (simp add: plain_account_ok sample_key_is_key)

section \<open>What is loaded\<close>

definition server_client :: "unit client" where
  "server_client = \<lparr>cc_hash = server_hash, cc_schema = server_schema, cc_crypto = sample_crypto, cc_fetch = server,
     cc_commitment = Confirmed\<rparr>"

lemma server_program: "CHANCERY_PROGRAM_ADDRESS server_client = sample_key 9" "ZERO_ADDRESS server_client = sample_key 0"
  "program_address (schema_program server_schema) = sample_key 9"
  by (simp_all add: CHANCERY_PROGRAM_ADDRESS_def ZERO_ADDRESS_def server_client_def server_schema_def sample_schema_def)

lemma server_client_parts: "cc_hash server_client = server_hash" "cc_schema server_client = server_schema"
  "cc_crypto server_client = sample_crypto" "cc_fetch server_client = server" "cc_commitment server_client = Confirmed"
  by (simp_all add: server_client_def)

definition loaded :: "string \<Rightarrow> string \<Rightarrow> js_object \<Rightarrow> state_snapshot" where
  "loaded address name vs = snapshotFromDecoded address (state_account name vs) name vs"

lemma answers_state:
  assumes "is_key key" "account_at key = Some (state_account name vs)" "stored name vs"
  shows "answers (loadChanceryState server_client key name missing) (loaded key name vs)"
  unfolding loadChanceryState_def
proof (intro answers_bind answers_lift)
  show "key_of key = Inr key" by (simp add: key_of_def assms(1))
  show "answers (getAccountInfo (cc_fetch server_client) (KeyText key) (cc_commitment server_client))
      (Some (state_account name vs))"
    using answers_getAccountInfo [OF assms(1,2) state_account_ok [OF assms(3)]] by (simp add: server_client_parts)
  have "ra_owner (state_account name vs) = sample_key 9" "ra_data (state_account name vs) = account_bytes name vs"
    by (simp_all add: state_account_def plain_account_def)
  then show "state_of_account server_client key name missing (Some (state_account name vs)) = Inr (loaded key name vs)"
    using stored_decoded(1) [OF assms(3)]
    by (simp add: state_of_account_def server_program loaded_def server_client_parts)
qed

lemma small_key_decoded: "0 < n \<Longrightarrow> n < 58 \<Longrightarrow> decodePublicKey (KeyText (sample_key n)) = Inr (small_key n)"
  by (simp add: sample_key_decoded small_key_def)

lemma keys_apart: "small_key m \<noteq> server_digest n" "small_key m \<noteq> clock_key_bytes" "server_digest n \<noteq> clock_key_bytes"
  "small_key i = small_key j \<longleftrightarrow> (word_of_nat i :: byte) = word_of_nat j"
  "server_digest i = server_digest j \<longleftrightarrow> (word_of_nat (237 + i) :: byte) = word_of_nat (237 + j)"
proof -
  have "small_key m ! 30 = 0" "server_digest n ! 30 = 255" "clock_key_bytes ! 30 = 0" "small_key m ! 0 = 0"
    "clock_key_bytes ! 0 = 6"
    by (simp_all add: small_key_def server_digest_def clock_key_bytes_def nth_append nth_Cons')
  then show "small_key m \<noteq> server_digest n" "small_key m \<noteq> clock_key_bytes" "server_digest n \<noteq> clock_key_bytes"
    by fastforce+
qed (simp_all add: small_key_def server_digest_def)

lemma accounts_found:
  "account_at (sample_key 20) = Some (state_account ''ModuleActivationState'' sample_module_values)"
  "account_at (sample_key 21) = Some (state_account ''ChanceryConfig'' sample_config_values)"
  "account_at (sample_key 22) = Some (state_account ''PauseState'' sample_pause_values)"
  "account_at (sample_key 23) = Some (state_account ''IssuedTokenControl'' sample_control_values)"
  "account_at (pda_key 4) = Some (state_account ''AssetConfig'' sample_asset_values)"
  "account_at (pda_key 7) = Some (state_account ''PathwayPolicy'' sample_pathway_values)"
  "account_at (pda_key 1) = Some (state_account ''PermissionRecord'' sample_permission_values)"
  "account_at (pda_key 17) = None"
  "account_at (sample_key 5) = Some (plain_account SPL_TOKEN_PROGRAM_ADDRESS mint_bytes)"
  "account_at (sample_key 6) = Some (plain_account SPL_TOKEN_PROGRAM_ADDRESS mint_bytes)"
  "account_at (sample_key 11) = Some (plain_account SPL_TOKEN_PROGRAM_ADDRESS (token_bytes (small_key 5) (small_key 1)))"
  "account_at (sample_key 12) = Some (plain_account SPL_TOKEN_PROGRAM_ADDRESS (token_bytes (small_key 6) (small_key 1)))"
  "account_at (pda_key 8) = Some (plain_account SPL_TOKEN_PROGRAM_ADDRESS (token_bytes (small_key 5) (server_digest 6)))"
  "account_at CLOCK_SYSVAR = Some (plain_account (sample_key 0) clock_bytes)"
  by (simp_all add: account_at_def server_accounts_def small_key_decoded pda_key_decoded clock_decoded keys_apart
      keys_apart(1-3) [symmetric])

end
