(* ===== verification/SampleRun.thy ===== *)
theory SampleRun
  imports SampleServer
begin

text \<open>
  An inspection that succeeds: a direct mint of 1000 units against the server of \<open>SampleServer\<close>, phase by phase, and the
  submission of what it found.
\<close>

section \<open>The request\<close>

definition mint_request :: operation_request where
  "mint_request = \<lparr>rq_action = ''mint'', rq_mode = ''direct'', rq_asset_mint = sample_key 5, rq_principal = sample_key 1,
     rq_amount = Some 1000, rq_minimum_output = None, rq_pathway_id = None, rq_intent_id = None, rq_executor = None,
     rq_principal_b = None, rq_source = Some (sample_key 11), rq_destination = Some (sample_key 12),
     rq_fee_recipient = None, rq_rent_refund = None, rq_now = None\<rparr>"

definition sample_normalized :: normalized_request where
  "sample_normalized = \<lparr>nr_action = Mint, nr_mode = Direct, nr_asset_mint = sample_key 5, nr_principal = sample_key 1,
     nr_amount = Some 1000, nr_minimum_output = None, nr_pathway_id = None, nr_intent_id = None, nr_executor = None,
     nr_principal_b = None, nr_source = Some (sample_key 11), nr_destination = Some (sample_key 12),
     nr_fee_recipient = None, nr_rent_refund = None, nr_now = 100\<rparr>"

definition sample_observation :: observation_context where
  "sample_observation = \<lparr>oc_slot = 1000, oc_timestamp = 100, oc_epoch = 3, oc_commitment = Confirmed,
     oc_expires_after = 1064, oc_overridden = False\<rparr>"

lemma run_slot: "answers (getSlot server commitment) 1000"
  unfolding getSlot_def
  by (rule answers_bind [OF answers_request answers_lift])
    (simp add: server_result_def json_int_def reviveUnsafeInteger_def is_safe_integer_def MAX_SAFE_INTEGER_def
      parseUnsignedBigInteger_def)

lemma run_clock: "answers (getClock server commitment) \<lparr>ck_slot = 1000, ck_epoch_start = 0, ck_epoch = 3,
    ck_leader_schedule_epoch = 0, ck_unix_timestamp = 100\<rparr>"
  unfolding getClock_def
proof (intro answers_bind answers_lift)
  show "answers (getAccountInfo server (KeyText CLOCK_SYSVAR) commitment) (Some (plain_account (sample_key 0) clock_bytes))"
    by (rule answers_getAccountInfo)
      (simp_all add: program_keys accounts_found plain_account_ok sample_key_is_key clock_bytes_def)
  show "parse_clock (Some (plain_account (sample_key 0) clock_bytes)) = Inr \<lparr>ck_slot = 1000, ck_epoch_start = 0,
      ck_epoch = 3, ck_leader_schedule_epoch = 0, ck_unix_timestamp = 100\<rparr>"
    by (simp add: parse_clock_def plain_account_def clock_bytes_def clock_field_def Let_def decodeUnsignedInteger_def
        decodeSignedInteger_def)
qed

lemma run_normalized: "normalizeRequest mint_request 100 = Inr sample_normalized"
  by (simp add: normalizeRequest_def mint_request_def sample_normalized_def action_of_def mode_of_def key_of_def
      optionalR_def sample_key_is_key)

lemma run_observe: "answers (observe_context server_client mint_request) (sample_normalized, sample_observation)"
  unfolding observe_context_def server_client_parts Let_def
proof (intro answers_bind)
  show "answers (getSlot server Confirmed) 1000" by (rule run_slot)
  show "answers (setMinimumContextSlot (Some 1000)) ()" by (rule answers_slot) (simp_all add: MAX_SAFE_INTEGER_def)
  let ?clock = "\<lparr>ck_slot = 1000, ck_epoch_start = 0, ck_epoch = 3, ck_leader_schedule_epoch = 0, ck_unix_timestamp = 100\<rparr>"
  show "answers (getClock server Confirmed) ?clock" by (rule run_clock)
  show "answers (setMinimumContextSlot (Some (ck_slot ?clock))) ()"
    by (rule answers_slot) (simp_all add: MAX_SAFE_INTEGER_def)
  have now: "rq_now mint_request = None" by (simp add: mint_request_def)
  show "answers (liftP (normalizeRequest mint_request (case rq_now mint_request of Some t \<Rightarrow> t
      | None \<Rightarrow> ck_unix_timestamp ?clock))) sample_normalized"
    by (rule answers_lift) (simp add: now run_normalized)
  show "answers (returnP (sample_normalized, \<lparr>oc_slot = ck_slot ?clock,
      oc_timestamp = (case rq_now mint_request of Some t \<Rightarrow> t | None \<Rightarrow> ck_unix_timestamp ?clock), oc_epoch = ck_epoch ?clock,
      oc_commitment = Confirmed, oc_expires_after = ck_slot ?clock + 64, oc_overridden = (rq_now mint_request \<noteq> None)\<rparr>))
      (sample_normalized, sample_observation)"
    by (simp add: now sample_observation_def answers_return)
qed

section \<open>The accounts of the program\<close>

definition named :: "string \<Rightarrow> string \<Rightarrow> bytes list \<Rightarrow> named_program_address" where
  "named address name seeds = \<lparr>pda_address = address, pda_bump = 255, np_name = name,
     np_seeds = map (\<lambda>seed. ''0x'' @ bytesToHex seed) seeds\<rparr>"

lemma named_found:
  "seeds_ok 15 seeds \<Longrightarrow> 6 < length (concat seeds) \<Longrightarrow>
   deriveNamedProgramAddress server_hash server_schema name seeds =
     Inr (named (pda_key (unat (concat seeds ! 6) mod 19)) name seeds)"
  by (simp add: deriveNamedProgramAddress_def server_program sample_key_is_key server_find named_def)

lemma small_key_length: "length (small_key n) = 32"
  by (simp add: small_key_def)

definition sample_core :: core_accounts where
  "sample_core = \<lparr>ca_module_activation = loaded (sample_key 20) ''ModuleActivationState'' sample_module_values,
     ca_config = loaded (sample_key 21) ''ChanceryConfig'' sample_config_values,
     ca_pause_state = loaded (sample_key 22) ''PauseState'' sample_pause_values,
     ca_asset_config = loaded (pda_key 4) ''AssetConfig'' sample_asset_values,
     ca_asset_pause = missing_snapshot (pda_key 17) ''AssetPauseState'' None None,
     ca_issued_control = loaded (sample_key 23) ''IssuedTokenControl'' sample_control_values\<rparr>"

lemma run_known:
  "knownPdaAddress server_schema ''module_activation_state'' = Inr (sample_key 20)"
  "knownPdaAddress server_schema ''chancery_config'' = Inr (sample_key 21)"
  "knownPdaAddress server_schema ''pause_state'' = Inr (sample_key 22)"
  "knownPdaAddress server_schema ''issued_token_control'' = Inr (sample_key 23)"
  by (simp_all add: knownPdaAddress_def server_schema_def)

lemma run_addresses:
  "\<exists>seeds. deriveAssetConfigAddress server_hash server_schema (KeyText (sample_key 5)) = Inr (named (pda_key 4) ''asset_config'' seeds)"
  "\<exists>seeds. deriveAssetPauseStateAddress server_hash server_schema (KeyText (sample_key 5)) = Inr (named (pda_key 17) ''asset_pause_state'' seeds)"
  "\<exists>seeds. deriveSingletonAddress server_hash server_schema ''mint_authority_pda'' ''mint-authority''
     = Inr (named (pda_key 3) ''mint_authority_pda'' seeds)"
  "\<exists>seeds. deriveSingletonAddress server_hash server_schema ''reserve_authority_pda'' ''reserve-authority''
     = Inr (named (pda_key 6) ''reserve_authority_pda'' seeds)"
  "\<exists>seeds. derivePathwayPolicyAddress server_hash server_schema (KeyBytes (replicate 32 7))
     = Inr (named (pda_key 7) ''pathway_policy'' seeds)"
  "\<exists>seeds. derivePermissionRecordAddress server_hash server_schema (KeyText (sample_key 1)) (JNum 2) (KeyText (pda_key 7))
     = Inr (named (pda_key 1) ''permission_record'' seeds)"
  by (simp_all add: deriveAssetConfigAddress_def deriveAssetPauseStateAddress_def deriveSingletonAddress_def
      derivePathwayPolicyAddress_def derive_from_id_def bytes32FromInput_def derivePermissionRecordAddress_def assertByte_def
      named_found small_key_decoded small_key_length pda_key_decoded server_digest_length utf8_encode_def utf8_unit_def)
    blast+

lemma run_missing: "answers (loadChanceryState server_client (pda_key 17) ''AssetPauseState'' True)
    (missing_snapshot (pda_key 17) ''AssetPauseState'' None None)"
  unfolding loadChanceryState_def server_client_parts
proof (intro answers_bind answers_lift)
  show "key_of (pda_key 17) = Inr (pda_key 17)" by (simp add: key_of_def pda_key_is_key)
  show "answers (getAccountInfo server (KeyText (pda_key 17)) Confirmed) None"
    by (rule answers_getAccountInfo_missing) (simp_all add: pda_key_is_key accounts_found)
  show "state_of_account server_client (pda_key 17) ''AssetPauseState'' True None =
      Inr (missing_snapshot (pda_key 17) ''AssetPauseState'' None None)"
    by (simp add: state_of_account_def)
qed

lemma run_loaded:
  "answers (loadChanceryState server_client (sample_key 20) ''ModuleActivationState'' m) (ca_module_activation sample_core)"
  "answers (loadChanceryState server_client (sample_key 21) ''ChanceryConfig'' m) (ca_config sample_core)"
  "answers (loadChanceryState server_client (sample_key 22) ''PauseState'' m) (ca_pause_state sample_core)"
  "answers (loadChanceryState server_client (pda_key 4) ''AssetConfig'' m) (ca_asset_config sample_core)"
  "answers (loadChanceryState server_client (sample_key 23) ''IssuedTokenControl'' m) (ca_issued_control sample_core)"
  "answers (loadChanceryState server_client (pda_key 7) ''PathwayPolicy'' m) (loaded (pda_key 7) ''PathwayPolicy'' sample_pathway_values)"
  "answers (loadChanceryState server_client (pda_key 1) ''PermissionRecord'' m)
     (loaded (pda_key 1) ''PermissionRecord'' sample_permission_values)"
  unfolding sample_core_def core_accounts.select_convs
  by (rule answers_state; simp del: One_nat_def add: sample_key_is_key pda_key_is_key accounts_found stored_module stored_config stored_pause
      stored_asset stored_control stored_pathway stored_permission)+

lemma run_core: "\<exists>mintAuthority reserveAuthority pdas. pda_address mintAuthority = pda_key 3 \<and>
    pda_address reserveAuthority = pda_key 6 \<and>
    answers (load_core server_client sample_normalized) (sample_core, mintAuthority, reserveAuthority, pdas)"
proof -
  obtain s1 s2 s3 s4 where
    "deriveAssetConfigAddress server_hash server_schema (KeyText (sample_key 5)) = Inr (named (pda_key 4) ''asset_config'' s1)"
    "deriveAssetPauseStateAddress server_hash server_schema (KeyText (sample_key 5)) = Inr (named (pda_key 17) ''asset_pause_state'' s2)"
    "deriveSingletonAddress server_hash server_schema ''mint_authority_pda'' ''mint-authority''
     = Inr (named (pda_key 3) ''mint_authority_pda'' s3)"
    "deriveSingletonAddress server_hash server_schema ''reserve_authority_pda'' ''reserve-authority''
     = Inr (named (pda_key 6) ''reserve_authority_pda'' s4)"
    using run_addresses by blast
  note derived = this
  have mint: "nr_asset_mint sample_normalized = sample_key 5" by (simp add: sample_normalized_def)
  have addresses: "pda_address (named k n s) = k" for k n s by (simp add: named_def)
  have "answers (load_core server_client sample_normalized) (sample_core, named (pda_key 3) ''mint_authority_pda'' s3,
      named (pda_key 6) ''reserve_authority_pda'' s4, [named (pda_key 4) ''asset_config'' s1,
      named (pda_key 17) ''asset_pause_state'' s2, named (pda_key 3) ''mint_authority_pda'' s3,
      named (pda_key 6) ''reserve_authority_pda'' s4])"
    unfolding load_core_def Let_def server_client_parts mint
    apply (rule answers_bind [OF answers_lift [OF run_known(1)]])
    apply (rule answers_bind [OF answers_lift [OF run_known(2)]])
    apply (rule answers_bind [OF answers_lift [OF run_known(3)]])
    apply (rule answers_bind [OF answers_lift [OF run_known(4)]])
    apply (rule answers_bind [OF answers_lift [OF derived(1)]])
    apply (rule answers_bind [OF answers_lift [OF derived(2)]])
    apply (rule answers_bind [OF answers_lift [OF derived(3)]])
    apply (rule answers_bind [OF answers_lift [OF derived(4)]])
    unfolding addresses
    apply (rule answers_bind [OF run_loaded(1)])
    apply (rule answers_bind [OF run_loaded(2)])
    apply (rule answers_bind [OF run_loaded(3)])
    apply (rule answers_bind [OF run_loaded(4)])
    apply (rule answers_bind [OF run_missing])
    apply (rule answers_bind [OF run_loaded(5)])
    apply (simp add: sample_core_def answers_return)
    done
  then show ?thesis using addresses by blast
qed

section \<open>The mints, the parties and the pathway\<close>

definition decoded_mint :: decoded_token_mint where
  "decoded_mint = \<lparr>tm_mint_authority = None, tm_supply = 0, tm_decimals = 6, tm_initialized = True,
     tm_freeze_authority = None, tm_base_size = 82, tm_total_size = 82, tm_has_extensions = False, tm_account_type = None,
     tm_extensions = [], tm_transfer_fee_config = None, tm_transfer_hook = None, tm_unmodeled = False\<rparr>"

definition mint_snapshot :: "string \<Rightarrow> token_mint_snapshot" where
  "mint_snapshot key = \<lparr>ms_address = key, ms_program = SPL_TOKEN_PROGRAM_ADDRESS, ms_exists = True,
     ms_values = Some decoded_mint\<rparr>"

lemma run_decoded_mint: "decodeTokenMint mint_bytes = Inr decoded_mint"
proof -
  have "decodeCOptionPublicKey mint_bytes 0 = Inr None" "readUnsignedLittleEndian mint_bytes 36 8 = Inr 0"
    "decodeCOptionPublicKey mint_bytes 46 = Inr None"
    by (simp_all add: mint_bytes_def decodeCOptionPublicKey_def readUnsignedLittleEndian_def sliceExact_def fold_little_endian
        decodeUnsignedInteger_def numeral_eq_Suc)
  moreover have "mint_bytes ! 44 = 6" "mint_bytes ! 45 = 1" "length mint_bytes = 82"
    by (simp_all add: mint_bytes_def nth_append)
  ultimately show ?thesis
    by (simp add: decodeTokenMint_def decoded_mint_def decodeToken2022MintExtensions_def EMPTY_TLV_def)
qed

lemma run_mint: "n = 5 \<or> n = 6 \<Longrightarrow>
    answers (loadTokenMint server_client (sample_key n) SPL_TOKEN_PROGRAM_ADDRESS) (mint_snapshot (sample_key n))"
  unfolding loadTokenMint_def server_client_parts
proof (intro answers_bind answers_lift)
  assume n: "n = 5 \<or> n = 6"
  then show "key_of (sample_key n) = Inr (sample_key n)" by (auto simp: key_of_def sample_key_is_key)
  show "answers (getAccountInfo server (KeyText (sample_key n)) Confirmed) (Some (plain_account SPL_TOKEN_PROGRAM_ADDRESS mint_bytes))"
    using n by (intro answers_getAccountInfo plain_account_ok)
      (auto simp: sample_key_is_key accounts_found program_keys mint_bytes_def)
  show "mint_of_account (sample_key n) SPL_TOKEN_PROGRAM_ADDRESS (Some (plain_account SPL_TOKEN_PROGRAM_ADDRESS mint_bytes))
      = Inr (mint_snapshot (sample_key n))"
    by (simp add: mint_of_account_def plain_account_def run_decoded_mint mint_snapshot_def)
qed

definition sample_bindings :: settlement_bindings where
  "sample_bindings = \<lparr>sb_asset_values = sample_asset_values, sb_control_values = sample_control_values,
     sb_issued_mint = sample_key 6, sb_issued_program = SPL_TOKEN_PROGRAM_ADDRESS,
     sb_asset_program = SPL_TOKEN_PROGRAM_ADDRESS, sb_asset_snapshot = mint_snapshot (sample_key 5),
     sb_issued_snapshot = mint_snapshot (sample_key 6)\<rparr>"

lemma run_supported: "assertSupportedTokenProgram (KeyText SPL_TOKEN_PROGRAM_ADDRESS) = Inr SPL_TOKEN_PROGRAM_ADDRESS"
  by (simp add: assertSupportedTokenProgram_def isSupportedTokenProgram_def program_keys)

lemma run_fields:
  "requirePublicKeyField sample_config_values ''issued_token_mint'' = Inr (sample_key 6)"
  "requirePublicKeyField sample_config_values ''issued_token_program'' = Inr SPL_TOKEN_PROGRAM_ADDRESS"
  "requirePublicKeyField sample_config_values ''mint_authority_pda'' = Inr (pda_key 3)"
  "requirePublicKeyField sample_asset_values ''asset_token_program'' = Inr SPL_TOKEN_PROGRAM_ADDRESS"
  "requirePublicKeyField sample_asset_values ''asset_mint'' = Inr (sample_key 5)"
  "requirePublicKeyField sample_control_values ''issued_token_mint'' = Inr (sample_key 6)"
  "requirePublicKeyField sample_control_values ''issued_token_program'' = Inr SPL_TOKEN_PROGRAM_ADDRESS"
  by (simp_all add: requirePublicKeyField_def obj_get_def sample_config_values_def sample_asset_values_def
      sample_control_values_def sample_key_is_key pda_key_is_key program_keys)

lemma loaded_values: "requireSnapshotValues (loaded key name vs) = Inr vs" "cs_values (loaded key name vs) = Some vs"
  "cs_address (loaded key name vs) = key" "cs_exists (loaded key name vs)"
  by (simp_all add: requireSnapshotValues_def loaded_def snapshotFromDecoded_def)

lemma run_core_values:
  "requireSnapshotValues (ca_config sample_core) = Inr sample_config_values"
  "requireSnapshotValues (ca_asset_config sample_core) = Inr sample_asset_values"
  "requireSnapshotValues (ca_issued_control sample_core) = Inr sample_control_values"
  "requireSnapshotValues (ca_module_activation sample_core) = Inr sample_module_values"
  "requireSnapshotValues (ca_pause_state sample_core) = Inr sample_pause_values"
  by (simp_all add: sample_core_def loaded_values)

lemma run_bindings: "answers (load_bindings server_client sample_normalized sample_core (pda_key 3)) (sample_bindings, [])"
proof -
  have mint: "nr_asset_mint sample_normalized = sample_key 5" by (simp add: sample_normalized_def)
  show ?thesis
    unfolding load_bindings_def mint
    apply (rule answers_bind [OF answers_lift [OF run_core_values(1)]])
    apply (rule answers_bind [OF answers_lift [OF run_core_values(2)]])
    apply (rule answers_bind [OF answers_lift [OF run_core_values(3)]])
    apply (rule answers_bind [OF answers_lift [OF run_fields(1)]])
    apply (rule answers_bind [OF answers_lift [where x = SPL_TOKEN_PROGRAM_ADDRESS]])
     apply (simp add: run_fields run_supported)
    apply (rule answers_bind [OF answers_lift [where x = SPL_TOKEN_PROGRAM_ADDRESS]])
     apply (simp add: run_fields run_supported)
    apply (rule answers_bind [OF run_mint], simp)
    apply (rule answers_bind [OF run_mint], simp)
    apply (rule answers_bind [OF answers_lift [OF run_fields(5)]])
    apply (rule answers_bind [OF answers_lift [OF run_fields(6)]])
    apply (rule answers_bind [OF answers_lift [OF run_fields(7)]])
    apply (rule answers_bind [OF answers_lift [OF run_fields(3)]])
    apply (simp add: sample_bindings_def mint_issues_def mint_snapshot_def decoded_mint_def issues_of_def answers_return)
    done
qed

definition sample_identity :: operation_identity where
  "sample_identity = \<lparr>id_principal_a = sample_key 1, id_principal_b = sample_key 1, id_executor = sample_key 1,
     id_intent_id = None, id_pathway_constraint = None, id_input_amount = 1000, id_minimum_output = None, id_intent = None,
     id_settlement_policy = NO_POLICY, id_rent_refund = sample_key 1\<rparr>"

lemma run_identity: "answers (resolveOperationIdentity server_client sample_normalized) (sample_identity, [])"
proof -
  have "direct_identity sample_normalized = Inr sample_identity" "nr_mode sample_normalized = Direct"
    by (simp_all add: direct_identity_def Let_def sample_normalized_def sample_identity_def)
  then show ?thesis
    by (simp add: resolveOperationIdentity_def answers_bind [OF answers_lift] answers_return)
qed

definition sample_candidate :: pathway_candidate where
  "sample_candidate = \<lparr>pc_address = pda_key 7, pc_pathway_id = ''0x'' @ bytesToHex (replicate 32 7),
     pc_asset_mint = sample_key 5, pc_issued_token_mint = sample_key 6, pc_kind = 0, pc_executor = sample_key 0,
     pc_active = True, pc_asset = True, pc_issued = True, pc_mode = True, pc_requested_id = True, pc_canonical = True\<rparr>"

definition sample_listing :: rpc_address_account_info where
  "sample_listing = \<lparr>rx_address = pda_key 7, rx_account = state_account ''PathwayPolicy'' sample_pathway_values\<rparr>"

lemma run_listing: "answers (getProgramAccounts server (KeyText (sample_key 9)) filters commitment) [sample_listing]"
proof -
  have ok: "account_ok (state_account ''PathwayPolicy'' sample_pathway_values)
      (plain_numbers (state_account ''PathwayPolicy'' sample_pathway_values))"
    by (rule state_account_ok [OF stored_pathway])
  show ?thesis
    unfolding getProgramAccounts_def
    by (intro answers_bind [OF answers_lift [where x = "sample_key 9"]] answers_configuration
        answers_bind [OF answers_request] answers_lift)
      (simp_all add: sample_key_is_key server_result_def array_of_def parse_address_account_def recordFromUnknown_def
        object_of_def obj_get_def pda_key_is_key account_value_exact [OF ok] sample_listing_def)
qed

lemma run_accounts_of_type:
  "typeName = ''PathwayPolicy'' \<or> typeName = ''ReserveDestination'' \<Longrightarrow>
   answers (accounts_of_type server_client typeName) [sample_listing]"
proof -
  assume "typeName = ''PathwayPolicy'' \<or> typeName = ''ReserveDestination''"
  then obtain a where "getAccountSchema server_schema typeName = Inr a"
    by (auto simp: getAccountSchema_def lookup_or_def server_schema_def)
  then show ?thesis
    unfolding accounts_of_type_def server_client_parts server_program
    by (intro answers_bind [OF answers_lift] run_listing)
qed

lemma run_values: "values_of_type server_client typeName sample_listing =
    Inr (if typeName = ''PathwayPolicy'' then Some sample_pathway_values else None)"
proof -
  have "ra_owner (rx_account sample_listing) = sample_key 9"
    "ra_data (rx_account sample_listing) = account_bytes ''PathwayPolicy'' sample_pathway_values"
    by (simp_all add: sample_listing_def state_account_def plain_account_def)
  then show ?thesis
    using stored_decoded(1) [OF stored_pathway] by (simp add: values_of_type_def server_program server_client_parts)
qed

lemma run_pathway_fields:
  "obj_get sample_pathway_values ''pathway_id'' = JBytes (replicate 32 7)"
  "requirePublicKeyField sample_pathway_values ''asset_mint'' = Inr (sample_key 5)"
  "requirePublicKeyField sample_pathway_values ''issued_token_mint'' = Inr (sample_key 6)"
  "requireNumberField sample_pathway_values ''pathway_kind'' = Inr 0"
  "requirePublicKeyField sample_pathway_values ''designated_executor'' = Inr (sample_key 0)"
  "pathwayIsActive sample_pathway_values = Inr True"
  "requireBigIntField sample_pathway_values ''status_flags'' = Inr 1"
  "nonzero_bigint sample_pathway_values ''source_account_policy'' = Inr False"
  "nonzero_bigint sample_pathway_values ''destination_account_policy'' = Inr False"
  by (simp_all add: field_defs pathwayIsActive_def nonzero_bigint_def sample_pathway_values_def sample_key_is_key
      bit_numeral_rec bit_1_iff)

lemma run_requireBytes: "length bs = n \<Longrightarrow> requireBytes (JBytes bs) n = Inr bs"
  by (simp add: requireBytes_def)

lemma run_candidate:
  "candidate_of server_client sample_normalized None (sample_key 6) (pda_key 7) sample_pathway_values = Inr sample_candidate"
proof -
  obtain seeds where derived: "derivePathwayPolicyAddress server_hash server_schema (KeyBytes (replicate 32 7))
     = Inr (named (pda_key 7) ''pathway_policy'' seeds)" using run_addresses(5) by blast
  have "pda_address (named k n s) = k" for k n s by (simp add: named_def)
  then show ?thesis
    unfolding candidate_of_def server_client_parts run_pathway_fields
    by (simp add: run_requireBytes derived bytes32Hex_def matches_id_def sample_candidate_def sample_normalized_def del: bindR_eq_Inr)
qed

lemma run_discover: "answers (discoverPathways server_client sample_normalized None (sample_key 6)) [sample_candidate]"
proof -
  have address: "rx_address sample_listing = pda_key 7" by (simp add: sample_listing_def)
  have "pathway_of_account server_client sample_normalized None (sample_key 6) sample_listing = Inr (Some sample_candidate)"
    using address by (simp add: pathway_of_account_def run_values optionalR_def run_candidate)
  then have "mapR (pathway_of_account server_client sample_normalized None (sample_key 6)) [sample_listing] =
      Inr [Some sample_candidate]" by simp
  then show ?thesis
    unfolding discoverPathways_def
    apply (intro answers_bind [OF run_accounts_of_type])
     apply simp
    apply (rule answers_bind [OF answers_lift], assumption)
    apply (simp add: List.map_filter_def answers_return)
    done
qed

lemma run_pathway: "\<exists>pda. answers (load_pathway server_client sample_normalized sample_identity (sample_key 6))
    ([sample_candidate], loaded (pda_key 7) ''PathwayPolicy'' sample_pathway_values, sample_pathway_values, pda, [])"
proof -
  obtain seeds where derived: "derivePathwayPolicyAddress server_hash server_schema (KeyBytes (replicate 32 7))
     = Inr (named (pda_key 7) ''pathway_policy'' seeds)" using run_addresses(5) by blast
  have issues: "pathway_issues server_client sample_normalized sample_identity sample_pathway_values = Inr []"
    by (simp add: pathway_issues_def run_pathway_fields issues_of_def sample_normalized_def)
  have intent: "validateIntentAgainstPathway sample_normalized sample_identity sample_pathway_values (sample_key 6) = Inr []"
    by (simp add: validateIntentAgainstPathway_def sample_identity_def)
  have constraint: "id_pathway_constraint sample_identity = None" by (simp add: sample_identity_def)
  have selected: "selectPathwayCandidate [sample_candidate] = Inr sample_candidate" "pc_address sample_candidate = pda_key 7"
    by (simp_all add: selectPathwayCandidate_def candidate_matches_def sample_candidate_def)
  have pda: "bindR (requireBytes (obj_get sample_pathway_values ''pathway_id'') 32)
      (\<lambda>pathwayId. derivePathwayPolicyAddress server_hash server_schema (KeyBytes pathwayId)) =
      Inr (named (pda_key 7) ''pathway_policy'' seeds)"
    by (simp add: run_pathway_fields run_requireBytes derived)
  have "answers (load_pathway server_client sample_normalized sample_identity (sample_key 6))
    ([sample_candidate], loaded (pda_key 7) ''PathwayPolicy'' sample_pathway_values, sample_pathway_values,
     named (pda_key 7) ''pathway_policy'' seeds, [])"
    unfolding load_pathway_def server_client_parts constraint
    apply (rule answers_bind [OF run_discover])
    apply (rule answers_bind [OF answers_lift [OF selected(1)]])
    unfolding selected(2)
    apply (rule answers_bind [OF run_loaded(6)])
    apply (rule answers_bind [OF answers_lift [OF loaded_values(1)]])
    apply (rule answers_bind [OF answers_lift [OF pda]])
    apply (rule answers_bind [OF answers_lift [OF issues]])
    apply (rule answers_bind [OF answers_lift [OF intent]])
    apply (simp add: answers_return)
    done
  then show ?thesis ..
qed

section \<open>Policies, amounts and permissions\<close>

definition no_policies :: policy_set where
  "no_policies = \<lparr>ps_fee = NO_POLICY, ps_pathway_limit = NO_POLICY, ps_evidence = NO_POLICY, ps_asset_limit = NO_POLICY,
     ps_counterparty_limit = NO_POLICY, ps_executor_limit = NO_POLICY\<rparr>"

lemma run_no_policy:
  "value = JBytes (replicate 32 0) \<Longrightarrow> answers (resolvePolicyFromIdentifier c value name derive) NO_POLICY"
  unfolding resolvePolicyFromIdentifier_def
  by (rule answers_bind [OF answers_lift [where x = True]])
    (simp_all add: isZeroBytes32_def run_requireBytes list_all_iff answers_return)

lemma run_gates: "core_gates sample_normalized 1000 sample_core sample_bindings sample_pathway_values NO_POLICY = Inr []"
proof -
  have "collateral_issues sample_asset_values sample_pathway_values = Inr []"
    by (simp add: collateral_issues_def requireBigIntArrayField_def obj_get_def sample_asset_values_def
        sample_pathway_values_def collateral_issue_def)
  moreover have "issued_token_issues 1000 sample_control_values sample_pathway_values = Inr []"
    by (simp add: issued_token_issues_def requireBigIntArrayField_def field_defs sample_control_values_def
        sample_pathway_values_def issued_issue_def issues_of_def validateExtensionFreshness_def bit_numeral_rec)
  moreover have "evidence_issues sample_pathway_values None = Inr []"
    by (simp add: evidence_issues_def obj_get_def sample_pathway_values_def run_requireBytes isZeroBytes32_def issues_of_def
        list_all_iff)
  moreover have "requireBytes (obj_get sample_module_values ''module_statuses'') 32 = Inr ([0, 0, 0, 0, 2] @ replicate 27 0)"
    "requireNumberField sample_asset_values ''mode'' = Inr 0"
    "requireBigIntField sample_asset_values ''extension_observed_at_slot'' = Inr 990"
    "requireBigIntField sample_asset_values ''max_extension_observation_age_slots'' = Inr 50"
    by (simp_all add: field_defs requireBytes_def sample_module_values_def sample_asset_values_def)
  ultimately show ?thesis
    by (simp add: core_gates_def run_core_values validateCoreSettlementGates_def sample_bindings_def policy_values_def
        NO_POLICY_def sample_normalized_def issues_of_def validateExtensionFreshness_def)
qed

lemma run_policies: "answers (load_policies server_client sample_normalized 1000 sample_core sample_bindings
    sample_pathway_values) (no_policies, [], [])"
proof -
  have zero: "obj_get sample_pathway_values field = JBytes (replicate 32 0)"
    if "field \<in> {''fee_policy_id'', ''limit_policy_id'', ''evidence_policy_id'', ''asset_mint_limit_policy_id'',
      ''counterparty_limit_policy_id''}" for field
    using that by (auto simp: obj_get_def sample_pathway_values_def)
  have modes: "nr_action sample_normalized = Mint" "nr_mode sample_normalized = Direct"
    by (simp_all add: sample_normalized_def)
  show ?thesis
    unfolding load_policies_def Let_def modes
    apply (rule answers_bind [OF run_no_policy [OF zero]], simp)
    apply (rule answers_bind [OF run_no_policy [OF zero]], simp)
    apply (rule answers_bind [OF run_no_policy [OF zero]], simp)
    apply (rule answers_bind [OF answers_lift [OF run_gates]])
    apply (rule answers_bind [OF run_no_policy [OF zero]], simp)
    apply (rule answers_bind [OF run_no_policy [OF zero]], simp)
    apply (simp add: answers_bind [OF answers_return] answers_return no_policies_def pushed_pda_def NO_POLICY_def)
    done
qed

lemma run_amounts: "\<exists>quote. amount_gates server_client sample_normalized sample_identity sample_bindings no_policies 3 =
      Inr (quote, None, []) \<and> \<not> fq_routed (er_fee_quote quote) \<and> eq_received (er_quote quote) = 2000"
  by (simp add: amount_gates_def computeSettlementEffectiveQuote_def Let_def sample_normalized_def sample_identity_def
      sample_bindings_def no_policies_def NO_POLICY_def policy_values_def mint_snapshot_def decoded_mint_def
      field_defs sample_asset_values_def computeSettlementGrossOutput_def calculateTokenTransferFee_def
      computeFeeQuote_def free_quote_def observe_settlement_policy_def validateAmount_def minimum_output_of_def issues_of_def
      ratio_unless_zero_def)

lemma run_permissions: "\<exists>permission pda. answers (resolvePermissions server_client sample_normalized sample_identity (pda_key 7))
    [(permission, pda)] \<and> permission_issues [permission] = [] \<and> rp_address permission = pda_key 1"
proof -
  obtain seeds where derived: "derivePermissionRecordAddress server_hash server_schema (KeyText (sample_key 1)) (JNum 2)
      (KeyText (pda_key 7)) = Inr (named (pda_key 1) ''permission_record'' seeds)"
    using run_addresses(6) by blast
  let ?snapshot = "loaded (pda_key 1) ''PermissionRecord'' sample_permission_values"
  let ?dfn = "\<lparr>pd_label = ''principal permission'', pd_subject = sample_key 1, pd_role = push_bit 0 1\<rparr>"
  have definitions: "permission_definitions sample_normalized sample_identity = [?dfn]"
    by (simp add: permission_definitions_def sample_normalized_def sample_identity_def requiredPrincipalRole_def)
  have fields: "requireBigIntArrayField sample_permission_values ''role_bits'' 2 = Inr [1, 0]"
    "requireBigIntField sample_permission_values ''expiry_unix_timestamp'' = Inr 0"
    "requireBigIntField sample_permission_values ''permission_flags'' = Inr 0"
    "requirePublicKeyField sample_permission_values ''subject'' = Inr (sample_key 1)"
    "requireNumberField sample_permission_values ''role_schema_version'' = Inr 1"
    by (simp_all add: requireBigIntArrayField_def field_defs sample_permission_values_def sample_key_is_key del: One_nat_def)
  have scope: "scope_matches sample_permission_values 2 (KeyText (pda_key 7)) = Inr True"
    by (simp add: scope_matches_def field_defs sample_permission_values_def pda_key_is_key)
  have "\<exists>ob. observe_permission sample_normalized (pda_key 7) ?dfn ?snapshot = Inr (Some ob) \<and> po_usable ob"
    by (simp add: observe_permission_def loaded_values optionalR_def permissionObservation_def Let_def fields scope
        wordsToUnsigned128_def sample_key_normalized)
  then obtain ob where ob: "observe_permission sample_normalized (pda_key 7) ?dfn ?snapshot = Inr (Some ob)" "po_usable ob"
    by blast
  let ?permission = "\<lparr>rp_label = ''principal permission'', rp_address = pda_key 1, rp_role = push_bit 0 1,
     rp_snapshot = ?snapshot, rp_observation = Some ob\<rparr>"
  have "answers (resolve_permission server_client sample_normalized (pda_key 7) ?dfn)
      (?permission, (named (pda_key 1) ''permission_record'' seeds)\<lparr>np_name := underscored ''principal permission''\<rparr>)"
    unfolding resolve_permission_def server_client_parts permission_definition.select_convs
    apply (rule answers_bind [OF answers_lift [OF derived]])
    apply (rule answers_bind [where x = ?snapshot])
     apply (simp add: named_def run_loaded del: One_nat_def)
    apply (rule answers_bind [OF answers_lift [OF ob(1)]])
    apply (simp add: named_def answers_return)
    done
  then have "answers (resolvePermissions server_client sample_normalized sample_identity (pda_key 7))
      [(?permission, (named (pda_key 1) ''permission_record'' seeds)\<lparr>np_name := underscored ''principal permission''\<rparr>)]"
    unfolding resolvePermissions_def definitions by (intro answers_each) simp
  moreover have "permission_issues [?permission] = []" by (simp add: permission_issues_def issues_of_def ob(2))
  ultimately show ?thesis by fastforce
qed

lemma bindP_returnP: "bindP (returnP x) f = f x"
  by (simp add: fun_eq_iff bindP_def returnP_def)

lemma run_limits: "\<exists>limits. answers (resolve_limits server_client sample_normalized sample_identity no_policies amount) limits \<and>
    validateLimits (map fst limits) = []"
proof -
  have modes: "nr_mode sample_normalized = Direct" by (simp add: sample_normalized_def)
  have "policy_values NO_POLICY = None" by (simp add: policy_values_def NO_POLICY_def)
  then have dimensions: "resolvePathwayLimitDimension server_client NO_POLICY action amount now = returnP (emptyLimitDimension ''pathway'', [])"
    "resolveDailyLimitDimension server_client label NO_POLICY kind key amount action now required =
      returnP (emptyLimitDimension label, [])" for action now label kind key required
    by (simp_all add: resolvePathwayLimitDimension_def resolveDailyLimitDimension_def)
  let ?limits = "[(emptyLimitDimension ''pathway'', []), (emptyLimitDimension ''asset'', []),
    (emptyLimitDimension ''counterparty'', [])]"
  have "answers (resolve_limits server_client sample_normalized sample_identity no_policies amount) ?limits"
    unfolding resolve_limits_def Let_def modes
    by (simp add: no_policies_def dimensions bindP_returnP answers_return)
  moreover have "validateLimits (map fst ?limits) = []"
    by (simp add: validateLimits_def limit_issues_def emptyLimitDimension_def)
  ultimately show ?thesis by blast
qed

section \<open>Token accounts, pauses and the instruction\<close>

definition decoded_token :: "string \<Rightarrow> string \<Rightarrow> decoded_token_account" where
  "decoded_token mint owner = \<lparr>ta_mint = mint, ta_owner = owner, ta_amount = 4000, ta_delegate = None, ta_state = 1,
     ta_native_reserve = None, ta_delegated = 0, ta_close_authority = None, ta_base_size = 165, ta_total_size = 165,
     ta_has_extensions = False\<rparr>"

lemma run_decoded_token:
  assumes "length mint = 32" "length owner = 32"
  shows "decodeTokenAccount (token_bytes mint owner) = Inr (decoded_token (encodeBase58 mint) (encodeBase58 owner))"
proof -
  have parts: "drop n (token_bytes mint owner) = drop (n - 64) ([160, 15, 0, 0, 0, 0, 0, 0] @ replicate 36 0 @ [1] @ replicate 56 0)"
    if "64 \<le> n" for n using that assms by (simp add: token_bytes_def drop_append)
  have len: "length (token_bytes mint owner) = 165" using assms by (simp add: token_bytes_def)
  have "readUnsignedLittleEndian (token_bytes mint owner) 64 8 = Inr 4000"
    by (simp add: readUnsignedLittleEndian_def sliceExact_def len parts)
  moreover have "decodeCOptionPublicKey (token_bytes mint owner) 72 = Inr None"
    "decodeCOptionUnsignedInteger (token_bytes mint owner) 109 = Inr None"
    "readUnsignedLittleEndian (token_bytes mint owner) 121 8 = Inr 0"
    "decodeCOptionPublicKey (token_bytes mint owner) 129 = Inr None"
    by (simp_all add: decodeCOptionPublicKey_def decodeCOptionUnsignedInteger_def readUnsignedLittleEndian_def sliceExact_def
        len parts fold_little_endian decodeUnsignedInteger_def numeral_eq_Suc)
  moreover have "token_bytes mint owner ! 108 = 1"
    using parts [of 108] len by (simp add: nth_via_drop [of _ _ 1])
  moreover have "take 32 (token_bytes mint owner) = mint" "take 32 (drop 32 (token_bytes mint owner)) = owner"
    using assms by (simp_all add: token_bytes_def)
  ultimately show ?thesis by (simp add: decodeTokenAccount_def len decoded_token_def)
qed

definition token_snapshot :: "string \<Rightarrow> token_selection \<Rightarrow> string \<Rightarrow> string \<Rightarrow> token_account_snapshot" where
  "token_snapshot key selection mint owner = \<lparr>ts_address = key, ts_program = SPL_TOKEN_PROGRAM_ADDRESS, ts_selection = selection,
     ts_exists = True, ts_values = Some (decoded_token mint owner)\<rparr>"

lemma run_token:
  assumes key: "is_key key" "account_at key = Some (plain_account SPL_TOKEN_PROGRAM_ADDRESS (token_bytes mint owner))"
    and parties: "length mint = 32" "length owner = 32"
  shows "answers (loadTokenAccountAtAddress server_client key (encodeBase58 owner) (encodeBase58 mint)
    SPL_TOKEN_PROGRAM_ADDRESS selection missing) (token_snapshot key selection (encodeBase58 mint) (encodeBase58 owner))"
proof -
  have bound: "bound_token_account key (encodeBase58 owner) (encodeBase58 mint) SPL_TOKEN_PROGRAM_ADDRESS selection
      (token_bytes mint owner) = Inr (token_snapshot key selection (encodeBase58 mint) (encodeBase58 owner))"
    using parties run_decoded_token [OF parties]
    by (simp add: bound_token_account_def assertTokenAccountBinding_def is_key_encoded decoded_token_def token_snapshot_def)
  have found: "answers (getAccountInfo server (KeyText key) Confirmed)
      (Some (plain_account SPL_TOKEN_PROGRAM_ADDRESS (token_bytes mint owner)))"
    by (rule answers_getAccountInfo [OF key plain_account_ok]) (simp_all add: program_keys token_bytes_def parties)
  show ?thesis
    unfolding loadTokenAccountAtAddress_def server_client_parts
    apply (rule answers_bind [OF answers_lift [where x = key]])
     apply (simp add: key_of_def key(1))
    apply (rule answers_bind [OF found])
    apply (simp add: plain_account_def answers_lift bound)
    done
qed

lemma small_key_encoded: "0 < n \<Longrightarrow> n < 58 \<Longrightarrow> encodeBase58 (small_key n) = sample_key n"
  by (simp add: small_key_def sample_key_encoded)

definition sample_tokens :: settlement_token_accounts where
  "sample_tokens = \<lparr>sa_source = token_snapshot (sample_key 11) Override (sample_key 5) (sample_key 1),
     sa_reserve = token_snapshot (pda_key 8) AssociatedTokenAccount (sample_key 5) (pda_key 6),
     sa_destination = token_snapshot (sample_key 12) Override (sample_key 6) (sample_key 1),
     sa_fee_recipient = missing_token_account (sample_key 0) SPL_TOKEN_PROGRAM_ADDRESS\<rparr>"

lemma length_spl: "length spl_bytes = 32"
  by (simp add: spl_bytes_def)

lemma run_reserve_address: "\<exists>r. deriveAssociatedTokenAddress server_hash (KeyText (pda_key 6)) (KeyText (sample_key 5))
    (KeyText SPL_TOKEN_PROGRAM_ADDRESS) = Inr r \<and> pda_address r = pda_key 8"
proof -
  have "findProgramAddress server_hash [server_digest 6, spl_bytes, small_key 5] (KeyText ASSOCIATED_TOKEN_PROGRAM_ADDRESS) =
      Inr \<lparr>pda_address = pda_key 8, pda_bump = 255\<rparr>"
  proof -
    have "concat [server_digest 6, spl_bytes, small_key 5] ! 6 = 255"
      by (simp add: nth_append server_digest_length) (simp add: server_digest_def)
    moreover have "6 < length (concat [server_digest 6, spl_bytes, small_key 5])"
      by (simp add: server_digest_length)
    ultimately show ?thesis
      using server_find [of "[server_digest 6, spl_bytes, small_key 5]" ASSOCIATED_TOKEN_PROGRAM_ADDRESS]
      by (simp add: program_keys server_digest_length small_key_length length_spl del: concat.simps)
  qed
  then show ?thesis
    by (simp add: deriveAssociatedTokenAddress_def pda_key_is_key sample_key_is_key run_supported pda_key_decoded spl_decoded
        small_key_decoded)
qed

lemma run_tokens:
  assumes "\<not> fq_routed (er_fee_quote quote)" "pda_address reserveAuthority = pda_key 6"
  shows "\<exists>pda. answers (resolve_tokens server_client sample_normalized sample_identity sample_bindings reserveAuthority quote)
    (sample_tokens, pda, [])"
proof -
  obtain r where r: "deriveAssociatedTokenAddress server_hash (KeyText (pda_key 6)) (KeyText (sample_key 5))
    (KeyText SPL_TOKEN_PROGRAM_ADDRESS) = Inr r" "pda_address r = pda_key 8" using run_reserve_address by blast
  have request: "nr_action sample_normalized = Mint" "nr_mode sample_normalized = Direct"
    "nr_asset_mint sample_normalized = sample_key 5" "nr_source sample_normalized = Some (sample_key 11)"
    "nr_destination sample_normalized = Some (sample_key 12)" "id_principal_a sample_identity = sample_key 1"
    "id_input_amount sample_identity = 1000" "sb_issued_mint sample_bindings = sample_key 6"
    "sb_asset_program sample_bindings = SPL_TOKEN_PROGRAM_ADDRESS"
    "sb_issued_program sample_bindings = SPL_TOKEN_PROGRAM_ADDRESS"
    by (simp_all add: sample_normalized_def sample_identity_def sample_bindings_def)
  have source: "answers (loadTokenAccountAtAddress server_client (sample_key 11) (sample_key 1) (sample_key 5)
      SPL_TOKEN_PROGRAM_ADDRESS Override True) (sa_source sample_tokens)"
    using run_token [of "sample_key 11" "small_key 5" "small_key 1" Override True]
    by (simp add: sample_key_is_key accounts_found small_key_length small_key_encoded sample_tokens_def del: One_nat_def)
  have destination: "answers (loadTokenAccountAtAddress server_client (sample_key 12) (sample_key 1) (sample_key 6)
      SPL_TOKEN_PROGRAM_ADDRESS Override True) (sa_destination sample_tokens)"
    using run_token [of "sample_key 12" "small_key 6" "small_key 1" Override True]
    by (simp add: sample_key_is_key accounts_found small_key_length small_key_encoded sample_tokens_def del: One_nat_def)
  have reserve: "answers (loadTokenAccountAtAddress server_client (pda_key 8) (pda_key 6) (sample_key 5)
      SPL_TOKEN_PROGRAM_ADDRESS AssociatedTokenAccount True) (sa_reserve sample_tokens)"
    using run_token [of "pda_key 8" "small_key 5" "server_digest 6" AssociatedTokenAccount True]
    by (simp add: pda_key_is_key accounts_found small_key_length server_digest_length small_key_encoded sample_tokens_def
        flip: pda_key_def)
  have issues: "validateTokenAccounts Mint 1000 (required_reserve Mint quote) (sa_source sample_tokens)
      (sa_destination sample_tokens) (sa_reserve sample_tokens) (sa_fee_recipient sample_tokens) False = []"
    by (simp add: validateTokenAccounts_def sample_tokens_def token_snapshot_def decoded_token_def issues_of_def)
  have missing: "missing_token_account (ZERO_ADDRESS server_client) SPL_TOKEN_PROGRAM_ADDRESS = sa_fee_recipient sample_tokens"
    by (simp add: server_program sample_tokens_def)
  let ?pda = "\<lparr>pda_address = pda_address r, pda_bump = pda_bump r, np_name = ''reserve_asset_token_account'',
    np_seeds = [pda_key 6, SPL_TOKEN_PROGRAM_ADDRESS, sample_key 5]\<rparr>"
  have "answers (resolve_tokens server_client sample_normalized sample_identity sample_bindings reserveAuthority quote)
      (sample_tokens, ?pda, [])"
    unfolding resolve_tokens_def Let_def server_client_parts request assms(2) resolveTokenAccount_def
      token_resolution_input.select_convs option.case if_not_P [OF assms(1)]
    apply (rule answers_bind [OF answers_lift [OF r(1)]])
    apply (simp add: r(2) del: One_nat_def)
    apply (rule answers_bind [OF source])
    apply (rule answers_bind [OF destination])
    apply (rule answers_bind [OF reserve])
    apply (simp add: bindP_returnP missing issues assms(1) del: One_nat_def)
    apply (simp add: sample_tokens_def answers_return r(2))
    done
  then show ?thesis by blast
qed

lemma run_reserves: "answers (discoverReserveDestinations server_client mint) []"
proof -
  have "mapR (reserve_destination server_client mint) [sample_listing] = Inr [None]"
    by (simp add: reserve_destination_def run_values)
  then show ?thesis
    unfolding discoverReserveDestinations_def
    apply (intro answers_bind [OF run_accounts_of_type])
     apply simp
    apply (rule answers_bind [OF answers_lift], assumption)
    apply (simp add: List.map_filter_def answers_return)
    done
qed

lemma run_pauses: "observePauses Mint 1000 (ca_pause_state sample_core) (ca_asset_pause sample_core)
    (loaded (pda_key 7) ''PathwayPolicy'' sample_pathway_values)
  = Inr \<lparr>pause_slot = 1000, pause_global = False, pause_asset = False, pause_pathway = False\<rparr>"
proof -
  have "requireBigIntField sample_pause_values ''expires_at_slot'' = Inr 0"
    "requireBigIntField sample_pause_values ''global_pause_bits'' = Inr 0"
    by (simp_all add: field_defs sample_pause_values_def)
  then have "pause_in_force sample_pause_values ''global_pause_bits'' 0 1000 = Inr False"
    by (simp add: pause_in_force_def)
  moreover have "cs_values (ca_asset_pause sample_core) = None" by (simp add: sample_core_def missing_snapshot_def)
  ultimately show ?thesis
    by (simp add: observePauses_def run_core_values loaded_values run_pathway_fields bit_numeral_rec bit_1_iff)
qed

section \<open>The inspection\<close>

lemma run_arguments: "buildInstructionArguments sample_normalized sample_identity sample_pathway_values 2000 =
    Inr [(''pathway_id'', JBytes (replicate 32 7)), (''asset_amount'', JBig 1000), (''minimum_issued_token_amount'', JBig 2000)]"
  by (simp add: buildInstructionArguments_def run_pathway_fields run_requireBytes sample_normalized_def sample_identity_def)

lemma run_instruction_accounts:
  assumes input: "ab_request input = sample_normalized" "ab_identity input = sample_identity" "ab_core input = sample_core"
    "ab_pathway input = loaded (pda_key 7) ''PathwayPolicy'' sample_pathway_values" "ab_permissions input = [permission]"
    "ab_tokens input = sample_tokens"
  shows "\<exists>accounts. buildInstructionAccounts input = Inr accounts \<and>
    map_of accounts ''principal'' = Some (Some (KeyText (sample_key 1))) \<and>
    map_of accounts ''pathway_policy'' = Some (Some (KeyText (pda_key 7)))"
proof -
  have parts: "requiredSnapshotAddress (ca_asset_config sample_core) False = Inr (pda_key 4)"
    "requiredSnapshotAddress (ca_asset_pause sample_core) True = Inr (pda_key 17)"
    "requiredTokenAddress (sa_source sample_tokens) = Inr (sample_key 11)"
    "requiredTokenAddress (sa_reserve sample_tokens) = Inr (pda_key 8)"
    "requiredTokenAddress (sa_destination sample_tokens) = Inr (sample_key 12)"
    by (simp_all add: requiredSnapshotAddress_def requiredTokenAddress_def sample_core_def loaded_values missing_snapshot_def
        sample_tokens_def token_snapshot_def)
  have mode: "nr_mode sample_normalized = Direct" "id_principal_a sample_identity = sample_key 1"
    by (simp_all add: sample_normalized_def sample_identity_def)
  have compacted: "map_of (compactAccountInputs xs) name = Option.bind (map_of xs name) (map_option (\<lambda>k. Some (KeyText k)))"
    if "distinct (map fst xs)" for xs :: "(string \<times> string option) list" and name
    using that by (induction xs) (auto simp: compactAccountInputs_def map_filter_simps map_of_eq_None_iff [THEN iffD2]
        split: option.splits)
  show ?thesis
    unfolding buildInstructionAccounts_def common_accounts_def mode_accounts_def Let_def input mode parts
    by (simp add: compacted parts mode input loaded_values)
qed

lemma run_inspect: "\<exists>insp. answers (inspect server_client mint_request) insp \<and> in_ready insp \<and>
    in_observation insp = sample_observation \<and> in_instruction_name insp = ''mint_direct'' \<and>
    in_arguments insp = [(''pathway_id'', JBytes (replicate 32 7)), (''asset_amount'', JBig 1000),
      (''minimum_issued_token_amount'', JBig 2000)] \<and>
    map_of (in_accounts insp) ''principal'' = Some (Some (KeyText (sample_key 1))) \<and>
    map_of (in_accounts insp) ''pathway_policy'' = Some (Some (KeyText (pda_key 7)))"
proof -
  obtain mintAuthority reserveAuthority corePdas where core: "pda_address mintAuthority = pda_key 3"
    "pda_address reserveAuthority = pda_key 6"
    "answers (load_core server_client sample_normalized) (sample_core, mintAuthority, reserveAuthority, corePdas)"
    using run_core by blast
  obtain pathwayPda where pathway: "answers (load_pathway server_client sample_normalized sample_identity (sample_key 6))
      ([sample_candidate], loaded (pda_key 7) ''PathwayPolicy'' sample_pathway_values, sample_pathway_values, pathwayPda, [])"
    using run_pathway by blast
  obtain quote where quote: "amount_gates server_client sample_normalized sample_identity sample_bindings no_policies 3 =
      Inr (quote, None, [])" "\<not> fq_routed (er_fee_quote quote)" "eq_received (er_quote quote) = 2000"
    using run_amounts by blast
  obtain permission permissionPda where permission: "answers (resolvePermissions server_client sample_normalized sample_identity
      (pda_key 7)) [(permission, permissionPda)]" "permission_issues [permission] = []"
    using run_permissions by blast
  obtain limits where limits: "answers (resolve_limits server_client sample_normalized sample_identity no_policies 1000) limits"
    "validateLimits (map fst limits) = []"
    using run_limits by blast
  obtain reservePda where tokens: "answers (resolve_tokens server_client sample_normalized sample_identity sample_bindings
      reserveAuthority quote) (sample_tokens, reservePda, [])"
    using run_tokens [OF quote(2) core(2)] by blast
  let ?input = "\<lparr>ab_request = sample_normalized, ab_identity = sample_identity, ab_core = sample_core,
    ab_pathway = loaded (pda_key 7) ''PathwayPolicy'' sample_pathway_values, ab_permissions = [permission],
    ab_policies = named_policies sample_identity no_policies, ab_limits = map fst limits,
    ab_tokens = sample_tokens, ab_issued_mint = sample_key 6, ab_asset_program = SPL_TOKEN_PROGRAM_ADDRESS,
    ab_issued_program = SPL_TOKEN_PROGRAM_ADDRESS, ab_mint_authority = pda_key 3, ab_reserve_authority = pda_key 6\<rparr>"
  obtain accounts where accounts: "buildInstructionAccounts ?input = Inr accounts"
    "map_of accounts ''principal'' = Some (Some (KeyText (sample_key 1)))"
    "map_of accounts ''pathway_policy'' = Some (Some (KeyText (pda_key 7)))"
    using run_instruction_accounts [of ?input permission] by auto
  have values_of: "nr_action sample_normalized = Mint" "nr_mode sample_normalized = Direct"
    "nr_asset_mint sample_normalized = sample_key 5" "oc_slot sample_observation = 1000" "oc_epoch sample_observation = 3"
    "id_input_amount sample_identity = 1000" "sb_issued_mint sample_bindings = sample_key 6"
    "sb_asset_program sample_bindings = SPL_TOKEN_PROGRAM_ADDRESS"
    "sb_issued_program sample_bindings = SPL_TOKEN_PROGRAM_ADDRESS"
    "cs_address (loaded (pda_key 7) ''PathwayPolicy'' sample_pathway_values) = pda_key 7"
    "minimum_output_of sample_normalized sample_identity (er_quote quote) = 2000"
    by (simp_all add: sample_normalized_def sample_observation_def sample_identity_def sample_bindings_def loaded_values
        minimum_output_of_def quote(3))
  have one: "map fst [(permission, permissionPda)] = [permission]" by simp
  show ?thesis
    unfolding inspect_def
    apply (intro exI conjI)
    apply (rule answers_bind [OF run_observe], simp only: prod.case)
    apply (rule answers_bind [OF core(3)], simp only: prod.case core(1))
    apply (rule answers_bind [OF run_bindings], simp only: prod.case)
    apply (rule answers_bind [OF run_identity], simp only: prod.case values_of)
    apply (rule answers_bind [OF pathway], simp only: prod.case values_of)
    apply (rule answers_bind [OF run_policies], simp only: prod.case values_of)
    apply (rule answers_bind [OF answers_lift [OF quote(1)]], simp only: prod.case values_of Let_def if_True simp_thms)
    apply (rule answers_bind [OF permission(1)])
    apply (rule answers_bind [OF limits(1)])
    apply (rule answers_bind [OF tokens], simp only: prod.case)
    apply (rule answers_bind [OF run_reserves])
    apply (rule answers_bind [OF answers_lift [OF run_pauses]])
    apply (rule answers_bind [OF answers_lift [OF run_arguments]])
    apply (rule answers_bind [OF answers_lift [where x = accounts]])
    apply (simp only: one core(2) accounts(1))
    apply (rule answers_return)
    apply (simp_all add: permission(2) limits(2) pause_issues_def issues_of_def uniqueStrings_def accounts
        settlementInstructionName_def)
    done
qed

section \<open>The submission\<close>

definition sample_transaction_request :: transaction_request where
  "sample_transaction_request = \<lparr>tr_fee_payer = sample_key 1, tr_keypairs = [sample_keypair], tr_tables = None,
     tr_commitment = Some Confirmed\<rparr>"

definition sample_instruction :: chancery_instruction where
  "sample_instruction = \<lparr>ci_program = sample_key 9,
     ci_accounts =
       [\<lparr>am_name = ''principal'', am_address = sample_key 1, am_signer = True, am_writable = True\<rparr>,
        \<lparr>am_name = ''pathway_policy'', am_address = pda_key 7, am_signer = False, am_writable = False\<rparr>],
     ci_data = [5] @ replicate 32 7 @ [232, 3, 0, 0, 0, 0, 0, 0, 208, 7, 0, 0, 0, 0, 0, 0]\<rparr>"

lemma run_instruction:
  assumes "map_of accounts ''principal'' = Some (Some (KeyText (sample_key 1)))"
    "map_of accounts ''pathway_policy'' = Some (Some (KeyText (pda_key 7)))"
  shows "buildChanceryInstruction server_hash server_schema ''mint_direct''
    [(''pathway_id'', JBytes (replicate 32 7)), (''asset_amount'', JBig 1000), (''minimum_issued_token_amount'', JBig 2000)]
    accounts True = Inr sample_instruction"
proof -
  let ?ix = "\<lparr>ix_discriminator = [5],
          ix_accounts =
            [\<lparr>ia_name = ''principal'', ia_writable = True, ia_signer = True, ia_optional = False, ia_relations = None,
              ia_pda = None, ia_default = None\<rparr>,
             \<lparr>ia_name = ''pathway_policy'', ia_writable = False, ia_signer = False, ia_optional = False,
              ia_relations = None, ia_pda = None, ia_default = None\<rparr>],
          ix_args = typed_fields [(''pathway_id'', ArrayT (Prim U8) 32), (''asset_amount'', Prim U64),
            (''minimum_issued_token_amount'', Prim U64)]\<rparr>"
  have ix: "getInstructionSchema server_schema ''mint_direct'' = Inr ?ix"
    by (simp add: getInstructionSchema_def lookup_or_def server_schema_def)
  have metas: "resolveChanceryInstructionAccounts server_hash server_schema ''mint_direct'' vs accounts True =
      Inr (ci_accounts sample_instruction)" for vs
    using assms
    by (simp add: resolveChanceryInstructionAccounts_def ix initial_addresses_def initial_step_def sample_key_normalized
        normalizePublicKey_text [THEN iffD2] pda_key_is_key pda_step_def account_meta_def numeral_2_eq_2 Let_def
        sample_instruction_def del: bindR_eq_Inr)
  have data: "encodeChanceryInstructionData server_schema ''mint_direct''
      [(''pathway_id'', JBytes (replicate 32 7)), (''asset_amount'', JBig 1000), (''minimum_issued_token_amount'', JBig 2000)]
      = Inr (ci_data sample_instruction)"
    by (simp add: encodeChanceryInstructionData_def ix typed_fields_def encodeStruct_def encode_struct_with_def encode_field_def
        obj_get_def encodePrimitive_def encodeUnsignedInteger_def integerFromValue_def is_safe_integer_def
        MAX_SAFE_INTEGER_def bytesFromValue_def low_digits_numeral sample_instruction_def)
  show ?thesis
    unfolding buildChanceryInstruction_def metas data server_program
    by (simp add: sample_instruction_def)
qed

lemma pda_key_not_small: "sample_key n \<noteq> pda_key m" if "0 < n" "n < 58"
  using that small_key_decoded [of n] pda_key_decoded [of m] keys_apart(1) [of n m] by auto

lemma run_signed: "\<exists>message transaction. compileUnversionedMessage [solana_instruction_of sample_instruction]
    (KeyText (sample_key 1)) (KeyText (sample_key 4)) = Inr message \<and>
    signSolanaTransaction sample_crypto message [sample_keypair] = Inr transaction"
proof -
  obtain message where message: "compileUnversionedMessage [solana_instruction_of sample_instruction]
    (KeyText (sample_key 1)) (KeyText (sample_key 4)) = Inr message" "cm_signers message = [sample_key 1]"
    "length (cm_bytes message) \<le> 1000"
    by (auto simp: compileUnversionedMessage_def aggregateAccountMetas_def solana_instruction_of_def sample_instruction_def
    merge_instruction_def merge_account_def mergeAccountMeta_def sample_key_is_key pda_key_is_key sample_key_inj
    pda_key_not_small pda_key_not_small [symmetric]
    orderStaticAccountMetas_def accountOrderGroup_def
    compileMessageBytes_def countMatching_def Let_def shortvec_def encodeShortVectorLength_def is_safe_integer_def MAX_SAFE_INTEGER_def
    sample_key_decoded pda_key_decoded server_digest_length compile_instruction_def index_of_key_def compile_lookups_def less_eq_prod_def
    short_vector_bytes.simps)
  have "\<exists>transaction. signSolanaTransaction sample_crypto message [sample_keypair] = Inr transaction"
    using sample_key_encoded [of 1] message(2,3)
    by (simp add: signSolanaTransaction_def index_keypairs_def sample_keypair_def sample_key_is_key
      sign_for_def signMessageWithKeypair_def privateKeyFromSeed_def ED25519_PKCS8_PREFIX_def
      publicKeyBytesFromPrivateKey_def sample_crypto_def serializeTransaction_def shortvec_def
      encodeShortVectorLength_def is_safe_integer_def MAX_SAFE_INTEGER_def short_vector_bytes.simps)
  with message(1) show ?thesis by blast
qed

lemmas run_parse = server_result_def value_json_def json_int_def reviveUnsafeInteger_def is_safe_integer_def
  MAX_SAFE_INTEGER_def object_of_def obj_get_def recordFromUnknown_def parseUnsignedBigInteger_def

lemma run_blockhash: "answers (getLatestBlockhash server commitment)
    \<lparr>rb_blockhash = sample_key 4, rb_last_valid_block_height = 2000\<rparr>"
  unfolding getLatestBlockhash_def
  by (intro answers_configuration answers_bind [OF answers_request] answers_lift)
    (simp add: run_parse sample_key_is_key)

lemma run_simulation: "\<exists>simulation. answers (rpc_simulateTransaction server bytes commitment verify) simulation \<and> sr_err simulation = JNull"
  unfolding rpc_simulateTransaction_def
  apply (intro exI conjI answers_bind [OF answers_request] answers_lift)
   apply (simp add: run_parse parse_simulation_def parse_logs_def nullable_unsigned_def is_nullish_def or_else_def)
  apply simp
  done

lemma run_send: "answers (rpc_sendTransaction server bytes commitment skip retries) ''signature''"
  unfolding rpc_sendTransaction_def
  by (intro answers_bind [OF answers_request]) (simp add: run_parse answers_return)

definition sample_status :: rpc_signature_status where
  "sample_status = \<lparr>ss_slot = 1001, ss_confirmations = None, ss_err = JNull, ss_confirmation_status = Some Finalized\<rparr>"

lemma run_status: "answers (getSignatureStatus server signature) (Some sample_status)"
  unfolding getSignatureStatus_def
  by (intro answers_bind [OF answers_request] answers_lift)
    (simp add: run_parse parse_signature_status_def parse_confirmation_status_def is_nullish_def or_else_def sample_status_def)

lemma run_confirm: "answers (confirmTransaction server_client signature lastValid commitment) sample_status"
proof -
  have "answers (poll server_client signature lastValid commitment) (Some sample_status)"
    unfolding poll_def server_client_parts Let_def
    by (intro answers_bind [OF run_status]) (cases commitment; simp add: sample_status_def commitmentSatisfied_def answers_return)
  then have "answers (poll_times server_client signature lastValid commitment (Suc n)) sample_status" for n
    unfolding poll_times.simps by (intro answers_bind) (auto simp: answers_return)
  from this [of 119] show ?thesis by (simp add: confirmTransaction_def MAXIMUM_POLLS_def numeral_eq_Suc)
qed

lemma run_submit:
  assumes ready: "in_ready insp" "in_observation insp = sample_observation" "in_instruction_name insp = ''mint_direct''"
    and arguments: "in_arguments insp = [(''pathway_id'', JBytes (replicate 32 7)), (''asset_amount'', JBig 1000),
      (''minimum_issued_token_amount'', JBig 2000)]"
    and accounts: "map_of (in_accounts insp) ''principal'' = Some (Some (KeyText (sample_key 1)))"
      "map_of (in_accounts insp) ''pathway_policy'' = Some (Some (KeyText (pda_key 7)))"
  shows "\<exists>sub. answers (submitTransaction server_client insp sample_transaction_request) sub"
proof -
  obtain message transaction where signed: "compileUnversionedMessage [solana_instruction_of sample_instruction]
    (KeyText (sample_key 1)) (KeyText (sample_key 4)) = Inr message"
    "signSolanaTransaction sample_crypto message [sample_keypair] = Inr transaction"
    using run_signed by blast
  have request: "commitment_of server_client sample_transaction_request = Confirmed"
    "tr_fee_payer sample_transaction_request = sample_key 1" "tr_tables sample_transaction_request = None"
    "tr_keypairs sample_transaction_request = [sample_keypair]" "oc_expires_after sample_observation = 1064"
    by (simp_all add: commitment_of_def sample_transaction_request_def sample_observation_def)
  have instruction: "buildInstruction server_client insp = Inr sample_instruction"
    unfolding buildInstruction_Inr server_client_parts ready arguments using ready(1) run_instruction [OF accounts] by simp
  have "\<exists>prepared. answers (prepareTransaction server_client insp sample_transaction_request) prepared"
    unfolding prepareTransaction_def request ready(2) server_client_parts
    apply (intro exI)
    apply (rule answers_bind [OF run_slot], simp)
    apply (rule answers_bind [OF answers_lift [OF instruction]])
    apply (rule answers_bind [OF answers_lift [where x = "sample_key 1"]])
     apply (simp add: key_of_def sample_key_is_key)
    apply (rule answers_bind [OF run_blockhash])
    apply (simp add: loadAddressLookupTables_def bindP_returnP del: One_nat_def)
    apply (rule answers_bind [OF answers_lift [OF signed(1)]])
    apply (rule answers_bind [OF answers_lift [OF signed(2)]])
    apply (rule answers_return)
    done
  then obtain prepared where prepared: "answers (prepareTransaction server_client insp sample_transaction_request) prepared" ..
  obtain simulation where simulation: "answers (rpc_simulateTransaction server (st_bytes (pt_transaction prepared)) Confirmed True)
      simulation" "sr_err simulation = JNull"
    using run_simulation by blast
  have "\<exists>result. answers (getTransaction server ''signature'' Confirmed) result \<and> result = JNull"
    unfolding getTransaction_def by (intro exI conjI, rule answers_request) (simp add: server_result_def)
  then have transaction: "answers (getTransaction server ''signature'' Confirmed) JNull" by blast
  show ?thesis
    unfolding submitTransaction_def simulateTransaction_def Let_def request server_client_parts
    apply (intro exI)
    apply (rule answers_bind [where x = "(prepared, simulation)"])
     apply (rule answers_bind [OF prepared], rule answers_bind [OF simulation(1)], rule answers_return)
    apply (simp add: simulation(2))
    apply (rule answers_bind [OF run_send])
    apply (rule answers_bind [OF run_confirm])
    apply (rule answers_bind [OF transaction])
    apply (rule answers_bind [where x = None])
     apply (simp only: getChanceryEvents_def, rule answers_bind [OF transaction], simp add: answers_return)
    apply (rule answers_return)
    done
qed

definition sample_connection :: "unit rpc" where
  "sample_connection = \<lparr>rpc_endpoint = ''https://rpc'', rpc_request_id = 0, rpc_minimum_context_slot = None, rpc_world = ()\<rparr>"

lemma sample_inspected: "\<exists>insp st sub st'. inspect server_client mint_request sample_connection = Inr (insp, st) \<and>
    in_ready insp \<and> submitTransaction server_client insp sample_transaction_request st = Inr (sub, st')"
proof -
  have "slot_ok sample_connection" by (simp add: slot_ok_def sample_connection_def)
  with run_inspect run_submit show ?thesis unfolding answers_def by meson
qed

end
