(* ===== verification/SampleQuote.thy ===== *)
theory SampleQuote
  imports SampleSchema SettlementGates
begin

text \<open>
  Concrete inputs for the effective quote: the rates of an asset, and a mint that takes a transfer fee.
\<close>

definition sample_rates :: js_object where
  "sample_rates = [(''deposit_rate_e9'', JBig 2000000000), (''redeem_rate_e9'', JBig 500000000)]"

definition sample_token_mint :: decoded_token_mint where
  "sample_token_mint = \<lparr>tm_mint_authority = None, tm_supply = 0, tm_decimals = 6, tm_initialized = True,
     tm_freeze_authority = None, tm_base_size = 82, tm_total_size = 82, tm_has_extensions = True,
     tm_account_type = Some 1, tm_extensions = [], tm_transfer_fee_config = Some sample_fee_config,
     tm_transfer_hook = None, tm_unmodeled = False\<rparr>"

lemma sample_effective_quote:
  "\<exists>r. computeSettlementEffectiveQuote sample_schema Mint 10005 sample_rates (Some sample_token_mint)
      (Some sample_fee_policy) 100 3 = Inr r \<and> fq_observations (er_fee_quote r) = [] \<and>
      eq_received (er_quote r) = 19955 \<and> eq_fee_amount (er_quote r) = 45"
proof -
  have "\<exists>q. computeFeeQuote sample_schema Mint 10000 20000 (Some sample_fee_policy) 100 = Inr q \<and>
      fq_observations q = [] \<and> fq_net_fee q = 45 \<and> fq_net_output q = 19955"
    by (simp add: computeFeeQuote_def assessed_fee_def nominal_rebate_def sample_fee_policy_def field_defs Let_def
        failed_checks_def fee_denomination_def expected_denomination_def roundedBasisPoints_def
        sample_key_is_key bit_numeral_rec)
  then obtain q where "computeFeeQuote sample_schema Mint 10000 20000 (Some sample_fee_policy) 100 = Inr q"
    "fq_observations q = []" "fq_net_fee q = 45" "fq_net_output q = 19955" by blast
  then show ?thesis
    by (simp add: computeSettlementEffectiveQuote_def Let_def sample_rates_def field_defs computeSettlementGrossOutput_def
        calculateTokenTransferFee_def selectActiveTransferFee_def sample_token_mint_def sample_fee_config_def
        divideCeiling_def)
qed

end
