(* ===== verification/ChanceryDiscovery.thy ===== *)
theory ChanceryDiscovery
  imports SettlementState "HOL-Library.Multiset"
begin

text \<open>
  \<open>typescript/src/client/ChanceryDiscovery.ts\<close>: every account of the program is read, decoded, checked against the
  address its contents derive to, and put into inventories by type, pathway and asset. \<open>localeCompare\<close> depends on the
  locale of the platform and is a parameter; \<open>Array.prototype.sort\<close> is stable and modelled as an insertion sort.
\<close>

section \<open>Sorting\<close>

fun insert_by :: "('a \<Rightarrow> 'a \<Rightarrow> int) \<Rightarrow> 'a \<Rightarrow> 'a list \<Rightarrow> 'a list" where
  "insert_by cmp x [] = [x]"
| "insert_by cmp x (y # ys) = (if cmp x y \<le> 0 then x # y # ys else y # insert_by cmp x ys)"

definition sort_by :: "('a \<Rightarrow> 'a \<Rightarrow> int) \<Rightarrow> 'a list \<Rightarrow> 'a list" where
  "sort_by cmp xs = foldr (insert_by cmp) xs []"

text \<open>The default order of \<open>sort\<close>: by code units.\<close>

fun compareCodeUnits :: "string \<Rightarrow> string \<Rightarrow> int" where
  "compareCodeUnits [] [] = 0"
| "compareCodeUnits [] (_ # _) = - 1"
| "compareCodeUnits (_ # _) [] = 1"
| "compareCodeUnits (c # cs) (d # ds) =
     (if (of_char c :: nat) < of_char d then - 1 else if (of_char d :: nat) < of_char c then 1 else compareCodeUnits cs ds)"

section \<open>What is discovered\<close>

record canonical_pda_observation =
  co_expected :: string
  co_bump :: nat
  co_seeds :: "string list"
  co_address_matches :: bool
  co_stored_bump :: "int option"
  co_bump_matches :: "bool option"

record discovered_account =
  da_address :: string
  da_name :: string
  da_values :: js_object
  da_owner :: string
  da_lamports :: int
  da_data_length :: nat
  da_canonical :: "canonical_pda_observation option"

record unrecognized_account =
  ua_address :: string
  ua_byte_length :: nat
  ua_discriminator :: string

datatype known_pda_kind = StateAccount | SignerPda

record known_pda_inventory =
  kp_name :: string
  kp_address :: string
  kp_kind :: known_pda_kind
  kp_present :: bool
  kp_account_name :: "string option"

record pathway_inventory =
  pi_address :: string
  pi_pathway_id :: string
  pi_kind :: int
  pi_asset_mint :: string
  pi_issued_mint :: string
  pi_executor :: string
  pi_status :: int
  pi_fee :: "discovered_account option"
  pi_limit :: "discovered_account option"
  pi_asset_mint_limit :: "discovered_account option"
  pi_asset_redeem_limit :: "discovered_account option"
  pi_counterparty_limit :: "discovered_account option"
  pi_executor_limit :: "discovered_account option"
  pi_evidence :: "discovered_account option"
  pi_destinations :: "discovered_account list"

record asset_inventory =
  ai_config :: discovered_account
  ai_pause :: "discovered_account option"
  ai_mint :: string
  ai_program :: string
  ai_deposit_rate :: int
  ai_redeem_rate :: int
  ai_pathways :: "pathway_inventory list"
  ai_destinations :: "discovered_account list"

type_synonym accounts_by_type = "(string \<times> discovered_account list) list"

record state_discovery =
  sd_program :: string
  sd_commitment :: rpc_commitment
  sd_count :: nat
  sd_recognized :: "discovered_account list"
  sd_by_type :: accounts_by_type
  sd_unrecognized :: "unrecognized_account list"
  sd_known_pdas :: "known_pda_inventory list"
  sd_config :: "discovered_account option"
  sd_control :: "discovered_account option"
  sd_assets :: "asset_inventory list"
  sd_pathways :: "pathway_inventory list"
  sd_pause_account :: string

section \<open>The address the contents derive to\<close>

definition singletonForAccount :: "string \<Rightarrow> (string \<times> string) option" where
  "singletonForAccount accountName =
     map_of
       [(''ModuleActivationState'', (''module_activation_state'', ''module-activation-state'')),
        (''ChanceryConfig'', (''chancery_config'', ''chancery-config'')),
        (''PauseState'', (''pause_state'', ''pause-state'')),
        (''IssuedTokenControl'', (''issued_token_control'', ''issued-token-control''))] accountName"

text \<open>An address derived from a 32-byte field, a public key field, or a kind and a domain.\<close>

definition from_bytes_field ::
  "(key_input \<Rightarrow> named_program_address res) \<Rightarrow> js_object \<Rightarrow> string \<Rightarrow> named_program_address option res" where
  "from_bytes_field derive values field =
     bindR (requireBytes (obj_get values field) 32) (\<lambda>ident. bindR (derive (KeyBytes ident)) (\<lambda>pda. Inr (Some pda)))"

definition from_key_field ::
  "(key_input \<Rightarrow> named_program_address res) \<Rightarrow> js_object \<Rightarrow> string \<Rightarrow> named_program_address option res" where
  "from_key_field derive values field =
     bindR (requirePublicKeyField values field) (\<lambda>key. bindR (derive (KeyText key)) (\<lambda>pda. Inr (Some pda)))"

definition deriveCanonicalPda ::
  "(bytes \<Rightarrow> bytes) \<Rightarrow> chancery_schema \<Rightarrow> string \<Rightarrow> js_object \<Rightarrow> named_program_address option res" where
  "deriveCanonicalPda H S accountName values =
     (if accountName = ''AuthorityTransfer'' then
        bindR (requireNumberField values ''role_kind'') (\<lambda>kind.
        bindR (deriveAuthorityTransferAddress H S (JNum kind)) (\<lambda>pda. Inr (Some pda)))
      else if accountName = ''AssetConfig'' then from_key_field (deriveAssetConfigAddress H S) values ''asset_mint''
      else if accountName = ''AssetPauseState'' then from_key_field (deriveAssetPauseStateAddress H S) values ''asset_mint''
      else if accountName = ''BasicFreezeRecord'' then
        from_key_field (deriveBasicFreezeRecordAddress H S) values ''issued_token_account''
      else if accountName = ''CrossChainSignerSet'' then
        from_bytes_field (deriveCrossChainSignerSetAddress H S) values ''signer_set_id''
      else if accountName = ''PathwayPolicy'' then from_bytes_field (derivePathwayPolicyAddress H S) values ''pathway_id''
      else if accountName = ''PermissionRecord'' then
        bindR (requirePublicKeyField values ''subject'') (\<lambda>subject.
        bindR (requireNumberField values ''scope_kind'') (\<lambda>kind.
        bindR (requirePublicKeyField values ''scope_key'') (\<lambda>scopeKey.
        bindR (derivePermissionRecordAddress H S (KeyText subject) (JNum kind) (KeyText scopeKey)) (\<lambda>pda. Inr (Some pda)))))
      else if accountName = ''FeePolicy'' then from_bytes_field (deriveFeePolicyAddress H S) values ''fee_policy_id''
      else if accountName = ''LimitPolicy'' then from_bytes_field (deriveLimitPolicyAddress H S) values ''limit_policy_id''
      else if accountName = ''EvidencePolicy'' then
        from_bytes_field (deriveEvidencePolicyAddress H S) values ''evidence_policy_id''
      else if accountName = ''OutboundReclaimRecord'' then
        bindR (requireNumberField values ''remote_chain_kind'') (\<lambda>kind.
        bindR (requireBigIntField values ''remote_domain_id'') (\<lambda>domain.
        bindR (requireBigIntField values ''source_nonce'') (\<lambda>nonce.
        bindR (deriveOutboundReclaimRecordAddress H S (JNum kind) domain nonce) (\<lambda>pda. Inr (Some pda)))))
      else if accountName = ''PendingConfigChange'' then
        from_bytes_field (derivePendingConfigChangeAddress H S) values ''change_id''
      else if accountName = ''RemoteDomainPolicy'' then
        bindR (requireNumberField values ''remote_chain_kind'') (\<lambda>kind.
        bindR (requireBigIntField values ''remote_domain_id'') (\<lambda>domain.
        bindR (deriveRemoteDomainPolicyAddress H S (JNum kind) domain) (\<lambda>pda. Inr (Some pda))))
      else if accountName = ''ReserveDestination'' then
        bindR (requirePublicKeyField values ''asset_mint'') (\<lambda>mint.
        bindR (requirePublicKeyField values ''destination_token_account'') (\<lambda>destination.
        bindR (deriveReserveDestinationAddress H S (KeyText mint) (KeyText destination)) (\<lambda>pda. Inr (Some pda))))
      else if accountName = ''UsageWindow'' then
        bindR (requireBytes (obj_get values ''scope_hash'') 32) (\<lambda>scopeHash.
        bindR (requireNumberField values ''window_kind'') (\<lambda>kind.
        bindR (deriveUsageWindowAddress H S scopeHash (JNum kind)) (\<lambda>pda. Inr (Some pda))))
      else if accountName = ''SettlementIntent'' then from_bytes_field (deriveSettlementIntentAddress H S) values ''intent_id''
      else if accountName = ''SettlementPolicy'' then from_bytes_field (deriveSettlementPolicyAddress H S) values ''policy_id''
      else
        case singletonForAccount accountName of
          None \<Rightarrow> Inr None
        | Some (name, seed) \<Rightarrow> bindR (deriveSingletonAddress H S name seed) (\<lambda>pda. Inr (Some pda)))"

text \<open>
  The address of a nonce depends on the chain kind, which only the policies of its domain name. The loop returns the
  first candidate at the actual address; without one, the only candidate there is.
\<close>

fun nonce_candidates ::
  "(bytes \<Rightarrow> bytes) \<Rightarrow> chancery_schema \<Rightarrow> string \<Rightarrow> int \<Rightarrow> bytes \<Rightarrow> discovered_account list
   \<Rightarrow> named_program_address list \<Rightarrow> named_program_address option res" where
  "nonce_candidates H S actualAddress domain scopeKey [] found =
     Inr (case found of [only] \<Rightarrow> Some only | _ \<Rightarrow> None)"
| "nonce_candidates H S actualAddress domain scopeKey (policy # policies) found =
     bindR (requireBigIntField (da_values policy) ''remote_domain_id'') (\<lambda>policyDomain.
       if policyDomain \<noteq> domain then nonce_candidates H S actualAddress domain scopeKey policies found
       else
         bindR (requireNumberField (da_values policy) ''remote_chain_kind'') (\<lambda>kind.
         bindR (deriveRemoteNonceAddress H S (JNum kind) domain (KeyBytes scopeKey)) (\<lambda>pda.
           if pda_address pda = actualAddress then Inr (Some pda)
           else nonce_candidates H S actualAddress domain scopeKey policies (found @ [pda]))))"

definition deriveRemoteNonceCanonicalPda ::
  "(bytes \<Rightarrow> bytes) \<Rightarrow> chancery_schema \<Rightarrow> string \<Rightarrow> js_object \<Rightarrow> discovered_account list
   \<Rightarrow> named_program_address option res" where
  "deriveRemoteNonceCanonicalPda H S actualAddress values remoteDomainPolicies =
     bindR (requireBigIntField values ''remote_domain_id'') (\<lambda>domain.
     bindR (requireBytes (obj_get values ''scope_key'') 32) (\<lambda>scopeKey.
       nonce_candidates H S actualAddress domain scopeKey remoteDomainPolicies []))"

definition observeCanonicalPda ::
  "(bytes \<Rightarrow> bytes) \<Rightarrow> chancery_schema \<Rightarrow> string \<Rightarrow> string \<Rightarrow> js_object \<Rightarrow> discovered_account list
   \<Rightarrow> canonical_pda_observation option res" where
  "observeCanonicalPda H S actualAddress accountName values remoteDomainPolicies =
     bindR (if accountName = ''RemoteNonce''
            then deriveRemoteNonceCanonicalPda H S actualAddress values remoteDomainPolicies
            else deriveCanonicalPda H S accountName values) (\<lambda>derived.
       Inr (case derived of
              None \<Rightarrow> None
            | Some pda \<Rightarrow>
                let storedBump = (case obj_get values ''bump'' of JNum n \<Rightarrow> Some n | _ \<Rightarrow> None) in
                Some \<lparr>co_expected = pda_address pda, co_bump = pda_bump pda, co_seeds = np_seeds pda,
                      co_address_matches = (pda_address pda = actualAddress), co_stored_bump = storedBump,
                      co_bump_matches = map_option (\<lambda>n. n = int (pda_bump pda)) storedBump\<rparr>))"

section \<open>Reading the accounts\<close>

definition validateProgramAccount :: "chancery_schema \<Rightarrow> rpc_account_info \<Rightarrow> unit res" where
  "validateProgramAccount S account =
     (if ra_owner account \<noteq> program_address (schema_program S) then throw ''Program account is owned by another program''
      else if ra_executable account then throw ''Program account must not be executable''
      else Inr ())"

datatype classified_account = Recognized discovered_account | Unrecognized unrecognized_account

definition classify_account ::
  "(bytes \<Rightarrow> bytes) \<Rightarrow> chancery_schema \<Rightarrow> rpc_address_account_info \<Rightarrow> classified_account res" where
  "classify_account H S programAccount =
     (let address = rx_address programAccount; account = rx_account programAccount in
      bindR (validateProgramAccount S account) (\<lambda>_.
        case decodeChanceryAccount S (ra_data account) of
          Inl e \<Rightarrow>
            if e \<noteq> Error ''Unknown Chancery account discriminator'' then Inl e
            else Inr (Unrecognized \<lparr>ua_address = address, ua_byte_length = length (ra_data account),
                        ua_discriminator = ''0x'' @ bytesToHex (take 8 (ra_data account))\<rparr>)
        | Inr decoded \<Rightarrow>
            bindR (observeCanonicalPda H S address (decoded_account_name decoded) (decoded_account_values decoded) [])
              (\<lambda>canonical.
                Inr (Recognized \<lparr>da_address = address, da_name = decoded_account_name decoded,
                       da_values = decoded_account_values decoded, da_owner = ra_owner account,
                       da_lamports = ra_lamports account, da_data_length = length (ra_data account),
                       da_canonical = canonical\<rparr>))))"

definition recognized_of :: "classified_account list \<Rightarrow> discovered_account list" where
  "recognized_of = List.map_filter (\<lambda>x. case x of Recognized a \<Rightarrow> Some a | Unrecognized _ \<Rightarrow> None)"

definition unrecognized_of :: "classified_account list \<Rightarrow> unrecognized_account list" where
  "unrecognized_of = List.map_filter (\<lambda>x. case x of Recognized _ \<Rightarrow> None | Unrecognized u \<Rightarrow> Some u)"

definition observe_nonce ::
  "(bytes \<Rightarrow> bytes) \<Rightarrow> chancery_schema \<Rightarrow> discovered_account list \<Rightarrow> discovered_account \<Rightarrow> discovered_account res" where
  "observe_nonce H S remoteDomainPolicies account =
     (if da_name account \<noteq> ''RemoteNonce'' then Inr account
      else
        bindR (observeCanonicalPda H S (da_address account) (da_name account) (da_values account) remoteDomainPolicies)
          (\<lambda>canonical. Inr (account\<lparr>da_canonical := canonical\<rparr>)))"

definition compareDiscoveredAccounts :: "(string \<Rightarrow> string \<Rightarrow> int) \<Rightarrow> discovered_account \<Rightarrow> discovered_account \<Rightarrow> int" where
  "compareDiscoveredAccounts localeCompare left right =
     (let nameComparison = localeCompare (da_name left) (da_name right) in
      if nameComparison = 0 then localeCompare (da_address left) (da_address right) else nameComparison)"

section \<open>Inventories\<close>

definition push_account :: "discovered_account \<Rightarrow> accounts_by_type \<Rightarrow> accounts_by_type res" where
  "push_account account grouped =
     (case map_of grouped (da_name account) of
        None \<Rightarrow> throw ''Decoded unknown Chancery account type''
      | Some entries \<Rightarrow> Inr (obj_set grouped (da_name account) (entries @ [account])))"

definition groupAccountsByType :: "chancery_schema \<Rightarrow> discovered_account list \<Rightarrow> accounts_by_type res" where
  "groupAccountsByType S accounts =
     foldR push_account accounts (map (\<lambda>name. (name, [])) (sort_by compareCodeUnits (map fst (schema_accounts S))))"

definition of_type :: "accounts_by_type \<Rightarrow> string \<Rightarrow> discovered_account list" where
  "of_type grouped name = (case map_of grouped name of None \<Rightarrow> [] | Some accounts \<Rightarrow> accounts)"

type_synonym policy_index = "(string \<times> discovered_account) list"

definition index_account :: "string \<Rightarrow> discovered_account \<Rightarrow> policy_index \<Rightarrow> policy_index res" where
  "index_account fieldName account index =
     bindR (bytes32Hex (obj_get (da_values account) fieldName)) (\<lambda>key.
       if map_of index key \<noteq> None then throw ''Duplicate policy id'' else Inr (index @ [(key, account)]))"

definition indexAccountsByBytes32 :: "discovered_account list \<Rightarrow> string \<Rightarrow> policy_index res" where
  "indexAccountsByBytes32 accounts fieldName = foldR (index_account fieldName) accounts []"

record policy_indexes =
  px_fee :: policy_index
  px_limit :: policy_index
  px_evidence :: policy_index

definition buildPolicyIndexes :: "accounts_by_type \<Rightarrow> policy_indexes res" where
  "buildPolicyIndexes accountsByType =
     bindR (indexAccountsByBytes32 (of_type accountsByType ''FeePolicy'') ''fee_policy_id'') (\<lambda>fee.
     bindR (indexAccountsByBytes32 (of_type accountsByType ''LimitPolicy'') ''limit_policy_id'') (\<lambda>limit.
     bindR (indexAccountsByBytes32 (of_type accountsByType ''EvidencePolicy'') ''evidence_policy_id'') (\<lambda>evidence.
       Inr \<lparr>px_fee = fee, px_limit = limit, px_evidence = evidence\<rparr>)))"

definition linkedPolicy :: "policy_index \<Rightarrow> js \<Rightarrow> discovered_account option res" where
  "linkedPolicy index identifier =
     bindR (requireBytes identifier 32) (\<lambda>bs.
       Inr (if list_ex (\<lambda>i. bs ! i \<noteq> 0) [0..<32] then map_of index (''0x'' @ bytesToHex bs) else None))"

text \<open>\<open>filter\<close> with a predicate that may throw.\<close>

fun filterR :: "('a \<Rightarrow> bool res) \<Rightarrow> 'a list \<Rightarrow> 'a list res" where
  "filterR p [] = Inr []"
| "filterR p (x # xs) = bindR (p x) (\<lambda>b. bindR (filterR p xs) (\<lambda>ys. Inr (if b then x # ys else ys)))"

definition destinations_of :: "discovered_account list \<Rightarrow> string \<Rightarrow> discovered_account list res" where
  "destinations_of reserveDestinations assetMint =
     filterR (\<lambda>destination. bindR (requirePublicKeyField (da_values destination) ''asset_mint'')
                (\<lambda>mint. Inr (mint = assetMint))) reserveDestinations"

definition buildPathwayInventory ::
  "policy_indexes \<Rightarrow> discovered_account list \<Rightarrow> discovered_account \<Rightarrow> pathway_inventory res" where
  "buildPathwayInventory policyIndexes reserveDestinations pathway =
     (let values = da_values pathway; field = obj_get values in
      bindR (requirePublicKeyField values ''asset_mint'') (\<lambda>assetMint.
      bindR (bytes32Hex (field ''pathway_id'')) (\<lambda>pathwayId.
      bindR (requireNumberField values ''pathway_kind'') (\<lambda>kind.
      bindR (requirePublicKeyField values ''issued_token_mint'') (\<lambda>issuedMint.
      bindR (requirePublicKeyField values ''designated_executor'') (\<lambda>executor.
      bindR (requireBigIntField values ''status_flags'') (\<lambda>status.
      bindR (linkedPolicy (px_fee policyIndexes) (field ''fee_policy_id'')) (\<lambda>fee.
      bindR (linkedPolicy (px_limit policyIndexes) (field ''limit_policy_id'')) (\<lambda>limit.
      bindR (linkedPolicy (px_limit policyIndexes) (field ''asset_mint_limit_policy_id'')) (\<lambda>assetMintLimit.
      bindR (linkedPolicy (px_limit policyIndexes) (field ''asset_redeem_limit_policy_id'')) (\<lambda>assetRedeemLimit.
      bindR (linkedPolicy (px_limit policyIndexes) (field ''counterparty_limit_policy_id'')) (\<lambda>counterpartyLimit.
      bindR (linkedPolicy (px_limit policyIndexes) (field ''executor_limit_policy_id'')) (\<lambda>executorLimit.
      bindR (linkedPolicy (px_evidence policyIndexes) (field ''evidence_policy_id'')) (\<lambda>evidence.
      bindR (destinations_of reserveDestinations assetMint) (\<lambda>destinations.
        Inr \<lparr>pi_address = da_address pathway, pi_pathway_id = pathwayId, pi_kind = kind, pi_asset_mint = assetMint,
             pi_issued_mint = issuedMint, pi_executor = executor, pi_status = status, pi_fee = fee, pi_limit = limit,
             pi_asset_mint_limit = assetMintLimit, pi_asset_redeem_limit = assetRedeemLimit,
             pi_counterparty_limit = counterpartyLimit, pi_executor_limit = executorLimit, pi_evidence = evidence,
             pi_destinations = destinations\<rparr>)))))))))))))))"

fun findByPublicKeyField :: "discovered_account list \<Rightarrow> string \<Rightarrow> string \<Rightarrow> discovered_account option res" where
  "findByPublicKeyField [] fieldName key = Inr None"
| "findByPublicKeyField (account # accounts) fieldName key =
     bindR (requirePublicKeyField (da_values account) fieldName) (\<lambda>found.
       if found = key then Inr (Some account) else findByPublicKeyField accounts fieldName key)"

definition buildAssetInventory ::
  "discovered_account list \<Rightarrow> pathway_inventory list \<Rightarrow> discovered_account list \<Rightarrow> discovered_account
   \<Rightarrow> asset_inventory res" where
  "buildAssetInventory assetPauseAccounts pathways reserveDestinations assetAccount =
     (let values = da_values assetAccount in
      bindR (requirePublicKeyField values ''asset_mint'') (\<lambda>assetMint.
      bindR (findByPublicKeyField assetPauseAccounts ''asset_mint'' assetMint) (\<lambda>pause.
      bindR (requirePublicKeyField values ''asset_token_program'') (\<lambda>tokenProgram.
      bindR (requireBigIntField values ''deposit_rate_e9'') (\<lambda>depositRate.
      bindR (requireBigIntField values ''redeem_rate_e9'') (\<lambda>redeemRate.
      bindR (destinations_of reserveDestinations assetMint) (\<lambda>destinations.
        Inr \<lparr>ai_config = assetAccount, ai_pause = pause, ai_mint = assetMint, ai_program = tokenProgram,
             ai_deposit_rate = depositRate, ai_redeem_rate = redeemRate,
             ai_pathways = filter (\<lambda>pathway. pi_asset_mint pathway = assetMint) pathways,
             ai_destinations = destinations\<rparr>)))))))"

definition knownPdaKind :: "string \<Rightarrow> known_pda_kind" where
  "knownPdaKind name =
     (if name = ''event_authority'' \<or> name = ''reserve_authority_pda'' \<or> name = ''mint_authority_pda''
      then SignerPda else StateAccount)"

text \<open>\<open>byAddress\<close> keeps the last account set at an address.\<close>

definition account_by_address :: "discovered_account list \<Rightarrow> string \<Rightarrow> discovered_account option" where
  "account_by_address accounts address = map_of (rev (map (\<lambda>a. (da_address a, a)) accounts)) address"

definition known_pda_entry ::
  "discovered_account list \<Rightarrow> string \<Rightarrow> string \<Rightarrow> known_pda_kind \<Rightarrow> known_pda_inventory" where
  "known_pda_entry accounts name address kind =
     (let account = account_by_address accounts address in
      \<lparr>kp_name = name, kp_address = address, kp_kind = kind, kp_present = (account \<noteq> None),
       kp_account_name = map_option da_name account\<rparr>)"

definition buildKnownPdaInventory ::
  "(bytes \<Rightarrow> bytes) \<Rightarrow> chancery_schema \<Rightarrow> (string \<Rightarrow> string \<Rightarrow> int) \<Rightarrow> discovered_account list
   \<Rightarrow> known_pda_inventory list res" where
  "buildKnownPdaInventory H S localeCompare accounts =
     bindR (mapR (\<lambda>name. bindR (knownPdaAddress S name) (\<lambda>address.
              Inr (known_pda_entry accounts name address (knownPdaKind name))))
              (sort_by compareCodeUnits (map fst (known_pdas S)))) (\<lambda>inventory.
     bindR (deriveSingletonAddress H S ''mint_authority_pda'' ''mint-authority'') (\<lambda>mintAuthority.
       let all =
         (if list_ex (\<lambda>entry. kp_name entry = np_name mintAuthority) inventory then inventory
          else inventory @ [known_pda_entry accounts (np_name mintAuthority) (pda_address mintAuthority) SignerPda]) in
       Inr (sort_by (\<lambda>left right. localeCompare (kp_name left) (kp_name right)) all)))"

definition firstAccount :: "discovered_account list \<Rightarrow> discovered_account option" where
  "firstAccount accounts = (case accounts of [] \<Rightarrow> None | account # _ \<Rightarrow> Some account)"

section \<open>The discovery\<close>

definition build_discovery ::
  "(bytes \<Rightarrow> bytes) \<Rightarrow> chancery_schema \<Rightarrow> (string \<Rightarrow> string \<Rightarrow> int) \<Rightarrow> rpc_commitment \<Rightarrow> rpc_address_account_info list
   \<Rightarrow> state_discovery res" where
  "build_discovery H S localeCompare commitment programAccounts =
     bindR (mapR (classify_account H S) programAccounts) (\<lambda>classified.
     let remoteDomainPolicies = filter (\<lambda>a. da_name a = ''RemoteDomainPolicy'') (recognized_of classified) in
     bindR (mapR (observe_nonce H S remoteDomainPolicies) (recognized_of classified)) (\<lambda>observed.
     let recognized = sort_by (compareDiscoveredAccounts localeCompare) observed;
         unrecognized = sort_by (\<lambda>left right. localeCompare (ua_address left) (ua_address right)) (unrecognized_of classified) in
     bindR (groupAccountsByType S recognized) (\<lambda>accountsByType.
     bindR (buildPolicyIndexes accountsByType) (\<lambda>policyIndexes.
     let reserveDestinations = of_type accountsByType ''ReserveDestination'' in
     bindR (mapR (buildPathwayInventory policyIndexes reserveDestinations) (of_type accountsByType ''PathwayPolicy''))
       (\<lambda>builtPathways.
     let pathways = sort_by (\<lambda>left right. localeCompare (pi_address left) (pi_address right)) builtPathways in
     bindR (mapR (buildAssetInventory (of_type accountsByType ''AssetPauseState'') pathways reserveDestinations)
              (of_type accountsByType ''AssetConfig'')) (\<lambda>builtAssets.
     let assets = sort_by (\<lambda>left right. localeCompare (ai_mint left) (ai_mint right)) builtAssets in
     bindR (buildKnownPdaInventory H S localeCompare recognized) (\<lambda>knownPdas.
     bindR (knownPdaAddress S ''pause_state'') (\<lambda>pauseAccount.
       Inr \<lparr>sd_program = program_address (schema_program S), sd_commitment = commitment,
            sd_count = length programAccounts, sd_recognized = recognized, sd_by_type = accountsByType,
            sd_unrecognized = unrecognized, sd_known_pdas = knownPdas,
            sd_config = firstAccount (of_type accountsByType ''ChanceryConfig''),
            sd_control = firstAccount (of_type accountsByType ''IssuedTokenControl''),
            sd_assets = assets, sd_pathways = pathways, sd_pause_account = pauseAccount\<rparr>))))))))"

definition discoverChanceryState ::
  "(bytes \<Rightarrow> bytes) \<Rightarrow> chancery_schema \<Rightarrow> (string \<Rightarrow> string \<Rightarrow> int) \<Rightarrow> 'w fetch \<Rightarrow> rpc_commitment
   \<Rightarrow> ('w, state_discovery) rpc_io" where
  "discoverChanceryState H S localeCompare fetch commitment =
     bindP (getProgramAccounts fetch (KeyText (program_address (schema_program S))) [] commitment) (\<lambda>programAccounts.
       liftP (build_discovery H S localeCompare commitment programAccounts))"

definition discover :: "'w client \<Rightarrow> (string \<Rightarrow> string \<Rightarrow> int) \<Rightarrow> ('w, state_discovery) rpc_io" where
  "discover c localeCompare = discoverChanceryState (cc_hash c) (cc_schema c) localeCompare (cc_fetch c) (cc_commitment c)"

end
