(* ===== verification/DiscoverySafety.thy ===== *)
theory DiscoverySafety
  imports ChanceryDiscovery TextCodec
begin

text \<open>
  What a discovery promises: no account of the listing is lost or duplicated, every recognized account is decoded from
  the listing, the groups and inventories are complete, and a policy linked to a pathway is the one whose id it names.
\<close>

section \<open>Sorting keeps the elements\<close>

lemma mset_insert_by [simp]: "mset (insert_by cmp x ys) = add_mset x (mset ys)"
  by (induction ys) auto

lemma mset_sort_by [simp]: "mset (sort_by cmp xs) = mset xs"
  by (induction xs) (auto simp: sort_by_def)

lemma set_sort_by [simp]: "set (sort_by cmp xs) = set xs"
  by (metis mset_sort_by set_mset_mset)

lemma distinct_sort_by [simp]: "distinct (sort_by cmp xs) = distinct xs"
  by (metis mset_eq_imp_distinct_iff mset_sort_by)

lemma mset_map_sort_by [simp]: "mset (map f (sort_by cmp xs)) = mset (map f xs)"
  by (simp add: mset_map)

section \<open>Classification\<close>

text \<open>A recognized account is the decoding of a program account of the listing, with a truthful canonical observation.\<close>

definition truthful_observation :: "string \<Rightarrow> js_object \<Rightarrow> canonical_pda_observation option \<Rightarrow> bool" where
  "truthful_observation address values canonical =
     (case canonical of
        None \<Rightarrow> True
      | Some c \<Rightarrow>
          co_address_matches c = (co_expected c = address)
          \<and> co_bump_matches c = (case obj_get values ''bump'' of JNum n \<Rightarrow> Some (n = int (co_bump c)) | _ \<Rightarrow> None))"

definition recognized_from ::
  "chancery_schema \<Rightarrow> rpc_address_account_info list \<Rightarrow> discovered_account \<Rightarrow> bool" where
  "recognized_from S programAccounts a \<longleftrightarrow>
     (\<exists>p \<in> set programAccounts. \<exists>decoded.
        da_address a = rx_address p \<and> decodeChanceryAccount S (ra_data (rx_account p)) = Inr decoded
        \<and> da_name a = decoded_account_name decoded \<and> da_values a = decoded_account_values decoded
        \<and> da_owner a = program_address (schema_program S) \<and> \<not> ra_executable (rx_account p)
        \<and> da_lamports a = ra_lamports (rx_account p) \<and> da_data_length a = length (ra_data (rx_account p)))
     \<and> truthful_observation (da_address a) (da_values a) (da_canonical a)"

definition unrecognized_from ::
  "chancery_schema \<Rightarrow> rpc_address_account_info list \<Rightarrow> unrecognized_account \<Rightarrow> bool" where
  "unrecognized_from S programAccounts u \<longleftrightarrow>
     (\<exists>p \<in> set programAccounts.
        ua_address u = rx_address p \<and> ua_byte_length u = length (ra_data (rx_account p))
        \<and> decodeChanceryAccount S (ra_data (rx_account p)) = throw ''Unknown Chancery account discriminator'')"

definition classified_address :: "classified_account \<Rightarrow> string" where
  "classified_address x = (case x of Recognized a \<Rightarrow> da_address a | Unrecognized u \<Rightarrow> ua_address u)"

lemma observeCanonicalPda_truthful:
  assumes "observeCanonicalPda H S address name values policies = Inr c"
  shows "truthful_observation address values c"
proof (cases c)
  case None
  then show ?thesis by (simp add: truthful_observation_def)
next
  case (Some observation)
  have "\<exists>pda :: named_program_address. observation = \<lparr>co_expected = pda_address pda, co_bump = pda_bump pda, co_seeds = np_seeds pda,
       co_address_matches = (pda_address pda = address),
       co_stored_bump = (case obj_get values ''bump'' of JNum n \<Rightarrow> Some n | _ \<Rightarrow> None),
       co_bump_matches = map_option (\<lambda>n. n = int (pda_bump pda))
         (case obj_get values ''bump'' of JNum n \<Rightarrow> Some n | _ \<Rightarrow> None)\<rparr>"
    using assms Some by (auto simp: observeCanonicalPda_def Let_def split: option.splits)
  with Some show ?thesis by (auto simp: truthful_observation_def split: js.splits)
qed

lemma classify_address: "classify_account H S p = Inr x \<Longrightarrow> classified_address x = rx_address p"
  by (auto simp: classify_account_def classified_address_def Let_def split: sum.splits if_splits)

lemma classify_recognized:
  assumes "classify_account H S p = Inr (Recognized a)" "p \<in> set programAccounts"
  shows "recognized_from S programAccounts a"
  using assms
  by (auto simp: classify_account_def recognized_from_def validateProgramAccount_def Let_def
      observeCanonicalPda_truthful split: sum.splits if_splits)

lemma classify_unrecognized:
  assumes "classify_account H S p = Inr (Unrecognized u)" "p \<in> set programAccounts"
  shows "unrecognized_from S programAccounts u"
  using assms
  by (auto simp: classify_account_def unrecognized_from_def Let_def split: sum.splits if_splits)

lemma recognized_of_simps [simp]:
  "recognized_of [] = []"
  "recognized_of (x # xs) = (case x of Recognized a \<Rightarrow> a # recognized_of xs | Unrecognized _ \<Rightarrow> recognized_of xs)"
  by (auto simp: recognized_of_def map_filter_simps split: classified_account.splits)

lemma unrecognized_of_simps [simp]:
  "unrecognized_of [] = []"
  "unrecognized_of (x # xs) = (case x of Recognized _ \<Rightarrow> unrecognized_of xs | Unrecognized u \<Rightarrow> u # unrecognized_of xs)"
  by (auto simp: unrecognized_of_def map_filter_simps split: classified_account.splits)

lemma partition_addresses:
  "mset (map da_address (recognized_of xs)) + mset (map ua_address (unrecognized_of xs)) = mset (map classified_address xs)"
  by (induction xs) (auto simp: classified_address_def split: classified_account.splits)

lemma recognized_of_mem: "a \<in> set (recognized_of xs) \<longleftrightarrow> Recognized a \<in> set xs"
  by (induction xs) (auto split: classified_account.splits)

lemma unrecognized_of_mem: "u \<in> set (unrecognized_of xs) \<longleftrightarrow> Unrecognized u \<in> set xs"
  by (induction xs) (auto split: classified_account.splits)

lemma classified_addresses:
  assumes "mapR (classify_account H S) ps = Inr xs"
  shows "map classified_address xs = map rx_address ps"
  using assms by (induction ps arbitrary: xs) (auto simp: classify_address)

lemma mapR_mem: "mapR f xs = Inr ys \<Longrightarrow> y \<in> set ys \<Longrightarrow> \<exists>x \<in> set xs. f x = Inr y"
  by (induction xs arbitrary: ys) auto

lemma observe_nonce_keeps:
  assumes "observe_nonce H S policies a = Inr b"
  shows "\<exists>c. b = a\<lparr>da_canonical := c\<rparr> \<and> (truthful_observation (da_address a) (da_values a) c \<or> c = da_canonical a)"
proof (cases "da_name a = ''RemoteNonce''")
  case True
  with assms observeCanonicalPda_truthful show ?thesis by (fastforce simp: observe_nonce_def)
next
  case False
  with assms have "b = a\<lparr>da_canonical := da_canonical a\<rparr>" by (simp add: observe_nonce_def)
  then show ?thesis by blast
qed

lemma recognized_from_observed:
  assumes "recognized_from S ps a" "observe_nonce H S policies a = Inr b"
  shows "recognized_from S ps b"
  using assms observe_nonce_keeps [OF assms(2)] by (auto simp: recognized_from_def)

lemma observed_addresses:
  assumes "mapR (observe_nonce H S policies) as = Inr bs"
  shows "map da_address bs = map da_address as"
  using assms by (induction as arbitrary: bs) (auto dest!: observe_nonce_keeps)

section \<open>Grouping\<close>

lemma push_account_of_type:
  assumes "push_account a g = Inr g'"
  shows "of_type g' name = of_type g name @ (if da_name a = name then [a] else [])"
  using assms by (auto simp: push_account_def of_type_def split: option.splits if_splits)

lemma pushed_of_type:
  assumes "foldR push_account as g = Inr g'"
  shows "of_type g' name = of_type g name @ filter (\<lambda>a. da_name a = name) as"
  using assms by (induction as arbitrary: g) (auto simp: push_account_of_type)

lemma empty_groups: "of_type (map (\<lambda>name. (name, [])) names) name = []"
  by (induction names) (auto simp: of_type_def)

lemma grouped_of_type:
  assumes "groupAccountsByType S as = Inr g"
  shows "of_type g name = filter (\<lambda>a. da_name a = name) as"
  using pushed_of_type [OF assms [unfolded groupAccountsByType_def]] by (simp add: empty_groups)

section \<open>Linked policies\<close>

text \<open>
  The policy linked to a 32-byte id among the accounts of a type: the account that stores the id, if the id is not
  zero and there is such an account.
\<close>

definition links_policy :: "discovered_account list \<Rightarrow> string \<Rightarrow> string \<Rightarrow> js \<Rightarrow> discovered_account option \<Rightarrow> bool" where
  "links_policy accounts type field ident linked \<longleftrightarrow>
     (\<exists>bs. ident = JBytes bs \<and> length bs = 32 \<and>
        (case linked of
           Some a \<Rightarrow> a \<in> set accounts \<and> da_name a = type \<and> obj_get (da_values a) field = JBytes bs \<and> \<not> (\<forall>b \<in> set bs. b = 0)
         | None \<Rightarrow> (\<forall>b \<in> set bs. b = 0)
             \<or> (\<forall>a \<in> set accounts. da_name a = type \<longrightarrow> obj_get (da_values a) field \<noteq> JBytes bs)))"

lemma requireBytes_eq: "requireBytes v n = Inr bs \<longleftrightarrow> v = JBytes bs \<and> length bs = n"
  by (auto simp: requireBytes_def split: js.splits)

lemma bytes32Hex_eq: "bytes32Hex v = Inr s \<longleftrightarrow> (\<exists>bs. v = JBytes bs \<and> length bs = 32 \<and> s = ''0x'' @ bytesToHex bs)"
  by (auto simp: bytes32Hex_def requireBytes_eq)

text \<open>An index holds exactly the accounts indexed, each under its id.\<close>

definition indexes :: "string \<Rightarrow> policy_index \<Rightarrow> discovered_account list \<Rightarrow> bool" where
  "indexes field index accounts \<longleftrightarrow>
     (\<forall>bs. length bs = 32 \<longrightarrow>
        (case map_of index (''0x'' @ bytesToHex bs) of
           Some a \<Rightarrow> a \<in> set accounts \<and> obj_get (da_values a) field = JBytes bs
         | None \<Rightarrow> (\<forall>a \<in> set accounts. obj_get (da_values a) field \<noteq> JBytes bs)))"

lemma index_account_indexes:
  assumes "index_account field a index = Inr index'" "indexes field index accounts"
  shows "indexes field index' (accounts @ [a])"
proof -
  from assms(1) obtain bs where bs: "obj_get (da_values a) field = JBytes bs" "length bs = 32"
      "map_of index (''0x'' @ bytesToHex bs) = None" "index' = index @ [(''0x'' @ bytesToHex bs, a)]"
    by (auto simp: index_account_def bytes32Hex_eq split: if_splits)
  show ?thesis
    unfolding indexes_def
  proof (intro allI impI)
    fix cs :: bytes assume len: "length cs = 32"
    show "case map_of index' (''0x'' @ bytesToHex cs) of
        Some b \<Rightarrow> b \<in> set (accounts @ [a]) \<and> obj_get (da_values b) field = JBytes cs
      | None \<Rightarrow> (\<forall>b \<in> set (accounts @ [a]). obj_get (da_values b) field \<noteq> JBytes cs)"
      using assms(2) [unfolded indexes_def, rule_format, OF len] bs
      by (cases "cs = bs") (auto simp: map_add_def bytesToHex_inj split: option.splits)
  qed
qed

lemma folded_indexes:
  assumes "foldR (index_account field) as index = Inr index'" "indexes field index accounts"
  shows "indexes field index' (accounts @ as)"
  using assms
proof (induction as arbitrary: index accounts)
  case (Cons a as)
  then obtain index1 where "index_account field a index = Inr index1" "foldR (index_account field) as index1 = Inr index'"
    by auto
  with Cons.IH [OF this(2) index_account_indexes [OF this(1) Cons.prems(2)]] show ?case by simp
qed simp

lemma indexed: "indexAccountsByBytes32 accounts field = Inr index \<Longrightarrow> indexes field index accounts"
  using folded_indexes [of field accounts "[]" index "[]"] by (simp add: indexAccountsByBytes32_def indexes_def)

lemma some_byte_nonzero: "length bs = 32 \<Longrightarrow> list_ex (\<lambda>i. bs ! i \<noteq> 0) [0..<32] \<longleftrightarrow> \<not> (\<forall>b \<in> set bs. b = (0 :: byte))"
  by (fastforce simp: list_ex_iff in_set_conv_nth simp del: upt_rec_numeral)

lemma linkedPolicy_links:
  assumes "linkedPolicy index ident = Inr linked" "indexes field index (filter (\<lambda>a. da_name a = type) accounts)"
  shows "links_policy accounts type field ident linked"
proof -
  from assms(1) obtain bs where bs: "ident = JBytes bs" "length bs = 32"
      "linked = (if \<forall>b \<in> set bs. b = 0 then None else map_of index (''0x'' @ bytesToHex bs))"
    by (auto simp: linkedPolicy_def requireBytes_eq some_byte_nonzero)
  with assms(2) [unfolded indexes_def, rule_format, OF bs(2)] show ?thesis
    by (auto simp: links_policy_def split: option.splits if_splits)
qed

lemma built_indexes:
  assumes "buildPolicyIndexes g = Inr px"
  shows "indexes ''fee_policy_id'' (px_fee px) (of_type g ''FeePolicy'')"
    "indexes ''limit_policy_id'' (px_limit px) (of_type g ''LimitPolicy'')"
    "indexes ''evidence_policy_id'' (px_evidence px) (of_type g ''EvidencePolicy'')"
  using assms by (auto simp: buildPolicyIndexes_def indexed)

section \<open>Pathways and assets\<close>

definition names_mint :: "string \<Rightarrow> discovered_account \<Rightarrow> bool" where
  "names_mint mint a \<longleftrightarrow> requirePublicKeyField (da_values a) ''asset_mint'' = Inr mint"

definition accounts_of :: "string \<Rightarrow> discovered_account list \<Rightarrow> discovered_account list" where
  "accounts_of type = filter (\<lambda>a. da_name a = type)"

text \<open>The inventory of a pathway account: its own fields, the policies it names and the destinations of its mint.\<close>

definition describes_pathway :: "discovered_account list \<Rightarrow> discovered_account \<Rightarrow> pathway_inventory \<Rightarrow> bool" where
  "describes_pathway accounts a p \<longleftrightarrow>
     pi_address p = da_address a \<and> names_mint (pi_asset_mint p) a
     \<and> bytes32Hex (obj_get (da_values a) ''pathway_id'') = Inr (pi_pathway_id p)
     \<and> obj_get (da_values a) ''pathway_kind'' = JNum (pi_kind p)
     \<and> requirePublicKeyField (da_values a) ''issued_token_mint'' = Inr (pi_issued_mint p)
     \<and> requirePublicKeyField (da_values a) ''designated_executor'' = Inr (pi_executor p)
     \<and> obj_get (da_values a) ''status_flags'' = JBig (pi_status p)
     \<and> links_policy accounts ''FeePolicy'' ''fee_policy_id'' (obj_get (da_values a) ''fee_policy_id'') (pi_fee p)
     \<and> list_all (\<lambda>(field, linked). links_policy accounts ''LimitPolicy'' ''limit_policy_id'' (obj_get (da_values a) field) linked)
         [(''limit_policy_id'', pi_limit p), (''asset_mint_limit_policy_id'', pi_asset_mint_limit p),
          (''asset_redeem_limit_policy_id'', pi_asset_redeem_limit p),
          (''counterparty_limit_policy_id'', pi_counterparty_limit p), (''executor_limit_policy_id'', pi_executor_limit p)]
     \<and> links_policy accounts ''EvidencePolicy'' ''evidence_policy_id'' (obj_get (da_values a) ''evidence_policy_id'') (pi_evidence p)
     \<and> pi_destinations p = filter (names_mint (pi_asset_mint p)) (accounts_of ''ReserveDestination'' accounts)"

text \<open>The inventory of an asset: its configuration, the pause state and destinations of its mint and all its pathways.\<close>

definition describes_asset ::
  "discovered_account list \<Rightarrow> pathway_inventory list \<Rightarrow> discovered_account \<Rightarrow> asset_inventory \<Rightarrow> bool" where
  "describes_asset accounts pathways a i \<longleftrightarrow>
     ai_config i = a \<and> names_mint (ai_mint i) a
     \<and> requirePublicKeyField (da_values a) ''asset_token_program'' = Inr (ai_program i)
     \<and> obj_get (da_values a) ''deposit_rate_e9'' = JBig (ai_deposit_rate i)
     \<and> obj_get (da_values a) ''redeem_rate_e9'' = JBig (ai_redeem_rate i)
     \<and> ai_pause i = List.find (names_mint (ai_mint i)) (accounts_of ''AssetPauseState'' accounts)
     \<and> ai_pathways i = filter (\<lambda>p. pi_asset_mint p = ai_mint i) pathways
     \<and> ai_destinations i = filter (names_mint (ai_mint i)) (accounts_of ''ReserveDestination'' accounts)"

lemma filterR_filter: "filterR p xs = Inr ys \<Longrightarrow> ys = filter (\<lambda>x. p x = Inr True) xs"
  by (induction xs arbitrary: ys) auto

lemma destinations_of_filter: "destinations_of rs mint = Inr ds \<Longrightarrow> ds = filter (names_mint mint) rs"
  by (auto simp: destinations_of_def names_mint_def dest!: filterR_filter intro!: filter_cong)

lemma found_by_key:
  "findByPublicKeyField accounts ''asset_mint'' mint = Inr found \<Longrightarrow> found = List.find (names_mint mint) accounts"
  by (induction accounts) (auto simp: names_mint_def split: if_splits)

lemma requireNumberField_eq: "requireNumberField values field = Inr n \<longleftrightarrow> is_safe_integer n \<and> obj_get values field = JNum n"
  by (auto simp: requireNumberField_def split: js.splits if_splits)

lemma requireBigIntField_eq: "requireBigIntField values field = Inr n \<longleftrightarrow> obj_get values field = JBig n"
  by (auto simp: requireBigIntField_def split: js.splits)

lemma pathway_described:
  assumes "buildPathwayInventory px (accounts_of ''ReserveDestination'' accounts) a = Inr p"
    "indexes ''fee_policy_id'' (px_fee px) (accounts_of ''FeePolicy'' accounts)"
    "indexes ''limit_policy_id'' (px_limit px) (accounts_of ''LimitPolicy'' accounts)"
    "indexes ''evidence_policy_id'' (px_evidence px) (accounts_of ''EvidencePolicy'' accounts)"
  shows "describes_pathway accounts a p"
  using assms(1) linkedPolicy_links [OF _ assms(2) [unfolded accounts_of_def]]
    linkedPolicy_links [OF _ assms(3) [unfolded accounts_of_def]] linkedPolicy_links [OF _ assms(4) [unfolded accounts_of_def]]
  by (clarsimp simp: buildPathwayInventory_def describes_pathway_def Let_def requireNumberField_eq requireBigIntField_eq
      names_mint_def [symmetric] destinations_of_filter)

lemma asset_described:
  assumes "buildAssetInventory (accounts_of ''AssetPauseState'' accounts) pathways (accounts_of ''ReserveDestination'' accounts) a
           = Inr i"
  shows "describes_asset accounts pathways a i"
  using assms
  by (clarsimp simp: buildAssetInventory_def describes_asset_def Let_def requireBigIntField_eq names_mint_def [symmetric]
      destinations_of_filter found_by_key)

section \<open>The whole discovery\<close>

text \<open>What the parts of a discovery mean, in terms of the listing it was built from.\<close>

definition complete_accounts :: "chancery_schema \<Rightarrow> rpc_address_account_info list \<Rightarrow> state_discovery \<Rightarrow> bool" where
  "complete_accounts S programAccounts d \<longleftrightarrow>
     sd_count d = length programAccounts
     \<and> mset (map da_address (sd_recognized d)) + mset (map ua_address (sd_unrecognized d)) = mset (map rx_address programAccounts)
     \<and> (\<forall>a \<in> set (sd_recognized d). recognized_from S programAccounts a)
     \<and> (\<forall>u \<in> set (sd_unrecognized d). unrecognized_from S programAccounts u)
     \<and> (\<forall>name. of_type (sd_by_type d) name = accounts_of name (sd_recognized d))"

definition complete_inventories :: "state_discovery \<Rightarrow> bool" where
  "complete_inventories d \<longleftrightarrow>
     (\<exists>ps. mset ps = mset (sd_pathways d) \<and> list_all2 (describes_pathway (sd_recognized d)) (accounts_of ''PathwayPolicy'' (sd_recognized d)) ps)
     \<and> (\<exists>as. mset as = mset (sd_assets d)
           \<and> list_all2 (describes_asset (sd_recognized d) (sd_pathways d)) (accounts_of ''AssetConfig'' (sd_recognized d)) as)"

text \<open>
  The known addresses of the schema are all listed, with the mint authority, and one is present exactly when an account
  was recognized there.
\<close>

definition complete_known_pdas :: "chancery_schema \<Rightarrow> state_discovery \<Rightarrow> bool" where
  "complete_known_pdas S d \<longleftrightarrow>
     set (map kp_name (sd_known_pdas d)) = insert ''mint_authority_pda'' (set (map fst (known_pdas S)))
     \<and> list_all (\<lambda>k. (kp_present k \<longleftrightarrow> kp_address k \<in> da_address ` set (sd_recognized d))
          \<and> (case kp_account_name k of None \<Rightarrow> \<not> kp_present k
             | Some name \<Rightarrow> \<exists>a \<in> set (sd_recognized d). da_address a = kp_address k \<and> da_name a = name)
          \<and> (kp_name k \<in> set (map fst (known_pdas S)) \<longrightarrow> knownPdaAddress S (kp_name k) = Inr (kp_address k)))
          (sd_known_pdas d)
     \<and> knownPdaAddress S ''pause_state'' = Inr (sd_pause_account d)"

lemma mapR_list_all2: "mapR f xs = Inr ys \<Longrightarrow> (\<And>x y. f x = Inr y \<Longrightarrow> P x y) \<Longrightarrow> list_all2 P xs ys"
  by (auto simp: mapR_eq_Inr_iff elim: list_all2_mono)

lemma build_discovery_accounts:
  assumes "build_discovery H S lc commitment ps = Inr d"
  shows "complete_accounts S ps d"
proof -
  from assms obtain classified policies observed where parts:
      "mapR (classify_account H S) ps = Inr classified"
      "mapR (observe_nonce H S policies) (recognized_of classified) = Inr observed"
      "sd_recognized d = sort_by (compareDiscoveredAccounts lc) observed"
      "mset (sd_unrecognized d) = mset (unrecognized_of classified)"
      "groupAccountsByType S (sd_recognized d) = Inr (sd_by_type d)" "sd_count d = length ps"
    by (auto simp: build_discovery_def Let_def)
  have recognized: "recognized_from S ps a" if "a \<in> set (sd_recognized d)" for a
  proof -
    from that parts(3) obtain b where b: "b \<in> set (recognized_of classified)" "observe_nonce H S policies b = Inr a"
      using mapR_mem [OF parts(2)] by auto
    from b(1) obtain p where "p \<in> set ps" "classify_account H S p = Inr (Recognized b)"
      using mapR_mem [OF parts(1)] by (auto simp: recognized_of_mem)
    with b(2) show ?thesis by (blast intro: recognized_from_observed classify_recognized)
  qed
  have unrecognized: "unrecognized_from S ps u" if "u \<in> set (sd_unrecognized d)" for u
    using that mset_eq_setD [OF parts(4)] mapR_mem [OF parts(1)]
    by (auto simp: unrecognized_of_mem intro: classify_unrecognized)
  have "mset (map da_address (sd_recognized d)) + mset (map ua_address (sd_unrecognized d)) = mset (map rx_address ps)"
    using partition_addresses [of classified] classified_addresses [OF parts(1)] observed_addresses [OF parts(2)] parts(3,4)
    by (metis mset_map mset_map_sort_by)
  with recognized unrecognized grouped_of_type [OF parts(5)] parts(6) show ?thesis
    by (simp add: complete_accounts_def accounts_of_def)
qed

lemma build_discovery_inventories:
  assumes "build_discovery H S lc commitment ps = Inr d"
  shows "complete_inventories d"
proof -
  let ?g = "sd_by_type d"
  from assms obtain px builtPathways builtAssets where parts:
      "groupAccountsByType S (sd_recognized d) = Inr ?g" "buildPolicyIndexes ?g = Inr px"
      "mapR (buildPathwayInventory px (of_type ?g ''ReserveDestination'')) (of_type ?g ''PathwayPolicy'') = Inr builtPathways"
      "sd_pathways d = sort_by (\<lambda>l r. lc (pi_address l) (pi_address r)) builtPathways"
      "mapR (buildAssetInventory (of_type ?g ''AssetPauseState'') (sd_pathways d) (of_type ?g ''ReserveDestination''))
         (of_type ?g ''AssetConfig'') = Inr builtAssets"
      "sd_assets d = sort_by (\<lambda>l r. lc (ai_mint l) (ai_mint r)) builtAssets"
    by (auto simp: build_discovery_def Let_def)
  have groups: "of_type ?g name = accounts_of name (sd_recognized d)" for name
    using grouped_of_type [OF parts(1)] by (simp add: accounts_of_def)
  note px = built_indexes [OF parts(2), unfolded groups]
  have "list_all2 (describes_pathway (sd_recognized d)) (accounts_of ''PathwayPolicy'' (sd_recognized d)) builtPathways"
    using parts(3) unfolding groups by (rule mapR_list_all2) (rule pathway_described [OF _ px])
  moreover have "list_all2 (describes_asset (sd_recognized d) (sd_pathways d)) (accounts_of ''AssetConfig'' (sd_recognized d)) builtAssets"
    using parts(5) unfolding groups by (rule mapR_list_all2) (rule asset_described)
  ultimately show ?thesis using parts(4,6) by (auto simp: complete_inventories_def)
qed

lemma account_by_address_None: "account_by_address accounts address = None \<longleftrightarrow> address \<notin> da_address ` set accounts"
  by (auto simp: account_by_address_def map_of_eq_None_iff image_image)

lemma account_by_address_Some:
  "account_by_address accounts address = Some a \<Longrightarrow> a \<in> set accounts \<and> da_address a = address"
  by (auto simp: account_by_address_def dest!: map_of_SomeD)

lemma known_pda_entry_truthful:
  "kp_present (known_pda_entry accounts name address kind) \<longleftrightarrow> address \<in> da_address ` set accounts"
  "case kp_account_name (known_pda_entry accounts name address kind) of None \<Rightarrow> address \<notin> da_address ` set accounts
   | Some n \<Rightarrow> \<exists>a \<in> set accounts. da_address a = address \<and> da_name a = n"
  using account_by_address_None [of accounts address] account_by_address_Some [of accounts address]
  by (auto simp: known_pda_entry_def Let_def split: option.splits)

lemma known_pda_entry_fields [simp]:
  "kp_name (known_pda_entry accounts name address kind) = name"
  "kp_address (known_pda_entry accounts name address kind) = address"
  by (simp_all add: known_pda_entry_def Let_def)

lemma mapR_image:
  assumes "mapR f xs = Inr ys"
  shows "set ys = {y. \<exists>x \<in> set xs. f x = Inr y}" "\<forall>x \<in> set xs. is_ok (f x)"
  using assms by (induction xs arbitrary: ys) (auto simp: is_ok_iff)

lemma singleton_name: "deriveSingletonAddress H S name seed = Inr pda \<Longrightarrow> np_name pda = name"
  by (auto simp: deriveSingletonAddress_def deriveNamedProgramAddress_def)

lemma known_inventory:
  assumes "buildKnownPdaInventory H S lc accounts = Inr inventory"
  shows "kp_name ` set inventory = insert ''mint_authority_pda'' (set (map fst (known_pdas S)))"
    "\<forall>k \<in> set inventory. \<exists>name address kind. k = known_pda_entry accounts name address kind
       \<and> (name \<in> set (map fst (known_pdas S)) \<longrightarrow> knownPdaAddress S name = Inr address)"
proof -
  let ?names = "set (map fst (known_pdas S))"
  let ?entry = "\<lambda>name. bindR (knownPdaAddress S name) (\<lambda>address.
      Inr (known_pda_entry accounts name address (knownPdaKind name)))"
  from assms obtain entries mint where parts:
      "mapR ?entry (sort_by compareCodeUnits (map fst (known_pdas S))) = Inr entries"
      "deriveSingletonAddress H S ''mint_authority_pda'' ''mint-authority'' = Inr mint"
      "set inventory = set (if list_ex (\<lambda>e. kp_name e = np_name mint) entries then entries
         else entries @ [known_pda_entry accounts (np_name mint) (pda_address mint) SignerPda])"
    by (auto simp: buildKnownPdaInventory_def Let_def)
  note image = mapR_image [OF parts(1), unfolded set_sort_by] and mint = singleton_name [OF parts(2)]
  have names: "kp_name ` set entries = ?names"
  proof
    show "kp_name ` set entries \<subseteq> ?names" unfolding image(1) by force
    show "?names \<subseteq> kp_name ` set entries"
    proof
      fix name assume name: "name \<in> ?names"
      with image(2) obtain e where "?entry name = Inr e" by (auto simp: is_ok_iff)
      with name show "name \<in> kp_name ` set entries" unfolding image(1) by force
    qed
  qed
  have known: "list_ex (\<lambda>e. kp_name e = np_name mint) entries \<longleftrightarrow> ''mint_authority_pda'' \<in> ?names"
    unfolding names [symmetric] mint by (force simp: list_ex_iff)
  show "kp_name ` set inventory = insert ''mint_authority_pda'' ?names"
    unfolding parts(3) known using names mint by auto
  have "\<exists>name address kind. k = known_pda_entry accounts name address kind
       \<and> (name \<in> ?names \<longrightarrow> knownPdaAddress S name = Inr address)" if "k \<in> set entries" for k
    using that unfolding image(1) by auto
  then show "\<forall>k \<in> set inventory. \<exists>name address kind. k = known_pda_entry accounts name address kind
       \<and> (name \<in> ?names \<longrightarrow> knownPdaAddress S name = Inr address)"
    unfolding parts(3) known unfolding mint by (auto split: if_splits)
qed

lemma build_discovery_known_pdas:
  assumes "build_discovery H S lc commitment ps = Inr d"
  shows "complete_known_pdas S d"
proof -
  from assms have parts: "buildKnownPdaInventory H S lc (sd_recognized d) = Inr (sd_known_pdas d)"
      "knownPdaAddress S ''pause_state'' = Inr (sd_pause_account d)"
    by (auto simp: build_discovery_def Let_def)
  have "kp_present k \<longleftrightarrow> kp_address k \<in> da_address ` set (sd_recognized d)"
      "case kp_account_name k of None \<Rightarrow> \<not> kp_present k
       | Some name \<Rightarrow> \<exists>a \<in> set (sd_recognized d). da_address a = kp_address k \<and> da_name a = name"
      "kp_name k \<in> set (map fst (known_pdas S)) \<longrightarrow> knownPdaAddress S (kp_name k) = Inr (kp_address k)"
    if "k \<in> set (sd_known_pdas d)" for k
  proof -
    from known_inventory(2) [OF parts(1)] that obtain name address kind where
        k: "k = known_pda_entry (sd_recognized d) name address kind"
        and known: "name \<in> set (map fst (known_pdas S)) \<longrightarrow> knownPdaAddress S name = Inr address"
      by blast
    show "kp_present k \<longleftrightarrow> kp_address k \<in> da_address ` set (sd_recognized d)"
      unfolding k by (simp add: known_pda_entry_truthful)
    show "case kp_account_name k of None \<Rightarrow> \<not> kp_present k
       | Some name \<Rightarrow> \<exists>a \<in> set (sd_recognized d). da_address a = kp_address k \<and> da_name a = name"
      using known_pda_entry_truthful(2) [where accounts = "sd_recognized d" and name = name and address = address and kind = kind]
      unfolding k by (simp add: known_pda_entry_truthful(1) split: option.splits)
    show "kp_name k \<in> set (map fst (known_pdas S)) \<longrightarrow> knownPdaAddress S (kp_name k) = Inr (kp_address k)"
      unfolding k using known by simp
  qed
  with known_inventory(1) [OF parts(1)] parts(2) show ?thesis
    by (simp add: complete_known_pdas_def list_all_iff)
qed

lemma discoverChanceryState_parts:
  assumes "discoverChanceryState H S lc fetch commitment w = Inr (d, w')"
  shows "\<exists>ps. getProgramAccounts fetch (KeyText (program_address (schema_program S))) [] commitment w = Inr (ps, w')
    \<and> build_discovery H S lc commitment ps = Inr d"
  using assms by (auto simp: discoverChanceryState_def bindP_def liftP_def split: sum.splits prod.splits)

end
