(* ===== verification/SampleDiscovery.thy ===== *)
theory SampleDiscovery
  imports SampleRun DiscoverySafety
begin

text \<open>
  A discovery that succeeds: a listing with an asset, a pathway, the fee policy the pathway names, and an account of
  an unknown type.
\<close>

definition linked_pathway_values :: js_object where
  "linked_pathway_values = obj_set sample_pathway_values ''fee_policy_id'' (JBytes (replicate 32 9))"

definition linked_fee_values :: js_object where
  "linked_fee_values = [(''fee_policy_id'', JBytes (replicate 32 9))]"

definition unknown_account :: rpc_address_account_info where
  "unknown_account = \<lparr>rx_address = pda_key 2, rx_account = plain_account (sample_key 9) [0, 1, 2]\<rparr>"

definition state_listing :: "string \<Rightarrow> string \<Rightarrow> js_object \<Rightarrow> rpc_address_account_info" where
  "state_listing address name vs = \<lparr>rx_address = address, rx_account = state_account name vs\<rparr>"

definition listing :: "rpc_address_account_info list" where
  "listing =
     [state_listing (pda_key 7) ''PathwayPolicy'' linked_pathway_values, unknown_account,
      state_listing (pda_key 12) ''FeePolicy'' linked_fee_values,
      state_listing (pda_key 4) ''AssetConfig'' sample_asset_values]"

definition listing_fetch :: "rpc_address_account_info list \<Rightarrow> unit fetch" where
  "listing_fetch accounts call w = Inr (\<lparr>hr_ok = True, hr_body = Inr (JsonObject [(''jsonrpc'', JsonString ''2.0''),
     (''result'', JsonArray (map (\<lambda>x. JsonObject [(''pubkey'', JsonString (rx_address x)),
        (''account'', account_json (rx_account x) (plain_numbers (rx_account x)))]) accounts))])\<rparr>, w)"

lemma stored_linked_pathway: "stored ''PathwayPolicy'' linked_pathway_values"
  by (simp add: stored_def server_schema_def typed_fields_def sample_pathway_fields_def linked_pathway_values_def
      sample_pathway_values_def typed_defs server_keys is_ok_iff)

lemma stored_linked_fee: "stored ''FeePolicy'' linked_fee_values"
  by (simp add: stored_def server_schema_def typed_fields_def sample_fee_fields_def linked_fee_values_def typed_defs is_ok_iff)

definition listed_ok :: "rpc_address_account_info \<Rightarrow> bool" where
  "listed_ok x \<longleftrightarrow> is_key (rx_address x) \<and> account_ok (rx_account x) (plain_numbers (rx_account x))"

lemma listing_ok: "list_all listed_ok listing"
  by (simp add: listing_def listed_ok_def state_listing_def unknown_account_def pda_key_is_key state_account_ok
      stored_linked_pathway stored_linked_fee stored_asset plain_account_ok sample_key_is_key)

lemma listed:
  assumes "list_all listed_ok accounts"
  shows "answers (getProgramAccounts (listing_fetch accounts) (KeyText (sample_key 9)) filters commitment) accounts"
proof -
  let ?entry = "\<lambda>x. JsonObject [(''pubkey'', JsonString (rx_address x)),
        (''account'', account_json (rx_account x) (plain_numbers (rx_account x)))]"
  have parsed: "mapR parse_address_account (map (parseJsonRpcResponse \<circ> ?entry) accounts) = Inr accounts"
    using assms by (induction accounts) (auto simp: listed_ok_def parse_address_account_def recordFromUnknown_def object_of_def
        obj_get_def account_value_exact)
  have request: "answers (rpc_request (listing_fetch accounts) m js) (JArr (map (parseJsonRpcResponse \<circ> ?entry) accounts))"
    for m js
    by (auto simp: answers_def rpc_request_def Let_def listing_fetch_def object_of_def response_result_def obj_get_def slot_ok_def)
  show ?thesis
    unfolding getProgramAccounts_def
    by (intro answers_bind [OF answers_lift [where x = "sample_key 9"]] answers_configuration answers_bind [OF request]
        answers_lift) (simp_all add: sample_key_is_key array_of_def parsed)
qed

lemma classified_state:
  assumes "stored name vs" "observeCanonicalPda server_hash server_schema address name vs [] = Inr c"
  shows "classify_account server_hash server_schema (state_listing address name vs) =
    Inr (Recognized \<lparr>da_address = address, da_name = name, da_values = vs, da_owner = sample_key 9, da_lamports = 1,
      da_data_length = length (account_bytes name vs), da_canonical = c\<rparr>)"
  using assms stored_decoded(1) [OF assms(1)]
  by (simp add: classify_account_def state_listing_def state_account_def plain_account_def validateProgramAccount_def
      server_program)

lemma unknown_discriminator:
  "decodeChanceryAccount server_schema [0, 1, 2] = throw ''Unknown Chancery account discriminator''"
  by (simp add: decodeChanceryAccount_def findAccountSchema_def discriminatorEquals_def server_schema_def)

lemma classified_unknown:
  "classify_account server_hash server_schema unknown_account =
     Inr (Unrecognized \<lparr>ua_address = pda_key 2, ua_byte_length = 3, ua_discriminator = ''0x'' @ bytesToHex [0, 1, 2]\<rparr>)"
  by (simp add: classify_account_def unknown_account_def plain_account_def validateProgramAccount_def server_program
      unknown_discriminator)

lemma observed_state:
  "is_ok (observeCanonicalPda server_hash server_schema address ''PathwayPolicy'' linked_pathway_values [])"
  "is_ok (observeCanonicalPda server_hash server_schema address ''FeePolicy'' linked_fee_values [])"
  "is_ok (observeCanonicalPda server_hash server_schema address ''AssetConfig'' sample_asset_values [])"
  by (simp_all add: observeCanonicalPda_def deriveCanonicalPda_def from_bytes_field_def from_key_field_def obj_get_def
      linked_pathway_values_def sample_pathway_values_def linked_fee_values_def sample_asset_values_def requireBytes_def
      requirePublicKeyField_def derivePathwayPolicyAddress_def deriveFeePolicyAddress_def derive_from_id_def
      bytes32FromInput_def deriveAssetConfigAddress_def named_found small_key_decoded small_key_length utf8_encode_def
      utf8_unit_def sample_key_is_key is_ok_iff Let_def)

definition discovered_state :: "string \<Rightarrow> string \<Rightarrow> js_object \<Rightarrow> canonical_pda_observation option \<Rightarrow> discovered_account" where
  "discovered_state address name vs c = \<lparr>da_address = address, da_name = name, da_values = vs, da_owner = sample_key 9,
     da_lamports = 1, da_data_length = length (account_bytes name vs), da_canonical = c\<rparr>"

lemma classified_listing:
  "\<exists>c1 c2 c3. mapR (classify_account server_hash server_schema) listing =
     Inr [Recognized (discovered_state (pda_key 7) ''PathwayPolicy'' linked_pathway_values c1),
          Unrecognized \<lparr>ua_address = pda_key 2, ua_byte_length = 3, ua_discriminator = ''0x'' @ bytesToHex [0, 1, 2]\<rparr>,
          Recognized (discovered_state (pda_key 12) ''FeePolicy'' linked_fee_values c2),
          Recognized (discovered_state (pda_key 4) ''AssetConfig'' sample_asset_values c3)]"
proof -
  obtain c1 c2 c3 where
    "observeCanonicalPda server_hash server_schema (pda_key 7) ''PathwayPolicy'' linked_pathway_values [] = Inr c1"
    "observeCanonicalPda server_hash server_schema (pda_key 12) ''FeePolicy'' linked_fee_values [] = Inr c2"
    "observeCanonicalPda server_hash server_schema (pda_key 4) ''AssetConfig'' sample_asset_values [] = Inr c3"
    using observed_state unfolding is_ok_iff by blast
  then show ?thesis
    by (simp add: listing_def classified_state stored_linked_pathway stored_linked_fee stored_asset classified_unknown
        discovered_state_def)
qed

lemma grouped_listing:
  fixes p f a :: discovered_account
  assumes "da_name p = ''PathwayPolicy''" "da_name f = ''FeePolicy''" "da_name a = ''AssetConfig''"
  shows "\<exists>g. groupAccountsByType server_schema [a, f, p] = Inr g \<and> of_type g ''PathwayPolicy'' = [p] \<and>
    of_type g ''FeePolicy'' = [f] \<and> of_type g ''AssetConfig'' = [a] \<and> of_type g ''LimitPolicy'' = [] \<and>
    of_type g ''EvidencePolicy'' = [] \<and> of_type g ''ReserveDestination'' = [] \<and> of_type g ''AssetPauseState'' = [] \<and>
    of_type g ''ChanceryConfig'' = []"
  using assms
  by (simp add: groupAccountsByType_def server_schema_def sort_by_def push_account_def of_type_def)

lemma sorted_listing:
  fixes p f a :: discovered_account
  assumes "da_name p = ''PathwayPolicy''" "da_name f = ''FeePolicy''" "da_name a = ''AssetConfig''"
  shows "sort_by (compareDiscoveredAccounts compareCodeUnits) [p, f, a] = [a, f, p]"
  using assms by (simp add: sort_by_def compareDiscoveredAccounts_def)

lemma linked_fee_index:
  assumes "da_values f = linked_fee_values"
  shows "indexAccountsByBytes32 [f] ''fee_policy_id'' = Inr [(''0x'' @ bytesToHex (replicate 32 9), f)]"
  using assms
  by (simp add: indexAccountsByBytes32_def index_account_def bytes32Hex_def requireBytes_def linked_fee_values_def obj_get_def)

lemma linked_zero: "linkedPolicy index (JBytes (replicate 32 0)) = Inr None"
  by (simp add: linkedPolicy_def requireBytes_def some_byte_nonzero del: upt_rec_numeral)

lemma linked_nine: "linkedPolicy index (JBytes (replicate 32 9)) = Inr (map_of index (''0x'' @ bytesToHex (replicate 32 9)))"
  by (simp add: linkedPolicy_def requireBytes_def some_byte_nonzero del: upt_rec_numeral)

lemma linked_pathway_inventory:
  assumes "da_values p = linked_pathway_values" "px_fee px = [(''0x'' @ bytesToHex (replicate 32 9), f)]"
  shows "\<exists>i. buildPathwayInventory px [] p = Inr i \<and> pi_address i = da_address p \<and> pi_fee i = Some f
    \<and> pi_asset_mint i = sample_key 5"
proof -
  have "obj_get linked_pathway_values ''asset_mint'' = JStr (sample_key 5)"
    "obj_get linked_pathway_values ''pathway_id'' = JBytes (replicate 32 7)"
    "obj_get linked_pathway_values ''issued_token_mint'' = JStr (sample_key 6)"
    "obj_get linked_pathway_values ''pathway_kind'' = JNum 0"
    "obj_get linked_pathway_values ''designated_executor'' = JStr (sample_key 0)"
    "obj_get linked_pathway_values ''status_flags'' = JBig 1"
    "obj_get linked_pathway_values ''fee_policy_id'' = JBytes (replicate 32 9)"
    "obj_get linked_pathway_values ''limit_policy_id'' = JBytes (replicate 32 0)"
    "obj_get linked_pathway_values ''asset_mint_limit_policy_id'' = JBytes (replicate 32 0)"
    "obj_get linked_pathway_values ''asset_redeem_limit_policy_id'' = JBytes (replicate 32 0)"
    "obj_get linked_pathway_values ''counterparty_limit_policy_id'' = JBytes (replicate 32 0)"
    "obj_get linked_pathway_values ''executor_limit_policy_id'' = JBytes (replicate 32 0)"
    "obj_get linked_pathway_values ''evidence_policy_id'' = JBytes (replicate 32 0)"
    by (simp_all add: linked_pathway_values_def sample_pathway_values_def obj_get_def)
  with assms show ?thesis
    by (simp add: buildPathwayInventory_def Let_def linked_zero linked_nine requirePublicKeyField_def bytes32Hex_def
        requireBytes_def requireNumberField_def requireBigIntField_def is_safe_integer_def MAX_SAFE_INTEGER_def
        destinations_of_def sample_key_is_key)
qed

lemma sample_asset_inventory:
  assumes "da_values a = sample_asset_values"
  shows "\<exists>i. buildAssetInventory [] pathways [] a = Inr i \<and> ai_mint i = sample_key 5
    \<and> ai_config i = a \<and> ai_deposit_rate i = 2000000000 \<and> ai_redeem_rate i = 500000000
    \<and> ai_pathways i = filter (\<lambda>p. pi_asset_mint p = sample_key 5) pathways"
  using assms
  by (simp add: buildAssetInventory_def Let_def sample_asset_values_def obj_get_def requirePublicKeyField_def
      requireBigIntField_def destinations_of_def sample_key_is_key program_keys)

lemma sample_known_pdas: "is_ok (buildKnownPdaInventory server_hash server_schema compareCodeUnits accounts)"
proof -
  obtain seeds where "deriveSingletonAddress server_hash server_schema ''mint_authority_pda'' ''mint-authority''
     = Inr (named (pda_key 3) ''mint_authority_pda'' seeds)"
    using run_addresses by blast
  moreover have "knownPdaAddress server_schema ''event_authority'' = Inr (sample_key 3)"
    by (simp add: knownPdaAddress_def server_schema_def)
  moreover have "sort_by compareCodeUnits (map fst (known_pdas server_schema)) = [''chancery_config'', ''event_authority'',
      ''issued_token_control'', ''module_activation_state'', ''pause_state'']"
    by (simp add: server_schema_def sort_by_def)
  ultimately show ?thesis
    by (simp add: buildKnownPdaInventory_def run_known is_ok_iff Let_def)
qed

text \<open>What the discovery of the listing finds.\<close>

definition expected_discovery :: "state_discovery \<Rightarrow> bool" where
  "expected_discovery d \<longleftrightarrow>
     sd_count d = 4 \<and> map da_name (sd_recognized d) = [''AssetConfig'', ''FeePolicy'', ''PathwayPolicy'']
     \<and> map ua_address (sd_unrecognized d) = [pda_key 2]
     \<and> (\<exists>p f i. sd_pathways d = [p] \<and> pi_address p = pda_key 7 \<and> pi_fee p = Some f \<and> da_address f = pda_key 12
          \<and> sd_assets d = [i] \<and> ai_mint i = sample_key 5 \<and> ai_pathways i = [p]
          \<and> da_values (ai_config i) = sample_asset_values \<and> ai_deposit_rate i = 2000000000 \<and> ai_redeem_rate i = 500000000)
     \<and> sd_config d = None"

lemma built_discovery:
  "\<exists>d. build_discovery server_hash server_schema compareCodeUnits Confirmed listing = Inr d \<and> expected_discovery d"
proof -
  obtain p a f u where classified: "mapR (classify_account server_hash server_schema) listing =
      Inr [Recognized p, Unrecognized u, Recognized f, Recognized a]"
    and p: "da_address p = pda_key 7" "da_name p = ''PathwayPolicy''" "da_values p = linked_pathway_values"
    and f: "da_address f = pda_key 12" "da_name f = ''FeePolicy''" "da_values f = linked_fee_values"
    and a: "da_address a = pda_key 4" "da_name a = ''AssetConfig''" "da_values a = sample_asset_values"
    and u: "ua_address u = pda_key 2"
    using classified_listing by (fastforce simp: discovered_state_def)
  obtain g where g: "groupAccountsByType server_schema [a, f, p] = Inr g" "of_type g ''PathwayPolicy'' = [p]"
      "of_type g ''FeePolicy'' = [f]" "of_type g ''AssetConfig'' = [a]" "of_type g ''LimitPolicy'' = []"
      "of_type g ''EvidencePolicy'' = []" "of_type g ''ReserveDestination'' = []" "of_type g ''AssetPauseState'' = []"
      "of_type g ''ChanceryConfig'' = []"
    using grouped_listing p(2) f(2) a(2) by blast
  obtain px where px: "buildPolicyIndexes g = Inr px" "px_fee px = [(''0x'' @ bytesToHex (replicate 32 9), f)]"
    using linked_fee_index [OF f(3)] g by (simp add: buildPolicyIndexes_def indexAccountsByBytes32_def)
  obtain i where i: "buildPathwayInventory px [] p = Inr i" "pi_address i = pda_key 7" "pi_fee i = Some f"
      "pi_asset_mint i = sample_key 5"
    using linked_pathway_inventory [OF p(3) px(2)] p(1) by metis
  obtain j where j: "buildAssetInventory [] [i] [] a = Inr j" "ai_mint j = sample_key 5" "ai_pathways j = [i]"
      "ai_config j = a" "ai_deposit_rate j = 2000000000" "ai_redeem_rate j = 500000000"
    using sample_asset_inventory [OF a(3), of "[i]"] i(4) by auto
  obtain k where k: "buildKnownPdaInventory server_hash server_schema compareCodeUnits [a, f, p] = Inr k"
    using sample_known_pdas by (auto simp: is_ok_iff)
  have nonce: "mapR (observe_nonce server_hash server_schema policies) [p, f, a] = Inr [p, f, a]" for policies
    using p f a by (simp add: observe_nonce_def)
  have single: "sort_by cmp [x] = [x]" for cmp and x :: "'x" by (simp add: sort_by_def)
  have count: "length listing = 4" by (simp add: listing_def)
  show ?thesis
    using p f a u g px i j k nonce sorted_listing [OF p(2) f(2) a(2)] run_known(3)
    by (simp add: build_discovery_def classified single count expected_discovery_def firstAccount_def Let_def)
qed

lemma discovered_listing:
  "\<exists>d w w'. discoverChanceryState server_hash server_schema compareCodeUnits (listing_fetch listing) Confirmed w = Inr (d, w')
     \<and> expected_discovery d"
proof -
  have connected: "slot_ok sample_connection" by (simp add: slot_ok_def sample_connection_def)
  obtain w' where "getProgramAccounts (listing_fetch listing) (KeyText (sample_key 9)) [] Confirmed sample_connection
      = Inr (listing, w')"
    using listed [OF listing_ok] connected unfolding answers_def by blast
  then show ?thesis
    using built_discovery by (auto simp: discoverChanceryState_def bindP_def liftP_def server_program)
qed

end
