(* ===== verification/OracleSnapshot.thy ===== *)
theory OracleSnapshot
  imports DiscoverySafety
begin

text \<open>
  \<open>oracles/typescript/src/OracleSnapshot.ts\<close>: the rates of the discovered assets as decimal texts, and whether any pathway
  charges fees.
\<close>

datatype oracle_mode = ActiveMode | WindDownMode | FrozenMode | UnknownMode

record oracle_asset_rate =
  or_mint :: string
  or_program :: string
  or_mode :: oracle_mode
  or_mode_value :: int
  or_deposit_e9 :: int
  or_redeem_e9 :: int
  or_deposit :: string
  or_redeem :: string

text \<open>\<open>globalFeePolicy\<close> is always null and left out.\<close>

record oracle_snapshot =
  os_program :: string
  os_commitment :: rpc_commitment
  os_issued_mint :: "string option"
  os_assets :: "oracle_asset_rate list"
  os_pathway_fees :: bool

definition padStart :: "nat \<Rightarrow> char \<Rightarrow> string \<Rightarrow> string" where
  "padStart n c s = replicate (n - length s) c @ s"

definition formatRateE9 :: "int \<Rightarrow> string res" where
  "formatRateE9 rateE9 =
     (if rateE9 < 0 then throw ''Rate must be non-negative''
      else Inr (show_int (big_div rateE9 RATE_PRECISION_E9) @ ''.''
                @ padStart 9 (CHR ''0'') (show_int (big_rem rateE9 RATE_PRECISION_E9))))"

definition isRateWithinBasisPointsOfOne :: "int \<Rightarrow> int \<Rightarrow> bool res" where
  "isRateWithinBasisPointsOfOne rateE9 toleranceBasisPoints =
     (if rateE9 < 0 then throw ''Rate must be non-negative''
      else if toleranceBasisPoints < 0 then throw ''Tolerance must be non-negative''
      else
        let difference = (if RATE_PRECISION_E9 \<le> rateE9 then rateE9 - RATE_PRECISION_E9 else RATE_PRECISION_E9 - rateE9) in
        Inr (difference * 10000 \<le> RATE_PRECISION_E9 * toleranceBasisPoints))"

definition assetModeName :: "int \<Rightarrow> oracle_mode" where
  "assetModeName modeValue =
     (if modeValue = 0 then ActiveMode else if modeValue = 1 then WindDownMode
      else if modeValue = 2 then FrozenMode else UnknownMode)"

definition oracle_asset :: "asset_inventory \<Rightarrow> oracle_asset_rate res" where
  "oracle_asset asset =
     bindR (requireNumberField (da_values (ai_config asset)) ''mode'') (\<lambda>modeValue.
     bindR (formatRateE9 (ai_deposit_rate asset)) (\<lambda>depositRate.
     bindR (formatRateE9 (ai_redeem_rate asset)) (\<lambda>redeemRate.
       Inr \<lparr>or_mint = ai_mint asset, or_program = ai_program asset, or_mode = assetModeName modeValue,
            or_mode_value = modeValue, or_deposit_e9 = ai_deposit_rate asset, or_redeem_e9 = ai_redeem_rate asset,
            or_deposit = depositRate, or_redeem = redeemRate\<rparr>)))"

definition buildOracleSnapshot :: "state_discovery \<Rightarrow> oracle_snapshot res" where
  "buildOracleSnapshot discovery =
     bindR (case sd_config discovery of
              None \<Rightarrow> Inr None
            | Some config \<Rightarrow>
                bindR (requirePublicKeyField (da_values config) ''issued_token_mint'') (\<lambda>mint. Inr (Some mint)))
       (\<lambda>issuedTokenMint.
     bindR (mapR oracle_asset (sd_assets discovery)) (\<lambda>assets.
       Inr \<lparr>os_program = sd_program discovery, os_commitment = sd_commitment discovery,
            os_issued_mint = issuedTokenMint, os_assets = assets,
            os_pathway_fees = list_ex (\<lambda>pathway. pi_fee pathway \<noteq> None) (sd_pathways discovery)\<rparr>))"

section \<open>The texts are exact\<close>

text \<open>A text with a point and nine digits after it stands for its digits, read as billionths.\<close>

definition rate_text :: "string \<Rightarrow> int \<Rightarrow> bool" where
  "rate_text s rate \<longleftrightarrow> (\<exists>whole fraction. s = whole @ ''.'' @ fraction \<and> is_decimal whole \<and> is_decimal fraction
     \<and> length fraction = 9 \<and> int (parse_decimal whole) * 10 ^ 9 + int (parse_decimal fraction) = rate)"

lemma parse_padded: "parse_decimal (replicate n (CHR ''0'') @ s) = parse_decimal s"
  by (simp add: parse_decimal_def digits_value_append digit_val_def)

lemma show_nat_length: "n < 10 ^ k \<Longrightarrow> 0 < k \<Longrightarrow> length (show_nat n) \<le> k"
proof (cases "n = 0")
  case False
  assume "n < 10 ^ k"
  moreover have "10 ^ (length (push_carry 10 n) - 1) \<le> n"
    using digits_value_ge [of "push_carry 10 n" 10] push_carry_last [of 10 n] push_carry_value [of 10 n] False by simp
  ultimately have "(10 :: nat) ^ (length (push_carry 10 n) - 1) < 10 ^ k" by linarith
  then have "length (push_carry 10 n) - 1 < k" by simp
  with False show ?thesis by (simp add: show_nat_def)
qed (simp add: show_nat_def)

lemma formatRateE9_exact:
  "formatRateE9 rate = Inr s \<Longrightarrow> rate_text s rate"
proof -
  assume "formatRateE9 rate = Inr s"
  then have nonneg: "0 \<le> rate" and
    s: "s = show_int (big_div rate RATE_PRECISION_E9) @ ''.'' @ padStart 9 (CHR ''0'') (show_int (big_rem rate RATE_PRECISION_E9))"
    by (auto simp: formatRateE9_def split: if_splits)
  let ?w = "nat (rate div 10 ^ 9)" and ?f = "nat (rate mod 10 ^ 9)"
  let ?fraction = "replicate (9 - length (show_nat ?f)) (CHR ''0'') @ show_nat ?f"
  have "s = show_nat ?w @ ''.'' @ ?fraction"
    using nonneg s by (simp add: show_int_def padStart_def pos_imp_zdiv_neg_iff)
  moreover have "length (show_nat ?f) \<le> 9" by (rule show_nat_length) (simp_all add: nat_less_iff)
  moreover have "is_decimal ?fraction" using show_nat_decimal [of ?f] by (auto simp: is_decimal_def is_digit_def list_all_iff)
  moreover have "int ?w * 10 ^ 9 + int ?f = rate" using nonneg by (simp add: pos_imp_zdiv_nonneg_iff)
  ultimately show ?thesis
    unfolding rate_text_def using show_nat_decimal [of ?w]
    by (intro exI [of _ "show_nat ?w"] exI [of _ ?fraction]) (simp add: parse_padded)
qed

text \<open>The test compares the distance from one, in parts of ten thousand, without dividing.\<close>

lemma within_basis_points:
  "0 \<le> rate \<Longrightarrow> 0 \<le> tolerance \<Longrightarrow>
   isRateWithinBasisPointsOfOne rate tolerance = Inr (\<bar>rate - 10 ^ 9\<bar> * 10 ^ 4 \<le> tolerance * 10 ^ 9)"
  by (simp add: isRateWithinBasisPointsOfOne_def Let_def abs_if algebra_simps)

section \<open>A snapshot of a discovery\<close>

text \<open>The rate of an asset account: its mint, program, mode and rates, with the texts of its rates.\<close>

definition rates_of :: "discovered_account \<Rightarrow> oracle_asset_rate \<Rightarrow> bool" where
  "rates_of a r \<longleftrightarrow>
     names_mint (or_mint r) a \<and> requirePublicKeyField (da_values a) ''asset_token_program'' = Inr (or_program r)
     \<and> obj_get (da_values a) ''mode'' = JNum (or_mode_value r) \<and> or_mode r = assetModeName (or_mode_value r)
     \<and> obj_get (da_values a) ''deposit_rate_e9'' = JBig (or_deposit_e9 r) \<and> rate_text (or_deposit r) (or_deposit_e9 r)
     \<and> obj_get (da_values a) ''redeem_rate_e9'' = JBig (or_redeem_e9 r) \<and> rate_text (or_redeem r) (or_redeem_e9 r)"

lemma oracle_asset_rates:
  "describes_asset accounts pathways a i \<Longrightarrow> oracle_asset i = Inr r \<Longrightarrow> rates_of a r"
  by (auto simp: describes_asset_def oracle_asset_def rates_of_def requireNumberField_eq formatRateE9_exact)

text \<open>A pathway account charges fees when it names, by an id that is not zero, a fee policy that exists.\<close>

definition charges_fees :: "discovered_account list \<Rightarrow> discovered_account \<Rightarrow> bool" where
  "charges_fees accounts a \<longleftrightarrow>
     (\<exists>bs. obj_get (da_values a) ''fee_policy_id'' = JBytes bs \<and> \<not> (\<forall>b \<in> set bs. b = 0)
       \<and> (\<exists>f \<in> set (accounts_of ''FeePolicy'' accounts). obj_get (da_values f) ''fee_policy_id'' = JBytes bs))"

lemma pathway_charges: "describes_pathway accounts a p \<Longrightarrow> pi_fee p \<noteq> None \<longleftrightarrow> charges_fees accounts a"
proof -
  assume "describes_pathway accounts a p"
  then have "links_policy accounts ''FeePolicy'' ''fee_policy_id'' (obj_get (da_values a) ''fee_policy_id'') (pi_fee p)"
    unfolding describes_pathway_def by blast
  then obtain bs where bs: "obj_get (da_values a) ''fee_policy_id'' = JBytes bs"
      "case pi_fee p of
         Some f \<Rightarrow> f \<in> set accounts \<and> da_name f = ''FeePolicy'' \<and> obj_get (da_values f) ''fee_policy_id'' = JBytes bs
           \<and> \<not> (\<forall>b \<in> set bs. b = 0)
       | None \<Rightarrow> (\<forall>b \<in> set bs. b = 0)
           \<or> (\<forall>f \<in> set accounts. da_name f = ''FeePolicy'' \<longrightarrow> obj_get (da_values f) ''fee_policy_id'' \<noteq> JBytes bs)"
    unfolding links_policy_def by blast
  then show ?thesis by (cases "pi_fee p") (auto simp: charges_fees_def accounts_of_def)
qed

definition snapshot_of :: "state_discovery \<Rightarrow> oracle_snapshot \<Rightarrow> bool" where
  "snapshot_of d s \<longleftrightarrow>
     (\<exists>rates. mset rates = mset (os_assets s)
        \<and> list_all2 rates_of (accounts_of ''AssetConfig'' (sd_recognized d)) rates)
     \<and> (os_pathway_fees s \<longleftrightarrow> (\<exists>a \<in> set (accounts_of ''PathwayPolicy'' (sd_recognized d)). charges_fees (sd_recognized d) a))"

lemma list_all2_some: "list_all2 P xs ys \<Longrightarrow> (\<And>x y. P x y \<Longrightarrow> Q x \<longleftrightarrow> R y) \<Longrightarrow> (\<exists>x \<in> set xs. Q x) \<longleftrightarrow> (\<exists>y \<in> set ys. R y)"
  by (induction xs ys rule: list_all2_induct) auto

lemma list_all2_in_set: "list_all2 P xs ys \<Longrightarrow> list_all2 (\<lambda>x y. P x y \<and> y \<in> set ys) xs ys"
  by (auto simp: list_all2_conv_all_nth)

lemma built_snapshot:
  assumes "complete_inventories d" "buildOracleSnapshot d = Inr s"
  shows "snapshot_of d s"
proof -
  from assms(1) obtain ps as where inventories: "mset ps = mset (sd_pathways d)" "mset as = mset (sd_assets d)"
      "list_all2 (describes_pathway (sd_recognized d)) (accounts_of ''PathwayPolicy'' (sd_recognized d)) ps"
      "list_all2 (describes_asset (sd_recognized d) (sd_pathways d)) (accounts_of ''AssetConfig'' (sd_recognized d)) as"
    unfolding complete_inventories_def by blast
  from assms(2) have built: "mapR oracle_asset (sd_assets d) = Inr (os_assets s)"
      "os_pathway_fees s = list_ex (\<lambda>p. pi_fee p \<noteq> None) (sd_pathways d)"
    by (auto simp: buildOracleSnapshot_def)
  let ?rate = "\<lambda>i. projr (oracle_asset i)"
  have ok: "oracle_asset i = Inr (?rate i)" if "i \<in> set (sd_assets d)" for i
    using mapR_image(2) [OF built(1)] that by (auto simp: is_ok_iff)
  then have "os_assets s = map ?rate (sd_assets d)" using mapR_all_ok [of "sd_assets d" oracle_asset ?rate] built(1) by simp
  then have perm: "mset (map ?rate as) = mset (os_assets s)" using inventories(2) by (simp add: mset_map)
  have rates: "list_all2 rates_of (accounts_of ''AssetConfig'' (sd_recognized d)) (map ?rate as)"
    unfolding list_all2_map2
    by (rule list_all2_mono [OF list_all2_in_set [OF inventories(4)]])
      (use ok mset_eq_setD [OF inventories(2)] in \<open>auto intro: oracle_asset_rates\<close>)
  have charged: "(\<exists>a \<in> set (accounts_of ''PathwayPolicy'' (sd_recognized d)). charges_fees (sd_recognized d) a)
      \<longleftrightarrow> (\<exists>p \<in> set ps. pi_fee p \<noteq> None)"
    by (rule list_all2_some [OF inventories(3)]) (simp only: pathway_charges)
  have "os_pathway_fees s \<longleftrightarrow> (\<exists>p \<in> set ps. pi_fee p \<noteq> None)"
    using built(2) mset_eq_setD [OF inventories(1)] by (simp add: list_ex_iff)
  with perm rates charged show ?thesis unfolding snapshot_of_def by blast
qed

end
