(* ===== verification/SampleOracle.thy ===== *)
theory SampleOracle
  imports SampleDiscovery OracleSnapshot
begin

text \<open>The oracle snapshot of the discovered listing.\<close>

lemma eight: "replicate 8 c = [c, c, c, c, c, c, c, c]"
  by (simp add: numeral_eq_Suc)

lemma sample_snapshot:
  assumes "expected_discovery d"
  shows "\<exists>s. buildOracleSnapshot d = Inr s \<and> os_pathway_fees s \<and>
    (\<exists>r. os_assets s = [r] \<and> or_mint r = sample_key 5 \<and> or_mode r = ActiveMode \<and> or_deposit r = ''2.000000000''
      \<and> or_redeem r = ''0.500000000'')"
proof -
  obtain p f i where d: "sd_pathways d = [p]" "pi_fee p = Some f" "sd_assets d = [i]" "ai_mint i = sample_key 5"
      "da_values (ai_config i) = sample_asset_values" "ai_deposit_rate i = 2000000000" "ai_redeem_rate i = 500000000"
      "sd_config d = None"
    using assms unfolding expected_discovery_def by blast
  have rates: "formatRateE9 2000000000 = Inr ''2.000000000''" "formatRateE9 500000000 = Inr ''0.500000000''"
    using eight [of "CHR ''0''"]
    by (simp_all add: formatRateE9_def show_int_def show_nat_def padStart_def push_carry.simps digit_char_def char_of_def bit_0)
  have "requireNumberField sample_asset_values ''mode'' = Inr 0"
    by (simp add: requireNumberField_def sample_asset_values_def obj_get_def is_safe_integer_def MAX_SAFE_INTEGER_def)
  with d rates show ?thesis
    by (simp add: buildOracleSnapshot_def oracle_asset_def assetModeName_def)
qed

end
