(* ===== verification/DirectSettlement.thy ===== *)
theory DirectSettlement
  imports Base58Codec TextCodec ChanceryProtocol
begin

text \<open>
  The dependency-free builders of \<open>integration/typescript/src\<close>: \<open>target.ts\<close>, \<open>base58.ts\<close>, \<open>direct_settlement.ts\<close>,
  \<open>instruction_json.ts\<close> and \<open>market_maker_settlement.ts\<close>, with the types of \<open>model.ts\<close>. They write the two direct
  settlement instructions by hand, without the schema. Names that the schema-driven client also uses carry the suffix
  \<open>_mm\<close> (market maker).
\<close>

section \<open>Keys\<close>

definition chanceryProgramIdForTarget :: "string option \<Rightarrow> string res" where
  "chanceryProgramIdForTarget target =
     (case (case target of None \<Rightarrow> ''mainnet'' | Some t \<Rightarrow> t) of t \<Rightarrow>
        if t = ''mainnet'' then Inr ''ChnryP5RcZtMvP8vvVyPGUhwCg6uDJc53vCe3sxr11Sz''
        else if t = ''devnet'' then Inr ''GD9qamyghF32gG21KEkbp6quBsd2tU771tFcRVu1SPKs''
        else throw ''CHANCERY_TARGET must be mainnet or devnet'')"

text \<open>
  Every character, the leading ones included, goes through the loop; the digits start as the empty array. A carry
  stays below \<open>2 ^ 31\<close> (\<open>base58_carries_fit\<close>), so the 32-bit operators are \<open>mod\<close> and \<open>div\<close>.
\<close>

fun base58_loop :: "string \<Rightarrow> nat list \<Rightarrow> nat list res" where
  "base58_loop [] littleEndianBytes = Inr littleEndianBytes"
| "base58_loop (character # rest) littleEndianBytes =
     (case base58_index character of
        None \<Rightarrow> throw ''Invalid base58 character''
      | Some carry \<Rightarrow> base58_loop rest (carry_loop 256 58 littleEndianBytes carry))"

definition decodeBase58_mm :: "string \<Rightarrow> bytes res" where
  "decodeBase58_mm value =
     (if value = [] then throw ''Base58 value must not be empty''
      else
        bindR (base58_loop value []) (\<lambda>littleEndianBytes.
          let leadingZeroCount = length (takeWhile (\<lambda>c. c = CHR ''1'') value) in
          Inr (replicate leadingZeroCount 0 @ map word_of_nat (rev littleEndianBytes))))"

definition assertPublicKey :: "string \<Rightarrow> bool \<Rightarrow> unit res" where
  "assertPublicKey value allowDefaultPublicKey =
     bindR (decodeBase58_mm value) (\<lambda>decoded.
       if length decoded \<noteq> 32 then throw ''value must decode to exactly 32 bytes''
       else if \<not> allowDefaultPublicKey \<and> list_all (\<lambda>byte. byte = 0) decoded
       then throw ''value must not be the default public key''
       else Inr ())"

section \<open>The documents\<close>

record account_meta_spec =
  as_name :: string
  as_address :: string
  as_signer :: bool
  as_writable :: bool

record instruction_spec =
  is_program :: string
  is_accounts :: "account_meta_spec list"
  is_data :: bytes

record policy_accounts_input =
  po_feePolicy :: "string option"
  po_feeRecipientTokenAccount :: "string option"
  po_limitPolicy :: "string option"
  po_hourlyUsageWindow :: "string option"
  po_dailyUsageWindow :: "string option"
  po_weeklyUsageWindow :: "string option"
  po_monthlyUsageWindow :: "string option"
  po_evidencePolicy :: "string option"
  po_assetLimitPolicy :: "string option"
  po_assetDailyUsageWindow :: "string option"
  po_counterpartyLimitPolicy :: "string option"
  po_counterpartyDailyUsageWindow :: "string option"

record mint_direct_accounts =
  ma_moduleActivationState :: string
  ma_chanceryConfig :: string
  ma_eventAuthority :: string
  ma_pauseState :: string
  ma_assetConfig :: string
  ma_pathwayPolicy :: string
  ma_permissionRecord :: string
  ma_sourceAssetTokenAccount :: string
  ma_reserveAssetTokenAccount :: string
  ma_destinationIssuedTokenAccount :: string
  ma_assetMint :: string
  ma_issuedTokenMint :: string
  ma_mintAuthorityPda :: string
  ma_assetTokenProgram :: string
  ma_issuedTokenProgram :: string
  ma_principal :: string
  ma_assetPauseState :: string
  ma_issuedTokenControl :: string
  ma_policyAccounts :: policy_accounts_input

record redeem_direct_accounts =
  rd_moduleActivationState :: string
  rd_chanceryConfig :: string
  rd_eventAuthority :: string
  rd_pauseState :: string
  rd_assetConfig :: string
  rd_pathwayPolicy :: string
  rd_permissionRecord :: string
  rd_sourceIssuedTokenAccount :: string
  rd_reserveAssetTokenAccount :: string
  rd_destinationAssetTokenAccount :: string
  rd_assetMint :: string
  rd_issuedTokenMint :: string
  rd_reserveAuthorityPda :: string
  rd_assetTokenProgram :: string
  rd_issuedTokenProgram :: string
  rd_principal :: string
  rd_assetPauseState :: string
  rd_issuedTokenControl :: string
  rd_policyAccounts :: policy_accounts_input

text \<open>The two operation inputs differ in their accounts only.\<close>

record 'accounts direct_operation =
  do_pathwayId :: string
  do_amount :: string
  do_minimumOutput :: string
  do_accounts :: 'accounts

type_synonym mint_direct_operation = "mint_direct_accounts direct_operation"
type_synonym redeem_direct_operation = "redeem_direct_accounts direct_operation"

section \<open>The account list\<close>

definition DEFAULT_PUBLIC_KEY :: string where
  "DEFAULT_PUBLIC_KEY = ''11111111111111111111111111111111''"

definition requiredAccount :: "string \<Rightarrow> string \<Rightarrow> bool \<Rightarrow> account_meta_spec res" where
  "requiredAccount name address isWritable =
     bindR (assertPublicKey address False) (\<lambda>_.
       Inr \<lparr>as_name = name, as_address = address, as_signer = (name = ''principal''), as_writable = isWritable\<rparr>)"

definition optionalAccount :: "string \<Rightarrow> string option \<Rightarrow> bool \<Rightarrow> account_meta_spec res" where
  "optionalAccount name address isWritable =
     (case address of
        None \<Rightarrow> Inr \<lparr>as_name = name, as_address = DEFAULT_PUBLIC_KEY, as_signer = False, as_writable = isWritable\<rparr>
      | Some key \<Rightarrow>
          bindR (assertPublicKey key False) (\<lambda>_.
            Inr \<lparr>as_name = name, as_address = key, as_signer = False, as_writable = isWritable\<rparr>))"

definition policyAccountMetas :: "policy_accounts_input \<Rightarrow> account_meta_spec res list" where
  "policyAccountMetas policyAccounts =
     [optionalAccount ''feePolicy'' (po_feePolicy policyAccounts) False,
      optionalAccount ''feeRecipientTokenAccount'' (po_feeRecipientTokenAccount policyAccounts) True,
      optionalAccount ''limitPolicy'' (po_limitPolicy policyAccounts) False,
      optionalAccount ''hourlyUsageWindow'' (po_hourlyUsageWindow policyAccounts) True,
      optionalAccount ''dailyUsageWindow'' (po_dailyUsageWindow policyAccounts) True,
      optionalAccount ''weeklyUsageWindow'' (po_weeklyUsageWindow policyAccounts) True,
      optionalAccount ''monthlyUsageWindow'' (po_monthlyUsageWindow policyAccounts) True,
      optionalAccount ''evidencePolicy'' (po_evidencePolicy policyAccounts) False,
      optionalAccount ''assetLimitPolicy'' (po_assetLimitPolicy policyAccounts) False,
      optionalAccount ''assetDailyUsageWindow'' (po_assetDailyUsageWindow policyAccounts) True,
      optionalAccount ''counterpartyLimitPolicy'' (po_counterpartyLimitPolicy policyAccounts) False,
      optionalAccount ''counterpartyDailyUsageWindow'' (po_counterpartyDailyUsageWindow policyAccounts) True]"

definition event_program_meta :: "string \<Rightarrow> account_meta_spec" where
  "event_program_meta programId =
     \<lparr>as_name = ''eventProgram'', as_address = programId, as_signer = False, as_writable = False\<rparr>"

section \<open>The data\<close>

definition parsePathwayId :: "string \<Rightarrow> bytes res" where
  "parsePathwayId pathwayId =
     (let normalized = (if startsWith pathwayId ''0x'' then drop 2 pathwayId else pathwayId) in
      if length normalized \<noteq> 64 \<or> \<not> list_all (\<lambda>c. hex_val c \<noteq> None) normalized
      then throw ''pathwayId must contain exactly 64 hexadecimal characters''
      else Inr (hex_pairs normalized))"

definition MAXIMUM_U64 :: int where
  "MAXIMUM_U64 = 18446744073709551615"

definition parseUnsignedU64 :: "string \<Rightarrow> bool \<Rightarrow> int res" where
  "parseUnsignedU64 value allowZero =
     (if \<not> is_decimal value then throw ''value must be an unsigned decimal string''
      else
        let parsed = int (parse_decimal value) in
        if (\<not> allowZero \<and> parsed = 0) \<or> MAXIMUM_U64 < parsed then throw ''value is outside the u64 range''
        else Inr parsed)"

text \<open>\<open>DataView.setBigUint64\<close> in little-endian order.\<close>

definition uint64_bytes :: "int \<Rightarrow> bytes" where
  "uint64_bytes value = map word_of_nat (low_digits 256 8 (nat value))"

definition encodeDirectSettlementData :: "bytes \<Rightarrow> string \<Rightarrow> string \<Rightarrow> string \<Rightarrow> bytes res" where
  "encodeDirectSettlementData discriminator pathwayId amount minimumOutput =
     (let data = array_set (replicate 50 0) discriminator 0 in
      bindR (parsePathwayId pathwayId) (\<lambda>ident.
      bindR (parseUnsignedU64 amount False) (\<lambda>input.
      bindR (parseUnsignedU64 minimumOutput True) (\<lambda>minimum.
        Inr (array_set (array_set (array_set data ident 2) (uint64_bytes input) 34) (uint64_bytes minimum) 42)))))"

definition MINT_DIRECT_DISCRIMINATOR :: bytes where
  "MINT_DIRECT_DISCRIMINATOR = [4, 1]"

definition REDEEM_DIRECT_DISCRIMINATOR :: bytes where
  "REDEEM_DIRECT_DISCRIMINATOR = [4, 2]"

section \<open>The builders\<close>

definition mint_account_metas :: "string \<Rightarrow> mint_direct_accounts \<Rightarrow> account_meta_spec res list" where
  "mint_account_metas programId accounts =
     [requiredAccount ''moduleActivationState'' (ma_moduleActivationState accounts) False,
      requiredAccount ''chanceryConfig'' (ma_chanceryConfig accounts) True,
      requiredAccount ''eventAuthority'' (ma_eventAuthority accounts) False,
      requiredAccount ''pauseState'' (ma_pauseState accounts) False,
      requiredAccount ''assetConfig'' (ma_assetConfig accounts) False,
      requiredAccount ''pathwayPolicy'' (ma_pathwayPolicy accounts) False,
      requiredAccount ''permissionRecord'' (ma_permissionRecord accounts) False,
      requiredAccount ''sourceAssetTokenAccount'' (ma_sourceAssetTokenAccount accounts) True,
      requiredAccount ''reserveAssetTokenAccount'' (ma_reserveAssetTokenAccount accounts) True,
      requiredAccount ''destinationIssuedTokenAccount'' (ma_destinationIssuedTokenAccount accounts) True,
      requiredAccount ''assetMint'' (ma_assetMint accounts) False,
      requiredAccount ''issuedTokenMint'' (ma_issuedTokenMint accounts) True,
      requiredAccount ''mintAuthorityPda'' (ma_mintAuthorityPda accounts) False,
      requiredAccount ''assetTokenProgram'' (ma_assetTokenProgram accounts) False,
      requiredAccount ''issuedTokenProgram'' (ma_issuedTokenProgram accounts) False,
      requiredAccount ''principal'' (ma_principal accounts) False,
      requiredAccount ''assetPauseState'' (ma_assetPauseState accounts) False,
      requiredAccount ''issuedTokenControl'' (ma_issuedTokenControl accounts) False]
     @ policyAccountMetas (ma_policyAccounts accounts) @ [Inr (event_program_meta programId)]"

definition buildMintDirectInstruction :: "string \<Rightarrow> mint_direct_operation \<Rightarrow> instruction_spec res" where
  "buildMintDirectInstruction programId operation =
     bindR (mapR id (mint_account_metas programId (do_accounts operation))) (\<lambda>metas.
       if length metas \<noteq> 31 then throw ''mint_direct must contain 31 account positions''
       else
         bindR (encodeDirectSettlementData MINT_DIRECT_DISCRIMINATOR (do_pathwayId operation) (do_amount operation)
                  (do_minimumOutput operation)) (\<lambda>data.
           Inr \<lparr>is_program = programId, is_accounts = metas, is_data = data\<rparr>))"

definition redeem_account_metas :: "string \<Rightarrow> redeem_direct_accounts \<Rightarrow> account_meta_spec res list" where
  "redeem_account_metas programId accounts =
     [requiredAccount ''moduleActivationState'' (rd_moduleActivationState accounts) False,
      requiredAccount ''chanceryConfig'' (rd_chanceryConfig accounts) True,
      requiredAccount ''eventAuthority'' (rd_eventAuthority accounts) False,
      requiredAccount ''pauseState'' (rd_pauseState accounts) False,
      requiredAccount ''assetConfig'' (rd_assetConfig accounts) False,
      requiredAccount ''pathwayPolicy'' (rd_pathwayPolicy accounts) False,
      requiredAccount ''permissionRecord'' (rd_permissionRecord accounts) False,
      requiredAccount ''sourceIssuedTokenAccount'' (rd_sourceIssuedTokenAccount accounts) True,
      requiredAccount ''reserveAssetTokenAccount'' (rd_reserveAssetTokenAccount accounts) True,
      requiredAccount ''destinationAssetTokenAccount'' (rd_destinationAssetTokenAccount accounts) True,
      requiredAccount ''assetMint'' (rd_assetMint accounts) False,
      requiredAccount ''issuedTokenMint'' (rd_issuedTokenMint accounts) True,
      requiredAccount ''reserveAuthorityPda'' (rd_reserveAuthorityPda accounts) False,
      requiredAccount ''assetTokenProgram'' (rd_assetTokenProgram accounts) False,
      requiredAccount ''issuedTokenProgram'' (rd_issuedTokenProgram accounts) False,
      requiredAccount ''principal'' (rd_principal accounts) False,
      requiredAccount ''assetPauseState'' (rd_assetPauseState accounts) False,
      requiredAccount ''issuedTokenControl'' (rd_issuedTokenControl accounts) False]
     @ policyAccountMetas (rd_policyAccounts accounts) @ [Inr (event_program_meta programId)]"

definition buildRedeemDirectInstruction :: "string \<Rightarrow> redeem_direct_operation \<Rightarrow> instruction_spec res" where
  "buildRedeemDirectInstruction programId operation =
     bindR (mapR id (redeem_account_metas programId (do_accounts operation))) (\<lambda>metas.
       if length metas \<noteq> 31 then throw ''redeem_direct must contain 31 account positions''
       else
         bindR (encodeDirectSettlementData REDEEM_DIRECT_DISCRIMINATOR (do_pathwayId operation) (do_amount operation)
                  (do_minimumOutput operation)) (\<lambda>data.
           Inr \<lparr>is_program = programId, is_accounts = metas, is_data = data\<rparr>))"

section \<open>Prepared settlements\<close>

record instruction_document =
  id_program :: string
  id_accounts :: "account_meta_spec list"
  id_base64 :: string
  id_hex :: string

definition instructionToDocument :: "instruction_spec \<Rightarrow> instruction_document" where
  "instructionToDocument instruction =
     \<lparr>id_program = is_program instruction, id_accounts = is_accounts instruction,
      id_base64 = btoa_groups (map unat (is_data instruction)), id_hex = bytesToHex (is_data instruction)\<rparr>"

text \<open>The action of a prepared settlement, \<open>settlement_action\<close>, has the two values of \<open>MarketMakerSettlementAction\<close>.\<close>

record 'instruction prepared_settlement =
  ps_action :: settlement_action
  ps_principal :: string
  ps_inputAmount :: string
  ps_minimumOutput :: string
  ps_instruction :: 'instruction

definition prepareMarketMakerMint :: "string \<Rightarrow> mint_direct_operation \<Rightarrow> instruction_spec prepared_settlement res" where
  "prepareMarketMakerMint programId operation =
     bindR (buildMintDirectInstruction programId operation) (\<lambda>instruction.
       Inr \<lparr>ps_action = Mint, ps_principal = ma_principal (do_accounts operation), ps_inputAmount = do_amount operation,
            ps_minimumOutput = do_minimumOutput operation, ps_instruction = instruction\<rparr>)"

definition prepareMarketMakerRedeem :: "string \<Rightarrow> redeem_direct_operation \<Rightarrow> instruction_spec prepared_settlement res" where
  "prepareMarketMakerRedeem programId operation =
     bindR (buildRedeemDirectInstruction programId operation) (\<lambda>instruction.
       Inr \<lparr>ps_action = Redeem, ps_principal = rd_principal (do_accounts operation), ps_inputAmount = do_amount operation,
            ps_minimumOutput = do_minimumOutput operation, ps_instruction = instruction\<rparr>)"

definition preparedSettlementToDocument ::
  "instruction_spec prepared_settlement \<Rightarrow> instruction_document prepared_settlement" where
  "preparedSettlementToDocument settlement =
     \<lparr>ps_action = ps_action settlement, ps_principal = ps_principal settlement,
      ps_inputAmount = ps_inputAmount settlement, ps_minimumOutput = ps_minimumOutput settlement,
      ps_instruction = instructionToDocument (ps_instruction settlement)\<rparr>"

end
