(* ===== verification/DirectSchema.thy ===== *)
theory DirectSchema
  imports ChancerySchema
begin

text \<open>
  Two entries of the schema file \<open>typescript/chancery.schema.json\<close>, as data: the instructions for which the
  market-maker integration has builders of its own.
\<close>

definition known_default :: "string \<Rightarrow> account_default_schema option" where
  "known_default name = Some \<lparr>default_kind = KnownPda, default_name = Some name\<rparr>"

definition zero_default :: "account_default_schema option" where
  "zero_default = Some \<lparr>default_kind = ZeroAddressDefault, default_name = None\<rparr>"

definition program_default :: "account_default_schema option" where
  "program_default = Some \<lparr>default_kind = ProgramAddressDefault, default_name = None\<rparr>"

definition mint_direct_schema :: instruction_schema where
  "mint_direct_schema = \<lparr>
     ix_discriminator = [4, 1],
     ix_accounts =
       [\<lparr>ia_name = ''module_activation_state'', ia_writable = False, ia_signer = False, ia_optional = False,
         ia_relations = None, ia_pda = Some \<lparr>pda_seeds = [ConstSeed [109, 111, 100, 117, 108, 101, 45, 97, 99, 116, 105, 118, 97, 116, 105, 111, 110, 45, 115, 116, 97, 116, 101]]\<rparr>,
         ia_default = known_default ''module_activation_state''\<rparr>,
        \<lparr>ia_name = ''chancery_config'', ia_writable = True, ia_signer = False, ia_optional = False,
         ia_relations = Some [''issued_token_program'', ''mint_authority_pda''], ia_pda = None,
         ia_default = known_default ''chancery_config''\<rparr>,
        \<lparr>ia_name = ''event_authority'', ia_writable = False, ia_signer = False, ia_optional = False,
         ia_relations = None, ia_pda = None,
         ia_default = known_default ''event_authority''\<rparr>,
        \<lparr>ia_name = ''pause_state'', ia_writable = False, ia_signer = False, ia_optional = False,
         ia_relations = None, ia_pda = None,
         ia_default = known_default ''pause_state''\<rparr>,
        \<lparr>ia_name = ''asset_config'', ia_writable = False, ia_signer = False, ia_optional = False,
         ia_relations = Some [''asset_mint'', ''asset_token_program''], ia_pda = None,
         ia_default = None\<rparr>,
        \<lparr>ia_name = ''pathway_policy'', ia_writable = False, ia_signer = False, ia_optional = False,
         ia_relations = Some [''asset_mint''], ia_pda = None,
         ia_default = None\<rparr>,
        \<lparr>ia_name = ''permission_record'', ia_writable = False, ia_signer = False, ia_optional = False,
         ia_relations = None, ia_pda = None,
         ia_default = None\<rparr>,
        \<lparr>ia_name = ''source_asset_token_account'', ia_writable = True, ia_signer = False, ia_optional = False,
         ia_relations = None, ia_pda = None,
         ia_default = None\<rparr>,
        \<lparr>ia_name = ''reserve_asset_token_account'', ia_writable = True, ia_signer = False, ia_optional = False,
         ia_relations = None, ia_pda = None,
         ia_default = None\<rparr>,
        \<lparr>ia_name = ''destination_issued_token_account'', ia_writable = True, ia_signer = False, ia_optional = False,
         ia_relations = None, ia_pda = None,
         ia_default = None\<rparr>,
        \<lparr>ia_name = ''asset_mint'', ia_writable = False, ia_signer = False, ia_optional = False,
         ia_relations = None, ia_pda = None,
         ia_default = None\<rparr>,
        \<lparr>ia_name = ''issued_token_mint'', ia_writable = True, ia_signer = False, ia_optional = False,
         ia_relations = None, ia_pda = None,
         ia_default = None\<rparr>,
        \<lparr>ia_name = ''mint_authority_pda'', ia_writable = False, ia_signer = False, ia_optional = False,
         ia_relations = None, ia_pda = None,
         ia_default = None\<rparr>,
        \<lparr>ia_name = ''asset_token_program'', ia_writable = False, ia_signer = False, ia_optional = False,
         ia_relations = None, ia_pda = None,
         ia_default = None\<rparr>,
        \<lparr>ia_name = ''issued_token_program'', ia_writable = False, ia_signer = False, ia_optional = False,
         ia_relations = None, ia_pda = None,
         ia_default = None\<rparr>,
        \<lparr>ia_name = ''principal'', ia_writable = False, ia_signer = True, ia_optional = False,
         ia_relations = None, ia_pda = None,
         ia_default = None\<rparr>,
        \<lparr>ia_name = ''asset_pause_state'', ia_writable = False, ia_signer = False, ia_optional = False,
         ia_relations = Some [''asset_mint''], ia_pda = None,
         ia_default = None\<rparr>,
        \<lparr>ia_name = ''issued_token_control'', ia_writable = False, ia_signer = False, ia_optional = False,
         ia_relations = None, ia_pda = None,
         ia_default = known_default ''issued_token_control''\<rparr>,
        \<lparr>ia_name = ''fee_policy'', ia_writable = False, ia_signer = False, ia_optional = True,
         ia_relations = None, ia_pda = None,
         ia_default = zero_default\<rparr>,
        \<lparr>ia_name = ''fee_recipient_token_account'', ia_writable = True, ia_signer = False, ia_optional = True,
         ia_relations = None, ia_pda = None,
         ia_default = zero_default\<rparr>,
        \<lparr>ia_name = ''limit_policy'', ia_writable = False, ia_signer = False, ia_optional = True,
         ia_relations = None, ia_pda = None,
         ia_default = zero_default\<rparr>,
        \<lparr>ia_name = ''hourly_usage_window'', ia_writable = True, ia_signer = False, ia_optional = True,
         ia_relations = None, ia_pda = None,
         ia_default = zero_default\<rparr>,
        \<lparr>ia_name = ''daily_usage_window'', ia_writable = True, ia_signer = False, ia_optional = True,
         ia_relations = None, ia_pda = None,
         ia_default = zero_default\<rparr>,
        \<lparr>ia_name = ''weekly_usage_window'', ia_writable = True, ia_signer = False, ia_optional = True,
         ia_relations = None, ia_pda = None,
         ia_default = zero_default\<rparr>,
        \<lparr>ia_name = ''monthly_usage_window'', ia_writable = True, ia_signer = False, ia_optional = True,
         ia_relations = None, ia_pda = None,
         ia_default = zero_default\<rparr>,
        \<lparr>ia_name = ''evidence_policy'', ia_writable = False, ia_signer = False, ia_optional = True,
         ia_relations = None, ia_pda = None,
         ia_default = zero_default\<rparr>,
        \<lparr>ia_name = ''asset_limit_policy'', ia_writable = False, ia_signer = False, ia_optional = True,
         ia_relations = None, ia_pda = None,
         ia_default = zero_default\<rparr>,
        \<lparr>ia_name = ''asset_daily_usage_window'', ia_writable = True, ia_signer = False, ia_optional = True,
         ia_relations = None, ia_pda = None,
         ia_default = zero_default\<rparr>,
        \<lparr>ia_name = ''counterparty_limit_policy'', ia_writable = False, ia_signer = False, ia_optional = True,
         ia_relations = None, ia_pda = None,
         ia_default = zero_default\<rparr>,
        \<lparr>ia_name = ''counterparty_daily_usage_window'', ia_writable = True, ia_signer = False, ia_optional = True,
         ia_relations = None, ia_pda = None,
         ia_default = zero_default\<rparr>,
        \<lparr>ia_name = ''event_program'', ia_writable = False, ia_signer = False, ia_optional = False,
         ia_relations = None, ia_pda = None,
         ia_default = program_default\<rparr>],
     ix_args = [\<lparr>field_name = ''pathway_id'', field_type = ArrayT (Prim U8) 32\<rparr>,
        \<lparr>field_name = ''asset_amount'', field_type = Prim U64\<rparr>,
        \<lparr>field_name = ''minimum_issued_token_amount'', field_type = Prim U64\<rparr>]\<rparr>"

definition redeem_direct_schema :: instruction_schema where
  "redeem_direct_schema = \<lparr>
     ix_discriminator = [4, 2],
     ix_accounts =
       [\<lparr>ia_name = ''module_activation_state'', ia_writable = False, ia_signer = False, ia_optional = False,
         ia_relations = None, ia_pda = Some \<lparr>pda_seeds = [ConstSeed [109, 111, 100, 117, 108, 101, 45, 97, 99, 116, 105, 118, 97, 116, 105, 111, 110, 45, 115, 116, 97, 116, 101]]\<rparr>,
         ia_default = known_default ''module_activation_state''\<rparr>,
        \<lparr>ia_name = ''chancery_config'', ia_writable = True, ia_signer = False, ia_optional = False,
         ia_relations = Some [''issued_token_program''], ia_pda = None,
         ia_default = known_default ''chancery_config''\<rparr>,
        \<lparr>ia_name = ''event_authority'', ia_writable = False, ia_signer = False, ia_optional = False,
         ia_relations = None, ia_pda = None,
         ia_default = known_default ''event_authority''\<rparr>,
        \<lparr>ia_name = ''pause_state'', ia_writable = False, ia_signer = False, ia_optional = False,
         ia_relations = None, ia_pda = None,
         ia_default = known_default ''pause_state''\<rparr>,
        \<lparr>ia_name = ''asset_config'', ia_writable = False, ia_signer = False, ia_optional = False,
         ia_relations = Some [''asset_mint'', ''asset_token_program''], ia_pda = None,
         ia_default = None\<rparr>,
        \<lparr>ia_name = ''pathway_policy'', ia_writable = False, ia_signer = False, ia_optional = False,
         ia_relations = Some [''asset_mint''], ia_pda = None,
         ia_default = None\<rparr>,
        \<lparr>ia_name = ''permission_record'', ia_writable = False, ia_signer = False, ia_optional = False,
         ia_relations = None, ia_pda = None,
         ia_default = None\<rparr>,
        \<lparr>ia_name = ''source_issued_token_account'', ia_writable = True, ia_signer = False, ia_optional = False,
         ia_relations = None, ia_pda = None,
         ia_default = None\<rparr>,
        \<lparr>ia_name = ''reserve_asset_token_account'', ia_writable = True, ia_signer = False, ia_optional = False,
         ia_relations = None, ia_pda = None,
         ia_default = None\<rparr>,
        \<lparr>ia_name = ''destination_asset_token_account'', ia_writable = True, ia_signer = False, ia_optional = False,
         ia_relations = None, ia_pda = None,
         ia_default = None\<rparr>,
        \<lparr>ia_name = ''asset_mint'', ia_writable = False, ia_signer = False, ia_optional = False,
         ia_relations = None, ia_pda = None,
         ia_default = None\<rparr>,
        \<lparr>ia_name = ''issued_token_mint'', ia_writable = True, ia_signer = False, ia_optional = False,
         ia_relations = None, ia_pda = None,
         ia_default = None\<rparr>,
        \<lparr>ia_name = ''reserve_authority_pda'', ia_writable = False, ia_signer = False, ia_optional = False,
         ia_relations = None, ia_pda = None,
         ia_default = known_default ''reserve_authority_pda''\<rparr>,
        \<lparr>ia_name = ''asset_token_program'', ia_writable = False, ia_signer = False, ia_optional = False,
         ia_relations = None, ia_pda = None,
         ia_default = None\<rparr>,
        \<lparr>ia_name = ''issued_token_program'', ia_writable = False, ia_signer = False, ia_optional = False,
         ia_relations = None, ia_pda = None,
         ia_default = None\<rparr>,
        \<lparr>ia_name = ''principal'', ia_writable = False, ia_signer = True, ia_optional = False,
         ia_relations = None, ia_pda = None,
         ia_default = None\<rparr>,
        \<lparr>ia_name = ''asset_pause_state'', ia_writable = False, ia_signer = False, ia_optional = False,
         ia_relations = Some [''asset_mint''], ia_pda = None,
         ia_default = None\<rparr>,
        \<lparr>ia_name = ''issued_token_control'', ia_writable = False, ia_signer = False, ia_optional = False,
         ia_relations = None, ia_pda = None,
         ia_default = known_default ''issued_token_control''\<rparr>,
        \<lparr>ia_name = ''fee_policy'', ia_writable = False, ia_signer = False, ia_optional = True,
         ia_relations = None, ia_pda = None,
         ia_default = zero_default\<rparr>,
        \<lparr>ia_name = ''fee_recipient_token_account'', ia_writable = True, ia_signer = False, ia_optional = True,
         ia_relations = None, ia_pda = None,
         ia_default = zero_default\<rparr>,
        \<lparr>ia_name = ''limit_policy'', ia_writable = False, ia_signer = False, ia_optional = True,
         ia_relations = None, ia_pda = None,
         ia_default = zero_default\<rparr>,
        \<lparr>ia_name = ''hourly_usage_window'', ia_writable = True, ia_signer = False, ia_optional = True,
         ia_relations = None, ia_pda = None,
         ia_default = zero_default\<rparr>,
        \<lparr>ia_name = ''daily_usage_window'', ia_writable = True, ia_signer = False, ia_optional = True,
         ia_relations = None, ia_pda = None,
         ia_default = zero_default\<rparr>,
        \<lparr>ia_name = ''weekly_usage_window'', ia_writable = True, ia_signer = False, ia_optional = True,
         ia_relations = None, ia_pda = None,
         ia_default = zero_default\<rparr>,
        \<lparr>ia_name = ''monthly_usage_window'', ia_writable = True, ia_signer = False, ia_optional = True,
         ia_relations = None, ia_pda = None,
         ia_default = zero_default\<rparr>,
        \<lparr>ia_name = ''evidence_policy'', ia_writable = False, ia_signer = False, ia_optional = True,
         ia_relations = None, ia_pda = None,
         ia_default = zero_default\<rparr>,
        \<lparr>ia_name = ''asset_limit_policy'', ia_writable = False, ia_signer = False, ia_optional = True,
         ia_relations = None, ia_pda = None,
         ia_default = zero_default\<rparr>,
        \<lparr>ia_name = ''asset_daily_usage_window'', ia_writable = True, ia_signer = False, ia_optional = True,
         ia_relations = None, ia_pda = None,
         ia_default = zero_default\<rparr>,
        \<lparr>ia_name = ''counterparty_limit_policy'', ia_writable = False, ia_signer = False, ia_optional = True,
         ia_relations = None, ia_pda = None,
         ia_default = zero_default\<rparr>,
        \<lparr>ia_name = ''counterparty_daily_usage_window'', ia_writable = True, ia_signer = False, ia_optional = True,
         ia_relations = None, ia_pda = None,
         ia_default = zero_default\<rparr>,
        \<lparr>ia_name = ''event_program'', ia_writable = False, ia_signer = False, ia_optional = False,
         ia_relations = None, ia_pda = None,
         ia_default = program_default\<rparr>],
     ix_args = [\<lparr>field_name = ''pathway_id'', field_type = ArrayT (Prim U8) 32\<rparr>,
        \<lparr>field_name = ''issued_token_amount'', field_type = Prim U64\<rparr>,
        \<lparr>field_name = ''minimum_asset_amount'', field_type = Prim U64\<rparr>]\<rparr>"

end
