(* ===== verification/DirectSettlementSafety.thy ===== *)
theory DirectSettlementSafety
  imports DirectSettlement DirectSchema ChanceryInstruction CodecRoundTrip
begin

text \<open>
  The market-maker builders agree with the schema-driven client: the second base58 decoder with the first, the amounts
  and ids they parse with the values they stand for, and their two instructions with those that
  \<open>buildChanceryInstruction\<close> makes from the schema.
\<close>

section \<open>Keys\<close>

lemma base58_loop_digits: "base58_loop cs ds = decode_digits cs ds"
  by (induction cs arbitrary: ds) (auto split: option.splits)

lemma decode_digits_append: "decode_digits (cs @ cs') ds = bindR (decode_digits cs ds) (decode_digits cs')"
  by (induction cs arbitrary: ds) (auto split: option.splits)

lemma decode_ones: "decode_digits (replicate n CHR ''1'') [] = Inr []"
  by (induction n) (use base58_index_char [of 0] in \<open>simp_all add: base58_char_0 push_carry.simps\<close>)

lemma decode_first:
  assumes "c \<noteq> CHR ''1''"
  shows "decode_digits (c # cs) [] = decode_digits (c # cs) [0]"
proof (cases "base58_index c")
  case (Some i)
  with assms base58_index_Some [OF Some] have "0 < i" "i < 58" by (auto simp: base58_char_0 intro: gr0I)
  then have "push_carry 256 i = [i]" by (simp add: push_carry.simps)
  with Some \<open>i < 58\<close> show ?thesis by (simp add: push_carry.simps)
qed simp

text \<open>The second decoder refuses the empty text and otherwise is the first one.\<close>

lemma decodeBase58_mm_eq:
  "decodeBase58_mm value = (if value = [] then throw ''Base58 value must not be empty'' else decodeBase58 value)"
proof -
  obtain n rest where split: "value = replicate n CHR ''1'' @ rest" "rest = [] \<or> hd rest \<noteq> CHR ''1''"
      "n = length (takeWhile (\<lambda>c. c = CHR ''1'') value)"
    by (rule split_leading)
  have digits: "base58_loop value [] = (if rest = [] then Inr [] else decode_digits rest [0])"
    unfolding base58_loop_digits using split(2) decode_first
    by (subst split(1), cases rest) (auto simp: decode_digits_append decode_ones simp del: decode_digits.simps(2))
  have "drop n value = rest" "length value = n + length rest"
    using split(1) by (simp_all add: arg_cong [OF split(1), of length])
  with digits split(3) show ?thesis by (auto simp: decodeBase58_mm_def decodeBase58_def Let_def)
qed

lemma assertPublicKey_key: "assertPublicKey value allow = Inr u \<Longrightarrow> is_key value"
  by (auto simp: assertPublicKey_def decodeBase58_mm_eq decodePublicKey_def intro!: decodePublicKey_text_is_key split: if_splits)

section \<open>Amounts and ids\<close>

lemma parseUnsignedU64_Inr:
  "parseUnsignedU64 value allowZero = Inr n \<longleftrightarrow>
     is_decimal value \<and> n = int (parse_decimal value) \<and> n < 2 ^ 64 \<and> (allowZero \<or> 0 < n)"
  by (auto simp: parseUnsignedU64_def MAXIMUM_U64_def Let_def)

lemma parsePathwayId_length: "parsePathwayId text = Inr ident \<Longrightarrow> length ident = 32"
  by (auto simp: parsePathwayId_def Let_def hex_pairs_length split: if_splits)

lemma uint64_bytes_length [simp]: "length (uint64_bytes n) = 8"
  by (simp add: uint64_bytes_def)

lemma encoded_u64:
  "0 \<le> n \<Longrightarrow> n < 2 ^ 64 \<Longrightarrow> encodePrimitive U64 (JBig n) = Inr (uint64_bytes n)"
  by (simp add: encodePrimitive_def encodeUnsignedInteger_def integerFromValue_def uint64_bytes_def)

lemma direct_data:
  assumes "encodeDirectSettlementData disc pathwayId amount minimumOutput = Inr data" "length disc = 2"
  shows "\<exists>ident. parsePathwayId pathwayId = Inr ident \<and> length ident = 32
    \<and> parseUnsignedU64 amount False = Inr (int (parse_decimal amount))
    \<and> parseUnsignedU64 minimumOutput True = Inr (int (parse_decimal minimumOutput))
    \<and> data = disc @ ident @ uint64_bytes (int (parse_decimal amount)) @ uint64_bytes (int (parse_decimal minimumOutput))"
proof -
  from assms(1) obtain ident where "parsePathwayId pathwayId = Inr ident"
      "parseUnsignedU64 amount False = Inr (int (parse_decimal amount))"
      "parseUnsignedU64 minimumOutput True = Inr (int (parse_decimal minimumOutput))"
      "data = array_set (array_set (array_set (array_set (replicate 50 0) disc 0) ident 2)
         (uint64_bytes (int (parse_decimal amount))) 34) (uint64_bytes (int (parse_decimal minimumOutput))) 42"
    by (auto simp: encodeDirectSettlementData_def Let_def parseUnsignedU64_Inr)
  with assms(2) parsePathwayId_length show ?thesis by (auto simp: array_set_def)
qed

section \<open>Accounts\<close>

text \<open>The address of an account position: the key given for it, or the default of the schema.\<close>

definition given_address :: "chancery_schema \<Rightarrow> instruction_account_schema \<Rightarrow> string option \<Rightarrow> string \<Rightarrow> bool" where
  "given_address S a given address \<longleftrightarrow>
     (case given of Some key \<Rightarrow> is_key key \<and> address = key
      | None \<Rightarrow> defaultAccountAddress S a = Inr (Some address))"

lemma initial_step_given:
  assumes "map_of inputs (ia_name a) = Some (map_option KeyText given)" "given_address S a given address"
  shows "initial_step S inputs a addresses = Inr (obj_set addresses (ia_name a) address)"
  using assms by (cases given) (simp_all add: initial_step_def given_address_def)

lemma initial_resolved:
  assumes "list_all2 (\<lambda>a r. \<exists>given. map_of inputs (ia_name a) = Some (map_option KeyText given) \<and> given_address S a given r) as rs"
    "distinct (map fst acc @ map ia_name as)"
  shows "foldR (initial_step S inputs) as acc = Inr (acc @ zip (map ia_name as) rs)"
  using assms
proof (induction as rs arbitrary: acc rule: list_all2_induct)
  case (Cons a as r rs)
  then obtain given where "map_of inputs (ia_name a) = Some (map_option KeyText given)" "given_address S a given r" by blast
  moreover have "obj_set acc (ia_name a) r = acc @ [(ia_name a, r)]"
    using Cons.prems by (intro obj_set_fresh) auto
  moreover have "foldR (initial_step S inputs) as (acc @ [(ia_name a, r)]) = Inr ((acc @ [(ia_name a, r)]) @ zip (map ia_name as) rs)"
    using Cons.prems by (intro Cons.IH) auto
  ultimately show ?case using initial_step_given by simp
qed simp

lemma pda_steps_known:
  "list_all (\<lambda>a. map_of addresses (ia_name a) \<noteq> None) as \<Longrightarrow>
   foldR (pda_step H S ix args) as (addresses, False) = Inr (addresses, False)"
  by (induction as) (auto simp: pda_step_def)

lemma pda_passes_known:
  "list_all (\<lambda>a. map_of addresses (ia_name a) \<noteq> None) (ix_accounts ix) \<Longrightarrow>
   pda_passes H S ix args n addresses = Inr addresses"
  by (cases n) (simp_all add: pda_steps_known)

text \<open>The meta of an account whose address is known and, where it is verified, right.\<close>

definition meta_of :: "instruction_account_schema \<Rightarrow> string \<Rightarrow> instruction_account_meta" where
  "meta_of a address = \<lparr>am_name = ia_name a, am_address = address, am_signer = ia_signer a, am_writable = ia_writable a\<rparr>"

lemma resolved_accounts:
  assumes ix: "map_of (schema_instructions S) name = Some ix" and names: "distinct (map ia_name (ix_accounts ix))"
    and resolved: "list_all2 (\<lambda>(a, given) r. given_address S a given r) (zip (ix_accounts ix) givens) rs"
    and len: "length givens = length (ix_accounts ix)"
    and pdas: "\<forall>(a, r) \<in> set (zip (ix_accounts ix) rs). ia_pda a = None \<or> \<not> verify \<or>
      (\<exists>seeds bump. ia_pda a = Some \<lparr>pda_seeds = map ConstSeed seeds\<rparr> \<and>
         findProgramAddress H seeds (KeyText (program_address (schema_program S))) = Inr \<lparr>pda_address = r, pda_bump = bump\<rparr>)"
  shows "resolveChanceryInstructionAccounts H S name args
      (zip (map ia_name (ix_accounts ix)) (map (map_option KeyText) givens)) verify = Inr (map2 meta_of (ix_accounts ix) rs)"
proof -
  let ?as = "ix_accounts ix" and ?inputs = "zip (map ia_name (ix_accounts ix)) (map (map_option KeyText) givens)"
  let ?known = "zip (map ia_name ?as) rs"
  have lens: "length rs = length ?as" using list_all2_lengthD [OF resolved] len by simp
  have inputs: "map_of ?inputs (ia_name (?as ! i)) = Some (map_option KeyText (givens ! i))" if "i < length ?as" for i
    using map_of_zip_distinct [of "map ia_name ?as" "map (map_option KeyText) givens" i] that len names by simp
  have known: "map_of ?known (ia_name (?as ! i)) = Some (rs ! i)" if "i < length ?as" for i
    using map_of_zip_distinct [of "map ia_name ?as" rs i] that lens names by simp
  have step: "initial_addresses S ?as ?inputs = Inr ?known"
    unfolding initial_addresses_def
    using resolved len lens inputs names
    by (intro initial_resolved [where acc = "[]", simplified]) (auto simp: list_all2_conv_all_nth)
  have "list_all (\<lambda>a. map_of ?known (ia_name a) \<noteq> None) ?as"
    using known by (auto simp: list_all_length)
  then have passes: "pda_passes H S ix args (length ?as) ?known = Inr ?known" by (rule pda_passes_known)
  have meta: "account_meta H S ix args verify ?known (?as ! i) = Inr (meta_of (?as ! i) (rs ! i))" if i: "i < length ?as" for i
  proof -
    have "(?as ! i, rs ! i) \<in> set (zip ?as rs)" using i lens by (auto simp: set_zip)
    from bspec [OF pdas this] have "ia_pda (?as ! i) = None \<or> \<not> verify \<or> (\<exists>seeds bump. ia_pda (?as ! i) = Some \<lparr>pda_seeds = map ConstSeed seeds\<rparr> \<and>
         findProgramAddress H seeds (KeyText (program_address (schema_program S))) = Inr \<lparr>pda_address = rs ! i, pda_bump = bump\<rparr>)"
      by simp
    moreover have "mapR (\<lambda>seed. pdaSeedBytes S ix seed args ?known) (map ConstSeed seeds) = Inr seeds" for seeds
      by (induction seeds) (simp_all add: pdaSeedBytes_def)
    then have "derivePda H S ix args \<lparr>pda_seeds = map ConstSeed seeds\<rparr> ?known
        = findProgramAddress H seeds (KeyText (program_address (schema_program S)))" for seeds
      by (simp add: derivePda_def)
    ultimately show ?thesis
      using known [OF i] by (auto simp: account_meta_def meta_of_def Let_def simp del: bindR_eq_Inr split: option.splits)
  qed
  have "mapR (account_meta H S ix args verify ?known) ?as = Inr (map2 meta_of ?as rs)"
    using meta lens by (auto simp: mapR_eq_Inr_iff list_all2_conv_all_nth)
  with ix step passes show ?thesis
    by (simp add: resolveChanceryInstructionAccounts_def getInstructionSchema_def lookup_or_def)
qed

section \<open>The accounts of the two instructions\<close>

text \<open>The key given for every position of the schema's list; the program position is left to its default.\<close>

definition policy_keys :: "policy_accounts_input \<Rightarrow> string option list" where
  "policy_keys p =
     [po_feePolicy p, po_feeRecipientTokenAccount p, po_limitPolicy p, po_hourlyUsageWindow p, po_dailyUsageWindow p,
      po_weeklyUsageWindow p, po_monthlyUsageWindow p, po_evidencePolicy p, po_assetLimitPolicy p,
      po_assetDailyUsageWindow p, po_counterpartyLimitPolicy p, po_counterpartyDailyUsageWindow p]"

definition mint_keys :: "mint_direct_accounts \<Rightarrow> string option list" where
  "mint_keys a = map Some
     [ma_moduleActivationState a, ma_chanceryConfig a, ma_eventAuthority a, ma_pauseState a, ma_assetConfig a,
      ma_pathwayPolicy a, ma_permissionRecord a, ma_sourceAssetTokenAccount a, ma_reserveAssetTokenAccount a,
      ma_destinationIssuedTokenAccount a, ma_assetMint a, ma_issuedTokenMint a, ma_mintAuthorityPda a,
      ma_assetTokenProgram a, ma_issuedTokenProgram a, ma_principal a, ma_assetPauseState a, ma_issuedTokenControl a]
     @ policy_keys (ma_policyAccounts a) @ [None]"

definition redeem_keys :: "redeem_direct_accounts \<Rightarrow> string option list" where
  "redeem_keys a = map Some
     [rd_moduleActivationState a, rd_chanceryConfig a, rd_eventAuthority a, rd_pauseState a, rd_assetConfig a,
      rd_pathwayPolicy a, rd_permissionRecord a, rd_sourceIssuedTokenAccount a, rd_reserveAssetTokenAccount a,
      rd_destinationAssetTokenAccount a, rd_assetMint a, rd_issuedTokenMint a, rd_reserveAuthorityPda a,
      rd_assetTokenProgram a, rd_issuedTokenProgram a, rd_principal a, rd_assetPauseState a, rd_issuedTokenControl a]
     @ policy_keys (rd_policyAccounts a) @ [None]"

text \<open>A meta of the integration takes the position of an account of the schema.\<close>

definition takes :: "chancery_schema \<Rightarrow> instruction_account_schema \<times> string option \<Rightarrow> account_meta_spec res \<Rightarrow> bool" where
  "takes S p m \<longleftrightarrow> (\<forall>spec. m = Inr spec \<longrightarrow>
     given_address S (fst p) (snd p) (as_address spec) \<and> as_signer spec = ia_signer (fst p) \<and> as_writable spec = ia_writable (fst p))"

definition direct_defaults :: "chancery_schema \<Rightarrow> string \<Rightarrow> bool" where
  "direct_defaults S programId \<longleftrightarrow>
     program_address (schema_program S) = programId \<and> zero_address (schema_wire S) = DEFAULT_PUBLIC_KEY"

lemma takes_required:
  "ia_signer a = (name = ''principal'') \<Longrightarrow> ia_writable a = w \<Longrightarrow>
   takes S (a, Some key) (requiredAccount name key w)"
  by (auto simp: takes_def requiredAccount_def given_address_def dest: assertPublicKey_key)

lemma takes_optional:
  "direct_defaults S programId \<Longrightarrow> ia_default a = zero_default \<Longrightarrow> \<not> ia_signer a \<Longrightarrow> ia_writable a = w \<Longrightarrow>
   takes S (a, given) (optionalAccount name given w)"
  by (auto simp: takes_def optionalAccount_def given_address_def direct_defaults_def defaultAccountAddress_def zero_default_def
      dest: assertPublicKey_key split: option.splits)

lemma takes_program:
  "direct_defaults S programId \<Longrightarrow> ia_default a = program_default \<Longrightarrow> \<not> ia_signer a \<Longrightarrow> \<not> ia_writable a \<Longrightarrow>
   takes S (a, None) (Inr (event_program_meta programId))"
  by (simp add: takes_def event_program_meta_def given_address_def direct_defaults_def defaultAccountAddress_def program_default_def)

lemma mint_takes:
  assumes "direct_defaults S programId"
  shows "list_all2 (takes S) (zip (ix_accounts mint_direct_schema) (mint_keys accounts)) (mint_account_metas programId accounts)"
  using assms
  by (simp add: mint_direct_schema_def mint_keys_def policy_keys_def mint_account_metas_def policyAccountMetas_def
      takes_required takes_optional [OF assms] takes_program)

lemma redeem_takes:
  assumes "direct_defaults S programId"
  shows "list_all2 (takes S) (zip (ix_accounts redeem_direct_schema) (redeem_keys accounts)) (redeem_account_metas programId accounts)"
  using assms
  by (simp add: redeem_direct_schema_def redeem_keys_def policy_keys_def redeem_account_metas_def policyAccountMetas_def
      takes_required takes_optional [OF assms] takes_program)

section \<open>The two builders agree\<close>

definition direct_arguments :: "string \<Rightarrow> string \<Rightarrow> 'a direct_operation \<Rightarrow> js_object" where
  "direct_arguments inputName minimumName operation =
     [(''pathway_id'', JBytes (case parsePathwayId (do_pathwayId operation) of Inr ident \<Rightarrow> ident | Inl _ \<Rightarrow> [])),
      (inputName, JBig (int (parse_decimal (do_amount operation)))),
      (minimumName, JBig (int (parse_decimal (do_minimumOutput operation))))]"

text \<open>
  An instruction of the integration agrees with the one the schema-driven client builds from the same keys and amounts:
  same program, same data, and position by position the same address and flags.
\<close>

definition agrees_with_client ::
  "(bytes \<Rightarrow> bytes) \<Rightarrow> chancery_schema \<Rightarrow> string \<Rightarrow> instruction_schema \<Rightarrow> js_object \<Rightarrow> string option list \<Rightarrow> bool
   \<Rightarrow> instruction_spec \<Rightarrow> bool" where
  "agrees_with_client H S name ix args keys verify spec \<longleftrightarrow>
     (\<exists>built. buildChanceryInstruction H S name args
         (zip (map ia_name (ix_accounts ix)) (map (map_option KeyText) keys)) verify = Inr built
       \<and> ci_program built = is_program spec \<and> ci_data built = is_data spec
       \<and> map (\<lambda>m. (am_address m, am_signer m, am_writable m)) (ci_accounts built)
           = map (\<lambda>m. (as_address m, as_signer m, as_writable m)) (is_accounts spec))"

text \<open>With verification on, the first account has to be at the address its constant seed derives to.\<close>

definition module_address_ok :: "(bytes \<Rightarrow> bytes) \<Rightarrow> chancery_schema \<Rightarrow> bool \<Rightarrow> string \<Rightarrow> bool" where
  "module_address_ok H S verify address \<longleftrightarrow> \<not> verify \<or>
     (\<exists>bump. findProgramAddress H [utf8_encode ''module-activation-state''] (KeyText (program_address (schema_program S)))
        = Inr \<lparr>pda_address = address, pda_bump = bump\<rparr>)"

lemma taken_metas:
  assumes "mapR id ms = Inr metas" "list_all2 (takes S) ps ms"
  shows "list_all2 (\<lambda>(a, given) r. given_address S a given r) ps (map as_address metas)"
    "map (\<lambda>m. (am_address m, am_signer m, am_writable m)) (map2 meta_of (map fst ps) (map as_address metas))
      = map (\<lambda>m. (as_address m, as_signer m, as_writable m)) metas"
  using assms(2,1) by (induction ps ms arbitrary: metas rule: list_all2_induct) (auto simp: takes_def meta_of_def)

lemma client_agrees:
  assumes ix: "map_of (schema_instructions S) name = Some ix" and names: "distinct (map ia_name (ix_accounts ix))"
    and len: "length keys = length (ix_accounts ix)"
    and takes: "list_all2 (takes S) (zip (ix_accounts ix) keys) ms" and metas: "mapR id ms = Inr metas"
    and pdas: "\<forall>(a, m) \<in> set (zip (ix_accounts ix) metas). ia_pda a = None \<or> \<not> verify \<or>
      (\<exists>seeds bump. ia_pda a = Some \<lparr>pda_seeds = map ConstSeed seeds\<rparr> \<and>
         findProgramAddress H seeds (KeyText (program_address (schema_program S)))
           = Inr \<lparr>pda_address = as_address m, pda_bump = bump\<rparr>)"
    and data: "encodeChanceryInstructionData S name args = Inr data"
  shows "agrees_with_client H S name ix args keys verify
    \<lparr>is_program = program_address (schema_program S), is_accounts = metas, is_data = data\<rparr>"
proof -
  note taken = taken_metas [OF metas takes]
  have "\<forall>(a, r) \<in> set (zip (ix_accounts ix) (map as_address metas)). ia_pda a = None \<or> \<not> verify \<or>
      (\<exists>seeds bump. ia_pda a = Some \<lparr>pda_seeds = map ConstSeed seeds\<rparr> \<and>
         findProgramAddress H seeds (KeyText (program_address (schema_program S))) = Inr \<lparr>pda_address = r, pda_bump = bump\<rparr>)"
    using pdas by (auto simp: zip_map2)
  from resolved_accounts [OF ix names taken(1) len this] data taken(2) len show ?thesis
    by (simp add: agrees_with_client_def buildChanceryInstruction_def)
qed

lemma direct_data_encoded:
  assumes ix: "map_of (schema_instructions S) name = Some ix"
    and args: "ix_args ix = [\<lparr>field_name = ''pathway_id'', field_type = ArrayT (Prim U8) 32\<rparr>,
      \<lparr>field_name = inputName, field_type = Prim U64\<rparr>, \<lparr>field_name = minimumName, field_type = Prim U64\<rparr>]"
    and names: "distinct [''pathway_id'', inputName, minimumName]" and disc: "length (ix_discriminator ix) = 2"
    and data: "encodeDirectSettlementData (ix_discriminator ix) (do_pathwayId operation) (do_amount operation)
      (do_minimumOutput operation) = Inr data"
  shows "encodeChanceryInstructionData S name (direct_arguments inputName minimumName operation) = Inr data"
proof -
  from direct_data [OF data disc] obtain ident where parts: "parsePathwayId (do_pathwayId operation) = Inr ident"
      "length ident = 32" "parseUnsignedU64 (do_amount operation) False = Inr (int (parse_decimal (do_amount operation)))"
      "parseUnsignedU64 (do_minimumOutput operation) True = Inr (int (parse_decimal (do_minimumOutput operation)))"
      "data = ix_discriminator ix @ ident @ uint64_bytes (int (parse_decimal (do_amount operation)))
         @ uint64_bytes (int (parse_decimal (do_minimumOutput operation)))" by blast
  then have "encodePrimitive U64 (JBig (int (parse_decimal (do_amount operation))))
        = Inr (uint64_bytes (int (parse_decimal (do_amount operation))))"
      "encodePrimitive U64 (JBig (int (parse_decimal (do_minimumOutput operation))))
        = Inr (uint64_bytes (int (parse_decimal (do_minimumOutput operation))))"
    by (simp_all add: encoded_u64 parseUnsignedU64_Inr)
  moreover have "obj_get (direct_arguments inputName minimumName operation) ''pathway_id'' = JBytes ident"
      "obj_get (direct_arguments inputName minimumName operation) inputName = JBig (int (parse_decimal (do_amount operation)))"
      "obj_get (direct_arguments inputName minimumName operation) minimumName
        = JBig (int (parse_decimal (do_minimumOutput operation)))"
    using names parts(1) by (auto simp: direct_arguments_def obj_get_def)
  ultimately show ?thesis
    using parts ix by (simp add: encodeChanceryInstructionData_def getInstructionSchema_def lookup_or_def args encodeStruct_def
        encode_struct_with_def encode_field_def bytesFromValue_def)
qed

definition module_seed :: bytes where
  "module_seed = [109, 111, 100, 117, 108, 101, 45, 97, 99, 116, 105, 118, 97, 116, 105, 111, 110, 45, 115, 116, 97, 116, 101]"

lemma module_seed_text: "utf8_encode ''module-activation-state'' = module_seed"
  by (simp add: module_seed_def utf8_encode_def utf8_unit_def)

lemma first_pda:
  assumes "ia_pda a = Some \<lparr>pda_seeds = [ConstSeed module_seed]\<rparr>" "list_all (\<lambda>a. ia_pda a = None) as"
    "module_address_ok H S verify (as_address m)"
  shows "\<forall>(a, m) \<in> set (zip (a # as) (m # ms)). ia_pda a = None \<or> \<not> verify \<or>
      (\<exists>seeds bump. ia_pda a = Some \<lparr>pda_seeds = map ConstSeed seeds\<rparr> \<and>
         findProgramAddress H seeds (KeyText (program_address (schema_program S)))
           = Inr \<lparr>pda_address = as_address m, pda_bump = bump\<rparr>)"
proof -
  have "ia_pda x = None" if "(x, y) \<in> set (zip as ms)" for x y
    using set_zip_leftD [OF that] assms(2) by (simp add: list_all_iff)
  moreover have "\<not> verify \<or> (\<exists>seeds bump. ia_pda a = Some \<lparr>pda_seeds = map ConstSeed seeds\<rparr> \<and>
         findProgramAddress H seeds (KeyText (program_address (schema_program S)))
           = Inr \<lparr>pda_address = as_address m, pda_bump = bump\<rparr>)"
    using assms(1,3) unfolding module_address_ok_def module_seed_text
    by (metis list.simps(8) list.simps(9))
  ultimately show ?thesis by auto
qed

lemma direct_agrees:
  assumes built: "mapR id (requiredAccount n address w # ms) = Inr metas"
      "encodeDirectSettlementData (ix_discriminator ix) (do_pathwayId operation) (do_amount operation)
        (do_minimumOutput operation) = Inr data"
    and ix: "map_of (schema_instructions S) name = Some ix" "distinct (map ia_name (ix_accounts ix))"
      "ix_accounts ix = a # as" "ia_pda a = Some \<lparr>pda_seeds = [ConstSeed module_seed]\<rparr>" "list_all (\<lambda>a. ia_pda a = None) as"
      "length keys = length (ix_accounts ix)" "length (ix_discriminator ix) = 2"
      "ix_args ix = [\<lparr>field_name = ''pathway_id'', field_type = ArrayT (Prim U8) 32\<rparr>,
      \<lparr>field_name = inputName, field_type = Prim U64\<rparr>, \<lparr>field_name = minimumName, field_type = Prim U64\<rparr>]"
      "distinct [''pathway_id'', inputName, minimumName]"
    and takes: "list_all2 (takes S) (zip (ix_accounts ix) keys) (requiredAccount n address w # ms)"
    and module: "module_address_ok H S verify address"
  shows "agrees_with_client H S name ix (direct_arguments inputName minimumName operation) keys verify
    \<lparr>is_program = program_address (schema_program S), is_accounts = metas, is_data = data\<rparr>"
proof (rule client_agrees [OF ix(1,2,6) takes built(1)])
  from built(1) obtain m rest where m: "metas = m # rest" "as_address m = address"
    by (auto simp: requiredAccount_def)
  show "\<forall>(a, m) \<in> set (zip (ix_accounts ix) metas). ia_pda a = None \<or> \<not> verify \<or>
      (\<exists>seeds bump. ia_pda a = Some \<lparr>pda_seeds = map ConstSeed seeds\<rparr> \<and>
         findProgramAddress H seeds (KeyText (program_address (schema_program S)))
           = Inr \<lparr>pda_address = as_address m, pda_bump = bump\<rparr>)"
    unfolding ix(3) m(1) using module m(2) by (intro first_pda [OF ix(4,5)]) simp
  show "encodeChanceryInstructionData S name (direct_arguments inputName minimumName operation) = Inr data"
    by (rule direct_data_encoded [OF ix(1,8,9,7) built(2)])
qed

lemma mint_agrees:
  assumes "buildMintDirectInstruction programId operation = Inr spec" "direct_defaults S programId"
    "map_of (schema_instructions S) ''mint_direct'' = Some mint_direct_schema"
    "module_address_ok H S verify (ma_moduleActivationState (do_accounts operation))"
  shows "agrees_with_client H S ''mint_direct'' mint_direct_schema
    (direct_arguments ''asset_amount'' ''minimum_issued_token_amount'' operation) (mint_keys (do_accounts operation)) verify spec"
proof -
  let ?a = "do_accounts operation"
  obtain ms where ms: "mint_account_metas programId ?a = requiredAccount ''moduleActivationState'' (ma_moduleActivationState ?a) False # ms"
    by (simp add: mint_account_metas_def)
  obtain first others where accounts: "ix_accounts mint_direct_schema = first # others"
      "ia_pda first = Some \<lparr>pda_seeds = [ConstSeed module_seed]\<rparr>" "list_all (\<lambda>a. ia_pda a = None) others"
    by (simp add: mint_direct_schema_def module_seed_def)
  from assms(1) obtain metas data where built: "mapR id (mint_account_metas programId ?a) = Inr metas"
      "encodeDirectSettlementData (ix_discriminator mint_direct_schema) (do_pathwayId operation) (do_amount operation)
        (do_minimumOutput operation) = Inr data"
      "spec = \<lparr>is_program = program_address (schema_program S), is_accounts = metas, is_data = data\<rparr>"
    using assms(2) by (auto simp: buildMintDirectInstruction_def direct_defaults_def mint_direct_schema_def
        MINT_DIRECT_DISCRIMINATOR_def split: if_splits)
  show ?thesis
    unfolding built(3)
    by (rule direct_agrees [OF built(1)[unfolded ms] built(2) assms(3) _ accounts _ _ _ _ mint_takes [OF assms(2), of ?a, unfolded ms] assms(4)])
      (simp_all add: mint_direct_schema_def mint_keys_def policy_keys_def)
qed

lemma redeem_agrees:
  assumes "buildRedeemDirectInstruction programId operation = Inr spec" "direct_defaults S programId"
    "map_of (schema_instructions S) ''redeem_direct'' = Some redeem_direct_schema"
    "module_address_ok H S verify (rd_moduleActivationState (do_accounts operation))"
  shows "agrees_with_client H S ''redeem_direct'' redeem_direct_schema
    (direct_arguments ''issued_token_amount'' ''minimum_asset_amount'' operation) (redeem_keys (do_accounts operation)) verify spec"
proof -
  let ?a = "do_accounts operation"
  obtain ms where ms: "redeem_account_metas programId ?a = requiredAccount ''moduleActivationState'' (rd_moduleActivationState ?a) False # ms"
    by (simp add: redeem_account_metas_def)
  obtain first others where accounts: "ix_accounts redeem_direct_schema = first # others"
      "ia_pda first = Some \<lparr>pda_seeds = [ConstSeed module_seed]\<rparr>" "list_all (\<lambda>a. ia_pda a = None) others"
    by (simp add: redeem_direct_schema_def module_seed_def)
  from assms(1) obtain metas data where built: "mapR id (redeem_account_metas programId ?a) = Inr metas"
      "encodeDirectSettlementData (ix_discriminator redeem_direct_schema) (do_pathwayId operation) (do_amount operation)
        (do_minimumOutput operation) = Inr data"
      "spec = \<lparr>is_program = program_address (schema_program S), is_accounts = metas, is_data = data\<rparr>"
    using assms(2) by (auto simp: buildRedeemDirectInstruction_def direct_defaults_def redeem_direct_schema_def
        REDEEM_DIRECT_DISCRIMINATOR_def split: if_splits)
  show ?thesis
    unfolding built(3)
    by (rule direct_agrees [OF built(1)[unfolded ms] built(2) assms(3) _ accounts _ _ _ _ redeem_takes [OF assms(2), of ?a, unfolded ms] assms(4)])
      (simp_all add: redeem_direct_schema_def redeem_keys_def policy_keys_def)
qed

end
