(* ===== verification/SampleDirect.thy ===== *)
theory SampleDirect
  imports SampleServer DirectSettlementSafety
begin

text \<open>The sample server's schema with the two direct instructions of the schema file, and one operation of each kind.\<close>

definition direct_schema :: chancery_schema where
  "direct_schema = server_schema\<lparr>
     schema_instructions := [(''mint_direct'', mint_direct_schema), (''redeem_direct'', redeem_direct_schema)],
     schema_wire := (schema_wire server_schema)\<lparr>zero_address := DEFAULT_PUBLIC_KEY\<rparr>\<rparr>"

definition no_direct_policies :: policy_accounts_input where
  "no_direct_policies = \<lparr>po_feePolicy = None, po_feeRecipientTokenAccount = None, po_limitPolicy = None,
     po_hourlyUsageWindow = None, po_dailyUsageWindow = None, po_weeklyUsageWindow = None, po_monthlyUsageWindow = None,
     po_evidencePolicy = None, po_assetLimitPolicy = None, po_assetDailyUsageWindow = None,
     po_counterpartyLimitPolicy = None, po_counterpartyDailyUsageWindow = None\<rparr>"

definition direct_mint :: mint_direct_operation where
  "direct_mint = \<lparr>do_pathwayId = ''0x'' @ replicate 64 (CHR ''a''), do_amount = ''1000'', do_minimumOutput = ''0'',
     do_accounts = \<lparr>ma_moduleActivationState = pda_key 7, ma_chanceryConfig = sample_key 2, ma_eventAuthority = sample_key 3,
       ma_pauseState = sample_key 4, ma_assetConfig = sample_key 5, ma_pathwayPolicy = sample_key 6,
       ma_permissionRecord = sample_key 7, ma_sourceAssetTokenAccount = sample_key 8,
       ma_reserveAssetTokenAccount = sample_key 10, ma_destinationIssuedTokenAccount = sample_key 11,
       ma_assetMint = sample_key 12, ma_issuedTokenMint = sample_key 13, ma_mintAuthorityPda = sample_key 14,
       ma_assetTokenProgram = sample_key 15, ma_issuedTokenProgram = sample_key 16, ma_principal = sample_key 17,
       ma_assetPauseState = sample_key 18, ma_issuedTokenControl = sample_key 19, ma_policyAccounts = no_direct_policies\<rparr>\<rparr>"

definition direct_redeem :: redeem_direct_operation where
  "direct_redeem = \<lparr>do_pathwayId = replicate 64 (CHR ''b''), do_amount = ''7'', do_minimumOutput = ''5'',
     do_accounts = \<lparr>rd_moduleActivationState = pda_key 7, rd_chanceryConfig = sample_key 2, rd_eventAuthority = sample_key 3,
       rd_pauseState = sample_key 4, rd_assetConfig = sample_key 5, rd_pathwayPolicy = sample_key 6,
       rd_permissionRecord = sample_key 7, rd_sourceIssuedTokenAccount = sample_key 8,
       rd_reserveAssetTokenAccount = sample_key 10, rd_destinationAssetTokenAccount = sample_key 11,
       rd_assetMint = sample_key 12, rd_issuedTokenMint = sample_key 13, rd_reserveAuthorityPda = sample_key 14,
       rd_assetTokenProgram = sample_key 15, rd_issuedTokenProgram = sample_key 16, rd_principal = sample_key 17,
       rd_assetPauseState = sample_key 18, rd_issuedTokenControl = sample_key 19,
       rd_policyAccounts = no_direct_policies\<lparr>po_feePolicy := Some (sample_key 20)\<rparr>\<rparr>\<rparr>"

lemma direct_schema_defaults: "direct_defaults direct_schema (sample_key 9)"
  by (simp add: direct_defaults_def direct_schema_def server_program)

lemma direct_schema_entries:
  "map_of (schema_instructions direct_schema) ''mint_direct'' = Some mint_direct_schema"
  "map_of (schema_instructions direct_schema) ''redeem_direct'' = Some redeem_direct_schema"
  by (simp_all add: direct_schema_def)

lemma direct_module_address: "module_address_ok server_hash direct_schema verify (pda_key 7)"
proof -
  have "findProgramAddress server_hash [module_seed] (KeyText (sample_key 9)) = Inr \<lparr>pda_address = pda_key 7, pda_bump = 255\<rparr>"
    using server_find [of "[module_seed]" "sample_key 9"] by (simp add: module_seed_def sample_key_is_key)
  then show ?thesis
    by (auto simp: module_address_ok_def module_seed_text direct_schema_def server_program)
qed

lemma accepted_key:
  assumes "decodePublicKey (KeyText key) = Inr bs" "\<not> list_all (\<lambda>b. b = 0) bs"
  shows "assertPublicKey key False = Inr ()"
  using assms by (cases "key = []") (auto simp: assertPublicKey_def decodePublicKey_def decodeBase58_mm_eq decodeBase58_def split: if_splits)

lemma sample_accepted: "0 < n \<Longrightarrow> n < 58 \<Longrightarrow> assertPublicKey (sample_key n) False = Inr ()"
  by (rule accepted_key [OF sample_key_decoded]) (simp_all add: word_of_nat_eq_0_iff nat_dvd_not_less)

lemma pda_accepted: "n < 19 \<Longrightarrow> assertPublicKey (pda_key n) False = Inr ()"
  by (rule accepted_key [OF pda_key_decoded]) (simp add: server_digest_def list_all_iff)

lemma direct_mint_built: "\<exists>spec. buildMintDirectInstruction programId direct_mint = Inr spec"
  by (simp add: buildMintDirectInstruction_def direct_mint_def mint_account_metas_def requiredAccount_def policyAccountMetas_def
      no_direct_policies_def optionalAccount_def sample_accepted pda_accepted encodeDirectSettlementData_def parsePathwayId_def Let_def list_all_iff
      parseUnsignedU64_Inr startsWith_def hex_val_def is_decimal_def is_digit_def parse_decimal_def digit_val_def)

lemma direct_redeem_built: "\<exists>spec. buildRedeemDirectInstruction programId direct_redeem = Inr spec"
  by (simp add: buildRedeemDirectInstruction_def direct_redeem_def redeem_account_metas_def requiredAccount_def policyAccountMetas_def
      no_direct_policies_def optionalAccount_def sample_accepted pda_accepted encodeDirectSettlementData_def parsePathwayId_def Let_def list_all_iff
      parseUnsignedU64_Inr startsWith_def hex_val_def is_decimal_def is_digit_def parse_decimal_def digit_val_def)

end
