(* ===== verification/CommandLine.thy ===== *)
theory CommandLine
  imports ChanceryClient ChanceryDiscovery
begin

text \<open>
  \<open>typescript/src/client/cli.ts\<close>: the commands, their options, and what each of them asks of the settlement client. A run
  returns what it prints, as a value, and its exit code; an exception is printed by \<open>main().catch\<close> with exit code 1. The
  parsing of the endpoint URL and the reading and \<open>JSON.parse\<close> of the keypair files are parameters.
\<close>

section \<open>Options\<close>

fun join_lines :: "string list \<Rightarrow> string" where
  "join_lines [] = []"
| "join_lines [line] = line"
| "join_lines (line # others) = line @ CHR 0x0A # join_lines others"

definition usageText :: string where
  "usageText = join_lines
     [''Usage:'',
      ''  yarn cli:typescript discover --rpc <url>'',
      ''  yarn cli:typescript decode-transaction --rpc <url> --signature <signature>'',
      ''  yarn cli:typescript inspect --action mint|redeem ...'',
      ''  yarn cli:typescript quote-mint ...'',
      ''  yarn cli:typescript mint ...'',
      ''  yarn cli:typescript quote-redeem ...'',
      ''  yarn cli:typescript redeem ...'',
      '''',
      ''Common options:'',
      ''  --rpc <url>'',
      ''  --commitment processed|confirmed|finalized'',
      ''  --signature <transaction-signature>  required by decode-transaction'',
      '''',
      ''Operation options:'',
      ''  --action mint|redeem                  required by inspect'',
      ''  --asset-mint <public-key>'',
      ''  --principal <public-key>'',
      ''  --mode direct|delegated|trilateral   defaults to direct'',
      ''  --amount <raw-integer>                required for direct mode'',
      ''  --intent-id <32-byte-id>             required for delegated/trilateral mode'',
      '''',
      ''Selection and account overrides:'',
      ''  --pathway-id <32-byte-id>'',
      ''  --minimum-output <raw-integer>'',
      ''  --executor <public-key>'',
      ''  --principal-b <public-key>'',
      ''  --source-token-account <public-key>'',
      ''  --destination-token-account <public-key>'',
      ''  --fee-recipient-token-account <public-key>'',
      ''  --rent-refund-recipient <public-key>'',
      ''  --now-unix-timestamp <raw-integer>'',
      '''',
      ''Transaction options:'',
      ''  --signer <keypair.json>                repeat for every required signer'',
      ''  --fee-payer <public-key>               defaults to first signer'',
      ''  --lookup-table <public-key>            repeat for version-zero messages'']"

type_synonym cli_options = "(string \<times> string list) list"

record parsed_command_line =
  pc_command :: string
  pc_options :: cli_options

definition COMMANDS :: "string list" where
  "COMMANDS = [''discover'', ''decode-transaction'', ''inspect'', ''quote-mint'', ''mint'', ''quote-redeem'', ''redeem'']"

definition add_option :: "string \<Rightarrow> string \<Rightarrow> cli_options \<Rightarrow> cli_options" where
  "add_option name text options =
     (case map_of options name of
        None \<Rightarrow> obj_set options name [text]
      | Some existing \<Rightarrow> obj_set options name (existing @ [text]))"

text \<open>The loop over the arguments after the command; an option without \<open>=\<close> takes the next argument.\<close>

fun parse_options :: "string list \<Rightarrow> cli_options \<Rightarrow> cli_options res" where
  "parse_options [] options = Inr options"
| "parse_options (token # rest) options =
     (if \<not> startsWith token ''--'' \<or> length token = 2 then throw ''Expected --name value''
      else if CHR ''='' \<in> set token then
        parse_options rest
          (add_option (takeWhile (\<lambda>c. c \<noteq> CHR ''='') (drop 2 token)) (drop 1 (dropWhile (\<lambda>c. c \<noteq> CHR ''='') (drop 2 token))) options)
      else
        case rest of
          [] \<Rightarrow> throw ''Option requires a value''
        | next_token # others \<Rightarrow>
            if startsWith next_token ''--'' then throw ''Option requires a value''
            else parse_options others (add_option (drop 2 token) next_token options))"

definition parseCommandLine :: "string list \<Rightarrow> parsed_command_line res" where
  "parseCommandLine argumentsList =
     (case argumentsList of
        [] \<Rightarrow> throw usageText
      | commandValue # rest \<Rightarrow>
          if commandValue \<notin> set COMMANDS then throw usageText
          else bindR (parse_options rest []) (\<lambda>options. Inr \<lparr>pc_command = commandValue, pc_options = options\<rparr>))"

definition singleOption :: "cli_options \<Rightarrow> string \<Rightarrow> string option res" where
  "singleOption options name =
     (case map_of options name of
        None \<Rightarrow> Inr None
      | Some [] \<Rightarrow> Inr None
      | Some [text] \<Rightarrow> Inr (Some text)
      | Some _ \<Rightarrow> throw ''Option may be supplied only once'')"

definition requiredOption :: "cli_options \<Rightarrow> string \<Rightarrow> string res" where
  "requiredOption options name =
     bindR (singleOption options name) (\<lambda>text.
       case text of
         None \<Rightarrow> throw ''Missing required option''
       | Some s \<Rightarrow> if s = [] then throw ''Missing required option'' else Inr s)"

definition repeatedOption :: "cli_options \<Rightarrow> string \<Rightarrow> string list" where
  "repeatedOption options name = (case map_of options name of None \<Rightarrow> [] | Some texts \<Rightarrow> texts)"

section \<open>Requests\<close>

definition commandAction :: "string \<Rightarrow> cli_options \<Rightarrow> string res" where
  "commandAction command options =
     (if command = ''quote-mint'' \<or> command = ''mint'' then Inr ''mint''
      else if command = ''quote-redeem'' \<or> command = ''redeem'' then Inr ''redeem''
      else
        bindR (requiredOption options ''action'') (\<lambda>action.
          if action \<noteq> ''mint'' \<and> action \<noteq> ''redeem'' then throw ''--action must be mint or redeem'' else Inr action))"

definition parseMode :: "string \<Rightarrow> string res" where
  "parseMode text =
     (if text = ''direct'' \<or> text = ''delegated'' \<or> text = ''trilateral'' then Inr text
      else throw ''--mode must be direct, delegated, or trilateral'')"

definition parseCommitment :: "string \<Rightarrow> rpc_commitment res" where
  "parseCommitment text =
     (if text = ''processed'' then Inr Processed else if text = ''confirmed'' then Inr Confirmed
      else if text = ''finalized'' then Inr Finalized
      else throw ''--commitment must be processed, confirmed, or finalized'')"

text \<open>The property that \<open>assignBigIntegerOption\<close> sets, when it sets it; \<open>assignStringOption\<close> sets what \<open>singleOption\<close> returns.\<close>

definition assignBigIntegerOption :: "cli_options \<Rightarrow> string \<Rightarrow> int option res" where
  "assignBigIntegerOption options optionName =
     bindR (singleOption options optionName) (\<lambda>text.
       case text of
         None \<Rightarrow> Inr None
       | Some s \<Rightarrow>
           if \<not> is_decimal s then throw ''option must be an unsigned decimal integer''
           else Inr (Some (int (parse_decimal s))))"

definition assignStringOption :: "cli_options \<Rightarrow> string \<Rightarrow> string option res" where
  "assignStringOption options optionName = singleOption options optionName"

definition buildOperationRequest :: "cli_options \<Rightarrow> string \<Rightarrow> string \<Rightarrow> operation_request res" where
  "buildOperationRequest options action mode =
     bindR (requiredOption options ''asset-mint'') (\<lambda>assetMint.
     bindR (requiredOption options ''principal'') (\<lambda>principal.
     bindR (assignBigIntegerOption options ''amount'') (\<lambda>amount.
     bindR (assignBigIntegerOption options ''minimum-output'') (\<lambda>minimumOutput.
     bindR (assignBigIntegerOption options ''now-unix-timestamp'') (\<lambda>nowUnixTimestamp.
     bindR (assignStringOption options ''pathway-id'') (\<lambda>pathwayId.
     bindR (assignStringOption options ''intent-id'') (\<lambda>intentId.
     bindR (assignStringOption options ''executor'') (\<lambda>executor.
     bindR (assignStringOption options ''principal-b'') (\<lambda>principalB.
     bindR (assignStringOption options ''source-token-account'') (\<lambda>source.
     bindR (assignStringOption options ''destination-token-account'') (\<lambda>destination.
     bindR (assignStringOption options ''fee-recipient-token-account'') (\<lambda>feeRecipient.
     bindR (assignStringOption options ''rent-refund-recipient'') (\<lambda>rentRefund.
       Inr \<lparr>rq_action = action, rq_mode = mode, rq_asset_mint = assetMint, rq_principal = principal, rq_amount = amount,
            rq_minimum_output = minimumOutput, rq_pathway_id = map_option KeyText pathwayId,
            rq_intent_id = map_option KeyText intentId, rq_executor = executor, rq_principal_b = principalB,
            rq_source = source, rq_destination = destination, rq_fee_recipient = feeRecipient,
            rq_rent_refund = rentRefund, rq_now = nowUnixTimestamp\<rparr>)))))))))))))"

section \<open>The command\<close>

record 'w cli_host =
  ch_parse_url :: "string \<Rightarrow> parsed_url res"
  ch_read_json :: "string \<Rightarrow> js res"
  ch_locale_compare :: "string \<Rightarrow> string \<Rightarrow> int"
  ch_hash :: "bytes \<Rightarrow> bytes"
  ch_schema :: chancery_schema
  ch_crypto :: node_crypto
  ch_fetch :: "'w fetch"

definition loadSolanaKeypairFile :: "'w cli_host \<Rightarrow> string \<Rightarrow> solana_keypair res" where
  "loadSolanaKeypairFile host path = bindR (ch_read_json host path) (keypairFromJson (ch_crypto host))"

definition buildTransactionRequest :: "'w cli_host \<Rightarrow> cli_options \<Rightarrow> rpc_commitment \<Rightarrow> transaction_request res" where
  "buildTransactionRequest host options commitment =
     (let signerPaths = repeatedOption options ''signer'' in
      if signerPaths = [] then throw ''At least one --signer <keypair.json> is required''
      else
        bindR (mapR (loadSolanaKeypairFile host) signerPaths) (\<lambda>keypairs.
          case keypairs of
            [] \<Rightarrow> throw ''No signer keypairs were loaded''
          | firstKeypair # _ \<Rightarrow>
              bindR (singleOption options ''fee-payer'') (\<lambda>feePayer.
                let lookupTables = repeatedOption options ''lookup-table'' in
                Inr \<lparr>tr_fee_payer = (case feePayer of Some key \<Rightarrow> key | None \<Rightarrow> kp_public_key firstKeypair),
                     tr_keypairs = keypairs, tr_tables = (if lookupTables = [] then None else Some lookupTables),
                     tr_commitment = Some commitment\<rparr>)))"

datatype cli_output =
    UsageOutput
  | DiscoveryOutput state_discovery
  | EventsOutput "chancery_event_occurrence list option"
  | InspectionOutput settlement_inspection
  | SimulationOutput "prepared_transaction \<times> rpc_simulation_result"
  | SubmissionOutput submitted_transaction

definition operation_command ::
  "'w cli_host \<Rightarrow> 'w client \<Rightarrow> parsed_command_line \<Rightarrow> rpc_commitment \<Rightarrow> ('w, cli_output \<times> nat) rpc_io" where
  "operation_command host c parsed commitment =
     (let options = pc_options parsed; command = pc_command parsed in
      bindP (liftP (commandAction command options)) (\<lambda>action.
      bindP (liftP (singleOption options ''mode'')) (\<lambda>modeText.
      bindP (liftP (parseMode (case modeText of Some text \<Rightarrow> text | None \<Rightarrow> ''direct''))) (\<lambda>mode.
      bindP (liftP (buildOperationRequest options action mode)) (\<lambda>operationRequest.
      bindP (inspect c operationRequest) (\<lambda>inspection.
        if command = ''inspect'' then returnP (InspectionOutput inspection, if in_ready inspection then 0 else 2)
        else if \<not> in_ready inspection then returnP (InspectionOutput inspection, 2)
        else
          bindP (liftP (buildTransactionRequest host options commitment)) (\<lambda>transactionRequest.
            if command = ''quote-mint'' \<or> command = ''quote-redeem'' then
              bindP (simulateTransaction c inspection transactionRequest) (\<lambda>quoted.
                returnP (SimulationOutput quoted, if sr_err (snd quoted) \<noteq> JNull then 3 else 0))
            else
              bindP (submitTransaction c inspection transactionRequest) (\<lambda>submitted.
                returnP (SubmissionOutput submitted, 0)))))))))"

definition run_command ::
  "'w cli_host \<Rightarrow> 'w client \<Rightarrow> parsed_command_line \<Rightarrow> rpc_commitment \<Rightarrow> ('w, cli_output \<times> nat) rpc_io" where
  "run_command host c parsed commitment =
     (if pc_command parsed = ''discover'' then
        bindP (discover c (ch_locale_compare host)) (\<lambda>discovery. returnP (DiscoveryOutput discovery, 0))
      else if pc_command parsed = ''decode-transaction'' then
        bindP (liftP (requiredOption (pc_options parsed) ''signature'')) (\<lambda>signature.
        bindP (decodeTransactionEvidence c signature) (\<lambda>events. returnP (EventsOutput events, 0)))
      else operation_command host c parsed commitment)"

text \<open>\<open>main\<close>: the output, the exit code and the connection left, or the exception.\<close>

definition cli_main :: "'w cli_host \<Rightarrow> string list \<Rightarrow> 'w \<Rightarrow> ((cli_output \<times> nat) \<times> 'w rpc option) res" where
  "cli_main host argumentsList w =
     (if argumentsList = [] \<or> ''--help'' \<in> set argumentsList \<or> ''-h'' \<in> set argumentsList
      then Inr ((UsageOutput, 0), None)
      else
        bindR (parseCommandLine argumentsList) (\<lambda>parsed.
        bindR (requiredOption (pc_options parsed) ''rpc'') (\<lambda>rpcEndpoint.
        bindR (singleOption (pc_options parsed) ''commitment'') (\<lambda>commitmentText.
        bindR (parseCommitment (case commitmentText of Some text \<Rightarrow> text | None \<Rightarrow> ''confirmed'')) (\<lambda>commitment.
        bindR (ch_parse_url host rpcEndpoint) (\<lambda>url.
        bindR (newChanceryRpc url w) (\<lambda>connection.
          let c = \<lparr>cc_hash = ch_hash host, cc_schema = ch_schema host, cc_crypto = ch_crypto host,
                   cc_fetch = ch_fetch host, cc_commitment = commitment\<rparr> in
          bindR (run_command host c parsed commitment connection) (\<lambda>(result, connection').
            Inr (result, Some connection')))))))))"

definition exit_code :: "((cli_output \<times> nat) \<times> 'w rpc option) res \<Rightarrow> nat" where
  "exit_code result = (case result of Inl _ \<Rightarrow> 1 | Inr ((_, code), _) \<Rightarrow> code)"

end
