(* ===== verification/CommandLineSafety.thy ===== *)
theory CommandLineSafety
  imports CommandLine SubmissionSafety
begin

text \<open>
  What the command line promises: exactly the well-formed argument lists are read, each option with its values in their
  order, and a run prints what its command asked for, submitting nothing but a ready inspection of a settlement command.
\<close>

section \<open>Reading the arguments\<close>

text \<open>An option as it is written: its name and value in one token or in two.\<close>

datatype written_option = Joined string string | Spaced string string

fun written_tokens :: "written_option \<Rightarrow> string list" where
  "written_tokens (Joined name body_text) = [''--'' @ name @ ''='' @ body_text]"
| "written_tokens (Spaced name body_text) = [''--'' @ name, body_text]"

fun written_ok :: "written_option \<Rightarrow> bool" where
  "written_ok (Joined name body_text) \<longleftrightarrow> CHR ''='' \<notin> set name"
| "written_ok (Spaced name body_text) \<longleftrightarrow> name \<noteq> [] \<and> CHR ''='' \<notin> set name \<and> \<not> startsWith body_text ''--''"

fun written_name :: "written_option \<Rightarrow> string" where
  "written_name (Joined name body_text) = name"
| "written_name (Spaced name body_text) = name"

fun written_value :: "written_option \<Rightarrow> string" where
  "written_value (Joined name body_text) = body_text"
| "written_value (Spaced name body_text) = body_text"

definition add_written :: "cli_options \<Rightarrow> written_option \<Rightarrow> cli_options" where
  "add_written options written = add_option (written_name written) (written_value written) options"

lemma joined_split:
  assumes "CHR ''='' \<notin> set name"
  shows "takeWhile (\<lambda>c. c \<noteq> CHR ''='') (name @ ''='' @ body_text) = name"
    "dropWhile (\<lambda>c. c \<noteq> CHR ''='') (name @ ''='' @ body_text) = CHR ''='' # body_text"
  using assms by (induction name) auto

lemma parse_written:
  "list_all written_ok os \<Longrightarrow> parse_options (concat (map written_tokens os)) options = Inr (foldl add_written options os)"
proof (induction os arbitrary: options)
  case (Cons written os)
  then show ?case
  proof (cases written)
    case (Joined name body_text)
    have "startsWith (''--'' @ name @ ''='' @ body_text) ''--''" by (rule startsWith_append)
    with Cons Joined show ?thesis
      by (simp add: add_written_def joined_split [of name body_text, simplified])
  next
    case (Spaced name body_text)
    have "startsWith (''--'' @ name) ''--''" by (rule startsWith_append)
    with Cons Spaced show ?thesis by (simp add: add_written_def)
  qed
qed simp

lemma dropWhile_first: "c \<in> set s \<Longrightarrow> \<exists>rest. dropWhile (\<lambda>d. d \<noteq> c) s = c # rest"
  by (induction s) auto

text \<open>One step of the reader takes a written option off the front.\<close>

lemma read_one:
  assumes "parse_options (token # rest) options = Inr options'"
  shows "\<exists>w others. written_ok w \<and> token # rest = written_tokens w @ others
    \<and> parse_options others (add_written options w) = Inr options'"
proof -
  from assms have start: "startsWith token ''--''" "length token \<noteq> 2" by (auto split: if_splits)
  then obtain body where token: "token = ''--'' @ body" "body \<noteq> []" using startsWith_split [of token "''--''"] by fastforce
  show ?thesis
  proof (cases "CHR ''='' \<in> set body")
    case True
    let ?name = "takeWhile (\<lambda>c. c \<noteq> CHR ''='') body"
    obtain value0 where body: "dropWhile (\<lambda>c. c \<noteq> CHR ''='') body = CHR ''='' # value0"
      using dropWhile_first [OF True] by blast
    then have split: "body = ?name @ ''='' @ value0" using takeWhile_dropWhile_id [of "\<lambda>c. c \<noteq> CHR ''=''" body] by simp
    have "CHR ''='' \<notin> set ?name" by (auto dest: set_takeWhileD)
    moreover have "parse_options rest (add_option ?name value0 options) = Inr options'"
      using assms start True body token by simp
    ultimately show ?thesis
      using token(1) split by (intro exI [of _ "Joined ?name value0"] exI [of _ rest]) (simp add: add_written_def)
  next
    case False
    have "CHR ''='' \<notin> set token" using False token by auto
    with assms start obtain value0 others where "rest = value0 # others" "\<not> startsWith value0 ''--''"
        "parse_options others (add_option body value0 options) = Inr options'"
      using token by (auto split: list.splits if_splits)
    with token False show ?thesis
      by (intro exI [of _ "Spaced body value0"] exI [of _ others]) (simp add: add_written_def)
  qed
qed

lemma written_exists:
  "parse_options tokens options = Inr options' \<Longrightarrow>
   \<exists>os. list_all written_ok os \<and> tokens = concat (map written_tokens os) \<and> options' = foldl add_written options os"
proof (induction "length tokens" arbitrary: tokens options rule: less_induct)
  case less
  show ?case
  proof (cases tokens)
    case Nil
    with less.prems show ?thesis by (intro exI [of _ "[]"]) simp
  next
    case (Cons token rest)
    from read_one [OF less.prems [unfolded Cons]] obtain w others where w: "written_ok w" "tokens = written_tokens w @ others"
        "parse_options others (add_written options w) = Inr options'" unfolding Cons by blast
    have "length others < length tokens" using w(2) by (cases w) simp_all
    from less.hyps [OF this w(3)] obtain os where "list_all written_ok os" "others = concat (map written_tokens os)"
        "options' = foldl add_written (add_written options w) os" by blast
    with w show ?thesis by (intro exI [of _ "w # os"]) simp
  qed
qed

lemma repeated_added:
  "repeatedOption (add_option name body_text options) name' = repeatedOption options name' @ (if name = name' then [body_text] else [])"
  by (auto simp: repeatedOption_def add_option_def split: option.splits)

lemma repeated_written:
  "repeatedOption (foldl add_written options os) name
     = repeatedOption options name @ map written_value (filter (\<lambda>w. written_name w = name) os)"
  by (induction os arbitrary: options) (auto simp: add_written_def repeated_added)

lemma parseCommandLine_Inr:
  "parseCommandLine args = Inr p \<longleftrightarrow>
     pc_command p \<in> set COMMANDS \<and>
     (\<exists>os. list_all written_ok os \<and> args = pc_command p # concat (map written_tokens os) \<and> pc_options p = foldl add_written [] os)"
proof
  assume "parseCommandLine args = Inr p"
  then obtain options where "args = pc_command p # tl args" "pc_command p \<in> set COMMANDS"
      "parse_options (tl args) [] = Inr options" "pc_options p = options"
    by (auto simp: parseCommandLine_def split: list.splits if_splits)
  with written_exists show "pc_command p \<in> set COMMANDS \<and>
     (\<exists>os. list_all written_ok os \<and> args = pc_command p # concat (map written_tokens os) \<and> pc_options p = foldl add_written [] os)"
    by metis
next
  assume "pc_command p \<in> set COMMANDS \<and>
     (\<exists>os. list_all written_ok os \<and> args = pc_command p # concat (map written_tokens os) \<and> pc_options p = foldl add_written [] os)"
  then show "parseCommandLine args = Inr p"
    by (cases p) (auto simp: parseCommandLine_def parse_written)
qed

section \<open>What a run does\<close>

text \<open>The client of a run: the host's parts and the commitment of the command line.\<close>

definition client_of :: "'w cli_host \<Rightarrow> rpc_commitment \<Rightarrow> 'w client" where
  "client_of host commitment = \<lparr>cc_hash = ch_hash host, cc_schema = ch_schema host, cc_crypto = ch_crypto host,
     cc_fetch = ch_fetch host, cc_commitment = commitment\<rparr>"

definition command_action :: "parsed_command_line \<Rightarrow> string \<Rightarrow> bool" where
  "command_action p action \<longleftrightarrow>
     (pc_command p \<in> {''mint'', ''quote-mint''} \<longrightarrow> action = ''mint'')
     \<and> (pc_command p \<in> {''redeem'', ''quote-redeem''} \<longrightarrow> action = ''redeem'')
     \<and> (pc_command p = ''inspect'' \<longrightarrow> repeatedOption (pc_options p) ''action'' = [action])"

text \<open>
  What the options ask for. An option that may be given once has at most one value; an amount is written in decimal digits.
  Every field of the request and of the transaction is the option of its name, and nothing where there is no such option.
\<close>

definition option_text :: "cli_options \<Rightarrow> string \<Rightarrow> string option \<Rightarrow> bool" where
  "option_text options name given \<longleftrightarrow> repeatedOption options name = (case given of None \<Rightarrow> [] | Some s \<Rightarrow> [s])"

definition option_amount :: "cli_options \<Rightarrow> string \<Rightarrow> int option \<Rightarrow> bool" where
  "option_amount options name given \<longleftrightarrow>
     (case given of
        None \<Rightarrow> repeatedOption options name = []
      | Some n \<Rightarrow> (\<exists>s. repeatedOption options name = [s] \<and> is_decimal s \<and> n = int (parse_decimal s)))"

definition option_key :: "cli_options \<Rightarrow> string \<Rightarrow> key_input option \<Rightarrow> bool" where
  "option_key options name given \<longleftrightarrow> (\<exists>written. option_text options name written \<and> given = map_option KeyText written)"

definition option_or :: "cli_options \<Rightarrow> string \<Rightarrow> string \<Rightarrow> string \<Rightarrow> bool" where
  "option_or options name fallback given \<longleftrightarrow>
     (\<exists>written. option_text options name written \<and> given = (case written of Some s \<Rightarrow> s | None \<Rightarrow> fallback))"

definition request_of_options :: "parsed_command_line \<Rightarrow> operation_request \<Rightarrow> bool" where
  "request_of_options p request \<longleftrightarrow>
     (let options = pc_options p in
      command_action p (rq_action request) \<and> rq_action request \<in> {''mint'', ''redeem''}
      \<and> option_or options ''mode'' ''direct'' (rq_mode request) \<and> rq_mode request \<in> {''direct'', ''delegated'', ''trilateral''}
      \<and> repeatedOption options ''asset-mint'' = [rq_asset_mint request]
      \<and> repeatedOption options ''principal'' = [rq_principal request]
      \<and> option_amount options ''amount'' (rq_amount request)
      \<and> option_amount options ''minimum-output'' (rq_minimum_output request)
      \<and> option_amount options ''now-unix-timestamp'' (rq_now request)
      \<and> option_key options ''pathway-id'' (rq_pathway_id request)
      \<and> option_key options ''intent-id'' (rq_intent_id request)
      \<and> option_text options ''executor'' (rq_executor request)
      \<and> option_text options ''principal-b'' (rq_principal_b request)
      \<and> option_text options ''source-token-account'' (rq_source request)
      \<and> option_text options ''destination-token-account'' (rq_destination request)
      \<and> option_text options ''fee-recipient-token-account'' (rq_fee_recipient request)
      \<and> option_text options ''rent-refund-recipient'' (rq_rent_refund request))"

definition transaction_of_options ::
  "'w cli_host \<Rightarrow> cli_options \<Rightarrow> rpc_commitment \<Rightarrow> transaction_request \<Rightarrow> bool" where
  "transaction_of_options host options commitment transaction \<longleftrightarrow>
     tr_keypairs transaction \<noteq> []
     \<and> list_all2 (\<lambda>path keypair. \<exists>parsed. ch_read_json host path = Inr parsed
           \<and> keypairFromJson (ch_crypto host) parsed = Inr keypair)
         (repeatedOption options ''signer'') (tr_keypairs transaction)
     \<and> option_or options ''fee-payer'' (kp_public_key (hd (tr_keypairs transaction))) (tr_fee_payer transaction)
     \<and> tr_tables transaction =
         (case repeatedOption options ''lookup-table'' of [] \<Rightarrow> None | table # tables \<Rightarrow> Some (table # tables))
     \<and> tr_commitment transaction = Some commitment"

definition commitment_of_options :: "cli_options \<Rightarrow> rpc_commitment \<Rightarrow> bool" where
  "commitment_of_options options commitment \<longleftrightarrow>
     option_or options ''commitment'' ''confirmed''
       (case commitment of Processed \<Rightarrow> ''processed'' | Confirmed \<Rightarrow> ''confirmed'' | Finalized \<Rightarrow> ''finalized'')"

text \<open>
  The output of a settlement command stands for one inspection, of the request its options ask for; it is simulated or
  submitted, with the signers, the fee payer, the lookup tables and the commitment of its options, only when it is ready
  and the command says so.
\<close>

definition settlement_output :: "'w cli_host \<Rightarrow> parsed_command_line \<Rightarrow> 'w client \<Rightarrow> 'w rpc \<Rightarrow> cli_output \<Rightarrow> nat \<Rightarrow> 'w rpc \<Rightarrow> bool" where
  "settlement_output host p c st output code st' \<longleftrightarrow>
     (\<exists>request insp st1. request_of_options p request \<and> inspect c request st = Inr (insp, st1)
        \<and> (case output of
             InspectionOutput shown \<Rightarrow> shown = insp \<and> st' = st1 \<and> code = (if in_ready insp then 0 else 2)
               \<and> (in_ready insp \<longrightarrow> pc_command p = ''inspect'')
           | SimulationOutput quoted \<Rightarrow> in_ready insp \<and> pc_command p \<in> {''quote-mint'', ''quote-redeem''}
               \<and> (\<exists>transaction. transaction_of_options host (pc_options p) (cc_commitment c) transaction
                    \<and> simulateTransaction c insp transaction st1 = Inr (quoted, st'))
               \<and> code = (if sr_err (snd quoted) = JNull then 0 else 3)
           | SubmissionOutput submitted \<Rightarrow> in_ready insp \<and> pc_command p \<in> {''mint'', ''redeem''} \<and> code = 0
               \<and> (\<exists>transaction. transaction_of_options host (pc_options p) (cc_commitment c) transaction
                    \<and> submitTransaction c insp transaction st1 = Inr (submitted, st'))
           | _ \<Rightarrow> False))"

lemma singleOption_text: "singleOption options name = Inr given \<Longrightarrow> option_text options name given"
  by (auto simp: singleOption_def option_text_def repeatedOption_def split: option.splits list.splits)

lemma requiredOption_Inr: "requiredOption options name = Inr s \<Longrightarrow> repeatedOption options name = [s]"
  using singleOption_text [of options name "Some s"]
  by (auto simp: requiredOption_def option_text_def split: option.splits if_splits)

lemma assignBigIntegerOption_amount:
  assumes "assignBigIntegerOption options name = Inr given"
  shows "option_amount options name given"
proof -
  from assms obtain written where written: "singleOption options name = Inr written"
      "(case written of None \<Rightarrow> Inr None
        | Some s \<Rightarrow> if \<not> is_decimal s then throw ''option must be an unsigned decimal integer''
                    else Inr (Some (int (parse_decimal s)))) = Inr given"
    unfolding assignBigIntegerOption_def bindR_eq_Inr by blast
  with singleOption_text [OF written(1)] show ?thesis
    by (cases written) (auto simp: option_amount_def option_text_def split: if_splits)
qed

lemma assignStringOption_text: "assignStringOption options name = Inr given \<Longrightarrow> option_text options name given"
  by (simp add: assignStringOption_def singleOption_text)

lemma option_key_text: "option_text options name given \<Longrightarrow> option_key options name (map_option KeyText given)"
  unfolding option_key_def by blast

lemma commandAction_Inr:
  "commandAction (pc_command p) (pc_options p) = Inr action \<Longrightarrow> command_action p action \<and> action \<in> {''mint'', ''redeem''}"
  by (auto simp: commandAction_def command_action_def dest: requiredOption_Inr split: if_splits)

lemma buildOperationRequest_Inr:
  assumes "commandAction (pc_command p) (pc_options p) = Inr action" "singleOption (pc_options p) ''mode'' = Inr written"
    "parseMode (case written of Some s \<Rightarrow> s | None \<Rightarrow> ''direct'') = Inr mode"
    "buildOperationRequest (pc_options p) action mode = Inr request"
  shows "request_of_options p request"
proof -
  let ?o = "pc_options p"
  have mode: "option_or ?o ''mode'' ''direct'' mode" "mode \<in> {''direct'', ''delegated'', ''trilateral''}"
    using singleOption_text [OF assms(2)] assms(3) by (auto simp: option_or_def parseMode_def split: if_splits)
  from assms(4) obtain assetMint principalKey amount minimum now pathway intent executor principalB source destination
      feeRecipient rentRefund where
      required: "requiredOption ?o ''asset-mint'' = Inr assetMint" "requiredOption ?o ''principal'' = Inr principalKey"
    and amounts: "assignBigIntegerOption ?o ''amount'' = Inr amount" "assignBigIntegerOption ?o ''minimum-output'' = Inr minimum"
      "assignBigIntegerOption ?o ''now-unix-timestamp'' = Inr now"
    and texts: "assignStringOption ?o ''pathway-id'' = Inr pathway" "assignStringOption ?o ''intent-id'' = Inr intent"
      "assignStringOption ?o ''executor'' = Inr executor" "assignStringOption ?o ''principal-b'' = Inr principalB"
      "assignStringOption ?o ''source-token-account'' = Inr source"
      "assignStringOption ?o ''destination-token-account'' = Inr destination"
      "assignStringOption ?o ''fee-recipient-token-account'' = Inr feeRecipient"
      "assignStringOption ?o ''rent-refund-recipient'' = Inr rentRefund"
    and request: "request = \<lparr>rq_action = action, rq_mode = mode, rq_asset_mint = assetMint, rq_principal = principalKey,
        rq_amount = amount, rq_minimum_output = minimum, rq_pathway_id = map_option KeyText pathway,
        rq_intent_id = map_option KeyText intent, rq_executor = executor, rq_principal_b = principalB,
        rq_source = source, rq_destination = destination, rq_fee_recipient = feeRecipient,
        rq_rent_refund = rentRefund, rq_now = now\<rparr>"
    unfolding buildOperationRequest_def bindR_eq_Inr by (elim exE conjE) simp
  show ?thesis
    unfolding request_of_options_def Let_def request operation_request.select_convs
    using commandAction_Inr [OF assms(1)] mode required [THEN requiredOption_Inr]
      amounts [THEN assignBigIntegerOption_amount] texts [THEN assignStringOption_text] option_key_text
    by blast
qed

lemma buildTransactionRequest_Inr:
  assumes "buildTransactionRequest host options commitment = Inr transaction"
  shows "transaction_of_options host options commitment transaction"
proof -
  from assms obtain keypairs where loaded: "mapR (loadSolanaKeypairFile host) (repeatedOption options ''signer'') = Inr keypairs"
    by (auto simp: buildTransactionRequest_def Let_def split: if_splits)
  with assms obtain keypair others where keypairs: "keypairs = keypair # others"
    by (cases keypairs) (auto simp: buildTransactionRequest_def Let_def split: if_splits)
  with assms loaded obtain payer where payer: "singleOption options ''fee-payer'' = Inr payer"
      "transaction = \<lparr>tr_fee_payer = (case payer of Some key \<Rightarrow> key | None \<Rightarrow> kp_public_key keypair), tr_keypairs = keypairs,
         tr_tables = (if repeatedOption options ''lookup-table'' = [] then None else Some (repeatedOption options ''lookup-table'')),
         tr_commitment = Some commitment\<rparr>"
    by (auto simp: buildTransactionRequest_def Let_def simp del: if_split split: if_split_asm)
  have "list_all2 (\<lambda>path keypair. \<exists>parsed. ch_read_json host path = Inr parsed \<and> keypairFromJson (ch_crypto host) parsed = Inr keypair)
      (repeatedOption options ''signer'') keypairs"
    using loaded unfolding mapR_eq_Inr_iff by (rule list_all2_mono) (auto simp: loadSolanaKeypairFile_def)
  with payer(2) keypairs singleOption_text [OF payer(1)] show ?thesis
    by (auto simp: transaction_of_options_def option_or_def split: list.splits)
qed

lemma operation_command_output:
  assumes "operation_command host c p commitment st = Inr ((output, code), st')" "pc_command p \<in> set COMMANDS"
    "pc_command p \<notin> {''discover'', ''decode-transaction''}" "cc_commitment c = commitment"
  shows "settlement_output host p c st output code st'"
proof -
  let ?o = "pc_options p"
  from assms(1) obtain action written mode request insp st1 where parts: "commandAction (pc_command p) ?o = Inr action"
      "singleOption ?o ''mode'' = Inr written" "parseMode (case written of Some s \<Rightarrow> s | None \<Rightarrow> ''direct'') = Inr mode"
      "buildOperationRequest ?o action mode = Inr request" and inspected: "inspect c request st = Inr (insp, st1)"
    and rest: "(if pc_command p = ''inspect'' then returnP (InspectionOutput insp, if in_ready insp then 0 else 2)
        else if \<not> in_ready insp then returnP (InspectionOutput insp, 2)
        else
          bindP (liftP (buildTransactionRequest host ?o commitment)) (\<lambda>transactionRequest.
            if pc_command p = ''quote-mint'' \<or> pc_command p = ''quote-redeem'' then
              bindP (simulateTransaction c insp transactionRequest) (\<lambda>quoted.
                returnP (SimulationOutput quoted, if sr_err (snd quoted) \<noteq> JNull then 3 else 0))
            else
              bindP (submitTransaction c insp transactionRequest) (\<lambda>submitted.
                returnP (SubmissionOutput submitted, 0)))) st1 = Inr ((output, code), st')"
    unfolding operation_command_def Let_def bindP_Inr liftP_Inr by auto
  note request = buildOperationRequest_Inr [OF parts]
  show ?thesis
  proof (cases "pc_command p = ''inspect'' \<or> \<not> in_ready insp")
    case True
    with rest request inspected show ?thesis
      unfolding settlement_output_def
      by (intro exI [of _ request] exI [of _ insp] exI [of _ st1]) (auto simp: returnP_Inr split: if_splits)
  next
    case False
    with rest obtain transaction where transaction: "buildTransactionRequest host ?o commitment = Inr transaction"
      and ran: "(if pc_command p = ''quote-mint'' \<or> pc_command p = ''quote-redeem'' then
            bindP (simulateTransaction c insp transaction) (\<lambda>quoted.
              returnP (SimulationOutput quoted, if sr_err (snd quoted) \<noteq> JNull then 3 else 0))
          else
            bindP (submitTransaction c insp transaction) (\<lambda>submitted.
              returnP (SubmissionOutput submitted, 0))) st1 = Inr ((output, code), st')"
      by (auto simp: bindP_Inr liftP_Inr)
    note built = buildTransactionRequest_Inr [OF transaction, folded assms(4)]
    have "pc_command p \<in> {''mint'', ''redeem'', ''quote-mint'', ''quote-redeem''}"
      using assms(2,3) False by (auto simp: COMMANDS_def)
    then show ?thesis
      using ran False built request inspected unfolding settlement_output_def
      by (intro exI [of _ request] exI [of _ insp] exI [of _ st1])
        (auto simp: bindP_Inr returnP_Inr split: if_splits)
  qed
qed

text \<open>The whole run: over the connection to the endpoint of the options, with their commitment.\<close>

definition run_output :: "'w cli_host \<Rightarrow> string list \<Rightarrow> 'w \<Rightarrow> cli_output \<Rightarrow> nat \<Rightarrow> 'w rpc option \<Rightarrow> bool" where
  "run_output host args w output code connection \<longleftrightarrow>
     (if args = [] \<or> ''--help'' \<in> set args \<or> ''-h'' \<in> set args
      then output = UsageOutput \<and> code = 0 \<and> connection = None
      else
        (\<exists>p commitment endpoint url st st'. parseCommandLine args = Inr p \<and> connection = Some st' \<and> rpc_world st = w
          \<and> repeatedOption (pc_options p) ''rpc'' = [endpoint] \<and> ch_parse_url host endpoint = Inr url
          \<and> newChanceryRpc url w = Inr st \<and> commitment_of_options (pc_options p) commitment
          \<and> (if pc_command p = ''discover'' then
               code = 0 \<and> (\<exists>d. output = DiscoveryOutput d \<and>
                 discover (client_of host commitment) (ch_locale_compare host) st = Inr (d, st'))
             else if pc_command p = ''decode-transaction'' then
               code = 0 \<and> (\<exists>signature events. output = EventsOutput events \<and>
                 repeatedOption (pc_options p) ''signature'' = [signature] \<and>
                 decodeTransactionEvidence (client_of host commitment) signature st = Inr (events, st'))
             else settlement_output host p (client_of host commitment) st output code st')))"

lemma parseCommitment_named:
  "parseCommitment s = Inr commitment \<Longrightarrow>
   s = (case commitment of Processed \<Rightarrow> ''processed'' | Confirmed \<Rightarrow> ''confirmed'' | Finalized \<Rightarrow> ''finalized'')"
  by (auto simp: parseCommitment_def split: if_splits)

lemma cli_main_output:
  assumes "cli_main host args w = Inr ((output, code), connection)"
  shows "run_output host args w output code connection"
proof (cases "args = [] \<or> ''--help'' \<in> set args \<or> ''-h'' \<in> set args")
  case True
  with assms show ?thesis by (simp add: cli_main_def run_output_def)
next
  case False
  with assms obtain p endpoint written commitment url st st' where parts: "parseCommandLine args = Inr p"
      "requiredOption (pc_options p) ''rpc'' = Inr endpoint" "singleOption (pc_options p) ''commitment'' = Inr written"
      "parseCommitment (case written of Some s \<Rightarrow> s | None \<Rightarrow> ''confirmed'') = Inr commitment"
      "ch_parse_url host endpoint = Inr url" "newChanceryRpc url w = Inr st"
      "run_command host (client_of host commitment) p commitment st = Inr ((output, code), st')" "connection = Some st'"
    by (auto simp: cli_main_def client_of_def Let_def)
  have w: "rpc_world st = w" using parts(6) by (auto simp: newChanceryRpc_def split: if_splits)
  have command: "pc_command p \<in> set COMMANDS" using parts(1) by (simp add: parseCommandLine_Inr)
  have settlement: "settlement_output host p (client_of host commitment) st output code st'"
    if "operation_command host (client_of host commitment) p commitment st = Inr ((output, code), st')"
      "pc_command p \<noteq> ''discover''" "pc_command p \<noteq> ''decode-transaction''"
    using operation_command_output [OF that(1) command] that by (simp add: client_of_def)
  have named: "commitment_of_options (pc_options p) commitment"
    unfolding commitment_of_options_def option_or_def parseCommitment_named [OF parts(4), symmetric]
    using singleOption_text [OF parts(3)] by blast
  have "if pc_command p = ''discover'' then
               code = 0 \<and> (\<exists>d. output = DiscoveryOutput d \<and>
                 discover (client_of host commitment) (ch_locale_compare host) st = Inr (d, st'))
             else if pc_command p = ''decode-transaction'' then
               code = 0 \<and> (\<exists>signature events. output = EventsOutput events \<and>
                 repeatedOption (pc_options p) ''signature'' = [signature] \<and>
                 decodeTransactionEvidence (client_of host commitment) signature st = Inr (events, st'))
             else settlement_output host p (client_of host commitment) st output code st'"
    using parts(7) settlement
    by (auto simp: run_command_def bindP_Inr liftP_Inr returnP_Inr dest: requiredOption_Inr split: if_splits)
  with parts(1,5,6,8) requiredOption_Inr [OF parts(2)] w named False show ?thesis unfolding run_output_def by auto
qed

end
