(* ===== verification/SampleCommand.thy ===== *)
theory SampleCommand
  imports SampleRun CommandLineSafety
begin

text \<open>A command line that mints: the direct mint of \<open>SampleRun\<close>, asked for with its options, signed and submitted.\<close>

definition sample_host :: "unit cli_host" where
  "sample_host = \<lparr>ch_parse_url = (\<lambda>s. Inr \<lparr>url_protocol = ''https:'', url_href = s\<rparr>),
     ch_read_json = (\<lambda>path. Inr (JArr (map JNum (replicate 31 0 @ [1])))), ch_locale_compare = compareCodeUnits,
     ch_hash = server_hash, ch_schema = server_schema, ch_crypto = sample_crypto, ch_fetch = server\<rparr>"

definition mint_options :: "written_option list" where
  "mint_options =
     [Joined ''rpc'' ''https://rpc'', Spaced ''asset-mint'' (sample_key 5), Spaced ''principal'' (sample_key 1),
      Joined ''amount'' ''1000'', Spaced ''source-token-account'' (sample_key 11),
      Spaced ''destination-token-account'' (sample_key 12), Spaced ''signer'' ''keypair.json'']"

definition mint_line :: "string list" where
  "mint_line = ''mint'' # concat (map written_tokens mint_options)"

definition mint_parsed :: parsed_command_line where
  "mint_parsed = \<lparr>pc_command = ''mint'', pc_options =
     [(''rpc'', [''https://rpc'']), (''asset-mint'', [sample_key 5]), (''principal'', [sample_key 1]), (''amount'', [''1000'']),
      (''source-token-account'', [sample_key 11]), (''destination-token-account'', [sample_key 12]),
      (''signer'', [''keypair.json''])]\<rparr>"

lemma key_text: "is_key s \<Longrightarrow> \<not> startsWith s ''-''"
proof
  assume "is_key s" "startsWith s ''-''"
  then obtain bs rest where "decodePublicKey (KeyText s) = Inr bs" "s = ''-'' @ rest"
    using startsWith_split [of s "''-''"] by (metis is_keyE)
  then show False
    by (auto simp: decodePublicKey_def decodeBase58_def base58_index_def BASE58_ALPHABET_def)
qed

lemma key_not_option: "is_key s \<Longrightarrow> \<not> startsWith s ''--''"
  using key_text [of s] by (cases s) (auto simp: startsWith_def)

lemma key_not_empty: "is_key s \<Longrightarrow> s \<noteq> []"
  by (auto elim!: is_keyE simp: decodePublicKey_def decodeBase58_def)

lemma not_flag:
  "is_key s \<Longrightarrow> s \<noteq> ''--help'' \<and> ''--help'' \<noteq> s \<and> s \<noteq> ''-h'' \<and> ''-h'' \<noteq> s \<and> s \<noteq> []"
  using key_text [of s] key_not_empty [of s] by (auto simp: startsWith_def)

lemmas sample_key_not_flag = not_flag [OF sample_key_is_key]

lemma mint_line_parsed: "parseCommandLine mint_line = Inr mint_parsed"
proof -
  have ok: "list_all written_ok mint_options"
    by (simp add: mint_options_def key_not_option sample_key_is_key) (simp add: startsWith_def)
  have "pc_options mint_parsed = foldl add_written [] mint_options"
    by (simp add: mint_parsed_def mint_options_def add_written_def add_option_def)
  with ok show ?thesis
    unfolding parseCommandLine_Inr by (auto simp: mint_line_def mint_parsed_def COMMANDS_def)
qed

lemma mint_request_built:
  "buildOperationRequest (pc_options mint_parsed) ''mint'' ''direct'' = Inr mint_request"
  by (simp add: buildOperationRequest_def mint_parsed_def requiredOption_def singleOption_def assignBigIntegerOption_def
      assignStringOption_def mint_request_def is_decimal_def is_digit_def parse_decimal_def digit_val_def
      sample_key_not_flag)

lemma sample_keypair_loaded: "loadSolanaKeypairFile sample_host ''keypair.json'' = Inr sample_keypair"
proof -
  have "mapR byteFromNumber (map JNum (replicate 31 0 @ [1])) = Inr (replicate 31 0 @ [1])"
    by (simp add: numeral_eq_Suc)
  then show ?thesis
    using sample_key_encoded [of 1]
    by (simp add: loadSolanaKeypairFile_def sample_host_def keypairFromJson_def keypairFromSecretKeyBytes_def Let_def
        sample_keypair_def privateKeyFromSeed_def ED25519_PKCS8_PREFIX_def publicKeyBytesFromPrivateKey_def sample_crypto_def)
qed

lemma mint_transaction_built:
  "buildTransactionRequest sample_host (pc_options mint_parsed) Confirmed = Inr sample_transaction_request"
  by (simp add: buildTransactionRequest_def mint_parsed_def repeatedOption_def singleOption_def sample_keypair_loaded
      sample_transaction_request_def sample_keypair_def)

lemma mint_run: "\<exists>submitted st. cli_main sample_host mint_line () = Inr ((SubmissionOutput submitted, 0), Some st)"
proof -
  obtain insp st sub st' where run: "inspect server_client mint_request sample_connection = Inr (insp, st)" "in_ready insp"
      "submitTransaction server_client insp sample_transaction_request st = Inr (sub, st')"
    using sample_inspected by blast
  have connection: "newChanceryRpc \<lparr>url_protocol = ''https:'', url_href = ''https://rpc''\<rparr> () = Inr sample_connection"
    by (simp add: newChanceryRpc_def sample_connection_def)
  have client: "\<lparr>cc_hash = server_hash, cc_schema = server_schema, cc_crypto = sample_crypto, cc_fetch = server,
      cc_commitment = Confirmed\<rparr> = server_client"
    by (simp add: server_client_def)
  have "operation_command sample_host server_client mint_parsed Confirmed sample_connection = Inr ((SubmissionOutput sub, 0), st')"
    using run mint_request_built mint_transaction_built
    by (simp add: operation_command_def Let_def bindP_Inr liftP_Inr returnP_Inr commandAction_def parseMode_def
        singleOption_def mint_parsed_def)
  then have "run_command sample_host server_client mint_parsed Confirmed sample_connection = Inr ((SubmissionOutput sub, 0), st')"
    by (simp add: run_command_def mint_parsed_def)
  moreover have "mint_line \<noteq> []" "''--help'' \<notin> set mint_line" "''-h'' \<notin> set mint_line"
    by (simp_all add: mint_line_def mint_options_def sample_key_not_flag)
  ultimately show ?thesis
    by (simp add: cli_main_def mint_line_parsed mint_parsed_def requiredOption_def singleOption_def parseCommitment_def
        sample_host_def connection client)
qed

end
