(* ===== verification/DevnetInstructions.thy ===== *)
theory DevnetInstructions
  imports ChanceryClient
begin

text \<open>
  The instructions of the devnet tooling (\<open>integration/devnet\<close>, the directories \<open>configuration\<close>, \<open>controller\<close> and
  \<open>instructions\<close>): the public faucet program also controls the test deployment, so an instruction of the protocol that
  needs an authority's signature is wrapped into one of the faucet program, which signs for the authorities it controls.
\<close>

section \<open>The deployment\<close>

record test_asset =
  ta_symbol :: string
  ta_asset_mint :: string
  ta_token_program :: string

definition DEVNET_RPC_URL :: string where
  "DEVNET_RPC_URL = ''https://api.devnet.solana.com''"

definition DEVNET_GENESIS_HASH :: string where
  "DEVNET_GENESIS_HASH = ''EtWTRABZaYq6iMfeYKouRu166VU2xqa1wcaWoxPkrZBG''"

definition FAUCET_PROGRAM_ADDRESS :: string where
  "FAUCET_PROGRAM_ADDRESS = ''5Hk5sfd1LzMZP5bcEceep1bqnQvBwxBUXxqPAVkWNr5t''"

definition ISSUED_TOKEN_MINT :: string where
  "ISSUED_TOKEN_MINT = ''Wdek6QzQzHoT822HLPUHWowYrRHUcX4w5CRfRYQ5fh2''"

definition TEST_ASSETS :: "test_asset list" where
  "TEST_ASSETS =
     [\<lparr>ta_symbol = ''USDC'', ta_asset_mint = ''BJQqgRMVL4skTdZrG84Jr9SVeRf3kDmrwxGprsxKXpWi'',
       ta_token_program = SPL_TOKEN_PROGRAM_ADDRESS\<rparr>,
      \<lparr>ta_symbol = ''USDT'', ta_asset_mint = ''5UwxHbseoNMBPWhJF7b8L3W62HNqfvQMeqwSVb9DCX3J'',
       ta_token_program = SPL_TOKEN_PROGRAM_ADDRESS\<rparr>,
      \<lparr>ta_symbol = ''USDG'', ta_asset_mint = ''Gudt7yXy3F2pijueq4HTD4SFNjTpcM1Uvj1iqgw7LA5E'',
       ta_token_program = TOKEN_2022_PROGRAM_ADDRESS\<rparr>,
      \<lparr>ta_symbol = ''PYUSD'', ta_asset_mint = ''HHfaFx4QHomyZv75s2bVbnuGWAufAxfC1a8JAzozH3yk'',
       ta_token_program = TOKEN_2022_PROGRAM_ADDRESS\<rparr>]"

text \<open>The value of \<open>process.env.CHANCERY_TARGET\<close> is an argument.\<close>

definition requireDevnetTarget :: "chancery_schema \<Rightarrow> string option \<Rightarrow> unit res" where
  "requireDevnetTarget S target =
     (if target \<noteq> Some ''devnet'' \<or> program_address (schema_program S) \<noteq> CHANCERY_DEVNET_PROGRAM_ADDRESS
      then throw ''Devnet tooling requires CHANCERY_TARGET=devnet before the process starts'' else Inr ())"

definition testAssetForSymbol :: "string \<Rightarrow> test_asset res" where
  "testAssetForSymbol symbol =
     (case List.find (\<lambda>a. ta_symbol a = symbol) TEST_ASSETS of
        None \<Rightarrow> throw ''--symbol must be USDC, USDT, USDG, or PYUSD'' | Some asset \<Rightarrow> Inr asset)"

definition CONTROLLER_ROLES :: "nat list" where
  "CONTROLLER_ROLES = [0, 1, 2, 3, 4]"

definition controllerAuthority :: "(bytes \<Rightarrow> bytes) \<Rightarrow> nat \<Rightarrow> string res" where
  "controllerAuthority H role =
     bindR (findProgramAddress H [utf8_encode ''chancery-authority'', [word_of_nat role]] (KeyText FAUCET_PROGRAM_ADDRESS))
       (\<lambda>result. Inr (pda_address result))"

definition faucetAuthority :: "(bytes \<Rightarrow> bytes) \<Rightarrow> string res" where
  "faucetAuthority H =
     bindR (findProgramAddress H [utf8_encode ''faucet-authority''] (KeyText FAUCET_PROGRAM_ADDRESS))
       (\<lambda>result. Inr (pda_address result))"

section \<open>The instructions\<close>

definition createAssociatedTokenAccountInstruction ::
  "(bytes \<Rightarrow> bytes) \<Rightarrow> chancery_schema \<Rightarrow> string \<Rightarrow> string \<Rightarrow> string \<Rightarrow> string \<Rightarrow> solana_instruction res" where
  "createAssociatedTokenAccountInstruction H S payer owner mint tokenProgramAddress =
     bindR (assertSupportedTokenProgram (KeyText tokenProgramAddress)) (\<lambda>tokenProgram.
     bindR (normalizePublicKey (KeyText payer)) (\<lambda>payerKey.
     bindR (deriveAssociatedTokenAddress H (KeyText owner) (KeyText mint) (KeyText tokenProgram)) (\<lambda>token.
     bindR (normalizePublicKey (KeyText owner)) (\<lambda>ownerKey.
     bindR (normalizePublicKey (KeyText mint)) (\<lambda>mintKey.
       Inr \<lparr>si_program = ASSOCIATED_TOKEN_PROGRAM_ADDRESS,
            si_accounts =
              [\<lparr>sm_address = payerKey, sm_signer = True, sm_writable = True\<rparr>,
               \<lparr>sm_address = pda_address token, sm_signer = False, sm_writable = True\<rparr>,
               \<lparr>sm_address = ownerKey, sm_signer = False, sm_writable = False\<rparr>,
               \<lparr>sm_address = mintKey, sm_signer = False, sm_writable = False\<rparr>,
               \<lparr>sm_address = system_program (schema_wire S), sm_signer = False, sm_writable = False\<rparr>,
               \<lparr>sm_address = tokenProgram, sm_signer = False, sm_writable = False\<rparr>],
            si_data = [1]\<rparr>)))))"

definition mintTestAssetInstruction ::
  "(bytes \<Rightarrow> bytes) \<Rightarrow> chancery_schema \<Rightarrow> string \<Rightarrow> string \<Rightarrow> string \<Rightarrow> int \<Rightarrow> nat \<Rightarrow> solana_instruction res" where
  "mintTestAssetInstruction H S mint destination tokenProgramAddress amount decimals =
     (if 15 < decimals then throw ''Faucet mint decimals must be between 0 and 15''
      else if amount \<le> 0 \<or> 10000 * 10 ^ decimals < amount
      then throw ''Faucet amount must be positive and at most 10,000 whole tokens''
      else
        bindR (normalizePublicKey (KeyText mint)) (\<lambda>mintKey.
        bindR (normalizePublicKey (KeyText destination)) (\<lambda>destinationKey.
        bindR (faucetAuthority H) (\<lambda>authority.
        bindR (assertSupportedTokenProgram (KeyText tokenProgramAddress)) (\<lambda>tokenProgram.
        bindR (encodeType S (Prim U64) (JBig amount)) (\<lambda>amountBytes.
          Inr \<lparr>si_program = FAUCET_PROGRAM_ADDRESS,
               si_accounts =
                 [\<lparr>sm_address = mintKey, sm_signer = False, sm_writable = True\<rparr>,
                  \<lparr>sm_address = destinationKey, sm_signer = False, sm_writable = True\<rparr>,
                  \<lparr>sm_address = authority, sm_signer = False, sm_writable = False\<rparr>,
                  \<lparr>sm_address = tokenProgram, sm_signer = False, sm_writable = False\<rparr>],
               si_data = 0 # amountBytes\<rparr>))))))"

text \<open>The loop over the roles: the mask of the authorities that sign, and their addresses.\<close>

definition relay_role ::
  "(bytes \<Rightarrow> bytes) \<Rightarrow> solana_instruction \<Rightarrow> nat \<Rightarrow> nat \<times> string list \<Rightarrow> (nat \<times> string list) res" where
  "relay_role H instruction role acc =
     (case acc of (roleMask, authorities) \<Rightarrow>
        bindR (controllerAuthority H role) (\<lambda>authority.
          Inr (if list_ex (\<lambda>account. sm_signer account \<and> sm_address account = authority) (si_accounts instruction)
               then (or roleMask (push_bit role 1), authorities @ [authority]) else (roleMask, authorities))))"

definition relay_account :: "string \<Rightarrow> string list \<Rightarrow> solana_account_meta \<Rightarrow> solana_account_meta res" where
  "relay_account normalizedCaller authorities account =
     (if sm_signer account \<and> sm_address account \<notin> set authorities \<and> sm_address account \<noteq> normalizedCaller
      then throw ''Additional signer required''
      else Inr (account\<lparr>sm_signer := (sm_signer account \<and> sm_address account \<notin> set authorities)\<rparr>))"

definition executeChanceryInstruction ::
  "(bytes \<Rightarrow> bytes) \<Rightarrow> string \<Rightarrow> solana_instruction \<Rightarrow> solana_instruction res" where
  "executeChanceryInstruction H caller instruction =
     (if si_program instruction \<noteq> CHANCERY_DEVNET_PROGRAM_ADDRESS \<or> length (si_data instruction) < 2
      then throw ''Controller instructions must target the configured devnet Chancery program''
      else
        bindR (normalizePublicKey (KeyText caller)) (\<lambda>normalizedCaller.
        bindR (foldR (relay_role H instruction) CONTROLLER_ROLES (0, [])) (\<lambda>(roleMask, authorities).
          if roleMask = 0 then throw ''Chancery administration requires at least one controller authority signer''
          else
            bindR (mapR (relay_account normalizedCaller authorities) (si_accounts instruction)) (\<lambda>accounts.
              Inr \<lparr>si_program = FAUCET_PROGRAM_ADDRESS,
                   si_accounts =
                     [\<lparr>sm_address = normalizedCaller, sm_signer = True, sm_writable = False\<rparr>,
                      \<lparr>sm_address = si_program instruction, sm_signer = False, sm_writable = False\<rparr>] @ accounts,
                   si_data = [1, word_of_nat roleMask] @ si_data instruction\<rparr>))))"

definition scheduleConfigChangeInstruction ::
  "(bytes \<Rightarrow> bytes) \<Rightarrow> chancery_schema \<Rightarrow> string \<Rightarrow> solana_instruction \<Rightarrow> int \<Rightarrow> int \<Rightarrow> solana_instruction res" where
  "scheduleConfigChangeInstruction H S caller proposal delaySeconds lifetimeSeconds =
     bindR (executeChanceryInstruction H caller proposal) (\<lambda>wrapped.
       if si_data wrapped ! 1 \<noteq> 1 \<or> si_data proposal ! 0 \<noteq> 9 \<or> si_data proposal ! 1 \<noteq> 7
       then throw ''Scheduling requires a governance config-change proposal''
       else if delaySeconds < 1 \<or> lifetimeSeconds \<le> 0 then throw ''Config-change delay and lifetime must be positive''
       else
         bindR (encodeType S (Prim I64) (JBig delaySeconds)) (\<lambda>_.
         bindR (encodeType S (Prim I64) (JBig lifetimeSeconds)) (\<lambda>_.
         bindR (encodeType S (Prim U64) (JBig delaySeconds)) (\<lambda>delayBytes.
         bindR (encodeType S (Prim U64) (JBig lifetimeSeconds)) (\<lambda>lifetimeBytes.
           Inr (wrapped\<lparr>si_data := [2, 1] @ delayBytes @ lifetimeBytes @ si_data proposal\<rparr>))))))"

abbreviation (input) "DEFAULT_DELAY_SECONDS \<equiv> 1 :: int"
abbreviation (input) "DEFAULT_LIFETIME_SECONDS \<equiv> 3600 :: int"

section \<open>What the relay changes\<close>

text \<open>
  A relayed instruction asks for what the instruction asked for, except that exactly the controller authorities lose
  their signature; the caller is then its only signer, and the mask names exactly the roles whose authority signed.
\<close>

definition signs :: "solana_instruction \<Rightarrow> string \<Rightarrow> bool" where
  "signs i key \<longleftrightarrow> (\<exists>account \<in> set (si_accounts i). sm_signer account \<and> sm_address account = key)"

definition relayed :: "(bytes \<Rightarrow> bytes) \<Rightarrow> string \<Rightarrow> solana_instruction \<Rightarrow> solana_instruction \<Rightarrow> bool" where
  "relayed H caller i r \<longleftrightarrow>
     (\<exists>authorities mask. length authorities = 5 \<and> (\<forall>role < 5. controllerAuthority H role = Inr (authorities ! role))
        \<and> si_program r = FAUCET_PROGRAM_ADDRESS \<and> si_data r = [1, mask] @ si_data i
        \<and> (\<forall>role < 5. bit mask role \<longleftrightarrow> signs i (authorities ! role)) \<and> mask \<noteq> 0 \<and> mask < 32
        \<and> si_accounts r =
            [\<lparr>sm_address = caller, sm_signer = True, sm_writable = False\<rparr>,
             \<lparr>sm_address = CHANCERY_DEVNET_PROGRAM_ADDRESS, sm_signer = False, sm_writable = False\<rparr>]
            @ map (\<lambda>a. a\<lparr>sm_signer := (sm_signer a \<and> sm_address a \<notin> set authorities)\<rparr>) (si_accounts i)
        \<and> (\<forall>key. signs r key \<longleftrightarrow> key = caller))"

lemma signs_list_ex: "list_ex (\<lambda>account. sm_signer account \<and> sm_address account = key) (si_accounts i) \<longleftrightarrow> signs i key"
  by (auto simp: signs_def list_ex_iff)

lemma relay_roles:
  assumes "foldR (relay_role H i) roles (m, authorities) = Inr (role_bits, signers)"
  shows "\<exists>keys. mapR (controllerAuthority H) roles = Inr keys
    \<and> role_bits = foldl or m (map (\<lambda>(role, key). if signs i key then push_bit role 1 else 0) (zip roles keys))
    \<and> signers = authorities @ filter (signs i) keys"
  using assms
proof (induction roles arbitrary: m authorities)
  case (Cons role roles)
  from Cons.prems obtain key where key: "controllerAuthority H role = Inr key"
    and rest: "foldR (relay_role H i) roles
        (if signs i key then (or m (push_bit role 1), authorities @ [key]) else (m, authorities)) = Inr (role_bits, signers)"
    by (auto simp: signs_list_ex relay_role_def [of H i role])
  show ?case
  proof (cases "signs i key")
    case True
    with Cons.IH [of "or m (push_bit role 1)" "authorities @ [key]"] rest key show ?thesis by auto
  next
    case False
    with Cons.IH [of m authorities] rest key show ?thesis by auto
  qed
qed simp

lemma bit_or_fold:
  "bit (foldl or m (map (\<lambda>(role, key). if p key then push_bit role 1 else 0) rks) :: nat) n \<longleftrightarrow>
    bit m n \<or> (\<exists>(role, key) \<in> set rks. role = n \<and> p key)"
  by (induction rks arbitrary: m) (auto simp: bit_or_iff bit_push_bit_iff bit_1_iff bit_exp_iff split: if_splits)

lemma relay_accounts:
  assumes "mapR (relay_account caller signers) accounts = Inr relayed_accounts"
  shows "relayed_accounts = map (\<lambda>a. a\<lparr>sm_signer := (sm_signer a \<and> sm_address a \<notin> set signers)\<rparr>) accounts
    \<and> (\<forall>a \<in> set accounts. sm_signer a \<longrightarrow> sm_address a \<in> set signers \<or> sm_address a = caller)"
  using assms by (induction accounts arbitrary: relayed_accounts) (auto simp: relay_account_def split: if_splits)

lemma CONTROLLER_ROLES_upt: "CONTROLLER_ROLES = [0..<5]"
  by (simp add: CONTROLLER_ROLES_def upt_rec)

lemma bit_word_of_nat: "bit (word_of_nat m :: byte) n \<longleftrightarrow> n < 8 \<and> bit m n"
  by transfer (simp add: bit_take_bit_iff bit_of_nat_iff_bit)

lemma executeChanceryInstruction_relayed:
  assumes "executeChanceryInstruction H caller i = Inr r"
  shows "\<exists>key. normalizePublicKey (KeyText caller) = Inr key \<and> relayed H key i r"
proof -
  from assms obtain key role_bits signers accounts where parts: "si_program i = CHANCERY_DEVNET_PROGRAM_ADDRESS"
      "normalizePublicKey (KeyText caller) = Inr key"
      "foldR (relay_role H i) CONTROLLER_ROLES (0, []) = Inr (role_bits, signers)" "role_bits \<noteq> 0"
      "mapR (relay_account key signers) (si_accounts i) = Inr accounts"
    and r: "r = \<lparr>si_program = FAUCET_PROGRAM_ADDRESS,
         si_accounts = [\<lparr>sm_address = key, sm_signer = True, sm_writable = False\<rparr>,
           \<lparr>sm_address = si_program i, sm_signer = False, sm_writable = False\<rparr>] @ accounts,
         si_data = [1, word_of_nat role_bits] @ si_data i\<rparr>"
    by (auto simp: executeChanceryInstruction_def split: if_splits prod.splits)
  from relay_roles [OF parts(3)] obtain keys where keys: "mapR (controllerAuthority H) CONTROLLER_ROLES = Inr keys"
      "role_bits = foldl or 0 (map (\<lambda>(role, key). if signs i key then push_bit role 1 else 0) (zip CONTROLLER_ROLES keys))"
      "signers = filter (signs i) keys" by auto
  from keys(1) have len: "length keys = 5" using mapR_length by (fastforce simp: CONTROLLER_ROLES_def)
  from keys(1) have authority: "\<forall>role < 5. controllerAuthority H role = Inr (keys ! role)"
    by (auto simp: CONTROLLER_ROLES_def mapR_eq_Inr_iff list_all2_Cons1 less_Suc_eq numeral_eq_Suc)
  have zipped: "set (zip CONTROLLER_ROLES keys) = {(role, keys ! role) | role. role < 5}"
    using len by (auto simp: CONTROLLER_ROLES_upt set_zip) (metis add_0 nth_upt)
  have bits: "bit role_bits n \<longleftrightarrow> n < 5 \<and> signs i (keys ! n)" for n
    unfolding keys(2) using bit_or_fold [where p = "signs i" and m = 0] zipped by auto
  have small: "role_bits < 32"
  proof -
    have "take_bit 5 role_bits = role_bits" using bits by (auto simp: bit_eq_iff bit_take_bit_iff)
    then show ?thesis using take_bit_nat_less_exp [of 5 role_bits] by simp
  qed
  note accounts = relay_accounts [OF parts(5)]
  have signed_by: "sm_address a \<in> set signers \<longleftrightarrow> sm_address a \<in> set keys" if "a \<in> set (si_accounts i)" "sm_signer a" for a
    using that unfolding keys(3) by (auto simp: signs_def)
  have metas: "accounts = map (\<lambda>a. a\<lparr>sm_signer := (sm_signer a \<and> sm_address a \<notin> set keys)\<rparr>) (si_accounts i)"
  proof -
    have "(sm_signer a \<and> sm_address a \<notin> set signers) = (sm_signer a \<and> sm_address a \<notin> set keys)" if "a \<in> set (si_accounts i)" for a
      using signed_by [OF that] by blast
    with accounts show ?thesis by (simp cong: map_cong)
  qed
  have "signs r k \<longleftrightarrow> k = key" for k
    using accounts signed_by unfolding r signs_def metas by auto
  moreover have "(word_of_nat role_bits :: byte) \<noteq> 0" "(word_of_nat role_bits :: byte) < 32"
    using small parts(4) by (simp_all add: word_of_nat_eq_0_iff nat_dvd_not_less word_less_nat_alt unat_of_nat)
  ultimately have "relayed H key i r"
    unfolding relayed_def
    using len authority bits parts(1) metas
    by (intro exI [of _ keys] exI [of _ "word_of_nat role_bits"]) (simp add: r bit_word_of_nat)
  with parts(2) show ?thesis by blast
qed

text \<open>A scheduled proposal is relayed for the governance authority alone, with its delay and lifetime before its data.\<close>

lemma scheduleConfigChangeInstruction_relayed:
  assumes "scheduleConfigChangeInstruction H S caller i delay lifetime = Inr r"
  shows "\<exists>w. executeChanceryInstruction H caller i = Inr w \<and> si_data w = [1, 1] @ si_data i
    \<and> r = w\<lparr>si_data := [2, 1] @ map word_of_nat (low_digits 256 8 (nat delay))
        @ map word_of_nat (low_digits 256 8 (nat lifetime)) @ si_data i\<rparr>
    \<and> 1 \<le> delay \<and> delay < 2 ^ 63 \<and> 1 \<le> lifetime \<and> lifetime < 2 ^ 63 \<and> take 2 (si_data i) = [9, 7]"
proof -
  from assms obtain w where w: "executeChanceryInstruction H caller i = Inr w" "si_data w ! 1 = 1"
      "si_data i ! 0 = 9" "si_data i ! 1 = 7" "1 \<le> delay" "1 \<le> lifetime" "delay < 2 ^ 63" "lifetime < 2 ^ 63"
      "r = w\<lparr>si_data := [2, 1] @ map word_of_nat (low_digits 256 8 (nat delay))
        @ map word_of_nat (low_digits 256 8 (nat lifetime)) @ si_data i\<rparr>"
    by (auto simp: scheduleConfigChangeInstruction_def encodeType_def encodePrimitive_def encodeSignedInteger_def
        encodeUnsignedInteger_def integerFromValue_def Let_def split: if_splits)
  from w(1) have "2 \<le> length (si_data i)"
    by (auto simp: executeChanceryInstruction_def split: if_splits)
  then obtain b0 b1 rest where "si_data i = b0 # b1 # rest" by (auto simp: Suc_le_length_iff numeral_eq_Suc)
  moreover have "\<exists>m. si_data w = [1, m] @ si_data i"
    using executeChanceryInstruction_relayed [OF w(1)] unfolding relayed_def by blast
  ultimately show ?thesis using w by auto
qed

end
