(* ===== verification/DevnetSession.thy ===== *)
theory DevnetSession
  imports DevnetInstructions SubmissionSafety
begin

text \<open>
  The connection of the devnet tooling (\<open>integration/devnet/execution\<close> and \<open>wallet\<close>): it is opened only against devnet,
  reads accounts of the deployment, and submits instructions signed by the local wallet. \<open>Date.now\<close>, the waiting of
  \<open>setTimeout\<close>, \<open>randomBytes\<close> and the files are the host's; \<open>dn_write_new\<close> creates a file that does not exist, with the
  directories above it.
\<close>

record 'w devnet =
  dn_target :: "string option"
  dn_hash :: "bytes \<Rightarrow> bytes"
  dn_schema :: chancery_schema
  dn_crypto :: node_crypto
  dn_fetch :: "'w fetch"
  dn_now :: "'w \<Rightarrow> int"
  dn_wait :: "nat \<Rightarrow> 'w \<Rightarrow> 'w"
  dn_random :: "nat \<Rightarrow> 'w \<Rightarrow> bytes \<times> 'w"
  dn_parse_url :: "string \<Rightarrow> parsed_url res"
  dn_read_json :: "string \<Rightarrow> js res"
  dn_write_new :: "string \<Rightarrow> js \<Rightarrow> 'w \<Rightarrow> 'w res"

text \<open>The RPC client of a context is the state that the operations thread.\<close>

record 'w devnet_context =
  dc_host :: "'w devnet"
  dc_signer :: solana_keypair

definition nowP :: "'w devnet \<Rightarrow> ('w, int) rpc_io" where
  "nowP host st = Inr (dn_now host (rpc_world st), st)"

definition waitP :: "'w devnet \<Rightarrow> nat \<Rightarrow> ('w, unit) rpc_io" where
  "waitP host milliseconds st = Inr ((), st\<lparr>rpc_world := dn_wait host milliseconds (rpc_world st)\<rparr>)"

section \<open>Accounts and the deployment\<close>

definition readChanceryAccount :: "'w devnet \<Rightarrow> string \<Rightarrow> string \<Rightarrow> ('w, js_object option) rpc_io" where
  "readChanceryAccount host address expectedName =
     bindP (getAccountInfo (dn_fetch host) (KeyText address) Confirmed) (\<lambda>account.
       case account of
         None \<Rightarrow> returnP None
       | Some info \<Rightarrow>
           if ra_owner info \<noteq> CHANCERY_DEVNET_PROGRAM_ADDRESS \<or> ra_executable info
           then failP ''Invalid Chancery account owner or executable flag: ''
           else
             bindP (liftP (decodeChanceryAccount (dn_schema host) (ra_data info))) (\<lambda>decoded.
               if decoded_account_name decoded \<noteq> expectedName then failP ''Expected account of another type''
               else returnP (Some (decoded_account_values decoded))))"

definition AUTHORITY_FIELDS :: "string list" where
  "AUTHORITY_FIELDS = [''governance_authority'', ''operations_authority'', ''emergency_authority'', ''enforcement_authority'',
     ''insurance_admin_authority'']"

definition assertDevnetRpc :: "'w devnet \<Rightarrow> ('w, unit) rpc_io" where
  "assertDevnetRpc host =
     bindP (liftP (requireDevnetTarget (dn_schema host) (dn_target host))) (\<lambda>_.
     bindP (rpc_request (dn_fetch host) ''getGenesisHash'' []) (\<lambda>genesis.
       if genesis \<noteq> JStr DEVNET_GENESIS_HASH then failP ''RPC genesis hash does not match Solana devnet''
       else returnP ()))"

definition loadDevnetContext :: "'w devnet \<Rightarrow> string \<Rightarrow> string \<Rightarrow> 'w \<Rightarrow> ('w devnet_context \<times> 'w rpc) res" where
  "loadDevnetContext host endpoint keypairPath w =
     bindR (requireDevnetTarget (dn_schema host) (dn_target host)) (\<lambda>_.
     bindR (dn_parse_url host endpoint) (\<lambda>url.
     bindR (newChanceryRpc url w) (\<lambda>connection.
     bindR (assertDevnetRpc host connection) (\<lambda>(_, connection').
     bindR (dn_read_json host keypairPath) (\<lambda>parsed.
     bindR (keypairFromJson (dn_crypto host) parsed) (\<lambda>signer.
       Inr (\<lparr>dc_host = host, dc_signer = signer\<rparr>, connection')))))))"

definition assert_program :: "'w devnet \<Rightarrow> string \<Rightarrow> ('w, unit) rpc_io" where
  "assert_program host address =
     bindP (getAccountInfo (dn_fetch host) (KeyText address) Confirmed) (\<lambda>account.
       case account of
         None \<Rightarrow> failP ''Executable devnet program is missing: ''
       | Some info \<Rightarrow> if \<not> ra_executable info then failP ''Executable devnet program is missing: '' else returnP ())"

definition assert_authority :: "'w devnet \<Rightarrow> js_object \<Rightarrow> nat \<Rightarrow> unit res" where
  "assert_authority host configuration role =
     bindR (requirePublicKeyField configuration (AUTHORITY_FIELDS ! role)) (\<lambda>configured.
     bindR (controllerAuthority (dn_hash host) role) (\<lambda>authority.
       if configured \<noteq> authority then throw ''Public controller handoff is incomplete for '' else Inr ()))"

definition assertPublicDeployment :: "'w devnet_context \<Rightarrow> ('w, js_object) rpc_io" where
  "assertPublicDeployment context =
     (let host = dc_host context in
      bindP (eachP (assert_program host) [CHANCERY_DEVNET_PROGRAM_ADDRESS, FAUCET_PROGRAM_ADDRESS]) (\<lambda>_.
      bindP (liftP (knownPdaAddress (dn_schema host) ''chancery_config'')) (\<lambda>configAddress.
      bindP (readChanceryAccount host configAddress ''ChanceryConfig'') (\<lambda>read.
        case read of
          None \<Rightarrow> failP ''Chancery devnet configuration is missing''
        | Some configuration \<Rightarrow>
            bindP (liftP (requirePublicKeyField configuration ''issued_token_mint'')) (\<lambda>mint.
              if mint \<noteq> ISSUED_TOKEN_MINT then failP ''Issued mint differs from the configured devnet deployment''
              else
                bindP (liftP (mapR (assert_authority host configuration) CONTROLLER_ROLES)) (\<lambda>_.
                  returnP configuration))))))"

section \<open>Submitting\<close>

text \<open>One pass of the confirmation loop after its deadline test; it ends with whether the signature is confirmed.\<close>

definition wait_for_block :: "'w devnet \<Rightarrow> int option \<Rightarrow> ('w, bool) rpc_io" where
  "wait_for_block host lastValidBlockHeight =
     bindP (case lastValidBlockHeight of
              None \<Rightarrow> returnP False
            | Some lastHeight \<Rightarrow> bindP (getBlockHeight (dn_fetch host) Confirmed) (\<lambda>height. returnP (lastHeight < height)))
       (\<lambda>expired. if expired then failP ''Transaction blockhash expired: ''
                  else bindP (waitP host 500) (\<lambda>_. returnP False))"

definition confirm_step :: "'w devnet \<Rightarrow> string \<Rightarrow> int option \<Rightarrow> ('w, bool) rpc_io" where
  "confirm_step host signature lastValidBlockHeight =
     bindP (getSignatureStatus (dn_fetch host) signature) (\<lambda>status.
       case status of
         Some s \<Rightarrow>
           if ss_err s \<noteq> JNull then failP ''Transaction failed: ''
           else if ss_confirmation_status s = Some Confirmed \<or> ss_confirmation_status s = Some Finalized then returnP True
           else wait_for_block host lastValidBlockHeight
       | None \<Rightarrow> wait_for_block host lastValidBlockHeight)"

text \<open>
  The loops of the tooling end by the clock. Here they also end after a number of passes, which \<open>clock_runs\<close> shows to be
  larger than the clock allows.
\<close>

definition PASS_LIMIT :: nat where
  "PASS_LIMIT = 60001"

definition PASS_LIMIT_REACHED :: string where
  "PASS_LIMIT_REACHED = ''The clock did not advance''"

fun confirm_loop :: "'w devnet \<Rightarrow> nat \<Rightarrow> string \<Rightarrow> int option \<Rightarrow> int \<Rightarrow> ('w, unit) rpc_io" where
  "confirm_loop host 0 signature lastValidBlockHeight deadline = failP PASS_LIMIT_REACHED"
| "confirm_loop host (Suc passes) signature lastValidBlockHeight deadline =
     bindP (nowP host) (\<lambda>now.
       if now < deadline then
         bindP (confirm_step host signature lastValidBlockHeight) (\<lambda>finished.
           if finished then returnP () else confirm_loop host passes signature lastValidBlockHeight deadline)
       else failP ''Transaction confirmation timed out: '')"

definition confirmSignature :: "'w devnet \<Rightarrow> string \<Rightarrow> int option \<Rightarrow> ('w, unit) rpc_io" where
  "confirmSignature host signature lastValidBlockHeight =
     bindP (nowP host) (\<lambda>now. confirm_loop host PASS_LIMIT signature lastValidBlockHeight (now + 60000))"

definition submitInstructions :: "'w devnet_context \<Rightarrow> solana_instruction list \<Rightarrow> ('w, string) rpc_io" where
  "submitInstructions context instructions =
     (let host = dc_host context; signer = dc_signer context in
      bindP (assertDevnetRpc host) (\<lambda>_.
      bindP (getLatestBlockhash (dn_fetch host) Confirmed) (\<lambda>latest.
      bindP (liftP (compileUnversionedMessage instructions (KeyText (kp_public_key signer)) (KeyText (rb_blockhash latest))))
        (\<lambda>message.
      bindP (liftP (signSolanaTransaction (dn_crypto host) message [signer])) (\<lambda>signed.
      bindP (rpc_simulateTransaction (dn_fetch host) (st_bytes signed) Confirmed True) (\<lambda>simulation.
        if sr_err simulation \<noteq> JNull then failP '' simulation failed: ''
        else
          bindP (rpc_sendTransaction (dn_fetch host) (st_bytes signed) Confirmed False 0) (\<lambda>signature.
            if signature \<noteq> st_primary signed then failP '' returned a different transaction signature''
            else
              bindP (confirmSignature host signature (Some (rb_last_valid_block_height latest))) (\<lambda>_.
                returnP signature))))))))"

section \<open>The wallet\<close>

text \<open>\<open>BigInt\<close> of the balance in a response, which is a number or, when it was revived, a bigint.\<close>

definition balance_of :: "js \<Rightarrow> int res" where
  "balance_of result =
     bindR (recordFromUnknown result) (\<lambda>resultRecord.
       case obj_get resultRecord ''value'' of
         JNum n \<Rightarrow> Inr n | JBig n \<Rightarrow> Inr n | _ \<Rightarrow> throw ''The balance cannot be converted to a BigInt'')"

definition getBalance :: "'w devnet \<Rightarrow> string \<Rightarrow> ('w, int) rpc_io" where
  "getBalance host address =
     bindP (rpc_request (dn_fetch host) ''getBalance'' [JStr address, JObj [(''commitment'', text_js Confirmed)]])
       (\<lambda>result. liftP (balance_of result))"

text \<open>
  The source takes the response of \<open>requestAirdrop\<close> to be a text, as its type says, and the value of a balance to be a number
  or a bigint; any other response is refused here.
\<close>

definition fundWallet :: "'w devnet_context \<Rightarrow> int \<Rightarrow> bool \<Rightarrow> ('w, int) rpc_io" where
  "fundWallet context minimumLamports skipAirdrop =
     (let host = dc_host context; address = kp_public_key (dc_signer context) in
      if minimumLamports \<le> 0 \<or> MAX_SAFE_INTEGER < minimumLamports
      then failP ''SOL funding target is outside the supported range''
      else
        bindP (assertDevnetRpc host) (\<lambda>_.
        bindP (getBalance host address) (\<lambda>balance.
          if minimumLamports \<le> balance then returnP balance
          else if skipAirdrop then failP ''Insufficient devnet SOL for ''
          else
            bindP (rpc_request (dn_fetch host) ''requestAirdrop''
                     [JStr address, JNum (minimumLamports - balance), JObj [(''commitment'', text_js Confirmed)]]) (\<lambda>result.
            bindP (case result of JStr signature \<Rightarrow> returnP signature
                   | _ \<Rightarrow> failP ''requestAirdrop must return a signature'') (\<lambda>signature.
            bindP (confirmSignature host signature None) (\<lambda>_.
            bindP (getBalance host address) (\<lambda>observed.
              if observed < minimumLamports then failP ''Devnet SOL balance remains below the requested target''
              else returnP observed)))))))"

definition createWallet :: "'w devnet \<Rightarrow> string \<Rightarrow> 'w \<Rightarrow> (string \<times> 'w) res" where
  "createWallet host path w =
     bindR (requireDevnetTarget (dn_schema host) (dn_target host)) (\<lambda>_.
       let (seed, w1) = dn_random host 32 w in
       bindR (keypairFromSecretKeyBytes (dn_crypto host) seed) (\<lambda>signer.
       bindR (decodePublicKey (KeyText (kp_public_key signer))) (\<lambda>publicKeyBytes.
       bindR (dn_write_new host path (JArr (map (\<lambda>byte. JNum (uint byte)) (kp_seed signer @ publicKeyBytes))) w1) (\<lambda>w2.
         Inr (kp_public_key signer, w2)))))"

section \<open>The confirmation ends\<close>

text \<open>Waiting takes time, and a request does not turn the clock back.\<close>

definition clock_runs :: "'w devnet \<Rightarrow> bool" where
  "clock_runs host \<longleftrightarrow> (\<forall>w. dn_now host w < dn_now host (dn_wait host 500 w))
     \<and> (\<forall>call w response w'. dn_fetch host call w = Inr (response, w') \<longrightarrow> dn_now host w \<le> dn_now host w')"

abbreviation now_at :: "'w devnet \<Rightarrow> 'w rpc \<Rightarrow> int" where
  "now_at host st \<equiv> dn_now host (rpc_world st)"

lemma request_takes_time:
  "clock_runs host \<Longrightarrow> rpc_request (dn_fetch host) method arguments st = Inr (r, st') \<Longrightarrow> now_at host st \<le> now_at host st'"
  by (fastforce simp: clock_runs_def rpc_request_def Let_def split: if_splits prod.splits)

lemma block_height_takes_time:
  "clock_runs host \<Longrightarrow> getBlockHeight (dn_fetch host) Confirmed st = Inr (h, st') \<Longrightarrow> now_at host st \<le> now_at host st'"
  by (auto simp: getBlockHeight_def bindP_Inr liftP_Inr dest: request_takes_time)

lemma wait_takes_time:
  assumes "clock_runs host" "wait_for_block host lastValid st = Inr (b, st')"
  shows "\<not> b \<and> now_at host st < now_at host st'"
proof -
  from assms(2) obtain st1 where st1: "now_at host st \<le> now_at host st1" "st' = st1\<lparr>rpc_world := dn_wait host 500 (rpc_world st1)\<rparr>"
      "\<not> b"
    by (cases lastValid)
      (auto simp: wait_for_block_def bindP_Inr returnP_Inr failP_Inr waitP_def split: if_splits
        dest: block_height_takes_time [OF assms(1)])
  moreover have "now_at host st1 < dn_now host (dn_wait host 500 (rpc_world st1))"
    using assms(1) by (simp add: clock_runs_def)
  ultimately show ?thesis by simp
qed

lemma confirm_step_takes_time:
  assumes "clock_runs host" "confirm_step host signature lastValid st = Inr (False, st')"
  shows "now_at host st < now_at host st'"
proof -
  from assms(2) obtain status st1 where status: "getSignatureStatus (dn_fetch host) signature st = Inr (status, st1)"
      "wait_for_block host lastValid st1 = Inr (False, st')"
    by (auto simp: confirm_step_def bindP_Inr returnP_Inr failP_Inr split: option.splits if_splits)
  have "now_at host st \<le> now_at host st1"
    using status(1) by (auto simp: getSignatureStatus_def bindP_Inr liftP_Inr dest: request_takes_time [OF assms(1)])
  with wait_takes_time [OF assms(1) status(2)] show ?thesis by simp
qed

lemma confirm_loop_limit:
  assumes "clock_runs host" "nat (deadline - now_at host st) < n" "nat (deadline - now_at host st) < m"
  shows "confirm_loop host n signature lastValid deadline st = confirm_loop host m signature lastValid deadline st"
  using assms(2,3)
proof (induction n arbitrary: m st)
  case (Suc n)
  then obtain m' where m: "m = Suc m'" by (cases m) auto
  show ?case
  proof (cases "now_at host st < deadline")
    case True
    show ?thesis
    proof (cases "confirm_step host signature lastValid st")
      case (Inr r)
      obtain finished st' where r: "r = (finished, st')" by (cases r)
      show ?thesis
      proof (cases finished)
        case False
        with confirm_step_takes_time [OF assms(1)] Inr r have "now_at host st < now_at host st'" by simp
        with Suc.prems True m have "nat (deadline - now_at host st') < n" "nat (deadline - now_at host st') < m'" by auto
        from Suc.IH [OF this] show ?thesis using True Inr r False by (simp add: m bindP_def nowP_def)
      qed (use True Inr r in \<open>simp add: m bindP_def nowP_def\<close>)
    qed (use True in \<open>simp add: m bindP_def nowP_def\<close>)
  qed (simp add: m bindP_def nowP_def)
qed simp

lemma confirmSignature_ends:
  assumes "clock_runs host" "60000 < n"
  shows "confirmSignature host signature lastValid st = confirm_loop host n signature lastValid (now_at host st + 60000) st"
  using confirm_loop_limit [OF assms(1), of "now_at host st + 60000" st PASS_LIMIT n] assms(2)
  by (simp add: confirmSignature_def bindP_def nowP_def PASS_LIMIT_def)

section \<open>What a submission is\<close>

text \<open>A signature whose status, as last read, is confirmed without an error.\<close>

definition seen_confirmed :: "'w devnet \<Rightarrow> string \<Rightarrow> 'w rpc \<Rightarrow> bool" where
  "seen_confirmed host signature st' \<longleftrightarrow>
     (\<exists>st s. getSignatureStatus (dn_fetch host) signature st = Inr (Some s, st') \<and> ss_err s = JNull
        \<and> ss_confirmation_status s \<in> {Some Confirmed, Some Finalized})"

lemma confirm_loop_confirmed: "confirm_loop host n signature lastValid deadline st = Inr (u, st') \<Longrightarrow> seen_confirmed host signature st'"
proof (induction n arbitrary: st)
  case (Suc n)
  from Suc.prems obtain finished st1 where step: "confirm_step host signature lastValid st = Inr (finished, st1)"
    and rest: "if finished then st' = st1 else confirm_loop host n signature lastValid deadline st1 = Inr (u, st')"
    by (auto simp: bindP_Inr nowP_def failP_Inr returnP_Inr split: if_splits)
  show ?case
  proof (cases finished)
    case True
    with step rest show ?thesis
      by (auto simp: seen_confirmed_def confirm_step_def wait_for_block_def bindP_Inr returnP_Inr failP_Inr
          split: option.splits if_splits)
  next
    case False
    with rest Suc.IH show ?thesis by simp
  qed
qed (simp add: failP_Inr)

lemma confirmSignature_confirmed: "confirmSignature host signature lastValid st = Inr (u, st') \<Longrightarrow> seen_confirmed host signature st'"
  by (auto simp: confirmSignature_def bindP_Inr nowP_def intro: confirm_loop_confirmed)

text \<open>
  A submission of the tooling: on devnet, by its genesis hash; of a message that only the wallet signs; of the bytes that
  were simulated without an error; with the signature of the wallet, and seen confirmed at the end.
\<close>

definition devnet_submission :: "'w devnet_context \<Rightarrow> solana_instruction list \<Rightarrow> 'w rpc \<Rightarrow> string \<Rightarrow> 'w rpc \<Rightarrow> bool" where
  "devnet_submission context instructions st signature st' \<longleftrightarrow>
     (let host = dc_host context; wallet = kp_public_key (dc_signer context) in
      dn_target host = Some ''devnet'' \<and> program_address (schema_program (dn_schema host)) = CHANCERY_DEVNET_PROGRAM_ADDRESS
      \<and> (\<exists>st1 latest st2 message transaction simulation st3 st4.
           rpc_request (dn_fetch host) ''getGenesisHash'' [] st = Inr (JStr DEVNET_GENESIS_HASH, st1)
           \<and> getLatestBlockhash (dn_fetch host) Confirmed st1 = Inr (latest, st2)
           \<and> compileUnversionedMessage instructions (KeyText wallet) (KeyText (rb_blockhash latest)) = Inr message
           \<and> (\<exists>key. normalizePublicKey (KeyText wallet) = Inr key \<and> cm_signers message = [key]
                \<and> (\<forall>k. asks_signer instructions k \<longrightarrow> k = key))
           \<and> signSolanaTransaction (dn_crypto host) message [dc_signer context] = Inr transaction
           \<and> rpc_simulateTransaction (dn_fetch host) (st_bytes transaction) Confirmed True st2 = Inr (simulation, st3)
           \<and> sr_err simulation = JNull
           \<and> rpc_sendTransaction (dn_fetch host) (st_bytes transaction) Confirmed False 0 st3 = Inr (signature, st4)
           \<and> signature = st_primary transaction \<and> seen_confirmed host signature st'))"

lemma wallet_signs_alone:
  assumes message: "compileUnversionedMessage instructions (KeyText wallet) blockhash = Inr message"
    and signed: "signSolanaTransaction nc message [keypair] = Inr transaction" and wallet: "kp_public_key keypair = wallet"
  shows "\<exists>key. normalizePublicKey (KeyText wallet) = Inr key \<and> cm_signers message = [key]
    \<and> (\<forall>k. asks_signer instructions k \<longrightarrow> k = key)"
proof -
  from compileUnversionedMessage_ok [OF message] obtain key where key: "normalizePublicKey (KeyText wallet) = Inr key"
      "distinct (cm_account_keys message)" "hd (cm_account_keys message) = key"
      "set (cm_account_keys message) = {k. k = key \<or> mentions instructions k}"
      "cm_signers message = take (cm_required_signatures message) (cm_account_keys message)"
      "\<forall>i < length (cm_account_keys message). header_signer message i =
         (cm_account_keys message ! i = key \<or> asks_signer instructions (cm_account_keys message ! i))"
    by (auto simp: Let_def)
  from signSolanaTransaction_ok [OF signed] have signers: "cm_signers message \<noteq> []" "set (cm_signers message) \<subseteq> {wallet}"
    using wallet by (auto simp: signature_ok_def list_all2_conv_all_nth in_set_conv_nth)
  have "key \<in> set (cm_signers message)"
    using signers(1) key(3,5) by (cases "cm_account_keys message"; cases "cm_required_signatures message") auto
  have "distinct (cm_signers message)" using key(2,5) by simp
  with signers \<open>key \<in> set (cm_signers message)\<close> have one: "cm_signers message = [key]"
    by (cases "cm_signers message") (auto simp: subset_singleton_iff)
  moreover have "k = key" if "asks_signer instructions k" for k
  proof -
    from that have "mentions instructions k" by (fastforce simp: asks_signer_def mentions_def list_ex_iff)
    with key(4) obtain n where n: "n < length (cm_account_keys message)" "cm_account_keys message ! n = k"
      by (metis (mono_tags) in_set_conv_nth mem_Collect_eq)
    with key(6) that have "n < cm_required_signatures message" by (auto simp: header_signer_def)
    with n key(5) have "k \<in> set (cm_signers message)" by (auto simp: in_set_conv_nth intro!: exI [of _ n])
    with one show ?thesis by simp
  qed
  ultimately show ?thesis using key(1) by blast
qed

lemma submitInstructions_ok:
  assumes "submitInstructions context instructions st = Inr (signature, st')"
  shows "devnet_submission context instructions st signature st'"
proof -
  let ?host = "dc_host context" and ?wallet = "kp_public_key (dc_signer context)"
  from assms obtain st1 latest st2 message transaction simulation st3 st4 where
      target: "dn_target ?host = Some ''devnet''" "program_address (schema_program (dn_schema ?host)) = CHANCERY_DEVNET_PROGRAM_ADDRESS"
    and genesis: "rpc_request (dn_fetch ?host) ''getGenesisHash'' [] st = Inr (JStr DEVNET_GENESIS_HASH, st1)"
    and latest: "getLatestBlockhash (dn_fetch ?host) Confirmed st1 = Inr (latest, st2)"
    and message: "compileUnversionedMessage instructions (KeyText ?wallet) (KeyText (rb_blockhash latest)) = Inr message"
    and transaction: "signSolanaTransaction (dn_crypto ?host) message [dc_signer context] = Inr transaction"
    and simulated: "rpc_simulateTransaction (dn_fetch ?host) (st_bytes transaction) Confirmed True st2 = Inr (simulation, st3)"
      "sr_err simulation = JNull"
    and sent: "rpc_sendTransaction (dn_fetch ?host) (st_bytes transaction) Confirmed False 0 st3 = Inr (signature, st4)"
      "signature = st_primary transaction"
    and confirmed: "confirmSignature ?host signature (Some (rb_last_valid_block_height latest)) st4 = Inr ((), st')"
    by (auto simp: submitInstructions_def Let_def bindP_Inr liftP_Inr returnP_Inr failP_Inr assertDevnetRpc_def
        requireDevnetTarget_def split: if_splits)
  show ?thesis
    unfolding devnet_submission_def Let_def
    using target genesis latest message transaction simulated sent confirmSignature_confirmed [OF confirmed]
      wallet_signs_alone [OF message transaction refl] by blast
qed

end
