(* ===== verification/DevnetPermissions.thy ===== *)
theory DevnetPermissions
  imports DevnetSession
begin

text \<open>
  Pathways, permissions and test assets of the devnet tooling (\<open>integration/devnet\<close>, the directories \<open>permissions\<close>,
  \<open>pathway\<close>, \<open>assets\<close> and \<open>setup\<close>): what is registered is read back and compared before it is reported.
\<close>

section \<open>The value a permission change commits to\<close>

record permission_value =
  pv_subject :: string
  pv_scope_kind :: int
  pv_scope_key :: string
  pv_role_bits :: int
  pv_generation :: int
  pv_expiry :: int

definition permissionValuePayload :: "chancery_schema \<Rightarrow> permission_value \<Rightarrow> bytes res" where
  "permissionValuePayload S v =
     (if pv_role_bits v < 0 \<or> 2 ^ 128 \<le> pv_role_bits v then throw ''Permission roles must fit u128''
      else
        bindR (decodePublicKey (KeyText (pv_subject v))) (\<lambda>subject.
        bindR (encodeType S (Prim U8) (JNum (pv_scope_kind v))) (\<lambda>scopeKind.
        bindR (decodePublicKey (KeyText (pv_scope_key v))) (\<lambda>scopeKey.
        bindR (encodeType S (Prim U128) (JBig (pv_role_bits v))) (\<lambda>roleBits.
        bindR (encodeType S (Prim U64) (JBig (pv_generation v))) (\<lambda>generation.
        bindR (encodeType S (Prim I64) (JBig (pv_expiry v))) (\<lambda>expiry.
          Inr (subject @ scopeKind @ scopeKey @ roleBits @ generation @ expiry))))))))"

definition permissionValueHash ::
  "(bytes \<Rightarrow> bytes) \<Rightarrow> chancery_schema \<Rightarrow> string \<Rightarrow> nat \<Rightarrow> permission_value \<Rightarrow> bytes res" where
  "permissionValueHash H S target riskClass v =
     bindR (decodePublicKey (KeyText target)) (\<lambda>targetBytes.
     bindR (permissionValuePayload S v) (\<lambda>payload.
       Inr (H (utf8_encode ''chancery:pending-config-change:v1'' @ [0, 5] @ targetBytes @ [word_of_nat riskClass] @ payload))))"

definition permissionChangeId ::
  "(bytes \<Rightarrow> bytes) \<Rightarrow> chancery_schema \<Rightarrow> string \<Rightarrow> bytes \<Rightarrow> string \<Rightarrow> int \<Rightarrow> bytes res" where
  "permissionChangeId H S target newValueHash governanceAuthority nonce =
     (if length newValueHash \<noteq> 32 then throw ''Config-change value hash must contain 32 bytes''
      else
        bindR (encodeType S (Prim U64) (JBig nonce)) (\<lambda>nonceBytes.
        bindR (decodePublicKey (KeyText target)) (\<lambda>targetBytes.
        bindR (decodePublicKey (KeyText governanceAuthority)) (\<lambda>governanceBytes.
          Inr (H (utf8_encode ''chancery:pending-config-change-id:v1'' @ [0, 5] @ targetBytes @ newValueHash
                  @ governanceBytes @ rev nonceBytes))))))"

section \<open>Granting a permission\<close>


abbreviation (input) "SCOPE_GLOBAL \<equiv> 0 :: int"

text \<open>The constants of the schema are decimal texts.\<close>

definition constant_integer :: "chancery_schema \<Rightarrow> string \<Rightarrow> int res" where
  "constant_integer S name =
     bindR (getChanceryConstant S name) (\<lambda>c.
       if is_decimal (constant_value c) then Inr (int (parse_decimal (constant_value c)))
       else throw ''Cannot convert to a BigInt'')"

definition scope_declared :: "chancery_schema \<Rightarrow> int \<Rightarrow> bool" where
  "scope_declared S scopeKind \<longleftrightarrow>
     list_ex (\<lambda>c. startsWith (constant_name c) ''scope.'' \<and> is_decimal (constant_value c)
       \<and> int (parse_decimal (constant_value c)) = scopeKind) (schema_constants S)"

record permission_grant =
  pg_subject :: string
  pg_scope_kind :: int
  pg_scope_key :: string
  pg_role_bits :: int
  pg_expiry :: "int option"

definition permission_roles :: "js_object \<Rightarrow> int res" where
  "permission_roles values =
     bindR (requireBigIntArrayField values ''role_bits'' 2) (\<lambda>words. Inr (or (words ! 0) (push_bit 64 (words ! 1))))"

text \<open>The roles, the generation and the expiry of the record there is, checked against the grant; zeros without one.\<close>

definition existing_permission ::
  "chancery_schema \<Rightarrow> permission_grant \<Rightarrow> string \<Rightarrow> string \<Rightarrow> nat \<Rightarrow> js_object option \<Rightarrow> (int \<times> int \<times> int) res" where
  "existing_permission S grant subject scopeKey bump current =
     (case current of
        None \<Rightarrow> Inr (0, 0, 0)
      | Some values \<Rightarrow>
          bindR (anyR [bindR (requirePublicKeyField values ''subject'') (\<lambda>key. Inr (key \<noteq> subject)),
                       bindR (requirePublicKeyField values ''scope_key'') (\<lambda>key. Inr (key \<noteq> scopeKey)),
                       bindR (requireNumberField values ''scope_kind'') (\<lambda>kind. Inr (kind \<noteq> pg_scope_kind grant)),
                       bindR (requireNumberField values ''bump'') (\<lambda>recorded. Inr (recorded \<noteq> int bump))]) (\<lambda>differs.
            if differs then throw ''Existing permission identity differs from its canonical PDA''
            else
              bindR (requireBigIntField values ''permission_flags'') (\<lambda>flags.
                if flags \<noteq> 0 then throw ''Existing permission is paused; update its pause state before granting roles''
                else
                  bindR (requireNumberField values ''role_schema_version'') (\<lambda>version.
                  bindR (constant_integer S ''role.PERMISSION_ROLE_SCHEMA_VERSION'') (\<lambda>expected.
                    if version \<noteq> expected then throw ''Existing permission role schema is unsupported''
                    else
                      bindR (permission_roles values) (\<lambda>oldRoles.
                      bindR (requireBigIntField values ''permission_generation'') (\<lambda>oldGeneration.
                      bindR (requireBigIntField values ''expiry_unix_timestamp'') (\<lambda>oldExpiry.
                        if pg_expiry grant \<noteq> None \<and> pg_expiry grant \<noteq> Some oldExpiry
                        then throw ''Role grants preserve the existing permission expiry''
                        else Inr (oldRoles, oldGeneration, oldExpiry)))))))))"

text \<open>The loop that waits for the timelock of the proposal.\<close>

fun timelock_loop :: "'w devnet \<Rightarrow> nat \<Rightarrow> int \<Rightarrow> int \<Rightarrow> ('w, unit) rpc_io" where
  "timelock_loop host 0 executableAfter deadline = failP PASS_LIMIT_REACHED"
| "timelock_loop host (Suc passes) executableAfter deadline =
     bindP (getClock (dn_fetch host) Confirmed) (\<lambda>clock.
       if ck_unix_timestamp clock < executableAfter then
         bindP (nowP host) (\<lambda>now.
           if deadline \<le> now then failP ''Permission timelock wait timed out: ''
           else bindP (waitP host 500) (\<lambda>_. timelock_loop host passes executableAfter deadline))
       else returnP ())"

definition randomP :: "'w devnet \<Rightarrow> nat \<Rightarrow> ('w, bytes) rpc_io" where
  "randomP host count st = (case dn_random host count (rpc_world st) of (bs, w) \<Rightarrow> Inr (bs, st\<lparr>rpc_world := w\<rparr>))"

definition instructionP ::
  "'w devnet \<Rightarrow> string \<Rightarrow> js_object \<Rightarrow> (string \<times> string) list \<Rightarrow> ('w, solana_instruction) rpc_io" where
  "instructionP host name argumentValues accounts =
     liftP (bindR (buildChanceryInstruction (dn_hash host) (dn_schema host) name argumentValues
                     (map (\<lambda>(k, key). (k, Some (KeyText key))) accounts) True)
       (\<lambda>instruction. Inr (solana_instruction_of instruction)))"

definition relayP :: "'w devnet_context \<Rightarrow> solana_instruction \<Rightarrow> ('w, string) rpc_io" where
  "relayP context instruction =
     bindP (liftP (executeChanceryInstruction (dn_hash (dc_host context)) (kp_public_key (dc_signer context)) instruction))
       (\<lambda>wrapped. submitInstructions context [wrapped])"

text \<open>The proposal of the change: its address, once it is submitted.\<close>

definition propose_permission ::
  "'w devnet_context \<Rightarrow> string \<Rightarrow> nat \<Rightarrow> permission_value \<Rightarrow> permission_value \<Rightarrow> string \<Rightarrow> ('w, string) rpc_io" where
  "propose_permission context record_address riskClass oldValue newValue governance =
     (let host = dc_host context; H = dn_hash host; S = dn_schema host; wallet = kp_public_key (dc_signer context) in
      bindP (liftP (permissionValueHash H S record_address riskClass oldValue)) (\<lambda>oldHash.
      bindP (liftP (permissionValueHash H S record_address riskClass newValue)) (\<lambda>newHash.
      bindP (randomP host 8) (\<lambda>nonceBytes.
      let nonce = decodeUnsignedInteger nonceBytes in
      bindP (liftP (bindR (permissionChangeId H S record_address newHash governance nonce) (\<lambda>changeId.
                    bindR (derivePendingConfigChangeAddress H S (KeyBytes changeId)) (\<lambda>derived. Inr (pda_address derived)))))
        (\<lambda>pendingAddress.
      bindP (liftP (knownPdaAddress S ''module_activation_state'')) (\<lambda>activationState.
      bindP (instructionP host ''propose_config_change''
               [(''change_kind'', JNum 5), (''risk_class'', JNum (int riskClass)), (''target_account'', JStr record_address),
                (''old_value_hash'', JBytes oldHash), (''new_value_hash'', JBytes newHash),
                (''executable_after_unix_timestamp'', JBig 0), (''expires_at_unix_timestamp'', JBig 0),
                (''proposer_nonce'', JBig nonce)]
               [(''activation_state'', activationState), (''pending'', pendingAddress), (''payer'', wallet),
                (''governance_authority'', governance)]) (\<lambda>proposal.
      bindP (liftP (scheduleConfigChangeInstruction H S wallet proposal DEFAULT_DELAY_SECONDS DEFAULT_LIFETIME_SECONDS))
        (\<lambda>scheduled.
      bindP (submitInstructions context [scheduled]) (\<lambda>_. returnP pendingAddress)))))))))"

text \<open>The wait for its timelock, and its acceptance.\<close>

definition accept_permission :: "'w devnet_context \<Rightarrow> string \<Rightarrow> string \<Rightarrow> ('w, unit) rpc_io" where
  "accept_permission context pendingAddress governance =
     (let host = dc_host context in
      bindP (readChanceryAccount host pendingAddress ''PendingConfigChange'') (\<lambda>read.
        case read of
          None \<Rightarrow> failP ''Proposed permission change is missing: ''
        | Some proposed \<Rightarrow>
            bindP (liftP (requireNumberField proposed ''status'')) (\<lambda>status.
              if status \<noteq> 1 then failP ''Proposed permission change is missing: ''
              else
                bindP (liftP (requireBigIntField proposed ''executable_after_unix_timestamp'')) (\<lambda>executableAfter.
                bindP (liftP (requireBigIntField proposed ''expires_at_unix_timestamp'')) (\<lambda>expiresAt.
                bindP (nowP host) (\<lambda>now.
                bindP (timelock_loop host PASS_LIMIT executableAfter (now + 30000)) (\<lambda>_.
                bindP (getClock (dn_fetch host) Confirmed) (\<lambda>clock.
                  if expiresAt \<le> ck_unix_timestamp clock then failP ''Permission proposal expired: ''
                  else
                    bindP (liftP (knownPdaAddress (dn_schema host) ''module_activation_state'')) (\<lambda>activationState.
                    bindP (instructionP host ''accept_config_change'' []
                             [(''activation_state'', activationState), (''pending'', pendingAddress),
                              (''governance_authority'', governance)]) (\<lambda>accept.
                    bindP (relayP context accept) (\<lambda>_. returnP ())))))))))))"

text \<open>Its application.\<close>

definition apply_permission ::
  "'w devnet_context \<Rightarrow> string \<Rightarrow> string \<Rightarrow> permission_value \<Rightarrow> string \<Rightarrow> ('w, unit) rpc_io" where
  "apply_permission context record_address pendingAddress newValue governance =
     (let host = dc_host context; H = dn_hash host; S = dn_schema host; wallet = kp_public_key (dc_signer context) in
      bindP (liftP (bindR (dimensionScopeHash H (JNum SCOPE_COUNTERPARTY) (KeyText (pv_subject newValue))) (\<lambda>scopeHash.
                    bindR (deriveUsageWindowAddress H S scopeHash (JNum WINDOW_DAILY)) (\<lambda>derived. Inr (pda_address derived)))))
        (\<lambda>counterpartyWindow.
      bindP (liftP (bindR (dimensionScopeHash H (JNum SCOPE_EXECUTOR) (KeyText (pv_subject newValue))) (\<lambda>scopeHash.
                    bindR (deriveUsageWindowAddress H S scopeHash (JNum WINDOW_DAILY)) (\<lambda>derived. Inr (pda_address derived)))))
        (\<lambda>executorWindow.
      bindP (instructionP host ''upsert_permission_with_pending_change''
               [(''subject'', JStr (pv_subject newValue)), (''scope_kind'', JNum (pv_scope_kind newValue)),
                (''scope_key'', JStr (pv_scope_key newValue)),
                (''role_bits'', JArr [JBig (and (pv_role_bits newValue) (mask 64)), JBig (drop_bit 64 (pv_role_bits newValue))]),
                (''expiry_unix_timestamp'', JBig (pv_expiry newValue))]
               [(''pending'', pendingAddress), (''permission_record'', record_address), (''payer'', wallet),
                (''granting_authority'', governance), (''governance_authority'', governance),
                (''rent_refund_recipient'', wallet), (''counterparty_daily_usage_window'', counterpartyWindow),
                (''executor_daily_usage_window'', executorWindow)]) (\<lambda>apply_change.
      bindP (relayP context apply_change) (\<lambda>_. returnP ())))))"

text \<open>The record read back has to be the one asked for.\<close>

definition check_granted :: "'w devnet \<Rightarrow> string \<Rightarrow> permission_value \<Rightarrow> ('w, unit) rpc_io" where
  "check_granted host record_address newValue =
     bindP (readChanceryAccount host record_address ''PermissionRecord'') (\<lambda>read.
       case read of
         None \<Rightarrow> failP ''Granted permission is missing: ''
       | Some observed \<Rightarrow>
           bindP (liftP (permission_roles observed)) (\<lambda>observedRoles.
           bindP (liftP (anyR [Inr (observedRoles \<noteq> pv_role_bits newValue),
                    bindR (requireBigIntField observed ''permission_generation'') (\<lambda>n. Inr (n \<noteq> pv_generation newValue)),
                    bindR (requireBigIntField observed ''expiry_unix_timestamp'') (\<lambda>n. Inr (n \<noteq> pv_expiry newValue)),
                    bindR (requireBigIntField observed ''permission_flags'') (\<lambda>n. Inr (n \<noteq> 0))])) (\<lambda>differs.
             if differs then failP ''Permission readback differs from the requested grant'' else returnP ())))"

text \<open>The change itself, once it is known to be one: proposed, accepted, applied and read back.\<close>

definition change_permission ::
  "'w devnet_context \<Rightarrow> string \<Rightarrow> permission_value \<Rightarrow> permission_value \<Rightarrow> ('w, string) rpc_io" where
  "change_permission context record_address oldValue newValue =
     (let host = dc_host context in
      bindP (liftP (constant_integer (dn_schema host) ''role.DANGEROUS_PERMISSION_ROLE_MASK'')) (\<lambda>dangerousRoles.
        let dangerous = and (pv_role_bits newValue) dangerousRoles \<noteq> 0 in
        if dangerous \<and> (pv_scope_kind newValue = SCOPE_GLOBAL \<or> pv_expiry newValue = 0)
        then failP ''Dangerous roles require a scoped permission with a finite expiry''
        else
          bindP (liftP (controllerAuthority (dn_hash host) 0)) (\<lambda>governance.
          bindP (propose_permission context record_address (if dangerous then 4 else 2) oldValue newValue governance)
            (\<lambda>pendingAddress.
          bindP (accept_permission context pendingAddress governance) (\<lambda>_.
          bindP (apply_permission context record_address pendingAddress newValue governance) (\<lambda>_.
          bindP (check_granted host record_address newValue) (\<lambda>_.
            returnP record_address)))))))"

definition grantPermission :: "'w devnet_context \<Rightarrow> permission_grant \<Rightarrow> ('w, string) rpc_io" where
  "grantPermission context grant =
     (let host = dc_host context; S = dn_schema host in
      bindP (liftP (normalizePublicKey (KeyText (pg_subject grant)))) (\<lambda>subject.
      bindP (liftP (normalizePublicKey (KeyText (pg_scope_key grant)))) (\<lambda>scopeKey.
        if subject = zero_address (schema_wire S) then failP ''Permission subject must be nonzero''
        else
          bindP (liftP (constant_integer S ''role.ACTIVE_ROLE_MASK'')) (\<lambda>activeRoles.
            if pg_role_bits grant \<le> 0 \<or> and (pg_role_bits grant) (not activeRoles) \<noteq> 0
            then failP ''Permission grant contains unsupported or inactive roles''
            else if \<not> scope_declared S (pg_scope_kind grant) then failP ''Permission scope is unsupported by the reference schema''
            else
              bindP (liftP (derivePermissionRecordAddress (dn_hash host) S (KeyText subject) (JNum (pg_scope_kind grant))
                       (KeyText scopeKey))) (\<lambda>derived.
              let record_address = pda_address derived in
              bindP (readChanceryAccount host record_address ''PermissionRecord'') (\<lambda>current.
              bindP (getClock (dn_fetch host) Confirmed) (\<lambda>clock.
              bindP (liftP (existing_permission S grant subject scopeKey (pda_bump derived) current))
                (\<lambda>(oldRoles, oldGeneration, oldExpiry).
              let expiry = (if current = None then (case pg_expiry grant of Some t \<Rightarrow> t | None \<Rightarrow> 0) else oldExpiry);
                  newRoles = or oldRoles (pg_role_bits grant) in
                if expiry < 0 \<or> (expiry \<noteq> 0 \<and> expiry \<le> ck_unix_timestamp clock)
                then failP ''Permission expiry must be zero or in the future''
                else if current \<noteq> None \<and> newRoles = oldRoles then returnP record_address
                else
                  let oldValue = \<lparr>pv_subject = subject, pv_scope_kind = pg_scope_kind grant, pv_scope_key = scopeKey,
                        pv_role_bits = oldRoles, pv_generation = oldGeneration, pv_expiry = oldExpiry\<rparr> in
                  change_permission context record_address oldValue
                    (oldValue\<lparr>pv_role_bits := newRoles, pv_generation := oldGeneration + 1, pv_expiry := expiry\<rparr>)))))))))"

section \<open>A direct pathway\<close>

definition POLICY_IDENTIFIERS :: "string list" where
  "POLICY_IDENTIFIERS = [''reserve_compartment_policy_id'', ''limit_policy_id'', ''evidence_policy_id'', ''fee_policy_id'',
     ''insurance_policy_id'', ''asset_mint_limit_policy_id'', ''asset_redeem_limit_policy_id'',
     ''counterparty_limit_policy_id'', ''executor_limit_policy_id'']"

definition directPathwayId :: "(bytes \<Rightarrow> bytes) \<Rightarrow> string \<Rightarrow> string \<Rightarrow> string option \<Rightarrow> bytes res" where
  "directPathwayId H assetMint principalKey explicitId =
     bindR (case explicitId of
              None \<Rightarrow>
                bindR (decodePublicKey (KeyText assetMint)) (\<lambda>mint.
                bindR (decodePublicKey (KeyText ISSUED_TOKEN_MINT)) (\<lambda>issued.
                bindR (decodePublicKey (KeyText principalKey)) (\<lambda>key.
                  Inr (H (utf8_encode ''chancery-devnet:direct-pathway:v1'' @ mint @ issued @ key)))))
            | Some text \<Rightarrow> bytes32FromInput (KeyText text)) (\<lambda>identifier.
       if list_all (\<lambda>byte. byte = 0) identifier then throw ''Pathway id must be nonzero'' else Inr identifier)"

definition register_pathway :: "'w devnet_context \<Rightarrow> test_asset \<Rightarrow> bytes \<Rightarrow> ('w, string) rpc_io" where
  "register_pathway context asset pathwayId =
     (let host = dc_host context; zero = JBytes (replicate 32 0); zeroAddress = zero_address (schema_wire (dn_schema host)) in
      bindP (liftP (controllerAuthority (dn_hash host) 1)) (\<lambda>operations.
      bindP (instructionP host ''register_pathway_policy''
               ([(''pathway_id'', JBytes pathwayId), (''pathway_kind'', JNum 0), (''asset_mint'', JStr (ta_asset_mint asset)),
                 (''issued_token_mint'', JStr ISSUED_TOKEN_MINT), (''designated_executor'', JStr zeroAddress),
                 (''reserve_compartment_policy_id'', zero), (''limit_policy_id'', zero), (''evidence_policy_id'', zero),
                 (''fee_policy_id'', zero), (''insurance_policy_id'', zero), (''asset_mint_limit_policy_id'', zero),
                 (''asset_redeem_limit_policy_id'', zero), (''counterparty_limit_policy_id'', zero),
                 (''executor_limit_policy_id'', zero)])
               [(''payer'', kp_public_key (dc_signer context)), (''operations_authority'', operations),
                (''limit_policy'', zeroAddress), (''evidence_policy'', zeroAddress), (''fee_policy'', zeroAddress),
                (''insurance_policy'', zeroAddress), (''asset_mint_limit_policy'', zeroAddress),
                (''asset_redeem_limit_policy'', zeroAddress), (''counterparty_limit_policy'', zeroAddress),
                (''executor_limit_policy'', zeroAddress)]) (\<lambda>instruction.
        relayP context instruction)))"

text \<open>The test of the pathway account that has to be there in the end.\<close>

definition pathway_differs :: "'w devnet \<Rightarrow> test_asset \<Rightarrow> nat \<Rightarrow> js_object \<Rightarrow> bool res" where
  "pathway_differs host asset bump values =
     anyR ([bindR (requireNumberField values ''bump'') (\<lambda>n. Inr (n \<noteq> int bump)),
            bindR (requireNumberField values ''pathway_kind'') (\<lambda>n. Inr (n \<noteq> 0)),
            bindR (requirePublicKeyField values ''asset_mint'') (\<lambda>key. Inr (key \<noteq> ta_asset_mint asset)),
            bindR (requirePublicKeyField values ''issued_token_mint'') (\<lambda>key. Inr (key \<noteq> ISSUED_TOKEN_MINT)),
            bindR (requirePublicKeyField values ''designated_executor'') (\<lambda>key. Inr (key \<noteq> zero_address (schema_wire (dn_schema host)))),
            bindR (pathwayIsActive values) (\<lambda>active. Inr (\<not> active))]
           @ map (\<lambda>name. bindR (isZeroBytes32 (obj_get values name)) (\<lambda>zero. Inr (\<not> zero))) POLICY_IDENTIFIERS)"

definition registerDirectPathway :: "'w devnet_context \<Rightarrow> test_asset \<Rightarrow> bytes \<Rightarrow> ('w, string) rpc_io" where
  "registerDirectPathway context asset pathwayId =
     (let host = dc_host context in
      bindP (liftP (derivePathwayPolicyAddress (dn_hash host) (dn_schema host) (KeyBytes pathwayId))) (\<lambda>pathway.
      bindP (readChanceryAccount host (pda_address pathway) ''PathwayPolicy'') (\<lambda>found.
      bindP (if found = None
             then bindP (register_pathway context asset pathwayId) (\<lambda>_.
                    readChanceryAccount host (pda_address pathway) ''PathwayPolicy'')
             else returnP found) (\<lambda>current.
        case current of
          None \<Rightarrow> failP ''Pathway state differs from the active direct testing profile: ''
        | Some values \<Rightarrow>
            bindP (liftP (pathway_differs host asset (pda_bump pathway) values)) (\<lambda>differs.
              if differs then failP ''Pathway state differs from the active direct testing profile: ''
              else returnP (pda_address pathway))))))"

section \<open>Test assets\<close>

definition token_account_at :: "'w devnet \<Rightarrow> test_asset \<Rightarrow> string \<Rightarrow> rpc_account_info \<Rightarrow> (decoded_token_account \<Rightarrow> bool)
   \<Rightarrow> string \<Rightarrow> decoded_token_account res" where
  "token_account_at host asset owner_message info accepted identity_message =
     (if ra_owner info \<noteq> ta_token_program asset \<or> ra_executable info then throw owner_message
      else bindR (decodeTokenAccount (ra_data info)) (\<lambda>account.
        if \<not> accepted account then throw identity_message else Inr account))"

definition faucetTestAsset :: "'w devnet_context \<Rightarrow> test_asset \<Rightarrow> string \<Rightarrow> int option \<Rightarrow> ('w, string) rpc_io" where
  "faucetTestAsset context asset recipient amountInput =
     (let host = dc_host context; H = dn_hash host; S = dn_schema host in
      bindP (getAccountInfo (dn_fetch host) (KeyText (ta_asset_mint asset)) Confirmed) (\<lambda>mintAccount.
        case mintAccount of
          None \<Rightarrow> failP ''Configured test mint is missing or owned by another token program''
        | Some mintInfo \<Rightarrow>
            if ra_executable mintInfo \<or> ra_owner mintInfo \<noteq> ta_token_program asset
            then failP ''Configured test mint is missing or owned by another token program''
            else
              bindP (liftP (decodeTokenMint (ra_data mintInfo))) (\<lambda>mint.
              bindP (liftP (anyR [Inr (\<not> tm_initialized mint),
                       bindR (faucetAuthority H) (\<lambda>authority. Inr (tm_mint_authority mint \<noteq> Some authority))])) (\<lambda>foreign.
                if foreign then failP ''Test mint is not controlled by the configured faucet authority''
                else
                  let amount = (case amountInput of Some n \<Rightarrow> n | None \<Rightarrow> 10 ^ tm_decimals mint) in
                  bindP (liftP (deriveAssociatedTokenAddress H (KeyText recipient) (KeyText (ta_asset_mint asset))
                           (KeyText (ta_token_program asset)))) (\<lambda>derived.
                  let destination = pda_address derived in
                  bindP (getAccountInfo (dn_fetch host) (KeyText destination) Confirmed) (\<lambda>previousAccount.
                  bindP (liftP (case previousAccount of
                           None \<Rightarrow> Inr 0
                         | Some info \<Rightarrow>
                             bindR (token_account_at host asset ''Faucet destination has the wrong token-program owner'' info
                               (\<lambda>account. ta_mint account = ta_asset_mint asset \<and> ta_owner account = recipient)
                               ''Faucet destination identity mismatch'') (\<lambda>account. Inr (ta_amount account)))) (\<lambda>previous.
                  bindP (liftP (createAssociatedTokenAccountInstruction H S (kp_public_key (dc_signer context)) recipient
                           (ta_asset_mint asset) (ta_token_program asset))) (\<lambda>create.
                  bindP (liftP (mintTestAssetInstruction H S (ta_asset_mint asset) destination (ta_token_program asset) amount
                           (tm_decimals mint))) (\<lambda>mintTokens.
                  bindP (submitInstructions context [create, mintTokens]) (\<lambda>_.
                  bindP (getAccountInfo (dn_fetch host) (KeyText destination) Confirmed) (\<lambda>account.
                    case account of
                      None \<Rightarrow> failP ''Faucet destination readback failed''
                    | Some info \<Rightarrow>
                        bindP (liftP (token_account_at host asset ''Faucet destination readback failed'' info
                                 (\<lambda>observed. ta_mint observed = ta_asset_mint asset \<and> ta_owner observed = recipient
                                   \<and> ta_amount observed = previous + amount)
                                 ''Faucet balance readback differs from the requested amount'')) (\<lambda>_.
                          returnP destination)))))))))))) "

section \<open>Setup\<close>

record devnet_setup =
  su_pathway_policy :: string
  su_permission_record :: string
  su_asset_account :: string

definition setupDirectTesting ::
  "'w devnet_context \<Rightarrow> js_object \<Rightarrow> test_asset \<Rightarrow> bytes \<Rightarrow> int option \<Rightarrow> ('w, devnet_setup) rpc_io" where
  "setupDirectTesting context configuration asset pathwayId amount =
     (let host = dc_host context; H = dn_hash host; S = dn_schema host; wallet = kp_public_key (dc_signer context) in
      bindP (registerDirectPathway context asset pathwayId) (\<lambda>pathwayPolicy.
      bindP (grantPermission context \<lparr>pg_subject = wallet, pg_scope_kind = SCOPE_PATHWAY, pg_scope_key = pathwayPolicy,
               pg_role_bits = or ROLE_CAN_MINT_DIRECT ROLE_CAN_REDEEM_DIRECT, pg_expiry = None\<rparr>) (\<lambda>permissionRecord.
      bindP (liftP (bindR (requirePublicKeyField configuration ''issued_token_program'') (\<lambda>issuedProgram.
                    createAssociatedTokenAccountInstruction H S wallet wallet ISSUED_TOKEN_MINT issuedProgram)))
        (\<lambda>issuedAccount.
      bindP (liftP (bindR (knownPdaAddress S ''reserve_authority_pda'') (\<lambda>reserveAuthority.
                    createAssociatedTokenAccountInstruction H S wallet reserveAuthority (ta_asset_mint asset)
                      (ta_token_program asset)))) (\<lambda>reserveAccount.
      bindP (submitInstructions context [issuedAccount, reserveAccount]) (\<lambda>_.
      bindP (faucetTestAsset context asset wallet amount) (\<lambda>assetTokenAccount.
        returnP \<lparr>su_pathway_policy = pathwayPolicy, su_permission_record = permissionRecord,
                 su_asset_account = assetTokenAccount\<rparr>)))))))"

section \<open>What a grant establishes\<close>

text \<open>The record asked for, and what was read of it before: roles, generation and expiry.\<close>

definition grant_target ::
  "'w devnet \<Rightarrow> permission_grant \<Rightarrow> string \<Rightarrow> string \<Rightarrow> named_program_address \<Rightarrow> bool" where
  "grant_target host grant subject scopeKey derived \<longleftrightarrow>
     normalizePublicKey (KeyText (pg_subject grant)) = Inr subject \<and> subject \<noteq> zero_address (schema_wire (dn_schema host))
     \<and> normalizePublicKey (KeyText (pg_scope_key grant)) = Inr scopeKey \<and> scope_declared (dn_schema host) (pg_scope_kind grant)
     \<and> derivePermissionRecordAddress (dn_hash host) (dn_schema host) (KeyText subject) (JNum (pg_scope_kind grant)) (KeyText scopeKey)
         = Inr derived
     \<and> (\<exists>active. constant_integer (dn_schema host) ''role.ACTIVE_ROLE_MASK'' = Inr active
           \<and> 0 < pg_role_bits grant \<and> and (pg_role_bits grant) (not active) = 0)"

definition record_holds :: "js_object \<Rightarrow> int \<Rightarrow> int \<Rightarrow> int \<Rightarrow> bool" where
  "record_holds recorded roles generation expiry \<longleftrightarrow> permission_roles recorded = Inr roles
     \<and> requireBigIntField recorded ''permission_generation'' = Inr generation
     \<and> requireBigIntField recorded ''expiry_unix_timestamp'' = Inr expiry
     \<and> requireBigIntField recorded ''permission_flags'' = Inr 0"

text \<open>
  The grant is in force: the record read last is not paused and has every role asked for. Either it had them already and
  nothing was sent; or it has the roles it had and those asked for, one generation later, with its old expiry or, when it
  is new, the expiry asked for, and no dangerous role unless it is scoped and expires.
\<close>

definition grant_in_force :: "'w devnet \<Rightarrow> permission_grant \<Rightarrow> string \<Rightarrow> string \<Rightarrow> named_program_address \<Rightarrow> 'w rpc \<Rightarrow> bool" where
  "grant_in_force host grant subject scopeKey derived st' \<longleftrightarrow>
     (\<exists>st0 current st1 oldRoles oldGeneration oldExpiry.
        readChanceryAccount host (pda_address derived) ''PermissionRecord'' st0 = Inr (current, st1)
        \<and> existing_permission (dn_schema host) grant subject scopeKey (pda_bump derived) current
            = Inr (oldRoles, oldGeneration, oldExpiry)
        \<and> ((\<exists>recorded. current = Some recorded \<and> or oldRoles (pg_role_bits grant) = oldRoles
              \<and> record_holds recorded oldRoles oldGeneration oldExpiry
              \<and> (\<exists>clock. getClock (dn_fetch host) Confirmed st1 = Inr (clock, st')))
          \<or> (\<exists>st2 recorded newRoles expiry dangerous.
               readChanceryAccount host (pda_address derived) ''PermissionRecord'' st2 = Inr (Some recorded, st')
               \<and> newRoles = or oldRoles (pg_role_bits grant)
               \<and> expiry = (if current = None then (case pg_expiry grant of Some t \<Rightarrow> t | None \<Rightarrow> 0) else oldExpiry) \<and> 0 \<le> expiry
               \<and> record_holds recorded newRoles (oldGeneration + 1) expiry
               \<and> constant_integer (dn_schema host) ''role.DANGEROUS_PERMISSION_ROLE_MASK'' = Inr dangerous
               \<and> (and newRoles dangerous \<noteq> 0 \<longrightarrow> pg_scope_kind grant \<noteq> SCOPE_GLOBAL \<and> expiry \<noteq> 0))))"

lemma anyR_False: "anyR tests = Inr False \<longleftrightarrow> list_all (\<lambda>t. t = Inr False) tests"
  by (induction tests) auto

lemma check_granted_ok:
  assumes "check_granted host address v st = Inr (u, st')"
  shows "\<exists>recorded. readChanceryAccount host address ''PermissionRecord'' st = Inr (Some recorded, st')
    \<and> record_holds recorded (pv_role_bits v) (pv_generation v) (pv_expiry v)"
  using assms
  by (auto simp: check_granted_def bindP_Inr liftP_Inr returnP_Inr failP_Inr anyR_False record_holds_def
      split: option.splits if_splits)

lemma existing_permission_holds:
  "existing_permission S grant subject scopeKey bump (Some recorded) = Inr (roles, generation, expiry) \<Longrightarrow>
   record_holds recorded roles generation expiry"
  by (auto simp: existing_permission_def record_holds_def split: if_splits)

lemma change_permission_ok:
  assumes "change_permission context record_address oldValue v st = Inr (address, st')"
  shows "address = record_address \<and> (\<exists>st1 recorded dangerous.
      readChanceryAccount (dc_host context) record_address ''PermissionRecord'' st1 = Inr (Some recorded, st')
      \<and> record_holds recorded (pv_role_bits v) (pv_generation v) (pv_expiry v)
      \<and> constant_integer (dn_schema (dc_host context)) ''role.DANGEROUS_PERMISSION_ROLE_MASK'' = Inr dangerous
      \<and> (and (pv_role_bits v) dangerous \<noteq> 0 \<longrightarrow> pv_scope_kind v \<noteq> SCOPE_GLOBAL \<and> pv_expiry v \<noteq> 0))"
  using assms
  by (auto simp: change_permission_def Let_def bindP_Inr liftP_Inr returnP_Inr failP_Inr dest!: check_granted_ok split: if_splits)

lemma grantPermission_ok:
  assumes "grantPermission context grant st = Inr (address, st')"
  shows "\<exists>subject scopeKey derived. address = pda_address derived \<and> grant_target (dc_host context) grant subject scopeKey derived
    \<and> grant_in_force (dc_host context) grant subject scopeKey derived st'"
proof -
  let ?host = "dc_host context" and ?S = "dn_schema (dc_host context)"
  from assms obtain subject scopeKey active derived current st1 clock st2 oldRoles oldGeneration oldExpiry where
      target: "normalizePublicKey (KeyText (pg_subject grant)) = Inr subject" "subject \<noteq> zero_address (schema_wire ?S)"
        "normalizePublicKey (KeyText (pg_scope_key grant)) = Inr scopeKey" "scope_declared ?S (pg_scope_kind grant)"
        "derivePermissionRecordAddress (dn_hash ?host) ?S (KeyText subject) (JNum (pg_scope_kind grant)) (KeyText scopeKey) = Inr derived"
        "constant_integer ?S ''role.ACTIVE_ROLE_MASK'' = Inr active" "0 < pg_role_bits grant" "and (pg_role_bits grant) (not active) = 0"
    and current: "readChanceryAccount ?host (pda_address derived) ''PermissionRecord'' st = Inr (current, st1)"
      "getClock (dn_fetch ?host) Confirmed st1 = Inr (clock, st2)"
      "existing_permission ?S grant subject scopeKey (pda_bump derived) current = Inr (oldRoles, oldGeneration, oldExpiry)"
    and rest: "(let expiry = (if current = None then (case pg_expiry grant of Some t \<Rightarrow> t | None \<Rightarrow> 0) else oldExpiry);
                  newRoles = or oldRoles (pg_role_bits grant) in
                if expiry < 0 \<or> (expiry \<noteq> 0 \<and> expiry \<le> ck_unix_timestamp clock)
                then failP ''Permission expiry must be zero or in the future''
                else if current \<noteq> None \<and> newRoles = oldRoles then returnP (pda_address derived)
                else
                  let oldValue = \<lparr>pv_subject = subject, pv_scope_kind = pg_scope_kind grant, pv_scope_key = scopeKey,
                        pv_role_bits = oldRoles, pv_generation = oldGeneration, pv_expiry = oldExpiry\<rparr> in
                  change_permission context (pda_address derived) oldValue
                    (oldValue\<lparr>pv_role_bits := newRoles, pv_generation := oldGeneration + 1, pv_expiry := expiry\<rparr>)) st2
              = Inr (address, st')"
    by (auto simp: grantPermission_def Let_def [of "dc_host context"] Let_def [of ?S] Let_def [of "pda_address _"]
        bindP_Inr liftP_Inr failP_Inr simp del: Let_const split: if_splits)
  have "grant_target ?host grant subject scopeKey derived" using target by (auto simp: grant_target_def)
  moreover have "address = pda_address derived \<and> grant_in_force ?host grant subject scopeKey derived st'"
  proof (cases "current \<noteq> None \<and> or oldRoles (pg_role_bits grant) = oldRoles")
    case True
    then obtain recorded where recorded: "current = Some recorded" by blast
    with rest True have "address = pda_address derived" "st' = st2"
      by (auto simp: Let_def failP_Inr returnP_Inr split: if_splits)
    then show ?thesis
      unfolding grant_in_force_def using current True recorded existing_permission_holds [OF current(3) [unfolded recorded]] by blast
  next
    case False
    define expiry where "expiry = (if current = None then (case pg_expiry grant of Some t \<Rightarrow> t | None \<Rightarrow> 0) else oldExpiry)"
    let ?old = "\<lparr>pv_subject = subject, pv_scope_kind = pg_scope_kind grant, pv_scope_key = scopeKey,
        pv_role_bits = oldRoles, pv_generation = oldGeneration, pv_expiry = oldExpiry\<rparr>"
    let ?v = "?old\<lparr>pv_role_bits := or oldRoles (pg_role_bits grant), pv_generation := oldGeneration + 1, pv_expiry := expiry\<rparr>"
    from rest False have "0 \<le> expiry" "change_permission context (pda_address derived) ?old ?v st2 = Inr (address, st')"
      unfolding Let_def expiry_def [symmetric] by (simp_all only: failP_Inr split: if_split_asm) auto
    from this(1) change_permission_ok [OF this(2)] current expiry_def show ?thesis
      unfolding grant_in_force_def permission_value.simps by blast
  qed
  ultimately show ?thesis by blast
qed

section \<open>What a proposal commits to\<close>

lemma unsigned_width:
  assumes "encodeUnsignedInteger v n = Inr bs" "integerFromValue v = Inr k"
  shows "length bs = n \<and> decodeUnsignedInteger bs = k"
proof -
  from assms have "0 \<le> k" "k < 2 ^ (n * 8)" by (auto simp: encodeUnsignedInteger_def split: if_splits)
  from decode_encode_unsigned [OF assms(2) this] assms(1) show ?thesis by (metis sum.inject(2))
qed

lemma signed_width:
  assumes "encodeSignedInteger v n = Inr bs" "integerFromValue v = Inr k" "0 < n"
  shows "length bs = n \<and> decodeSignedInteger bs = k"
proof -
  from assms have "- (2 ^ (n * 8 - 1)) \<le> k" "k < 2 ^ (n * 8 - 1)"
    by (auto simp: encodeSignedInteger_def Let_def split: if_splits)
  from decode_encode_signed [OF assms(2) this assms(3)] assms(1) show ?thesis by (metis sum.inject(2))
qed

lemma key_of_text: "decodePublicKey (KeyText s) = Inr bs \<Longrightarrow> length bs = 32 \<and> s = encodeBase58 bs"
  by (metis decodePublicKey_length decodePublicKey_text_is_key is_keyE sum.inject(2))

text \<open>The fields of a payload, of 32, 1, 32, 16, 8 and 8 bytes.\<close>

definition payload_fields :: "chancery_schema \<Rightarrow> permission_value \<Rightarrow> bytes \<Rightarrow> bytes list \<Rightarrow> bool" where
  "payload_fields S v payload parts \<longleftrightarrow> payload = concat parts \<and> map length parts = [32, 1, 32, 16, 8, 8]
     \<and> pv_subject v = encodeBase58 (parts ! 0) \<and> pv_scope_kind v = decodeUnsignedInteger (parts ! 1)
     \<and> pv_scope_key v = encodeBase58 (parts ! 2) \<and> pv_role_bits v = decodeUnsignedInteger (parts ! 3)
     \<and> pv_generation v = decodeUnsignedInteger (parts ! 4) \<and> pv_expiry v = decodeSignedInteger (parts ! 5)"

lemma payload_has_fields:
  assumes "permissionValuePayload S v = Inr payload"
  shows "\<exists>parts. payload_fields S v payload parts"
proof -
  from assms obtain subject scopeKind scopeKey roleBits generation expiry where
      "decodePublicKey (KeyText (pv_subject v)) = Inr subject" "decodePublicKey (KeyText (pv_scope_key v)) = Inr scopeKey"
      "encodeUnsignedInteger (JNum (pv_scope_kind v)) 1 = Inr scopeKind"
      "encodeUnsignedInteger (JBig (pv_role_bits v)) 16 = Inr roleBits"
      "encodeUnsignedInteger (JBig (pv_generation v)) 8 = Inr generation"
      "encodeSignedInteger (JBig (pv_expiry v)) 8 = Inr expiry"
      "payload = subject @ scopeKind @ scopeKey @ roleBits @ generation @ expiry"
    by (auto simp: permissionValuePayload_def encodeType_def encodePrimitive_def split: if_splits)
  moreover from this(3) have "integerFromValue (JNum (pv_scope_kind v)) = Inr (pv_scope_kind v)"
    by (auto simp: encodeUnsignedInteger_def integerFromValue_def split: if_splits)
  ultimately show ?thesis
    unfolding payload_fields_def
    by (intro exI [of _ "[subject, scopeKind, scopeKey, roleBits, generation, expiry]"])
      (auto dest!: unsigned_width signed_width key_of_text)
qed

lemma concat_fixed_widths:
  "concat xss = concat yss \<Longrightarrow> map length xss = map length yss \<Longrightarrow> xss = yss"
  by (induction xss arbitrary: yss) (auto simp: Cons_eq_map_conv)

lemma permissionValuePayload_inj:
  assumes "permissionValuePayload S v = Inr payload" "permissionValuePayload S w = Inr payload"
  shows "v = w"
proof -
  from payload_has_fields [OF assms(1)] payload_has_fields [OF assms(2)] obtain vs ws where
    fields: "payload_fields S v payload vs" "payload_fields S w payload ws" by blast
  then have "vs = ws" by (auto simp: payload_fields_def intro: concat_fixed_widths)
  with fields show ?thesis by (cases v, cases w) (simp add: payload_fields_def)
qed

text \<open>
  The hash of a permission value is taken of bytes from which the record, the risk class and the value can be told; so a
  proposal commits to all three, up to a collision of the hash.
\<close>

definition permission_preimage :: "chancery_schema \<Rightarrow> string \<Rightarrow> nat \<Rightarrow> permission_value \<Rightarrow> bytes res" where
  "permission_preimage S target risk v =
     bindR (decodePublicKey (KeyText target)) (\<lambda>targetBytes.
     bindR (permissionValuePayload S v) (\<lambda>payload.
       Inr (utf8_encode ''chancery:pending-config-change:v1'' @ [0, 5] @ targetBytes @ [word_of_nat risk] @ payload)))"

lemma hash_of_preimage:
  "permissionValueHash H S target risk v = Inr digest \<longleftrightarrow> (\<exists>x. permission_preimage S target risk v = Inr x \<and> digest = H x)"
  by (auto simp: permissionValueHash_def permission_preimage_def)

lemma permission_preimage_inj:
  assumes "permission_preimage S target risk v = Inr x" "permission_preimage S target' risk' w = Inr y"
    "risk < 256" "risk' < 256"
  shows "x = y \<longleftrightarrow> target = target' \<and> risk = risk' \<and> v = w"
proof -
  let ?tag = "utf8_encode ''chancery:pending-config-change:v1''"
  from assms(1) obtain t p where t: "decodePublicKey (KeyText target) = Inr t" "permissionValuePayload S v = Inr p"
      "x = ?tag @ [0, 5] @ t @ [word_of_nat risk] @ p"
    by (auto simp: permission_preimage_def)
  from assms(2) obtain t' p' where t': "decodePublicKey (KeyText target') = Inr t'" "permissionValuePayload S w = Inr p'"
      "y = ?tag @ [0, 5] @ t' @ [word_of_nat risk'] @ p'"
    by (auto simp: permission_preimage_def)
  have "(word_of_nat risk :: byte) = word_of_nat risk' \<longleftrightarrow> risk = risk'"
    using assms(3,4) by (simp add: word_of_nat_eq_iff take_bit_nat_eq_self)
  moreover have "t = t' \<longleftrightarrow> target = target'"
    using key_of_text [OF t(1)] key_of_text [OF t'(1)] t(1) t'(1) by (metis sum.inject(2))
  moreover have "p = p' \<longleftrightarrow> v = w"
    using permissionValuePayload_inj t(2) t'(2) by auto
  moreover have "length t = length t'" using key_of_text t(1) t'(1) by metis
  ultimately show ?thesis using t(3) t'(3) by auto
qed

section \<open>A registered pathway and a funded account\<close>

lemma registerDirectPathway_ok:
  assumes "registerDirectPathway context asset pathwayId st = Inr (address, st')"
  shows "\<exists>derived st1 recorded.
    derivePathwayPolicyAddress (dn_hash (dc_host context)) (dn_schema (dc_host context)) (KeyBytes pathwayId) = Inr derived
    \<and> address = pda_address derived
    \<and> readChanceryAccount (dc_host context) address ''PathwayPolicy'' st1 = Inr (Some recorded, st')
    \<and> pathway_differs (dc_host context) asset (pda_bump derived) recorded = Inr False"
proof -
  let ?host = "dc_host context"
  from assms obtain derived found st1 current st2 where
      derived: "derivePathwayPolicyAddress (dn_hash ?host) (dn_schema ?host) (KeyBytes pathwayId) = Inr derived"
    and found: "readChanceryAccount ?host (pda_address derived) ''PathwayPolicy'' st = Inr (found, st1)"
    and current: "(if found = None
        then bindP (register_pathway context asset pathwayId) (\<lambda>_. readChanceryAccount ?host (pda_address derived) ''PathwayPolicy'')
        else returnP found) st1 = Inr (current, st2)"
    and checked: "(case current of
          None \<Rightarrow> failP ''Pathway state differs from the active direct testing profile: ''
        | Some recorded \<Rightarrow>
            bindP (liftP (pathway_differs ?host asset (pda_bump derived) recorded)) (\<lambda>differs.
              if differs then failP ''Pathway state differs from the active direct testing profile: ''
              else returnP (pda_address derived))) st2 = Inr (address, st')"
    unfolding registerDirectPathway_def Let_def bindP_Inr liftP_Inr by blast
  from current found have "\<exists>st3. readChanceryAccount ?host (pda_address derived) ''PathwayPolicy'' st3 = Inr (current, st2)"
    by (cases found) (auto simp: bindP_Inr returnP_Inr)
  moreover from checked obtain recorded where "current = Some recorded" "st2 = st'" "address = pda_address derived"
      "pathway_differs ?host asset (pda_bump derived) recorded = Inr False"
    by (cases current) (auto simp: bindP_Inr liftP_Inr returnP_Inr failP_Inr split: if_splits)
  ultimately show ?thesis using derived by blast
qed

end
