(* ===== verification/OperationDocument.thy ===== *)
theory OperationDocument
  imports DirectSettlement
begin

text \<open>
  \<open>integration/typescript/src/operation.ts\<close>: the operation documents of the market-maker integration. The reading of the
  file and \<open>JSON.parse\<close> are outside; a loader takes the parsed value. A document that loads is exactly the document of
  its operation, up to the order of the fields.
\<close>

definition ROOT_FIELDS :: "string list" where
  "ROOT_FIELDS = [''pathwayId'', ''amount'', ''minimumOutput'', ''accounts'']"

definition POLICY_FIELDS :: "string list" where
  "POLICY_FIELDS =
     [''feePolicy'', ''feeRecipientTokenAccount'', ''limitPolicy'', ''hourlyUsageWindow'', ''dailyUsageWindow'',
     ''weeklyUsageWindow'', ''monthlyUsageWindow'', ''evidencePolicy'', ''assetLimitPolicy'',
     ''assetDailyUsageWindow'', ''counterpartyLimitPolicy'', ''counterpartyDailyUsageWindow'']"

definition MINT_ACCOUNT_FIELDS :: "string list" where
  "MINT_ACCOUNT_FIELDS =
     [''moduleActivationState'', ''chanceryConfig'', ''eventAuthority'', ''pauseState'', ''assetConfig'',
     ''pathwayPolicy'', ''permissionRecord'', ''sourceAssetTokenAccount'', ''reserveAssetTokenAccount'',
     ''destinationIssuedTokenAccount'', ''assetMint'', ''issuedTokenMint'', ''mintAuthorityPda'',
     ''assetTokenProgram'', ''issuedTokenProgram'', ''principal'', ''assetPauseState'', ''issuedTokenControl'',
     ''policyAccounts'']"

definition REDEEM_ACCOUNT_FIELDS :: "string list" where
  "REDEEM_ACCOUNT_FIELDS =
     [''moduleActivationState'', ''chanceryConfig'', ''eventAuthority'', ''pauseState'', ''assetConfig'',
     ''pathwayPolicy'', ''permissionRecord'', ''sourceIssuedTokenAccount'', ''reserveAssetTokenAccount'',
     ''destinationAssetTokenAccount'', ''assetMint'', ''issuedTokenMint'', ''reserveAuthorityPda'',
     ''assetTokenProgram'', ''issuedTokenProgram'', ''principal'', ''assetPauseState'', ''issuedTokenControl'',
     ''policyAccounts'']"

text \<open>The test \<open>value === null || Array.isArray(value) || typeof value !== "object"\<close> on a parsed value.\<close>

definition object_or_throw :: "string \<Rightarrow> js \<Rightarrow> js_object res" where
  "object_or_throw message value = (case value of JObj document \<Rightarrow> Inr document | _ \<Rightarrow> throw message)"

definition readDocument :: "js \<Rightarrow> js_object res" where
  "readDocument parsed = object_or_throw ''Operation document must be a JSON object'' parsed"

definition rejectUnknownFields :: "js_object \<Rightarrow> string list \<Rightarrow> unit res" where
  "rejectUnknownFields document allowedFields =
     (if list_all (\<lambda>field. field \<in> set allowedFields) (map fst document) then Inr () else throw ''Unknown field'')"

definition string_or_null :: "js \<Rightarrow> string option res" where
  "string_or_null account =
     (case account of JNull \<Rightarrow> Inr None | JStr s \<Rightarrow> Inr (Some s)
      | _ \<Rightarrow> throw ''accounts.policyAccounts field must be a string or null'')"

text \<open>The loop over the fields checks them; the value is then used as it is.\<close>

definition readPolicyAccounts :: "js \<Rightarrow> policy_accounts_input res" where
  "readPolicyAccounts value =
     bindR (object_or_throw ''accounts.policyAccounts must be a JSON object'' value) (\<lambda>policy.
     bindR (rejectUnknownFields policy POLICY_FIELDS) (\<lambda>_.
     bindR (mapR (\<lambda>field. string_or_null (obj_get policy field)) POLICY_FIELDS) (\<lambda>_.
       let field = (\<lambda>name. case obj_get policy name of JStr s \<Rightarrow> Some s | _ \<Rightarrow> None) in
       Inr \<lparr>po_feePolicy = field ''feePolicy'', po_feeRecipientTokenAccount = field ''feeRecipientTokenAccount'',
            po_limitPolicy = field ''limitPolicy'', po_hourlyUsageWindow = field ''hourlyUsageWindow'',
            po_dailyUsageWindow = field ''dailyUsageWindow'', po_weeklyUsageWindow = field ''weeklyUsageWindow'',
            po_monthlyUsageWindow = field ''monthlyUsageWindow'', po_evidencePolicy = field ''evidencePolicy'',
            po_assetLimitPolicy = field ''assetLimitPolicy'',
            po_assetDailyUsageWindow = field ''assetDailyUsageWindow'',
            po_counterpartyLimitPolicy = field ''counterpartyLimitPolicy'',
            po_counterpartyDailyUsageWindow = field ''counterpartyDailyUsageWindow''\<rparr>)))"

definition readRequiredString :: "js_object \<Rightarrow> string \<Rightarrow> string res" where
  "readRequiredString document field =
     (case obj_get document field of JStr s \<Rightarrow> Inr s | _ \<Rightarrow> throw ''field must be a string'')"

definition readMintAccounts :: "js_object \<Rightarrow> mint_direct_accounts res" where
  "readMintAccounts accountsDocument =
     bindR (readRequiredString accountsDocument ''moduleActivationState'') (\<lambda>moduleActivationState.
     bindR (readRequiredString accountsDocument ''chanceryConfig'') (\<lambda>chanceryConfig.
     bindR (readRequiredString accountsDocument ''eventAuthority'') (\<lambda>eventAuthority.
     bindR (readRequiredString accountsDocument ''pauseState'') (\<lambda>pauseState.
     bindR (readRequiredString accountsDocument ''assetConfig'') (\<lambda>assetConfig.
     bindR (readRequiredString accountsDocument ''pathwayPolicy'') (\<lambda>pathwayPolicy.
     bindR (readRequiredString accountsDocument ''permissionRecord'') (\<lambda>permissionRecord.
     bindR (readRequiredString accountsDocument ''sourceAssetTokenAccount'') (\<lambda>sourceAssetTokenAccount.
     bindR (readRequiredString accountsDocument ''reserveAssetTokenAccount'') (\<lambda>reserveAssetTokenAccount.
     bindR (readRequiredString accountsDocument ''destinationIssuedTokenAccount'') (\<lambda>destinationIssuedTokenAccount.
     bindR (readRequiredString accountsDocument ''assetMint'') (\<lambda>assetMint.
     bindR (readRequiredString accountsDocument ''issuedTokenMint'') (\<lambda>issuedTokenMint.
     bindR (readRequiredString accountsDocument ''mintAuthorityPda'') (\<lambda>mintAuthorityPda.
     bindR (readRequiredString accountsDocument ''assetTokenProgram'') (\<lambda>assetTokenProgram.
     bindR (readRequiredString accountsDocument ''issuedTokenProgram'') (\<lambda>issuedTokenProgram.
     bindR (readRequiredString accountsDocument ''principal'') (\<lambda>principal.
     bindR (readRequiredString accountsDocument ''assetPauseState'') (\<lambda>assetPauseState.
     bindR (readRequiredString accountsDocument ''issuedTokenControl'') (\<lambda>issuedTokenControl.
     bindR (readPolicyAccounts (obj_get accountsDocument ''policyAccounts'')) (\<lambda>policyAccounts.
       Inr \<lparr>ma_moduleActivationState = moduleActivationState, ma_chanceryConfig = chanceryConfig,
                          ma_eventAuthority = eventAuthority, ma_pauseState = pauseState,
                          ma_assetConfig = assetConfig, ma_pathwayPolicy = pathwayPolicy,
                          ma_permissionRecord = permissionRecord,
                          ma_sourceAssetTokenAccount = sourceAssetTokenAccount,
                          ma_reserveAssetTokenAccount = reserveAssetTokenAccount,
                          ma_destinationIssuedTokenAccount = destinationIssuedTokenAccount, ma_assetMint = assetMint,
                          ma_issuedTokenMint = issuedTokenMint, ma_mintAuthorityPda = mintAuthorityPda,
                          ma_assetTokenProgram = assetTokenProgram, ma_issuedTokenProgram = issuedTokenProgram,
                          ma_principal = principal, ma_assetPauseState = assetPauseState,
                          ma_issuedTokenControl = issuedTokenControl, ma_policyAccounts = policyAccounts\<rparr>)))))))))))))))))))"

definition loadMintDirectOperation :: "js \<Rightarrow> mint_direct_operation res" where
  "loadMintDirectOperation parsed =
     bindR (readDocument parsed) (\<lambda>root.
     bindR (rejectUnknownFields root ROOT_FIELDS) (\<lambda>_.
     bindR (object_or_throw ''operation.accounts must be a JSON object'' (obj_get root ''accounts'')) (\<lambda>accountsDocument.
     bindR (rejectUnknownFields accountsDocument MINT_ACCOUNT_FIELDS) (\<lambda>_.
     bindR (readMintAccounts accountsDocument) (\<lambda>accounts.
     bindR (readRequiredString root ''pathwayId'') (\<lambda>pathwayId.
     bindR (readRequiredString root ''amount'') (\<lambda>amount.
     bindR (readRequiredString root ''minimumOutput'') (\<lambda>minimumOutput.
       Inr \<lparr>do_pathwayId = pathwayId, do_amount = amount, do_minimumOutput = minimumOutput,
            do_accounts = accounts\<rparr>))))))))"

definition readRedeemAccounts :: "js_object \<Rightarrow> redeem_direct_accounts res" where
  "readRedeemAccounts accountsDocument =
     bindR (readRequiredString accountsDocument ''moduleActivationState'') (\<lambda>moduleActivationState.
     bindR (readRequiredString accountsDocument ''chanceryConfig'') (\<lambda>chanceryConfig.
     bindR (readRequiredString accountsDocument ''eventAuthority'') (\<lambda>eventAuthority.
     bindR (readRequiredString accountsDocument ''pauseState'') (\<lambda>pauseState.
     bindR (readRequiredString accountsDocument ''assetConfig'') (\<lambda>assetConfig.
     bindR (readRequiredString accountsDocument ''pathwayPolicy'') (\<lambda>pathwayPolicy.
     bindR (readRequiredString accountsDocument ''permissionRecord'') (\<lambda>permissionRecord.
     bindR (readRequiredString accountsDocument ''sourceIssuedTokenAccount'') (\<lambda>sourceIssuedTokenAccount.
     bindR (readRequiredString accountsDocument ''reserveAssetTokenAccount'') (\<lambda>reserveAssetTokenAccount.
     bindR (readRequiredString accountsDocument ''destinationAssetTokenAccount'') (\<lambda>destinationAssetTokenAccount.
     bindR (readRequiredString accountsDocument ''assetMint'') (\<lambda>assetMint.
     bindR (readRequiredString accountsDocument ''issuedTokenMint'') (\<lambda>issuedTokenMint.
     bindR (readRequiredString accountsDocument ''reserveAuthorityPda'') (\<lambda>reserveAuthorityPda.
     bindR (readRequiredString accountsDocument ''assetTokenProgram'') (\<lambda>assetTokenProgram.
     bindR (readRequiredString accountsDocument ''issuedTokenProgram'') (\<lambda>issuedTokenProgram.
     bindR (readRequiredString accountsDocument ''principal'') (\<lambda>principal.
     bindR (readRequiredString accountsDocument ''assetPauseState'') (\<lambda>assetPauseState.
     bindR (readRequiredString accountsDocument ''issuedTokenControl'') (\<lambda>issuedTokenControl.
     bindR (readPolicyAccounts (obj_get accountsDocument ''policyAccounts'')) (\<lambda>policyAccounts.
       Inr \<lparr>rd_moduleActivationState = moduleActivationState, rd_chanceryConfig = chanceryConfig,
                          rd_eventAuthority = eventAuthority, rd_pauseState = pauseState,
                          rd_assetConfig = assetConfig, rd_pathwayPolicy = pathwayPolicy,
                          rd_permissionRecord = permissionRecord,
                          rd_sourceIssuedTokenAccount = sourceIssuedTokenAccount,
                          rd_reserveAssetTokenAccount = reserveAssetTokenAccount,
                          rd_destinationAssetTokenAccount = destinationAssetTokenAccount, rd_assetMint = assetMint,
                          rd_issuedTokenMint = issuedTokenMint, rd_reserveAuthorityPda = reserveAuthorityPda,
                          rd_assetTokenProgram = assetTokenProgram, rd_issuedTokenProgram = issuedTokenProgram,
                          rd_principal = principal, rd_assetPauseState = assetPauseState,
                          rd_issuedTokenControl = issuedTokenControl, rd_policyAccounts = policyAccounts\<rparr>)))))))))))))))))))"

definition loadRedeemDirectOperation :: "js \<Rightarrow> redeem_direct_operation res" where
  "loadRedeemDirectOperation parsed =
     bindR (readDocument parsed) (\<lambda>root.
     bindR (rejectUnknownFields root ROOT_FIELDS) (\<lambda>_.
     bindR (object_or_throw ''operation.accounts must be a JSON object'' (obj_get root ''accounts'')) (\<lambda>accountsDocument.
     bindR (rejectUnknownFields accountsDocument REDEEM_ACCOUNT_FIELDS) (\<lambda>_.
     bindR (readRedeemAccounts accountsDocument) (\<lambda>accounts.
     bindR (readRequiredString root ''pathwayId'') (\<lambda>pathwayId.
     bindR (readRequiredString root ''amount'') (\<lambda>amount.
     bindR (readRequiredString root ''minimumOutput'') (\<lambda>minimumOutput.
       Inr \<lparr>do_pathwayId = pathwayId, do_amount = amount, do_minimumOutput = minimumOutput,
            do_accounts = accounts\<rparr>))))))))"

section \<open>The document of an operation\<close>

definition policy_js :: "string option \<Rightarrow> js" where
  "policy_js account = (case account of None \<Rightarrow> JNull | Some key \<Rightarrow> JStr key)"

definition policy_entries :: "policy_accounts_input \<Rightarrow> (string \<times> js) list" where
  "policy_entries p =
     [(''feePolicy'', policy_js (po_feePolicy p)),
     (''feeRecipientTokenAccount'', policy_js (po_feeRecipientTokenAccount p)),
     (''limitPolicy'', policy_js (po_limitPolicy p)), (''hourlyUsageWindow'', policy_js (po_hourlyUsageWindow p)),
     (''dailyUsageWindow'', policy_js (po_dailyUsageWindow p)),
     (''weeklyUsageWindow'', policy_js (po_weeklyUsageWindow p)),
     (''monthlyUsageWindow'', policy_js (po_monthlyUsageWindow p)),
     (''evidencePolicy'', policy_js (po_evidencePolicy p)),
     (''assetLimitPolicy'', policy_js (po_assetLimitPolicy p)),
     (''assetDailyUsageWindow'', policy_js (po_assetDailyUsageWindow p)),
     (''counterpartyLimitPolicy'', policy_js (po_counterpartyLimitPolicy p)),
     (''counterpartyDailyUsageWindow'', policy_js (po_counterpartyDailyUsageWindow p))]"

definition mint_entries :: "mint_direct_accounts \<Rightarrow> (string \<times> js) list" where
  "mint_entries a =
     [(''moduleActivationState'', JStr (ma_moduleActivationState a)),
     (''chanceryConfig'', JStr (ma_chanceryConfig a)), (''eventAuthority'', JStr (ma_eventAuthority a)),
     (''pauseState'', JStr (ma_pauseState a)), (''assetConfig'', JStr (ma_assetConfig a)),
     (''pathwayPolicy'', JStr (ma_pathwayPolicy a)), (''permissionRecord'', JStr (ma_permissionRecord a)),
     (''sourceAssetTokenAccount'', JStr (ma_sourceAssetTokenAccount a)),
     (''reserveAssetTokenAccount'', JStr (ma_reserveAssetTokenAccount a)),
     (''destinationIssuedTokenAccount'', JStr (ma_destinationIssuedTokenAccount a)),
     (''assetMint'', JStr (ma_assetMint a)), (''issuedTokenMint'', JStr (ma_issuedTokenMint a)),
     (''mintAuthorityPda'', JStr (ma_mintAuthorityPda a)), (''assetTokenProgram'', JStr (ma_assetTokenProgram a)),
     (''issuedTokenProgram'', JStr (ma_issuedTokenProgram a)), (''principal'', JStr (ma_principal a)),
     (''assetPauseState'', JStr (ma_assetPauseState a)), (''issuedTokenControl'', JStr (ma_issuedTokenControl a))]"

definition redeem_entries :: "redeem_direct_accounts \<Rightarrow> (string \<times> js) list" where
  "redeem_entries a =
     [(''moduleActivationState'', JStr (rd_moduleActivationState a)),
     (''chanceryConfig'', JStr (rd_chanceryConfig a)), (''eventAuthority'', JStr (rd_eventAuthority a)),
     (''pauseState'', JStr (rd_pauseState a)), (''assetConfig'', JStr (rd_assetConfig a)),
     (''pathwayPolicy'', JStr (rd_pathwayPolicy a)), (''permissionRecord'', JStr (rd_permissionRecord a)),
     (''sourceIssuedTokenAccount'', JStr (rd_sourceIssuedTokenAccount a)),
     (''reserveAssetTokenAccount'', JStr (rd_reserveAssetTokenAccount a)),
     (''destinationAssetTokenAccount'', JStr (rd_destinationAssetTokenAccount a)),
     (''assetMint'', JStr (rd_assetMint a)), (''issuedTokenMint'', JStr (rd_issuedTokenMint a)),
     (''reserveAuthorityPda'', JStr (rd_reserveAuthorityPda a)),
     (''assetTokenProgram'', JStr (rd_assetTokenProgram a)),
     (''issuedTokenProgram'', JStr (rd_issuedTokenProgram a)), (''principal'', JStr (rd_principal a)),
     (''assetPauseState'', JStr (rd_assetPauseState a)), (''issuedTokenControl'', JStr (rd_issuedTokenControl a))]"

definition root_entries :: "'a direct_operation \<Rightarrow> (string \<times> js) list" where
  "root_entries operation =
     [(''pathwayId'', JStr (do_pathwayId operation)), (''amount'', JStr (do_amount operation)),
      (''minimumOutput'', JStr (do_minimumOutput operation))]"

text \<open>
  A parsed value is the document of an operation: its objects have exactly the fields of the operation, with its
  values, in some order.
\<close>

definition document_of :: "('a \<Rightarrow> (string \<times> js) list) \<Rightarrow> ('a \<Rightarrow> policy_accounts_input) \<Rightarrow> 'a direct_operation \<Rightarrow> js \<Rightarrow> bool" where
  "document_of account_entries policy_accounts operation parsed \<longleftrightarrow>
     (\<exists>root accounts policy. parsed = JObj root
        \<and> map_of root = (map_of (root_entries operation))(''accounts'' \<mapsto> JObj accounts)
        \<and> map_of accounts = (map_of (account_entries (do_accounts operation)))(''policyAccounts'' \<mapsto> JObj policy)
        \<and> map_of policy = map_of (policy_entries (policy_accounts (do_accounts operation))))"

lemma object_or_throw_Inr: "object_or_throw message parsed = Inr ob \<longleftrightarrow> parsed = JObj ob"
  by (auto simp: object_or_throw_def split: js.splits)

lemma rejectUnknownFields_Inr: "rejectUnknownFields ob allowed = Inr u \<longleftrightarrow> fst ` set ob \<subseteq> set allowed"
  by (auto simp: rejectUnknownFields_def list_all_iff)

lemma obj_get_Str: "obj_get ob k = JStr s \<longleftrightarrow> map_of ob k = Some (JStr s)"
  by (simp add: obj_get_def split: option.splits)

lemma obj_get_Null: "obj_get ob k = JNull \<longleftrightarrow> map_of ob k = Some JNull"
  by (simp add: obj_get_def split: option.splits)

lemma obj_get_Obj: "obj_get ob k = JObj v \<longleftrightarrow> map_of ob k = Some (JObj v)"
  by (simp add: obj_get_def split: option.splits)

lemma readRequiredString_Inr: "readRequiredString ob k = Inr s \<longleftrightarrow> map_of ob k = Some (JStr s)"
  by (auto simp: readRequiredString_def obj_get_Str [symmetric] split: js.splits)

lemma string_or_null_Inr: "string_or_null (obj_get ob k) = Inr a \<longleftrightarrow> map_of ob k = Some (policy_js a)"
  by (cases a) (auto simp: string_or_null_def policy_js_def obj_get_Str [symmetric] obj_get_Null [symmetric] split: js.splits)

text \<open>Two objects have the same content when the fields of one are among the others' and agree with them.\<close>

lemma same_content:
  "distinct (map fst es) \<Longrightarrow>
   map_of ob = map_of es \<longleftrightarrow> fst ` set ob \<subseteq> fst ` set es \<and> list_all (\<lambda>(k, v). map_of ob k = Some v) es"
proof
  assume "distinct (map fst es)" "map_of ob = map_of es"
  then show "fst ` set ob \<subseteq> fst ` set es \<and> list_all (\<lambda>(k, v). map_of ob k = Some v) es"
    by (auto simp: list_all_iff simp flip: dom_map_of_conv_image_fst)
next
  assume dist: "distinct (map fst es)" and
    same: "fst ` set ob \<subseteq> fst ` set es \<and> list_all (\<lambda>(k, v). map_of ob k = Some v) es"
  show "map_of ob = map_of es"
  proof
    fix k
    show "map_of ob k = map_of es k"
    proof (cases "map_of es k")
      case None
      then have "k \<notin> fst ` set es" by (simp add: map_of_eq_None_iff)
      with same None show ?thesis by (metis in_mono map_of_eq_None_iff)
    next
      case (Some v)
      with same show ?thesis by (auto simp: list_all_iff dest!: map_of_SomeD)
    qed
  qed
qed

section \<open>What loads\<close>

lemma readPolicyAccounts_Inr:
  "readPolicyAccounts parsed = Inr p \<longleftrightarrow> (\<exists>policy. parsed = JObj policy \<and> map_of policy = map_of (policy_entries p))"
proof -
  have same: "map_of policy = map_of (policy_entries p) \<longleftrightarrow>
      fst ` set policy \<subseteq> set POLICY_FIELDS \<and> list_all (\<lambda>(k, v). map_of policy k = Some v) (policy_entries p)" for policy
    by (subst same_content) (simp_all add: policy_entries_def POLICY_FIELDS_def)
  let ?field = "\<lambda>policy k. case obj_get policy k of JStr s \<Rightarrow> Some s | _ \<Rightarrow> None"
  have field: "is_ok (string_or_null (obj_get policy k)) \<and> ?field policy k = a \<longleftrightarrow> map_of policy k = Some (policy_js a)"
    for policy k and a
    by (cases a) (auto simp: string_or_null_def policy_js_def obj_get_def is_ok_iff split: option.splits js.splits)
  have checked: "(\<exists>xs. mapR f ks = Inr xs) \<longleftrightarrow> list_all (\<lambda>k. is_ok (f k)) ks" for f :: "string \<Rightarrow> string option res" and ks
    by (induction ks) (auto simp: is_ok_iff)
  have "readPolicyAccounts parsed = Inr p \<longleftrightarrow>
      (\<exists>policy. parsed = JObj policy \<and> fst ` set policy \<subseteq> set POLICY_FIELDS
        \<and> (\<exists>xs. mapR (\<lambda>field. string_or_null (obj_get policy field)) POLICY_FIELDS = Inr xs)
        \<and> p = \<lparr>po_feePolicy = ?field policy ''feePolicy'',
            po_feeRecipientTokenAccount = ?field policy ''feeRecipientTokenAccount'',
            po_limitPolicy = ?field policy ''limitPolicy'',
            po_hourlyUsageWindow = ?field policy ''hourlyUsageWindow'',
            po_dailyUsageWindow = ?field policy ''dailyUsageWindow'',
            po_weeklyUsageWindow = ?field policy ''weeklyUsageWindow'',
            po_monthlyUsageWindow = ?field policy ''monthlyUsageWindow'',
            po_evidencePolicy = ?field policy ''evidencePolicy'',
            po_assetLimitPolicy = ?field policy ''assetLimitPolicy'',
            po_assetDailyUsageWindow = ?field policy ''assetDailyUsageWindow'',
            po_counterpartyLimitPolicy = ?field policy ''counterpartyLimitPolicy'',
            po_counterpartyDailyUsageWindow = ?field policy ''counterpartyDailyUsageWindow''\<rparr>)"
    by (auto simp: readPolicyAccounts_def object_or_throw_Inr rejectUnknownFields_Inr Let_def)
  then show ?thesis
    unfolding checked same
    by (cases p) (auto simp: POLICY_FIELDS_def policy_entries_def field [symmetric])
qed

lemma readMintAccounts_Inr:
  "readMintAccounts ob = Inr a \<longleftrightarrow> list_all (\<lambda>(k, v). map_of ob k = Some v) (mint_entries a)
     \<and> readPolicyAccounts (obj_get ob ''policyAccounts'') = Inr (ma_policyAccounts a)"
  by (cases a) (auto simp: readMintAccounts_def readRequiredString_Inr mint_entries_def)

lemma readRedeemAccounts_Inr:
  "readRedeemAccounts ob = Inr a \<longleftrightarrow> list_all (\<lambda>(k, v). map_of ob k = Some v) (redeem_entries a)
     \<and> readPolicyAccounts (obj_get ob ''policyAccounts'') = Inr (rd_policyAccounts a)"
  by (cases a) (auto simp: readRedeemAccounts_def readRequiredString_Inr redeem_entries_def)

lemma same_content_with:
  assumes "distinct (k0 # map fst es)"
  shows "map_of ob = (map_of es)(k0 \<mapsto> v0) \<longleftrightarrow>
    fst ` set ob \<subseteq> insert k0 (fst ` set es) \<and> map_of ob k0 = Some v0 \<and> list_all (\<lambda>(k, v). map_of ob k = Some v) es"
  using same_content [of "(k0, v0) # es" ob] assms by simp

lemma loadMintDirectOperation_Inr:
  "loadMintDirectOperation parsed = Inr operation \<longleftrightarrow> document_of mint_entries ma_policyAccounts operation parsed"
proof -
  have root: "map_of root = (map_of (root_entries operation))(''accounts'' \<mapsto> v) \<longleftrightarrow>
      fst ` set root \<subseteq> set ROOT_FIELDS \<and> map_of root ''accounts'' = Some v \<and>
      list_all (\<lambda>(k, v). map_of root k = Some v) (root_entries operation)" for root v
    by (subst same_content_with) (simp_all add: root_entries_def ROOT_FIELDS_def insert_commute)
  have accounts: "map_of ob = (map_of (mint_entries a))(''policyAccounts'' \<mapsto> v) \<longleftrightarrow>
      fst ` set ob \<subseteq> set MINT_ACCOUNT_FIELDS \<and> map_of ob ''policyAccounts'' = Some v \<and>
      list_all (\<lambda>(k, v). map_of ob k = Some v) (mint_entries a)" for ob v a
    by (subst same_content_with) (simp_all add: mint_entries_def MINT_ACCOUNT_FIELDS_def insert_commute)
  show ?thesis
    unfolding loadMintDirectOperation_def readDocument_def bindR_eq_Inr object_or_throw_Inr rejectUnknownFields_Inr
      readMintAccounts_Inr readPolicyAccounts_Inr document_of_def root accounts readRequiredString_Inr obj_get_Obj
    by (cases operation) (auto simp: root_entries_def)
qed

lemma loadRedeemDirectOperation_Inr:
  "loadRedeemDirectOperation parsed = Inr operation \<longleftrightarrow> document_of redeem_entries rd_policyAccounts operation parsed"
proof -
  have root: "map_of root = (map_of (root_entries operation))(''accounts'' \<mapsto> v) \<longleftrightarrow>
      fst ` set root \<subseteq> set ROOT_FIELDS \<and> map_of root ''accounts'' = Some v \<and>
      list_all (\<lambda>(k, v). map_of root k = Some v) (root_entries operation)" for root v
    by (subst same_content_with) (simp_all add: root_entries_def ROOT_FIELDS_def insert_commute)
  have accounts: "map_of ob = (map_of (redeem_entries a))(''policyAccounts'' \<mapsto> v) \<longleftrightarrow>
      fst ` set ob \<subseteq> set REDEEM_ACCOUNT_FIELDS \<and> map_of ob ''policyAccounts'' = Some v \<and>
      list_all (\<lambda>(k, v). map_of ob k = Some v) (redeem_entries a)" for ob v a
    by (subst same_content_with) (simp_all add: redeem_entries_def REDEEM_ACCOUNT_FIELDS_def insert_commute)
  show ?thesis
    unfolding loadRedeemDirectOperation_def readDocument_def bindR_eq_Inr object_or_throw_Inr rejectUnknownFields_Inr
      readRedeemAccounts_Inr readPolicyAccounts_Inr document_of_def root accounts readRequiredString_Inr obj_get_Obj
    by (cases operation) (auto simp: root_entries_def)
qed

end
