(* ===== verification/DevnetOperation.thy ===== *)
theory DevnetOperation
  imports SettlementSafety DirectSettlementSafety OperationDocument
begin

text \<open>
  The operation document of the devnet tooling (\<open>integration/devnet/operation\<close>): a ready direct inspection is written
  as the input of the market-maker builders. From the document they make the instruction that the client would build
  from the inspection.
\<close>

section \<open>The part of an inspection that is used\<close>

record direct_inspection =
  dx_ready :: bool
  dx_issues :: "string list"
  dx_instruction_name :: string
  dx_arguments :: js_object
  dx_accounts :: account_inputs
  dx_mode :: settlement_mode
  dx_action :: settlement_action
  dx_input_amount :: int
  dx_minimum_output :: int

definition direct_pick :: "settlement_inspection \<Rightarrow> direct_inspection" where
  "direct_pick insp =
     \<lparr>dx_ready = in_ready insp, dx_issues = in_issues insp, dx_instruction_name = in_instruction_name insp,
      dx_arguments = in_arguments insp, dx_accounts = in_accounts insp, dx_mode = nr_mode (in_request insp),
      dx_action = nr_action (in_request insp), dx_input_amount = amt_input (in_amounts insp),
      dx_minimum_output = amt_minimum_output (in_amounts insp)\<rparr>"

section \<open>The document\<close>

datatype operation_input = MintInput mint_direct_operation | RedeemInput redeem_direct_operation

definition resolved_address :: "chancery_instruction \<Rightarrow> string \<Rightarrow> string res" where
  "resolved_address instruction name =
     (case List.find (\<lambda>account. am_name account = name) (ci_accounts instruction) of
        None \<Rightarrow> throw ''Resolved operation account is missing'' | Some account \<Rightarrow> Inr (am_address account))"

definition policy_address :: "chancery_schema \<Rightarrow> chancery_instruction \<Rightarrow> string \<Rightarrow> string option res" where
  "policy_address S instruction name =
     bindR (resolved_address instruction name) (\<lambda>address.
       Inr (if address = zero_address (schema_wire S) then None else Some address))"

definition policy_accounts_document :: "chancery_schema \<Rightarrow> chancery_instruction \<Rightarrow> policy_accounts_input res" where
  "policy_accounts_document S i =
     bindR (policy_address S i ''fee_policy'') (\<lambda>feePolicy.
     bindR (policy_address S i ''fee_recipient_token_account'') (\<lambda>feeRecipient.
     bindR (policy_address S i ''limit_policy'') (\<lambda>limitPolicy.
     bindR (policy_address S i ''hourly_usage_window'') (\<lambda>hourly.
     bindR (policy_address S i ''daily_usage_window'') (\<lambda>daily.
     bindR (policy_address S i ''weekly_usage_window'') (\<lambda>weekly.
     bindR (policy_address S i ''monthly_usage_window'') (\<lambda>monthly.
     bindR (policy_address S i ''evidence_policy'') (\<lambda>evidence.
     bindR (policy_address S i ''asset_limit_policy'') (\<lambda>assetLimit.
     bindR (policy_address S i ''asset_daily_usage_window'') (\<lambda>assetDaily.
     bindR (policy_address S i ''counterparty_limit_policy'') (\<lambda>counterpartyLimit.
     bindR (policy_address S i ''counterparty_daily_usage_window'') (\<lambda>counterpartyDaily.
       Inr \<lparr>po_feePolicy = feePolicy, po_feeRecipientTokenAccount = feeRecipient, po_limitPolicy = limitPolicy,
            po_hourlyUsageWindow = hourly, po_dailyUsageWindow = daily, po_weeklyUsageWindow = weekly,
            po_monthlyUsageWindow = monthly, po_evidencePolicy = evidence, po_assetLimitPolicy = assetLimit,
            po_assetDailyUsageWindow = assetDaily, po_counterpartyLimitPolicy = counterpartyLimit,
            po_counterpartyDailyUsageWindow = counterpartyDaily\<rparr>))))))))))))"

text \<open>The accounts both actions have.\<close>

record shared_accounts =
  sh_moduleActivationState :: string
  sh_chanceryConfig :: string
  sh_eventAuthority :: string
  sh_pauseState :: string
  sh_assetConfig :: string
  sh_pathwayPolicy :: string
  sh_permissionRecord :: string
  sh_reserveAssetTokenAccount :: string
  sh_assetMint :: string
  sh_issuedTokenMint :: string
  sh_assetTokenProgram :: string
  sh_issuedTokenProgram :: string
  sh_principal :: string
  sh_assetPauseState :: string
  sh_issuedTokenControl :: string
  sh_policyAccounts :: policy_accounts_input

definition shared_accounts_document :: "chancery_schema \<Rightarrow> chancery_instruction \<Rightarrow> shared_accounts res" where
  "shared_accounts_document S i =
     bindR (resolved_address i ''module_activation_state'') (\<lambda>moduleActivationState.
     bindR (resolved_address i ''chancery_config'') (\<lambda>chanceryConfig.
     bindR (resolved_address i ''event_authority'') (\<lambda>eventAuthority.
     bindR (resolved_address i ''pause_state'') (\<lambda>pauseState.
     bindR (resolved_address i ''asset_config'') (\<lambda>assetConfig.
     bindR (resolved_address i ''pathway_policy'') (\<lambda>pathwayPolicy.
     bindR (resolved_address i ''permission_record'') (\<lambda>permissionRecord.
     bindR (resolved_address i ''reserve_asset_token_account'') (\<lambda>reserve.
     bindR (resolved_address i ''asset_mint'') (\<lambda>assetMint.
     bindR (resolved_address i ''issued_token_mint'') (\<lambda>issuedMint.
     bindR (resolved_address i ''asset_token_program'') (\<lambda>assetProgram.
     bindR (resolved_address i ''issued_token_program'') (\<lambda>issuedProgram.
     bindR (resolved_address i ''principal'') (\<lambda>principalKey.
     bindR (resolved_address i ''asset_pause_state'') (\<lambda>assetPause.
     bindR (resolved_address i ''issued_token_control'') (\<lambda>issuedControl.
     bindR (policy_accounts_document S i) (\<lambda>policyAccounts.
       Inr \<lparr>sh_moduleActivationState = moduleActivationState, sh_chanceryConfig = chanceryConfig,
            sh_eventAuthority = eventAuthority, sh_pauseState = pauseState, sh_assetConfig = assetConfig,
            sh_pathwayPolicy = pathwayPolicy, sh_permissionRecord = permissionRecord, sh_reserveAssetTokenAccount = reserve,
            sh_assetMint = assetMint, sh_issuedTokenMint = issuedMint, sh_assetTokenProgram = assetProgram,
            sh_issuedTokenProgram = issuedProgram, sh_principal = principalKey, sh_assetPauseState = assetPause,
            sh_issuedTokenControl = issuedControl, sh_policyAccounts = policyAccounts\<rparr>))))))))))))))))"

definition mint_input :: "chancery_instruction \<Rightarrow> shared_accounts \<Rightarrow> string \<Rightarrow> string \<Rightarrow> string \<Rightarrow> operation_input res" where
  "mint_input i shared pathwayId amount minimumOutput =
     bindR (resolved_address i ''source_asset_token_account'') (\<lambda>source.
     bindR (resolved_address i ''destination_issued_token_account'') (\<lambda>destination.
     bindR (resolved_address i ''mint_authority_pda'') (\<lambda>authority.
       Inr (MintInput \<lparr>do_pathwayId = pathwayId, do_amount = amount, do_minimumOutput = minimumOutput,
         do_accounts = \<lparr>ma_moduleActivationState = sh_moduleActivationState shared,
           ma_chanceryConfig = sh_chanceryConfig shared, ma_eventAuthority = sh_eventAuthority shared,
           ma_pauseState = sh_pauseState shared, ma_assetConfig = sh_assetConfig shared,
           ma_pathwayPolicy = sh_pathwayPolicy shared, ma_permissionRecord = sh_permissionRecord shared,
           ma_sourceAssetTokenAccount = source, ma_reserveAssetTokenAccount = sh_reserveAssetTokenAccount shared,
           ma_destinationIssuedTokenAccount = destination, ma_assetMint = sh_assetMint shared,
           ma_issuedTokenMint = sh_issuedTokenMint shared, ma_mintAuthorityPda = authority,
           ma_assetTokenProgram = sh_assetTokenProgram shared, ma_issuedTokenProgram = sh_issuedTokenProgram shared,
           ma_principal = sh_principal shared, ma_assetPauseState = sh_assetPauseState shared,
           ma_issuedTokenControl = sh_issuedTokenControl shared, ma_policyAccounts = sh_policyAccounts shared\<rparr>\<rparr>))))"

definition redeem_input :: "chancery_instruction \<Rightarrow> shared_accounts \<Rightarrow> string \<Rightarrow> string \<Rightarrow> string \<Rightarrow> operation_input res" where
  "redeem_input i shared pathwayId amount minimumOutput =
     bindR (resolved_address i ''source_issued_token_account'') (\<lambda>source.
     bindR (resolved_address i ''destination_asset_token_account'') (\<lambda>destination.
     bindR (resolved_address i ''reserve_authority_pda'') (\<lambda>authority.
       Inr (RedeemInput \<lparr>do_pathwayId = pathwayId, do_amount = amount, do_minimumOutput = minimumOutput,
         do_accounts = \<lparr>rd_moduleActivationState = sh_moduleActivationState shared,
           rd_chanceryConfig = sh_chanceryConfig shared, rd_eventAuthority = sh_eventAuthority shared,
           rd_pauseState = sh_pauseState shared, rd_assetConfig = sh_assetConfig shared,
           rd_pathwayPolicy = sh_pathwayPolicy shared, rd_permissionRecord = sh_permissionRecord shared,
           rd_sourceIssuedTokenAccount = source, rd_reserveAssetTokenAccount = sh_reserveAssetTokenAccount shared,
           rd_destinationAssetTokenAccount = destination, rd_assetMint = sh_assetMint shared,
           rd_issuedTokenMint = sh_issuedTokenMint shared, rd_reserveAuthorityPda = authority,
           rd_assetTokenProgram = sh_assetTokenProgram shared, rd_issuedTokenProgram = sh_issuedTokenProgram shared,
           rd_principal = sh_principal shared, rd_assetPauseState = sh_assetPauseState shared,
           rd_issuedTokenControl = sh_issuedTokenControl shared, rd_policyAccounts = sh_policyAccounts shared\<rparr>\<rparr>))))"

definition directOperationDocument ::
  "(bytes \<Rightarrow> bytes) \<Rightarrow> chancery_schema \<Rightarrow> direct_inspection \<Rightarrow> operation_input res" where
  "directOperationDocument H S insp =
     (if \<not> dx_ready insp \<or> dx_mode insp \<noteq> Direct then throw ''Operation requires a ready direct settlement inspection: ''
      else if dx_instruction_name insp \<noteq> action_name (dx_action insp) @ ''_direct''
      then throw ''Inspection instruction differs from its direct settlement action''
      else
        bindR (buildChanceryInstruction H S (dx_instruction_name insp) (dx_arguments insp) (dx_accounts insp) True)
          (\<lambda>instruction.
        bindR (shared_accounts_document S instruction) (\<lambda>shared.
        bindR (bytes32Hex (obj_get (dx_arguments insp) ''pathway_id'')) (\<lambda>pathwayId.
        let amount = show_int (dx_input_amount insp); minimumOutput = show_int (dx_minimum_output insp) in
          if dx_action insp = Mint then mint_input instruction shared pathwayId amount minimumOutput
          else redeem_input instruction shared pathwayId amount minimumOutput))))"

section \<open>The document that is written\<close>

text \<open>The fields of the accounts, in the order of the source: those both actions have, then those of the action.\<close>

definition SHARED_ORDER :: "string list" where
  "SHARED_ORDER =
     [''moduleActivationState'', ''chanceryConfig'', ''eventAuthority'', ''pauseState'', ''assetConfig'', ''pathwayPolicy'',
      ''permissionRecord'', ''reserveAssetTokenAccount'', ''assetMint'', ''issuedTokenMint'', ''assetTokenProgram'',
      ''issuedTokenProgram'', ''principal'', ''assetPauseState'', ''issuedTokenControl'', ''policyAccounts'']"

definition in_order :: "string list \<Rightarrow> (string \<times> js) list \<Rightarrow> js_object" where
  "in_order names entries = map (\<lambda>name. (name, obj_get entries name)) names"

definition written_document :: "js_object \<Rightarrow> policy_accounts_input \<Rightarrow> string list \<Rightarrow> 'a direct_operation \<Rightarrow> js" where
  "written_document entries policy order operation =
     JObj (root_entries operation @
       [(''accounts'', JObj (in_order (SHARED_ORDER @ order) (entries @ [(''policyAccounts'', JObj (policy_entries policy))])))])"

definition document_js :: "operation_input \<Rightarrow> js" where
  "document_js operation =
     (case operation of
        MintInput m \<Rightarrow> written_document (mint_entries (do_accounts m)) (ma_policyAccounts (do_accounts m))
          [''sourceAssetTokenAccount'', ''destinationIssuedTokenAccount'', ''mintAuthorityPda''] m
      | RedeemInput r \<Rightarrow> written_document (redeem_entries (do_accounts r)) (rd_policyAccounts (do_accounts r))
          [''sourceIssuedTokenAccount'', ''destinationAssetTokenAccount'', ''reserveAuthorityPda''] r)"

lemma map_of_in_order:
  assumes "set names = fst ` set entries"
  shows "map_of (in_order names entries) = map_of entries"
proof
  fix k
  have "map_of (in_order names entries) k = (if k \<in> set names then Some (obj_get entries k) else None)"
    unfolding in_order_def by (induction names) auto
  also have "\<dots> = map_of entries k"
    using assms by (simp add: obj_get_def domIff flip: dom_map_of_conv_image_fst split: option.split)
  finally show "map_of (in_order names entries) k = map_of entries k" .
qed

lemma written_document_of:
  assumes "set (SHARED_ORDER @ order) = insert ''policyAccounts'' (fst ` set (entries (do_accounts operation)))"
    "''policyAccounts'' \<notin> fst ` set (entries (do_accounts operation))"
  shows "document_of entries policy operation
    (written_document (entries (do_accounts operation)) (policy (do_accounts operation)) order operation)"
proof -
  let ?accounts = "entries (do_accounts operation) @ [(''policyAccounts'', JObj (policy_entries (policy (do_accounts operation))))]"
  have "map_of (in_order (SHARED_ORDER @ order) ?accounts) = map_of ?accounts"
    using assms by (intro map_of_in_order) auto
  also have "\<dots> = (map_of (entries (do_accounts operation)))
      (''policyAccounts'' \<mapsto> JObj (policy_entries (policy (do_accounts operation))))"
    using assms(2) by (auto simp: map_add_def fun_eq_iff domIff simp flip: dom_map_of_conv_image_fst split: option.split)
  finally show ?thesis
    by (auto simp: document_of_def written_document_def root_entries_def map_add_def fun_eq_iff)
qed

text \<open>The operation loaders of the market-maker integration read the operation back.\<close>

lemma document_js_loads:
  "loadMintDirectOperation (document_js (MintInput m)) = Inr m"
  "loadRedeemDirectOperation (document_js (RedeemInput r)) = Inr r"
  unfolding loadMintDirectOperation_Inr loadRedeemDirectOperation_Inr document_js_def operation_input.case
  by (rule written_document_of; auto simp: SHARED_ORDER_def mint_entries_def redeem_entries_def)+

section \<open>Where a resolved address comes from\<close>

lemma initial_steps_default:
  assumes "foldR (initial_step S inputs) as addresses = Inr addresses'" "distinct (map ia_name as)" "a \<in> set as"
    "\<nexists>key. map_of inputs (ia_name a) = Some (Some key)" "defaultAccountAddress S a = Inr (Some address)"
  shows "map_of addresses' (ia_name a) = Some address"
  using assms
proof (induction as arbitrary: addresses)
  case (Cons b as)
  then obtain addresses1 where step: "initial_step S inputs b addresses = Inr addresses1"
    "foldR (initial_step S inputs) as addresses1 = Inr addresses'" by auto
  show ?case
  proof (cases "a = b")
    case True
    then have "ia_name a \<notin> ia_name ` set as" using Cons.prems(2) by simp
    moreover have "map_of addresses1 (ia_name a) = Some address"
      using step(1) Cons.prems(4,5) True by (auto simp: initial_step_def split: option.splits)
    ultimately show ?thesis using initial_steps_other [OF step(2)] by simp
  next
    case False
    with Cons step(2) show ?thesis by auto
  qed
qed simp

text \<open>The key given for a position, or its default.\<close>

definition originates :: "chancery_schema \<Rightarrow> account_inputs \<Rightarrow> instruction_account_schema \<Rightarrow> string \<Rightarrow> bool" where
  "originates S inputs a address \<longleftrightarrow>
     (case map_of inputs (ia_name a) of
        Some (Some key) \<Rightarrow> normalizePublicKey key = Inr address
      | _ \<Rightarrow> \<forall>d. defaultAccountAddress S a = Inr (Some d) \<longrightarrow> address = d)"

lemma resolved_origin:
  assumes r: "resolveChanceryInstructionAccounts H S name args inputs True = Inr metas"
    and ix: "map_of (schema_instructions S) name = Some ix" and d: "distinct (map ia_name (ix_accounts ix))"
  shows "list_all2 (\<lambda>a m. am_name m = ia_name a \<and> am_signer m = ia_signer a \<and> am_writable m = ia_writable a
      \<and> originates S inputs a (am_address m)) (ix_accounts ix) metas"
proof -
  obtain ad0 ad where ad: "initial_addresses S (ix_accounts ix) inputs = Inr ad0"
    "pda_passes H S ix args (length (ix_accounts ix)) ad0 = Inr ad"
    "mapR (account_meta H S ix args True ad) (ix_accounts ix) = Inr metas"
    using r ix by (auto simp: resolveChanceryInstructionAccounts_def getInstructionSchema_def lookup_or_def)
  have grown: "map_of ad n = Some v" if "map_of ad0 n = Some v" for n v
    using pda_passes_grow [OF ad(2)] that by (metis domI map_le_def)
  have origin: "originates S inputs a address" if a: "a \<in> set (ix_accounts ix)" "map_of ad (ia_name a) = Some address" for a address
  proof (cases "\<exists>key. map_of inputs (ia_name a) = Some (Some key)")
    case True
    then obtain key v where "map_of inputs (ia_name a) = Some (Some key)" "normalizePublicKey key = Inr v" "map_of ad0 (ia_name a) = Some v"
      using initial_steps_input [OF ad(1) [unfolded initial_addresses_def] d a(1)] by blast
    with grown a(2) show ?thesis by (auto simp: originates_def)
  next
    case False
    have "address = v" if "defaultAccountAddress S a = Inr (Some v)" for v
      using grown [OF initial_steps_default [OF ad(1) [unfolded initial_addresses_def] d a(1) False that]] a(2) by simp
    with False show ?thesis by (auto simp: originates_def split: option.splits)
  qed
  show ?thesis
    using ad(3) unfolding mapR_eq_Inr_iff
    by (rule list.rel_mono_strong) (use account_meta_ok origin in \<open>fastforce simp: meta_ok_def\<close>)
qed

section \<open>The addresses of the document\<close>

lemma find_distinct:
  assumes "distinct (map f xs)" "i < length xs"
  shows "List.find (\<lambda>x. f x = f (xs ! i)) xs = Some (xs ! i)"
proof -
  have "f (xs ! j) \<noteq> f (xs ! i)" if "j < i" for j
    using assms nth_eq_iff_index_eq [of "map f xs" j i] that by simp
  with assms(2) show ?thesis unfolding find_Some_iff by blast
qed

definition address_of :: "chancery_instruction \<Rightarrow> string \<Rightarrow> string" where
  "address_of i name = projr (resolved_address i name)"

lemma address_by_name:
  assumes "list_all2 (\<lambda>a m. am_name m = ia_name a \<and> P a m) accounts (ci_accounts i)" "distinct (map ia_name accounts)"
  shows "list_all (\<lambda>name. resolved_address i name = Inr (address_of i name)) (map ia_name accounts)"
    "map am_address (ci_accounts i) = map (address_of i) (map ia_name accounts)"
proof -
  have names: "map am_name (ci_accounts i) = map ia_name accounts"
    using assms(1) by (auto simp: list_all2_conv_all_nth list_eq_iff_nth_eq)
  have len: "length (ci_accounts i) = length accounts" using list_all2_lengthD [OF assms(1)] by simp
  have "resolved_address i (ia_name (accounts ! n)) = Inr (am_address (ci_accounts i ! n))" if "n < length accounts" for n
  proof -
    have "am_name (ci_accounts i ! n) = ia_name (accounts ! n)" using assms(1) that by (simp add: list_all2_conv_all_nth)
    with find_distinct [of am_name "ci_accounts i" n] assms(2) that len show ?thesis
      by (simp add: resolved_address_def names)
  qed
  then show "list_all (\<lambda>name. resolved_address i name = Inr (address_of i name)) (map ia_name accounts)"
    "map am_address (ci_accounts i) = map (address_of i) (map ia_name accounts)"
    using list_all2_lengthD [OF assms(1)] by (auto simp: list_all_length address_of_def list_eq_iff_nth_eq)
qed

text \<open>The policy position: no key for the zero address.\<close>

definition unless_zero :: "chancery_schema \<Rightarrow> string \<Rightarrow> string option" where
  "unless_zero S address = (if address = zero_address (schema_wire S) then None else Some address)"

definition document_keys :: "chancery_schema \<Rightarrow> string list \<Rightarrow> string option list" where
  "document_keys S addresses =
     map Some (take 18 addresses) @ map (unless_zero S) (take 12 (drop 18 addresses)) @ [None]"

lemma policy_address_known:
  "resolved_address i name = Inr address \<Longrightarrow> policy_address S i name = Inr (unless_zero S address)"
  by (simp add: policy_address_def unless_zero_def)

lemma mint_input_keys:
  assumes known: "list_all (\<lambda>name. resolved_address i name = Inr (address_of i name)) (map ia_name (ix_accounts mint_direct_schema))"
  shows "\<exists>shared m. shared_accounts_document S i = Inr shared
    \<and> mint_input i shared ident amount minimum = Inr (MintInput m) \<and> do_pathwayId m = ident
    \<and> do_amount m = amount \<and> do_minimumOutput m = minimum
    \<and> mint_keys (do_accounts m) = document_keys S (map (address_of i) (map ia_name (ix_accounts mint_direct_schema)))"
proof -
  note facts = known [unfolded mint_direct_schema_def, simplified]
  show ?thesis
    by (simp add: shared_accounts_document_def policy_accounts_document_def policy_address_known mint_input_def facts
        mint_keys_def policy_keys_def document_keys_def mint_direct_schema_def)
qed

lemma redeem_input_keys:
  assumes known: "list_all (\<lambda>name. resolved_address i name = Inr (address_of i name)) (map ia_name (ix_accounts redeem_direct_schema))"
  shows "\<exists>shared r. shared_accounts_document S i = Inr shared
    \<and> redeem_input i shared ident amount minimum = Inr (RedeemInput r) \<and> do_pathwayId r = ident
    \<and> do_amount r = amount \<and> do_minimumOutput r = minimum
    \<and> redeem_keys (do_accounts r) = document_keys S (map (address_of i) (map ia_name (ix_accounts redeem_direct_schema)))"
proof -
  note facts = known [unfolded redeem_direct_schema_def, simplified]
  show ?thesis
    by (simp add: shared_accounts_document_def policy_accounts_document_def policy_address_known redeem_input_def facts
        redeem_keys_def policy_keys_def document_keys_def redeem_direct_schema_def)
qed

section \<open>The builders on the document\<close>

lemma replicate_numeral_key: "replicate (numeral k) x = x # replicate (pred_numeral k) x"
  by (simp add: numeral_eq_Suc)

lemma default_key: "decodePublicKey (KeyText a) = Inr bs \<Longrightarrow> list_all (\<lambda>b. b = 0) bs \<longleftrightarrow> a = DEFAULT_PUBLIC_KEY"
proof -
  assume a: "decodePublicKey (KeyText a) = Inr bs"
  have zero: "DEFAULT_PUBLIC_KEY = encodeBase58 (replicate 32 0)"
    unfolding encodeBase58_zeros DEFAULT_PUBLIC_KEY_def by (simp add: replicate_numeral_key)
  from decodePublicKey_text_is_key [OF a] obtain bs' where "length bs' = 32" "a = encodeBase58 bs'"
    by (auto simp: is_key_def)
  with a have bs: "length bs = 32" "a = encodeBase58 bs" by (simp_all add: decodePublicKey_encoded)
  have "encodeBase58 bs = encodeBase58 cs \<longleftrightarrow> bs = cs" if "length cs = 32" for cs
    by (metis decodePublicKey_encoded [OF bs(1)] decodePublicKey_encoded [OF that] sum.inject(2))
  from this [OF length_replicate] have "encodeBase58 bs = encodeBase58 (replicate 32 0) \<longleftrightarrow> bs = replicate 32 0" .
  moreover have "list_all (\<lambda>b. b = 0) bs \<longleftrightarrow> bs = replicate 32 0"
    unfolding bs(1) [symmetric] by (induction bs) auto
  ultimately show ?thesis using zero bs(2) by simp
qed

lemma assertPublicKey_ok: "assertPublicKey a False = Inr () \<longleftrightarrow> is_key a \<and> a \<noteq> DEFAULT_PUBLIC_KEY"
proof
  assume ok: "assertPublicKey a False = Inr ()"
  then have key: "is_key a" by (rule assertPublicKey_key)
  then obtain bs where bs: "decodePublicKey (KeyText a) = Inr bs" by (auto simp: is_key_def decodePublicKey_encoded)
  with ok default_key [OF bs] key show "is_key a \<and> a \<noteq> DEFAULT_PUBLIC_KEY"
    by (auto simp: assertPublicKey_def decodeBase58_mm_eq decodePublicKey_def split: if_splits)
next
  assume a: "is_key a \<and> a \<noteq> DEFAULT_PUBLIC_KEY"
  then obtain bs where bs: "decodePublicKey (KeyText a) = Inr bs" by (auto simp: is_key_def decodePublicKey_encoded)
  with default_key [OF bs] a show "assertPublicKey a False = Inr ()"
    by (cases "a = []") (auto simp: assertPublicKey_def decodePublicKey_def decodeBase58_mm_eq decodeBase58_def split: if_splits)
qed

abbreviation direct_addresses :: "instruction_schema \<Rightarrow> chancery_instruction \<Rightarrow> string list" where
  "direct_addresses ix i \<equiv> map (address_of i) (map ia_name (ix_accounts ix))"

text \<open>An address the builders accept for an account that is not optional.\<close>

definition usable_key :: "string \<Rightarrow> bool" where
  "usable_key a \<longleftrightarrow> is_key a \<and> a \<noteq> DEFAULT_PUBLIC_KEY"

lemma requiredAccount_usable: "(\<exists>m. requiredAccount name a w = Inr m) \<longleftrightarrow> usable_key a"
  by (auto simp: requiredAccount_def usable_key_def assertPublicKey_ok)

lemma optionalAccount_usable:
  "direct_defaults S programId \<Longrightarrow> (\<exists>m. optionalAccount name (unless_zero S a) w = Inr m) \<longleftrightarrow> a = DEFAULT_PUBLIC_KEY \<or> is_key a"
  by (auto simp: optionalAccount_def unless_zero_def assertPublicKey_ok direct_defaults_def)

lemma mapR_id_ok: "(\<exists>xs. mapR id ms = Inr xs) \<longleftrightarrow> list_all (\<lambda>m. \<exists>x. m = Inr x) ms"
  by (induction ms) auto

text \<open>The zero address or a key, for each optional account.\<close>

definition optional_keys :: "string list \<Rightarrow> bool" where
  "optional_keys addresses \<longleftrightarrow> list_all (\<lambda>a. a = DEFAULT_PUBLIC_KEY \<or> is_key a) (take 12 (drop 18 addresses))"

lemma mint_metas_ok:
  assumes keys: "mint_keys accounts = document_keys S (direct_addresses mint_direct_schema i)"
    and "direct_defaults S programId" "optional_keys (direct_addresses mint_direct_schema i)"
  shows "(\<exists>metas. mapR id (mint_account_metas programId accounts) = Inr metas) \<longleftrightarrow>
    list_all usable_key (take 18 (direct_addresses mint_direct_schema i))"
proof -
  note parts = keys [unfolded mint_keys_def policy_keys_def document_keys_def mint_direct_schema_def, simplified]
  show ?thesis
    unfolding mapR_id_ok
    using assms(3) by (simp add: mint_account_metas_def policyAccountMetas_def parts requiredAccount_usable
        optionalAccount_usable [OF assms(2)] optional_keys_def mint_direct_schema_def)
qed

lemma redeem_metas_ok:
  assumes keys: "redeem_keys accounts = document_keys S (direct_addresses redeem_direct_schema i)"
    and "direct_defaults S programId" "optional_keys (direct_addresses redeem_direct_schema i)"
  shows "(\<exists>metas. mapR id (redeem_account_metas programId accounts) = Inr metas) \<longleftrightarrow>
    list_all usable_key (take 18 (direct_addresses redeem_direct_schema i))"
proof -
  note parts = keys [unfolded redeem_keys_def policy_keys_def document_keys_def redeem_direct_schema_def, simplified]
  show ?thesis
    unfolding mapR_id_ok
    using assms(3) by (simp add: redeem_account_metas_def policyAccountMetas_def parts requiredAccount_usable
        optionalAccount_usable [OF assms(2)] optional_keys_def redeem_direct_schema_def)
qed

text \<open>The keys of the document resolve to the addresses they were taken from.\<close>

lemma given_unless_zero:
  "ia_default a = zero_default \<Longrightarrow>
   given_address S a (unless_zero S x) r \<Longrightarrow> r = x"
  by (auto simp: given_address_def unless_zero_def defaultAccountAddress_def zero_default_def split: if_splits)

lemma given_program:
  "ia_default a = program_default \<Longrightarrow> given_address S a None r \<longleftrightarrow> r = program_address (schema_program S)"
  by (auto simp: given_address_def defaultAccountAddress_def program_default_def)

lemma given_some: "given_address S a (Some x) r \<Longrightarrow> r = x"
  by (simp add: given_address_def)

definition direct_positions :: "instruction_account_schema list \<Rightarrow> bool" where
  "direct_positions accounts \<longleftrightarrow> length accounts = 31 \<and> list_all (\<lambda>a. ia_default a = zero_default) (take 12 (drop 18 accounts))
     \<and> ia_default (accounts ! 30) = program_default"

lemma direct_positions_hold: "direct_positions (ix_accounts mint_direct_schema)" "direct_positions (ix_accounts redeem_direct_schema)"
  by (simp_all add: direct_positions_def mint_direct_schema_def redeem_direct_schema_def)

lemma document_keys_resolve:
  assumes accounts: "direct_positions accounts" and len: "length addresses = 31"
    and program: "addresses ! 30 = program_address (schema_program S)"
    and given: "list_all2 (\<lambda>(a, g) r. given_address S a g r) (zip accounts (document_keys S addresses)) rs"
  shows "rs = addresses"
proof (rule nth_equalityI)
  have lens: "length accounts = 31" "length (document_keys S addresses) = 31"
    using accounts len by (simp_all add: direct_positions_def document_keys_def)
  with list_all2_lengthD [OF given] len show rs: "length rs = length addresses" by simp
  fix n assume "n < length rs"
  then have n: "n < 31" using rs len by simp
  then have at: "given_address S (accounts ! n) (document_keys S addresses ! n) (rs ! n)"
    using given lens by (auto simp: list_all2_conv_all_nth)
  consider "n < 18" | "18 \<le> n" "n < 30" | "n = 30" using n by linarith
  then show "rs ! n = addresses ! n"
  proof cases
    case 1
    then have "document_keys S addresses ! n = Some (addresses ! n)"
      using len by (simp add: document_keys_def nth_append)
    with at show ?thesis by (auto dest: given_some)
  next
    case 2
    then have "n - 18 < 12" by linarith
    with 2 have "document_keys S addresses ! n = unless_zero S (addresses ! n)"
      using len by (simp add: document_keys_def nth_append)
    moreover have "ia_default (accounts ! n) = zero_default"
      using accounts 2 by (auto simp: direct_positions_def list_all_length dest!: spec [of _ "n - 18"])
    ultimately show ?thesis using at given_unless_zero by metis
  next
    case 3
    then have "document_keys S addresses ! n = None" using len by (simp add: document_keys_def nth_append)
    with at accounts 3 program show ?thesis by (simp add: given_program direct_positions_def)
  qed
qed

section \<open>The instruction is rebuilt from the document\<close>

definition amount_names :: "settlement_action \<Rightarrow> string \<times> string" where
  "amount_names action =
     (if action = Mint then (''asset_amount'', ''minimum_issued_token_amount'')
      else (''issued_token_amount'', ''minimum_asset_amount''))"

text \<open>What an inspection in direct mode passes to the instruction (\<open>inspect_direct_form\<close>).\<close>

definition direct_form :: "direct_inspection \<Rightarrow> bool" where
  "direct_form insp \<longleftrightarrow> 0 < dx_input_amount insp \<and> map_of (dx_accounts insp) ''event_program'' \<in> {None, Some None}
     \<and> (\<exists>ident. length ident = 32 \<and> dx_arguments insp =
          [(''pathway_id'', JBytes ident), (fst (amount_names (dx_action insp)), JBig (dx_input_amount insp)),
           (snd (amount_names (dx_action insp)), JBig (dx_minimum_output insp))])"

definition direct_instructions :: "chancery_schema \<Rightarrow> bool" where
  "direct_instructions S \<longleftrightarrow> map_of (schema_instructions S) ''mint_direct'' = Some mint_direct_schema
     \<and> map_of (schema_instructions S) ''redeem_direct'' = Some redeem_direct_schema"

definition market_maker_instruction :: "string \<Rightarrow> operation_input \<Rightarrow> instruction_spec res" where
  "market_maker_instruction programId operation =
     (case operation of MintInput m \<Rightarrow> buildMintDirectInstruction programId m
      | RedeemInput r \<Rightarrow> buildRedeemDirectInstruction programId r)"

definition load_operation :: "settlement_action \<Rightarrow> js \<Rightarrow> operation_input res" where
  "load_operation action parsed =
     (if action = Mint then bindR (loadMintDirectOperation parsed) (\<lambda>m. Inr (MintInput m))
      else bindR (loadRedeemDirectOperation parsed) (\<lambda>r. Inr (RedeemInput r)))"

definition same_instruction :: "chancery_instruction \<Rightarrow> instruction_spec \<Rightarrow> bool" where
  "same_instruction built spec \<longleftrightarrow> ci_program built = is_program spec \<and> ci_data built = is_data spec
     \<and> map (\<lambda>m. (am_address m, am_signer m, am_writable m)) (ci_accounts built)
         = map (\<lambda>m. (as_address m, as_signer m, as_writable m)) (is_accounts spec)"

text \<open>The builder makes the same instruction, unless an account that is not optional is missing; then it throws.\<close>

definition rebuilds :: "chancery_instruction \<Rightarrow> instruction_spec res \<Rightarrow> bool" where
  "rebuilds built result \<longleftrightarrow>
     (if list_all (\<lambda>m. usable_key (am_address m)) (take 18 (ci_accounts built))
      then (\<exists>spec. result = Inr spec \<and> same_instruction built spec) else (\<exists>e. result = Inl e))"

lemma encoded_range: "encodePrimitive U64 (JBig n) = Inr bs \<Longrightarrow> 0 \<le> n \<and> n < 2 ^ 64"
  by (auto simp: encodePrimitive_def encodeUnsignedInteger_def integerFromValue_def split: if_splits)

lemma show_int_amount:
  assumes "0 \<le> n"
  shows "is_decimal (show_int n)" "int (parse_decimal (show_int n)) = n"
  using assms show_nat_decimal [of "nat n"] by (simp_all add: show_int_def)

text \<open>The data: the id and the amounts of the document are those of the inspection.\<close>

lemma document_data:
  assumes ix: "map_of (schema_instructions S) name = Some ix"
    and args: "ix_args ix = [\<lparr>field_name = ''pathway_id'', field_type = ArrayT (Prim U8) 32\<rparr>,
      \<lparr>field_name = inputName, field_type = Prim U64\<rparr>, \<lparr>field_name = minimumName, field_type = Prim U64\<rparr>]"
    and names: "distinct [''pathway_id'', inputName, minimumName]" and disc: "length (ix_discriminator ix) = 2"
    and ident: "length ident = 32" and input: "0 < input"
    and data: "encodeChanceryInstructionData S name
        [(''pathway_id'', JBytes ident), (inputName, JBig input), (minimumName, JBig minimum)] = Inr data"
  shows "encodeDirectSettlementData (ix_discriminator ix) (''0x'' @ bytesToHex ident) (show_int input) (show_int minimum) = Inr data"
proof -
  let ?args = "[(''pathway_id'', JBytes ident), (inputName, JBig input), (minimumName, JBig minimum)]"
  have "obj_get ?args ''pathway_id'' = JBytes ident" "obj_get ?args inputName = JBig input" "obj_get ?args minimumName = JBig minimum"
    using names by (auto simp: obj_get_def)
  with data ix have ranges: "0 \<le> input" "input < 2 ^ 64" "0 \<le> minimum" "minimum < 2 ^ 64"
    by (auto simp: encodeChanceryInstructionData_def getInstructionSchema_def lookup_or_def args encodeStruct_def
        encode_struct_with_def encode_field_def dest!: encoded_range)
  have pathway: "parsePathwayId (''0x'' @ bytesToHex ident) = Inr ident"
    using ident is_hex_bytesToHex [of ident] startsWith_append [of "''0x''" "bytesToHex ident"]
    by (simp add: parsePathwayId_def hex_pairs_bytesToHex is_hex_def)
  define op where "op = \<lparr>do_pathwayId = ''0x'' @ bytesToHex ident, do_amount = show_int input,
    do_minimumOutput = show_int minimum, do_accounts = ()\<rparr>"
  have op: "do_pathwayId op = ''0x'' @ bytesToHex ident" "do_amount op = show_int input" "do_minimumOutput op = show_int minimum"
    by (simp_all add: op_def)
  obtain data' where data': "encodeDirectSettlementData (ix_discriminator ix) (do_pathwayId op) (do_amount op)
      (do_minimumOutput op) = Inr data'"
    using ranges input unfolding op
    by (simp add: encodeDirectSettlementData_def Let_def pathway parseUnsignedU64_Inr show_int_amount del: append_Cons)
  have "direct_arguments inputName minimumName op = ?args"
    unfolding direct_arguments_def op pathway using ranges by (simp add: show_int_amount)
  with direct_data_encoded [OF ix args names disc data'] data have "data' = data" by simp
  with data' show ?thesis by (simp only: op)
qed

lemma normalizes_to_key: "normalizePublicKey k = Inr t \<Longrightarrow> is_key t"
  by (cases k) (auto intro: is_key_encoded)

lemma rebuilt:
  assumes built: "buildChanceryInstruction H S name args inputs True = Inr built"
    and ix: "map_of (schema_instructions S) name = Some ix" "distinct (map ia_name (ix_accounts ix))"
    and positions: "direct_positions (ix_accounts ix)" "ia_name (ix_accounts ix ! 30) = ''event_program''"
    and free: "map_of inputs ''event_program'' \<in> {None, Some None}" and defaults: "direct_defaults S programId"
    and keys: "keys = document_keys S (direct_addresses ix built)"
    and takes: "list_all2 (takes S) (zip (ix_accounts ix) keys) ms"
    and metas: "optional_keys (direct_addresses ix built) \<Longrightarrow>
      (\<exists>metas. mapR id ms = Inr metas) \<longleftrightarrow> list_all usable_key (take 18 (direct_addresses ix built))"
  shows "rebuilds built (bindR (mapR id ms) (\<lambda>metas.
    Inr \<lparr>is_program = programId, is_accounts = metas, is_data = ci_data built\<rparr>))"
proof -
  let ?accounts = "ix_accounts ix" and ?addresses = "direct_addresses ix built"
  have origin: "list_all2 (\<lambda>a m. am_name m = ia_name a \<and> am_signer m = ia_signer a \<and> am_writable m = ia_writable a
      \<and> originates S inputs a (am_address m)) ?accounts (ci_accounts built)"
    using resolved_origin [OF _ ix] built by (auto simp: buildChanceryInstruction_def)
  note named = address_by_name(2) [OF origin ix(2)]
  have lens: "length ?accounts = 31" "length (ci_accounts built) = 31"
    using positions(1) list_all2_lengthD [OF origin] by (simp_all add: direct_positions_def)
  have at: "originates S inputs (?accounts ! n) (?addresses ! n)" if "n < 31" for n
    using origin that lens unfolding named [symmetric] by (auto simp: list_all2_conv_all_nth)
  have program: "?addresses ! 30 = program_address (schema_program S)"
    using at [of 30] positions free
    by (auto simp: originates_def direct_positions_def defaultAccountAddress_def program_default_def)
  have "optional_keys ?addresses"
    unfolding optional_keys_def list_all_length
  proof (intro allI impI)
    fix n assume "n < length (take 12 (drop 18 ?addresses))"
    then have n: "n < 12" by simp
    then have "ia_default (?accounts ! (18 + n)) = zero_default"
      using positions(1) by (auto simp: direct_positions_def list_all_length)
    with at [of "18 + n"] n have "?addresses ! (18 + n) = DEFAULT_PUBLIC_KEY \<or> is_key (?addresses ! (18 + n))"
      using defaults by (auto simp: originates_def defaultAccountAddress_def zero_default_def direct_defaults_def
          split: option.splits dest: normalizes_to_key)
    with n lens show "take 12 (drop 18 ?addresses) ! n = DEFAULT_PUBLIC_KEY \<or> is_key (take 12 (drop 18 ?addresses) ! n)"
      by simp
  qed
  note ok = metas [OF this]
  have usable: "list_all (\<lambda>m. usable_key (am_address m)) (take 18 (ci_accounts built)) \<longleftrightarrow> list_all usable_key (take 18 ?addresses)"
    unfolding named [symmetric] by (simp add: list_all_iff take_map)
  show ?thesis
  proof (cases "list_all usable_key (take 18 ?addresses)")
    case True
    with ok obtain specs where specs: "mapR id ms = Inr specs" by blast
    note taken = taken_metas [OF specs takes]
    have "map as_address specs = ?addresses"
      using document_keys_resolve [OF positions(1) _ program taken(1) [unfolded keys]] lens by simp
    moreover have "map fst (zip ?accounts keys) = ?accounts"
      using lens by (simp add: keys document_keys_def)
    moreover have "map (\<lambda>m. (am_address m, am_signer m, am_writable m)) (map2 meta_of ?accounts ?addresses)
        = map (\<lambda>m. (am_address m, am_signer m, am_writable m)) (ci_accounts built)"
      using origin unfolding named [symmetric] by (auto simp: list_all2_conv_all_nth list_eq_iff_nth_eq meta_of_def)
    ultimately have "map (\<lambda>m. (am_address m, am_signer m, am_writable m)) (ci_accounts built)
        = map (\<lambda>m. (as_address m, as_signer m, as_writable m)) specs"
      using taken(2) by simp
    moreover have "ci_program built = programId"
      using built defaults by (auto simp: buildChanceryInstruction_def direct_defaults_def)
    ultimately show ?thesis using True usable specs by (simp add: rebuilds_def same_instruction_def)
  next
    case False
    with ok obtain e where "mapR id ms = Inl e" by (cases "mapR id ms") auto
    with False usable show ?thesis by (simp add: rebuilds_def)
  qed
qed

lemma direct_metas_length:
  "length (mint_account_metas programId accounts) = 31" "length (redeem_account_metas programId accounts') = 31"
  by (simp_all add: mint_account_metas_def redeem_account_metas_def policyAccountMetas_def)

definition direct_entry :: "settlement_action \<Rightarrow> instruction_schema" where
  "direct_entry action = (if action = Mint then mint_direct_schema else redeem_direct_schema)"

lemma direct_entry_facts:
  "distinct (map ia_name (ix_accounts (direct_entry action)))" "direct_positions (ix_accounts (direct_entry action))"
  "ia_name (ix_accounts (direct_entry action) ! 30) = ''event_program''" "length (ix_discriminator (direct_entry action)) = 2"
  "ix_args (direct_entry action) = [\<lparr>field_name = ''pathway_id'', field_type = ArrayT (Prim U8) 32\<rparr>,
    \<lparr>field_name = fst (amount_names action), field_type = Prim U64\<rparr>,
    \<lparr>field_name = snd (amount_names action), field_type = Prim U64\<rparr>]"
  "distinct [''pathway_id'', fst (amount_names action), snd (amount_names action)]"
  using direct_positions_hold
  by (simp_all add: direct_entry_def amount_names_def mint_direct_schema_def redeem_direct_schema_def)

text \<open>What both actions share: the instruction that is built, its accounts and its data.\<close>

lemma document_parts:
  assumes doc: "directOperationDocument H S insp = Inr operation" and form: "direct_form insp" and ixs: "direct_instructions S"
  obtains ident built shared where
    "buildChanceryInstruction H S (dx_instruction_name insp) (dx_arguments insp) (dx_accounts insp) True = Inr built"
    "dx_instruction_name insp = action_name (dx_action insp) @ ''_direct''"
    "map_of (schema_instructions S) (dx_instruction_name insp) = Some (direct_entry (dx_action insp))"
    "shared_accounts_document S built = Inr shared"
    "(if dx_action insp = Mint then mint_input built shared ident (show_int (dx_input_amount insp)) (show_int (dx_minimum_output insp))
      else redeem_input built shared ident (show_int (dx_input_amount insp)) (show_int (dx_minimum_output insp))) = Inr operation"
    "list_all (\<lambda>name. resolved_address built name = Inr (address_of built name)) (map ia_name (ix_accounts (direct_entry (dx_action insp))))"
    "encodeDirectSettlementData (ix_discriminator (direct_entry (dx_action insp))) ident (show_int (dx_input_amount insp))
       (show_int (dx_minimum_output insp)) = Inr (ci_data built)"
    "map_of (dx_accounts insp) ''event_program'' \<in> {None, Some None}"
proof -
  let ?ix = "direct_entry (dx_action insp)" and ?name = "dx_instruction_name insp"
  from form obtain ident where args: "length ident = 32" "dx_arguments insp =
      [(''pathway_id'', JBytes ident), (fst (amount_names (dx_action insp)), JBig (dx_input_amount insp)),
       (snd (amount_names (dx_action insp)), JBig (dx_minimum_output insp))]" and input: "0 < dx_input_amount insp"
    and free: "map_of (dx_accounts insp) ''event_program'' \<in> {None, Some None}"
    by (auto simp: direct_form_def)
  have hex: "bytes32Hex (obj_get (dx_arguments insp) ''pathway_id'') = Inr (''0x'' @ bytesToHex ident)"
    using args by (simp add: bytes32Hex_def obj_get_def requireBytes_def bytesFromValue_def)
  from doc hex obtain built shared where name: "?name = action_name (dx_action insp) @ ''_direct''"
    and built: "buildChanceryInstruction H S ?name (dx_arguments insp) (dx_accounts insp) True = Inr built"
    and shared: "shared_accounts_document S built = Inr shared"
    and operation: "(if dx_action insp = Mint
        then mint_input built shared (''0x'' @ bytesToHex ident) (show_int (dx_input_amount insp)) (show_int (dx_minimum_output insp))
        else redeem_input built shared (''0x'' @ bytesToHex ident) (show_int (dx_input_amount insp)) (show_int (dx_minimum_output insp)))
        = Inr operation"
    by (auto simp: directOperationDocument_def Let_def split: if_splits)
  have ix: "map_of (schema_instructions S) ?name = Some ?ix"
    using ixs name by (cases "dx_action insp") (auto simp: direct_instructions_def direct_entry_def)
  have "list_all2 (\<lambda>a m. am_name m = ia_name a \<and> am_signer m = ia_signer a \<and> am_writable m = ia_writable a
      \<and> originates S (dx_accounts insp) a (am_address m)) (ix_accounts ?ix) (ci_accounts built)"
    using resolved_origin [OF _ ix direct_entry_facts(1)] built by (auto simp: buildChanceryInstruction_def)
  note known = address_by_name(1) [OF this direct_entry_facts(1)]
  have "encodeChanceryInstructionData S ?name (dx_arguments insp) = Inr (ci_data built)"
    using built by (auto simp: buildChanceryInstruction_def)
  from document_data [OF ix direct_entry_facts(5,6,4) args(1) input this [unfolded args(2)]]
  show ?thesis by (rule that [OF built name ix shared operation known _ free])
qed

lemma built_if_metas:
  "encodeDirectSettlementData MINT_DIRECT_DISCRIMINATOR (do_pathwayId m) (do_amount m) (do_minimumOutput m) = Inr data \<Longrightarrow>
   buildMintDirectInstruction programId m = bindR (mapR id (mint_account_metas programId (do_accounts m)))
      (\<lambda>metas. Inr \<lparr>is_program = programId, is_accounts = metas, is_data = data\<rparr>)"
  "encodeDirectSettlementData REDEEM_DIRECT_DISCRIMINATOR (do_pathwayId r) (do_amount r) (do_minimumOutput r) = Inr data \<Longrightarrow>
   buildRedeemDirectInstruction programId r = bindR (mapR id (redeem_account_metas programId (do_accounts r)))
      (\<lambda>metas. Inr \<lparr>is_program = programId, is_accounts = metas, is_data = data\<rparr>)"
  using mapR_length [of id "mint_account_metas programId (do_accounts m)"]
    mapR_length [of id "redeem_account_metas programId (do_accounts r)"]
  by (auto simp: buildMintDirectInstruction_def buildRedeemDirectInstruction_def direct_metas_length intro!: bindR_cong)

lemma operation_rebuilt:
  assumes "directOperationDocument H S insp = Inr operation" "direct_form insp" "direct_defaults S programId"
    "direct_instructions S"
  shows "\<exists>built. buildChanceryInstruction H S (dx_instruction_name insp) (dx_arguments insp) (dx_accounts insp) True = Inr built
    \<and> load_operation (dx_action insp) (document_js operation) = Inr operation
    \<and> rebuilds built (market_maker_instruction programId operation)"
proof (rule document_parts [OF assms(1,2,4)])
  fix ident built shared
  assume built: "buildChanceryInstruction H S (dx_instruction_name insp) (dx_arguments insp) (dx_accounts insp) True = Inr built"
    and ix: "map_of (schema_instructions S) (dx_instruction_name insp) = Some (direct_entry (dx_action insp))"
    and shared: "shared_accounts_document S built = Inr shared"
    and operation: "(if dx_action insp = Mint
      then mint_input built shared ident (show_int (dx_input_amount insp)) (show_int (dx_minimum_output insp))
      else redeem_input built shared ident (show_int (dx_input_amount insp)) (show_int (dx_minimum_output insp))) = Inr operation"
    and known: "list_all (\<lambda>name. resolved_address built name = Inr (address_of built name))
      (map ia_name (ix_accounts (direct_entry (dx_action insp))))"
    and data: "encodeDirectSettlementData (ix_discriminator (direct_entry (dx_action insp))) ident
      (show_int (dx_input_amount insp)) (show_int (dx_minimum_output insp)) = Inr (ci_data built)"
    and free: "map_of (dx_accounts insp) ''event_program'' \<in> {None, Some None}"
  note rebuilt' = rebuilt [OF built ix direct_entry_facts(1,2,3) free assms(3)]
  show ?thesis
  proof (cases "dx_action insp = Mint")
    case True
    with mint_input_keys [of built S ident "show_int (dx_input_amount insp)" "show_int (dx_minimum_output insp)"] known shared operation
    obtain m where m: "operation = MintInput m" "do_pathwayId m = ident"
        "do_amount m = show_int (dx_input_amount insp)" "do_minimumOutput m = show_int (dx_minimum_output insp)"
        "mint_keys (do_accounts m) = document_keys S (direct_addresses mint_direct_schema built)"
      by (auto simp: direct_entry_def)
    have entry: "direct_entry (dx_action insp) = mint_direct_schema" using True by (simp add: direct_entry_def)
    have "rebuilds built (bindR (mapR id (mint_account_metas programId (do_accounts m))) (\<lambda>metas.
        Inr \<lparr>is_program = programId, is_accounts = metas, is_data = ci_data built\<rparr>))"
      by (rule rebuilt' [unfolded entry], rule m(5), rule mint_takes [OF assms(3)], rule mint_metas_ok [OF m(5) assms(3)])
    moreover have "encodeDirectSettlementData MINT_DIRECT_DISCRIMINATOR (do_pathwayId m) (do_amount m) (do_minimumOutput m)
        = Inr (ci_data built)"
      using data unfolding entry m(2-4) by (simp add: mint_direct_schema_def MINT_DIRECT_DISCRIMINATOR_def)
    ultimately have "rebuilds built (market_maker_instruction programId operation)"
      using built_if_metas(1) [of m "ci_data built" programId] by (simp add: m(1) market_maker_instruction_def)
    with True m(1) built show ?thesis by (simp add: load_operation_def document_js_loads)
  next
    case False
    with redeem_input_keys [of built S ident "show_int (dx_input_amount insp)" "show_int (dx_minimum_output insp)"] known shared operation
    obtain r where r: "operation = RedeemInput r" "do_pathwayId r = ident"
        "do_amount r = show_int (dx_input_amount insp)" "do_minimumOutput r = show_int (dx_minimum_output insp)"
        "redeem_keys (do_accounts r) = document_keys S (direct_addresses redeem_direct_schema built)"
      by (auto simp: direct_entry_def)
    have entry: "direct_entry (dx_action insp) = redeem_direct_schema" using False by (simp add: direct_entry_def)
    have "rebuilds built (bindR (mapR id (redeem_account_metas programId (do_accounts r))) (\<lambda>metas.
        Inr \<lparr>is_program = programId, is_accounts = metas, is_data = ci_data built\<rparr>))"
      by (rule rebuilt' [unfolded entry], rule r(5), rule redeem_takes [OF assms(3)], rule redeem_metas_ok [OF r(5) assms(3)])
    moreover have "encodeDirectSettlementData REDEEM_DIRECT_DISCRIMINATOR (do_pathwayId r) (do_amount r) (do_minimumOutput r)
        = Inr (ci_data built)"
      using data unfolding entry r(2-4) by (simp add: redeem_direct_schema_def REDEEM_DIRECT_DISCRIMINATOR_def)
    ultimately have "rebuilds built (market_maker_instruction programId operation)"
      using built_if_metas(2) [of r "ci_data built" programId] by (simp add: r(1) market_maker_instruction_def)
    with False r(1) built show ?thesis by (simp add: load_operation_def document_js_loads)
  qed
qed

text \<open>A ready direct inspection whose instruction can be built has a document.\<close>

definition builds_direct :: "(bytes \<Rightarrow> bytes) \<Rightarrow> chancery_schema \<Rightarrow> direct_inspection \<Rightarrow> chancery_instruction \<Rightarrow> bool" where
  "builds_direct H S insp built \<longleftrightarrow> dx_ready insp \<and> dx_mode insp = Direct
     \<and> dx_instruction_name insp = action_name (dx_action insp) @ ''_direct''
     \<and> buildChanceryInstruction H S (dx_instruction_name insp) (dx_arguments insp) (dx_accounts insp) True = Inr built"

lemma document_written:
  assumes built: "builds_direct H S insp built" and form: "direct_form insp" and ixs: "direct_instructions S"
  shows "\<exists>operation. directOperationDocument H S insp = Inr operation"
proof -
  from form obtain ident where ident: "length ident = 32" "obj_get (dx_arguments insp) ''pathway_id'' = JBytes ident"
    by (auto simp: direct_form_def obj_get_def)
  have ix: "map_of (schema_instructions S) (dx_instruction_name insp) = Some (direct_entry (dx_action insp))"
    using ixs built by (cases "dx_action insp") (auto simp: builds_direct_def direct_instructions_def direct_entry_def)
  have "list_all2 (\<lambda>a m. am_name m = ia_name a \<and> am_signer m = ia_signer a \<and> am_writable m = ia_writable a
      \<and> originates S (dx_accounts insp) a (am_address m)) (ix_accounts (direct_entry (dx_action insp))) (ci_accounts built)"
    using resolved_origin [OF _ ix direct_entry_facts(1)] built by (auto simp: builds_direct_def buildChanceryInstruction_def)
  note known = address_by_name(1) [OF this direct_entry_facts(1)]
  have "\<exists>shared operation. shared_accounts_document S built = Inr shared
    \<and> (if dx_action insp = Mint then mint_input built shared p a m else redeem_input built shared p a m) = Inr operation" for p a m
    using known mint_input_keys [of built S p a m] redeem_input_keys [of built S p a m]
    by (auto simp: direct_entry_def split: if_splits)
  then obtain shared operation where "shared_accounts_document S built = Inr shared"
      "(if dx_action insp = Mint
        then mint_input built shared (''0x'' @ bytesToHex ident) (show_int (dx_input_amount insp)) (show_int (dx_minimum_output insp))
        else redeem_input built shared (''0x'' @ bytesToHex ident) (show_int (dx_input_amount insp)) (show_int (dx_minimum_output insp)))
       = Inr operation" by blast
  with built ident show ?thesis
    by (auto simp: builds_direct_def directOperationDocument_def bytes32Hex_def requireBytes_def Let_def split: if_splits)
qed

section \<open>An inspection has the form\<close>

lemma accounts_without_event_program:
  assumes "buildInstructionAccounts input = Inr accounts" "nr_mode (ab_request input) = Direct"
  shows "map_of accounts ''event_program'' = None"
proof -
  have names: "fst ` set (compactAccountInputs given) \<subseteq> fst ` set given" for given
    by (induction given) (auto simp: compactAccountInputs_def map_filter_simps split: option.splits prod.splits)
  from assms obtain common byMode where "common_accounts input = Inr common" "byMode = mode_accounts input (hd (ab_permissions input))"
      "accounts = compactAccountInputs (common @ projr byMode)" "\<exists>xs. byMode = Inr xs"
    by (cases "ab_permissions input") (auto simp: buildInstructionAccounts_def)
  then have "''event_program'' \<notin> fst ` set (common @ projr byMode)"
    using assms(2) by (auto simp: common_accounts_def mode_accounts_def Let_def)
  with names [of "common @ projr byMode"] \<open>accounts = _\<close> show ?thesis
    by (auto simp: map_of_eq_None_iff)
qed

lemma direct_identity_positive:
  "resolveOperationIdentity c request st = Inr ((identity, pdas), st') \<Longrightarrow> nr_mode request = Direct \<Longrightarrow> 0 < id_input_amount identity"
  by (auto simp: resolveOperationIdentity_def direct_identity_def Let_def bindP_Inr liftP_Inr returnP_Inr split: option.splits if_splits)

lemma inspect_direct_form:
  assumes "inspect c requestInput st = Inr (insp, st')" "nr_mode (in_request insp) = Direct"
  shows "direct_form (direct_pick insp)"
  using assms(1)
proof (cases rule: inspect_parts)
  case (1 request observation core mintAuthority reserveAuthority corePdas bindings bindingIssues identity identityPdas
    candidates pathway pathwayValues pathwayPda pathwayIssues policies policyPdas gateIssues quote policyObservation
    amountIssues permissions limits tokens reservePda tokenIssues reserveDestinations pauses arguments accounts
    s1 s2 s3 s4 s5 s6 s7 s8 s9 s10)
  have mode: "nr_mode request = Direct" using assms(2) 1(17) by simp
  obtain ident where ident: "requireBytes (obj_get pathwayValues ''pathway_id'') 32 = Inr ident"
    using 1(13) by (auto simp: buildInstructionArguments_def)
  then have "length ident = 32" by (auto simp: requireBytes_def split: js.splits if_splits)
  moreover have "arguments = [(''pathway_id'', JBytes ident), (fst (amount_names (nr_action request)), JBig (id_input_amount identity)),
      (snd (amount_names (nr_action request)), JBig (minimum_output_of request identity (er_quote quote)))]"
    using 1(13) ident mode by (auto simp: buildInstructionArguments_def amount_names_def)
  moreover have "map_of accounts ''event_program'' = None"
    using accounts_without_event_program [OF 1(14)] mode by simp
  moreover have "0 < id_input_amount identity" using direct_identity_positive [OF 1(4) mode] .
  ultimately show ?thesis by (simp add: direct_form_def direct_pick_def 1(17-))
qed

end
