(* ===== verification/DevnetCommand.thy ===== *)
theory DevnetCommand
  imports DevnetPermissions DevnetOperation
begin

text \<open>
  The commands of the devnet tooling (\<open>integration/devnet/commands\<close>): how the arguments are read, with \<open>parseArgs\<close> of
  \<open>node:util\<close>, and what each command does. A run returns what it prints; an exception is printed by \<open>main().catch\<close> with
  exit code 1.
\<close>

section \<open>Arguments\<close>

datatype option_type = StringOption | BooleanOption

definition DEVNET_OPTIONS :: "(string \<times> option_type) list" where
  "DEVNET_OPTIONS =
     [(''keypair'', StringOption), (''rpc'', StringOption), (''symbol'', StringOption), (''amount'', StringOption),
      (''lamports'', StringOption), (''skip-airdrop'', BooleanOption), (''subject'', StringOption),
      (''pathway-id'', StringOption), (''roles'', StringOption), (''scope-kind'', StringOption), (''scope-key'', StringOption),
      (''expiry'', StringOption), (''action'', StringOption), (''minimum-output'', StringOption), (''output'', StringOption),
      (''instruction'', StringOption), (''arguments'', StringOption), (''accounts'', StringOption), (''schedule'', BooleanOption)]"

text \<open>The names of the commands, each with the options that apply to it.\<close>

definition COMMAND_OPTIONS :: "(string \<times> string list) list" where
  "COMMAND_OPTIONS =
     [(''wallet'', [''keypair'']),
      (''fund'', [''keypair'', ''rpc'', ''lamports'', ''skip-airdrop'']),
      (''setup'', [''keypair'', ''rpc'', ''symbol'', ''amount'', ''pathway-id'']),
      (''faucet'', [''keypair'', ''rpc'', ''symbol'', ''amount'', ''subject'']),
      (''pathway'', [''keypair'', ''rpc'', ''symbol'', ''pathway-id'']),
      (''grant'', [''keypair'', ''rpc'', ''symbol'', ''pathway-id'', ''subject'', ''roles'', ''scope-kind'', ''scope-key'', ''expiry'']),
      (''operation'', [''keypair'', ''rpc'', ''symbol'', ''amount'', ''pathway-id'', ''action'', ''minimum-output'', ''output'']),
      (''admin'', [''keypair'', ''rpc'', ''instruction'', ''arguments'', ''accounts'', ''schedule'']),
      (''addresses'', [''keypair'', ''rpc''])]"

text \<open>
  \<open>parseArgs\<close> in strict mode without positional arguments. A short option, or a group of them, is cut to its first letter:
  none is declared, so that it is refused there.
\<close>

datatype arg_token =
    OptionToken string "string option" bool
  | PositionalToken string
  | TerminatorToken

fun arg_tokens :: "(string \<times> option_type) list \<Rightarrow> string list \<Rightarrow> arg_token list" where
  "arg_tokens options [] = []"
| "arg_tokens options (arg # rest) =
     (if arg = ''--'' then TerminatorToken # map PositionalToken rest
      else if startsWith arg ''--'' then
        if CHR ''='' \<in> set (drop 3 arg) then
          OptionToken (takeWhile (\<lambda>c. c \<noteq> CHR ''='') (drop 2 arg)) (Some (drop 1 (dropWhile (\<lambda>c. c \<noteq> CHR ''='') (drop 2 arg)))) True
            # arg_tokens options rest
        else if map_of options (drop 2 arg) = Some StringOption then
          case rest of
            [] \<Rightarrow> [OptionToken (drop 2 arg) None False]
          | next_arg # others \<Rightarrow> OptionToken (drop 2 arg) (Some next_arg) False # arg_tokens options others
        else OptionToken (drop 2 arg) None False # arg_tokens options rest
      else if startsWith arg ''-'' \<and> 1 < length arg then OptionToken (take 1 (drop 1 arg)) None False # arg_tokens options rest
      else PositionalToken arg # arg_tokens options rest)"

definition check_token :: "(string \<times> option_type) list \<Rightarrow> arg_token \<Rightarrow> unit res" where
  "check_token options token =
     (case token of
        TerminatorToken \<Rightarrow> Inr ()
      | PositionalToken _ \<Rightarrow> throw ''Unexpected argument''
      | OptionToken name given inline \<Rightarrow>
          (case (map_of options name, given) of
             (None, _) \<Rightarrow> throw ''Unknown option''
           | (Some StringOption, None) \<Rightarrow> throw ''Option argument missing''
           | (Some BooleanOption, Some _) \<Rightarrow> throw ''Option does not take an argument''
           | (Some _, Some content) \<Rightarrow>
               if \<not> inline \<and> 1 < length content \<and> startsWith content ''-'' then throw ''Option argument is ambiguous'' else Inr ()
           | (Some BooleanOption, None) \<Rightarrow> Inr ()))"

definition parse_args :: "(string \<times> option_type) list \<Rightarrow> string list \<Rightarrow> arg_token list res" where
  "parse_args options args =
     (let tokens = arg_tokens options args in bindR (mapR (check_token options) tokens) (\<lambda>_. Inr tokens))"

text \<open>The loop over the tokens: each option applies to the command and is supplied once.\<close>

definition apply_token :: "string list \<Rightarrow> arg_token \<Rightarrow> (string \<times> string option) list \<Rightarrow> (string \<times> string option) list res" where
  "apply_token applicable token seen =
     (case token of
        OptionToken name given _ \<Rightarrow>
          if name \<notin> set applicable then throw ''Option does not apply to the command''
          else if name \<in> fst ` set seen then throw ''Option may be supplied only once''
          else Inr (seen @ [(name, given)])
      | _ \<Rightarrow> Inr seen)"

definition unsignedOption :: "string \<Rightarrow> int res" where
  "unsignedOption text =
     (if \<not> is_decimal text then throw ''option must be an unsigned decimal integer''
      else let n = int (parse_decimal text) in
        if 2 ^ 64 - 1 < n then throw ''option exceeds u64'' else Inr n)"

definition optional_unsigned :: "string option \<Rightarrow> int option res" where
  "optional_unsigned text =
     (case text of None \<Rightarrow> Inr None | Some s \<Rightarrow> bindR (unsignedOption s) (\<lambda>n. Inr (Some n)))"

fun split_commas :: "string \<Rightarrow> string list" where
  "split_commas [] = [[]]"
| "split_commas (c # cs) =
     (if c = CHR '','' then [] # split_commas cs
      else case split_commas cs of part # parts \<Rightarrow> (c # part) # parts | [] \<Rightarrow> [[c]])"

record devnet_arguments =
  dv_command :: string
  dv_keypair :: string
  dv_rpc :: string
  dv_symbol :: string
  dv_amount :: "int option"
  dv_lamports :: int
  dv_skip_airdrop :: bool
  dv_subject :: "string option"
  dv_pathway_id :: "string option"
  dv_roles :: "string list"
  dv_scope_kind :: int
  dv_scope_key :: "string option"
  dv_expiry :: "int option"
  dv_action :: string
  dv_minimum_output :: "int option"
  dv_output :: "string option"
  dv_instruction :: "string option"
  dv_arguments_file :: "string option"
  dv_accounts_file :: "string option"
  dv_schedule :: bool

text \<open>The options that were supplied, by name, and the text of one.\<close>

definition supplied :: "(string \<times> string option) list \<Rightarrow> string \<Rightarrow> string option" where
  "supplied options name = (case map_of options name of Some given \<Rightarrow> given | None \<Rightarrow> None)"

definition supplied_or :: "(string \<times> string option) list \<Rightarrow> string \<Rightarrow> string \<Rightarrow> string" where
  "supplied_or options name fallback = (case supplied options name of Some given \<Rightarrow> given | None \<Rightarrow> fallback)"

text \<open>The value of \<open>process.env.RPC_URL\<close> is an argument.\<close>

definition arguments_of :: "string option \<Rightarrow> string \<Rightarrow> (string \<times> string option) list \<Rightarrow> devnet_arguments res" where
  "arguments_of rpcUrl command options =
     (let action = supplied_or options ''action'' ''mint'' in
      if action \<noteq> ''mint'' \<and> action \<noteq> ''redeem'' then throw ''--action must be mint or redeem''
      else
        bindR (unsignedOption (supplied_or options ''scope-kind'' ''2'')) (\<lambda>scopeKind.
        if 255 < scopeKind then throw ''--scope-kind exceeds u8''
        else if command = ''operation'' \<and> supplied options ''amount'' = None then throw ''operation requires --amount in base units''
        else if command = ''admin'' \<and> (supplied options ''instruction'' = None \<or> supplied options ''arguments'' = None
                \<or> supplied options ''accounts'' = None)
        then throw ''admin requires --instruction, --arguments, and --accounts''
        else
          bindR (optional_unsigned (supplied options ''amount'')) (\<lambda>amount.
          if amount = Some 0 then throw ''--amount must be positive''
          else
            bindR (unsignedOption (supplied_or options ''lamports'' ''100000000'')) (\<lambda>lamports.
            bindR (optional_unsigned (supplied options ''expiry'')) (\<lambda>expiry.
            bindR (optional_unsigned (supplied options ''minimum-output'')) (\<lambda>minimumOutput.
              Inr \<lparr>dv_command = command, dv_keypair = supplied_or options ''keypair'' ''.devnet/tester/keypair.json'',
                   dv_rpc = supplied_or options ''rpc'' (case rpcUrl of Some url \<Rightarrow> url | None \<Rightarrow> DEVNET_RPC_URL),
                   dv_symbol = supplied_or options ''symbol'' ''USDC'', dv_amount = amount, dv_lamports = lamports,
                   dv_skip_airdrop = (''skip-airdrop'' \<in> fst ` set options), dv_subject = supplied options ''subject'',
                   dv_pathway_id = supplied options ''pathway-id'',
                   dv_roles = split_commas (supplied_or options ''roles'' ''CAN_MINT_DIRECT,CAN_REDEEM_DIRECT''),
                   dv_scope_kind = scopeKind, dv_scope_key = supplied options ''scope-key'', dv_expiry = expiry,
                   dv_action = action, dv_minimum_output = minimumOutput, dv_output = supplied options ''output'',
                   dv_instruction = supplied options ''instruction'', dv_arguments_file = supplied options ''arguments'',
                   dv_accounts_file = supplied options ''accounts'', dv_schedule = (''schedule'' \<in> fst ` set options)\<rparr>))))))"

definition parseDevnetArguments :: "string option \<Rightarrow> string list \<Rightarrow> devnet_arguments res" where
  "parseDevnetArguments rpcUrl argumentsList =
     (case argumentsList of
        [] \<Rightarrow> throw ''Expected wallet, fund, setup, faucet, pathway, grant, operation, admin, or addresses''
      | command # rest \<Rightarrow>
          (case map_of COMMAND_OPTIONS command of
             None \<Rightarrow> throw ''Expected wallet, fund, setup, faucet, pathway, grant, operation, admin, or addresses''
           | Some applicable \<Rightarrow>
               bindR (parse_args DEVNET_OPTIONS rest) (\<lambda>tokens.
               bindR (foldR (apply_token applicable) tokens []) (arguments_of rpcUrl command))))"

section \<open>What a command prints\<close>

text \<open>The target, the program and the issued mint, which every identity also has, are those of the deployment.\<close>

record devnet_identity =
  de_rpc :: string
  de_principal :: string
  de_asset_mint :: string
  de_pathway_id :: string
  de_pathway_policy :: string

record devnet_addresses =
  dd_program :: string
  dd_faucet_program :: string
  dd_principal :: string
  dd_issued_mint :: string
  dd_known_pdas :: "(string \<times> known_pda_schema) list"
  dd_faucet_authority :: string
  dd_controllers :: "(nat \<times> string) list"

datatype devnet_output =
    DevnetHelp
  | WalletOutput string string
  | FundOutput string int
  | AddressesOutput devnet_addresses
  | AdminOutput string
  | SetupOutput devnet_identity devnet_setup
  | PathwayOutput devnet_identity
  | FaucetOutput devnet_identity string
  | GrantOutput devnet_identity string string
  | DocumentOutput operation_input
  | OperationOutput devnet_identity string string

section \<open>The commands\<close>

definition addresses_command :: "'w devnet_context \<Rightarrow> devnet_output res" where
  "addresses_command context =
     (let host = dc_host context; H = dn_hash host; S = dn_schema host in
      bindR (faucetAuthority H) (\<lambda>faucet.
      bindR (mapR (\<lambda>role. bindR (controllerAuthority H role) (\<lambda>address. Inr (role, address))) CONTROLLER_ROLES) (\<lambda>controllers.
        Inr (AddressesOutput \<lparr>dd_program = program_address (schema_program S), dd_faucet_program = FAUCET_PROGRAM_ADDRESS,
          dd_principal = kp_public_key (dc_signer context), dd_issued_mint = ISSUED_TOKEN_MINT, dd_known_pdas = known_pdas S,
          dd_faucet_authority = faucet, dd_controllers = controllers\<rparr>))))"

text \<open>
  The files of an administrative instruction hold objects. A key is a text or, as \<open>new Uint8Array\<close> takes it, an array of
  integers; of the numbers only 32 gives a key, the zero one.
\<close>

definition json_object :: "js \<Rightarrow> js_object res" where
  "json_object parsed = (case parsed of JObj ob \<Rightarrow> Inr ob | _ \<Rightarrow> throw ''The file does not hold an object'')"

definition json_byte :: "js \<Rightarrow> byte res" where
  "json_byte element = (case element of JNum n \<Rightarrow> Inr (word_of_int n) | _ \<Rightarrow> throw ''The element is not an integer'')"

definition json_account :: "string \<times> js \<Rightarrow> (string \<times> key_input option) res" where
  "json_account entry =
     (case entry of (name, given) \<Rightarrow>
        (case given of
           JStr key \<Rightarrow> Inr (name, Some (KeyText key))
         | JArr elements \<Rightarrow> bindR (mapR json_byte elements) (\<lambda>key. Inr (name, Some (KeyBytes key)))
         | JNum n \<Rightarrow> if n = 32 then Inr (name, Some (KeyBytes (replicate 32 0))) else throw ''Public key must contain 32 bytes''
         | _ \<Rightarrow> throw ''Public key must contain 32 bytes''))"

definition admin_instruction :: "'w devnet \<Rightarrow> devnet_arguments \<Rightarrow> chancery_instruction res" where
  "admin_instruction host options =
     (let S = dn_schema host; instructionName = the (dv_instruction options) in
      bindR (getInstructionSchema S instructionName) (\<lambda>schema.
      bindR (bindR (dn_read_json host (the (dv_arguments_file options))) json_object) (\<lambda>argumentsValue.
      bindR (bindR (dn_read_json host (the (dv_accounts_file options))) json_object) (\<lambda>accountValues.
        if \<not> list_all (\<lambda>(name, _). list_ex (\<lambda>field. field_name field = name) (ix_args schema)) argumentsValue
        then throw ''Unknown instruction argument: ''
        else if \<not> list_all (\<lambda>(name, _). list_ex (\<lambda>account. ia_name account = name) (ix_accounts schema)) accountValues
        then throw ''Unknown instruction account: ''
        else
          bindR (mapR json_account accountValues) (\<lambda>accounts.
            buildChanceryInstruction (dn_hash host) S instructionName argumentsValue accounts True)))))"

definition admin_command :: "'w devnet_context \<Rightarrow> devnet_arguments \<Rightarrow> ('w, devnet_output) rpc_io" where
  "admin_command context options =
     (let host = dc_host context; wallet = kp_public_key (dc_signer context) in
      bindP (liftP (admin_instruction host options)) (\<lambda>built.
      bindP (liftP (if dv_schedule options
               then scheduleConfigChangeInstruction (dn_hash host) (dn_schema host) wallet (solana_instruction_of built)
                      DEFAULT_DELAY_SECONDS DEFAULT_LIFETIME_SECONDS
               else executeChanceryInstruction (dn_hash host) wallet (solana_instruction_of built))) (\<lambda>wrapped.
      bindP (submitInstructions context [wrapped]) (\<lambda>signature. returnP (AdminOutput signature)))))"

definition is_role_name :: "string \<Rightarrow> bool" where
  "is_role_name name \<longleftrightarrow> startsWith name ''CAN_'' \<and> 4 < length name
     \<and> list_all (\<lambda>c. c \<in> set ''ABCDEFGHIJKLMNOPQRSTUVWXYZ'' \<or> is_digit c \<or> c = CHR ''_'') (drop 4 name)"

definition add_role :: "chancery_schema \<Rightarrow> string \<Rightarrow> int \<Rightarrow> int res" where
  "add_role S name roleBits =
     (if \<not> is_role_name name then throw ''Roles must use the declared CAN_ names''
      else bindR (constant_integer S (''role.'' @ name)) (\<lambda>role. Inr (or roleBits role)))"

definition grant_scope_key :: "chancery_schema \<Rightarrow> devnet_arguments \<Rightarrow> string \<Rightarrow> string option" where
  "grant_scope_key S options pathwayPolicy =
     (case dv_scope_key options of
        Some key \<Rightarrow> Some key
      | None \<Rightarrow> if dv_scope_kind options = SCOPE_GLOBAL then Some (zero_address (schema_wire S))
                else if dv_scope_kind options = SCOPE_PATHWAY then Some pathwayPolicy else None)"

definition grant_command :: "'w devnet_context \<Rightarrow> devnet_arguments \<Rightarrow> devnet_identity \<Rightarrow> ('w, devnet_output) rpc_io" where
  "grant_command context options identity =
     (let S = dn_schema (dc_host context) in
      bindP (liftP (foldR (add_role S) (dv_roles options) 0)) (\<lambda>roleBits.
        case grant_scope_key S options (de_pathway_policy identity) of
          None \<Rightarrow> failP ''This scope requires an explicit --scope-key''
        | Some scopeKey \<Rightarrow>
            bindP (liftP (normalizePublicKey (KeyText (case dv_subject options of Some key \<Rightarrow> key
                            | None \<Rightarrow> kp_public_key (dc_signer context))))) (\<lambda>subject.
            bindP (grantPermission context \<lparr>pg_subject = subject, pg_scope_kind = dv_scope_kind options, pg_scope_key = scopeKey,
                     pg_role_bits = roleBits, pg_expiry = dv_expiry options\<rparr>) (\<lambda>permissionRecord.
              returnP (GrantOutput identity subject permissionRecord)))))"

definition devnet_client :: "'w devnet \<Rightarrow> 'w client" where
  "devnet_client host = \<lparr>cc_hash = dn_hash host, cc_schema = dn_schema host, cc_crypto = dn_crypto host,
     cc_fetch = dn_fetch host, cc_commitment = Confirmed\<rparr>"

definition writeNewP :: "'w devnet \<Rightarrow> string \<Rightarrow> js \<Rightarrow> ('w, unit) rpc_io" where
  "writeNewP host path content st =
     bindR (dn_write_new host path content (rpc_world st)) (\<lambda>w. Inr ((), st\<lparr>rpc_world := w\<rparr>))"

definition operation_request_of :: "devnet_arguments \<Rightarrow> string \<Rightarrow> string \<Rightarrow> bytes \<Rightarrow> operation_request" where
  "operation_request_of options assetMint principalKey pathwayId =
     \<lparr>rq_action = dv_action options, rq_mode = ''direct'', rq_asset_mint = assetMint, rq_principal = principalKey,
      rq_amount = dv_amount options, rq_minimum_output = dv_minimum_output options,
      rq_pathway_id = Some (KeyBytes pathwayId), rq_intent_id = None, rq_executor = None, rq_principal_b = None,
      rq_source = None, rq_destination = None, rq_fee_recipient = None, rq_rent_refund = None, rq_now = None\<rparr>"

definition document_command ::
  "'w devnet_context \<Rightarrow> devnet_arguments \<Rightarrow> test_asset \<Rightarrow> bytes \<Rightarrow> devnet_identity \<Rightarrow> ('w, devnet_output) rpc_io" where
  "document_command context options asset pathwayId identity =
     (let host = dc_host context in
      bindP (inspect (devnet_client host)
               (operation_request_of options (ta_asset_mint asset) (kp_public_key (dc_signer context)) pathwayId)) (\<lambda>inspection.
      bindP (liftP (directOperationDocument (dn_hash host) (dn_schema host) (direct_pick inspection))) (\<lambda>document.
        case dv_output options of
          None \<Rightarrow> returnP (DocumentOutput document)
        | Some path \<Rightarrow>
            bindP (writeNewP host path (document_js document)) (\<lambda>_.
              returnP (OperationOutput identity (dv_action options) path)))))"

definition asset_command ::
  "'w devnet_context \<Rightarrow> js_object \<Rightarrow> devnet_arguments \<Rightarrow> ('w, devnet_output) rpc_io" where
  "asset_command context configuration options =
     (let host = dc_host context; wallet = kp_public_key (dc_signer context) in
      bindP (liftP (testAssetForSymbol (dv_symbol options))) (\<lambda>asset.
      bindP (liftP (directPathwayId (dn_hash host) (ta_asset_mint asset) wallet (dv_pathway_id options))) (\<lambda>pathwayId.
      bindP (liftP (derivePathwayPolicyAddress (dn_hash host) (dn_schema host) (KeyBytes pathwayId))) (\<lambda>pathway.
      let identity = \<lparr>de_rpc = dv_rpc options, de_principal = wallet, de_asset_mint = ta_asset_mint asset,
            de_pathway_id = bytesToHex pathwayId, de_pathway_policy = pda_address pathway\<rparr>;
          command = dv_command options in
        if command = ''setup'' then
          bindP (setupDirectTesting context configuration asset pathwayId (dv_amount options)) (\<lambda>testing.
            returnP (SetupOutput identity testing))
        else if command = ''pathway'' then
          bindP (registerDirectPathway context asset pathwayId) (\<lambda>policy.
            returnP (PathwayOutput (identity\<lparr>de_pathway_policy := policy\<rparr>)))
        else if command = ''faucet'' then
          bindP (liftP (normalizePublicKey (KeyText (case dv_subject options of Some key \<Rightarrow> key | None \<Rightarrow> wallet)))) (\<lambda>recipient.
          bindP (faucetTestAsset context asset recipient (dv_amount options)) (\<lambda>account.
            returnP (FaucetOutput identity account)))
        else if command = ''grant'' then grant_command context options identity
        else document_command context options asset pathwayId identity))))"

definition deployed_command :: "'w devnet_context \<Rightarrow> devnet_arguments \<Rightarrow> ('w, devnet_output) rpc_io" where
  "deployed_command context options =
     (if dv_command options = ''fund'' then
        bindP (fundWallet context (dv_lamports options) (dv_skip_airdrop options)) (\<lambda>lamports.
          returnP (FundOutput (kp_public_key (dc_signer context)) lamports))
      else
        bindP (assertPublicDeployment context) (\<lambda>configuration.
          if dv_command options = ''addresses'' then liftP (addresses_command context)
          else if dv_command options = ''admin'' then admin_command context options
          else asset_command context configuration options))"

text \<open>\<open>main\<close>, of the arguments after the program and its file.\<close>

definition devnet_main ::
  "'w devnet \<Rightarrow> string option \<Rightarrow> string list \<Rightarrow> 'w \<Rightarrow> (devnet_output \<times> 'w) res" where
  "devnet_main host rpcUrl argumentsList w =
     (if ''--help'' \<in> set argumentsList \<or> argumentsList = [] then Inr (DevnetHelp, w)
      else
        bindR (parseDevnetArguments rpcUrl argumentsList) (\<lambda>options.
        bindR (requireDevnetTarget (dn_schema host) (dn_target host)) (\<lambda>_.
          if dv_command options = ''wallet'' then
            bindR (createWallet host (dv_keypair options) w) (\<lambda>(key, w').
              Inr (WalletOutput key (dv_keypair options), w'))
          else
            bindR (loadDevnetContext host (dv_rpc options) (dv_keypair options) w) (\<lambda>(context, connection).
            bindR (deployed_command context options connection) (\<lambda>(printed, connection').
              Inr (printed, rpc_world connection'))))))"

section \<open>How arguments are read\<close>

text \<open>
  Settings are options of the command, each at most once; an option that takes a text has one. They are written as
  \<open>--name=text\<close> and \<open>--name\<close>.
\<close>

definition typed_setting :: "string \<times> string option \<Rightarrow> bool" where
  "typed_setting setting \<longleftrightarrow>
     map_of DEVNET_OPTIONS (fst setting) = Some (if snd setting = None then BooleanOption else StringOption)"

definition fitting :: "string \<Rightarrow> (string \<times> string option) list \<Rightarrow> bool" where
  "fitting command settings \<longleftrightarrow> (\<exists>applicable. map_of COMMAND_OPTIONS command = Some applicable
     \<and> distinct (map fst settings) \<and> fst ` set settings \<subseteq> set applicable
     \<and> list_all typed_setting settings)"

fun write_setting :: "string \<times> string option \<Rightarrow> string" where
  "write_setting (name, None) = ''--'' @ name"
| "write_setting (name, Some given) = ''--'' @ name @ ''='' @ given"

fun setting_token :: "string \<times> string option \<Rightarrow> arg_token" where
  "setting_token (name, given) = OptionToken name given (given \<noteq> None)"

lemma option_names:
  "map_of DEVNET_OPTIONS name = Some t \<Longrightarrow> CHR ''='' \<notin> set name \<and> 1 < length name"
  by (auto simp: DEVNET_OPTIONS_def split: if_splits)

lemma written_token:
  assumes "typed_setting (name, given)"
  shows "arg_tokens DEVNET_OPTIONS (write_setting (name, given) # rest) = setting_token (name, given) # arg_tokens DEVNET_OPTIONS rest"
proof -
  have name: "CHR ''='' \<notin> set name" "1 < length name" using option_names assms unfolding typed_setting_def by auto
  then obtain a b cs where cs: "name = a # b # cs" by (cases name; cases "tl name") auto
  show ?thesis
  proof (cases given)
    case None
    with name assms show ?thesis by (simp add: cs startsWith_def typed_setting_def)
  next
    case (Some content)
    have "takeWhile (\<lambda>c. c \<noteq> CHR ''='') (name @ CHR ''='' # content) = name"
      "dropWhile (\<lambda>c. c \<noteq> CHR ''='') (name @ CHR ''='' # content) = CHR ''='' # content"
      using name(1) by (induction name) (auto simp: eq_commute)
    with Some show ?thesis by (simp add: cs startsWith_def)
  qed
qed

lemma checked_setting:
  "typed_setting (name, given) \<Longrightarrow> check_token DEVNET_OPTIONS (setting_token (name, given)) = Inr ()"
  by (cases given) (simp_all add: check_token_def typed_setting_def)

lemma applied_settings:
  assumes "fst ` set settings \<subseteq> set applicable" "distinct (map fst (seen @ settings))"
  shows "foldR (apply_token applicable) (map setting_token settings) seen = Inr (seen @ settings)"
  using assms
proof (induction settings arbitrary: seen)
  case (Cons setting settings)
  obtain name given where setting: "setting = (name, given)" by (cases setting)
  with Cons.prems have "apply_token applicable (setting_token setting) seen = Inr (seen @ [setting])"
    by (auto simp: apply_token_def image_iff)
  with Cons.IH [of "seen @ [setting]"] Cons.prems show ?case by simp
qed simp

lemma devnet_arguments_written:
  assumes "fitting command settings"
  shows "parseDevnetArguments rpcUrl (command # map write_setting settings) = arguments_of rpcUrl command settings"
proof -
  from assms obtain applicable where command: "map_of COMMAND_OPTIONS command = Some applicable" "distinct (map fst settings)"
      "fst ` set settings \<subseteq> set applicable"
      and typed: "list_all typed_setting settings"
    by (auto simp: fitting_def)
  have tokens: "arg_tokens DEVNET_OPTIONS (map write_setting settings) = map setting_token settings"
    using typed by (induction settings) (auto simp: written_token simp del: arg_tokens.simps(2) setting_token.simps)
  have "mapR (check_token DEVNET_OPTIONS) (map setting_token settings) = Inr (map (\<lambda>_. ()) settings)"
    using typed by (induction settings) (auto simp: checked_setting simp del: setting_token.simps)
  with tokens applied_settings [of settings applicable "[]"] command show ?thesis
    by (simp add: parseDevnetArguments_def parse_args_def)
qed

text \<open>What is accepted stands for settings that fit.\<close>

lemma token_typed: "check_token DEVNET_OPTIONS (OptionToken name given inline) = Inr () \<Longrightarrow> typed_setting (name, given)"
  by (cases given) (auto simp: check_token_def typed_setting_def split: option.splits option_type.splits)

lemma apply_tokens_fit:
  assumes "foldR (apply_token applicable) tokens seen = Inr settings" "list_all (\<lambda>t. check_token DEVNET_OPTIONS t = Inr ()) tokens"
    "distinct (map fst seen)" "fst ` set seen \<subseteq> set applicable" "list_all typed_setting seen"
  shows "distinct (map fst settings) \<and> fst ` set settings \<subseteq> set applicable \<and> list_all typed_setting settings"
  using assms
proof (induction tokens arbitrary: seen)
  case (Cons token tokens)
  from Cons.prems(1) obtain seen' where step: "apply_token applicable token seen = Inr seen'"
      "foldR (apply_token applicable) tokens seen' = Inr settings" by auto
  have "distinct (map fst seen') \<and> fst ` set seen' \<subseteq> set applicable \<and> list_all typed_setting seen'"
    using step(1) Cons.prems(2-)
    by (cases token) (auto simp: apply_token_def image_subset_iff dest: token_typed split: if_splits)
  with Cons.IH [OF step(2)] Cons.prems(2) show ?case by simp
qed simp

lemma devnet_arguments_accepted:
  assumes "parseDevnetArguments rpcUrl argumentsList = Inr options"
  shows "\<exists>command settings. fitting command settings \<and> argumentsList \<noteq> [] \<and> hd argumentsList = command
    \<and> arguments_of rpcUrl command settings = Inr options"
proof -
  from assms obtain command rest applicable tokens settings where parts: "argumentsList = command # rest"
      "map_of COMMAND_OPTIONS command = Some applicable" "parse_args DEVNET_OPTIONS rest = Inr tokens"
      "foldR (apply_token applicable) tokens [] = Inr settings" "arguments_of rpcUrl command settings = Inr options"
    by (auto simp: parseDevnetArguments_def split: list.splits option.splits)
  from parts(3) have "list_all (\<lambda>t. check_token DEVNET_OPTIONS t = Inr ()) tokens"
    by (auto simp: parse_args_def Let_def mapR_eq_Inr_iff list_all2_conv_all_nth list_all_length)
  from apply_tokens_fit [OF parts(4) this] have "fitting command settings"
    using parts(2) by (auto simp: fitting_def typed_setting_def)
  with parts show ?thesis by auto
qed

end
