(* ===== verification/SampleDevnet.thy ===== *)
theory SampleDevnet
  imports SampleDirect SampleRun DevnetCommand
begin

text \<open>Inputs for the devnet tooling: a ready direct inspection, a relayed instruction, a host whose clock runs.\<close>

section \<open>A ready inspection\<close>

definition inspected_mint :: direct_inspection where
  "inspected_mint = \<lparr>dx_ready = True, dx_issues = [], dx_instruction_name = ''mint_direct'',
     dx_arguments = direct_arguments ''asset_amount'' ''minimum_issued_token_amount'' direct_mint,
     dx_accounts = zip (map ia_name (ix_accounts mint_direct_schema)) (map (map_option KeyText) (mint_keys (do_accounts direct_mint))),
     dx_mode = Direct, dx_action = Mint, dx_input_amount = 1000, dx_minimum_output = 0\<rparr>"

lemma inspected_mint_form: "direct_form inspected_mint"
proof -
  have "\<exists>ident. parsePathwayId (do_pathwayId direct_mint) = Inr ident"
    by (simp add: direct_mint_def parsePathwayId_def startsWith_def hex_val_def Let_def list_all_iff is_digit_def)
  then obtain ident where ident: "parsePathwayId (do_pathwayId direct_mint) = Inr ident" "length ident = 32"
    using parsePathwayId_length by blast
  have "map_of (dx_accounts inspected_mint) ''event_program'' \<in> {None, Some None}"
    by (simp add: inspected_mint_def mint_direct_schema_def mint_keys_def policy_keys_def)
  with ident show ?thesis
    by (simp add: direct_form_def inspected_mint_def direct_arguments_def amount_names_def direct_mint_def parse_decimal_def digit_val_def)
qed

lemma inspected_mint_built: "\<exists>built. builds_direct server_hash direct_schema inspected_mint built"
proof -
  obtain spec where spec: "buildMintDirectInstruction (sample_key 9) direct_mint = Inr spec" using direct_mint_built by blast
  have "module_address_ok server_hash direct_schema True (ma_moduleActivationState (do_accounts direct_mint))"
    by (simp add: direct_mint_def direct_module_address)
  from mint_agrees [OF spec direct_schema_defaults direct_schema_entries(1) this]
  show ?thesis by (auto simp: agrees_with_client_def builds_direct_def inspected_mint_def)
qed

lemma direct_schema_instructions: "direct_instructions direct_schema"
  using direct_schema_entries by (simp add: direct_instructions_def)

section \<open>A devnet server\<close>

text \<open>
  The sample server, asked from devnet: it has the genesis hash, returns the signature of what it is sent, and holds a
  permission record of the devnet program.
\<close>

definition faucet_bytes :: bytes where
  "faucet_bytes = [63, 184, 193, 131, 163, 252, 208, 148, 52, 219, 35, 242, 148, 29, 127, 180, 207, 170, 159, 35, 255, 61,
     130, 254, 140, 241, 144, 31, 124, 122, 38, 119]"

definition devnet_bytes :: bytes where
  "devnet_bytes = [225, 252, 68, 46, 224, 197, 246, 127, 29, 229, 172, 163, 111, 178, 12, 170, 169, 222, 67, 6, 137, 221,
     253, 39, 119, 4, 110, 243, 234, 52, 93, 198]"

lemma devnet_programs_encoded:
  "encodeBase58 faucet_bytes = FAUCET_PROGRAM_ADDRESS" "encodeBase58 devnet_bytes = CHANCERY_DEVNET_PROGRAM_ADDRESS"
  unfolding faucet_bytes_def devnet_bytes_def
  by (simp_all add: encodeBase58_def Let_def encode_digits_def push_carry.simps base58_char_def BASE58_ALPHABET_def
      FAUCET_PROGRAM_ADDRESS_def CHANCERY_DEVNET_PROGRAM_ADDRESS_def)

lemma devnet_programs_decoded:
  "decodePublicKey (KeyText FAUCET_PROGRAM_ADDRESS) = Inr faucet_bytes"
  "decodePublicKey (KeyText CHANCERY_DEVNET_PROGRAM_ADDRESS) = Inr devnet_bytes"
  using decodePublicKey_encoded [of faucet_bytes] decodePublicKey_encoded [of devnet_bytes]
  by (simp_all add: devnet_programs_encoded) (simp_all add: faucet_bytes_def devnet_bytes_def)

lemma devnet_program_keys: "is_key FAUCET_PROGRAM_ADDRESS" "is_key CHANCERY_DEVNET_PROGRAM_ADDRESS"
  using decodePublicKey_text_is_key [OF devnet_programs_decoded(1)] decodePublicKey_text_is_key [OF devnet_programs_decoded(2)]
  by simp_all

lemma controller_of_server: "role < 5 \<Longrightarrow> controllerAuthority server_hash role = Inr (pda_key 0)"
proof -
  have "concat [utf8_encode ''chancery-authority'', [word_of_nat role]] ! 6 = 114"
    by (simp add: utf8_encode_def utf8_unit_def)
  then show ?thesis
    using server_find [of "[utf8_encode ''chancery-authority'', [word_of_nat role]]" FAUCET_PROGRAM_ADDRESS] devnet_program_keys(1)
    by (simp add: controllerAuthority_def utf8_encode_def utf8_unit_def)
qed

definition devnet_permission_fields :: "field_schema list" where
  "devnet_permission_fields = sample_permission_fields @
     typed_fields [(''permission_generation'', Prim U64), (''bump'', Prim U8)]"

definition devnet_permission_values :: js_object where
  "devnet_permission_values = sample_permission_values @ [(''permission_generation'', JBig 3), (''bump'', JNum 255)]"

definition devnet_schema :: chancery_schema where
  "devnet_schema = server_schema\<lparr>
     schema_program := (schema_program server_schema)\<lparr>program_address := CHANCERY_DEVNET_PROGRAM_ADDRESS\<rparr>,
     schema_constants :=
       [\<lparr>constant_name = ''role.ACTIVE_ROLE_MASK'', constant_type = Prim U128, constant_value = ''3''\<rparr>,
        \<lparr>constant_name = ''role.PERMISSION_ROLE_SCHEMA_VERSION'', constant_type = Prim U8, constant_value = ''1''\<rparr>,
        \<lparr>constant_name = ''scope.PATHWAY'', constant_type = Prim U8, constant_value = ''2''\<rparr>],
     schema_accounts :=
       [(''PermissionRecord'', \<lparr>struct_fields = devnet_permission_fields, account_discriminator = [7], account_size = 108\<rparr>)]\<rparr>"

definition devnet_permission :: rpc_account_info where
  "devnet_permission = plain_account CHANCERY_DEVNET_PROGRAM_ADDRESS
     (case encodeChanceryAccount devnet_schema ''PermissionRecord'' devnet_permission_values of Inr data \<Rightarrow> data | Inl _ \<Rightarrow> [])"

definition devnet_result :: "string \<Rightarrow> js list \<Rightarrow> json" where
  "devnet_result method parameters =
     (if method = ''getGenesisHash'' then JsonString DEVNET_GENESIS_HASH
      else if method = ''sendTransaction'' then JsonString (encodeBase58 (replicate 64 7))
      else if method = ''getAccountInfo'' \<and> parameters \<noteq> [] \<and> hd parameters = JStr (pda_key 1)
      then value_json (account_json devnet_permission (plain_numbers devnet_permission))
      else server_result method parameters)"

definition devnet_fetch :: "unit fetch" where
  "devnet_fetch call w = Inr (\<lparr>hr_ok = True, hr_body = Inr (JsonObject [(''jsonrpc'', JsonString ''2.0''),
     (''result'', devnet_result (rc_method call) (rc_params call))])\<rparr>, w)"

definition devnet_host :: "unit devnet" where
  "devnet_host = \<lparr>dn_target = Some ''devnet'', dn_hash = server_hash, dn_schema = devnet_schema, dn_crypto = sample_crypto,
     dn_fetch = devnet_fetch, dn_now = (\<lambda>_. 0), dn_wait = (\<lambda>_ w. w), dn_random = (\<lambda>n w. (replicate n 0, w)),
     dn_parse_url = (\<lambda>s. Inr \<lparr>url_protocol = ''https:'', url_href = s\<rparr>),
     dn_read_json = (\<lambda>path. Inr (JArr (map JNum (replicate 31 0 @ [1])))), dn_write_new = (\<lambda>path content w. Inr w)\<rparr>"

definition devnet_wallet :: "unit devnet_context" where
  "devnet_wallet = \<lparr>dc_host = devnet_host, dc_signer = sample_keypair\<rparr>"

lemma devnet_parts [simp]:
  "dc_host devnet_wallet = devnet_host" "dc_signer devnet_wallet = sample_keypair" "dn_target devnet_host = Some ''devnet''"
  "dn_hash devnet_host = server_hash" "dn_schema devnet_host = devnet_schema" "dn_crypto devnet_host = sample_crypto"
  "dn_fetch devnet_host = devnet_fetch" "dn_now devnet_host w = 0" "kp_public_key sample_keypair = sample_key 1"
  by (simp_all add: devnet_wallet_def devnet_host_def sample_keypair_def)

lemma devnet_answers: "answers (rpc_request devnet_fetch method parameters) (parseJsonRpcResponse (devnet_result method parameters))"
  by (auto simp: answers_def rpc_request_def Let_def devnet_fetch_def object_of_def response_result_def obj_get_def slot_ok_def)

lemma devnet_target: "requireDevnetTarget devnet_schema (Some ''devnet'') = Inr ()"
  by (simp add: requireDevnetTarget_def devnet_schema_def)

lemma devnet_asserted: "answers (assertDevnetRpc devnet_host) ()"
  unfolding assertDevnetRpc_def devnet_parts devnet_target
  by (intro answers_bind [OF answers_lift [OF refl]] answers_bind [OF devnet_answers])
    (simp add: devnet_result_def answers_return)

lemma devnet_blockhash: "answers (getLatestBlockhash devnet_fetch commitment)
    \<lparr>rb_blockhash = sample_key 4, rb_last_valid_block_height = 2000\<rparr>"
  unfolding getLatestBlockhash_def
  by (intro answers_configuration answers_bind [OF devnet_answers] answers_lift)
    (simp add: devnet_result_def run_parse sample_key_is_key)

lemma devnet_simulation: "\<exists>simulation. answers (rpc_simulateTransaction devnet_fetch bytes commitment verify) simulation
    \<and> sr_err simulation = JNull"
  unfolding rpc_simulateTransaction_def
  apply (intro exI conjI answers_bind [OF devnet_answers] answers_lift)
   apply (simp add: devnet_result_def run_parse parse_simulation_def parse_logs_def nullable_unsigned_def is_nullish_def or_else_def)
  apply simp
  done

lemma devnet_send: "answers (rpc_sendTransaction devnet_fetch bytes commitment skip retries) (encodeBase58 (replicate 64 7))"
  unfolding rpc_sendTransaction_def
  by (intro answers_bind [OF devnet_answers]) (simp add: devnet_result_def run_parse answers_return)

lemma devnet_confirmed: "answers (confirmSignature devnet_host signature lastValid) ()"
proof -
  have "answers (getSignatureStatus devnet_fetch signature) (Some sample_status)"
    unfolding getSignatureStatus_def
    by (intro answers_bind [OF devnet_answers] answers_lift)
      (simp add: devnet_result_def run_parse parse_signature_status_def parse_confirmation_status_def is_nullish_def or_else_def sample_status_def)
  then have step: "answers (confirm_step devnet_host signature lastValid) True"
    unfolding confirm_step_def devnet_parts by (rule answers_bind) (simp add: sample_status_def answers_return)
  have now: "answers (nowP devnet_host) 0" by (simp add: answers_def nowP_def)
  have "answers (confirm_loop devnet_host (Suc n) signature lastValid 60000) ()" for n
    unfolding confirm_loop.simps
    apply (rule answers_bind [OF now])
    apply simp
    apply (rule answers_bind [OF step])
    apply (simp add: answers_return)
    done
  from this [of 60000] show ?thesis
    unfolding confirmSignature_def by (intro answers_bind [OF now]) (simp add: PASS_LIMIT_def)
qed

section \<open>A relayed instruction\<close>

definition controlled :: solana_instruction where
  "controlled = \<lparr>si_program = CHANCERY_DEVNET_PROGRAM_ADDRESS,
     si_accounts = [\<lparr>sm_address = pda_key 0, sm_signer = True, sm_writable = False\<rparr>], si_data = [9, 8]\<rparr>"

definition relayed_controlled :: solana_instruction where
  "relayed_controlled = \<lparr>si_program = FAUCET_PROGRAM_ADDRESS,
     si_accounts = [\<lparr>sm_address = sample_key 1, sm_signer = True, sm_writable = False\<rparr>,
       \<lparr>sm_address = CHANCERY_DEVNET_PROGRAM_ADDRESS, sm_signer = False, sm_writable = False\<rparr>,
       \<lparr>sm_address = pda_key 0, sm_signer = False, sm_writable = False\<rparr>], si_data = [1, 31, 9, 8]\<rparr>"

lemma controlled_relayed: "executeChanceryInstruction server_hash (sample_key 1) controlled = Inr relayed_controlled"
  by (simp add: executeChanceryInstruction_def controlled_def CONTROLLER_ROLES_def relay_role_def controller_of_server
      normalizePublicKey_text [THEN iffD2] sample_key_is_key relay_account_def relayed_controlled_def del: bindR_eq_Inr)

lemma devnet_keys_apart:
  "FAUCET_PROGRAM_ADDRESS \<noteq> CHANCERY_DEVNET_PROGRAM_ADDRESS" "FAUCET_PROGRAM_ADDRESS \<noteq> pda_key 0"
  "CHANCERY_DEVNET_PROGRAM_ADDRESS \<noteq> pda_key 0" "0 < n \<Longrightarrow> n < 58 \<Longrightarrow> FAUCET_PROGRAM_ADDRESS \<noteq> sample_key n"
  "0 < n \<Longrightarrow> n < 58 \<Longrightarrow> CHANCERY_DEVNET_PROGRAM_ADDRESS \<noteq> sample_key n"
proof -
  have heads: "hd faucet_bytes = 63" "hd devnet_bytes = 225" "hd (server_digest 0) = 237" "hd (small_key n) = 0"
    by (simp_all add: faucet_bytes_def devnet_bytes_def server_digest_def small_key_def numeral_eq_Suc)
  have apart: "k \<noteq> k'" if "decodePublicKey (KeyText k) = Inr bs" "decodePublicKey (KeyText k') = Inr bs'" "hd bs \<noteq> hd bs'" for k k' bs bs'
    using that by auto
  note known = devnet_programs_decoded pda_key_decoded [of 0]
  show "FAUCET_PROGRAM_ADDRESS \<noteq> CHANCERY_DEVNET_PROGRAM_ADDRESS" "FAUCET_PROGRAM_ADDRESS \<noteq> pda_key 0"
    "CHANCERY_DEVNET_PROGRAM_ADDRESS \<noteq> pda_key 0"
    by (rule apart [OF known(1,2)] apart [OF known(1,3)] apart [OF known(2,3)]; simp add: heads)+
  assume "0 < n" "n < 58"
  note small = small_key_decoded [OF this]
  show "FAUCET_PROGRAM_ADDRESS \<noteq> sample_key n" "CHANCERY_DEVNET_PROGRAM_ADDRESS \<noteq> sample_key n"
    by (rule apart [OF known(1) small] apart [OF known(2) small]; simp add: heads)+
qed

lemma controlled_signed: "\<exists>message transaction. compileUnversionedMessage [relayed_controlled]
    (KeyText (sample_key 1)) (KeyText (sample_key 4)) = Inr message
    \<and> signSolanaTransaction sample_crypto message [sample_keypair] = Inr transaction
    \<and> st_primary transaction = encodeBase58 (replicate 64 7)"
proof -
  have lengths: "length faucet_bytes = 32" "length devnet_bytes = 32" by (simp_all add: faucet_bytes_def devnet_bytes_def)
  obtain message where message: "compileUnversionedMessage [relayed_controlled]
    (KeyText (sample_key 1)) (KeyText (sample_key 4)) = Inr message" "cm_signers message = [sample_key 1]"
    "length (cm_bytes message) \<le> 1000"
    by (auto simp: compileUnversionedMessage_def aggregateAccountMetas_def relayed_controlled_def
    merge_instruction_def merge_account_def mergeAccountMeta_def sample_key_is_key pda_key_is_key sample_key_inj devnet_program_keys
    pda_key_not_small pda_key_not_small [symmetric] devnet_keys_apart devnet_keys_apart [symmetric]
    orderStaticAccountMetas_def accountOrderGroup_def devnet_programs_decoded lengths
    compileMessageBytes_def countMatching_def Let_def shortvec_def encodeShortVectorLength_def is_safe_integer_def MAX_SAFE_INTEGER_def
    sample_key_decoded pda_key_decoded server_digest_length compile_instruction_def index_of_key_def compile_lookups_def less_eq_prod_def
    short_vector_bytes.simps)
  have "\<exists>transaction. signSolanaTransaction sample_crypto message [sample_keypair] = Inr transaction
      \<and> st_primary transaction = encodeBase58 (replicate 64 7)"
    using sample_key_encoded [of 1] message(2,3)
    by (simp add: signSolanaTransaction_def index_keypairs_def sample_keypair_def sample_key_is_key
      sign_for_def signMessageWithKeypair_def privateKeyFromSeed_def ED25519_PKCS8_PREFIX_def
      publicKeyBytesFromPrivateKey_def sample_crypto_def serializeTransaction_def shortvec_def
      encodeShortVectorLength_def is_safe_integer_def MAX_SAFE_INTEGER_def short_vector_bytes.simps)
  with message(1) show ?thesis by blast
qed

lemma controlled_submitted: "answers (relayP devnet_wallet controlled) (encodeBase58 (replicate 64 7))"
proof -
  obtain message transaction where signed: "compileUnversionedMessage [relayed_controlled]
      (KeyText (sample_key 1)) (KeyText (sample_key 4)) = Inr message"
      "signSolanaTransaction sample_crypto message [sample_keypair] = Inr transaction"
      "st_primary transaction = encodeBase58 (replicate 64 7)"
    using controlled_signed by blast
  obtain simulation where simulation: "answers (rpc_simulateTransaction devnet_fetch (st_bytes transaction) Confirmed True) simulation"
      "sr_err simulation = JNull"
    using devnet_simulation by blast
  have "answers (submitInstructions devnet_wallet [relayed_controlled]) (encodeBase58 (replicate 64 7))"
    unfolding submitInstructions_def Let_def devnet_parts
    apply (rule answers_bind [OF devnet_asserted])
    apply (rule answers_bind [OF devnet_blockhash])
    apply (rule answers_bind [OF answers_lift [where x = message]], simp add: signed(1) [simplified])
    apply (rule answers_bind [OF answers_lift [OF signed(2)]])
    apply (rule answers_bind [OF simulation(1)])
    apply (simp add: simulation(2))
    apply (rule answers_bind [OF devnet_send])
    apply (simp add: signed(3))
    apply (rule answers_bind [OF devnet_confirmed])
    apply (rule answers_return)
    done
  then show ?thesis
    unfolding relayP_def devnet_parts controlled_relayed by (intro answers_bind [OF answers_lift [OF refl]])
qed

section \<open>A permission that is there\<close>

definition sample_grant :: permission_grant where
  "sample_grant = \<lparr>pg_subject = sample_key 1, pg_scope_kind = 2, pg_scope_key = pda_key 7, pg_role_bits = 1, pg_expiry = None\<rparr>"

lemma devnet_permission_decoded:
  "decodeChanceryAccount devnet_schema (ra_data devnet_permission)
     = Inr \<lparr>decoded_account_name = ''PermissionRecord'', decoded_account_values = devnet_permission_values\<rparr>"
  "length (ra_data devnet_permission) \<le> 1000"
proof -
  have wf: "accounts_wf devnet_schema"
    by (simp add: accounts_wf_def prefix_free_def devnet_schema_def server_schema_def sample_schema_def)
  have typed: "has_struct devnet_schema devnet_permission_fields devnet_permission_values"
    by (simp add: devnet_schema_def typed_fields_def devnet_permission_fields_def devnet_permission_values_def
        sample_permission_fields_def sample_permission_values_def typed_defs server_keys is_ok_iff)
  have account: "map_of (schema_accounts devnet_schema) ''PermissionRecord''
      = Some \<lparr>struct_fields = devnet_permission_fields, account_discriminator = [7], account_size = 108\<rparr>"
    by (simp add: devnet_schema_def)
  have size: "struct_size devnet_permission_fields = Some 107"
    by (simp add: devnet_permission_fields_def sample_permission_fields_def typed_fields_def)
  obtain data where data: "encodeChanceryAccount devnet_schema ''PermissionRecord'' devnet_permission_values = Inr data" "length data = 108"
    using encodeChanceryAccount_fits [OF account, of devnet_permission_values 107] typed size by auto
  then have "ra_data devnet_permission = data" by (simp add: devnet_permission_def plain_account_def)
  with data account_decode_encode [OF wf data(1) account] typed
  show "decodeChanceryAccount devnet_schema (ra_data devnet_permission)
     = Inr \<lparr>decoded_account_name = ''PermissionRecord'', decoded_account_values = devnet_permission_values\<rparr>"
    "length (ra_data devnet_permission) \<le> 1000" by simp_all
qed

lemma devnet_permission_ok: "account_ok devnet_permission (plain_numbers devnet_permission)"
proof -
  obtain data where eq: "devnet_permission = plain_account CHANCERY_DEVNET_PROGRAM_ADDRESS data"
    by (simp add: devnet_permission_def)
  have "length data \<le> 1000" using devnet_permission_decoded(2) by (simp add: eq plain_account_def)
  then show ?thesis unfolding eq by (rule plain_account_ok [OF devnet_program_keys(2)])
qed

lemma devnet_permission_read: "answers (readChanceryAccount devnet_host (pda_key 1) ''PermissionRecord'') (Some devnet_permission_values)"
proof -
  have "parseJsonRpcResponse (account_json devnet_permission (plain_numbers devnet_permission)) \<noteq> JNull"
    by (simp add: account_json_def)
  then have "answers (getAccountInfo devnet_fetch (KeyText (pda_key 1)) Confirmed) (Some devnet_permission)"
    unfolding getAccountInfo_def using account_value_exact [OF devnet_permission_ok]
    by (intro answers_bind [OF answers_lift [where x = "pda_key 1"]] answers_configuration answers_bind [OF devnet_answers]
        answers_lift) (simp_all add: devnet_result_def pda_key_is_key value_json_def parseAccountInfoResult_def recordFromUnknown_def
        object_of_def obj_get_def)
  moreover have "ra_owner devnet_permission = CHANCERY_DEVNET_PROGRAM_ADDRESS" "\<not> ra_executable devnet_permission"
    by (simp_all add: devnet_permission_def plain_account_def)
  ultimately show ?thesis
    unfolding readChanceryAccount_def devnet_parts
    by (intro answers_bind) (auto intro!: answers_bind [OF answers_lift [OF devnet_permission_decoded(1)]] answers_return)
qed

lemma devnet_clock: "answers (getClock devnet_fetch Confirmed) \<lparr>ck_slot = 1000, ck_epoch_start = 0, ck_epoch = 3,
    ck_leader_schedule_epoch = 0, ck_unix_timestamp = 100\<rparr>"
  unfolding getClock_def
proof (intro answers_bind answers_lift)
  let ?a = "plain_account (sample_key 0) clock_bytes"
  have ok: "account_ok ?a (plain_numbers ?a)" by (simp add: plain_account_ok sample_key_is_key clock_bytes_def)
  have "parseJsonRpcResponse (account_json ?a (plain_numbers ?a)) \<noteq> JNull" by (simp add: account_json_def)
  moreover have "account_at CLOCK_SYSVAR = Some ?a" by (simp add: accounts_found)
  moreover have "CLOCK_SYSVAR \<noteq> pda_key 1"
  proof
    assume "CLOCK_SYSVAR = pda_key 1"
    with clock_decoded pda_key_decoded [of 1] have "hd clock_key_bytes = hd (server_digest 1)" by simp
    then show False by (simp add: clock_key_bytes_def server_digest_def)
  qed
  ultimately show "answers (getAccountInfo devnet_fetch (KeyText CLOCK_SYSVAR) Confirmed) (Some ?a)"
    unfolding getAccountInfo_def using account_value_exact [OF ok]
    by (intro answers_bind [OF answers_lift [where x = CLOCK_SYSVAR]] answers_configuration answers_bind [OF devnet_answers]
        answers_lift) (simp_all add: devnet_result_def server_result_def program_keys value_json_def parseAccountInfoResult_def
        recordFromUnknown_def object_of_def obj_get_def)
  show "parse_clock (Some ?a) = Inr \<lparr>ck_slot = 1000, ck_epoch_start = 0,
      ck_epoch = 3, ck_leader_schedule_epoch = 0, ck_unix_timestamp = 100\<rparr>"
    by (simp add: parse_clock_def plain_account_def clock_bytes_def clock_field_def Let_def decodeUnsignedInteger_def
        decodeSignedInteger_def)
qed

lemma devnet_permission_address:
  "\<exists>derived. derivePermissionRecordAddress server_hash devnet_schema (KeyText (sample_key 1)) (JNum 2) (KeyText (pda_key 7)) = Inr derived
     \<and> pda_address derived = pda_key 1 \<and> pda_bump derived = 255"
  by (simp add: derivePermissionRecordAddress_def assertByte_def small_key_decoded small_key_length pda_key_decoded
      server_digest_length utf8_encode_def utf8_unit_def deriveNamedProgramAddress_def devnet_schema_def devnet_program_keys server_find)

lemma devnet_constants:
  "constant_integer devnet_schema ''role.ACTIVE_ROLE_MASK'' = Inr 3"
  "constant_integer devnet_schema ''role.PERMISSION_ROLE_SCHEMA_VERSION'' = Inr 1" "scope_declared devnet_schema 2"
  by (simp_all add: constant_integer_def getChanceryConstant_def devnet_schema_def is_decimal_def is_digit_def parse_decimal_def
      digit_val_def scope_declared_def startsWith_def)

lemma sample_grant_existing: "existing_permission devnet_schema sample_grant (sample_key 1) (pda_key 7) 255 (Some devnet_permission_values)
    = Inr (1, 3, 0)"
  by (simp add: existing_permission_def devnet_permission_values_def sample_permission_values_def sample_grant_def field_defs
      requireBigIntArrayField_def permission_roles_def devnet_constants sample_key_is_key pda_key_is_key ex_bool_eq)

lemma granted: "answers (grantPermission devnet_wallet sample_grant) (pda_key 1)"
proof -
  obtain derived where derived: "derivePermissionRecordAddress server_hash devnet_schema (KeyText (sample_key 1)) (JNum 2)
      (KeyText (pda_key 7)) = Inr derived" "pda_address derived = pda_key 1" "pda_bump derived = 255"
    using devnet_permission_address by blast
  have grant: "pg_subject sample_grant = sample_key 1" "pg_scope_kind sample_grant = 2" "pg_scope_key sample_grant = pda_key 7"
    "pg_role_bits sample_grant = 1" "pg_expiry sample_grant = None" by (simp_all add: sample_grant_def)
  have zero: "sample_key 1 \<noteq> zero_address (schema_wire devnet_schema)"
    by (simp add: devnet_schema_def server_schema_def sample_schema_def sample_key_inj)
  have roles: "((1::int) \<le> 0 \<or> and 1 (not 3) \<noteq> (0::int)) = False" by simp
  show ?thesis
    unfolding grantPermission_def Let_def devnet_parts grant
    apply (rule answers_bind [OF answers_lift [where x = "sample_key 1"]], simp add: sample_key_is_key)
    apply (rule answers_bind [OF answers_lift [where x = "pda_key 7"]], simp add: pda_key_is_key)
    apply (simp only: zero if_False)
    apply (rule answers_bind [OF answers_lift [OF devnet_constants(1)]])
    apply (simp only: roles devnet_constants(3) if_False not_True_eq_False)
    apply (rule answers_bind [OF answers_lift [OF derived(1)]])
    apply (simp only: derived(2,3))
    apply (rule answers_bind [OF devnet_permission_read])
    apply (rule answers_bind [OF devnet_clock])
    apply (rule answers_bind [OF answers_lift [OF sample_grant_existing]])
    apply (simp add: answers_return)
    done
qed

lemma sample_connection_ok: "slot_ok sample_connection"
  by (simp add: slot_ok_def sample_connection_def)

section \<open>A permission value\<close>

definition sample_permission_change :: permission_value where
  "sample_permission_change = \<lparr>pv_subject = sample_key 1, pv_scope_kind = 2, pv_scope_key = sample_key 3, pv_role_bits = 3,
     pv_generation = 3, pv_expiry = 0\<rparr>"

lemma sample_permission_hashed:
  "\<exists>digest. permissionValueHash server_hash sample_schema (sample_key 2) 2 sample_permission_change = Inr digest"
  "\<exists>digest. permissionValueHash server_hash sample_schema (sample_key 2) 2 (sample_permission_change\<lparr>pv_generation := 4\<rparr>) = Inr digest"
  by (simp_all add: permissionValueHash_def permissionValuePayload_def sample_permission_change_def encodeType_def encodePrimitive_def
      encodeUnsignedInteger_def encodeSignedInteger_def integerFromValue_def is_safe_integer_def MAX_SAFE_INTEGER_def Let_def small_key_decoded)

end
