(* ===== verification/SettlementExecution.thy ===== *)
theory SettlementExecution
  imports DirectSettlement
begin

text \<open>
  \<open>integration/typescript/src/settlement_execution.ts\<close>: a prepared settlement is driven through a port that its host
  implements. Every call of the port may throw; the world \<open>'w\<close> is what the host changes, and it is kept when a call
  throws. The protocol that the calls follow is a step relation, with the calls made so far as its history.
\<close>

section \<open>The port\<close>

text \<open>A thrown \<open>Error\<close> with its message, or another thrown value with its text.\<close>

datatype thrown = ThrownError string | ThrownOther string

datatype simulation_result = Accepted | Rejected string

datatype confirmation_result = Confirmation | NoConfirmation string

type_synonym ('w, 'a) call = "'w \<Rightarrow> (thrown + 'a) \<times> 'w"

record ('w, 't) execution_port =
  ep_prepare :: "instruction_spec prepared_settlement \<Rightarrow> ('w, 't) call"
  ep_simulate :: "'t \<Rightarrow> instruction_spec prepared_settlement \<Rightarrow> ('w, simulation_result) call"
  ep_submit :: "'t \<Rightarrow> instruction_spec prepared_settlement \<Rightarrow> ('w, string) call"
  ep_confirm :: "string \<Rightarrow> instruction_spec prepared_settlement \<Rightarrow> ('w, confirmation_result) call"
  ep_reconcile :: "string \<Rightarrow> instruction_spec prepared_settlement \<Rightarrow> ('w, unit) call"

datatype execution_stage = PreparationStage | SimulationStage | SubmissionStage | ConfirmationStage | ReconciliationStage

record execution_error =
  ee_stage :: execution_stage
  ee_message :: string
  ee_signature :: "string option"

record executed_settlement =
  ex_action :: settlement_action
  ex_signature :: string

section \<open>The execution\<close>

definition execution_failure :: "execution_stage \<Rightarrow> string \<Rightarrow> string option \<Rightarrow> execution_error" where
  "execution_failure stage message signature = \<lparr>ee_stage = stage, ee_message = message, ee_signature = signature\<rparr>"

definition executionErrorMessage :: "thrown \<Rightarrow> string" where
  "executionErrorMessage e = (case e of ThrownError message \<Rightarrow> message | ThrownOther text \<Rightarrow> text)"

text \<open>\<open>trim\<close> removes white space at both ends, so nothing is left exactly when every character is white space.\<close>

definition js_space :: "char \<Rightarrow> bool" where
  "js_space c \<longleftrightarrow> (of_char c :: nat) \<in> {9, 10, 11, 12, 13, 32, 160}"

definition blank :: "string \<Rightarrow> bool" where
  "blank s \<longleftrightarrow> list_all js_space s"

definition executePreparedMarketMakerSettlement ::
  "('w, 't) execution_port \<Rightarrow> instruction_spec prepared_settlement \<Rightarrow> 'w
   \<Rightarrow> (execution_error + executed_settlement) \<times> 'w" where
  "executePreparedMarketMakerSettlement port settlement w =
     (case ep_prepare port settlement w of
        (Inl e, w1) \<Rightarrow> (Inl (execution_failure PreparationStage (executionErrorMessage e) None), w1)
      | (Inr transaction, w1) \<Rightarrow>
     (case ep_simulate port transaction settlement w1 of
        (Inl e, w2) \<Rightarrow> (Inl (execution_failure SimulationStage (executionErrorMessage e) None), w2)
      | (Inr (Rejected reason), w2) \<Rightarrow> (Inl (execution_failure SimulationStage reason None), w2)
      | (Inr Accepted, w2) \<Rightarrow>
     (case ep_submit port transaction settlement w2 of
        (Inl e, w3) \<Rightarrow> (Inl (execution_failure SubmissionStage (executionErrorMessage e) None), w3)
      | (Inr signature, w3) \<Rightarrow>
          if blank signature
          then (Inl (execution_failure SubmissionStage ''Settlement submission returned an empty transaction signature'' None), w3)
          else
     (case ep_confirm port signature settlement w3 of
        (Inl e, w4) \<Rightarrow> (Inl (execution_failure ConfirmationStage (executionErrorMessage e) (Some signature)), w4)
      | (Inr (NoConfirmation reason), w4) \<Rightarrow> (Inl (execution_failure ConfirmationStage reason (Some signature)), w4)
      | (Inr Confirmation, w4) \<Rightarrow>
     (case ep_reconcile port signature settlement w4 of
        (Inl e, w5) \<Rightarrow> (Inl (execution_failure ReconciliationStage (executionErrorMessage e) (Some signature)), w5)
      | (Inr _, w5) \<Rightarrow> (Inr \<lparr>ex_action = ps_action settlement, ex_signature = signature\<rparr>, w5))))))"

section \<open>The protocol\<close>

text \<open>What a host sees: the calls of its port, in their order.\<close>

datatype 't port_call = PrepareCall | SimulateCall 't | SubmitCall 't | ConfirmCall string | ReconcileCall string

datatype 't progress =
    Unprepared
  | Prepared 't
  | Simulated 't
  | Submitted string
  | Confirmed_at string
  | Finished "execution_error + executed_settlement"

type_synonym ('w, 't) protocol_state = "'t progress \<times> 'w \<times> 't port_call list"

inductive protocol_step ::
  "('w, 't) execution_port \<Rightarrow> instruction_spec prepared_settlement \<Rightarrow> ('w, 't) protocol_state \<Rightarrow> ('w, 't) protocol_state \<Rightarrow> bool"
  for port settlement where
  prepare: "ep_prepare port settlement w = (Inr t, w') \<Longrightarrow>
    protocol_step port settlement (Unprepared, w, calls) (Prepared t, w', calls @ [PrepareCall])"
| prepare_fails: "ep_prepare port settlement w = (Inl e, w') \<Longrightarrow> ee_stage err = PreparationStage \<Longrightarrow> ee_signature err = None \<Longrightarrow>
    ee_message err = executionErrorMessage e \<Longrightarrow>
    protocol_step port settlement (Unprepared, w, calls) (Finished (Inl err), w', calls @ [PrepareCall])"
| simulate: "ep_simulate port t settlement w = (Inr Accepted, w') \<Longrightarrow>
    protocol_step port settlement (Prepared t, w, calls) (Simulated t, w', calls @ [SimulateCall t])"
| simulate_fails: "ep_simulate port t settlement w = (r, w') \<Longrightarrow> r \<noteq> Inr Accepted \<Longrightarrow> ee_stage err = SimulationStage \<Longrightarrow>
    ee_signature err = None \<Longrightarrow> ee_message err = (case r of Inl e \<Rightarrow> executionErrorMessage e | Inr (Rejected why) \<Rightarrow> why) \<Longrightarrow>
    protocol_step port settlement (Prepared t, w, calls) (Finished (Inl err), w', calls @ [SimulateCall t])"
| submit: "ep_submit port t settlement w = (Inr signature, w') \<Longrightarrow> \<not> blank signature \<Longrightarrow>
    protocol_step port settlement (Simulated t, w, calls) (Submitted signature, w', calls @ [SubmitCall t])"
| submit_fails: "ep_submit port t settlement w = (r, w') \<Longrightarrow> (\<forall>signature. r = Inr signature \<longrightarrow> blank signature) \<Longrightarrow>
    ee_stage err = SubmissionStage \<Longrightarrow> ee_signature err = None \<Longrightarrow> (\<forall>e. r = Inl e \<longrightarrow> ee_message err = executionErrorMessage e) \<Longrightarrow>
    protocol_step port settlement (Simulated t, w, calls) (Finished (Inl err), w', calls @ [SubmitCall t])"
| confirm: "ep_confirm port signature settlement w = (Inr Confirmation, w') \<Longrightarrow>
    protocol_step port settlement (Submitted signature, w, calls) (Confirmed_at signature, w', calls @ [ConfirmCall signature])"
| confirm_fails: "ep_confirm port signature settlement w = (r, w') \<Longrightarrow> r \<noteq> Inr Confirmation \<Longrightarrow> ee_stage err = ConfirmationStage \<Longrightarrow>
    ee_signature err = Some signature \<Longrightarrow>
    ee_message err = (case r of Inl e \<Rightarrow> executionErrorMessage e | Inr (NoConfirmation why) \<Rightarrow> why) \<Longrightarrow>
    protocol_step port settlement (Submitted signature, w, calls) (Finished (Inl err), w', calls @ [ConfirmCall signature])"
| reconcile: "ep_reconcile port signature settlement w = (Inr u, w') \<Longrightarrow> ex_action finished = ps_action settlement \<Longrightarrow>
    ex_signature finished = signature \<Longrightarrow>
    protocol_step port settlement (Confirmed_at signature, w, calls) (Finished (Inr finished), w', calls @ [ReconcileCall signature])"
| reconcile_fails: "ep_reconcile port signature settlement w = (Inl e, w') \<Longrightarrow> ee_stage err = ReconciliationStage \<Longrightarrow>
    ee_signature err = Some signature \<Longrightarrow> ee_message err = executionErrorMessage e \<Longrightarrow>
    protocol_step port settlement (Confirmed_at signature, w, calls) (Finished (Inl err), w', calls @ [ReconcileCall signature])"

inductive_cases unpreparedE: "protocol_step port settlement (Unprepared, w, calls) st"
inductive_cases preparedE: "protocol_step port settlement (Prepared t, w, calls) st"
inductive_cases simulatedE: "protocol_step port settlement (Simulated t, w, calls) st"
inductive_cases submittedE: "protocol_step port settlement (Submitted signature, w, calls) st"
inductive_cases confirmedE: "protocol_step port settlement (Confirmed_at signature, w, calls) st"
inductive_cases finishedE: "protocol_step port settlement (Finished outcome, w, calls) st"

section \<open>Every execution follows the protocol\<close>

abbreviation protocol_runs where
  "protocol_runs port settlement \<equiv> (protocol_step port settlement)\<^sup>*\<^sup>*"

text \<open>The calls behind each point of progress: the transaction submitted is the one simulated, and a signature is known
  exactly after a submission.\<close>

fun history_ok :: "instruction_spec prepared_settlement \<Rightarrow> ('w, 't) protocol_state \<Rightarrow> bool" where
  "history_ok settlement (Unprepared, w, calls) \<longleftrightarrow> calls = []"
| "history_ok settlement (Prepared t, w, calls) \<longleftrightarrow> calls = [PrepareCall]"
| "history_ok settlement (Simulated t, w, calls) \<longleftrightarrow> calls = [PrepareCall, SimulateCall t]"
| "history_ok settlement (Submitted signature, w, calls) \<longleftrightarrow>
     \<not> blank signature \<and> (\<exists>t. calls = [PrepareCall, SimulateCall t, SubmitCall t])"
| "history_ok settlement (Confirmed_at signature, w, calls) \<longleftrightarrow>
     \<not> blank signature \<and> (\<exists>t. calls = [PrepareCall, SimulateCall t, SubmitCall t, ConfirmCall signature])"
| "history_ok settlement (Finished (Inr finished), w, calls) \<longleftrightarrow>
     ex_action finished = ps_action settlement \<and> \<not> blank (ex_signature finished) \<and>
     (\<exists>t. calls = [PrepareCall, SimulateCall t, SubmitCall t, ConfirmCall (ex_signature finished),
        ReconcileCall (ex_signature finished)])"
| "history_ok settlement (Finished (Inl err), w, calls) \<longleftrightarrow>
     (case ee_stage err of
        PreparationStage \<Rightarrow> ee_signature err = None \<and> calls = [PrepareCall]
      | SimulationStage \<Rightarrow> ee_signature err = None \<and> (\<exists>t. calls = [PrepareCall, SimulateCall t])
      | SubmissionStage \<Rightarrow> ee_signature err = None \<and> (\<exists>t. calls = [PrepareCall, SimulateCall t, SubmitCall t])
      | ConfirmationStage \<Rightarrow> (\<exists>signature t. ee_signature err = Some signature \<and> \<not> blank signature \<and>
          calls = [PrepareCall, SimulateCall t, SubmitCall t, ConfirmCall signature])
      | ReconciliationStage \<Rightarrow> (\<exists>signature t. ee_signature err = Some signature \<and> \<not> blank signature \<and>
          calls = [PrepareCall, SimulateCall t, SubmitCall t, ConfirmCall signature, ReconcileCall signature]))"

lemma protocol_step_history:
  "protocol_step port settlement st st' \<Longrightarrow> history_ok settlement st \<Longrightarrow> history_ok settlement st'"
  by (induction rule: protocol_step.induct) auto

lemma protocol_history:
  "protocol_runs port settlement st st' \<Longrightarrow> history_ok settlement st \<Longrightarrow> history_ok settlement st'"
  by (induction rule: rtranclp_induct) (auto intro: protocol_step_history)

text \<open>A finished execution stays finished, so nothing is submitted twice.\<close>

lemma finished_final: "protocol_runs port settlement (Finished outcome, w, calls) st \<Longrightarrow> st = (Finished outcome, w, calls)"
  by (induction rule: rtranclp_induct) (auto elim: finishedE)

lemma failure_fields [simp]:
  "ee_stage (execution_failure stage message signature) = stage"
  "ee_message (execution_failure stage message signature) = message"
  "ee_signature (execution_failure stage message signature) = signature"
  by (simp_all add: execution_failure_def)

lemma step_then: "protocol_step port settlement st st' \<Longrightarrow> protocol_runs port settlement st' st'' \<Longrightarrow> protocol_runs port settlement st st''"
  by (rule converse_rtranclp_into_rtranclp)

text \<open>The execution from each point on: its outcome is the end of a run from there.\<close>

definition ends_in :: "('w, 't) execution_port \<Rightarrow> instruction_spec prepared_settlement \<Rightarrow> 't progress \<Rightarrow> 'w
   \<Rightarrow> (execution_error + executed_settlement) \<times> 'w \<Rightarrow> bool" where
  "ends_in port settlement progress w result \<longleftrightarrow>
     (\<forall>calls. \<exists>calls'. protocol_runs port settlement (progress, w, calls) (Finished (fst result), snd result, calls'))"

lemma ends_here: "(\<And>calls. \<exists>calls'. protocol_step port settlement (progress, w, calls) (Finished outcome, w', calls')) \<Longrightarrow>
    ends_in port settlement progress w (outcome, w')"
  unfolding ends_in_def by (auto intro: r_into_rtranclp)

lemma ends_later: "(\<And>calls. \<exists>calls'. protocol_step port settlement (progress, w, calls) (progress', w', calls')) \<Longrightarrow>
    ends_in port settlement progress' w' result \<Longrightarrow> ends_in port settlement progress w result"
  unfolding ends_in_def by (meson step_then)

lemma reconciliation_ends:
  "ends_in port settlement (Confirmed_at signature) w
     (case ep_reconcile port signature settlement w of
        (Inl e, w5) \<Rightarrow> (Inl (execution_failure ReconciliationStage (executionErrorMessage e) (Some signature)), w5)
      | (Inr _, w5) \<Rightarrow> (Inr \<lparr>ex_action = ps_action settlement, ex_signature = signature\<rparr>, w5))"
  by (auto split: prod.splits sum.splits intro!: ends_here exI reconcile reconcile_fails)

lemma confirmation_ends:
  assumes "\<And>w4. ends_in port settlement (Confirmed_at signature) w4 (rest w4)"
  shows "ends_in port settlement (Submitted signature) w
     (case ep_confirm port signature settlement w of
        (Inl e, w4) \<Rightarrow> (Inl (execution_failure ConfirmationStage (executionErrorMessage e) (Some signature)), w4)
      | (Inr (NoConfirmation reason), w4) \<Rightarrow> (Inl (execution_failure ConfirmationStage reason (Some signature)), w4)
      | (Inr Confirmation, w4) \<Rightarrow> rest w4)"
  by (auto split: prod.splits sum.splits confirmation_result.splits
      intro!: ends_here exI confirm_fails intro: ends_later [OF _ assms] confirm)

lemma submission_ends:
  assumes "\<And>signature w3. \<not> blank signature \<Longrightarrow> ends_in port settlement (Submitted signature) w3 (rest signature w3)"
  shows "ends_in port settlement (Simulated t) w
     (case ep_submit port t settlement w of
        (Inl e, w3) \<Rightarrow> (Inl (execution_failure SubmissionStage (executionErrorMessage e) None), w3)
      | (Inr signature, w3) \<Rightarrow>
          if blank signature
          then (Inl (execution_failure SubmissionStage ''Settlement submission returned an empty transaction signature'' None), w3)
          else rest signature w3)"
  by (auto split: prod.splits sum.splits intro!: ends_here exI submit_fails intro: ends_later [OF _ assms] submit)

lemma simulation_ends:
  assumes "\<And>w2. ends_in port settlement (Simulated t) w2 (rest w2)"
  shows "ends_in port settlement (Prepared t) w
     (case ep_simulate port t settlement w of
        (Inl e, w2) \<Rightarrow> (Inl (execution_failure SimulationStage (executionErrorMessage e) None), w2)
      | (Inr (Rejected reason), w2) \<Rightarrow> (Inl (execution_failure SimulationStage reason None), w2)
      | (Inr Accepted, w2) \<Rightarrow> rest w2)"
  by (auto split: prod.splits sum.splits simulation_result.splits
      intro!: ends_here exI simulate_fails intro: ends_later [OF _ assms] simulate)

lemma preparation_ends:
  assumes "\<And>t w1. ends_in port settlement (Prepared t) w1 (rest t w1)"
  shows "ends_in port settlement Unprepared w
     (case ep_prepare port settlement w of
        (Inl e, w1) \<Rightarrow> (Inl (execution_failure PreparationStage (executionErrorMessage e) None), w1)
      | (Inr transaction, w1) \<Rightarrow> rest transaction w1)"
  by (auto split: prod.splits sum.splits intro!: ends_here exI prepare_fails intro: ends_later [OF _ assms] prepare)

lemma execution_ends: "ends_in port settlement Unprepared w (executePreparedMarketMakerSettlement port settlement w)"
  unfolding executePreparedMarketMakerSettlement_def
  by (intro preparation_ends simulation_ends submission_ends confirmation_ends reconciliation_ends)

end
