(* ===== verification/ProgramErrors.thy ===== *)
theory ProgramErrors
  imports ChanceryAccount "HOL-Library.Sublist"
begin

text \<open>
  \<open>parseChanceryProgramError\<close> of \<open>typescript/src/ChanceryError.ts\<close>: a program error code in the text of an RPC error. The
  two regular expressions are written as matchers at a position, tried from left to right as \<open>exec\<close> does; white space
  and digits share no character, so no match needs backtracking.
\<close>

section \<open>Numbers out of digits\<close>

text \<open>
  \<open>parseInt\<close> returns the double nearest to the value, ties to even: exact below \<open>2 ^ 53\<close>, and infinite (\<open>JFrac\<close>) when it
  rounds to \<open>2 ^ 1024\<close>.
\<close>

definition nearest_double :: "nat \<Rightarrow> js" where
  "nearest_double n =
     (if n < 2 ^ 53 then JNum (int n)
      else
        let scale = 2 ^ (length (push_carry 2 n) - 53); quotient = n div scale; remainder = n mod scale;
            rounded = (if scale < 2 * remainder \<or> scale = 2 * remainder \<and> odd quotient then quotient + 1 else quotient) * scale in
        if 2 ^ 1024 \<le> rounded then JFrac else JNum (int rounded))"

definition hex_number :: "string \<Rightarrow> nat" where
  "hex_number digits = digits_value 16 (map (\<lambda>c. case hex_val c of Some d \<Rightarrow> d | None \<Rightarrow> 0) (rev digits))"

section \<open>The two patterns\<close>

definition lower_case :: "char \<Rightarrow> char" where
  "lower_case c = (if (65 :: nat) \<le> of_char c \<and> of_char c \<le> (90 :: nat) then char_of (of_char c + 32 :: nat) else c)"

definition white_space :: "char \<Rightarrow> bool" where
  "white_space c \<longleftrightarrow> (of_char c :: nat) \<in> {9, 10, 11, 12, 13, 32, 160}"

definition after_text :: "string \<Rightarrow> string \<Rightarrow> string option" where
  "after_text expected s =
     (if map lower_case (take (length expected) s) = expected then Some (drop (length expected) s) else None)"

definition digits_at :: "(char \<Rightarrow> bool) \<Rightarrow> string \<Rightarrow> string option" where
  "digits_at digit s = (case takeWhile digit s of [] \<Rightarrow> None | digits \<Rightarrow> Some digits)"

definition hexadecimal_at :: "string \<Rightarrow> string option" where
  "hexadecimal_at s =
     (case after_text ''custom program error:'' s of
        None \<Rightarrow> None
      | Some rest \<Rightarrow>
          (case after_text ''0x'' (dropWhile white_space rest) of
             None \<Rightarrow> None
           | Some digits \<Rightarrow> digits_at (\<lambda>c. hex_val c \<noteq> None) digits))"

definition decimal_at :: "string \<Rightarrow> string option" where
  "decimal_at s =
     (case after_text ''custom program error:'' s of
        None \<Rightarrow> None
      | Some rest \<Rightarrow> digits_at is_digit (dropWhile white_space rest))"

fun first_match :: "(string \<Rightarrow> string option) \<Rightarrow> string \<Rightarrow> string option" where
  "first_match pattern [] = pattern []"
| "first_match pattern (c # cs) = (case pattern (c # cs) of Some found \<Rightarrow> Some found | None \<Rightarrow> first_match pattern cs)"

definition parseChanceryProgramError :: "chancery_schema \<Rightarrow> string \<Rightarrow> chancery_program_error option res" where
  "parseChanceryProgramError S message =
     (case first_match hexadecimal_at message of
        Some digits \<Rightarrow> lookupChanceryError S (nearest_double (hex_number digits))
      | None \<Rightarrow>
          (case first_match decimal_at message of
             Some digits \<Rightarrow> lookupChanceryError S (nearest_double (parse_decimal digits))
           | None \<Rightarrow> Inr None))"

section \<open>What is found\<close>

lemma first_match_cons: "first_match pattern (c # cs) = (if pattern (c # cs) = None then first_match pattern cs else pattern (c # cs))"
  by (simp split: option.splits)

declare first_match.simps(2) [simp del]

lemma hexadecimal_elsewhere: "lower_case c \<noteq> CHR ''c'' \<Longrightarrow> hexadecimal_at (c # cs) = None"
  by (simp add: hexadecimal_at_def after_text_def)

lemma decimal_elsewhere: "lower_case c \<noteq> CHR ''c'' \<Longrightarrow> decimal_at (c # cs) = None"
  by (simp add: decimal_at_def after_text_def)

lemma digits_at_all: "digits \<noteq> [] \<Longrightarrow> list_all p digits \<Longrightarrow> digits_at p digits = Some digits"
proof -
  assume "digits \<noteq> []" "list_all p digits"
  then have "takeWhile p digits = digits" by (simp add: list_all_iff)
  with \<open>digits \<noteq> []\<close> show ?thesis by (cases digits) (simp_all add: digits_at_def)
qed

lemma digit_not_space: "is_digit c \<Longrightarrow> \<not> white_space c"
  by (auto simp: is_digit_def white_space_def)

lemma space_skipped: "is_decimal digits \<Longrightarrow> dropWhile white_space (CHR '' '' # digits) = digits"
proof -
  assume "is_decimal digits"
  moreover have "white_space (CHR '' '')" by (simp add: white_space_def)
  ultimately show ?thesis by (cases digits) (simp_all add: is_decimal_def digit_not_space)
qed

lemma digit_lower: "is_digit c \<Longrightarrow> lower_case c = c"
  by (auto simp: is_digit_def lower_case_def)

lemma digit_apart: "is_digit c \<Longrightarrow> c \<noteq> CHR ''c'' \<and> c \<noteq> CHR ''x''"
  by (auto simp: is_digit_def)

lemma no_phrase_in_digits: "list_all is_digit digits \<Longrightarrow> first_match hexadecimal_at digits = None"
proof (induction digits)
  case Nil
  then show ?case by (simp add: hexadecimal_at_def after_text_def)
next
  case (Cons c cs)
  then show ?case using digit_lower digit_apart by (simp add: first_match_cons hexadecimal_elsewhere)
qed

definition phrase :: string where
  "phrase = ''custom program error: ''"

lemma phrase_found: "after_text ''custom program error:'' (phrase @ s) = Some (CHR '' '' # s)"
  by (simp add: phrase_def after_text_def lower_case_def)

lemma decimal_code: "is_decimal digits \<Longrightarrow> decimal_at (phrase @ digits) = Some digits"
  by (simp only: decimal_at_def phrase_found option.case space_skipped) (simp add: digits_at_all is_decimal_def)

lemma no_hexadecimal: "is_decimal digits \<Longrightarrow> hexadecimal_at (phrase @ digits) = None"
proof -
  assume d: "is_decimal digits"
  then obtain c cs where digits: "digits = c # cs" "is_digit c" "list_all is_digit cs"
    by (cases digits) (auto simp: is_decimal_def)
  have "after_text ''0x'' digits = None"
    using digits digit_lower digit_apart by (cases cs) (auto simp: after_text_def)
  with d show ?thesis by (simp only: hexadecimal_at_def phrase_found option.case space_skipped)
qed

lemma phrase_scan:
  "first_match hexadecimal_at (phrase @ s) =
     (if hexadecimal_at (phrase @ s) = None then first_match hexadecimal_at s else hexadecimal_at (phrase @ s))"
  "decimal_at (phrase @ s) = Some found \<Longrightarrow> first_match decimal_at (phrase @ s) = Some found"
  unfolding phrase_def
  by (simp_all add: first_match_cons hexadecimal_elsewhere lower_case_def)

definition show_hex :: "nat \<Rightarrow> string" where
  "show_hex n = (if n = 0 then ''0'' else map hex_char (rev (push_carry 16 n)))"

lemma show_hex_digits: "show_hex n \<noteq> []" "list_all (\<lambda>c. hex_val c \<noteq> None) (show_hex n)"
  using push_carry_below [of 16 n] push_carry_last [of 16 n]
  by (auto simp: show_hex_def all_below_def list_all_iff) (simp add: hex_val_def)

lemma hex_number_show: "hex_number (show_hex n) = n"
proof (cases "n = 0")
  case True
  then show ?thesis by (simp add: show_hex_def hex_number_def hex_val_def)
next
  case False
  have "map (\<lambda>d. case hex_val (hex_char d) of Some d \<Rightarrow> d | None \<Rightarrow> 0) (push_carry 16 n) = push_carry 16 n"
    using push_carry_below [of 16 n] by (intro map_idI) (simp add: all_below_def list_all_iff)
  with False show ?thesis
    by (simp add: show_hex_def hex_number_def rev_map push_carry_value comp_def)
qed

lemma hexadecimal_code: "hexadecimal_at (phrase @ ''0x'' @ show_hex n) = Some (show_hex n)"
proof -
  have "dropWhile white_space (CHR '' '' # ''0x'' @ show_hex n) = ''0x'' @ show_hex n" by (simp add: white_space_def)
  moreover have "after_text ''0x'' (''0x'' @ show_hex n) = Some (show_hex n)" by (simp add: after_text_def lower_case_def)
  ultimately show ?thesis
    using digits_at_all [OF show_hex_digits] by (simp only: hexadecimal_at_def phrase_found option.case)
qed

text \<open>Text before the phrase that does not itself contain \<open>error:\<close> is skipped.\<close>

lemma phrase_not_earlier:
  assumes "\<not> sublist ''error:'' (map lower_case (c # before))"
  shows "after_text ''custom program error:'' ((c # before) @ phrase @ s) = None"
proof (rule ccontr)
  let ?all = "(c # before) @ phrase @ s"
  have text_length: "length ''custom program error:'' = 21" by simp
  assume "after_text ''custom program error:'' ?all \<noteq> None"
  then have found: "map lower_case (take 21 ?all) = ''custom program error:''"
    using text_length unfolding after_text_def by (metis (no_types, lifting))
  show False
  proof (cases "21 \<le> length (c # before)")
    case True
    then have "map lower_case (c # before) = ''custom program '' @ ''error:'' @ map lower_case (drop 21 (c # before))"
      using found append_take_drop_id [of 21 "c # before"] by (metis append_Cons append_Nil map_append take_append diff_is_0_eq' take_0 append_Nil2)
    with assms show False unfolding sublist_def by metis
  next
    case False
    define j where "j = 20 - length (c # before)"
    have j: "j < 20" "20 = length (c # before) + j" using False by (simp_all add: j_def)
    have "length (take 21 ?all) = 21" using found text_length by (metis length_map)
    then have "lower_case (?all ! 20) = map lower_case (take 21 ?all) ! 20" by (simp del: take_append append_Cons)
    also have "\<dots> = CHR '':''" unfolding found by simp
    finally have "lower_case (?all ! 20) = CHR '':''" .
    moreover have "length phrase = 22" by (simp add: phrase_def)
    then have "?all ! 20 = phrase ! j"
      unfolding j(2) nth_append_length_plus using j(1) by (simp add: nth_append [of phrase s j])
    moreover have "\<forall>j < 20. lower_case (phrase ! j) \<noteq> CHR '':''"
      by (simp add: phrase_def lower_case_def numeral_eq_Suc All_less_Suc)
    ultimately show False using j(1) by simp
  qed
qed

lemma before_skipped:
  assumes "\<not> sublist ''error:'' (map lower_case before)"
    and "\<And>t. after_text ''custom program error:'' t = None \<Longrightarrow> pattern t = None"
  shows "first_match pattern (before @ phrase @ s) = first_match pattern (phrase @ s)"
  using assms(1)
proof (induction before)
  case (Cons c before)
  have "pattern ((c # before) @ phrase @ s) = None" by (rule assms(2) [OF phrase_not_earlier [OF Cons.prems]])
  moreover have "\<not> sublist ''error:'' (map lower_case before)" using Cons.prems by (simp add: sublist_Cons_right)
  ultimately show ?case using Cons.IH by (simp add: first_match_cons)
qed simp

lemma patterns_need_phrase:
  "after_text ''custom program error:'' t = None \<Longrightarrow> hexadecimal_at t = None"
  "after_text ''custom program error:'' t = None \<Longrightarrow> decimal_at t = None"
  by (simp_all add: hexadecimal_at_def decimal_at_def)

lemma program_error_code:
  assumes "n < 2 ^ 53" "\<not> sublist ''error:'' (map lower_case before)"
  shows "parseChanceryProgramError S (before @ phrase @ show_nat n) = lookupChanceryError S (JNum (int n))"
    "parseChanceryProgramError S (before @ phrase @ ''0x'' @ show_hex n) = lookupChanceryError S (JNum (int n))"
proof -
  note skipped = before_skipped [OF assms(2), of hexadecimal_at] before_skipped [OF assms(2), of decimal_at]
  have "list_all is_digit (show_nat n)" using show_nat_decimal by (simp add: is_decimal_def)
  then have "first_match hexadecimal_at (before @ phrase @ show_nat n) = None"
    using no_phrase_in_digits no_hexadecimal [OF show_nat_decimal] by (simp add: skipped patterns_need_phrase phrase_scan)
  moreover have "first_match decimal_at (before @ phrase @ show_nat n) = Some (show_nat n)"
    using phrase_scan(2) [OF decimal_code [OF show_nat_decimal]] by (simp add: skipped patterns_need_phrase)
  ultimately show "parseChanceryProgramError S (before @ phrase @ show_nat n) = lookupChanceryError S (JNum (int n))"
    using assms(1) by (simp add: parseChanceryProgramError_def nearest_double_def)
  have "first_match hexadecimal_at (before @ phrase @ ''0x'' @ show_hex n) = Some (show_hex n)"
    using skipped(1) [OF patterns_need_phrase(1)] phrase_scan(1) hexadecimal_code by simp
  then show "parseChanceryProgramError S (before @ phrase @ ''0x'' @ show_hex n) = lookupChanceryError S (JNum (int n))"
    using assms(1) by (simp add: parseChanceryProgramError_def nearest_double_def hex_number_show)
qed

end
