(* ===== verification/Spec2Isabelle.thy ===== *)
theory Spec2Isabelle
  imports SampleMessages SampleClient SampleRun SampleQuote SampleOracle SampleDirect SampleCommand SampleDevnet
    OperationDocument SettlementExecution ProgramErrors
begin

text \<open>
  The TypeScript client of the Chancery program (\<open>src/typescript/src\<close>), with its market-maker integration
  (\<open>src/integration/typescript/src\<close>), its devnet tooling (\<open>src/integration/devnet\<close>) and its oracle reader
  (\<open>src/oracles/typescript/src\<close>): the binary format of its instructions, accounts and events, program-derived
  addresses, Solana transactions, and the settlement rules that a client evaluates before it sends anything. A client that gets a byte, an address or an
  account role wrong signs a transaction it did not mean; the properties below say that it does not.

  \<^bold>\<open>How the parts fit.\<close> A schema (\<open>ChancerySchema.ts\<close>, generated data read at start) describes every
  instruction, account and event. \<open>BinaryCodec.ts\<close> encodes and decodes values by that schema;
  \<open>ChanceryAccount.ts\<close>, \<open>ChanceryInstruction.ts\<close> and \<open>ChanceryEvent.ts\<close> put a discriminator in front.
  \<open>ChanceryInstruction.ts\<close> also finds the accounts of an instruction, deriving addresses with
  \<open>ProgramAddress.ts\<close>. \<open>SolanaTransaction.ts\<close> compiles instructions to a message and signs it.
  \<open>client/ChanceryProtocol.ts\<close> derives the protocol's addresses and evaluates decoded policies, permissions,
  fees and limits; \<open>SplToken.ts\<close> decodes token mints and computes transfer fees. The files of \<open>squads\<close> wrap
  instructions into a proposal of the Squads multisig program: they compile the instructions to a Solana message,
  parse it back into the Squads form, and build the instructions that create, approve and execute the proposal.
  \<open>client/cli.ts\<close> turns a command line into calls of the settlement client. The market-maker integration builds the two
  direct settlements without the schema, from a JSON document, and drives them through a port of its host. The devnet
  tooling sets up a wallet, a pathway, a permission and test assets on a public test deployment, whose authorities are
  addresses of a controller program that signs for them; and it writes the documents of the integration.

  \<^bold>\<open>Theories.\<close>
  \<^item> \<open>Prelude\<close>: exceptions as values (\<open>bindR\<close>, \<open>mapR\<close>, \<open>foldR\<close>), byte arrays, the locale \<open>canonical_codec\<close>.
  \<^item> \<open>Positional\<close>: numbers in a positional base and the carry loops of base conversions.
  \<^item> \<open>Base58Codec\<close> (\<open>Base58Codec.ts\<close>): both loops, keys, and the interpretation of \<open>canonical_codec\<close>.
  \<^item> \<open>JsValue\<close>: JavaScript values, safe integers, bigint division, object tables, decimal texts.
  \<^item> \<open>TextCodec\<close>: hexadecimal, base64 and UTF-8 (\<open>BinaryCodec.ts\<close>, and the platform's \<open>atob\<close>, \<open>btoa\<close>).
  \<^item> \<open>Reader\<close>: parsers over a reader, the locale \<open>byte_reader\<close> with what a codec relies on, and the two
    notions the round trips use: \<open>accepts\<close> (reading an encoding returns its value) and \<open>consumes\<close> (whatever is
    read is an encoding of the value).
  \<^item> \<open>ProgramAddress\<close> (\<open>ProgramAddress.ts\<close>, \<open>ChanceryTarget.ts\<close>): the curve test and the bump search.
  \<^item> \<open>ChancerySchema\<close> (\<open>ChancerySchema.ts\<close>), \<open>BinaryCodec\<close> (\<open>BinaryCodec.ts\<close>; interprets \<open>byte_reader\<close>),
    \<open>CodecRoundTrip\<close> (typed values and the two directions of every type codec),
    \<open>ChanceryAccount\<close> (\<open>ChanceryAccount.ts\<close>, \<open>ChanceryError.ts\<close>), \<open>ChanceryInstruction\<close>, \<open>ChanceryEvent\<close>.
  \<^item> \<open>SolanaTransaction\<close> (\<open>SolanaTransaction.ts\<close>), \<open>SplToken\<close> (\<open>SplToken.ts\<close>); \<open>LookupTables\<close>: what the placement of
    accounts in address lookup tables computes, as a partition of the mentioned keys.
  \<^item> \<open>SquadsMessage\<close> (\<open>squads/SquadsCodec.ts\<close>, \<open>squads/SquadsVaultMessage.ts\<close>): the vault message, its binary form and
    the parser of compiled messages, whose reader class interprets \<open>byte_reader\<close> a second time;
    \<open>SquadsCompile\<close>: what that parser reads from a message that \<open>SolanaTransaction\<close> compiled;
    \<open>SquadsProposal\<close> (\<open>squads/SquadsPda.ts\<close>, \<open>squads/SquadsInstruction.ts\<close>, \<open>squads/SquadsProposal.ts\<close>).
  \<^item> \<open>ChanceryProtocol\<close> and \<open>SettlementRules\<close> (\<open>client/ChanceryProtocol.ts\<close>).
  \<^item> \<open>ChanceryRpc\<close> (\<open>ChanceryRpc.ts\<close>, \<open>JsonRpcCodec.ts\<close>): every method of the RPC client, over a parameter \<open>fetch\<close>.
  \<^item> The settlement client (\<open>client/ChanceryClient.ts\<close>), whose state is that of the RPC client it drives:
    \<open>SettlementState\<close> (the request, snapshots of accounts and mints, token accounts, pathways), \<open>SettlementResolve\<close>
    (policies, the parties of an intent, permissions, limit windows), \<open>SettlementGates\<close> (the effective quote and the
    gates, each returning the issues it pushes), \<open>SettlementInspect\<close> (the phases of \<open>inspect\<close> in their order and the
    arguments and accounts of the instruction), \<open>ChanceryClient\<close> (building, preparing, simulating, submitting,
    confirming). \<open>SettlementSafety\<close> shows what a phase without issues establishes and what a returned and a ready
    inspection stand for; \<open>SubmissionSafety\<close> what a confirmation and a submission are.
  \<^item> \<open>ChanceryDiscovery\<close> (\<open>client/ChanceryDiscovery.ts\<close>): the accounts of the program, decoded, compared to the addresses
    they derive to, and put into inventories; \<open>DiscoverySafety\<close>: that none is lost and that the links are right.
  \<^item> \<open>CommandLine\<close> (\<open>client/cli.ts\<close>): options, requests and commands, up to what is printed; \<open>CommandLineSafety\<close>: which
    lines are read, and what a run has done.
  \<^item> The market-maker integration: \<open>DirectSettlement\<close> (\<open>target.ts\<close>, \<open>base58.ts\<close>, \<open>direct_settlement.ts\<close>, \<open>model.ts\<close>,
    \<open>instruction_json.ts\<close>, \<open>market_maker_settlement.ts\<close>), \<open>OperationDocument\<close> (\<open>operation.ts\<close>: the loaders and the
    documents they accept), \<open>SettlementExecution\<close> (\<open>settlement_execution.ts\<close>: the execution over the port of its host, and
    the protocol it follows as a step relation). \<open>DirectSchema\<close> holds the two entries of \<open>chancery.schema.json\<close> that the
    builders stand for; \<open>DirectSettlementSafety\<close> shows that they agree with the schema-driven client.
  \<^item> The devnet tooling: \<open>DevnetInstructions\<close> (the directories \<open>configuration\<close>, \<open>controller\<close>, \<open>instructions\<close>: what a relay
    through the controller changes), \<open>DevnetSession\<close> (\<open>execution\<close>, \<open>wallet\<close>: submitting, confirming, and that a confirmation
    ends), \<open>DevnetPermissions\<close> (\<open>permissions\<close>, \<open>pathway\<close>, \<open>assets\<close>, \<open>setup\<close>: what a grant establishes and what its hash commits
    to), \<open>DevnetOperation\<close> (\<open>operation\<close>: the document of an inspection), \<open>DevnetCommand\<close> (\<open>commands\<close>: which arguments are
    read, and the commands).
  \<^item> \<open>OracleSnapshot\<close> (\<open>OracleSnapshot.ts\<close>) and \<open>ProgramErrors\<close> (\<open>parseChanceryProgramError\<close> of \<open>ChanceryError.ts\<close>).
  \<^item> \<open>SampleSchema\<close>, \<open>SampleMessages\<close>, \<open>SampleClient\<close>, \<open>SampleQuote\<close>: concrete inputs for the witnesses; \<open>SampleServer\<close>
    and \<open>SampleRun\<close>: a server that holds a small deployment, and a direct mint inspected and submitted against it;
    \<open>SampleDiscovery\<close> and \<open>SampleOracle\<close>: a listing that is discovered and its snapshot; \<open>SampleCommand\<close>: a command line
    that mints; \<open>SampleDirect\<close>: the two direct operations; \<open>SampleDevnet\<close>: a devnet server that is asked, signs and confirms.

  \<^bold>\<open>Modelling.\<close> A thrown exception is an \<open>Inl\<close> value; the constant text of its message is kept, interpolated
  labels are not. A \<open>Uint8Array\<close> is a list of \<open>8 word\<close>, a string a list of characters with codes below 256, a
  JavaScript number an integer or one opaque fraction, a bigint an integer. An object is an association list
  with its own properties; the names inherited from \<open>Object.prototype\<close> are left out. The parsed schema is a
  parameter \<open>S\<close>. SHA-256 is a parameter \<open>H\<close> and Ed25519 a record of two functions, both of \<open>node:crypto\<close>; no
  property assumes more of them than is written in it.

  \<^bold>\<open>Bounds.\<close> A defined type is unfolded at most \<open>STACK_DEPTH\<close> (1000) times, after which the engine's \<open>RangeError\<close>
  for an exhausted call stack is thrown; \<open>call_depth_irrelevant\<close> shows that the bound is invisible for schemas
  whose definitions resolve in fewer steps, as every finite acyclic schema does. The loop that derives account
  addresses runs as many passes as the source allows, one per account, and \<open>pda_passes_settle\<close> shows that
  they suffice. A confirmation polls at most \<open>MAXIMUM_POLLS\<close> (120) times, as the source does. The two
  waiting loops of the devnet tooling run at most \<open>PASS_LIMIT\<close> (60001) passes: \<open>confirmSignature_ends\<close> shows that for the confirmation the bound is invisible whenever waiting takes at least a
  millisecond, since its deadline is 60000 milliseconds away. Every other recursion is structural or has a termination
  measure.

  \<^bold>\<open>Not modelled.\<close> The HTTP transport, file reading and \<open>JSON.parse\<close> themselves, and \<open>JSON.stringify\<close> (\<open>stringify\<close>, the
  printing of \<open>cli.ts\<close> and \<open>instruction_json.ts\<close>); the state after a throw, except in \<open>SettlementExecution\<close>, whose port
  keeps it; the waiting time between polls; the locale's order of texts (a parameter of the discovery). \<open>Promise.all\<close>
  runs its calls in order. Of the repository: the examples, the web page, the validation scripts, the tests, and the Python and Rust
  ports.
\<close>

section \<open>Settlement\<close>

text \<open>C1: When \<open>computeFeeQuote\<close> returns a quote without observations for a policy whose amounts are unsigned,
  the quote conserves the output: what the recipient gets and what is charged add up to the gross output, the
  charge and the rebate add up to the assessed fee, neither is negative, some output is left, the fee is in the
  denomination of the action, the policy is in force, and a fee is routed only when one is charged.\<close>

theorem fee_quote_conserves:
  assumes "computeFeeQuote S action grossInput grossOutput (Some values) now = Inr q"
    and "fq_observations q = []" and "unsigned_fields FEE_AMOUNT_FIELDS values"
  shows "fq_net_output q + fq_net_fee q = grossOutput \<and> fq_net_fee q + fq_effective_rebate q = fq_assessed q \<and>
    0 \<le> fq_net_fee q \<and> fq_net_fee q \<le> fq_assessed q \<and> 0 < fq_net_output q \<and>
    fq_denomination q = expected_denomination action \<and> fq_effective q \<and>
    (fq_routed q \<longrightarrow> 0 < fq_net_fee q)"
  using assms(1)
proof (cases rule: computeFeeQuote_Some)
  case (1 flags start stop floorFlag)
  have "0 \<le> fq_assessed q" using assessed_fee_nonneg [OF 1(5) assms(3)] .
  moreover have "0 \<le> fq_nominal_rebate q" using nominal_rebate_nonneg [OF 1(6) assms(3)] calculation .
  ultimately show ?thesis using 1 assms(2) by (auto split: if_splits)
qed

theorem fee_quote_conserves_witness:
  "\<exists>q. computeFeeQuote sample_schema Mint 10000 10000 (Some sample_fee_policy) 5 = Inr q \<and>
     fq_net_output q + fq_net_fee q = 10000 \<and> fq_net_fee q = 23"
proof -
  have "\<exists>q. computeFeeQuote sample_schema Mint 10000 10000 (Some sample_fee_policy) 5 = Inr q \<and>
     fq_observations q = [] \<and> fq_net_fee q = 23"
    by (simp add: computeFeeQuote_def assessed_fee_def nominal_rebate_def sample_fee_policy_def field_defs Let_def
        failed_checks_def fee_denomination_def expected_denomination_def roundedBasisPoints_def
        sample_key_is_key bit_numeral_rec)
  moreover have "unsigned_fields FEE_AMOUNT_FIELDS sample_fee_policy"
    by (simp add: unsigned_fields_def FEE_AMOUNT_FIELDS_def sample_fee_policy_def obj_get_def)
  ultimately show ?thesis using fee_quote_conserves by blast
qed

section \<open>The settlement client\<close>



text \<open>C3: Whatever its issues, an inspection that is returned names exactly one matching pathway, at its canonical address,
  listed and loaded from an account of the program, and existing source, reserve and destination token accounts; it is
  ready exactly when it has no issue, and no issue is listed twice. So a missing token account is never reported as an
  issue: the inspection fails instead.\<close>

theorem inspection_is_resolved:
  assumes "inspect c requestInput st = Inr (insp, st')"
  shows "inspection_resolved c insp"
  using assms by (rule inspect_resolved)

theorem inspection_is_resolved_witness:
  "\<exists>insp st. inspect server_client mint_request sample_connection = Inr (insp, st) \<and> inspection_resolved server_client insp"
  using sample_inspected inspection_is_resolved by blast

text \<open>C4: A submission that returns sent what it had simulated, from an inspection that had not expired: the slot read
  first is at most the one at which the inspection expires; the transaction carries the one instruction of the ready
  inspection, compiled for the fee payer and the lookup tables asked for with the latest blockhash, and signed with the
  keypairs given; its bytes were simulated without an error and sent unchanged in the state the simulation left, and the
  signature sent back reached the commitment without an error.\<close>

theorem submission_sends_what_was_simulated:
  assumes "submitTransaction c insp request st = Inr (sub, st')"
  shows "submission_ok c insp request st sub"
  using assms by (rule submitTransaction_ok)

theorem submission_sends_what_was_simulated_witness:
  "\<exists>insp st sub. submission_ok server_client insp sample_transaction_request st sub"
  using sample_inspected submission_sends_what_was_simulated by blast

text \<open>C5: A transaction is reported confirmed exactly when, after fewer than 120 polls that found it pending within its
  block height, a poll found its status without an error and at the commitment asked for; each of the polls before it
  costs two requests and the last one costs one.\<close>

theorem confirmation_iff:
  "confirmTransaction c signature lastValid commitment st = Inr (s, st') \<longleftrightarrow>
   (\<exists>n w. n < 120 \<and> waits c signature lastValid commitment n st w \<and>
      getSignatureStatus (cc_fetch c) signature w = Inr (Some s, st') \<and>
      ss_err s = JNull \<and> commitmentSatisfied (ss_confirmation_status s) commitment \<and>
      rpc_request_id st' = rpc_request_id st + 2 * n + 1)"
  by (rule confirmTransaction_iff)

text \<open>C6: An effective quote accounts for every unit: what the principal receives, the transfer fee on it and the fee of
  the program add up to the gross output at the configured rate; the routed fee arrives less its own transfer fee; the
  reduction against the configured output is never negative, its share is at most 10000 basis points, and the effective
  rate never exceeds the configured one.\<close>

theorem effective_quote_accounts_for_every_unit:
  assumes "computeSettlementEffectiveQuote S action requested assetValues mint policy now epoch = Inr r"
    and "fq_observations (er_fee_quote r) = []"
    and "\<And>m c. mint = Some m \<Longrightarrow> tm_transfer_fee_config m = Some c \<Longrightarrow> fee_config_ok c"
    and "\<And>vs. policy = Some vs \<Longrightarrow> unsigned_fields FEE_AMOUNT_FIELDS vs"
    and "unsigned_fields [''deposit_rate_e9'', ''redeem_rate_e9''] assetValues"
  shows "quote_accounts requested r"
  using assms by (rule effective_quote_accounts)

theorem effective_quote_accounts_for_every_unit_witness:
  "\<exists>r. computeSettlementEffectiveQuote sample_schema Mint 10005 sample_rates (Some sample_token_mint)
     (Some sample_fee_policy) 100 3 = Inr r \<and> quote_accounts 10005 r \<and> eq_received (er_quote r) = 19955"
proof -
  obtain r where r: "computeSettlementEffectiveQuote sample_schema Mint 10005 sample_rates (Some sample_token_mint)
     (Some sample_fee_policy) 100 3 = Inr r" "fq_observations (er_fee_quote r) = []" "eq_received (er_quote r) = 19955"
    using sample_effective_quote by blast
  have "quote_accounts 10005 r"
  proof (rule effective_quote_accounts_for_every_unit [OF r(1,2)])
    show "fee_config_ok c" if "Some sample_token_mint = Some m" "tm_transfer_fee_config m = Some c" for m c
      using that by (auto simp: sample_token_mint_def sample_fee_config_def fee_config_ok_def transfer_fee_ok_def)
    show "unsigned_fields FEE_AMOUNT_FIELDS vs" if "Some sample_fee_policy = Some vs" for vs
      using that by (auto simp: unsigned_fields_def FEE_AMOUNT_FIELDS_def sample_fee_policy_def obj_get_def)
    show "unsigned_fields [''deposit_rate_e9'', ''redeem_rate_e9''] sample_rates"
      by (simp add: unsigned_fields_def sample_rates_def obj_get_def)
  qed
  with r show ?thesis by blast
qed

text \<open>C7: A discovery reports the program's accounts completely: the addresses of the recognized and the unrecognized
  accounts are exactly those the server listed, each as often; a recognized account is the decoding of a listed
  account of the program that is not executable, whose flags truthfully say whether its address and its stored bump are
  those of the expected address it reports; an unrecognized one has an unknown discriminator; the accounts of a type are
  the recognized ones of that name in their order; and every known address of the schema, and the mint authority, is listed with whether an account is there.\<close>

theorem discovery_is_complete:
  assumes "discoverChanceryState H S localeCompare fetch commitment w = Inr (d, w')"
  shows "\<exists>programAccounts.
    getProgramAccounts fetch (KeyText (program_address (schema_program S))) [] commitment w = Inr (programAccounts, w')
    \<and> complete_accounts S programAccounts d \<and> complete_known_pdas S d"
  using discoverChanceryState_parts [OF assms] build_discovery_accounts build_discovery_known_pdas by blast

theorem discovery_is_complete_witness:
  "\<exists>d programAccounts. complete_accounts server_schema programAccounts d \<and> complete_known_pdas server_schema d
     \<and> length programAccounts = 4 \<and> length (sd_recognized d) = 3"
proof -
  obtain d w w' where d: "discoverChanceryState server_hash server_schema compareCodeUnits (listing_fetch listing) Confirmed w
      = Inr (d, w')" "expected_discovery d"
    using discovered_listing by blast
  have "length (sd_recognized d) = 3" "sd_count d = 4"
    using d(2) by (auto simp: expected_discovery_def dest!: arg_cong [of _ _ length])
  with discovery_is_complete [OF d(1)] show ?thesis by (metis complete_accounts_def)
qed

text \<open>C8: The inventories of a discovery are complete and linked correctly: there is one entry per pathway account and per
  asset account; a pathway's fee, limit and evidence policies are the recognized accounts that store the ids it names,
  absent only when an id is zero or no account stores it; its destinations are those of its mint; and an asset has
  exactly the pathways, destinations and the pause state of its mint.\<close>

theorem discovery_links_policies:
  assumes "discoverChanceryState H S localeCompare fetch commitment w = Inr (d, w')"
  shows "complete_inventories d"
  using discoverChanceryState_parts [OF assms] build_discovery_inventories by blast

theorem discovery_links_policies_witness:
  "\<exists>d p f. complete_inventories d \<and> p \<in> set (sd_pathways d) \<and> pi_fee p = Some f \<and> da_address f = pda_key 12"
proof -
  obtain d w w' where d: "discoverChanceryState server_hash server_schema compareCodeUnits (listing_fetch listing) Confirmed w
      = Inr (d, w')" "expected_discovery d"
    using discovered_listing by blast
  from discovery_links_policies [OF d(1)] d(2) show ?thesis by (auto simp: expected_discovery_def)
qed

section \<open>The market-maker integration\<close>

text \<open>C9: The two builders of the market-maker integration, which know nothing of the schema, agree with the client that
  reads the entries of \<open>mint_direct\<close> and \<open>redeem_direct\<close> in it: whatever instruction they return, \<open>buildChanceryInstruction\<close>
  builds one with the same program, the same data, and position by position the same address and flags, from the same
  keys and the amounts as numbers. With verification on this needs the module activation state at its derived address.\<close>

theorem direct_builders_agree:
  assumes "direct_defaults S programId"
    and "map_of (schema_instructions S) ''mint_direct'' = Some mint_direct_schema"
    and "map_of (schema_instructions S) ''redeem_direct'' = Some redeem_direct_schema"
  shows "(buildMintDirectInstruction programId mint = Inr spec \<longrightarrow>
      module_address_ok H S verify (ma_moduleActivationState (do_accounts mint)) \<longrightarrow>
      agrees_with_client H S ''mint_direct'' mint_direct_schema
        (direct_arguments ''asset_amount'' ''minimum_issued_token_amount'' mint) (mint_keys (do_accounts mint)) verify spec) \<and>
    (buildRedeemDirectInstruction programId redeem = Inr spec \<longrightarrow>
      module_address_ok H S verify (rd_moduleActivationState (do_accounts redeem)) \<longrightarrow>
      agrees_with_client H S ''redeem_direct'' redeem_direct_schema
        (direct_arguments ''issued_token_amount'' ''minimum_asset_amount'' redeem) (redeem_keys (do_accounts redeem)) verify spec)"
  using mint_agrees [OF _ assms(1,2)] redeem_agrees [OF _ assms(1,3)] by blast

theorem direct_builders_agree_witness:
  "(\<exists>spec. buildMintDirectInstruction (sample_key 9) direct_mint = Inr spec \<and>
     agrees_with_client server_hash direct_schema ''mint_direct'' mint_direct_schema
       (direct_arguments ''asset_amount'' ''minimum_issued_token_amount'' direct_mint)
       (mint_keys (do_accounts direct_mint)) True spec) \<and>
   (\<exists>spec. buildRedeemDirectInstruction (sample_key 9) direct_redeem = Inr spec \<and>
     agrees_with_client server_hash direct_schema ''redeem_direct'' redeem_direct_schema
       (direct_arguments ''issued_token_amount'' ''minimum_asset_amount'' direct_redeem)
       (redeem_keys (do_accounts direct_redeem)) True spec)"
proof -
  have "ma_moduleActivationState (do_accounts direct_mint) = pda_key 7"
    "rd_moduleActivationState (do_accounts direct_redeem) = pda_key 7"
    by (simp_all add: direct_mint_def direct_redeem_def)
  moreover obtain spec spec' where "buildMintDirectInstruction (sample_key 9) direct_mint = Inr spec"
      "buildRedeemDirectInstruction (sample_key 9) direct_redeem = Inr spec'"
    using direct_mint_built direct_redeem_built by blast
  ultimately show ?thesis
    using direct_builders_agree [OF direct_schema_defaults direct_schema_entries] direct_module_address by metis
qed

text \<open>C10: The execution of a prepared settlement follows the protocol of its port and always ends: prepare, simulate,
  submit, confirm and reconcile are called in this order, each once and only after the one before succeeded; the
  transaction submitted is the one simulated and accepted; a blank signature is refused; the error of a failed stage
  names the stage and carries the signature exactly when the transaction was submitted. A finished execution makes no
  further call.\<close>

theorem settlement_execution_protocol:
  "\<exists>calls. protocol_runs port settlement (Unprepared, w, [])
       (Finished (fst (executePreparedMarketMakerSettlement port settlement w)),
        snd (executePreparedMarketMakerSettlement port settlement w), calls) \<and>
     history_ok settlement (Finished (fst (executePreparedMarketMakerSettlement port settlement w)),
        snd (executePreparedMarketMakerSettlement port settlement w), calls) \<and>
     \<not> (\<exists>st. protocol_step port settlement (Finished (fst (executePreparedMarketMakerSettlement port settlement w)),
        snd (executePreparedMarketMakerSettlement port settlement w), calls) st)"
proof -
  obtain calls where run: "protocol_runs port settlement (Unprepared, w, [])
       (Finished (fst (executePreparedMarketMakerSettlement port settlement w)),
        snd (executePreparedMarketMakerSettlement port settlement w), calls)"
    using execution_ends [of port settlement w, unfolded ends_in_def, THEN spec, of "[]"] by (rule exE)
  from protocol_history [OF this] run show ?thesis by (fastforce elim: finishedE)
qed

text \<open>C11: The documents that the integration loads are read exactly: a parsed file loads as a mint or a redemption if and
  only if its objects have exactly the fields of that operation with its texts, null standing for a policy account that
  is not given; a missing field, a further field or a field of another type is refused.\<close>

theorem operation_documents_exact:
  "(loadMintDirectOperation parsed = Inr mint \<longleftrightarrow> document_of mint_entries ma_policyAccounts mint parsed) \<and>
   (loadRedeemDirectOperation parsed = Inr redeem \<longleftrightarrow> document_of redeem_entries rd_policyAccounts redeem parsed)"
  using loadMintDirectOperation_Inr loadRedeemDirectOperation_Inr by blast

section \<open>The command line\<close>

text \<open>C12: What a run of the command line that does not fail has done: it prints the usage, exactly when it is asked
  for or there are no arguments; or over the endpoint and with the commitment of its options it prints a discovery or the
  events of one transaction, or inspects the one settlement its options ask for: action, mode, asset, principal, amounts,
  ids, parties, accounts and time are the options of their names, and absent without them. The settlement is simulated or
  submitted only when the inspection is ready and the command says so, with the keypairs of every \<open>--signer\<close> in order,
  the fee payer, by default the first signer, and the lookup tables given; and the exit code tells a submission, a
  rejected simulation and an inspection that is not ready apart.\<close>

theorem command_runs_what_it_says:
  assumes "cli_main host args w = Inr ((output, code), connection)"
  shows "run_output host args w output code connection"
  using assms by (rule cli_main_output)

theorem command_runs_what_it_says_witness:
  "\<exists>submitted st. cli_main sample_host mint_line () = Inr ((SubmissionOutput submitted, 0), Some st) \<and>
     run_output sample_host mint_line () (SubmissionOutput submitted) 0 (Some st)"
proof -
  obtain submitted st where run: "cli_main sample_host mint_line () = Inr ((SubmissionOutput submitted, 0), Some st)"
    using mint_run by (elim exE)
  from command_runs_what_it_says [OF run] run show ?thesis by (intro exI conjI)
qed

text \<open>C13: A command line is read exactly when it is a known command followed by well-formed options, each written as
  \<open>--name=value\<close> or as \<open>--name value\<close>; and every option then has the values written for it, in their order.\<close>

theorem command_line_read:
  "(parseCommandLine args = Inr p \<longleftrightarrow> pc_command p \<in> set COMMANDS \<and>
     (\<exists>os. list_all written_ok os \<and> args = pc_command p # concat (map written_tokens os) \<and>
        pc_options p = foldl add_written [] os)) \<and>
   repeatedOption (foldl add_written [] os) name = map written_value (filter (\<lambda>opt. written_name opt = name) os)"
  using parseCommandLine_Inr [of args p] repeated_written [of "[]" os name] by (simp add: repeatedOption_def)

section \<open>The devnet tooling\<close>

text \<open>C14: The operation document stands for the inspection it was written from. Whenever the client builds an instruction
  from a ready direct inspection, a document is written; read back, the market-maker loader accepts it as the same
  operation; and the market-maker builder makes of it the very instruction of the client, with the same program, data and
  accounts in order, unless an account that is not optional is the zero address, and then it throws. Every direct inspection
  has the form assumed here (\<open>inspect_direct_form\<close>).\<close>

theorem operation_document_rebuilds:
  assumes "builds_direct H S insp built" "direct_form insp" "direct_defaults S programId" "direct_instructions S"
  shows "\<exists>operation. directOperationDocument H S insp = Inr operation \<and>
    load_operation (dx_action insp) (document_js operation) = Inr operation \<and>
    rebuilds built (market_maker_instruction programId operation)"
proof -
  obtain operation where operation: "directOperationDocument H S insp = Inr operation"
    using document_written [OF assms(1,2,4)] by blast
  from operation_rebuilt [OF this assms(2-4)] operation assms(1) show ?thesis by (auto simp: builds_direct_def)
qed

theorem operation_document_rebuilds_witness:
  "\<exists>built operation. builds_direct server_hash direct_schema inspected_mint built \<and>
     directOperationDocument server_hash direct_schema inspected_mint = Inr operation \<and>
     load_operation Mint (document_js operation) = Inr operation \<and>
     rebuilds built (market_maker_instruction (sample_key 9) operation)"
proof -
  obtain built where built: "builds_direct server_hash direct_schema inspected_mint built" using inspected_mint_built by blast
  have "dx_action inspected_mint = Mint" by (simp add: inspected_mint_def)
  with operation_document_rebuilds [OF built inspected_mint_form direct_schema_defaults direct_schema_instructions] built
  show ?thesis by auto
qed

text \<open>C15: An instruction that is relayed through the controller asks for no more than it did: it keeps its data and its
  accounts, exactly the controller's authorities lose their signature, the mask names exactly the roles whose authority
  signed, and the caller is the only signer left. It is submitted on devnet, told by its genesis hash, in a message that
  only the wallet signs; the bytes sent are those that were simulated without an error, and the signature was seen
  confirmed.\<close>

theorem controller_submission:
  assumes "relayP context i st = Inr (signature, st')"
  shows "\<exists>key r. normalizePublicKey (KeyText (kp_public_key (dc_signer context))) = Inr key \<and>
    relayed (dn_hash (dc_host context)) key i r \<and> devnet_submission context [r] st signature st'"
proof -
  from assms obtain r where r: "executeChanceryInstruction (dn_hash (dc_host context)) (kp_public_key (dc_signer context)) i = Inr r"
      "submitInstructions context [r] st = Inr (signature, st')"
    by (auto simp: relayP_def bindP_Inr liftP_Inr)
  from executeChanceryInstruction_relayed [OF r(1)] submitInstructions_ok [OF r(2)] show ?thesis by blast
qed

theorem controller_submission_witness:
  "\<exists>key r st'. relayed server_hash key controlled r \<and>
     devnet_submission devnet_wallet [r] sample_connection (encodeBase58 (replicate 64 7)) st'"
proof -
  obtain st' where "relayP devnet_wallet controlled sample_connection = Inr (encodeBase58 (replicate 64 7), st')"
    using controlled_submitted sample_connection_ok unfolding answers_def by blast
  from controller_submission [OF this] show ?thesis by auto
qed

text \<open>C16: A permission that \<open>grantPermission\<close> reports is in force: it is reported at the address derived from its subject
  and scope, its roles are active ones, and the record read last is not paused and holds every role asked for. Either
  the record had them already; or it holds the roles it had and those asked for, one generation later, with its expiry
  kept, and no dangerous role globally or for ever.\<close>

theorem granted_permission_in_force:
  assumes "grantPermission context grant st = Inr (address, st')"
  shows "\<exists>subject scopeKey derived. address = pda_address derived \<and>
    grant_target (dc_host context) grant subject scopeKey derived \<and>
    grant_in_force (dc_host context) grant subject scopeKey derived st'"
  using assms by (rule grantPermission_ok)

theorem granted_permission_in_force_witness:
  "\<exists>subject scopeKey derived st'. pda_address derived = pda_key 1 \<and>
     grant_target devnet_host sample_grant subject scopeKey derived \<and>
     grant_in_force devnet_host sample_grant subject scopeKey derived st'"
proof -
  obtain st' where "grantPermission devnet_wallet sample_grant sample_connection = Inr (pda_key 1, st')"
    using granted sample_connection_ok unfolding answers_def by blast
  from granted_permission_in_force [OF this] show ?thesis by (metis devnet_parts(1))
qed

text \<open>C17: The value hash of a permission change commits to the record, the risk class and every field of the permission:
  it is the hash of bytes that two proposals share only when they agree on all of them.\<close>

theorem permission_hash_commits:
  assumes "permissionValueHash H S target risk v = Inr digest" "permissionValueHash H S target' risk' w = Inr digest'"
    and "risk < 256" "risk' < 256"
  shows "\<exists>x y. permission_preimage S target risk v = Inr x \<and> permission_preimage S target' risk' w = Inr y \<and>
    digest = H x \<and> digest' = H y \<and> (x = y \<longleftrightarrow> target = target' \<and> risk = risk' \<and> v = w)"
proof -
  obtain x y where "permission_preimage S target risk v = Inr x" "digest = H x"
      "permission_preimage S target' risk' w = Inr y" "digest' = H y"
    using assms(1,2) unfolding hash_of_preimage by blast
  with permission_preimage_inj [OF _ _ assms(3,4)] show ?thesis by blast
qed

theorem permission_hash_commits_witness:
  "\<exists>x y. permission_preimage sample_schema (sample_key 2) 2 sample_permission_change = Inr x \<and>
     permission_preimage sample_schema (sample_key 2) 2 (sample_permission_change\<lparr>pv_generation := 4\<rparr>) = Inr y \<and> x \<noteq> y"
proof -
  obtain digest digest' where hashes: "permissionValueHash server_hash sample_schema (sample_key 2) 2 sample_permission_change = Inr digest"
      "permissionValueHash server_hash sample_schema (sample_key 2) 2 (sample_permission_change\<lparr>pv_generation := 4\<rparr>) = Inr digest'"
    using sample_permission_hashed by blast
  have "sample_permission_change \<noteq> sample_permission_change\<lparr>pv_generation := 4\<rparr>" by (simp add: sample_permission_change_def)
  with permission_hash_commits [OF hashes] show ?thesis by auto
qed

section \<open>Transactions\<close>

text \<open>C18: A compiled unversioned message gives every account the role that was asked for it. Its keys are
  different, the fee payer comes first, they are exactly the payer and the keys the instructions mention, and what
  a runtime reads from the header counts about the key at an index (does it sign, may it be written) is what some
  instruction asks for that key; the payer signs and is written.\<close>

theorem message_roles:
  assumes "compileUnversionedMessage instructions payerInput blockhash = Inr msg"
  shows "\<exists>payer. normalizePublicKey payerInput = Inr payer \<and>
    (let keys = cm_account_keys msg in
      distinct keys \<and> keys \<noteq> [] \<and> hd keys = payer \<and>
      set keys = {k. k = payer \<or> mentions instructions k} \<and>
      cm_signers msg = take (cm_required_signatures msg) keys \<and>
      (\<forall>i < length keys.
         header_signer msg i = (keys ! i = payer \<or> asks_signer instructions (keys ! i)) \<and>
         header_writable msg (length keys) i = (keys ! i = payer \<or> asks_writable instructions (keys ! i))))"
  using assms by (rule compileUnversionedMessage_ok)

theorem message_roles_witness:
  "\<exists>msg. compileUnversionedMessage sample_instructions (KeyText (sample_key 1)) (KeyText (sample_key 4)) = Inr msg \<and>
     hd (cm_account_keys msg) = sample_key 1"
proof -
  obtain msg where m: "compileUnversionedMessage sample_instructions (KeyText (sample_key 1)) (KeyText (sample_key 4)) = Inr msg"
    using sample_message_ok by (auto simp: is_ok_iff)
  with message_roles [OF m] show ?thesis by (auto simp: Let_def)
qed

text \<open>C19: The bytes of an unversioned message are the header counts, the number of keys, the 32 bytes of each
  key, the blockhash, the number of instructions, and each instruction as the index of its program, the indexes of
  its accounts and its data, where the key at every written index is the program's and the account's address.\<close>

theorem unversioned_message_bytes:
  assumes "compileUnversionedMessage instructions payerInput blockhash = Inr msg"
  shows "message_layout Unversioned instructions (length (cm_account_keys msg)) blockhash msg [] \<and>
    length (cm_account_keys msg) \<le> 256 \<and> cm_required_signatures msg \<le> 255 \<and> cm_lookups msg = []"
proof -
  obtain xs where
    c: "compileMessageBytes Unversioned instructions (orderStaticAccountMetas xs) [] [] [] blockhash = Inr msg"
    using assms by (auto simp: compileUnversionedMessage_def)
  from compileMessageBytes_layout [OF c] show ?thesis by (auto simp: compile_lookups_def)
qed

theorem unversioned_message_bytes_witness:
  "\<exists>msg. compileUnversionedMessage sample_instructions (KeyText (sample_key 1)) (KeyText (sample_key 4)) = Inr msg \<and>
     length (cm_account_keys msg) \<le> 256"
proof -
  obtain msg where m: "compileUnversionedMessage sample_instructions (KeyText (sample_key 1)) (KeyText (sample_key 4)) = Inr msg"
    using sample_message_ok by (auto simp: is_ok_iff)
  with unversioned_message_bytes [OF m] show ?thesis by blast
qed

section \<open>Instructions, accounts and events\<close>

text \<open>C20: Resolving the accounts of an instruction with PDA checking on returns one meta per declared account,
  in order, with the declared name, signer and writable flags; an account given by the caller gets that key; and
  every account that declares a PDA has the address its seeds give, where account seeds are the addresses of the
  returned list itself.\<close>

theorem resolved_accounts_match_schema:
  assumes "resolveChanceryInstructionAccounts H S name args inputs True = Inr metas"
    and "map_of (schema_instructions S) name = Some ix" and "distinct (map ia_name (ix_accounts ix))"
  shows "list_all2 (\<lambda>a m. meta_ok H S ix args (meta_addresses metas) a m \<and>
      (\<forall>key. map_of inputs (ia_name a) = Some (Some key) \<longrightarrow> normalizePublicKey key = Inr (am_address m)))
    (ix_accounts ix) metas"
  using assms by (rule resolve_accounts_ok)

theorem resolved_accounts_match_schema_witness:
  "list_all2 (\<lambda>a m. am_name m = ia_name a) sample_accounts sample_metas \<and>
   meta_ok sample_hash sample_schema
     \<lparr>ix_discriminator = [5], ix_accounts = sample_accounts, ix_args = sample_fields\<rparr> []
     (meta_addresses sample_metas) (sample_accounts ! 1) (sample_metas ! 1)"
proof -
  have "list_all2 (\<lambda>a m. meta_ok sample_hash sample_schema
      \<lparr>ix_discriminator = [5], ix_accounts = sample_accounts, ix_args = sample_fields\<rparr> [] (meta_addresses sample_metas) a m \<and>
      (\<forall>key. map_of sample_inputs (ia_name a) = Some (Some key) \<longrightarrow> normalizePublicKey key = Inr (am_address m)))
    sample_accounts sample_metas"
    using resolved_accounts_match_schema [OF sample_resolved [of True],
        of "\<lparr>ix_discriminator = [5], ix_accounts = sample_accounts, ix_args = sample_fields\<rparr>"]
    by (simp add: sample_schema_def sample_accounts_def)
  then show ?thesis
    by (auto simp: list_all2_conv_all_nth meta_ok_def sample_accounts_def)
qed

text \<open>C21: The loop that derives addresses may stop: when its passes, as many as the instruction has accounts, have
  run, another pass changes nothing, and every address known before is kept.\<close>

theorem pda_passes_settle:
  assumes "pda_passes H S ix args (length (ix_accounts ix)) addresses = Inr resolved"
  shows "foldR (pda_step H S ix args) (ix_accounts ix) (resolved, False) = Inr (resolved, False) \<and>
    map_of addresses \<subseteq>\<^sub>m map_of resolved"
  using pda_passes_fixed_point [OF unresolved_le assms] pda_passes_grow [OF assms] by blast

theorem pda_passes_settle_witness:
  "\<exists>resolved. pda_passes sample_hash sample_schema
       \<lparr>ix_discriminator = [5], ix_accounts = sample_accounts, ix_args = sample_fields\<rparr> [] 2
       [(''payer'', sample_key 1)] = Inr resolved \<and> map_of resolved ''payer'' = Some (sample_key 1)"
proof -
  let ?ix = "\<lparr>ix_discriminator = [5], ix_accounts = sample_accounts, ix_args = sample_fields\<rparr>"
  obtain resolved where r: "pda_passes sample_hash sample_schema ?ix [] (length (ix_accounts ?ix))
      [(''payer'', sample_key 1)] = Inr resolved"
    using sample_passes_ok by (auto simp: is_ok_iff)
  from pda_passes_settle [OF r] have "map_of resolved ''payer'' = Some (sample_key 1)"
    by (auto simp: map_le_def)
  moreover have two: "length (ix_accounts ?ix) = 2" by (simp add: sample_accounts_def)
  ultimately show ?thesis using r unfolding two by blast
qed

text \<open>C22: \<open>decodeChanceryAccount\<close> returns a name and values exactly when the account type of that name exists, the
  values have its fields and \<open>encodeChanceryAccount\<close> writes the given bytes for them; so both directions of the
  round trip hold, for a schema with distinct discriminators of the declared width.\<close>

theorem account_round_trip:
  assumes "accounts_wf S" "canonical_schema S"
    and "\<forall>(n, a) \<in> set (schema_accounts S). canonical_fields (struct_fields a)"
  shows "decodeChanceryAccount S data = Inr \<lparr>decoded_account_name = name, decoded_account_values = vals\<rparr> \<longleftrightarrow>
    encodeChanceryAccount S name vals = Inr data \<and>
    (\<exists>a. map_of (schema_accounts S) name = Some a \<and> has_struct S (struct_fields a) vals)"
  using account_encode_decode [OF assms] account_decode_encode [OF assms(1)] by fastforce

theorem account_round_trip_witness:
  "decodeChanceryAccount sample_schema (6 # sample_payload)
     = Inr \<lparr>decoded_account_name = ''note'', decoded_account_values = sample_values\<rparr>"
  by (subst account_round_trip)
     (auto simp: sample_wf sample_canonical sample_canonical_accounts sample_account_encoded sample_values_typed sample_lookups)

text \<open>C23: The same for instruction data: \<open>decodeChanceryInstructionData\<close> and \<open>encodeChanceryInstructionData\<close> are
  inverse to each other on the typed arguments of the schema's instructions.\<close>

theorem instruction_round_trip:
  assumes "instructions_wf S" "canonical_schema S"
    and "\<forall>(n, ix) \<in> set (schema_instructions S). canonical_fields (ix_args ix)"
  shows "decodeChanceryInstructionData S data = Inr \<lparr>di_name = name, di_arguments = args\<rparr> \<longleftrightarrow>
    encodeChanceryInstructionData S name args = Inr data \<and>
    (\<exists>ix. map_of (schema_instructions S) name = Some ix \<and> has_struct S (ix_args ix) args)"
  using instruction_encode_decode [OF assms] instruction_decode_encode [OF assms(1)] by fastforce

theorem instruction_round_trip_witness:
  "decodeChanceryInstructionData sample_schema (5 # sample_payload)
     = Inr \<lparr>di_name = ''deposit'', di_arguments = sample_values\<rparr>"
  by (subst instruction_round_trip)
     (auto simp: sample_wf sample_canonical sample_canonical_instructions sample_instruction_encoded
        sample_values_typed sample_lookups)

text \<open>The data of an event that \<open>encodeChanceryEventData\<close> writes with the CPI prefix decodes to the event's name
  and values.\<close>

lemma event_round_trip:
  assumes "events_wf S" "encodeChanceryEventData S name vals True = Inr data"
    and "map_of (schema_events S) name = Some ev" and "has_struct S (struct_fields ev) vals"
  shows "decodeChanceryEventData S data = Inr \<lparr>de_name = name, de_values = vals, de_data = data\<rparr>"
  using assms by (rule event_decode_encode)

lemma event_round_trip_witness:
  "decodeChanceryEventData sample_schema ([228, 69, 4] @ sample_payload)
     = Inr \<lparr>de_name = ''noted'', de_values = sample_values, de_data = [228, 69, 4] @ sample_payload\<rparr>"
  by (rule event_round_trip [OF _ sample_event_encoded])
     (auto simp: sample_wf sample_lookups sample_values_typed)

text \<open>C24: \<open>decodeChanceryEventsFromInnerInstructions\<close> reports exactly the genuine event calls, in their order: those
  whose program is Chancery, whose data starts with the CPI prefix, whose first account is the known event
  authority, and whose discriminator is known. Nothing else, above all no call by another program or by
  another authority, appears as an event.\<close>

theorem reported_events_are_genuine:
  assumes "decodeChanceryEventsFromInnerInstructions S iis = Inr events"
  shows "\<exists>authority. event_authority_address S = Inr authority \<and>
    list_all2 (\<lambda>ii eo. decodeChanceryEventData S (ii_data ii) = Inr (eo_event eo) \<and> eo_authority eo = authority \<and>
        eo_parent_index eo = ii_parent_index ii \<and> eo_inner_index eo = ii_inner_index ii \<and>
        eo_stack_height eo = ii_stack_height ii)
      (filter (genuine_event S authority) iis) events"
proof -
  obtain authority where "event_authority_address S = Inr authority" "collect_events S authority iis [] = Inr events"
    using assms by (auto simp: decodeChanceryEventsFromInnerInstructions_def)
  with collect_events_Inr [of S authority iis "[]" events] show ?thesis by auto
qed

theorem reported_events_are_genuine_witness:
  "\<exists>events. decodeChanceryEventsFromInnerInstructions sample_schema [sample_inner 3, sample_inner 7] = Inr events \<and>
     length events = 1"
proof -
  obtain events where e: "decodeChanceryEventsFromInnerInstructions sample_schema [sample_inner 3, sample_inner 7] = Inr events"
    using sample_events_ok by (auto simp: is_ok_iff)
  from reported_events_are_genuine [OF e] have "length events = 1"
    by (auto simp: sample_authority sample_genuine dest!: list_all2_lengthD)
  with e show ?thesis by blast
qed

section \<open>Signing and observing\<close>

text \<open>C25: A signed transaction fits the packet limit and carries, after their number, one 64-byte signature per
  required signer, in the order of the signers, followed by the message. Each is the signature of the message bytes
  by a given keypair whose public key is the signer, and whose seed derives that public key. The transaction's id is
  the first signature.\<close>

theorem signed_transaction_verifies:
  assumes "signSolanaTransaction nc msg keypairs = Inr tx"
  shows "length (st_bytes tx) \<le> 1232 \<and> st_message tx = msg \<and> cm_signers msg \<noteq> [] \<and>
    (\<exists>sigs. st_bytes tx = short_vector_bytes (length sigs) @ concat sigs @ cm_bytes msg \<and>
       list_all2 (signature_ok nc msg keypairs) (cm_signers msg) sigs \<and>
       st_primary tx = encodeBase58 (hd sigs))"
  using assms by (rule signSolanaTransaction_ok)

theorem signed_transaction_verifies_witness:
  "\<exists>tx. signSolanaTransaction sample_crypto sample_compiled [sample_keypair] = Inr tx \<and> length (st_bytes tx) \<le> 1232"
proof -
  obtain tx where tx: "signSolanaTransaction sample_crypto sample_compiled [sample_keypair] = Inr tx"
    using sample_sign_ok by (auto simp: is_ok_iff)
  with signed_transaction_verifies [OF tx] show ?thesis by blast
qed

text \<open>C26: A permission record is reported usable exactly when its role words hold the bit of the required role, it
  is for the expected subject and scope, its schema version is 1, it is not paused and it has not expired.\<close>

theorem permission_usable_iff:
  assumes "permissionObservation values (requiredPrincipalRole action mode) subject kind key now = Inr ob"
  shows "po_usable ob \<longleftrightarrow>
    (\<exists>w0 w1. obj_get values ''role_bits'' = JArr [JBig w0, JBig w1] \<and> bit w0 (role_index action mode)) \<and>
    (\<exists>s. requirePublicKeyField values ''subject'' = Inr s \<and> normalizePublicKey subject = Inr s) \<and>
    scope_matches values kind key = Inr True \<and>
    requireNumberField values ''role_schema_version'' = Inr 1 \<and>
    (\<exists>f. requireBigIntField values ''permission_flags'' = Inr f \<and> even f) \<and>
    (\<exists>e. requireBigIntField values ''expiry_unix_timestamp'' = Inr e \<and> (e = 0 \<or> now < e))"
  using assms by (rule permissionObservation_usable)

theorem permission_usable_iff_witness:
  "\<exists>ob. permissionObservation sample_permission (requiredPrincipalRole Mint Delegated) (KeyText (sample_key 1)) 2
     (KeyText (sample_key 2)) 50 = Inr ob \<and> po_usable ob"
proof -
  obtain ob where ob: "permissionObservation sample_permission (requiredPrincipalRole Mint Delegated)
      (KeyText (sample_key 1)) 2 (KeyText (sample_key 2)) 50 = Inr ob"
    using sample_permission_ok by blast
  have "po_usable ob"
    unfolding permission_usable_iff [OF ob]
    by (simp add: sample_permission_def field_defs scope_matches_def sample_key_is_key role_index_def bit_numeral_rec)
  with ob show ?thesis by blast
qed

text \<open>C27: A settlement policy is reported usable exactly when no observation is reported, so the texts shown to
  the user and the flag the callers test never disagree. A usable policy is the one stored at the expected address,
  has the mode's bit among the known ones, never permits direct settlement, and the notional and the time lie
  in its ranges.\<close>

theorem policy_usable_iff:
  assumes "observeSettlementPolicy H S values mode assetMint principalA principalB executor notional now
      expectedAddress expectedBump = Inr ob"
  shows "(sp_usable ob \<longleftrightarrow> sp_observations ob = []) \<and>
    (sp_usable ob \<longrightarrow> mode \<noteq> Direct \<and> bit (sp_modes ob) (SETTLEMENT_MODE_VALUE mode) \<and>
       (\<exists>r ident. requireBytes (obj_get values ''policy_id'') 32 = Inr ident \<and>
          deriveSettlementPolicyAddress H S (KeyBytes ident) = Inr r \<and> normalizePublicKey expectedAddress = Inr (pda_address r)) \<and>
       sp_minimum ob \<le> notional \<and> (sp_maximum ob = 0 \<or> notional \<le> sp_maximum ob) \<and>
       (sp_valid_after ob = 0 \<or> sp_valid_after ob \<le> now) \<and> (sp_expires_at ob = 0 \<or> now < sp_expires_at ob))"
  using observeSettlementPolicy_usable [OF assms] observeSettlementPolicy_ranges [OF assms] by blast

theorem policy_usable_iff_witness:
  "\<exists>ob. observeSettlementPolicy sample_hash sample_schema sample_policy Delegated (KeyText (sample_key 1))
     (KeyText (sample_key 2)) (KeyText (sample_key 3)) (KeyText (sample_key 5)) 20 50
     (KeyBytes (replicate 32 255)) 255 = Inr ob \<and> sp_usable ob"
  using sample_policy_ok policy_usable_iff by blast

text \<open>C28: For an unsigned amount and a valid fee configuration \<open>calculateTokenTransferFee\<close> returns a fee: the
  smallest whole fee that covers the active rate, capped at the active maximum, and the fee and the received amount,
  both unsigned, add up to the amount.\<close>

theorem transfer_fee_correct:
  assumes "0 \<le> amount" "0 \<le> epoch" "fee_config_ok cfg"
  shows "\<exists>c q. calculateTokenTransferFee amount (Some cfg) epoch = Inr c \<and>
    (let f = (if epoch < tf_epoch (tfc_newer cfg) then tfc_older cfg else tfc_newer cfg) in
      amount * tf_basis_points f \<le> q * 10000 \<and> (\<forall>k. amount * tf_basis_points f \<le> k * 10000 \<longrightarrow> q \<le> k) \<and>
      tc_fee c = min q (tf_maximum f)) \<and>
    tc_fee c + tc_received c = amount \<and> 0 \<le> tc_fee c \<and> 0 \<le> tc_received c"
  using assms by (rule calculateTokenTransferFee_ok)

theorem transfer_fee_correct_witness:
  "\<exists>c. calculateTokenTransferFee 1001 (Some sample_fee_config) 7 = Inr c \<and> tc_fee c + tc_received c = 1001"
  using transfer_fee_correct [of 1001 7 sample_fee_config]
  by (auto simp: fee_config_ok_def transfer_fee_ok_def sample_fee_config_def)

text \<open>C29: \<open>observeLimitPolicy\<close> reports the four windows, each read from the fields of its name: its maxima are those of
  the policy, and its counters are those stored for the window when the stored window starts where the canonical one of
  the time does, and zero when it is another window or there is none. The proposed amount and one action are added to
  them; the window allows the operation exactly when the clock has not gone back and the sums stay within the maxima,
  and reports what remains of each maximum before and after. The transaction maximum is the policy's, and bounds the
  proposed amount.\<close>

theorem limit_windows_correct:
  assumes "observeLimitPolicy policy action proposed windows now = Inr ob"
  shows "0 \<le> proposed \<and> list_all (window_ok proposed now) (lo_windows ob) \<and>
    map lw_name (lo_windows ob) = [''hourly'', ''daily'', ''weekly'', ''monthly''] \<and>
    list_all2 (window_read policy (if action = Mint then ''gross_in'' else ''gross_output_amount'') windows proposed)
      [(''hourly'', 0, ''per_hour_maximum'', ''maximum_actions_per_hour''),
       (''daily'', 1, ''per_day_maximum'', ''maximum_actions_per_day''),
       (''weekly'', 2, ''per_seven_day_maximum'', ''''), (''monthly'', 3, ''per_thirty_day_maximum'', '''')] (lo_windows ob) \<and>
    lo_action ob = action \<and> lo_proposed ob = proposed \<and>
    lo_accumulator ob = (if action = Mint then ''gross_in'' else ''gross_output_amount'') \<and>
    obj_get policy ''per_transaction_maximum'' = JBig (lo_transaction_maximum ob) \<and>
    (lo_transaction_allowed ob \<longleftrightarrow> lo_transaction_maximum ob = 0 \<or> proposed \<le> lo_transaction_maximum ob) \<and>
    lo_remaining_before ob = (if lo_transaction_maximum ob = 0 then None else Some (lo_transaction_maximum ob)) \<and>
    lo_remaining_after ob =
      (if lo_transaction_maximum ob = 0 then None else Some (max (lo_transaction_maximum ob - proposed) 0))"
  using observeLimitPolicy_windows [OF assms] observeLimitPolicy_reads [OF assms]
  by (elim conjE) (intro conjI; simp del: window_read.simps split del: if_split)

theorem limit_windows_correct_witness:
  "\<exists>ob hourly. observeLimitPolicy sample_limit_policy Mint 15 sample_windows 4000 = Inr ob \<and> length (lo_windows ob) = 4 \<and>
     hourly = hd (lo_windows ob) \<and> lw_maximum hourly = 60 \<and> lw_current hourly = 40 \<and> lw_projected hourly = 55 \<and>
     lw_current_actions hourly = 1 \<and> lw_maximum_actions hourly = 3 \<and> lw_remaining_after hourly = Some 5"
proof -
  obtain ob where ob: "observeLimitPolicy sample_limit_policy Mint 15 sample_windows 4000 = Inr ob"
    using sample_limit_ok by (auto simp: is_ok_iff)
  note all = limit_windows_correct [OF ob]
  then have four: "length (lo_windows ob) = 4" by (auto dest: list_all2_lengthD)
  with all obtain hourly others where hourly: "lo_windows ob = hourly # others" "window_ok 15 4000 hourly"
      "window_read sample_limit_policy ''gross_in'' sample_windows 15
         (''hourly'', 0, ''per_hour_maximum'', ''maximum_actions_per_hour'') hourly"
    by (cases "lo_windows ob") (auto simp del: window_read.simps)
  then have start: "lw_canonical_start hourly = 3600" by (simp add: window_ok_def window_period_def)
  with hourly(3) have "lw_current hourly = 40" "lw_current_actions hourly = 1" "lw_maximum hourly = 60"
      "lw_maximum_actions hourly = 3"
    by (auto simp: window_counters_def sample_windows_def sample_limit_policy_def obj_get_def)
  with hourly ob four show ?thesis by (auto simp: window_ok_def)
qed

text \<open>The canonical start of a window is defined for the four kinds only; it is a multiple of the period and
  the time lies in the period that begins there, also for times before the epoch.\<close>

lemma canonical_window_start:
  "canonicalWindowStart kind t = Inr s \<longleftrightarrow>
   0 \<le> kind \<and> kind \<le> 3 \<and> window_period kind dvd s \<and> s \<le> t \<and> t < s + window_period kind"
proof -
  have "s = t - t mod p \<longleftrightarrow> p dvd s \<and> s \<le> t \<and> t < s + p" if "0 < p" for p
  proof
    assume s: "s = t - t mod p"
    moreover have "0 \<le> t mod p" "t mod p < p" using that by simp_all
    ultimately show "p dvd s \<and> s \<le> t \<and> t < s + p" by (simp add: dvd_minus_mod)
  next
    assume a: "p dvd s \<and> s \<le> t \<and> t < s + p"
    then obtain k where k: "s = p * k" by blast
    have "t mod p = (t - s) mod p" using mod_mult_self2 [of t p "- k"] by (simp add: k)
    also have "\<dots> = t - s" using a by simp
    finally show "s = t - t mod p" by simp
  qed
  from this [OF window_period_pos] show ?thesis by (simp add: canonicalWindowStart_Inr)
qed

section \<open>Addresses and binary values\<close>

text \<open>C30: \<open>findProgramAddress\<close> returns the largest bump whose candidate lies off the curve: the returned
  address is the base58 text of that candidate, every larger bump below 256 gives a point of the curve. It
  succeeds only for at most fifteen seeds of at most 32 bytes.\<close>

theorem program_address_is_canonical:
  assumes "findProgramAddress H seeds prog = Inr r"
  shows "length seeds \<le> 15 \<and> (\<forall>seed \<in> set seeds. length seed \<le> 32) \<and> pda_bump r < 256 \<and>
    (\<exists>pk. decodePublicKey prog = Inr pk \<and> pda_address r = encodeBase58 (candidate H seeds pk (pda_bump r)) \<and>
       \<not> on_curve (candidate H seeds pk (pda_bump r)) \<and>
       (\<forall>b. pda_bump r < b \<and> b < 256 \<longrightarrow> on_curve (candidate H seeds pk b)))"
proof -
  obtain pk where pk: "seeds_ok 15 seeds" "decodePublicKey prog = Inr pk" "find_bump H seeds prog 256 = Inr r"
    using assms unfolding findProgramAddress_Inr by blast
  with find_bump_Inr [OF pk(1,2), of H 256 r] show ?thesis by blast
qed

theorem program_address_is_canonical_witness:
  "\<exists>r. findProgramAddress sample_hash [[118], replicate 31 0 @ [1]] (KeyText (sample_key 9)) = Inr r \<and>
     \<not> on_curve (replicate 32 255) \<and> pda_bump r < 256"
  using program_address_is_canonical [OF sample_vault_find] sample_vault_find
  by (auto simp: candidate_def sample_hash_def)

text \<open>C31: Every type codec is a bijection between typed values and their encodings: on unread input that starts
  with \<open>bs\<close>, \<open>decodeType\<close> returns \<open>v\<close> and leaves exactly the rest when \<open>v\<close> has the type and \<open>encodeType\<close> writes \<open>bs\<close>
  for it, and in no other case.\<close>

theorem type_codec_exact:
  assumes "canonical_schema S" "canonical_type t" "reader_unread r = Some (bs @ rest)"
  shows "(\<exists>r'. decodeType S t r = Inr (v, r') \<and> reader_unread r' = Some rest) \<longleftrightarrow>
    has_type S t v \<and> encodeType S t v = Inr bs"
proof
  assume "\<exists>r'. decodeType S t r = Inr (v, r') \<and> reader_unread r' = Some rest"
  then obtain r' where r': "decodeType S t r = Inr (v, r')" "reader_unread r' = Some rest" by blast
  from consumesD [OF decodeType_consumes [OF assms(1,2)] assms(3) r'(1)]
  obtain cs rest' where "bs @ rest = cs @ rest'" "reader_unread r' = Some rest'" "encodeType S t v = Inr cs" "has_type S t v"
    by blast
  with r'(2) show "has_type S t v \<and> encodeType S t v = Inr bs" by simp
next
  assume a: "has_type S t v \<and> encodeType S t v = Inr bs"
  then have "accepts_js (decodeType S t) bs v" using encodeType_accepts [of S t v] by auto
  from acceptsD [OF this assms(3)] show "\<exists>r'. decodeType S t r = Inr (v, r') \<and> reader_unread r' = Some rest"
    by blast
qed

theorem type_codec_exact_witness:
  "\<exists>r'. decodeType sample_schema (OptionT (Prim U16)) \<lparr>rbytes = [9, 1, 2, 1, 7], roffset = 1\<rparr> = Inr (JNum 258, r') \<and>
     reader_unread r' = Some [7]"
proof -
  have "reader_unread \<lparr>rbytes = [9, 1, 2, 1, 7], roffset = 1\<rparr> = Some ([1, 2, 1] @ [7])"
    by (simp add: reader_unread_def)
  from type_codec_exact [OF sample_canonical _ this, of "OptionT (Prim U16)" "JNum 258"]
  show ?thesis
    by (simp add: has_type_def has_primitive_def encodeType_def encodePrimitive_def encodeUnsignedInteger_def
        integerFromValue_def is_safe_integer_def MAX_SAFE_INTEGER_def low_digits_numeral)
qed

text \<open>The bound on nested defined types does not matter for schemas that do not need it: where a name resolves
  within \<open>k\<close> nested definitions, encoding and decoding with any greater depth agree with depth \<open>k\<close>.\<close>

lemma call_depth_irrelevant:
  assumes "resolves S k name" "k \<le> d"
  shows "encode_defined S d name = encode_defined S k name \<and> decode_defined S d name = decode_defined S k name"
  using assms encode_defined_resolves [of k S] decode_defined_resolves [of k S] by blast

lemma call_depth_irrelevant_witness:
  "encode_defined sample_schema 1000 ''Pair'' = encode_defined sample_schema 1 ''Pair''"
  using call_depth_irrelevant [of sample_schema 1 "''Pair''" 1000]
  by (simp add: sample_schema_def sample_pair_def)

text \<open>\<open>decodeBase58\<close> returns exactly the bytes whose \<open>encodeBase58\<close> text was given; the two loops of the codec
  are inverse to each other, leading zeros included.\<close>

lemma base58_exact: "decodeBase58 s = Inr bs \<longleftrightarrow> encodeBase58 bs = s"
  using encode_decode_base58 decode_encode_base58 by blast

text \<open>\<open>normalizePublicKey\<close> accepts a text exactly when it is the base58 form of 32 bytes, and returns it
  unchanged; it accepts bytes exactly when there are 32, and returns their base58 form.\<close>

lemma public_keys_normalized:
  "(normalizePublicKey (KeyText s) = Inr t \<longleftrightarrow> t = s \<and> (\<exists>bs. length bs = 32 \<and> encodeBase58 bs = s)) \<and>
   (normalizePublicKey (KeyBytes bs) = Inr t \<longleftrightarrow> length bs = 32 \<and> t = encodeBase58 bs)"
  by (auto simp: is_key_def)

text \<open>The extension region of a Token-2022 mint is read entry by entry: after the 165 base bytes and the account
  type, the entries are handed to the extension handler in order with their types and values, up to an end marker or
  fewer than four zero bytes.\<close>

lemma mint_extensions_read:
  assumes "length base = 165" "list_all tlv_entry_ok es" "tlv_end rest" "length rest < 4 \<longrightarrow> list_all (\<lambda>b. b = 0) rest"
  shows "decodeToken2022MintExtensions (base @ [1] @ concat (map tlv_bytes es) @ rest) =
    bindR (foldR (\<lambda>e. tlv_extension (fst e) (snd e)) es EMPTY_TLV) (\<lambda>st. Inr (Some 1, st))"
proof -
  let ?pre = "base @ [1] @ concat (map tlv_bytes es)"
  let ?data = "base @ [1] @ concat (map tlv_bytes es) @ rest"
  have loop: "tlv_loop ?data 166 EMPTY_TLV
      = bindR (foldR (\<lambda>e. tlv_extension (fst e) (snd e)) es EMPTY_TLV) (\<lambda>st. Inr (length ?pre, st))"
    using tlv_loop_entries [OF assms(2,3), of "base @ [1]" EMPTY_TLV] assms(1) by (simp add: add.commute)
  have zero: "\<not> (length ?data - length ?pre < 4 \<and> list_ex (\<lambda>i. ?data ! i \<noteq> 0) [length ?pre..<length ?data])"
  proof (cases "length rest < 4")
    case True
    have "?data ! i = 0" if "length ?pre \<le> i" "i < length ?data" for i
    proof -
      have "?data = ?pre @ rest" by simp
      then have "?data ! i = rest ! (i - length ?pre)" using that(1) by (metis nth_append not_less)
      then show ?thesis using assms(4) True that by (simp add: list_all_length)
    qed
    then show ?thesis unfolding list_ex_iff set_upt Bex_def atLeastLessThan_iff by blast
  qed simp
  have type: "?data ! 165 = 1" using assms(1) by (simp add: nth_append)
  show ?thesis
    unfolding decodeToken2022MintExtensions_def loop type Let_def bindR_assoc bindR.simps prod.case
    using assms(1) zero by (auto intro!: bindR_cong)
qed

lemma mint_extensions_read_witness:
  "\<exists>st. decodeToken2022MintExtensions (replicate 165 0 @ [1] @ tlv_bytes (3, [5, 6]) @ [0, 0, 0, 0, 9]) = Inr (Some 1, st) \<and>
     tlv_extensions st = [\<lparr>ext_type = 3, ext_length = 2, ext_value = [5, 6]\<rparr>]"
  using mint_extensions_read [of "replicate 165 0" "[(3, [5, 6])]" "[0, 0, 0, 0, 9]"]
  by (simp add: tlv_entry_ok_def tlv_end_def tlv_extension_def EMPTY_TLV_def)

text \<open>The short-vector length that precedes every list of a message is the base-128 form of the length: each byte
  but the last has its continuation bit, the last has not, and the low seven bits give back the length.\<close>

lemma short_vector_correct:
  "encodeShortVectorLength (int n) = Inr bs \<Longrightarrow> short_vector_value bs = n \<and> short_vector_shape bs"
  using short_vector_bytes_correct [of n] by (auto simp: encodeShortVectorLength_def split: if_splits)

lemma short_vector_correct_witness:
  "\<exists>bs. encodeShortVectorLength (int 300) = Inr bs \<and> short_vector_value bs = 300"
  using short_vector_correct [of 300 "short_vector_bytes 300"]
  by (simp add: encodeShortVectorLength_def is_safe_integer_def MAX_SAFE_INTEGER_def)

text \<open>\<open>modularPower\<close>, the square-and-multiply loop of the curve test, computes the power modulo the modulus, and
  the curve test that uses it never throws: both inverses it takes are of nonzero residues.\<close>

lemma curve_test_total:
  "is_ok (isEd25519CurvePoint bs) \<and> (1 < m \<and> 0 \<le> e \<longrightarrow> modularPower b e m = b ^ nat e mod m)"
  using isEd25519CurvePoint_total modularPower_eq by blast

lemma curve_test_total_witness: "modularPower 3 5 7 = 5"
  using curve_test_total [of "[]" 7 5 3] by (simp add: eval_nat_numeral)

text \<open>The text codecs return the bytes they wrote: \<open>decodeHex\<close> after \<open>bytesToHex\<close> with the prefix, and
  \<open>decodeBase64\<close> after \<open>encodeBase64\<close>.\<close>

lemma text_codecs_round_trip:
  "decodeHex (''0x'' @ bytesToHex bs) = Inr bs \<and> decodeBase64 (encodeBase64 bs) = Inr bs"
  using decodeHex_prefixed decode_encode_base64 by blast

section \<open>Rates, retargeting and mints\<close>

text \<open>The three rounding modes of a proportional fee: mode 0 rounds down, mode 1 up, mode 2 to the nearest with
  ties up, each within one unit of the exact share; every other mode throws.\<close>

lemma rounding_modes:
  assumes "0 \<le> amount" "0 \<le> bp"
  shows "(\<exists>q. roundedBasisPoints amount bp mode = Inr q \<and> 0 \<le> q \<and>
      (mode = 0 \<longrightarrow> q * 10000 \<le> amount * bp \<and> amount * bp < q * 10000 + 10000) \<and>
      (mode = 1 \<longrightarrow> amount * bp \<le> q * 10000 \<and> q * 10000 < amount * bp + 10000) \<and>
      (mode = 2 \<longrightarrow> amount * bp - 5000 < q * 10000 \<and> q * 10000 \<le> amount * bp + 5000)) \<longleftrightarrow> mode \<in> {0, 1, 2}"
proof
  assume "mode \<in> {0, 1, 2}"
  then obtain q where q: "roundedBasisPoints amount bp mode = Inr q"
    by (auto simp: roundedBasisPoints_def Let_def)
  have p: "0 \<le> amount * bp" using assms by simp
  have "q * 10000 \<le> amount * bp \<and> amount * bp < q * 10000 + 10000" if "mode = 0"
  proof -
    have "q = amount * bp div 10000" using q that roundedBasisPoints_floor [OF p] by simp
    then have "amount * bp = q * 10000 + amount * bp mod 10000" by simp
    moreover have "0 \<le> amount * bp mod 10000" "amount * bp mod 10000 < 10000" by simp_all
    ultimately show ?thesis by linarith
  qed
  with q roundedBasisPoints_nonneg [OF assms q] roundedBasisPoints_ceiling [OF p, of q]
    roundedBasisPoints_nearest [OF p, of q]
  show "\<exists>q. roundedBasisPoints amount bp mode = Inr q \<and> 0 \<le> q \<and>
      (mode = 0 \<longrightarrow> q * 10000 \<le> amount * bp \<and> amount * bp < q * 10000 + 10000) \<and>
      (mode = 1 \<longrightarrow> amount * bp \<le> q * 10000 \<and> q * 10000 < amount * bp + 10000) \<and>
      (mode = 2 \<longrightarrow> amount * bp - 5000 < q * 10000 \<and> q * 10000 \<le> amount * bp + 5000)"
    by blast
qed (auto simp: roundedBasisPoints_def Let_def split: if_splits)

lemma rounding_modes_witness: "\<exists>q. roundedBasisPoints 999 25 1 = Inr q \<and> 999 * 25 \<le> q * 10000"
  using rounding_modes [of 999 25 1] by auto

text \<open>A schema loaded for another program address names that program, keeps every instruction, account, event
  and type, and carries only known addresses that were derived again for the new program from their seeds.\<close>

lemma retargeted_schema:
  assumes "loadSchema H target (Some S) = Inr S'" "program_address (schema_program S) \<noteq> target"
  shows "program_address (schema_program S') = target \<and> (\<forall>(name, pda) \<in> set (known_pdas S'). rederived H target pda) \<and>
    schema_instructions S' = schema_instructions S \<and> schema_accounts S' = schema_accounts S \<and>
    schema_events S' = schema_events S \<and> schema_types S' = schema_types S \<and> schema_wire S' = schema_wire S"
  using assms by (rule loadSchema_rederived)

lemma retargeted_schema_witness:
  "\<exists>S'. loadSchema sample_hash (sample_key 8) (Some sample_schema) = Inr S' \<and>
     program_address (schema_program S') = sample_key 8"
proof -
  have "findProgramAddress sample_hash [] (KeyText (sample_key 8))
      = Inr \<lparr>pda_address = encodeBase58 (replicate 32 255), pda_bump = 255\<rparr>"
    by (rule sample_find) (simp_all add: sample_key_is_key)
  then obtain S' where S': "loadSchema sample_hash (sample_key 8) (Some sample_schema) = Inr S'"
    by (simp add: loadSchema_def sample_schema_def sample_key_inj)
  have "program_address (schema_program sample_schema) \<noteq> sample_key 8"
    by (simp add: sample_schema_def sample_key_inj)
  from retargeted_schema [OF S' this] S' show ?thesis by blast
qed

text \<open>The fee configuration of a decoded mint satisfies what the fee calculation needs: both rates are between
  zero and ten thousand basis points and both maxima are unsigned. So \<open>calculateTokenTransferFee\<close> on a decoded mint
  never throws for unsigned inputs.\<close>

lemma decoded_mint_fees_valid:
  assumes "decodeTokenMint data = Inr m" "0 \<le> amount" "0 \<le> epoch"
  shows "is_ok (calculateTokenTransferFee amount (tm_transfer_fee_config m) epoch) \<and>
    (\<forall>c. tm_transfer_fee_config m = Some c \<longrightarrow> fee_config_ok c)"
proof (cases "tm_transfer_fee_config m")
  case None
  with assms show ?thesis by (simp add: calculateTokenTransferFee_def)
next
  case (Some c)
  with decodeTokenMint_config [OF assms(1)] have "fee_config_ok c" by blast
  with Some calculateTokenTransferFee_ok [OF assms(2,3), of c] show ?thesis by (auto simp: is_ok_iff)
qed

lemma decoded_mint_fees_valid_witness:
  "\<exists>m. decodeTokenMint (replicate 82 0) = Inr m \<and> is_ok (calculateTokenTransferFee 5 (tm_transfer_fee_config m) 0)"
proof -
  obtain m where m: "decodeTokenMint (replicate 82 0) = Inr m"
    using sample_mint_ok by (auto simp: is_ok_iff)
  from decoded_mint_fees_valid [OF m, of 5 0] m show ?thesis by auto
qed

section \<open>Versioned messages and Squads proposals\<close>

text \<open>C32: A Squads vault message is decoded from exactly the bytes that encode it: decoding returns a message
  precisely when encoding that message returns those bytes, so no two byte strings decode to one message and no
  trailing byte is accepted; and exactly the messages that pass validation can be encoded.\<close>

theorem squads_message_round_trip:
  "(decodeSquadsVaultTransactionMessage bs = Inr m \<longleftrightarrow> encodeSquadsVaultTransactionMessage m = Inr bs) \<and>
   (is_ok (encodeSquadsVaultTransactionMessage m) \<longleftrightarrow> validateSquadsVaultTransactionMessage m = Inr ())"
  using decode_squads_iff encode_iff_valid by blast

text \<open>C33: A compiled version-zero message uses its lookup tables without changing any role. Its keys, the static ones
  followed by the loaded ones, are the payer and the mentioned keys, each once, payer first. The payer, signers,
  programs and keys of no table are static, all others are loaded, the writable ones in the writable part. The header
  gives every static key its role, the lookups load exactly the loaded keys from the given tables, and the bytes have
  the layout of a versioned message.\<close>

theorem version_zero_message:
  assumes "compileVersionZeroMessage instructions payerInput blockhash tables = Inr msg"
  shows "\<exists>payer static writable readonly. normalizePublicKey payerInput = Inr payer \<and>
    versioned_ok payer instructions blockhash tables msg static writable readonly"
  using compileVersionZeroMessage_ok [OF assms] by blast

theorem version_zero_message_witness:
  "\<exists>msg static writable readonly.
     compileVersionZeroMessage sample_instructions (KeyText (sample_key 1)) (KeyText (sample_key 4)) [sample_table] = Inr msg \<and>
     cm_account_keys msg = static @ writable @ readonly \<and> hd static = sample_key 1"
proof -
  obtain msg where m: "compileVersionZeroMessage sample_instructions (KeyText (sample_key 1)) (KeyText (sample_key 4)) [sample_table] = Inr msg"
    using sample_versioned_ok by (auto simp: is_ok_iff)
  from version_zero_message [OF m] m show ?thesis by (auto simp: versioned_ok_def sample_key_is_key)
qed

text \<open>C34: The vault message compiled for Squads means the given instructions: its keys and the keys its lookups load
  are the vault and the mentioned keys, each once, the vault first; the counts of the message give every key the role
  that was asked for it; and the compiled instructions name, in order, the programs, the accounts and the data of the
  given ones. Fewer than 127 signers are assumed, since the header byte of an unversioned message holds no more.\<close>

theorem vault_message_means_instructions:
  assumes "compileSquadsVaultTransactionMessage instructions vaultInput tables = Inr m"
    and "fits instructions" and "card {k. asks_signer instructions k} < 127"
  shows "\<exists>vault writable readonly. normalizePublicKey vaultInput = Inr vault \<and>
    vault_message_ok vault instructions tables m writable readonly"
  using assms by (rule compileSquadsVaultTransactionMessage_ok)

theorem vault_message_means_instructions_witness:
  "\<exists>m. compileSquadsVaultTransactionMessage sample_instructions (KeyText (sample_key 1)) [] = Inr m \<and>
     hd (vm_keys m) = sample_key 1 \<and> squads_writable m 0"
proof -
  obtain m where m: "compileSquadsVaultTransactionMessage sample_instructions (KeyText (sample_key 1)) [] = Inr m"
    using sample_vault_message by blast
  from vault_message_means_instructions [OF m sample_sized(2) sample_few_signers] m
  show ?thesis by (auto simp: vault_message_ok_def Let_def hd_conv_nth)
qed

text \<open>C35: The conversion to a vault message never fails for a message that fits: when the instructions compile for the
  vault, the compiled message has at most 255 keys, and the counts of instructions, accounts and data fit the Squads
  format, the parser reads the compiled bytes and every check on the result passes.\<close>

theorem vault_message_compiles:
  assumes "normalizePublicKey vaultInput = Inr vault"
    and "(if tables = [] then compileUnversionedMessage instructions (KeyText vault) (KeyBytes (replicate 32 0))
      else compileVersionZeroMessage instructions (KeyText vault) (KeyBytes (replicate 32 0)) tables) = Inr msg"
    and "squads_sized instructions" "length (cm_account_keys msg) \<le> 255" "card {k. asks_signer instructions k} < 127"
  shows "\<exists>m. compileSquadsVaultTransactionMessage instructions vaultInput tables = Inr m \<and>
    is_ok (encodeSquadsVaultTransactionMessage m)"
proof -
  obtain m where m: "compileSquadsVaultTransactionMessage instructions vaultInput tables = Inr m"
    using vault_message_exists [OF assms] by (auto simp: is_ok_iff)
  then have "validateSquadsVaultTransactionMessage m = Inr ()"
    by (auto simp: compileSquadsVaultTransactionMessage_def parseStandardCompiledMessage_def split: if_splits)
  with m encode_iff_valid show ?thesis by blast
qed

theorem vault_message_compiles_witness:
  "\<exists>m. compileSquadsVaultTransactionMessage sample_instructions (KeyText (sample_key 1)) [] = Inr m"
proof -
  obtain msg where msg: "compileUnversionedMessage sample_instructions (KeyText (sample_key 1)) (KeyBytes (replicate 32 0)) = Inr msg"
    using sample_unversioned_key by (auto simp: is_ok_iff)
  have "normalizePublicKey (KeyText (sample_key 1)) = Inr (sample_key 1)" by (simp add: sample_key_is_key)
  from vault_message_compiles [OF this _ sample_sized(1) sample_key_count [OF msg] sample_few_signers, of "[]"] msg
  show ?thesis by auto
qed

text \<open>C36: The instructions of a proposal bundle fit together: they all call one Squads program, each lists the accounts
  it declares with the derived transaction and proposal addresses of the bundle, an activation exists exactly for a
  draft, and the first instruction stores bytes from which Squads reads back the very message of the bundle.\<close>

theorem proposal_bundle_consistent:
  assumes "buildSquadsProposalBundle H request = Inr b"
  shows "bundle_accounts_ok request b \<and> stored_message (fst (pb_creation b)) (pb_message_bytes b) \<and>
    decodeSquadsVaultTransactionMessage (pb_message_bytes b) = Inr (pb_message b) \<and>
    (pb_activation b = None \<longleftrightarrow> \<not> or_default (pr_draft request) False) \<and>
    (\<forall>i \<in> {fst (pb_creation b), snd (pb_creation b), pb_approval b, pb_execution b} \<union> set_option (pb_activation b).
       normalizePublicKey (or_default (pr_program request) (KeyText SQUADS_MULTISIG_PROGRAM_ADDRESS)) = Inr (si_program i))"
  using assms by (rule bundle_ok)

theorem proposal_bundle_consistent_witness:
  "\<exists>b. buildSquadsProposalBundle sample_hash sample_request = Inr b \<and> pb_activation b \<noteq> None \<and>
     decodeSquadsVaultTransactionMessage (pb_message_bytes b) = Inr (pb_message b)"
proof -
  obtain b where b: "buildSquadsProposalBundle sample_hash sample_request = Inr b"
    using sample_bundle by (auto simp: is_ok_iff)
  from proposal_bundle_consistent [OF b] b show ?thesis by (auto simp: sample_request_def or_default_def)
qed

text \<open>C37: Executing a proposal passes every account with the role the proposed instructions ask for. After the four
  fixed accounts and the lookup tables come the vault and every key the instructions mention, each once; a key is
  writable exactly when it is the vault or an instruction writes it, and it signs the outer transaction exactly when an
  instruction asks for its signature and it is neither the vault nor an ephemeral signer, which the program signs for.\<close>

theorem proposal_execution_roles:
  assumes "buildSquadsProposalBundle H request = Inr b"
    and "fits (pr_instructions request)" and "card {k. asks_signer (pr_instructions request) k} < 127"
  shows "\<exists>signers. ephemeral_signers H (pda_address (pb_transaction b)) (or_default (pr_ephemeral request) 0)
      (or_default (pr_program request) (KeyText SQUADS_MULTISIG_PROGRAM_ADDRESS)) = Inr signers \<and>
    execution_roles (pda_address (pb_vault b)) signers (pr_instructions request) (pb_message b)
      (drop 4 (si_accounts (pb_execution b)))"
  using bundle_execution_roles [OF assms] by blast

theorem proposal_execution_roles_witness:
  "\<exists>b signers. buildSquadsProposalBundle sample_hash sample_request = Inr b \<and>
     execution_roles (pda_address (pb_vault b)) signers sample_instructions (pb_message b)
       (drop 4 (si_accounts (pb_execution b)))"
proof -
  obtain b where b: "buildSquadsProposalBundle sample_hash sample_request = Inr b"
    using sample_bundle by (auto simp: is_ok_iff)
  have i: "pr_instructions sample_request = sample_instructions" by (simp add: sample_request_def)
  from proposal_execution_roles [OF b] sample_sized(2) sample_few_signers b show ?thesis
    unfolding i by blast
qed

section \<open>The RPC client\<close>

text \<open>C38: An account arrives exactly. Whatever account the server sends, with lamports and a rent epoch beyond the
  integers a JavaScript number can hold, \<open>getAccountInfo\<close> returns that account with every integer exact, although
  \<open>JSON.parse\<close> has rounded them; the one request it sends has the next id and demands an answer from the observed slot
  or a later one.\<close>

theorem accounts_arrive_exactly:
  assumes "normalizePublicKey address = Inr key"
    and "\<forall>slot. rpc_minimum_context_slot st = Some slot \<longrightarrow> slot \<le> MAX_SAFE_INTEGER"
    and "fetch (account_call st key commitment) (rpc_world st) = Inr (account_response (account_json a v), w)"
    and "account_ok a v"
  shows "getAccountInfo fetch address commitment st =
    Inr (Some a, st\<lparr>rpc_request_id := rpc_request_id st + 1, rpc_world := w\<rparr>)"
  using assms by (rule getAccountInfo_exact)

theorem accounts_arrive_exactly_witness:
  "getAccountInfo sample_fetch (KeyText (sample_key 3)) Confirmed sample_rpc =
    Inr (Some sample_account, sample_rpc\<lparr>rpc_request_id := 1, rpc_world := 1\<rparr>)"
proof -
  have key: "normalizePublicKey (KeyText (sample_key 3)) = Inr (sample_key 3)" by (simp add: sample_key_is_key)
  show ?thesis
    using accounts_arrive_exactly [OF key _ _ sample_account_ok, of sample_rpc sample_fetch Confirmed 1]
    by (simp add: sample_fetch_def sample_rpc_def MAX_SAFE_INTEGER_def)
qed

section \<open>The oracle and the errors of the program\<close>

text \<open>C39: The oracle snapshot of a discovery has one rate per asset account of the program, with its mint, mode and
  rates, and with decimal texts that stand for exactly these rates; it reports pathway fees exactly when some pathway
  account names an existing fee policy.\<close>

theorem oracle_snapshot_exact:
  assumes "discoverChanceryState H S localeCompare fetch commitment w = Inr (d, w')" "buildOracleSnapshot d = Inr s"
  shows "snapshot_of d s"
  using discoverChanceryState_parts [OF assms(1)] build_discovery_inventories built_snapshot [OF _ assms(2)] by blast

theorem oracle_snapshot_exact_witness:
  "\<exists>d s. snapshot_of d s \<and> os_pathway_fees s \<and> map or_deposit (os_assets s) = [''2.000000000'']"
proof -
  obtain d w w' where d: "discoverChanceryState server_hash server_schema compareCodeUnits (listing_fetch listing) Confirmed w
      = Inr (d, w')" "expected_discovery d"
    using discovered_listing by blast
  obtain s where s: "buildOracleSnapshot d = Inr s" "os_pathway_fees s" "map or_deposit (os_assets s) = [''2.000000000'']"
    using sample_snapshot [OF d(2)] by auto
  from oracle_snapshot_exact [OF d(1) s(1)] s(2,3) show ?thesis by (intro exI conjI)
qed

text \<open>C40: The code of a program error is found in the text of an RPC error, whether it is written in decimal or in
  hexadecimal digits, after any text that does not contain \<open>error:\<close> itself; the error is the schema's for that code.\<close>

theorem program_error_found:
  assumes "n < 2 ^ 53" "\<not> sublist ''error:'' (map lower_case before)"
  shows "parseChanceryProgramError S (before @ phrase @ show_nat n) = lookupChanceryError S (JNum (int n)) \<and>
    parseChanceryProgramError S (before @ phrase @ ''0x'' @ show_hex n) = lookupChanceryError S (JNum (int n))"
  using program_error_code [OF assms] by blast

theorem program_error_found_witness:
  "\<exists>e. parseChanceryProgramError
       (sample_schema\<lparr>schema_errors := [(''6001'', \<lparr>program_error_name = ''Paused'', program_error_message = ''paused''\<rparr>)]\<rparr>)
       (''Error processing Instruction 0: '' @ phrase @ ''0x'' @ show_hex 6001) = Inr (Some e) \<and> error_name e = ''Paused''"
proof -
  have "show_int 6001 = ''6001''"
    by (simp add: show_int_def show_nat_def push_carry.simps digit_char_def char_of_def bit_0)
  moreover have "\<not> sublist ''error:'' (map lower_case ''Error processing Instruction 0: '')"
    by (simp add: sublist_Cons_right lower_case_def char_of_def)
  ultimately show ?thesis
    using program_error_found [of 6001 "''Error processing Instruction 0: ''"] by (simp add: lookupChanceryError_def)
qed

end
